(* ===== verification/Prelude.thy ===== *)
theory Prelude
  imports Main "HOL-Library.Char_ord" "HOL-Library.List_Lexorder"
begin

text \<open>
  Shared ground of the development: the fragment of Go's string library that the program
  calls, the relational operations on tables (a table is the list of its rows in insertion
  order), and the lemma collections the component theories use.

  A Go string is a byte sequence; \<^typ>\<open>string\<close> is the list of its bytes. \<open>strings.ToLower\<close>
  and \<open>strings.TrimSpace\<close> are modelled on the ASCII range, which is all that host names,
  tags and globs use; bytes from 128 up are left alone.
\<close>

named_theorems keeps_intros \<open>preservation rules of programs\<close>
named_theorems yields_intros \<open>rules for invariants with results\<close>
named_theorems raises_intros \<open>rules for the errors a program returns\<close>
named_theorems sql_simps \<open>evaluation rules of single statements\<close>
named_theorems row_defs \<open>definitions of table operations\<close>

section \<open>Go strings\<close>

fun split_on :: "char \<Rightarrow> string \<Rightarrow> string list" where
  "split_on c [] = [[]]"
| "split_on c (x # xs) =
     (if x = c then [] # split_on c xs
      else case split_on c xs of [] \<Rightarrow> [[x]] | w # ws \<Rightarrow> (x # w) # ws)"

fun join_with :: "string \<Rightarrow> string list \<Rightarrow> string" where
  "join_with sep [] = []"
| "join_with sep [w] = w"
| "join_with sep (w # v # ws) = w @ sep @ join_with sep (v # ws)"

definition HasPrefix :: "string \<Rightarrow> string \<Rightarrow> bool" where
  "HasPrefix s p \<longleftrightarrow> take (length p) s = p"

definition HasSuffix :: "string \<Rightarrow> string \<Rightarrow> bool" where
  "HasSuffix s p \<longleftrightarrow> HasPrefix (rev s) (rev p)"

definition CutPrefix :: "string \<Rightarrow> string \<Rightarrow> string option" where
  "CutPrefix s p = (if HasPrefix s p then Some (drop (length p) s) else None)"

definition TrimPrefix :: "string \<Rightarrow> string \<Rightarrow> string" where
  "TrimPrefix s p = (if HasPrefix s p then drop (length p) s else s)"

definition Cut_before :: "string \<Rightarrow> char \<Rightarrow> string" where
  "Cut_before s c = takeWhile (\<lambda>x. x \<noteq> c) s"

definition Contains_char :: "string \<Rightarrow> char \<Rightarrow> bool" where
  "Contains_char s c \<longleftrightarrow> c \<in> set s"

definition lower_char :: "char \<Rightarrow> char" where
  "lower_char c = (let n = of_char c :: nat in
     if 65 \<le> n \<and> n \<le> 90 then char_of (n + 32) else c)"

definition ToLower :: "string \<Rightarrow> string" where
  "ToLower s = map lower_char s"

text \<open>
  \<open>strings.EqualFold\<close> when one of the texts is ASCII: letters without regard to case, and the two
  characters outside ASCII that fold to an ASCII letter, the long s (C5 BF) and the Kelvin sign (E2 84 AA).
\<close>

fun ascii_fold :: "string \<Rightarrow> string" where
  "ascii_fold [] = []"
| "ascii_fold (c # cs) =
     (if c = CHR 0xC5 \<and> cs \<noteq> [] \<and> hd cs = CHR 0xBF then CHR ''s'' # ascii_fold (tl cs)
      else if c = CHR 0xE2 \<and> take 2 cs = [CHR 0x84, CHR 0xAA] then CHR ''k'' # ascii_fold (drop 2 cs)
      else lower_char c # ascii_fold cs)"

definition EqualFold :: "string \<Rightarrow> string \<Rightarrow> bool" where
  "EqualFold s t \<longleftrightarrow> ascii_fold s = ascii_fold t"

definition is_space :: "char \<Rightarrow> bool" where
  "is_space c \<longleftrightarrow> (let n = of_char c :: nat in n = 32 \<or> (9 \<le> n \<and> n \<le> 13))"

definition TrimSpace :: "string \<Rightarrow> string" where
  "TrimSpace s = rev (dropWhile is_space (rev (dropWhile is_space s)))"

definition TrimRight_char :: "string \<Rightarrow> char \<Rightarrow> string" where
  "TrimRight_char s c = rev (dropWhile (\<lambda>x. x = c) (rev s))"

definition is_lower :: "char \<Rightarrow> bool" where
  "is_lower c \<longleftrightarrow> (let n = of_char c :: nat in 97 \<le> n \<and> n \<le> 122)"

definition is_upper :: "char \<Rightarrow> bool" where
  "is_upper c \<longleftrightarrow> (let n = of_char c :: nat in 65 \<le> n \<and> n \<le> 90)"

definition is_digit :: "char \<Rightarrow> bool" where
  "is_digit c \<longleftrightarrow> (let n = of_char c :: nat in 48 \<le> n \<and> n \<le> 57)"

definition is_alnum :: "char \<Rightarrow> bool" where
  "is_alnum c \<longleftrightarrow> is_lower c \<or> is_upper c \<or> is_digit c"

section \<open>Relational operations on tables\<close>

text \<open>
  \<open>select_where\<close> is \<open>SELECT ... WHERE\<close> (insertion order), \<open>find_where\<close> a \<open>SELECT\<close> that scans
  one row, \<open>update_where\<close> an \<open>UPDATE ... WHERE\<close>, \<open>delete_where\<close> a \<open>DELETE ... WHERE\<close>,
  \<open>upsert_where\<close> an \<open>INSERT ... ON CONFLICT DO UPDATE\<close> whose conflict target is the given
  predicate and \<open>insert_ignore\<close> an \<open>INSERT ... ON CONFLICT DO NOTHING\<close>.
\<close>

definition select_where :: "('r \<Rightarrow> bool) \<Rightarrow> 'r list \<Rightarrow> 'r list" where
  "select_where p rows = filter p rows"

definition find_where :: "('r \<Rightarrow> bool) \<Rightarrow> 'r list \<Rightarrow> 'r option" where
  "find_where p rows = List.find p rows"

definition exists_where :: "('r \<Rightarrow> bool) \<Rightarrow> 'r list \<Rightarrow> bool" where
  "exists_where p rows \<longleftrightarrow> list_ex p rows"

definition count_where :: "('r \<Rightarrow> bool) \<Rightarrow> 'r list \<Rightarrow> nat" where
  "count_where p rows = length (filter p rows)"

definition update_where :: "('r \<Rightarrow> bool) \<Rightarrow> ('r \<Rightarrow> 'r) \<Rightarrow> 'r list \<Rightarrow> 'r list" where
  "update_where p f rows = map (\<lambda>r. if p r then f r else r) rows"

definition delete_where :: "('r \<Rightarrow> bool) \<Rightarrow> 'r list \<Rightarrow> 'r list" where
  "delete_where p rows = filter (\<lambda>r. \<not> p r) rows"

definition upsert_where :: "('r \<Rightarrow> bool) \<Rightarrow> ('r \<Rightarrow> 'r) \<Rightarrow> 'r \<Rightarrow> 'r list \<Rightarrow> 'r list" where
  "upsert_where p f new rows =
     (if list_ex p rows then map (\<lambda>r. if p r then f r else r) rows else rows @ [new])"

definition insert_ignore :: "('r \<Rightarrow> bool) \<Rightarrow> 'r \<Rightarrow> 'r list \<Rightarrow> 'r list" where
  "insert_ignore p new rows = (if list_ex p rows then rows else rows @ [new])"

definition coalesce :: "'a option \<Rightarrow> 'a option \<Rightarrow> 'a option" where
  "coalesce a b = (case a of None \<Rightarrow> b | Some x \<Rightarrow> Some x)"

text \<open>\<open>ORDER BY key LIMIT n\<close> over a selection; the key order is the database's byte order.\<close>

definition order_by :: "('r \<Rightarrow> 'k::linorder) \<Rightarrow> 'r list \<Rightarrow> 'r list" where
  "order_by k rows = sort_key k rows"

definition order_by_desc :: "('r \<Rightarrow> 'k::linorder) \<Rightarrow> 'r list \<Rightarrow> 'r list" where
  "order_by_desc k rows = rev (sort_key k (rev rows))"

text \<open>SQL's \<open>LIMIT n\<close>: SQLite reads a negative limit as no limit.\<close>

definition limit_rows :: "int \<Rightarrow> 'r list \<Rightarrow> 'r list" where
  "limit_rows n rows = (if n < 0 then rows else take (nat n) rows)"

section \<open>Lemmas on the string functions\<close>

lemma split_on_nonempty [simp]: "split_on c s \<noteq> []"
  by (cases s) (auto split: list.splits)

lemma split_on_hd: "hd (split_on c s) = Cut_before s c"
  by (induction s) (auto simp: Cut_before_def split: list.splits)

lemma split_on_set: "w \<in> set (split_on c s) \<Longrightarrow> x \<in> set w \<Longrightarrow> x \<in> set s \<and> x \<noteq> c"
proof (induction s arbitrary: w x)
  case Nil
  then show ?case by simp
next
  case (Cons a s)
  show ?case
  proof (cases "a = c")
    case True
    with Cons show ?thesis by auto
  next
    case False
    obtain v vs where v: "split_on c s = v # vs"
      by (cases "split_on c s") auto
    with False Cons.prems(1) consider "w = a # v" | "w \<in> set (split_on c s)"
      by auto
    then show ?thesis
    proof cases
      case 1
      with Cons.IH [of v x] Cons.prems(2) v False show ?thesis by auto
    next
      case 2
      with Cons.IH [of w x] Cons.prems(2) show ?thesis by simp
    qed
  qed
qed

lemma join_split_on: "join_with [c] (split_on c s) = s"
proof (induction s)
  case Nil
  then show ?case by simp
next
  case (Cons a s)
  obtain v vs where v: "split_on c s = v # vs"
    by (cases "split_on c s") auto
  with Cons show ?case by (cases vs) auto
qed

lemma split_on_no_sep: "c \<notin> set s \<Longrightarrow> split_on c s = [s]"
  by (induction s) auto

lemma split_on_append: "c \<notin> set s \<Longrightarrow> split_on c (s @ c # t) = s # split_on c t"
  by (induction s) auto

lemma split_on_join: "ws \<noteq> [] \<Longrightarrow> (\<And>x. x \<in> set ws \<Longrightarrow> c \<notin> set x) \<Longrightarrow> split_on c (join_with [c] ws) = ws"
proof (induction ws)
  case Nil
  then show ?case by simp
next
  case (Cons a ws)
  then show ?case by (cases ws) (auto simp: split_on_no_sep split_on_append)
qed

text \<open>A trimmed string starts and ends with a non-space.\<close>

definition trimmed :: "string \<Rightarrow> bool" where
  "trimmed s \<longleftrightarrow> s \<noteq> [] \<and> \<not> is_space (hd s) \<and> \<not> is_space (last s)"

lemma TrimSpace_trimmed: "trimmed s \<Longrightarrow> TrimSpace s = s"
proof -
  assume t: "trimmed s"
  then have "dropWhile is_space s = s" by (cases s) (auto simp: trimmed_def)
  moreover have "dropWhile is_space (rev s) = rev s" using t by (cases "rev s") (auto simp: trimmed_def hd_rev [symmetric])
  ultimately show ?thesis by (simp add: TrimSpace_def)
qed

lemma trimmed_TrimSpace: "TrimSpace s \<noteq> [] \<Longrightarrow> trimmed (TrimSpace s)"
proof -
  assume ne: "TrimSpace s \<noteq> []"
  let ?a = "dropWhile is_space s"
  let ?b = "dropWhile is_space (rev ?a)"
  have b: "?b \<noteq> []" using ne by (simp add: TrimSpace_def)
  then have last: "\<not> is_space (last (TrimSpace s))"
    using hd_dropWhile [of is_space "rev ?a"] by (simp add: TrimSpace_def last_rev)
  have a: "?a \<noteq> []" using b by (cases ?a) auto
  obtain p where p: "rev ?a = p @ ?b" by (metis takeWhile_dropWhile_id)
  then have "?a = rev ?b @ rev p" by (metis rev_append rev_rev_ident)
  with b have "hd (rev ?b) = hd ?a" by (metis hd_append2 rev_is_Nil_conv)
  with hd_dropWhile [of is_space s] a have "\<not> is_space (hd (TrimSpace s))" by (simp add: TrimSpace_def)
  with last ne show ?thesis by (simp add: trimmed_def)
qed

lemma trimmed_join:
  "ws \<noteq> [] \<Longrightarrow> (\<And>x. x \<in> set ws \<Longrightarrow> trimmed x) \<Longrightarrow> trimmed (join_with sep ws)"
proof (induction ws)
  case Nil
  then show ?case by simp
next
  case (Cons a ws)
  show ?case
  proof (cases ws)
    case Nil
    with Cons show ?thesis by simp
  next
    case (Cons b bs)
    with Cons.IH Cons.prems have "trimmed (join_with sep ws)" "trimmed a" by auto
    with Cons show ?thesis by (auto simp: trimmed_def)
  qed
qed

lemma HasPrefix_iff: "HasPrefix s p \<longleftrightarrow> (\<exists>t. s = p @ t)"
  by (auto simp: HasPrefix_def) (metis append_take_drop_id)

lemma HasSuffix_iff: "HasSuffix s p \<longleftrightarrow> (\<exists>t. s = t @ p)"
proof
  assume "HasSuffix s p"
  then obtain t where "rev s = rev p @ t" by (auto simp: HasSuffix_def HasPrefix_iff)
  then have "s = rev t @ p" by (metis rev_append rev_rev_ident)
  then show "\<exists>t. s = t @ p" ..
next
  assume "\<exists>t. s = t @ p"
  then show "HasSuffix s p" by (auto simp: HasSuffix_def HasPrefix_iff)
qed

lemma HasPrefix_append [simp]: "HasPrefix (p @ t) p"
  by (simp add: HasPrefix_def)

lemma CutPrefix_Some [simp]: "CutPrefix s p = Some r \<longleftrightarrow> s = p @ r"
  by (auto simp: CutPrefix_def HasPrefix_iff)

lemma ToLower_append [simp]: "ToLower (a @ b) = ToLower a @ ToLower b"
  by (simp add: ToLower_def)

lemma lower_char_idem [simp]: "lower_char (lower_char c) = lower_char c"
proof (cases "65 \<le> (of_char c :: nat) \<and> (of_char c :: nat) \<le> 90")
  case True
  then have "of_char (char_of (of_char c + 32 :: nat)) = (of_char c + 32 :: nat)"
    by simp
  with True show ?thesis by (simp add: lower_char_def Let_def)
next
  case False
  then show ?thesis by (auto simp: lower_char_def Let_def)
qed

lemma ToLower_idem [simp]: "ToLower (ToLower s) = ToLower s"
  by (simp add: ToLower_def)

section \<open>Lemmas on the table operations\<close>

lemma set_select_where [simp]: "set (select_where p rows) = {r \<in> set rows. p r}"
  by (auto simp: select_where_def)

lemma exists_where_iff [simp]: "exists_where p rows \<longleftrightarrow> (\<exists>r \<in> set rows. p r)"
  by (simp add: exists_where_def list_ex_iff)

lemma set_delete_where [simp]: "set (delete_where p rows) = {r \<in> set rows. \<not> p r}"
  by (auto simp: delete_where_def)

lemma set_update_where [simp]:
  "set (update_where p f rows) = (\<lambda>r. if p r then f r else r) ` set rows"
  by (simp add: update_where_def)

lemma set_insert_ignore:
  "set (insert_ignore p new rows) = (if \<exists>r \<in> set rows. p r then set rows else insert new (set rows))"
  by (auto simp: insert_ignore_def list_ex_iff)

lemma set_upsert_where:
  "set (upsert_where p f new rows) =
     (if \<exists>r \<in> set rows. p r then (\<lambda>r. if p r then f r else r) ` set rows
      else insert new (set rows))"
  by (auto simp: upsert_where_def list_ex_iff)

lemma find_where_Some: "find_where p rows = Some r \<Longrightarrow> r \<in> set rows \<and> p r"
  by (auto simp: find_where_def find_Some_iff)

lemma find_where_None: "find_where p rows = None \<longleftrightarrow> (\<forall>r \<in> set rows. \<not> p r)"
  by (auto simp: find_where_def find_None_iff)

lemma find_where_append:
  "find_where p (xs @ ys) = (case find_where p xs of None \<Rightarrow> find_where p ys | Some x \<Rightarrow> Some x)"
  by (induction xs) (auto simp: find_where_def)

lemma find_where_single [simp]: "find_where p [x] = (if p x then Some x else None)"
  by (simp add: find_where_def)

lemma insert_ignore_new: "find_where p rows = None \<Longrightarrow> insert_ignore p new rows = rows @ [new]"
  by (auto simp: find_where_None insert_ignore_def list_ex_iff)

lemma find_where_unique:
  assumes "r \<in> set rows" and "p r" and "\<And>r'. r' \<in> set rows \<Longrightarrow> p r' \<Longrightarrow> r' = r"
  shows "find_where p rows = Some r"
proof (cases "find_where p rows")
  case None
  with assms(1,2) show ?thesis by (simp add: find_where_None)
next
  case (Some r')
  then have "r' \<in> set rows \<and> p r'" by (rule find_where_Some)
  with Some assms(3) show ?thesis by blast
qed

lemma map_update_where:
  "(\<And>r. p r \<Longrightarrow> g (f r) = g r) \<Longrightarrow> map g (update_where p f rows) = map g rows"
  by (auto simp: update_where_def)

lemma length_delete_where: "length (delete_where p rows) \<le> length rows"
  by (simp add: delete_where_def)

lemma distinct_map_delete_where: "distinct (map g rows) \<Longrightarrow> distinct (map g (delete_where p rows))"
  by (simp add: delete_where_def distinct_map_filter)

lemma map_eq_inj_on:
  "distinct (map g rows) \<Longrightarrow> r \<in> set rows \<Longrightarrow> r' \<in> set rows \<Longrightarrow> g r = g r' \<Longrightarrow> r = r'"
  by (simp add: distinct_map inj_on_def)

lemma set_order_by [simp]: "set (order_by k rows) = set rows"
  by (simp add: order_by_def)

lemma set_order_by_desc [simp]: "set (order_by_desc k rows) = set rows"
  by (simp add: order_by_desc_def)

lemma set_limit_rows: "set (limit_rows n rows) \<subseteq> set rows"
  by (auto simp: limit_rows_def dest: in_set_takeD)

lemma length_limit_rows: "0 \<le> n \<Longrightarrow> length (limit_rows n rows) \<le> nat n"
  by (simp add: limit_rows_def)

section \<open>A table with a unique key\<close>

text \<open>
  Every table of the schema has a unique index. The locale states what an upsert and an
  insert-or-ignore that name the index as their conflict target do to it; each table of the
  model is an interpretation.
\<close>

locale keyed_table =
  fixes key :: "'r \<Rightarrow> 'k" and ident :: "'r \<Rightarrow> int"
begin

definition unique :: "'r list \<Rightarrow> bool" where
  "unique rows \<longleftrightarrow> distinct (map key rows)"

definition fresh :: "int \<Rightarrow> 'r list \<Rightarrow> bool" where
  "fresh n rows \<longleftrightarrow> 0 < n \<and> distinct (map ident rows) \<and> (\<forall>r \<in> set rows. 0 < ident r \<and> ident r < n)"

lemma unique_upsert:
  assumes "unique rows" and "\<And>r. key r = k \<Longrightarrow> key (f r) = k" and "key new = k"
  shows "unique (upsert_where (\<lambda>r. key r = k) f new rows)"
proof (cases "list_ex (\<lambda>r. key r = k) rows")
  case True
  have "map key (map (\<lambda>r. if key r = k then f r else r) rows) = map key rows"
    using assms(2) by auto
  then show ?thesis
    using True assms(1) by (simp only: unique_def upsert_where_def if_True)
next
  case False
  then have "k \<notin> key ` set rows" by (auto simp: list_ex_iff)
  with False assms show ?thesis by (simp add: unique_def upsert_where_def)
qed

lemma unique_insert_ignore:
  "unique rows \<Longrightarrow> key new = k \<Longrightarrow> unique (insert_ignore (\<lambda>r. key r = k) new rows)"
  by (auto simp: unique_def insert_ignore_def list_ex_iff)

lemma unique_delete: "unique rows \<Longrightarrow> unique (delete_where p rows)"
  by (simp add: unique_def distinct_map_delete_where)

lemma unique_update:
  "unique rows \<Longrightarrow> (\<And>r. p r \<Longrightarrow> key (f r) = key r) \<Longrightarrow> unique (update_where p f rows)"
  by (simp add: unique_def map_update_where)

lemma fresh_upsert:
  assumes "fresh n rows" and "\<And>r. p r \<Longrightarrow> ident (f r) = ident r" and "ident new = n"
  shows "fresh (n + 1) (upsert_where p f new rows)"
proof -
  have "map ident (map (\<lambda>r. if p r then f r else r) rows) = map ident rows"
    using assms(2) by auto
  moreover have "n \<notin> ident ` set rows"
    using assms(1) by (auto simp: fresh_def)
  moreover have "set (upsert_where p f new rows) \<subseteq> insert new ((\<lambda>r. if p r then f r else r) ` set rows)"
    by (auto simp: set_upsert_where)
  then have "\<forall>r \<in> set (upsert_where p f new rows). 0 < ident r \<and> ident r < n + 1"
    using assms by (fastforce simp: fresh_def split: if_splits)
  ultimately show ?thesis
    using assms(1,3) by (simp add: fresh_def upsert_where_def del: map_map)
qed

lemma fresh_insert_ignore:
  assumes "fresh n rows" and "ident new = n"
  shows "fresh (n + 1) (insert_ignore p new rows)"
  using assms by (force simp: fresh_def insert_ignore_def)

lemma fresh_delete: "fresh n rows \<Longrightarrow> fresh n (delete_where p rows)"
  by (auto simp: fresh_def distinct_map_delete_where)

lemma fresh_update:
  "fresh n rows \<Longrightarrow> (\<And>r. p r \<Longrightarrow> ident (f r) = ident r) \<Longrightarrow> fresh n (update_where p f rows)"
  by (auto simp: fresh_def map_update_where)

lemma unique_lookup:
  "unique rows \<Longrightarrow> r \<in> set rows \<Longrightarrow> find_where (\<lambda>x. key x = key r) rows = Some r"
  by (rule find_where_unique) (auto simp: unique_def dest: map_eq_inj_on)

lemma fresh_lookup:
  "fresh n rows \<Longrightarrow> r \<in> set rows \<Longrightarrow> find_where (\<lambda>x. ident x = ident r) rows = Some r"
  by (rule find_where_unique) (auto simp: fresh_def dest: map_eq_inj_on)

lemma keys_upsert:
  assumes "\<And>r. key r = k \<Longrightarrow> key (f r) = k" and "key new = k"
  shows "key ` set (upsert_where (\<lambda>r. key r = k) f new rows) = insert k (key ` set rows)"
proof (cases "\<exists>r \<in> set rows. key r = k")
  case True
  have "key ` set (upsert_where (\<lambda>r. key r = k) f new rows) =
        (\<lambda>r. key (if key r = k then f r else r)) ` set rows"
    using True by (auto simp: set_upsert_where image_image)
  also have "\<dots> = key ` set rows" using assms(1) by (intro image_cong) auto
  finally show ?thesis using True by (auto simp: insert_absorb)
next
  case False
  with assms(2) show ?thesis by (simp add: set_upsert_where)
qed

lemma upsert_lookup:
  assumes "\<And>r. key r = k \<Longrightarrow> key (f r) = k" and "key new = k"
  shows "find_where (\<lambda>r. key r = k) (upsert_where (\<lambda>r. key r = k) f new rows) =
     Some (case find_where (\<lambda>r. key r = k) rows of None \<Rightarrow> new | Some r \<Rightarrow> f r)"
  using assms
  by (induction rows) (auto simp: find_where_def upsert_where_def split: option.splits)

end

end
