(* ===== verification/Prog.thy ===== *)
theory Prog
  imports Prelude
begin

text \<open>
  Programs: state-passing computations with Go's error results. A method that returns
  \<open>(T, error)\<close> is a \<open>prog\<close> with result type \<open>err + T\<close>; the state it returns is the state
  after the call on the error path too, because a Go method that fails halfway keeps what it
  wrote. \<open>bindE\<close> is the pattern \<open>x, err := m; if err != nil { return err }\<close>, \<open>handle\<close> is a
  call whose error the caller inspects itself, \<open>foreach\<close> a \<open>for range\<close> over a slice.

  Every call that leaves the process (an SQL statement, \<open>BEGIN\<close>, \<open>COMMIT\<close>, a file-system
  call) may fail at any time. The environment carries a list of booleans, one per such call
  in the order they are made; \<open>True\<close> makes that call fail. An exhausted list means no
  further fault. A theorem over all environments is therefore a theorem over every
  placement of I/O failures. The environment also carries the clock, which is constant
  during one operation.

  The theory closes with the two program logics the components use: \<open>keeps\<close> (an assertion
  on the state is preserved on every path) and \<open>hoare\<close> (a precondition, a postcondition for
  the normal return and one for the error return).
\<close>

section \<open>Errors\<close>

text \<open>The kinds of a federation error (\<open>errors.go\<close>), their status code and log level.\<close>

datatype FedErrorKind =
    ErrMalformed
  | ErrUnauthorized
  | ErrForbidden
  | ErrNotRelevant
  | ErrPeerUnreachable

fun HTTPCode :: "FedErrorKind \<Rightarrow> int" where
  "HTTPCode ErrMalformed = 400"
| "HTTPCode ErrUnauthorized = 401"
| "HTTPCode ErrForbidden = 403"
| "HTTPCode ErrNotRelevant = 202"
| "HTTPCode ErrPeerUnreachable = 502"

datatype slog_level = LevelDebug | LevelWarn

definition LogLevel :: "FedErrorKind \<Rightarrow> slog_level" where
  "LogLevel k = (if k = ErrNotRelevant then LevelDebug else LevelWarn)"

text \<open>
  The errors of the program: the exported sentinels by name, an injected I/O failure
  (\<open>ErrIO\<close>), a federation error with its kind, an HTTP error with its status and, for a plain
  \<open>fmt.Errorf\<close>, the text. Wrapping with \<open>%w\<close> is the identity: \<open>errors.Is\<close> sees through it.
\<close>

datatype err =
    ErrIO
  | ErrPackageOwnerMismatch
  | ErrRepositoryBusy
  | ErrRepositoryGone
  | ErrInvalidGlob
  | ErrFollowerNotFound
  | ErrBlobNotFound
  | ErrDenied
  | ErrNameUnknown
  | ErrManifestUnknown
  | ErrManifestInvalid
  | ErrBlobUnknown
  | ErrBlobUploadInvalid
  | ErrBlobUploadUnknown
  | ErrRangeInvalid
  | ErrDigestInvalid
  | HTTPError int
  | FedError FedErrorKind string
  | Errorf string

section \<open>Programs\<close>

type_synonym ('s, 'a) prog = "'s \<Rightarrow> (err + 'a) \<times> 's"

definition ret :: "'a \<Rightarrow> ('s, 'a) prog" where
  "ret x = (\<lambda>s. (Inr x, s))"

definition fail :: "err \<Rightarrow> ('s, 'a) prog" where
  "fail e = (\<lambda>s. (Inl e, s))"

definition bindE :: "('s, 'a) prog \<Rightarrow> ('a \<Rightarrow> ('s, 'b) prog) \<Rightarrow> ('s, 'b) prog" where
  "bindE m f = (\<lambda>s. case m s of (Inl e, s') \<Rightarrow> (Inl e, s') | (Inr x, s') \<Rightarrow> f x s')"

definition handle :: "('s, 'a) prog \<Rightarrow> (err + 'a \<Rightarrow> ('s, 'b) prog) \<Rightarrow> ('s, 'b) prog" where
  "handle m f = (\<lambda>s. case m s of (r, s') \<Rightarrow> f r s')"

definition gets :: "('s \<Rightarrow> 'a) \<Rightarrow> ('s, 'a) prog" where
  "gets f = (\<lambda>s. (Inr (f s), s))"

definition modify :: "('s \<Rightarrow> 's) \<Rightarrow> ('s, unit) prog" where
  "modify f = (\<lambda>s. (Inr (), f s))"

fun foreach :: "'x list \<Rightarrow> ('x \<Rightarrow> ('s, unit) prog) \<Rightarrow> ('s, unit) prog" where
  "foreach [] f = ret ()"
| "foreach (x # xs) f = bindE (f x) (\<lambda>_. foreach xs f)"

text \<open>A loop that carries a local variable and never leaves early.\<close>

fun foldP :: "('acc \<Rightarrow> 'x \<Rightarrow> ('s, 'acc) prog) \<Rightarrow> 'acc \<Rightarrow> 'x list \<Rightarrow> ('s, 'acc) prog" where
  "foldP f a [] = ret a"
| "foldP f a (x # xs) = bindE (f a x) (\<lambda>b. foldP f b xs)"

text \<open>A call whose error is logged and dropped.\<close>

definition ignore :: "('s, 'a) prog \<Rightarrow> ('s, unit) prog" where
  "ignore m = handle m (\<lambda>_. ret ())"

section \<open>The environment: injected failures and the clock\<close>

record env =
  faults :: "bool list"
  clock :: int

definition tick :: "('z env_scheme, unit) prog" where
  "tick = (\<lambda>s. case faults s of
      [] \<Rightarrow> (Inr (), s)
    | b # bs \<Rightarrow> (if b then Inl ErrIO else Inr (), s\<lparr>faults := bs\<rparr>))"

definition now :: "('z env_scheme, int) prog" where
  "now = gets clock"

section \<open>Program logics\<close>

definition keeps :: "('s \<Rightarrow> bool) \<Rightarrow> ('s, 'a) prog \<Rightarrow> bool" where
  "keeps P m \<longleftrightarrow> (\<forall>s. P s \<longrightarrow> P (snd (m s)))"

definition hoare :: "('s \<Rightarrow> bool) \<Rightarrow> ('s, 'a) prog \<Rightarrow> ('a \<Rightarrow> 's \<Rightarrow> bool) \<Rightarrow> (err \<Rightarrow> 's \<Rightarrow> bool) \<Rightarrow> bool" where
  "hoare P m Q E \<longleftrightarrow>
     (\<forall>s. P s \<longrightarrow> (case m s of (Inr x, s') \<Rightarrow> Q x s' | (Inl e, s') \<Rightarrow> E e s'))"

lemmas prog_defs = ret_def fail_def bindE_def handle_def gets_def modify_def ignore_def

lemma keepsI: "(\<And>s. P s \<Longrightarrow> P (snd (m s))) \<Longrightarrow> keeps P m"
  by (simp add: keeps_def)

lemma keepsD: "keeps P m \<Longrightarrow> P s \<Longrightarrow> m s = (r, s') \<Longrightarrow> P s'"
  by (auto simp: keeps_def dest!: spec [of _ s])

lemma keeps_ret [keeps_intros]: "keeps P (ret x)"
  by (simp add: keeps_def ret_def)

lemma keeps_fail [keeps_intros]: "keeps P (fail e)"
  by (simp add: keeps_def fail_def)

lemma keeps_gets [keeps_intros]: "keeps P (gets f)"
  by (simp add: keeps_def gets_def)

lemma keeps_now [keeps_intros]: "keeps P now"
  by (simp add: now_def keeps_gets)

lemma keeps_bindE [keeps_intros]:
  "keeps P m \<Longrightarrow> (\<And>x. keeps P (f x)) \<Longrightarrow> keeps P (bindE m f)"
  unfolding keeps_def bindE_def
  by (auto split: prod.splits sum.splits)

lemma keeps_handle [keeps_intros]:
  "keeps P m \<Longrightarrow> (\<And>r. keeps P (f r)) \<Longrightarrow> keeps P (handle m f)"
  unfolding keeps_def handle_def
  by (auto split: prod.splits)

lemma keeps_ignore [keeps_intros]: "keeps P m \<Longrightarrow> keeps P (ignore m)"
  by (simp add: ignore_def keeps_handle keeps_ret)

lemma keeps_foreach [keeps_intros]: "(\<And>x. x \<in> set xs \<Longrightarrow> keeps P (f x)) \<Longrightarrow> keeps P (foreach xs f)"
  by (induction xs) (auto intro: keeps_bindE keeps_ret)

lemma keeps_foldP [keeps_intros]:
  "(\<And>a x. x \<in> set xs \<Longrightarrow> keeps P (f a x)) \<Longrightarrow> keeps P (foldP f a xs)"
  by (induction xs arbitrary: a) (auto intro: keeps_bindE keeps_ret)

lemma keeps_if [keeps_intros]: "(b \<Longrightarrow> keeps P m) \<Longrightarrow> (\<not> b \<Longrightarrow> keeps P m') \<Longrightarrow> keeps P (if b then m else m')"
  by simp

lemma keeps_option [keeps_intros]:
  "(x = None \<Longrightarrow> keeps P m) \<Longrightarrow> (\<And>y. x = Some y \<Longrightarrow> keeps P (f y)) \<Longrightarrow>
   keeps P (case x of None \<Rightarrow> m | Some y \<Rightarrow> f y)"
  by (cases x) auto

lemma keeps_sum [keeps_intros]:
  "(\<And>e. x = Inl e \<Longrightarrow> keeps P (f e)) \<Longrightarrow> (\<And>y. x = Inr y \<Longrightarrow> keeps P (g y)) \<Longrightarrow>
   keeps P (case x of Inl e \<Rightarrow> f e | Inr y \<Rightarrow> g y)"
  by (cases x) auto

lemma keeps_list [keeps_intros]:
  "(x = [] \<Longrightarrow> keeps P m) \<Longrightarrow> (\<And>y ys. x = y # ys \<Longrightarrow> keeps P (f y ys)) \<Longrightarrow>
   keeps P (case x of [] \<Rightarrow> m | y # ys \<Rightarrow> f y ys)"
  by (cases x) auto

lemma keeps_let [keeps_intros]: "keeps P (f x) \<Longrightarrow> keeps P (let y = x in f y)"
  by simp

lemma keeps_prod [keeps_intros]: "(\<And>a b. x = (a, b) \<Longrightarrow> keeps P (f a b)) \<Longrightarrow> keeps P (case x of (a, b) \<Rightarrow> f a b)"
  by (cases x) auto

lemma keeps_modify: "(\<And>s. P s \<Longrightarrow> P (f s)) \<Longrightarrow> keeps P (modify f)"
  by (simp add: keeps_def modify_def)

lemma keeps_tick: "(\<And>s fs. P (s\<lparr>faults := fs\<rparr>) = P s) \<Longrightarrow> keeps P tick"
  by (simp add: keeps_def tick_def split: list.splits)

lemma hoareI:
  "(\<And>s x s'. P s \<Longrightarrow> m s = (Inr x, s') \<Longrightarrow> Q x s') \<Longrightarrow>
   (\<And>s e s'. P s \<Longrightarrow> m s = (Inl e, s') \<Longrightarrow> E e s') \<Longrightarrow> hoare P m Q E"
  by (auto simp: hoare_def split: prod.splits sum.splits)

lemma hoare_okD: "hoare P m Q E \<Longrightarrow> P s \<Longrightarrow> m s = (Inr x, s') \<Longrightarrow> Q x s'"
  by (auto simp: hoare_def dest!: spec [of _ s])

lemma hoare_errD: "hoare P m Q E \<Longrightarrow> P s \<Longrightarrow> m s = (Inl e, s') \<Longrightarrow> E e s'"
  by (auto simp: hoare_def dest!: spec [of _ s])

lemma hoare_bindE:
  "hoare P m R E \<Longrightarrow> (\<And>x. hoare (R x) (f x) Q E) \<Longrightarrow> hoare P (bindE m f) Q E"
  unfolding hoare_def bindE_def
  by (fastforce split: prod.splits sum.splits)

lemma hoare_weaken:
  "hoare P m Q E \<Longrightarrow> (\<And>s. P' s \<Longrightarrow> P s) \<Longrightarrow> (\<And>x s. Q x s \<Longrightarrow> Q' x s) \<Longrightarrow>
   (\<And>e s. E e s \<Longrightarrow> E' e s) \<Longrightarrow> hoare P' m Q' E'"
  unfolding hoare_def by (fastforce split: prod.splits sum.splits)

lemma hoare_keeps: "keeps P m \<longleftrightarrow> hoare P m (\<lambda>_. P) (\<lambda>_. P)"
  unfolding hoare_def keeps_def by (fastforce split: prod.splits sum.splits)

text \<open>\<open>raises E m\<close>: every error \<open>m\<close> returns is in \<open>E\<close>.\<close>

definition raises :: "err set \<Rightarrow> ('s, 'a) prog \<Rightarrow> bool" where
  "raises E m \<longleftrightarrow> (\<forall>s e s'. m s = (Inl e, s') \<longrightarrow> e \<in> E)"

lemma raisesI: "(\<And>s e s'. m s = (Inl e, s') \<Longrightarrow> e \<in> E) \<Longrightarrow> raises E m"
  by (simp add: raises_def)

lemma raisesD: "raises E m \<Longrightarrow> m s = (Inl e, s') \<Longrightarrow> e \<in> E"
  by (auto simp: raises_def)

lemma raises_ret [raises_intros]: "raises E (ret x)"
  by (simp add: raises_def ret_def)

lemma raises_fail [raises_intros]: "e \<in> E \<Longrightarrow> raises E (fail e)"
  by (simp add: raises_def fail_def)

lemma raises_gets [raises_intros]: "raises E (gets f)"
  by (simp add: raises_def gets_def)

lemma raises_now [raises_intros]: "raises E now"
  by (simp add: now_def raises_gets)

lemma raises_modify [raises_intros]: "raises E (modify f)"
  by (simp add: raises_def modify_def)

lemma raises_tick [raises_intros]: "ErrIO \<in> E \<Longrightarrow> raises E tick"
  by (auto simp: raises_def tick_def split: list.splits if_splits)

lemma raises_bindE [raises_intros]:
  "raises E m \<Longrightarrow> (\<And>x. raises E (f x)) \<Longrightarrow> raises E (bindE m f)"
  unfolding raises_def bindE_def by (fastforce split: prod.splits sum.splits)

lemma raises_handle [raises_intros]: "(\<And>r. raises E (f r)) \<Longrightarrow> raises E (handle m f)"
  unfolding raises_def handle_def by (fastforce split: prod.splits)

lemma raises_ignore [raises_intros]: "raises E (ignore m)"
  unfolding ignore_def by (intro raises_intros)

lemma raises_foreach [raises_intros]: "(\<And>x. x \<in> set xs \<Longrightarrow> raises E (f x)) \<Longrightarrow> raises E (foreach xs f)"
  by (induction xs) (auto intro: raises_intros)

lemma raises_if [raises_intros]:
  "(b \<Longrightarrow> raises E m) \<Longrightarrow> (\<not> b \<Longrightarrow> raises E m') \<Longrightarrow> raises E (if b then m else m')"
  by simp

lemma raises_option [raises_intros]:
  "(x = None \<Longrightarrow> raises E m) \<Longrightarrow> (\<And>y. x = Some y \<Longrightarrow> raises E (f y)) \<Longrightarrow>
   raises E (case x of None \<Rightarrow> m | Some y \<Rightarrow> f y)"
  by (cases x) auto

lemma raises_sum [raises_intros]:
  "(\<And>e. x = Inl e \<Longrightarrow> raises E (f e)) \<Longrightarrow> (\<And>y. x = Inr y \<Longrightarrow> raises E (g y)) \<Longrightarrow>
   raises E (case x of Inl e \<Rightarrow> f e | Inr y \<Rightarrow> g y)"
  by (cases x) auto

lemma raises_list [raises_intros]:
  "(x = [] \<Longrightarrow> raises E m) \<Longrightarrow> (\<And>y ys. x = y # ys \<Longrightarrow> raises E (f y ys)) \<Longrightarrow>
   raises E (case x of [] \<Rightarrow> m | y # ys \<Rightarrow> f y ys)"
  by (cases x) auto

lemma raises_let [raises_intros]: "raises E (f x) \<Longrightarrow> raises E (let y = x in f y)"
  by simp

lemma raises_foldP: "(\<And>a x. raises E (f a x)) \<Longrightarrow> raises E (foldP f a xs)"
  by (induction xs arbitrary: a) (auto intro: raises_intros)

section \<open>Shapes of runs\<close>

lemma ret_run [simp]: "ret x s = (r, s') \<longleftrightarrow> r = Inr x \<and> s' = s"
  by (auto simp: ret_def)

lemma fail_run [simp]: "fail e s = (r, s') \<longleftrightarrow> r = Inl e \<and> s' = s"
  by (auto simp: fail_def)

lemma gets_run [simp]: "gets f s = (r, s') \<longleftrightarrow> r = Inr (f s) \<and> s' = s"
  by (auto simp: gets_def)

lemma modify_run [simp]: "modify f s = (r, s') \<longleftrightarrow> r = Inr () \<and> s' = f s"
  by (auto simp: modify_def)

lemma bindE_ok: "bindE m f s = (Inr y, s') \<longleftrightarrow> (\<exists>x t. m s = (Inr x, t) \<and> f x t = (Inr y, s'))"
  by (auto simp: bindE_def split: prod.splits sum.splits)

lemma bindE_err:
  "bindE m f s = (Inl e, s') \<longleftrightarrow>
     m s = (Inl e, s') \<or> (\<exists>x t. m s = (Inr x, t) \<and> f x t = (Inl e, s'))"
  by (auto simp: bindE_def split: prod.splits sum.splits)

lemma bindE_okE:
  assumes "bindE m f s = (Inr y, s')"
  obtains x t where "m s = (Inr x, t)" and "f x t = (Inr y, s')"
  using assms by (auto simp: bindE_ok)

lemma bindE_errE:
  assumes "bindE m f s = (Inl e, s')"
  obtains (first) "m s = (Inl e, s')" | (later) x t where "m s = (Inr x, t)" and "f x t = (Inl e, s')"
  using assms by (auto simp: bindE_err)

lemma bindE_Inl: "m s = (Inl e, t) \<Longrightarrow> bindE m f s = (Inl e, t)"
  by (simp add: bindE_def)

lemma bindE_Inr: "m s = (Inr x, t) \<Longrightarrow> bindE m f s = f x t"
  by (simp add: bindE_def)

lemma handle_run: "handle m f s = (r, s') \<longleftrightarrow> (\<exists>q t. m s = (q, t) \<and> f q t = (r, s'))"
  by (auto simp: handle_def split: prod.splits)

lemma bindE_ret [simp]: "bindE (ret x) f = f x"
  by (simp add: bindE_def ret_def)

lemma bindE_fail [simp]: "bindE (fail e) f = fail e"
  by (simp add: bindE_def fail_def)

lemma bindE_assoc: "bindE (bindE m f) g = bindE m (\<lambda>x. bindE (f x) g)"
  by (auto simp: bindE_def fun_eq_iff split: prod.splits sum.splits)

lemma tick_ok: "tick s = (Inr x, s') \<Longrightarrow> \<exists>fs. s' = s\<lparr>faults := fs\<rparr>"
  by (auto simp: tick_def split: list.splits if_splits) (metis env.surjective env.update_convs(1))

lemma tick_err: "tick s = (Inl e, s') \<Longrightarrow> e = ErrIO \<and> (\<exists>fs. s' = s\<lparr>faults := fs\<rparr>)"
  by (auto simp: tick_def split: list.splits if_splits)

lemma tick_nofault: "faults s = [] \<Longrightarrow> tick s = (Inr (), s)"
  by (simp add: tick_def)

lemma ignore_run: "ignore m s = (r, s') \<longleftrightarrow> r = Inr () \<and> (\<exists>q. m s = (q, s'))"
  by (auto simp: ignore_def handle_run)

section \<open>Invariants with results\<close>

text \<open>
  \<open>yields I m Q\<close>: \<open>m\<close> keeps \<open>I\<close> whatever happens, and a value it returns satisfies \<open>Q\<close>. This
  carries what a guard established (an owner check, a validation) to the statements behind it.
\<close>

definition yields :: "('s \<Rightarrow> bool) \<Rightarrow> ('s, 'a) prog \<Rightarrow> ('a \<Rightarrow> bool) \<Rightarrow> bool" where
  "yields I m Q \<longleftrightarrow> (\<forall>s r s'. I s \<longrightarrow> m s = (r, s') \<longrightarrow> I s' \<and> (\<forall>x. r = Inr x \<longrightarrow> Q x))"

lemma yieldsI: "(\<And>s r s'. I s \<Longrightarrow> m s = (r, s') \<Longrightarrow> I s' \<and> (\<forall>x. r = Inr x \<longrightarrow> Q x)) \<Longrightarrow> yields I m Q"
  by (auto simp: yields_def)

lemma yieldsD: "yields I m Q \<Longrightarrow> I s \<Longrightarrow> m s = (r, s') \<Longrightarrow> I s'"
  by (auto simp: yields_def)

lemma yields_keeps: "keeps I m \<Longrightarrow> yields I m (\<lambda>_. True)"
  by (auto intro!: yieldsI dest: keepsD)

lemma yields_weaken: "yields I m Q \<Longrightarrow> (\<And>x. Q x \<Longrightarrow> R x) \<Longrightarrow> yields I m R"
  by (auto simp: yields_def)

lemma yields_triv: "yields I m Q \<Longrightarrow> yields I m (\<lambda>_. True)"
  by (rule yields_weaken) simp_all

lemma yields_ret [yields_intros]: "Q x \<Longrightarrow> yields I (ret x) Q"
  by (auto simp: yields_def ret_def)

lemma yields_fail [yields_intros]: "yields I (fail e) Q"
  by (auto simp: yields_def fail_def)

lemma yields_gets [yields_intros]: "(\<And>s. I s \<Longrightarrow> Q (f s)) \<Longrightarrow> yields I (gets f) Q"
  by (auto simp: yields_def gets_def)

lemma yields_modify: "(\<And>s. I s \<Longrightarrow> I (f s)) \<Longrightarrow> yields I (modify f) (\<lambda>_. True)"
  by (auto simp: yields_def modify_def)

lemma yields_bindE:
  assumes "yields I m Q" and "\<And>x. Q x \<Longrightarrow> yields I (f x) R"
  shows "yields I (bindE m f) R"
proof (rule yieldsI)
  fix s r s'
  assume I: "I s" and run: "bindE m f s = (r, s')"
  obtain q u where q: "m s = (q, u)" by (cases "m s")
  from assms(1) I q have u: "I u" and Q: "\<And>x. q = Inr x \<Longrightarrow> Q x" by (auto simp: yields_def)
  show "I s' \<and> (\<forall>x. r = Inr x \<longrightarrow> R x)"
  proof (cases q)
    case (Inl e)
    with run q u show ?thesis by (auto simp: bindE_def)
  next
    case (Inr x)
    with run q have "f x u = (r, s')" by (simp add: bindE_def)
    with assms(2) [OF Q [OF Inr]] u show ?thesis by (auto simp: yields_def)
  qed
qed

lemma yields_handle:
  assumes "yields I m Q" and "\<And>e. yields I (f (Inl e)) R" and "\<And>x. Q x \<Longrightarrow> yields I (f (Inr x)) R"
  shows "yields I (handle m f) R"
proof (rule yieldsI)
  fix s r s'
  assume I: "I s" and run: "handle m f s = (r, s')"
  obtain q u where q: "m s = (q, u)" by (cases "m s")
  with run have f: "f q u = (r, s')" by (simp add: handle_def)
  from assms(1) I q have u: "I u" and "\<And>x. q = Inr x \<Longrightarrow> Q x" by (auto simp: yields_def)
  with assms(2,3) have "yields I (f q) R" by (cases q) auto
  with u f show "I s' \<and> (\<forall>x. r = Inr x \<longrightarrow> R x)" by (auto simp: yields_def)
qed

lemma keeps_bind_yields: "yields I m Q \<Longrightarrow> (\<And>x. Q x \<Longrightarrow> keeps I (f x)) \<Longrightarrow> keeps I (bindE m f)"
  unfolding keeps_def yields_def bindE_def by (fastforce split: prod.splits sum.splits)

lemma yieldsE: "yields I m Q \<Longrightarrow> I s \<Longrightarrow> I (snd (m s)) \<and> (\<forall>x. fst (m s) = Inr x \<longrightarrow> Q x)"
  unfolding yields_def by (metis prod.collapse)

text \<open>Without an invariant, \<open>yields\<close> is a statement about results.\<close>

abbreviation "gives \<equiv> yields (\<lambda>_. True)"

lemma gives_any: "gives m (\<lambda>_. True)"
  by (simp add: yields_def)

lemma yields_ignore: "yields I m Q \<Longrightarrow> yields I (ignore m) (\<lambda>_. True)"
  unfolding ignore_def by (rule yields_handle, assumption) (auto intro: yields_intros)

lemma yields_if [yields_intros]:
  "(b \<Longrightarrow> yields I m Q) \<Longrightarrow> (\<not> b \<Longrightarrow> yields I m' Q) \<Longrightarrow> yields I (if b then m else m') Q"
  by simp

lemma yields_option [yields_intros]:
  "(x = None \<Longrightarrow> yields I m Q) \<Longrightarrow> (\<And>y. x = Some y \<Longrightarrow> yields I (f y) Q) \<Longrightarrow>
   yields I (case x of None \<Rightarrow> m | Some y \<Rightarrow> f y) Q"
  by (cases x) auto

lemma yields_sum [yields_intros]:
  "(\<And>e. x = Inl e \<Longrightarrow> yields I (f e) Q) \<Longrightarrow> (\<And>y. x = Inr y \<Longrightarrow> yields I (g y) Q) \<Longrightarrow>
   yields I (case x of Inl e \<Rightarrow> f e | Inr y \<Rightarrow> g y) Q"
  by (cases x) auto

lemma yields_list [yields_intros]:
  "(x = [] \<Longrightarrow> yields I m Q) \<Longrightarrow> (\<And>y ys. x = y # ys \<Longrightarrow> yields I (f y ys) Q) \<Longrightarrow>
   yields I (case x of [] \<Rightarrow> m | y # ys \<Rightarrow> f y ys) Q"
  by (cases x) auto

lemma yields_bool [yields_intros]:
  "(x \<Longrightarrow> yields I m Q) \<Longrightarrow> (\<not> x \<Longrightarrow> yields I m' Q) \<Longrightarrow> yields I (case x of True \<Rightarrow> m | False \<Rightarrow> m') Q"
  by (cases x) auto

lemma yields_foreach: "(\<And>x. x \<in> set xs \<Longrightarrow> yields I (f x) (\<lambda>_. True)) \<Longrightarrow> yields I (foreach xs f) (\<lambda>_. True)"
  by (induction xs) (auto intro!: yields_intros yields_bindE)

end
