(* ===== verification/Models.thy ===== *)
theory Models
  imports Prog
begin

text \<open>
  The database: one record per row type of \<open>internal/database/models.go\<close>, the record of all
  tables, SQL statements and transactions as programs over it, and the schema invariant.

  A table is the list of its rows in insertion order. Row ids are drawn from a per-table
  counter and never reused (both dialects declare the column \<open>AUTOINCREMENT\<close>). \<open>query\<close>,
  \<open>exec\<close> and \<open>exec_rows\<close> are one statement each and consume one entry of the fault list;
  \<open>in_tx\<close> is \<open>BeginTx\<close> with the deferred \<open>Rollback\<close>: the tables are restored unless the body
  reached \<open>Commit\<close> and the commit itself succeeded. Each transaction runs alone, which is
  what \<open>BEGIN IMMEDIATE\<close> (the \<open>_txlock\<close> of \<open>sqliteDSN\<close>) gives on SQLite.
\<close>

section \<open>Rows\<close>

definition FollowStatusPending :: string where "FollowStatusPending = ''pending''"
definition FollowStatusAccepted :: string where "FollowStatusAccepted = ''accepted''"
definition FollowStatusRejected :: string where "FollowStatusRejected = ''rejected''"

record Package =
  pkg_id :: int
  pkg_type :: string
  pkg_name :: string
  pkg_owner :: string
  pkg_private :: bool
  pkg_created :: int
  pkg_withdrawn :: "int option"

record PackageVersion =
  ver_id :: int
  ver_package :: int
  ver_version :: string
  ver_metadata :: string
  ver_media_type :: string
  ver_size :: int
  ver_source :: "string option"
  ver_subject :: "string option"
  ver_artifact :: "string option"
  ver_created :: int

record PackageFile =
  file_id :: int
  file_version :: int
  file_name :: string
  file_blob :: string
  file_size :: int
  file_ctype :: "string option"
  file_created :: int

record PackageTag =
  tag_id :: int
  tag_package :: int
  tag_name :: string
  tag_version :: string
  tag_updated :: int

record DeletedVersion =
  del_id :: int
  del_type :: string
  del_name :: string
  del_version :: string
  del_source :: string
  del_at :: int

record Repository =
  repo_id :: int
  repo_name :: string
  repo_owner :: string
  repo_private :: bool
  repo_created :: int

record Manifest =
  man_id :: int
  man_repo :: int
  man_digest :: string
  man_media_type :: string
  man_size :: int
  man_content :: string
  man_source :: "string option"
  man_subject :: "string option"
  man_artifact :: "string option"
  man_created :: int

record Tag =
  ltag_id :: int
  ltag_repo :: int
  ltag_name :: string
  ltag_digest :: string
  ltag_updated :: int

record Blob =
  blob_id :: int
  blob_digest :: string
  blob_size :: int
  blob_media_type :: "string option"
  blob_stored :: bool
  blob_created :: int

record PeerBlob =
  pb_id :: int
  pb_actor :: string
  pb_digest :: string
  pb_endpoint :: string
  pb_verified :: "int option"

record Actor =
  act_id :: int
  act_url :: string
  act_name :: "string option"
  act_alias :: "string option"
  act_endpoint :: string
  act_key :: "string option"
  act_they_follow :: bool
  act_they_follow_at :: "int option"
  act_we_follow :: bool
  act_we_status :: "string option"
  act_we_accept_at :: "int option"
  act_healthy :: bool
  act_policy :: string
  act_seen :: "int option"
  act_globs :: "string option"
  act_created :: int

record FollowRequest =
  fr_id :: int
  fr_url :: string
  fr_key :: string
  fr_endpoint :: string
  fr_alias :: "string option"
  fr_requested :: int

record Activity =
  av_id :: int
  av_activity_id :: string
  av_type :: string
  av_actor :: string
  av_object :: string
  av_published :: int
  av_created :: int

record UploadSession =
  up_id :: int
  up_uuid :: string
  up_repo :: int
  up_bytes :: int
  up_created :: int
  up_expires :: int

record Delivery =
  dv_id :: int
  dv_activity :: string
  dv_inbox :: string
  dv_json :: string
  dv_attempts :: int
  dv_max :: int
  dv_next :: int
  dv_error :: "string option"
  dv_status :: string
  dv_created :: int

section \<open>Methods of the Actor row\<close>

text \<open>A nil receiver is \<open>None\<close>, as in the Go methods.\<close>

definition HasPendingOutgoingFollow :: "Actor option \<Rightarrow> bool" where
  "HasPendingOutgoingFollow a = (case a of None \<Rightarrow> False
     | Some a \<Rightarrow> act_we_follow a \<and> act_we_status a = Some FollowStatusPending)"

definition HasAcceptedOutgoingFollow :: "Actor option \<Rightarrow> bool" where
  "HasAcceptedOutgoingFollow a = (case a of None \<Rightarrow> False
     | Some a \<Rightarrow> act_we_follow a \<and> act_we_status a = Some FollowStatusAccepted)"

definition HasPendingOrAcceptedOutgoingFollow :: "Actor option \<Rightarrow> bool" where
  "HasPendingOrAcceptedOutgoingFollow a \<longleftrightarrow>
     HasPendingOutgoingFollow a \<or> HasAcceptedOutgoingFollow a"

definition GetPublicKeyPEM :: "Actor option \<Rightarrow> string" where
  "GetPublicKeyPEM a = (case a of None \<Rightarrow> ''''
     | Some a \<Rightarrow> (case act_key a of None \<Rightarrow> '''' | Some k \<Rightarrow> k))"

definition GetWeFollowStatus :: "Actor option \<Rightarrow> string" where
  "GetWeFollowStatus a = (case a of None \<Rightarrow> ''''
     | Some a \<Rightarrow> (case act_we_status a of None \<Rightarrow> '''' | Some k \<Rightarrow> k))"

section \<open>Tables and statements\<close>

record tables =
  packages :: "Package list"
  package_versions :: "PackageVersion list"
  package_files :: "PackageFile list"
  package_tags :: "PackageTag list"
  deleted_versions :: "DeletedVersion list"
  blobs :: "Blob list"
  peer_blobs :: "PeerBlob list"
  actors :: "Actor list"
  follow_requests :: "FollowRequest list"
  activities :: "Activity list"
  upload_sessions :: "UploadSession list"
  delivery_queue :: "Delivery list"
  seq_packages :: int
  seq_versions :: int
  seq_files :: int
  seq_tags :: int
  seq_deleted :: int
  seq_blobs :: int
  seq_peer_blobs :: int
  seq_actors :: int
  seq_requests :: int
  seq_activities :: int
  seq_uploads :: int
  seq_deliveries :: int

record store = env +
  tbl :: tables
  postgres :: bool

definition query :: "(tables \<Rightarrow> 'a) \<Rightarrow> ('z store_scheme, 'a) prog" where
  "query f = bindE tick (\<lambda>_. gets (\<lambda>s. f (tbl s)))"

definition exec :: "(int \<Rightarrow> tables \<Rightarrow> tables) \<Rightarrow> ('z store_scheme, unit) prog" where
  "exec f = bindE tick (\<lambda>_. modify (\<lambda>s. s\<lparr>tbl := f (clock s) (tbl s)\<rparr>))"

text \<open>A statement that reports: \<open>RowsAffected\<close> or a \<open>RETURNING\<close> clause.\<close>

definition exec_rows :: "(int \<Rightarrow> tables \<Rightarrow> 'a \<times> tables) \<Rightarrow> ('z store_scheme, 'a) prog" where
  "exec_rows f = bindE tick (\<lambda>_ s. case f (clock s) (tbl s) of (n, t) \<Rightarrow> (Inr n, s\<lparr>tbl := t\<rparr>))"

datatype 'a tx = Commit 'a | Abort 'a

definition in_tx :: "('z store_scheme, 'a tx) prog \<Rightarrow> ('z store_scheme, 'a) prog" where
  "in_tx body = bindE tick (\<lambda>_ s. case body s of
      (Inl e, s') \<Rightarrow> (Inl e, s'\<lparr>tbl := tbl s\<rparr>)
    | (Inr (Abort x), s') \<Rightarrow> (Inr x, s'\<lparr>tbl := tbl s\<rparr>)
    | (Inr (Commit x), s') \<Rightarrow> (case tick s' of
          (Inl e, s'') \<Rightarrow> (Inl e, s''\<lparr>tbl := tbl s\<rparr>)
        | (Inr _, s'') \<Rightarrow> (Inr x, s'')))"

text \<open>\<open>RunInTx\<close>: commit when the body returns no error.\<close>

definition run_tx :: "('z store_scheme, 'a) prog \<Rightarrow> ('z store_scheme, 'a) prog" where
  "run_tx body = in_tx (bindE body (\<lambda>x. ret (Commit x)))"

section \<open>The schema invariant\<close>

text \<open>The unique index and the id counter of every table (\<open>migrateV1\<close>, \<open>migrateV5\<close>, \<open>migrateV6\<close>).\<close>

interpretation pkgs: keyed_table "\<lambda>r. (pkg_type r, pkg_name r)" pkg_id .
interpretation vers: keyed_table "\<lambda>r. (ver_package r, ver_version r)" ver_id .
interpretation fils: keyed_table "\<lambda>r. (file_version r, file_name r)" file_id .
interpretation tgs: keyed_table "\<lambda>r. (tag_package r, tag_name r)" tag_id .
interpretation dels: keyed_table "\<lambda>r. (del_type r, del_name r, del_version r)" del_id .
interpretation blbs: keyed_table blob_digest blob_id .
interpretation pbls: keyed_table "\<lambda>r. (pb_actor r, pb_digest r)" pb_id .
interpretation acts: keyed_table act_url act_id .
interpretation reqs: keyed_table fr_url fr_id .
interpretation avts: keyed_table av_activity_id av_id .
interpretation upls: keyed_table up_uuid up_id .
interpretation dvls: keyed_table "\<lambda>r. (dv_activity r, dv_inbox r)" dv_id .

definition wf_tables :: "tables \<Rightarrow> bool" where
  "wf_tables t \<longleftrightarrow>
     (pkgs.unique (packages t) \<and> pkgs.fresh (seq_packages t) (packages t)) \<and>
     (vers.unique (package_versions t) \<and> vers.fresh (seq_versions t) (package_versions t)) \<and>
     (fils.unique (package_files t) \<and> fils.fresh (seq_files t) (package_files t)) \<and>
     (tgs.unique (package_tags t) \<and> tgs.fresh (seq_tags t) (package_tags t)) \<and>
     (dels.unique (deleted_versions t) \<and> dels.fresh (seq_deleted t) (deleted_versions t)) \<and>
     (blbs.unique (blobs t) \<and> blbs.fresh (seq_blobs t) (blobs t)) \<and>
     (pbls.unique (peer_blobs t) \<and> pbls.fresh (seq_peer_blobs t) (peer_blobs t)) \<and>
     (acts.unique (actors t) \<and> acts.fresh (seq_actors t) (actors t)) \<and>
     (reqs.unique (follow_requests t) \<and> reqs.fresh (seq_requests t) (follow_requests t)) \<and>
     (avts.unique (activities t) \<and> avts.fresh (seq_activities t) (activities t)) \<and>
     (upls.unique (upload_sessions t) \<and> upls.fresh (seq_uploads t) (upload_sessions t)) \<and>
     (dvls.unique (delivery_queue t) \<and> dvls.fresh (seq_deliveries t) (delivery_queue t))"

definition empty_tables :: tables where
  "empty_tables = \<lparr>packages = [], package_versions = [], package_files = [], package_tags = [],
     deleted_versions = [], blobs = [], peer_blobs = [], actors = [], follow_requests = [],
     activities = [], upload_sessions = [], delivery_queue = [],
     seq_packages = 1, seq_versions = 1, seq_files = 1, seq_tags = 1, seq_deleted = 1,
     seq_blobs = 1, seq_peer_blobs = 1, seq_actors = 1, seq_requests = 1, seq_activities = 1,
     seq_uploads = 1, seq_deliveries = 1\<rparr>"

definition init_store :: "int \<Rightarrow> store" where
  "init_store t = \<lparr>faults = [], clock = t, tbl = empty_tables, postgres = False\<rparr>"

lemma wf_empty_tables: "wf_tables empty_tables"
  by (simp add: wf_tables_def empty_tables_def pkgs.unique_def pkgs.fresh_def vers.unique_def
      vers.fresh_def fils.unique_def fils.fresh_def tgs.unique_def tgs.fresh_def dels.unique_def
      dels.fresh_def blbs.unique_def blbs.fresh_def pbls.unique_def pbls.fresh_def
      acts.unique_def acts.fresh_def reqs.unique_def reqs.fresh_def avts.unique_def
      avts.fresh_def upls.unique_def upls.fresh_def dvls.unique_def dvls.fresh_def)

section \<open>Rules for statements and transactions\<close>

text \<open>
  A fault leaves the tables alone, so an assertion about the tables is kept by a statement
  as soon as its table function keeps it, and by a transaction as soon as its body does.
\<close>

lemma tick_tbl [simp]: "tbl (snd (tick s)) = tbl s"
  by (simp add: tick_def split: list.splits)

lemma tick_clock [simp]: "clock (snd (tick s)) = clock s"
  by (simp add: tick_def split: list.splits)

lemma tick_run: "tick s = (r, s') \<Longrightarrow> tbl s' = tbl s \<and> clock s' = clock s"
  by (auto simp: tick_def split: list.splits)

lemma keeps_tick_tbl [keeps_intros]: "keeps (\<lambda>s. P (tbl s)) tick"
  by (simp add: keeps_def)

lemma keeps_query [keeps_intros]: "keeps (\<lambda>s. P (tbl s)) (query f)"
  unfolding query_def by (intro keeps_intros)

lemma keeps_exec [keeps_intros]:
  "(\<And>c t. P t \<Longrightarrow> P (f c t)) \<Longrightarrow> keeps (\<lambda>s. P (tbl s)) (exec f)"
  unfolding exec_def by (intro keeps_intros keeps_modify) simp

lemma keeps_exec_rows:
  fixes f :: "int \<Rightarrow> tables \<Rightarrow> 'b \<times> tables"
  assumes "\<And>c t. P t \<Longrightarrow> P (snd (f c t))"
  shows "keeps (\<lambda>s. P (tbl s)) (exec_rows f :: ('z store_scheme, 'b) prog)"
  unfolding exec_rows_def
proof (intro keeps_bindE keeps_tick_tbl keepsI)
  fix s :: "'z store_scheme"
  assume "P (tbl s)"
  then have "P (snd (f (clock s) (tbl s)))" by (rule assms)
  then show "P (tbl (snd (case f (clock s) (tbl s) of (n, t) \<Rightarrow> (Inr n, s\<lparr>tbl := t\<rparr>))))"
    by (cases "f (clock s) (tbl s)") simp
qed

lemma keeps_exec_rows_pair [keeps_intros]:
  "(\<And>c t. P t \<Longrightarrow> P (g c t)) \<Longrightarrow> keeps (\<lambda>s. P (tbl s)) (exec_rows (\<lambda>c t. (h c t, g c t)))"
  by (intro keeps_exec_rows) simp

text \<open>For a transaction only what the body leaves at its commit matters.\<close>

lemma keeps_in_tx_commit:
  fixes body :: "('z store_scheme, 'a tx) prog"
  assumes "\<And>s x u. P (tbl s) \<Longrightarrow> body s = (Inr (Commit x), u) \<Longrightarrow> P (tbl u)"
  shows "keeps (\<lambda>s. P (tbl s)) (in_tx body)"
  unfolding in_tx_def
proof (intro keeps_bindE keeps_tick_tbl keepsI)
  fix s :: "'z store_scheme"
  assume "P (tbl s)"
  with assms show "P (tbl (snd (case body s of
      (Inl e, s') \<Rightarrow> (Inl e, s'\<lparr>tbl := tbl s\<rparr>)
    | (Inr (Abort x), s') \<Rightarrow> (Inr x, s'\<lparr>tbl := tbl s\<rparr>)
    | (Inr (Commit x), s') \<Rightarrow> (case tick s' of
          (Inl e, s'') \<Rightarrow> (Inl e, s''\<lparr>tbl := tbl s\<rparr>)
        | (Inr _, s'') \<Rightarrow> (Inr x, s'')))))"
    by (auto dest!: tick_run split: prod.splits sum.splits tx.splits)
qed

lemma keeps_in_tx [keeps_intros]:
  "keeps (\<lambda>s. P (tbl s)) body \<Longrightarrow> keeps (\<lambda>s. P (tbl s)) (in_tx body)"
  by (rule keeps_in_tx_commit) (erule (2) keepsD)

lemma keeps_run_tx [keeps_intros]:
  "keeps (\<lambda>s. P (tbl s)) body \<Longrightarrow> keeps (\<lambda>s. P (tbl s)) (run_tx body)"
  unfolding run_tx_def by (intro keeps_intros)

text \<open>What a completed statement returned and did.\<close>

lemma query_ok: "query f s = (Inr x, s') \<Longrightarrow> x = f (tbl s) \<and> tbl s' = tbl s \<and> clock s' = clock s"
  unfolding query_def by (auto simp: bindE_ok dest!: tick_run)

lemma query_err: "query f s = (Inl e, s') \<Longrightarrow> e = ErrIO \<and> tbl s' = tbl s"
  unfolding query_def by (auto simp: bindE_err dest: tick_err tick_run)

lemma exec_ok: "exec f s = (Inr x, s') \<Longrightarrow> tbl s' = f (clock s) (tbl s) \<and> clock s' = clock s"
  unfolding exec_def by (auto simp: bindE_ok dest!: tick_run)

lemma exec_err: "exec f s = (Inl e, s') \<Longrightarrow> e = ErrIO \<and> tbl s' = tbl s"
  unfolding exec_def by (auto simp: bindE_err dest: tick_err tick_run)

lemma exec_rows_ok:
  fixes f :: "int \<Rightarrow> tables \<Rightarrow> 'b \<times> tables"
  assumes "exec_rows f s = (Inr n, s')"
  shows "n = fst (f (clock s) (tbl s)) \<and> tbl s' = snd (f (clock s) (tbl s)) \<and> clock s' = clock s"
proof -
  from assms obtain u where u: "tick s = (Inr (), u)"
    and r: "(case f (clock u) (tbl u) of (n, t) \<Rightarrow> (Inr n :: err + 'b, u\<lparr>tbl := t\<rparr>)) = (Inr n, s')"
    unfolding exec_rows_def by (auto simp: bindE_ok)
  from tick_run [OF u] r show ?thesis
    by (cases "f (clock s) (tbl s)") auto
qed

lemma exec_rows_err:
  assumes "exec_rows f s = (Inl e, s')"
  shows "e = ErrIO \<and> tbl s' = tbl s"
proof -
  from assms have "tick s = (Inl e, s')"
    unfolding exec_rows_def by (auto simp: bindE_err split: prod.splits)
  then show ?thesis by (auto dest: tick_err tick_run)
qed

text \<open>Atomicity: a transaction that reports an error changed no table.\<close>

lemma in_tx_err:
  assumes "in_tx body s = (Inl e, s')"
  shows "tbl s' = tbl s"
proof (cases "tick s")
  case (Pair r t)
  from tick_run [OF Pair] have "tbl t = tbl s" by simp
  with assms Pair show ?thesis
    unfolding in_tx_def bindE_def
    by (cases r; cases "body t") (auto split: sum.splits tx.splits prod.splits)
qed

lemma run_tx_err: "run_tx body s = (Inl e, s') \<Longrightarrow> tbl s' = tbl s"
  unfolding run_tx_def by (rule in_tx_err)

text \<open>An error of a transaction is a failed \<open>BEGIN\<close> or \<open>COMMIT\<close> or an error of its body.\<close>

lemma in_tx_errE:
  assumes "in_tx body s = (Inl e, s')"
  obtains (io) "e = ErrIO"
  | (body) t u where "tbl t = tbl s" and "clock t = clock s" and "body t = (Inl e, u)"
proof (cases "tick s")
  case (Pair q t)
  note tt = tick_run [OF Pair]
  show thesis
  proof (cases q)
    case (Inl e')
    with assms Pair tick_err [of s e' t] io show thesis by (auto simp: in_tx_def bindE_def)
  next
    case (Inr x)
    obtain r u where r: "body t = (r, u)" by (cases "body t") auto
    consider e' where "r = Inl e'" | z where "r = Inr (Commit z)" | z where "r = Inr (Abort z)"
      by (metis sum.exhaust tx.exhaust)
    then show thesis
    proof cases
      case 1
      with assms Pair Inr r tt body show thesis by (auto simp: in_tx_def bindE_def)
    next
      case 2
      with assms Pair Inr r io show thesis
        by (cases "tick u") (auto simp: in_tx_def bindE_def dest: tick_err split: sum.splits)
    next
      case 3
      with assms Pair Inr r show thesis by (simp add: in_tx_def bindE_def)
    qed
  qed
qed

lemma run_tx_errE:
  assumes "run_tx body s = (Inl e, s')"
  obtains (io) "e = ErrIO"
  | (body) t u where "tbl t = tbl s" and "clock t = clock s" and "body t = (Inl e, u)"
  using assms unfolding run_tx_def
  by (elim in_tx_errE) (auto simp: bindE_err)

lemma in_tx_ok:
  assumes "in_tx body s = (Inr x, s')"
  obtains (commit) t u where "tbl t = tbl s" and "clock t = clock s"
    and "body t = (Inr (Commit x), u)" and "tbl s' = tbl u"
  | (abort) t u where "tbl t = tbl s" and "clock t = clock s"
    and "body t = (Inr (Abort x), u)" and "tbl s' = tbl s"
proof (cases "tick s")
  case (Pair q t)
  with assms obtain "q = Inr ()" unfolding in_tx_def by (cases q) (auto simp: bindE_def)
  note t = Pair [unfolded this] and tt = tick_run [OF Pair]
  obtain r u where r: "body t = (r, u)" by (cases "body t") auto
  consider e where "r = Inl e" | z where "r = Inr (Commit z)" | z where "r = Inr (Abort z)"
    by (metis sum.exhaust tx.exhaust)
  then show thesis
  proof cases
    case 1
    with assms t r show thesis by (simp add: in_tx_def bindE_def)
  next
    case (2 z)
    with assms t r have "z = x \<and> tbl s' = tbl u"
      by (cases "tick u") (auto simp: in_tx_def bindE_def dest: tick_run split: sum.splits)
    with 2 r tt commit show thesis by blast
  next
    case (3 z)
    with assms t r have "z = x \<and> s' = u\<lparr>tbl := tbl t\<rparr>" by (simp add: in_tx_def bindE_def)
    with 3 r tt abort [of t u] show thesis by auto
  qed
qed

lemma run_tx_ok:
  assumes "run_tx body s = (Inr x, s')"
  obtains t u where "tbl t = tbl s" and "clock t = clock s" and "body t = (Inr x, u)"
    and "tbl s' = tbl u"
  using assms unfolding run_tx_def
  by (elim in_tx_ok) (auto simp: bindE_ok)

lemma raises_query [raises_intros]: "ErrIO \<in> E \<Longrightarrow> raises E (query f)"
  by (rule raisesI) (auto dest: query_err)

lemma raises_exec [raises_intros]: "ErrIO \<in> E \<Longrightarrow> raises E (exec f)"
  by (rule raisesI) (auto dest: exec_err)

lemma raises_exec_rows [raises_intros]: "ErrIO \<in> E \<Longrightarrow> raises E (exec_rows f)"
  by (rule raisesI) (auto dest: exec_rows_err)

lemma raises_in_tx [raises_intros]: "ErrIO \<in> E \<Longrightarrow> raises E body \<Longrightarrow> raises E (in_tx body)"
  by (rule raisesI, erule in_tx_errE) (auto dest: raisesD)

lemma raises_run_tx [raises_intros]: "ErrIO \<in> E \<Longrightarrow> raises E body \<Longrightarrow> raises E (run_tx body)"
  by (rule raisesI, erule run_tx_errE) (auto dest: raisesD)

text \<open>Without faults the statements and transactions are the table functions themselves.\<close>

lemma query_nofault [sql_simps]: "faults s = [] \<Longrightarrow> query f s = (Inr (f (tbl s)), s)"
  by (simp add: query_def bindE_def tick_nofault gets_def)

lemma exec_nofault [sql_simps]:
  "faults s = [] \<Longrightarrow> exec f s = (Inr (), s\<lparr>tbl := f (clock s) (tbl s)\<rparr>)"
  by (simp add: exec_def bindE_def tick_nofault modify_def)

lemma exec_rows_nofault [sql_simps]:
  "faults s = [] \<Longrightarrow>
   exec_rows f s = (Inr (fst (f (clock s) (tbl s))), s\<lparr>tbl := snd (f (clock s) (tbl s))\<rparr>)"
  by (simp add: exec_rows_def bindE_def tick_nofault split: prod.splits)

section \<open>Statements that keep the schema invariant\<close>

text \<open>
  One rule per table and kind of statement: an upsert or insert-or-ignore whose conflict
  target is the unique index, an update that leaves the index columns and the id alone, and
  any delete.
\<close>

lemma wf_ignore_packages:
  assumes "wf_tables t" and "(pkg_type new, pkg_name new) = k" and "pkg_id new = seq_packages t"
  shows "wf_tables (t\<lparr>packages := insert_ignore (\<lambda>r. (pkg_type r, pkg_name r) = k) new (packages t), seq_packages := seq_packages t + 1\<rparr>)"
  using assms pkgs.unique_insert_ignore [of "packages t" new k]
    pkgs.fresh_insert_ignore [of "seq_packages t" "packages t" new "\<lambda>r. (pkg_type r, pkg_name r) = k"]
  by (simp add: wf_tables_def)

lemma wf_update_packages:
  assumes "wf_tables t" and "\<And>r. p r \<Longrightarrow> (pkg_type (f r), pkg_name (f r)) = (pkg_type r, pkg_name r)" and "\<And>r. p r \<Longrightarrow> pkg_id (f r) = pkg_id r"
  shows "wf_tables (t\<lparr>packages := update_where p f (packages t)\<rparr>)"
  using assms pkgs.unique_update [of "packages t" p f] pkgs.fresh_update [of "seq_packages t" "packages t" p f]
  by (simp add: wf_tables_def)

lemma wf_delete_packages:
  "wf_tables t \<Longrightarrow> wf_tables (t\<lparr>packages := delete_where p (packages t)\<rparr>)"
  by (simp add: wf_tables_def pkgs.unique_delete pkgs.fresh_delete)

lemma wf_upsert_package_versions:
  assumes "wf_tables t" and "(ver_package new, ver_version new) = k" and "ver_id new = seq_versions t"
    and "\<And>r. (ver_package r, ver_version r) = k \<Longrightarrow> (ver_package (f r), ver_version (f r)) = k" and "\<And>r. (ver_package r, ver_version r) = k \<Longrightarrow> ver_id (f r) = ver_id r"
  shows "wf_tables (t\<lparr>package_versions := upsert_where (\<lambda>r. (ver_package r, ver_version r) = k) f new (package_versions t), seq_versions := seq_versions t + 1\<rparr>)"
  using assms vers.unique_upsert [of "package_versions t" k f new]
    vers.fresh_upsert [of "seq_versions t" "package_versions t" "\<lambda>r. (ver_package r, ver_version r) = k" f new]
  by (simp add: wf_tables_def)

lemma wf_ignore_package_versions:
  assumes "wf_tables t" and "(ver_package new, ver_version new) = k" and "ver_id new = seq_versions t"
  shows "wf_tables (t\<lparr>package_versions := insert_ignore (\<lambda>r. (ver_package r, ver_version r) = k) new (package_versions t), seq_versions := seq_versions t + 1\<rparr>)"
  using assms vers.unique_insert_ignore [of "package_versions t" new k]
    vers.fresh_insert_ignore [of "seq_versions t" "package_versions t" new "\<lambda>r. (ver_package r, ver_version r) = k"]
  by (simp add: wf_tables_def)

lemma wf_delete_package_versions:
  "wf_tables t \<Longrightarrow> wf_tables (t\<lparr>package_versions := delete_where p (package_versions t)\<rparr>)"
  by (simp add: wf_tables_def vers.unique_delete vers.fresh_delete)

lemma wf_upsert_package_files:
  assumes "wf_tables t" and "(file_version new, file_name new) = k" and "file_id new = seq_files t"
    and "\<And>r. (file_version r, file_name r) = k \<Longrightarrow> (file_version (f r), file_name (f r)) = k" and "\<And>r. (file_version r, file_name r) = k \<Longrightarrow> file_id (f r) = file_id r"
  shows "wf_tables (t\<lparr>package_files := upsert_where (\<lambda>r. (file_version r, file_name r) = k) f new (package_files t), seq_files := seq_files t + 1\<rparr>)"
  using assms fils.unique_upsert [of "package_files t" k f new]
    fils.fresh_upsert [of "seq_files t" "package_files t" "\<lambda>r. (file_version r, file_name r) = k" f new]
  by (simp add: wf_tables_def)

lemma wf_delete_package_files:
  "wf_tables t \<Longrightarrow> wf_tables (t\<lparr>package_files := delete_where p (package_files t)\<rparr>)"
  by (simp add: wf_tables_def fils.unique_delete fils.fresh_delete)

lemma wf_upsert_package_tags:
  assumes "wf_tables t" and "(tag_package new, tag_name new) = k" and "tag_id new = seq_tags t"
    and "\<And>r. (tag_package r, tag_name r) = k \<Longrightarrow> (tag_package (f r), tag_name (f r)) = k" and "\<And>r. (tag_package r, tag_name r) = k \<Longrightarrow> tag_id (f r) = tag_id r"
  shows "wf_tables (t\<lparr>package_tags := upsert_where (\<lambda>r. (tag_package r, tag_name r) = k) f new (package_tags t), seq_tags := seq_tags t + 1\<rparr>)"
  using assms tgs.unique_upsert [of "package_tags t" k f new]
    tgs.fresh_upsert [of "seq_tags t" "package_tags t" "\<lambda>r. (tag_package r, tag_name r) = k" f new]
  by (simp add: wf_tables_def)

lemma wf_delete_package_tags:
  "wf_tables t \<Longrightarrow> wf_tables (t\<lparr>package_tags := delete_where p (package_tags t)\<rparr>)"
  by (simp add: wf_tables_def tgs.unique_delete tgs.fresh_delete)

lemma wf_ignore_deleted_versions:
  assumes "wf_tables t" and "(del_type new, del_name new, del_version new) = k" and "del_id new = seq_deleted t"
  shows "wf_tables (t\<lparr>deleted_versions := insert_ignore (\<lambda>r. (del_type r, del_name r, del_version r) = k) new (deleted_versions t), seq_deleted := seq_deleted t + 1\<rparr>)"
  using assms dels.unique_insert_ignore [of "deleted_versions t" new k]
    dels.fresh_insert_ignore [of "seq_deleted t" "deleted_versions t" new "\<lambda>r. (del_type r, del_name r, del_version r) = k"]
  by (simp add: wf_tables_def)

lemma wf_delete_deleted_versions:
  "wf_tables t \<Longrightarrow> wf_tables (t\<lparr>deleted_versions := delete_where p (deleted_versions t)\<rparr>)"
  by (simp add: wf_tables_def dels.unique_delete dels.fresh_delete)

lemma wf_upsert_blobs:
  assumes "wf_tables t" and "blob_digest new = k" and "blob_id new = seq_blobs t"
    and "\<And>r. blob_digest r = k \<Longrightarrow> blob_digest (f r) = k" and "\<And>r. blob_digest r = k \<Longrightarrow> blob_id (f r) = blob_id r"
  shows "wf_tables (t\<lparr>blobs := upsert_where (\<lambda>r. blob_digest r = k) f new (blobs t), seq_blobs := seq_blobs t + 1\<rparr>)"
  using assms blbs.unique_upsert [of "blobs t" k f new]
    blbs.fresh_upsert [of "seq_blobs t" "blobs t" "\<lambda>r. blob_digest r = k" f new]
  by (simp add: wf_tables_def)

lemma wf_update_blobs:
  assumes "wf_tables t" and "\<And>r. p r \<Longrightarrow> blob_digest (f r) = blob_digest r" and "\<And>r. p r \<Longrightarrow> blob_id (f r) = blob_id r"
  shows "wf_tables (t\<lparr>blobs := update_where p f (blobs t)\<rparr>)"
  using assms blbs.unique_update [of "blobs t" p f] blbs.fresh_update [of "seq_blobs t" "blobs t" p f]
  by (simp add: wf_tables_def)

lemma wf_delete_blobs:
  "wf_tables t \<Longrightarrow> wf_tables (t\<lparr>blobs := delete_where p (blobs t)\<rparr>)"
  by (simp add: wf_tables_def blbs.unique_delete blbs.fresh_delete)

lemma wf_upsert_peer_blobs:
  assumes "wf_tables t" and "(pb_actor new, pb_digest new) = k" and "pb_id new = seq_peer_blobs t"
    and "\<And>r. (pb_actor r, pb_digest r) = k \<Longrightarrow> (pb_actor (f r), pb_digest (f r)) = k" and "\<And>r. (pb_actor r, pb_digest r) = k \<Longrightarrow> pb_id (f r) = pb_id r"
  shows "wf_tables (t\<lparr>peer_blobs := upsert_where (\<lambda>r. (pb_actor r, pb_digest r) = k) f new (peer_blobs t), seq_peer_blobs := seq_peer_blobs t + 1\<rparr>)"
  using assms pbls.unique_upsert [of "peer_blobs t" k f new]
    pbls.fresh_upsert [of "seq_peer_blobs t" "peer_blobs t" "\<lambda>r. (pb_actor r, pb_digest r) = k" f new]
  by (simp add: wf_tables_def)

lemma wf_delete_peer_blobs:
  "wf_tables t \<Longrightarrow> wf_tables (t\<lparr>peer_blobs := delete_where p (peer_blobs t)\<rparr>)"
  by (simp add: wf_tables_def pbls.unique_delete pbls.fresh_delete)

lemma wf_upsert_actors:
  assumes "wf_tables t" and "act_url new = k" and "act_id new = seq_actors t"
    and "\<And>r. act_url r = k \<Longrightarrow> act_url (f r) = k" and "\<And>r. act_url r = k \<Longrightarrow> act_id (f r) = act_id r"
  shows "wf_tables (t\<lparr>actors := upsert_where (\<lambda>r. act_url r = k) f new (actors t), seq_actors := seq_actors t + 1\<rparr>)"
  using assms acts.unique_upsert [of "actors t" k f new]
    acts.fresh_upsert [of "seq_actors t" "actors t" "\<lambda>r. act_url r = k" f new]
  by (simp add: wf_tables_def)

lemma wf_update_actors:
  assumes "wf_tables t" and "\<And>r. p r \<Longrightarrow> act_url (f r) = act_url r" and "\<And>r. p r \<Longrightarrow> act_id (f r) = act_id r"
  shows "wf_tables (t\<lparr>actors := update_where p f (actors t)\<rparr>)"
  using assms acts.unique_update [of "actors t" p f] acts.fresh_update [of "seq_actors t" "actors t" p f]
  by (simp add: wf_tables_def)

lemma wf_delete_actors:
  "wf_tables t \<Longrightarrow> wf_tables (t\<lparr>actors := delete_where p (actors t)\<rparr>)"
  by (simp add: wf_tables_def acts.unique_delete acts.fresh_delete)

lemma wf_upsert_follow_requests:
  assumes "wf_tables t" and "fr_url new = k" and "fr_id new = seq_requests t"
    and "\<And>r. fr_url r = k \<Longrightarrow> fr_url (f r) = k" and "\<And>r. fr_url r = k \<Longrightarrow> fr_id (f r) = fr_id r"
  shows "wf_tables (t\<lparr>follow_requests := upsert_where (\<lambda>r. fr_url r = k) f new (follow_requests t), seq_requests := seq_requests t + 1\<rparr>)"
  using assms reqs.unique_upsert [of "follow_requests t" k f new]
    reqs.fresh_upsert [of "seq_requests t" "follow_requests t" "\<lambda>r. fr_url r = k" f new]
  by (simp add: wf_tables_def)

lemma wf_update_follow_requests:
  assumes "wf_tables t" and "\<And>r. p r \<Longrightarrow> fr_url (f r) = fr_url r" and "\<And>r. p r \<Longrightarrow> fr_id (f r) = fr_id r"
  shows "wf_tables (t\<lparr>follow_requests := update_where p f (follow_requests t)\<rparr>)"
  using assms reqs.unique_update [of "follow_requests t" p f] reqs.fresh_update [of "seq_requests t" "follow_requests t" p f]
  by (simp add: wf_tables_def)

lemma wf_delete_follow_requests:
  "wf_tables t \<Longrightarrow> wf_tables (t\<lparr>follow_requests := delete_where p (follow_requests t)\<rparr>)"
  by (simp add: wf_tables_def reqs.unique_delete reqs.fresh_delete)

lemma wf_ignore_activities:
  assumes "wf_tables t" and "av_activity_id new = k" and "av_id new = seq_activities t"
  shows "wf_tables (t\<lparr>activities := insert_ignore (\<lambda>r. av_activity_id r = k) new (activities t), seq_activities := seq_activities t + 1\<rparr>)"
  using assms avts.unique_insert_ignore [of "activities t" new k]
    avts.fresh_insert_ignore [of "seq_activities t" "activities t" new "\<lambda>r. av_activity_id r = k"]
  by (simp add: wf_tables_def)

lemma wf_ignore_upload_sessions:
  assumes "wf_tables t" and "up_uuid new = k" and "up_id new = seq_uploads t"
  shows "wf_tables (t\<lparr>upload_sessions := insert_ignore (\<lambda>r. up_uuid r = k) new (upload_sessions t), seq_uploads := seq_uploads t + 1\<rparr>)"
  using assms upls.unique_insert_ignore [of "upload_sessions t" new k]
    upls.fresh_insert_ignore [of "seq_uploads t" "upload_sessions t" new "\<lambda>r. up_uuid r = k"]
  by (simp add: wf_tables_def)

lemma wf_delete_upload_sessions:
  "wf_tables t \<Longrightarrow> wf_tables (t\<lparr>upload_sessions := delete_where p (upload_sessions t)\<rparr>)"
  by (simp add: wf_tables_def upls.unique_delete upls.fresh_delete)

lemma wf_ignore_delivery_queue:
  assumes "wf_tables t" and "(dv_activity new, dv_inbox new) = k" and "dv_id new = seq_deliveries t"
  shows "wf_tables (t\<lparr>delivery_queue := insert_ignore (\<lambda>r. (dv_activity r, dv_inbox r) = k) new (delivery_queue t), seq_deliveries := seq_deliveries t + 1\<rparr>)"
  using assms dvls.unique_insert_ignore [of "delivery_queue t" new k]
    dvls.fresh_insert_ignore [of "seq_deliveries t" "delivery_queue t" new "\<lambda>r. (dv_activity r, dv_inbox r) = k"]
  by (simp add: wf_tables_def)

lemma wf_update_delivery_queue:
  assumes "wf_tables t" and "\<And>r. p r \<Longrightarrow> (dv_activity (f r), dv_inbox (f r)) = (dv_activity r, dv_inbox r)" and "\<And>r. p r \<Longrightarrow> dv_id (f r) = dv_id r"
  shows "wf_tables (t\<lparr>delivery_queue := update_where p f (delivery_queue t)\<rparr>)"
  using assms dvls.unique_update [of "delivery_queue t" p f] dvls.fresh_update [of "seq_deliveries t" "delivery_queue t" p f]
  by (simp add: wf_tables_def)

lemma wf_delete_delivery_queue:
  "wf_tables t \<Longrightarrow> wf_tables (t\<lparr>delivery_queue := delete_where p (delivery_queue t)\<rparr>)"
  by (simp add: wf_tables_def dvls.unique_delete dvls.fresh_delete)

lemmas wf_intros =
  wf_ignore_packages wf_update_packages wf_delete_packages wf_upsert_package_versions
  wf_ignore_package_versions wf_delete_package_versions wf_upsert_package_files
  wf_delete_package_files wf_upsert_package_tags wf_delete_package_tags
  wf_ignore_deleted_versions wf_delete_deleted_versions wf_upsert_blobs wf_update_blobs
  wf_delete_blobs wf_upsert_peer_blobs wf_delete_peer_blobs wf_upsert_actors
  wf_update_actors wf_delete_actors wf_upsert_follow_requests wf_update_follow_requests
  wf_delete_follow_requests wf_ignore_activities wf_ignore_upload_sessions
  wf_delete_upload_sessions wf_ignore_delivery_queue wf_update_delivery_queue
  wf_delete_delivery_queue

section \<open>The frame of a database call\<close>

text \<open>
  A component that calls the database keeps further state in a record that extends \<open>store\<close>. A
  database call changes only the tables and consumes only faults; the rest of the record, the clock
  and the dialect are its frame.
\<close>

definition db_frame :: "'z store_scheme \<Rightarrow> 'z store_scheme \<Rightarrow> bool" where
  "db_frame s s' \<longleftrightarrow> (\<exists>t fs. s' = s\<lparr>tbl := t, faults := fs\<rparr>)"

lemma db_frameI: "s' = s\<lparr>tbl := t, faults := fs\<rparr> \<Longrightarrow> db_frame s s'"
  unfolding db_frame_def by blast

lemma db_frameE: "db_frame s s' \<Longrightarrow> (\<And>t fs. s' = s\<lparr>tbl := t, faults := fs\<rparr> \<Longrightarrow> R) \<Longrightarrow> R"
  unfolding db_frame_def by blast

lemma db_frame_refl [simp]: "db_frame s s"
  by (rule db_frameI [where t = "tbl s" and fs = "faults s"]) simp

lemma db_frame_trans: "db_frame s s' \<Longrightarrow> db_frame s' s'' \<Longrightarrow> db_frame s s''"
  by (elim db_frameE, rule db_frameI) simp

lemma db_frame_tbl: "db_frame s u \<Longrightarrow> db_frame s (u\<lparr>tbl := t\<rparr>)"
  by (elim db_frameE, rule db_frameI [where t = t and fs = "faults u"]) (cases s, simp)

lemma db_frame_faults: "db_frame s u \<Longrightarrow> db_frame s (u\<lparr>faults := fs\<rparr>)"
  by (elim db_frameE, rule db_frameI [where t = "tbl u" and fs = fs]) (cases s, simp)

lemma keeps_frame_tick [keeps_intros]: "keeps (db_frame s) tick"
  by (rule keepsI) (auto simp: tick_def db_frame_faults split: list.splits)

lemma keeps_frame_query [keeps_intros]: "keeps (db_frame s) (query f)"
  unfolding query_def by (intro keeps_intros)

lemma keeps_frame_exec [keeps_intros]: "keeps (db_frame s) (exec f)"
  unfolding exec_def by (intro keeps_intros keeps_modify db_frame_tbl)

lemma keeps_frame_exec_rows [keeps_intros]: "keeps (db_frame s) (exec_rows f)"
  unfolding exec_rows_def by (intro keeps_intros keepsI) (auto split: prod.splits intro: db_frame_tbl)

lemma keeps_frame_in_tx [keeps_intros]:
  assumes "keeps (db_frame s) body"
  shows "keeps (db_frame s) (in_tx body)"
  unfolding in_tx_def
proof (intro keeps_bindE keeps_frame_tick keepsI)
  fix u :: "'a store_scheme"
  assume u: "db_frame s u"
  obtain r v where b: "body u = (r, v)" by (cases "body u") auto
  have v: "db_frame s v" by (rule keepsD [OF assms u b])
  obtain q w where t: "tick v = (q, w)" by (cases "tick v") auto
  have w: "db_frame s w" by (rule keepsD [OF keeps_frame_tick v t])
  show "db_frame s (snd (case body u of (Inl e, s') \<Rightarrow> (Inl e, s'\<lparr>tbl := tbl u\<rparr>)
    | (Inr (Abort x), s') \<Rightarrow> (Inr x, s'\<lparr>tbl := tbl u\<rparr>)
    | (Inr (Commit x), s') \<Rightarrow> (case tick s' of (Inl e, s'') \<Rightarrow> (Inl e, s''\<lparr>tbl := tbl u\<rparr>)
        | (Inr _, s'') \<Rightarrow> (Inr x, s''))))"
    using v w by (simp add: b t db_frame_tbl split: sum.splits tx.splits)
qed

lemma keeps_frame_run_tx [keeps_intros]: "keeps (db_frame s) body \<Longrightarrow> keeps (db_frame s) (run_tx body)"
  unfolding run_tx_def by (intro keeps_intros)

end
