(* ===== verification/Packages.thy ===== *)
theory Packages
  imports Models
begin

text \<open>
  \<open>internal/database/packages.go\<close>: the generic package tables and the OCI-shaped view of
  them. Each method is one definition with its Go name; the statements are those of the
  source, in its order, with its conflict targets and its transaction boundaries. A row a
  \<open>SELECT\<close> did not find (\<open>sql.ErrNoRows\<close>) is \<open>None\<close>, as the methods return a nil pointer.
\<close>

section \<open>Packages\<close>

definition ociPackageType :: string where "ociPackageType = ''oci''"

definition GetPackage :: "string \<Rightarrow> string \<Rightarrow> ('z store_scheme, Package option) prog" where
  "GetPackage pkgType name =
     query (\<lambda>t. find_where (\<lambda>r. (pkg_type r, pkg_name r) = (pkgType, name)) (packages t))"

definition GetPackageByID :: "int \<Rightarrow> ('z store_scheme, Package option) prog" where
  "GetPackageByID pid = query (\<lambda>t. find_where (\<lambda>r. pkg_id r = pid) (packages t))"

text \<open>The row an \<open>INSERT INTO packages (type, name, owner_id)\<close> creates.\<close>

definition new_package :: "int \<Rightarrow> tables \<Rightarrow> string \<Rightarrow> string \<Rightarrow> string \<Rightarrow> Package" where
  "new_package c t pkgType name ownerID =
     \<lparr>pkg_id = seq_packages t, pkg_type = pkgType, pkg_name = name, pkg_owner = ownerID,
      pkg_private = False, pkg_created = c, pkg_withdrawn = None\<rparr>"

text \<open>The selected columns of \<open>GetOrCreatePackage\<close> leave out \<open>federation_withdrawn_at\<close>.\<close>

definition GetOrCreatePackage :: "string \<Rightarrow> string \<Rightarrow> string \<Rightarrow> ('z store_scheme, Package) prog" where
  "GetOrCreatePackage pkgType name ownerID = in_tx (
     bindE (query (\<lambda>t. find_where (\<lambda>r. (pkg_type r, pkg_name r) = (pkgType, name)) (packages t)))
     (\<lambda>existing. case existing of
         Some p \<Rightarrow> if pkg_owner p \<noteq> ownerID then fail ErrPackageOwnerMismatch
                   else ret (Abort (p\<lparr>pkg_withdrawn := None\<rparr>))
       | None \<Rightarrow>
     bindE (exec (\<lambda>c t. t\<lparr>packages := insert_ignore
              (\<lambda>r. (pkg_type r, pkg_name r) = (pkgType, name))
              (new_package c t pkgType name ownerID) (packages t),
            seq_packages := seq_packages t + 1\<rparr>)) (\<lambda>_.
     bindE (query (\<lambda>t. find_where (\<lambda>r. (pkg_type r, pkg_name r) = (pkgType, name)) (packages t)))
     (\<lambda>pkg. case pkg of
         None \<Rightarrow> fail (Errorf ''reading package after create'')
       | Some p \<Rightarrow> if pkg_owner p \<noteq> ownerID then fail ErrPackageOwnerMismatch
                   else ret (Commit (p\<lparr>pkg_withdrawn := None\<rparr>))))))"

text \<open>\<open>bun\<close>'s \<open>Limit(n)\<close> adds a clause only for a positive \<open>n\<close>.\<close>

definition bun_limit :: "int \<Rightarrow> 'r list \<Rightarrow> 'r list" where
  "bun_limit n rows = (if 0 < n then take (nat n) rows else rows)"

definition ListPackages :: "string \<Rightarrow> string \<Rightarrow> int \<Rightarrow> ('z store_scheme, Package list) prog" where
  "ListPackages pkgType startAfter limit = query (\<lambda>t. bun_limit limit (order_by pkg_name
     (select_where (\<lambda>r. pkg_type r = pkgType \<and> startAfter < pkg_name r) (packages t))))"

definition SetPackagePrivate :: "int \<Rightarrow> bool \<Rightarrow> ('z store_scheme, unit) prog" where
  "SetPackagePrivate pid private = exec (\<lambda>_ t. t\<lparr>packages :=
     update_where (\<lambda>r. pkg_id r = pid) (\<lambda>r. r\<lparr>pkg_private := private\<rparr>) (packages t)\<rparr>)"

definition IsPackageOwner :: "int \<Rightarrow> string \<Rightarrow> ('z store_scheme, bool) prog" where
  "IsPackageOwner packageID ownerID =
     bindE (query (\<lambda>t. find_where (\<lambda>r. pkg_id r = packageID) (packages t)))
     (\<lambda>got. case got of None \<Rightarrow> ret False | Some p \<Rightarrow> ret (pkg_owner p = ownerID))"

definition ListPackagesPendingWithdrawal :: "string \<Rightarrow> ('z store_scheme, Package list) prog" where
  "ListPackagesPendingWithdrawal pkgType = query (\<lambda>t.
     select_where (\<lambda>r. pkg_type r = pkgType \<and> pkg_withdrawn r = None) (packages t))"

definition MarkPackageWithdrawn :: "int \<Rightarrow> ('z store_scheme, unit) prog" where
  "MarkPackageWithdrawn packageID = exec (\<lambda>c t. t\<lparr>packages :=
     update_where (\<lambda>r. pkg_id r = packageID) (\<lambda>r. r\<lparr>pkg_withdrawn := Some c\<rparr>) (packages t)\<rparr>)"

section \<open>Versions\<close>

definition getPackageVersion :: "int \<Rightarrow> string \<Rightarrow> ('z store_scheme, PackageVersion option) prog" where
  "getPackageVersion packageID version = query (\<lambda>t.
     find_where (\<lambda>r. (ver_package r, ver_version r) = (packageID, version)) (package_versions t))"

definition GetPackageVersion :: "int \<Rightarrow> string \<Rightarrow> ('z store_scheme, PackageVersion option) prog" where
  "GetPackageVersion packageID version = getPackageVersion packageID version"

text \<open>The join of \<open>package_versions\<close> with the tag row of that name.\<close>

definition GetPackageVersionByTag :: "int \<Rightarrow> string \<Rightarrow> ('z store_scheme, PackageVersion option) prog" where
  "GetPackageVersionByTag packageID tagName = query (\<lambda>t. find_where
     (\<lambda>v. ver_package v = packageID \<and> exists_where
        (\<lambda>g. tag_package g = ver_package v \<and> tag_version g = ver_version v \<and> tag_name g = tagName)
        (package_tags t))
     (package_versions t))"

text \<open>The columns the upsert of a version overwrites; id and creation time stay.\<close>

definition overwrite_version :: "PackageVersion \<Rightarrow> PackageVersion \<Rightarrow> PackageVersion" where
  "overwrite_version v r = r\<lparr>ver_metadata := ver_metadata v, ver_media_type := ver_media_type v,
     ver_size := ver_size v, ver_source := ver_source v, ver_subject := ver_subject v,
     ver_artifact := ver_artifact v\<rparr>"

definition upsert_version :: "PackageVersion \<Rightarrow> int \<Rightarrow> tables \<Rightarrow> tables" where
  "upsert_version v c t = t\<lparr>package_versions := upsert_where
       (\<lambda>r. (ver_package r, ver_version r) = (ver_package v, ver_version v))
       (overwrite_version v) (v\<lparr>ver_id := seq_versions t, ver_created := c\<rparr>) (package_versions t),
     seq_versions := seq_versions t + 1\<rparr>"

text \<open>
  Returns the version as the caller sees it afterwards (the source writes it through the
  pointer): on Postgres the \<open>RETURNING\<close> clause gives id and creation time in the same
  statement, on SQLite a read-back replaces the whole row.
\<close>

definition putPackageVersion :: "PackageVersion \<Rightarrow> ('z store_scheme, PackageVersion) prog" where
  "putPackageVersion v = bindE (gets postgres) (\<lambda>pg.
     if pg then
       exec_rows (\<lambda>c t. let t' = upsert_version v c t in
         (case find_where (\<lambda>r. (ver_package r, ver_version r) = (ver_package v, ver_version v))
                 (package_versions t') of
            None \<Rightarrow> v
          | Some r \<Rightarrow> v\<lparr>ver_id := ver_id r, ver_created := ver_created r\<rparr>, t'))
     else
       bindE (exec (upsert_version v)) (\<lambda>_.
       bindE (getPackageVersion (ver_package v) (ver_version v))
       (\<lambda>got. case got of None \<Rightarrow> ret v | Some r \<Rightarrow> ret r)))"

definition PutPackageVersion :: "PackageVersion \<Rightarrow> ('z store_scheme, PackageVersion) prog" where
  "PutPackageVersion v = putPackageVersion v"

definition InsertPackageVersionIfNew ::
  "PackageVersion \<Rightarrow> ('z store_scheme, bool \<times> PackageVersion) prog" where
  "InsertPackageVersionIfNew v =
     bindE (exec_rows (\<lambda>c t. (
         if exists_where (\<lambda>r. (ver_package r, ver_version r) = (ver_package v, ver_version v))
              (package_versions t) then 0 else 1 :: nat,
         t\<lparr>package_versions := insert_ignore
              (\<lambda>r. (ver_package r, ver_version r) = (ver_package v, ver_version v))
              (v\<lparr>ver_id := seq_versions t, ver_created := c\<rparr>) (package_versions t),
           seq_versions := seq_versions t + 1\<rparr>))) (\<lambda>n.
     bindE tick (\<lambda>_.
     if n = 0 then ret (False, v)
     else bindE (getPackageVersion (ver_package v) (ver_version v))
       (\<lambda>got. case got of None \<Rightarrow> ret (True, v) | Some r \<Rightarrow> ret (True, r))))"

definition ListPackageVersions :: "int \<Rightarrow> ('z store_scheme, PackageVersion list) prog" where
  "ListPackageVersions packageID = query (\<lambda>t. order_by_desc ver_created
     (select_where (\<lambda>r. ver_package r = packageID) (package_versions t)))"

definition ListPackageVersionsBySubject ::
  "int \<Rightarrow> string \<Rightarrow> ('z store_scheme, PackageVersion list) prog" where
  "ListPackageVersionsBySubject packageID subjectDigest = query (\<lambda>t.
     select_where (\<lambda>r. ver_package r = packageID \<and> ver_subject r = Some subjectDigest)
       (package_versions t))"

text \<open>\<open>DELETE\<close> statements the deletions share.\<close>

definition del_tags_of_version :: "int \<Rightarrow> string \<Rightarrow> int \<Rightarrow> tables \<Rightarrow> tables" where
  "del_tags_of_version packageID version _ t = t\<lparr>package_tags :=
     delete_where (\<lambda>r. tag_package r = packageID \<and> tag_version r = version) (package_tags t)\<rparr>"

definition del_files_of_version :: "int \<Rightarrow> int \<Rightarrow> tables \<Rightarrow> tables" where
  "del_files_of_version versionID _ t = t\<lparr>package_files :=
     delete_where (\<lambda>r. file_version r = versionID) (package_files t)\<rparr>"

definition del_version_row :: "int \<Rightarrow> int \<Rightarrow> tables \<Rightarrow> tables" where
  "del_version_row versionID _ t = t\<lparr>package_versions :=
     delete_where (\<lambda>r. ver_id r = versionID) (package_versions t)\<rparr>"

definition DeletePackageVersion :: "int \<Rightarrow> string \<Rightarrow> ('z store_scheme, unit) prog" where
  "DeletePackageVersion packageID version = in_tx (
     bindE (query (\<lambda>t. find_where (\<lambda>r. (ver_package r, ver_version r) = (packageID, version))
              (package_versions t))) (\<lambda>row. case row of
         None \<Rightarrow> ret (Abort ())
       | Some v \<Rightarrow>
     bindE (exec (del_tags_of_version packageID version)) (\<lambda>_.
     bindE (exec (del_files_of_version (ver_id v))) (\<lambda>_.
     bindE (exec (del_version_row (ver_id v))) (\<lambda>_. ret (Commit ()))))))"

section \<open>Files\<close>

definition PutPackageFile :: "PackageFile \<Rightarrow> ('z store_scheme, unit) prog" where
  "PutPackageFile f = exec (\<lambda>c t. t\<lparr>package_files := upsert_where
       (\<lambda>r. (file_version r, file_name r) = (file_version f, file_name f))
       (\<lambda>r. r\<lparr>file_blob := file_blob f, file_size := file_size f, file_ctype := file_ctype f\<rparr>)
       (f\<lparr>file_id := seq_files t, file_created := c\<rparr>) (package_files t),
     seq_files := seq_files t + 1\<rparr>)"

record BlobRef =
  ref_digest :: string
  ref_size :: int
  ref_media_type :: "string option"

definition upsert_blob_reference :: "int \<Rightarrow> BlobRef \<Rightarrow> int \<Rightarrow> tables \<Rightarrow> tables" where
  "upsert_blob_reference versionID b c t = t\<lparr>package_files := upsert_where
       (\<lambda>r. (file_version r, file_name r) = (versionID, ref_digest b))
       (\<lambda>r. r\<lparr>file_size := (if 0 < ref_size b then ref_size b else file_size r),
             file_ctype := coalesce (ref_media_type b) (file_ctype r)\<rparr>)
       \<lparr>file_id = seq_files t, file_version = versionID, file_name = ref_digest b,
        file_blob = ref_digest b, file_size = ref_size b, file_ctype = ref_media_type b,
        file_created = c\<rparr> (package_files t),
     seq_files := seq_files t + 1\<rparr>"

definition putBlobReferences :: "int \<Rightarrow> BlobRef list \<Rightarrow> ('z store_scheme, unit) prog" where
  "putBlobReferences versionID refs = foreach refs (\<lambda>r.
     if ref_digest r = '''' then ret () else exec (upsert_blob_reference versionID r))"

definition PutBlobReferences :: "int \<Rightarrow> BlobRef list \<Rightarrow> ('z store_scheme, unit) prog" where
  "PutBlobReferences versionID refs =
     (if refs = [] then ret () else run_tx (putBlobReferences versionID refs))"

definition GetPackageFile :: "int \<Rightarrow> string \<Rightarrow> ('z store_scheme, PackageFile option) prog" where
  "GetPackageFile versionID filename = query (\<lambda>t.
     find_where (\<lambda>r. (file_version r, file_name r) = (versionID, filename)) (package_files t))"

definition ListPackageFiles :: "int \<Rightarrow> ('z store_scheme, PackageFile list) prog" where
  "ListPackageFiles versionID = query (\<lambda>t. order_by file_name
     (select_where (\<lambda>r. file_version r = versionID) (package_files t)))"

definition DeletePackageFile :: "int \<Rightarrow> string \<Rightarrow> ('z store_scheme, unit) prog" where
  "DeletePackageFile versionID filename = exec (\<lambda>_ t. t\<lparr>package_files :=
     delete_where (\<lambda>r. file_version r = versionID \<and> file_name r = filename) (package_files t)\<rparr>)"

section \<open>Tags\<close>

definition GetPackageTag :: "int \<Rightarrow> string \<Rightarrow> ('z store_scheme, PackageTag option) prog" where
  "GetPackageTag packageID name = query (\<lambda>t.
     find_where (\<lambda>r. (tag_package r, tag_name r) = (packageID, name)) (package_tags t))"

definition upsert_tag :: "int \<Rightarrow> string \<Rightarrow> string \<Rightarrow> int \<Rightarrow> tables \<Rightarrow> tables" where
  "upsert_tag packageID name version c t = t\<lparr>package_tags := upsert_where
       (\<lambda>r. (tag_package r, tag_name r) = (packageID, name))
       (\<lambda>r. r\<lparr>tag_version := version, tag_updated := c\<rparr>)
       \<lparr>tag_id = seq_tags t, tag_package = packageID, tag_name = name, tag_version = version,
        tag_updated = c\<rparr> (package_tags t),
     seq_tags := seq_tags t + 1\<rparr>"

definition PutPackageTag :: "int \<Rightarrow> string \<Rightarrow> string \<Rightarrow> ('z store_scheme, unit) prog" where
  "PutPackageTag packageID name version = run_tx (
     bindE (query (\<lambda>t. exists_where (\<lambda>r. pkg_id r = packageID) (packages t))) (\<lambda>ex.
     if \<not> ex then fail ErrRepositoryGone
     else exec (upsert_tag packageID name version)))"

definition DeletePackageTag :: "int \<Rightarrow> string \<Rightarrow> ('z store_scheme, unit) prog" where
  "DeletePackageTag packageID name = exec (\<lambda>_ t. t\<lparr>package_tags :=
     delete_where (\<lambda>r. tag_package r = packageID \<and> tag_name r = name) (package_tags t)\<rparr>)"

definition ListPackageTagsAfter :: "int \<Rightarrow> string \<Rightarrow> int \<Rightarrow> ('z store_scheme, string list) prog" where
  "ListPackageTagsAfter packageID startAfter limit = query (\<lambda>t. limit_rows limit
     (map tag_name (order_by tag_name
       (select_where (\<lambda>r. tag_package r = packageID \<and> startAfter < tag_name r) (package_tags t)))))"

definition ListPackageTags :: "int \<Rightarrow> ('z store_scheme, PackageTag list) prog" where
  "ListPackageTags packageID = query (\<lambda>t. order_by tag_name
     (select_where (\<lambda>r. tag_package r = packageID) (package_tags t)))"

section \<open>Tombstones\<close>

definition IsVersionDeleted :: "string \<Rightarrow> string \<Rightarrow> string \<Rightarrow> ('z store_scheme, bool) prog" where
  "IsVersionDeleted pkgType packageName version =
     (if packageName = '''' then query (\<lambda>t.
        exists_where (\<lambda>r. del_type r = pkgType \<and> del_version r = version) (deleted_versions t))
      else query (\<lambda>t.
        exists_where (\<lambda>r. del_type r = pkgType \<and> del_name r = packageName \<and> del_version r = version)
          (deleted_versions t)))"

definition new_tombstone :: "int \<Rightarrow> int \<Rightarrow> string \<Rightarrow> string \<Rightarrow> string \<Rightarrow> string \<Rightarrow> DeletedVersion" where
  "new_tombstone did c pkgType packageName version sourceActor =
     \<lparr>del_id = did, del_type = pkgType, del_name = packageName, del_version = version,
      del_source = sourceActor, del_at = c\<rparr>"

definition insert_tombstone :: "string \<Rightarrow> string \<Rightarrow> string \<Rightarrow> string \<Rightarrow> int \<Rightarrow> tables \<Rightarrow> tables" where
  "insert_tombstone pkgType packageName sourceActor version c t = t\<lparr>deleted_versions := insert_ignore
       (\<lambda>r. (del_type r, del_name r, del_version r) = (pkgType, packageName, version))
       (new_tombstone (seq_deleted t) c pkgType packageName version sourceActor)
       (deleted_versions t),
     seq_deleted := seq_deleted t + 1\<rparr>"

definition RecordDeletedVersion ::
  "string \<Rightarrow> string \<Rightarrow> string \<Rightarrow> string \<Rightarrow> ('z store_scheme, unit) prog" where
  "RecordDeletedVersion pkgType packageName version sourceActor =
     exec (insert_tombstone pkgType packageName sourceActor version)"

definition PruneDeletedVersions :: "int \<Rightarrow> ('z store_scheme, nat) prog" where
  "PruneDeletedVersions olderThan = exec_rows (\<lambda>c t.
     (count_where (\<lambda>r. del_at r < c - olderThan) (deleted_versions t),
      t\<lparr>deleted_versions := delete_where (\<lambda>r. del_at r < c - olderThan) (deleted_versions t)\<rparr>))"

section \<open>The OCI view\<close>

definition packageAsRepository :: "Package \<Rightarrow> Repository" where
  "packageAsRepository p = \<lparr>repo_id = pkg_id p, repo_name = pkg_name p, repo_owner = pkg_owner p,
     repo_private = pkg_private p, repo_created = pkg_created p\<rparr>"

definition versionAsManifest :: "PackageVersion \<Rightarrow> Manifest" where
  "versionAsManifest v = \<lparr>man_id = ver_id v, man_repo = ver_package v, man_digest = ver_version v,
     man_media_type = ver_media_type v, man_size = ver_size v, man_content = ver_metadata v,
     man_source = ver_source v, man_subject = ver_subject v, man_artifact = ver_artifact v,
     man_created = ver_created v\<rparr>"

definition manifestAsVersion :: "Manifest \<Rightarrow> PackageVersion" where
  "manifestAsVersion m = \<lparr>ver_id = man_id m, ver_package = man_repo m, ver_version = man_digest m,
     ver_metadata = man_content m, ver_media_type = man_media_type m, ver_size = man_size m,
     ver_source = man_source m, ver_subject = man_subject m, ver_artifact = man_artifact m,
     ver_created = man_created m\<rparr>"

definition tagAsLegacyTag :: "PackageTag \<Rightarrow> Tag" where
  "tagAsLegacyTag t = \<lparr>ltag_id = tag_id t, ltag_repo = tag_package t, ltag_name = tag_name t,
     ltag_digest = tag_version t, ltag_updated = tag_updated t\<rparr>"

definition GetRepository :: "string \<Rightarrow> ('z store_scheme, Repository option) prog" where
  "GetRepository name = bindE (GetPackage ociPackageType name)
     (\<lambda>pkg. ret (map_option packageAsRepository pkg))"

definition GetOrCreateRepository :: "string \<Rightarrow> string \<Rightarrow> ('z store_scheme, Repository) prog" where
  "GetOrCreateRepository name ownerID = bindE (GetOrCreatePackage ociPackageType name ownerID)
     (\<lambda>pkg. ret (packageAsRepository pkg))"

definition IsRepositoryOwner :: "int \<Rightarrow> string \<Rightarrow> ('z store_scheme, bool) prog" where
  "IsRepositoryOwner repoID ownerID = IsPackageOwner repoID ownerID"

definition ListRepositoriesAfter :: "string \<Rightarrow> int \<Rightarrow> ('z store_scheme, Repository list) prog" where
  "ListRepositoriesAfter startAfter limit = bindE (ListPackages ociPackageType startAfter limit)
     (\<lambda>pkgs. ret (map packageAsRepository pkgs))"

definition SetRepositoryPrivate :: "int \<Rightarrow> bool \<Rightarrow> ('z store_scheme, unit) prog" where
  "SetRepositoryPrivate pid private = SetPackagePrivate pid private"

definition GetManifestByDigest :: "int \<Rightarrow> string \<Rightarrow> ('z store_scheme, Manifest option) prog" where
  "GetManifestByDigest repoID digest = bindE (GetPackageVersion repoID digest)
     (\<lambda>v. ret (map_option versionAsManifest v))"

definition GetManifestByTag :: "int \<Rightarrow> string \<Rightarrow> ('z store_scheme, Manifest option) prog" where
  "GetManifestByTag repoID tag = bindE (GetPackageVersionByTag repoID tag)
     (\<lambda>v. ret (map_option versionAsManifest v))"

definition PutManifest :: "Manifest \<Rightarrow> ('z store_scheme, Manifest) prog" where
  "PutManifest m = bindE (PutPackageVersion (manifestAsVersion m))
     (\<lambda>v. ret (m\<lparr>man_id := ver_id v, man_created := ver_created v\<rparr>))"

definition PutManifestWithLayers :: "Manifest \<Rightarrow> BlobRef list \<Rightarrow> ('z store_scheme, Manifest) prog" where
  "PutManifestWithLayers m refs = run_tx (
     bindE (query (\<lambda>t. exists_where (\<lambda>r. pkg_id r = man_repo m) (packages t))) (\<lambda>ex.
     if \<not> ex then fail ErrRepositoryGone
     else bindE (putPackageVersion (manifestAsVersion m)) (\<lambda>v.
          bindE (putBlobReferences (ver_id v) refs) (\<lambda>_.
          ret (m\<lparr>man_id := ver_id v, man_created := ver_created v\<rparr>)))))"

definition ListManifestsBySubject :: "int \<Rightarrow> string \<Rightarrow> ('z store_scheme, Manifest list) prog" where
  "ListManifestsBySubject repoID subjectDigest =
     bindE (ListPackageVersionsBySubject repoID subjectDigest)
     (\<lambda>versions. ret (map versionAsManifest versions))"

definition DeleteManifest :: "int \<Rightarrow> string \<Rightarrow> ('z store_scheme, unit) prog" where
  "DeleteManifest repoID digest = DeletePackageVersion repoID digest"

definition PutManifestLayers :: "int \<Rightarrow> BlobRef list \<Rightarrow> ('z store_scheme, unit) prog" where
  "PutManifestLayers manifestID refs = PutBlobReferences manifestID refs"

definition GetTag :: "int \<Rightarrow> string \<Rightarrow> ('z store_scheme, Tag option) prog" where
  "GetTag repoID name = bindE (GetPackageTag repoID name) (\<lambda>t. ret (map_option tagAsLegacyTag t))"

definition PutTag :: "int \<Rightarrow> string \<Rightarrow> string \<Rightarrow> ('z store_scheme, unit) prog" where
  "PutTag repoID name manifestDigest = PutPackageTag repoID name manifestDigest"

definition DeleteTag :: "int \<Rightarrow> string \<Rightarrow> ('z store_scheme, unit) prog" where
  "DeleteTag repoID name = DeletePackageTag repoID name"

definition ListTagsAfter :: "int \<Rightarrow> string \<Rightarrow> int \<Rightarrow> ('z store_scheme, string list) prog" where
  "ListTagsAfter repoID startAfter limit = ListPackageTagsAfter repoID startAfter limit"

definition IsManifestDeleted :: "string \<Rightarrow> ('z store_scheme, bool) prog" where
  "IsManifestDeleted digest = IsVersionDeleted ociPackageType '''' digest"

definition RecordDeletedManifest :: "string \<Rightarrow> string \<Rightarrow> string \<Rightarrow> ('z store_scheme, unit) prog" where
  "RecordDeletedManifest digest repoName sourceActor =
     RecordDeletedVersion ociPackageType repoName digest sourceActor"

definition PruneDeletedManifests :: "int \<Rightarrow> ('z store_scheme, nat) prog" where
  "PruneDeletedManifests olderThan = PruneDeletedVersions olderThan"

section \<open>Deleting packages and repositories\<close>

definition del_files_of_package :: "int \<Rightarrow> int \<Rightarrow> tables \<Rightarrow> tables" where
  "del_files_of_package packageID _ t = t\<lparr>package_files := delete_where
     (\<lambda>r. exists_where (\<lambda>v. ver_id v = file_version r \<and> ver_package v = packageID) (package_versions t))
     (package_files t)\<rparr>"

definition del_tags_of_package :: "int \<Rightarrow> int \<Rightarrow> tables \<Rightarrow> tables" where
  "del_tags_of_package packageID _ t = t\<lparr>package_tags :=
     delete_where (\<lambda>r. tag_package r = packageID) (package_tags t)\<rparr>"

definition del_versions_of_package :: "int \<Rightarrow> int \<Rightarrow> tables \<Rightarrow> tables" where
  "del_versions_of_package packageID _ t = t\<lparr>package_versions :=
     delete_where (\<lambda>r. ver_package r = packageID) (package_versions t)\<rparr>"

definition del_package :: "int \<Rightarrow> int \<Rightarrow> tables \<Rightarrow> tables" where
  "del_package packageID _ t = t\<lparr>packages := delete_where (\<lambda>r. pkg_id r = packageID) (packages t)\<rparr>"

definition del_uploads_of_package :: "int \<Rightarrow> int \<Rightarrow> tables \<Rightarrow> tables" where
  "del_uploads_of_package packageID _ t = t\<lparr>upload_sessions :=
     delete_where (\<lambda>r. up_repo r = packageID) (upload_sessions t)\<rparr>"

definition DeletePackage :: "int \<Rightarrow> ('z store_scheme, unit) prog" where
  "DeletePackage packageID = in_tx (
     bindE (exec (del_files_of_package packageID)) (\<lambda>_.
     bindE (exec (del_tags_of_package packageID)) (\<lambda>_.
     bindE (exec (del_versions_of_package packageID)) (\<lambda>_.
     bindE (exec (del_package packageID)) (\<lambda>_.
     bindE (exec (del_uploads_of_package packageID)) (\<lambda>_. ret (Commit ())))))))"

definition DeleteRepository :: "int \<Rightarrow> ('z store_scheme, unit) prog" where
  "DeleteRepository repoID = DeletePackage repoID"

text \<open>\<open>SELECT DISTINCT pf.blob_digest\<close> over the files of the package's versions that have a blob row.\<close>

definition package_blob_digests :: "int \<Rightarrow> tables \<Rightarrow> string list" where
  "package_blob_digests packageID t = remdups (map file_blob (select_where
     (\<lambda>f. exists_where (\<lambda>v. ver_id v = file_version f \<and> ver_package v = packageID) (package_versions t)
        \<and> exists_where (\<lambda>b. blob_digest b = file_blob f) (blobs t))
     (package_files t)))"

definition deletePackageRowsTx :: "int \<Rightarrow> ('z store_scheme, string list) prog" where
  "deletePackageRowsTx packageID =
     bindE (query (package_blob_digests packageID)) (\<lambda>candidates.
     bindE (exec (del_files_of_package packageID)) (\<lambda>_.
     bindE (exec (del_tags_of_package packageID)) (\<lambda>_.
     bindE (exec (del_versions_of_package packageID)) (\<lambda>_.
     bindE (exec (del_uploads_of_package packageID)) (\<lambda>_.
     bindE (exec (del_package packageID)) (\<lambda>_. ret candidates))))))"

definition unreferenced_blobs :: "string list \<Rightarrow> tables \<Rightarrow> string list" where
  "unreferenced_blobs candidates t = map blob_digest (select_where
     (\<lambda>b. blob_digest b \<in> set candidates \<and>
        \<not> exists_where (\<lambda>f. file_blob f = blob_digest b) (package_files t))
     (blobs t))"

definition purgeUnreferencedBlobs :: "string list \<Rightarrow> ('z store_scheme, string list) prog" where
  "purgeUnreferencedBlobs candidates =
     (if candidates = [] then ret []
      else bindE (query (unreferenced_blobs candidates)) (\<lambda>purged.
        if purged = [] then ret []
        else bindE (exec (\<lambda>_ t. t\<lparr>blobs := delete_where (\<lambda>b. blob_digest b \<in> set purged) (blobs t)\<rparr>))
               (\<lambda>_. ret purged)))"

definition DeletePackageWithBlobs :: "int \<Rightarrow> ('z store_scheme, string list) prog" where
  "DeletePackageWithBlobs packageID = in_tx (
     bindE (deletePackageRowsTx packageID) (\<lambda>candidates.
     bindE (purgeUnreferencedBlobs candidates) (\<lambda>purged. ret (Commit purged))))"

record RepoDeletion =
  rd_name :: string
  rd_manifests :: "string list"
  rd_tags :: "string list"
  rd_purged :: "string list"

text \<open>The set-based tombstone insert: one row per version of the package.\<close>

definition tombstone_versions :: "int \<Rightarrow> string \<Rightarrow> string \<Rightarrow> int \<Rightarrow> tables \<Rightarrow> tables" where
  "tombstone_versions repoID name ownerID c t =
     fold (\<lambda>v. insert_tombstone ociPackageType name ownerID (ver_version v) c)
       (select_where (\<lambda>v. ver_package v = repoID) (package_versions t)) t"

text \<open>The part of the transaction after its guards: tombstones, row deletion, blob purge.\<close>

definition erase_owned_repo :: "int \<Rightarrow> string \<Rightarrow> string \<Rightarrow> ('z store_scheme, RepoDeletion) prog" where
  "erase_owned_repo repoID ownerID name =
     bindE (query (\<lambda>t. map ver_version (order_by ver_id
              (select_where (\<lambda>v. ver_package v = repoID) (package_versions t))))) (\<lambda>digests.
     bindE (query (\<lambda>t. map tag_name (order_by tag_name
              (select_where (\<lambda>g. tag_package g = repoID) (package_tags t))))) (\<lambda>tags.
     bindE (exec (tombstone_versions repoID name ownerID)) (\<lambda>_.
     bindE (deletePackageRowsTx repoID) (\<lambda>candidates.
     bindE (purgeUnreferencedBlobs candidates) (\<lambda>purged.
     ret \<lparr>rd_name = name, rd_manifests = digests, rd_tags = tags, rd_purged = purged\<rparr>)))))"

definition DeleteOwnedRepositoryWithBlobs ::
  "int \<Rightarrow> string \<Rightarrow> ('z store_scheme, RepoDeletion option) prog" where
  "DeleteOwnedRepositoryWithBlobs repoID ownerID = in_tx (
     bindE (query (\<lambda>t. find_where (\<lambda>r. pkg_id r = repoID \<and> pkg_type r = ociPackageType) (packages t)))
     (\<lambda>row. case row of
         None \<Rightarrow> ret (Abort None)
       | Some p \<Rightarrow>
     if pkg_owner p \<noteq> ownerID then fail ErrPackageOwnerMismatch else
     bindE now (\<lambda>c.
     bindE (query (\<lambda>t. exists_where (\<lambda>u. up_repo u = repoID \<and> c < up_expires u) (upload_sessions t)))
     (\<lambda>busy.
     if busy then fail ErrRepositoryBusy else
     bindE (erase_owned_repo repoID ownerID (pkg_name p)) (\<lambda>result.
     ret (Commit (Some result)))))))"

definition version_blob_digests :: "int \<Rightarrow> tables \<Rightarrow> string list" where
  "version_blob_digests versionID t = remdups (map file_blob (select_where
     (\<lambda>f. file_version f = versionID \<and> exists_where (\<lambda>b. blob_digest b = file_blob f) (blobs t))
     (package_files t)))"

definition DeletePackageVersionWithBlobs :: "int \<Rightarrow> string \<Rightarrow> ('z store_scheme, string list) prog" where
  "DeletePackageVersionWithBlobs packageID version = in_tx (
     bindE (query (\<lambda>t. find_where (\<lambda>r. (ver_package r, ver_version r) = (packageID, version))
              (package_versions t))) (\<lambda>row. case row of
         None \<Rightarrow> ret (Abort [])
       | Some v \<Rightarrow>
     bindE (query (version_blob_digests (ver_id v))) (\<lambda>candidates.
     bindE (exec (del_tags_of_version packageID version)) (\<lambda>_.
     bindE (exec (del_files_of_version (ver_id v))) (\<lambda>_.
     bindE (exec (del_version_row (ver_id v))) (\<lambda>_.
     bindE (purgeUnreferencedBlobs candidates) (\<lambda>purged. ret (Commit purged))))))))"

section \<open>Retention queries and the untagged-manifest prune\<close>

record UntaggedManifest =
  um_package :: int
  um_name :: string
  um_owner :: string
  um_digest :: string

record PackageRetention =
  pr_id :: int
  pr_name :: string
  pr_owner :: string

record TagForRetention =
  tr_name :: string
  tr_updated :: int

definition ListOCIPackagesForRetention ::
  "string \<Rightarrow> int \<Rightarrow> ('z store_scheme, PackageRetention list) prog" where
  "ListOCIPackagesForRetention startAfter limit0 =
     (let limit = (if limit0 \<le> 0 then 100 else limit0) in query (\<lambda>t.
        map (\<lambda>p. \<lparr>pr_id = pkg_id p, pr_name = pkg_name p, pr_owner = pkg_owner p\<rparr>)
          (limit_rows limit (order_by pkg_name
             (select_where (\<lambda>p. pkg_type p = ociPackageType \<and> startAfter < pkg_name p) (packages t))))))"

definition ListTagsForRetention :: "int \<Rightarrow> ('z store_scheme, TagForRetention list) prog" where
  "ListTagsForRetention packageID = query (\<lambda>t.
     map (\<lambda>g. \<lparr>tr_name = tag_name g, tr_updated = tag_updated g\<rparr>)
       (order_by_desc tag_updated (select_where (\<lambda>g. tag_package g = packageID) (package_tags t))))"

text \<open>
  The \<open>WHERE\<close> clause of the prune: an OCI version older than the cutoff with no tag, no
  referrer naming it as subject and no parent index listing it as a child.
\<close>

definition untagged :: "int \<Rightarrow> tables \<Rightarrow> PackageVersion \<Rightarrow> bool" where
  "untagged cutoff t v \<longleftrightarrow>
     exists_where (\<lambda>p. pkg_id p = ver_package v \<and> pkg_type p = ociPackageType) (packages t) \<and>
     ver_created v < cutoff \<and>
     \<not> exists_where (\<lambda>g. tag_package g = ver_package v \<and> tag_version g = ver_version v) (package_tags t) \<and>
     \<not> exists_where (\<lambda>r. ver_package r = ver_package v \<and> ver_subject r = Some (ver_version v))
         (package_versions t) \<and>
     \<not> exists_where (\<lambda>f. file_blob f = ver_version v \<and>
           exists_where (\<lambda>p. ver_id p = file_version f \<and> ver_package p = ver_package v) (package_versions t))
         (package_files t)"

definition untagged_rows :: "int \<Rightarrow> int \<Rightarrow> tables \<Rightarrow> PackageVersion list" where
  "untagged_rows cutoff limit t =
     limit_rows limit (order_by ver_id (select_where (untagged cutoff t) (package_versions t)))"

definition package_of :: "tables \<Rightarrow> int \<Rightarrow> Package option" where
  "package_of t pid = find_where (\<lambda>p. pkg_id p = pid) (packages t)"

definition as_untagged :: "tables \<Rightarrow> PackageVersion \<Rightarrow> UntaggedManifest" where
  "as_untagged t v = \<lparr>um_package = ver_package v,
     um_name = (case package_of t (ver_package v) of None \<Rightarrow> '''' | Some p \<Rightarrow> pkg_name p),
     um_owner = (case package_of t (ver_package v) of None \<Rightarrow> '''' | Some p \<Rightarrow> pkg_owner p),
     um_digest = ver_version v\<rparr>"

definition PruneUntaggedManifests :: "int \<Rightarrow> int \<Rightarrow> ('z store_scheme, UntaggedManifest list) prog" where
  "PruneUntaggedManifests olderThan limit0 =
     (let limit = (if limit0 \<le> 0 then 500 else limit0) in
      bindE now (\<lambda>c. in_tx (
        bindE (query (\<lambda>t. map (\<lambda>v. (ver_id v, as_untagged t v)) (untagged_rows (c - olderThan) limit t)))
        (\<lambda>rows. if rows = [] then ret (Commit []) else
        bindE (exec (\<lambda>_ t. t\<lparr>package_files :=
                 delete_where (\<lambda>f. file_version f \<in> set (map fst rows)) (package_files t)\<rparr>)) (\<lambda>_.
        bindE (exec (\<lambda>_ t. t\<lparr>package_versions :=
                 delete_where (\<lambda>v. ver_id v \<in> set (map fst rows)) (package_versions t)\<rparr>)) (\<lambda>_.
        ret (Commit (map snd rows))))))))"

section \<open>What the operations do\<close>

text \<open>
  The table functions of the composite deletions, and the runs of the statements shared by
  several methods. A run that ends in an error leaves the tables as they were whenever the
  method is one transaction (\<open>in_tx_err\<close>, \<open>run_tx_err\<close>).
\<close>

definition drop_package :: "int \<Rightarrow> tables \<Rightarrow> tables" where
  "drop_package pid t = t\<lparr>
     package_files := delete_where (\<lambda>f. exists_where
        (\<lambda>v. ver_id v = file_version f \<and> ver_package v = pid) (package_versions t)) (package_files t),
     package_tags := delete_where (\<lambda>g. tag_package g = pid) (package_tags t),
     package_versions := delete_where (\<lambda>v. ver_package v = pid) (package_versions t),
     packages := delete_where (\<lambda>p. pkg_id p = pid) (packages t),
     upload_sessions := delete_where (\<lambda>u. up_repo u = pid) (upload_sessions t)\<rparr>"

definition purge_blobs :: "string list \<Rightarrow> tables \<Rightarrow> tables" where
  "purge_blobs candidates t = t\<lparr>blobs := delete_where
     (\<lambda>b. blob_digest b \<in> set (unreferenced_blobs candidates t)) (blobs t)\<rparr>"

lemmas del_package_defs = del_files_of_package_def del_tags_of_package_def
  del_versions_of_package_def del_uploads_of_package_def del_package_def

lemma deletePackageRowsTx_ok:
  assumes "deletePackageRowsTx pid s = (Inr ds, u)"
  shows "ds = package_blob_digests pid (tbl s) \<and> tbl u = drop_package pid (tbl s) \<and> clock u = clock s"
  using assms unfolding deletePackageRowsTx_def
  by (auto simp: bindE_ok del_package_defs drop_package_def dest!: query_ok exec_ok)

lemma DeletePackage_commit:
  assumes "bindE (exec (del_files_of_package pid)) (\<lambda>_.
     bindE (exec (del_tags_of_package pid)) (\<lambda>_.
     bindE (exec (del_versions_of_package pid)) (\<lambda>_.
     bindE (exec (del_package pid)) (\<lambda>_.
     bindE (exec (del_uploads_of_package pid)) (\<lambda>_. ret (Commit ())))))) s = (Inr x, u)"
  shows "tbl u = drop_package pid (tbl s)"
  using assms by (auto simp: bindE_ok del_package_defs drop_package_def dest!: query_ok exec_ok)

lemma purge_blobs_none: "unreferenced_blobs candidates t = [] \<Longrightarrow> purge_blobs candidates t = t"
  by (simp add: purge_blobs_def delete_where_def)

lemma purgeUnreferencedBlobs_ok:
  assumes "purgeUnreferencedBlobs candidates s = (Inr ds, u)"
  shows "ds = unreferenced_blobs candidates (tbl s) \<and> tbl u = purge_blobs candidates (tbl s) \<and> clock u = clock s"
proof (cases "candidates = []")
  case True
  then have "unreferenced_blobs candidates (tbl s) = []"
    by (simp add: unreferenced_blobs_def select_where_def)
  with True assms show ?thesis by (simp add: purgeUnreferencedBlobs_def purge_blobs_none)
next
  case False
  with assms obtain t where q: "query (unreferenced_blobs candidates) s = (Inr (unreferenced_blobs candidates (tbl s)), t)"
    and r: "(if unreferenced_blobs candidates (tbl s) = [] then ret []
        else bindE (exec (\<lambda>_ t'. t'\<lparr>blobs := delete_where
               (\<lambda>b. blob_digest b \<in> set (unreferenced_blobs candidates (tbl s))) (blobs t')\<rparr>))
             (\<lambda>_. ret (unreferenced_blobs candidates (tbl s)))) t = (Inr ds, u)"
    unfolding purgeUnreferencedBlobs_def by (auto simp: bindE_ok dest: query_ok)
  note t = query_ok [OF q]
  show ?thesis
  proof (cases "unreferenced_blobs candidates (tbl s) = []")
    case True
    with r t show ?thesis by (simp add: purge_blobs_none)
  next
    case False
    with r t show ?thesis by (auto simp: bindE_ok purge_blobs_def dest!: exec_ok)
  qed
qed

lemma in_package_blob_digests:
  "d \<in> set (package_blob_digests pid t) \<longleftrightarrow>
     (\<exists>f \<in> set (package_files t). file_blob f = d \<and>
        (\<exists>v \<in> set (package_versions t). ver_id v = file_version f \<and> ver_package v = pid) \<and>
        (\<exists>b \<in> set (blobs t). blob_digest b = d))"
  by (force simp: package_blob_digests_def)

lemma in_unreferenced_blobs:
  "d \<in> set (unreferenced_blobs candidates t) \<longleftrightarrow>
     d \<in> set candidates \<and> (\<exists>b \<in> set (blobs t). blob_digest b = d) \<and>
     (\<forall>f \<in> set (package_files t). file_blob f \<noteq> d)"
  by (force simp: unreferenced_blobs_def)

text \<open>The version upsert: what is stored and what the caller gets back.\<close>

lemma upsert_version_lookup:
  "find_where (\<lambda>r. (ver_package r, ver_version r) = (ver_package v, ver_version v))
     (package_versions (upsert_version v c t)) =
   Some (case find_where (\<lambda>r. (ver_package r, ver_version r) = (ver_package v, ver_version v)) (package_versions t) of
       None \<Rightarrow> v\<lparr>ver_id := seq_versions t, ver_created := c\<rparr>
     | Some r \<Rightarrow> overwrite_version v r)"
  unfolding upsert_version_def
  using vers.upsert_lookup [of "(ver_package v, ver_version v)" "overwrite_version v"
      "v\<lparr>ver_id := seq_versions t, ver_created := c\<rparr>" "package_versions t"]
  by (simp add: overwrite_version_def)

text \<open>The columns a manifest push writes.\<close>

definition same_content :: "PackageVersion \<Rightarrow> PackageVersion \<Rightarrow> bool" where
  "same_content v r \<longleftrightarrow> (ver_package r, ver_version r, ver_metadata r, ver_media_type r, ver_size r) =
     (ver_package v, ver_version v, ver_metadata v, ver_media_type v, ver_size v) \<and>
     (ver_source r, ver_subject r, ver_artifact r) = (ver_source v, ver_subject v, ver_artifact v)"

lemma same_content_eq:
  "same_content v r \<Longrightarrow> v\<lparr>ver_id := ver_id r, ver_created := ver_created r\<rparr> = (r :: PackageVersion)"
  by (cases v, cases r) (simp add: same_content_def)

lemma overwrite_same_content:
  "(ver_package r, ver_version r) = (ver_package v, ver_version v) \<Longrightarrow> same_content v (overwrite_version v r)"
  by (simp add: same_content_def overwrite_version_def)

lemma upsert_version_found:
  obtains w where "find_where (\<lambda>r. (ver_package r, ver_version r) = (ver_package v, ver_version v))
      (package_versions (upsert_version v c t)) = Some w" and "same_content v w"
proof (cases "find_where (\<lambda>r. (ver_package r, ver_version r) = (ver_package v, ver_version v)) (package_versions t)")
  case None
  with that [of "v\<lparr>ver_id := seq_versions t, ver_created := c\<rparr>"] show thesis
    by (simp add: upsert_version_lookup [simplified] same_content_def)
next
  case (Some r)
  with that [of "overwrite_version v r"] overwrite_same_content [of r v] show thesis
    by (simp add: upsert_version_lookup [simplified] find_where_Some [OF Some])
qed

lemma putPackageVersion_ok:
  assumes "putPackageVersion v s = (Inr w, u)"
  shows "tbl u = upsert_version v (clock s) (tbl s) \<and> clock u = clock s \<and> same_content v w \<and>
     find_where (\<lambda>r. (ver_package r, ver_version r) = (ver_package v, ver_version v))
       (package_versions (tbl u)) = Some w"
proof -
  obtain r where r: "find_where (\<lambda>r. (ver_package r, ver_version r) = (ver_package v, ver_version v))
      (package_versions (upsert_version v (clock s) (tbl s))) = Some r" "same_content v r"
    by (rule upsert_version_found)
  show ?thesis
  proof (cases "postgres s")
    case True
    with assms have "exec_rows (\<lambda>c t. let t' = upsert_version v c t in
         (case find_where (\<lambda>r. (ver_package r, ver_version r) = (ver_package v, ver_version v))
                 (package_versions t') of
            None \<Rightarrow> v
          | Some r \<Rightarrow> v\<lparr>ver_id := ver_id r, ver_created := ver_created r\<rparr>, t')) s = (Inr w, u)"
      by (simp add: putPackageVersion_def bindE_def gets_def)
    from exec_rows_ok [OF this] r same_content_eq [OF r(2)] show ?thesis
      by (auto simp: Let_def)
  next
    case False
    with assms r show ?thesis
      by (auto simp: putPackageVersion_def bindE_ok getPackageVersion_def dest!: query_ok exec_ok)
  qed
qed


text \<open>Blob references: every non-empty digest of the list ends up as a file row of the version.\<close>

lemma upsert_blob_reference_frame:
  "package_versions (upsert_blob_reference vid b c t) = package_versions t \<and>
   packages (upsert_blob_reference vid b c t) = packages t \<and>
   package_tags (upsert_blob_reference vid b c t) = package_tags t \<and>
   blobs (upsert_blob_reference vid b c t) = blobs t"
  by (simp add: upsert_blob_reference_def)

definition has_ref :: "tables \<Rightarrow> int \<Rightarrow> string \<Rightarrow> bool" where
  "has_ref t vid d \<longleftrightarrow> (\<exists>f \<in> set (package_files t). (file_version f, file_name f) = (vid, d))"

lemma has_ref_upsert:
  "has_ref (upsert_blob_reference vid b c t) vid' d \<longleftrightarrow>
     has_ref t vid' d \<or> (vid' = vid \<and> d = ref_digest b)"
proof -
  have ref: "has_ref t' v e \<longleftrightarrow> (v, e) \<in> (\<lambda>f. (file_version f, file_name f)) ` set (package_files t')" for t' v e
    by (auto simp: has_ref_def)
  show ?thesis
    unfolding ref upsert_blob_reference_def
    using fils.keys_upsert [of "(vid, ref_digest b)"
        "\<lambda>r. r\<lparr>file_size := (if 0 < ref_size b then ref_size b else file_size r),
             file_ctype := coalesce (ref_media_type b) (file_ctype r)\<rparr>"
        "\<lparr>file_id = seq_files t, file_version = vid, file_name = ref_digest b,
          file_blob = ref_digest b, file_size = ref_size b, file_ctype = ref_media_type b,
          file_created = c\<rparr>" "package_files t"]
    by auto
qed

lemma putBlobReferences_ok:
  "putBlobReferences vid refs s = (Inr x, u) \<Longrightarrow>
     clock u = clock s \<and> package_versions (tbl u) = package_versions (tbl s) \<and>
     packages (tbl u) = packages (tbl s) \<and> package_tags (tbl u) = package_tags (tbl s) \<and>
     blobs (tbl u) = blobs (tbl s) \<and>
     (\<forall>vid' d. has_ref (tbl u) vid' d \<longleftrightarrow>
        has_ref (tbl s) vid' d \<or> (vid' = vid \<and> d \<noteq> '''' \<and> (\<exists>r \<in> set refs. ref_digest r = d)))"
proof (induction refs arbitrary: s)
  case Nil
  then show ?case by (simp add: putBlobReferences_def)
next
  case (Cons r refs)
  show ?case
  proof (cases "ref_digest r = ''''")
    case True
    with Cons.prems have "putBlobReferences vid refs s = (Inr x, u)"
      by (simp add: putBlobReferences_def)
    from Cons.IH [OF this] True show ?thesis by auto
  next
    case False
    with Cons.prems obtain t y where e: "exec (upsert_blob_reference vid r) s = (Inr y, t)"
      and p: "putBlobReferences vid refs t = (Inr x, u)"
      by (auto simp: putBlobReferences_def bindE_ok)
    from Cons.IH [OF p] exec_ok [OF e] upsert_blob_reference_frame [of vid r "clock s" "tbl s"] False
    show ?thesis by (auto simp: has_ref_upsert)
  qed
qed

lemma raises_putPackageVersion [raises_intros]: "ErrIO \<in> E \<Longrightarrow> raises E (putPackageVersion v)"
  unfolding putPackageVersion_def getPackageVersion_def by (intro raises_intros)

lemma raises_putBlobReferences [raises_intros]: "ErrIO \<in> E \<Longrightarrow> raises E (putBlobReferences vid refs)"
  unfolding putBlobReferences_def by (intro raises_intros)

lemma put_version_io: "putPackageVersion v s = (Inl e, s') \<Longrightarrow> e = ErrIO"
  using raisesD [OF raises_putPackageVersion [of "{ErrIO}"]] by blast

lemma put_references_io: "putBlobReferences vid refs s = (Inl e, s') \<Longrightarrow> e = ErrIO"
  using raisesD [OF raises_putBlobReferences [of "{ErrIO}"]] by blast

text \<open>Tombstones of a whole repository.\<close>

definition tombstoned :: "tables \<Rightarrow> string \<Rightarrow> string \<Rightarrow> string \<Rightarrow> bool" where
  "tombstoned t pkgType name version \<longleftrightarrow>
     (\<exists>r \<in> set (deleted_versions t). (del_type r, del_name r, del_version r) = (pkgType, name, version))"

lemma tombstoned_insert:
  "tombstoned (insert_tombstone ty n src v c t) ty' n' v' \<longleftrightarrow>
     tombstoned t ty' n' v' \<or> (ty', n', v') = (ty, n, v)"
  by (auto simp: tombstoned_def insert_tombstone_def set_insert_ignore new_tombstone_def)

lemma insert_tombstone_frame:
  "\<exists>d n'. insert_tombstone ty n src v c t = t\<lparr>deleted_versions := d, seq_deleted := n'\<rparr>"
  by (auto simp: insert_tombstone_def)

lemma fold_tombstones_frame:
  "\<exists>d n'. fold (\<lambda>v. insert_tombstone ty n src (ver_version v) c) vs t =
     t\<lparr>deleted_versions := d, seq_deleted := n'\<rparr>"
proof (induction vs arbitrary: t)
  case Nil
  have "t = t\<lparr>deleted_versions := deleted_versions t, seq_deleted := seq_deleted t\<rparr>" by simp
  then show ?case by (metis fold_simps(1))
next
  case (Cons v vs)
  obtain d n' where "insert_tombstone ty n src (ver_version v) c t = t\<lparr>deleted_versions := d, seq_deleted := n'\<rparr>"
    using insert_tombstone_frame by blast
  with Cons [of "insert_tombstone ty n src (ver_version v) c t"] show ?case by auto
qed

lemma fold_tombstones:
  "tombstoned (fold (\<lambda>v. insert_tombstone ty n src (ver_version v) c) vs t) ty' n' w \<longleftrightarrow>
     tombstoned t ty' n' w \<or> (ty', n') = (ty, n) \<and> (\<exists>v \<in> set vs. ver_version v = w)"
  by (induction vs arbitrary: t) (auto simp: tombstoned_insert)

lemma tombstone_versions_frame:
  "\<exists>d n'. tombstone_versions rid name owner c t = t\<lparr>deleted_versions := d, seq_deleted := n'\<rparr>"
  unfolding tombstone_versions_def by (rule fold_tombstones_frame)

lemma tombstone_versions_all:
  "tombstoned (tombstone_versions rid name owner c t) ociPackageType name' w \<longleftrightarrow>
     tombstoned t ociPackageType name' w \<or>
     name' = name \<and> (\<exists>v \<in> set (package_versions t). ver_package v = rid \<and> ver_version v = w)"
  by (auto simp: tombstone_versions_def fold_tombstones)

text \<open>
  The contract of a repository deletion: the repository and everything below it is gone, what
  belongs to other repositories is kept row for row, each manifest is tombstoned, and of the
  blob rows exactly the reported ones are removed, none of which is still referenced.
\<close>

definition repo_erased :: "int \<Rightarrow> string \<Rightarrow> string list \<Rightarrow> tables \<Rightarrow> tables \<Rightarrow> bool" where
  "repo_erased rid name purged t t' \<longleftrightarrow>
     packages t' = filter (\<lambda>p. pkg_id p \<noteq> rid) (packages t) \<and>
     package_versions t' = filter (\<lambda>v. ver_package v \<noteq> rid) (package_versions t) \<and>
     package_tags t' = filter (\<lambda>g. tag_package g \<noteq> rid) (package_tags t) \<and>
     upload_sessions t' = filter (\<lambda>u. up_repo u \<noteq> rid) (upload_sessions t) \<and>
     package_files t' = filter (\<lambda>f. \<forall>v \<in> set (package_versions t).
        ver_id v = file_version f \<longrightarrow> ver_package v \<noteq> rid) (package_files t) \<and>
     (\<forall>v \<in> set (package_versions t). ver_package v = rid \<longrightarrow> tombstoned t' ociPackageType name (ver_version v)) \<and>
     blobs t' = filter (\<lambda>b. blob_digest b \<notin> set purged) (blobs t) \<and>
     (\<forall>d \<in> set purged. \<forall>f \<in> set (package_files t'). file_blob f \<noteq> d)"

lemma drop_purge_erased:
  assumes "t1 = t\<lparr>deleted_versions := d, seq_deleted := n\<rparr>"
    and "\<And>v. v \<in> set (package_versions t) \<Longrightarrow> ver_package v = rid \<Longrightarrow> tombstoned t1 ociPackageType name (ver_version v)"
  shows "repo_erased rid name (unreferenced_blobs c (drop_package rid t1)) t (purge_blobs c (drop_package rid t1))"
proof -
  have "tombstoned (purge_blobs c (drop_package rid t1)) ty n w \<longleftrightarrow> tombstoned t1 ty n w" for ty n w
    by (simp add: tombstoned_def purge_blobs_def drop_package_def)
  with assms show ?thesis
    by (auto simp: repo_erased_def purge_blobs_def drop_package_def delete_where_def in_unreferenced_blobs
        intro!: filter_cong)
qed

lemma delete_rows_io: "deletePackageRowsTx pid s = (Inl e, s') \<Longrightarrow> e = ErrIO"
proof -
  have "raises {ErrIO} (deletePackageRowsTx pid)"
    unfolding deletePackageRowsTx_def by (intro raises_intros) auto
  then show "deletePackageRowsTx pid s = (Inl e, s') \<Longrightarrow> e = ErrIO" by (auto dest: raisesD)
qed

lemma purge_io: "purgeUnreferencedBlobs c s = (Inl e, s') \<Longrightarrow> e = ErrIO"
proof -
  have "raises {ErrIO} (purgeUnreferencedBlobs c)"
    unfolding purgeUnreferencedBlobs_def by (intro raises_intros) auto
  then show "purgeUnreferencedBlobs c s = (Inl e, s') \<Longrightarrow> e = ErrIO" by (auto dest: raisesD)
qed

lemma erase_io: "erase_owned_repo rid owner name s = (Inl e, s') \<Longrightarrow> e = ErrIO"
  unfolding erase_owned_repo_def
  by (auto simp: bindE_err dest: query_err exec_err delete_rows_io purge_io)

lemma erase_ok:
  assumes "erase_owned_repo rid owner name s = (Inr rd, s')"
  shows "repo_erased rid name (rd_purged rd) (tbl s) (tbl s') \<and> rd_name rd = name"
proof -
  let ?t = "tombstone_versions rid name owner (clock s) (tbl s)"
  from assms have rd: "rd_purged rd = unreferenced_blobs (package_blob_digests rid ?t) (drop_package rid ?t) \<and>
      rd_name rd = name \<and> tbl s' = purge_blobs (package_blob_digests rid ?t) (drop_package rid ?t)"
    unfolding erase_owned_repo_def
    by (auto simp: bindE_ok dest!: query_ok exec_ok deletePackageRowsTx_ok purgeUnreferencedBlobs_ok)
  obtain d n where "?t = (tbl s)\<lparr>deleted_versions := d, seq_deleted := n\<rparr>"
    using tombstone_versions_frame by blast
  then have "repo_erased rid name (unreferenced_blobs c (drop_package rid ?t)) (tbl s) (purge_blobs c (drop_package rid ?t))" for c
    by (rule drop_purge_erased) (auto simp: tombstone_versions_all)
  with rd show ?thesis by simp
qed

section \<open>Properties\<close>

text \<open>What a manifest push that succeeded has done.\<close>

lemma with_layers_ok:
  fixes s :: "'z store_scheme"
  assumes "PutManifestWithLayers m refs s = (Inr m', s')"
  obtains t1 t2 u :: "'z store_scheme" and v x where
    "\<exists>r \<in> set (packages (tbl s)). pkg_id r = man_repo m" and "tbl t1 = tbl s" and "tbl s' = tbl u"
    and "putPackageVersion (manifestAsVersion m) t1 = (Inr v, t2)" and "putBlobReferences (ver_id v) refs t2 = (Inr x, u)"
    and "m' = m\<lparr>man_id := ver_id v, man_created := ver_created v\<rparr>" and "manifestAsVersion m' = v"
proof -
  from assms obtain t1 t2 u :: "'z store_scheme" and v x where
    ex: "\<exists>r \<in> set (packages (tbl s)). pkg_id r = man_repo m" and t: "tbl t1 = tbl s" "tbl s' = tbl u"
    and pv: "putPackageVersion (manifestAsVersion m) t1 = (Inr v, t2)"
    and pr: "putBlobReferences (ver_id v) refs t2 = (Inr x, u)"
    and m': "m' = m\<lparr>man_id := ver_id v, man_created := ver_created v\<rparr>"
    unfolding PutManifestWithLayers_def
    by (elim run_tx_ok) (auto simp: bindE_ok split: if_splits dest!: query_ok; blast)
  moreover have "manifestAsVersion m' = v"
    using putPackageVersion_ok [OF pv] m' by (cases m, cases v) (simp add: manifestAsVersion_def same_content_def)
  ultimately show thesis by (rule that)
qed




lemma create_package_spec:
  fixes s :: "'z store_scheme"
  shows "case GetOrCreatePackage ty name owner s of
     (Inl e, s') \<Rightarrow> tbl s' = tbl s \<and>
       (e = ErrIO \<or> e = ErrPackageOwnerMismatch \<and>
          (\<exists>p \<in> set (packages (tbl s)). pkg_type p = ty \<and> pkg_name p = name \<and> pkg_owner p \<noteq> owner))
   | (Inr p, s') \<Rightarrow> (pkg_type p, pkg_name p, pkg_owner p) = (ty, name, owner) \<and>
       (case find_where (\<lambda>r. (pkg_type r, pkg_name r) = (ty, name)) (packages (tbl s)) of
          Some q \<Rightarrow> tbl s' = tbl s \<and> p = q\<lparr>pkg_withdrawn := None\<rparr>
        | None \<Rightarrow> p = new_package (clock s) (tbl s) ty name owner \<and>
            tbl s' = (tbl s)\<lparr>packages := packages (tbl s) @ [p], seq_packages := seq_packages (tbl s) + 1\<rparr>)"
proof (cases "GetOrCreatePackage ty name owner s")
  case (Pair r s')
  note new = insert_ignore_new find_where_append new_package_def
  show ?thesis
  proof (cases r)
    case (Inl e)
    note err = Pair [unfolded Inl GetOrCreatePackage_def]
    have "e = ErrIO \<or> e = ErrPackageOwnerMismatch \<and>
          (\<exists>p \<in> set (packages (tbl s)). pkg_type p = ty \<and> pkg_name p = name \<and> pkg_owner p \<noteq> owner)"
      using err
    proof (cases rule: in_tx_errE)
      case (body t u)
      then show ?thesis
        by (auto simp: new elim!: bindE_errE split: option.split_asm if_split_asm
            dest!: query_err query_ok exec_ok exec_err find_where_Some; force)
    qed simp
    with Pair Inl in_tx_err [OF err] show ?thesis by simp
  next
    case (Inr p)
    note ok = Pair [unfolded Inr GetOrCreatePackage_def]
    then show ?thesis
    proof (cases rule: in_tx_ok)
      case (commit t u)
      then show ?thesis using Pair Inr
        by (auto simp: new elim!: bindE_okE split: option.split_asm if_split_asm dest!: query_ok exec_ok)
    next
      case (abort t u)
      then show ?thesis using Pair Inr
        by (auto elim!: bindE_okE split: option.split_asm if_split_asm dest!: query_ok find_where_Some
            dest: query_ok exec_ok)
    qed
  qed
qed

text \<open>Creating a package never takes over a name: the call returns a package of the given
  owner, either the one that was there (and then nothing changes) or a new row appended to the
  table; a package of another owner is reported as \<open>ErrPackageOwnerMismatch\<close> and, like every
  error, leaves the tables unchanged.\<close>

lemma create_package_owner:
  fixes s :: "'z store_scheme"
  shows "case GetOrCreatePackage ty name owner s of
     (Inl e, s') \<Rightarrow> tbl s' = tbl s \<and>
       (e = ErrIO \<or> e = ErrPackageOwnerMismatch \<and>
          (\<exists>p \<in> set (packages (tbl s)). pkg_type p = ty \<and> pkg_name p = name \<and> pkg_owner p \<noteq> owner))
   | (Inr p, s') \<Rightarrow> (pkg_type p, pkg_name p, pkg_owner p) = (ty, name, owner) \<and>
       (case find_where (\<lambda>r. (pkg_type r, pkg_name r) = (ty, name)) (packages (tbl s)) of
          Some q \<Rightarrow> tbl s' = tbl s \<and> p = q\<lparr>pkg_withdrawn := None\<rparr>
        | None \<Rightarrow> p = new_package (clock s) (tbl s) ty name owner \<and>
            tbl s' = (tbl s)\<lparr>packages := packages (tbl s) @ [p], seq_packages := seq_packages (tbl s) + 1\<rparr>)"
  by (rule create_package_spec)

lemma upsert_tag_found:
  obtains g where "find_where (\<lambda>r. (tag_package r, tag_name r) = (rid, name))
      (package_tags (upsert_tag rid name digest c t)) = Some g" and "tag_version g = digest"
proof (cases "find_where (\<lambda>r. (tag_package r, tag_name r) = (rid, name)) (package_tags t)")
  case None
  with that tgs.upsert_lookup [of "(rid, name)" "\<lambda>r. r\<lparr>tag_version := digest, tag_updated := c\<rparr>"
      "\<lparr>tag_id = seq_tags t, tag_package = rid, tag_name = name, tag_version = digest, tag_updated = c\<rparr>"
      "package_tags t"]
  show thesis by (simp add: upsert_tag_def)
next
  case (Some r)
  with that tgs.upsert_lookup [of "(rid, name)" "\<lambda>r. r\<lparr>tag_version := digest, tag_updated := c\<rparr>"
      "\<lparr>tag_id = seq_tags t, tag_package = rid, tag_name = name, tag_version = digest, tag_updated = c\<rparr>"
      "package_tags t"]
  show thesis by (simp add: upsert_tag_def)
qed

text \<open>A tag resolves to what was last pushed under it: after a successful \<open>PutTag\<close> the
  manifest found by tag is the manifest found by digest (both absent, or the same).\<close>

lemma tag_resolves:
  assumes "wf_tables (tbl s)"
    and "PutTag rid name digest s = (Inr (), s1)"
    and "GetManifestByTag rid name s1 = (Inr by_tag, s2)"
    and "GetManifestByDigest rid digest s1 = (Inr by_digest, s3)"
  shows "by_tag = by_digest"
proof -
  from assms(2) obtain c where t1: "tbl s1 = upsert_tag rid name digest c (tbl s)"
    unfolding PutTag_def PutPackageTag_def
    by (elim run_tx_ok) (auto elim!: bindE_okE split: if_split_asm dest!: query_ok exec_ok)
  have uniq: "tgs.unique (package_tags (tbl s1))"
    unfolding t1 upsert_tag_def
    using tgs.unique_upsert [of "package_tags (tbl s)" "(rid, name)"] assms(1) by (simp add: wf_tables_def)
  obtain g where "find_where (\<lambda>g. (tag_package g, tag_name g) = (rid, name)) (package_tags (tbl s1)) = Some g"
    and v: "tag_version g = digest"
    unfolding t1 by (rule upsert_tag_found)
  then have g: "g \<in> set (package_tags (tbl s1))" "(tag_package g, tag_name g) = (rid, name)" "tag_version g = digest"
    by (auto dest: find_where_Some)
  have only: "g' = g" if "g' \<in> set (package_tags (tbl s1))" "tag_package g' = rid" "tag_name g' = name" for g'
    using map_eq_inj_on [OF uniq [unfolded tgs.unique_def] that(1) g(1)] that g(2) by simp
  have "(\<exists>g' \<in> set (package_tags (tbl s1)). tag_package g' = rid \<and> tag_version g' = w \<and> tag_name g' = name) \<longleftrightarrow>
        w = digest" for w
  proof
    assume "\<exists>g' \<in> set (package_tags (tbl s1)). tag_package g' = rid \<and> tag_version g' = w \<and> tag_name g' = name"
    then obtain g' where "g' \<in> set (package_tags (tbl s1))" "tag_package g' = rid" "tag_version g' = w" "tag_name g' = name"
      by blast
    with only [of g'] g(3) show "w = digest" by simp
  next
    assume "w = digest"
    with g show "\<exists>g' \<in> set (package_tags (tbl s1)). tag_package g' = rid \<and> tag_version g' = w \<and> tag_name g' = name"
      by (intro bexI [of _ g]) simp_all
  qed
  then have pred: "(\<lambda>v :: PackageVersion. ver_package v = rid \<and> (\<exists>g \<in> set (package_tags (tbl s1)). tag_package g = ver_package v \<and>
            tag_version g = ver_version v \<and> tag_name g = name)) =
        (\<lambda>v. (ver_package v, ver_version v) = (rid, digest))"
    by auto
  show ?thesis
    using assms(3,4)
    unfolding GetManifestByTag_def GetManifestByDigest_def GetPackageVersionByTag_def
      GetPackageVersion_def getPackageVersion_def
    by (auto simp: pred elim!: bindE_okE dest!: query_ok)
qed

text \<open>Publishing under an existing version cannot overwrite it: whatever happens (I/O
  failures included), every version row that was there is still there unchanged; the call
  reports a new insertion exactly when the version did not exist, and then the row it hands
  back is the stored one.\<close>

lemma publish_immutable:
  fixes s :: "'z store_scheme"
  shows "set (package_versions (tbl s)) \<subseteq> set (package_versions (tbl (snd (InsertPackageVersionIfNew v s)))) \<and>
   (case fst (InsertPackageVersionIfNew v s) of
      Inl e \<Rightarrow> e = ErrIO
    | Inr (inserted, w) \<Rightarrow>
        inserted = (find_where (\<lambda>r. (ver_package r, ver_version r) = (ver_package v, ver_version v))
                      (package_versions (tbl s)) = None) \<and>
        (inserted \<longrightarrow> same_content v w \<and>
           package_versions (tbl (snd (InsertPackageVersionIfNew v s))) = package_versions (tbl s) @ [w]))"
proof (cases "InsertPackageVersionIfNew v s")
  case (Pair r s')
  have "keeps (\<lambda>u. set (package_versions (tbl s)) \<subseteq> set (package_versions (tbl u))) (InsertPackageVersionIfNew v)"
    unfolding InsertPackageVersionIfNew_def getPackageVersion_def
    by (intro keeps_intros) (auto simp: set_insert_ignore)
  then have 1: "set (package_versions (tbl s)) \<subseteq> set (package_versions (tbl s'))"
    unfolding keeps_def using Pair by (metis order_refl snd_conv)
  show ?thesis
  proof (cases r)
    case (Inl e)
    have "raises {ErrIO} (InsertPackageVersionIfNew v)"
      unfolding InsertPackageVersionIfNew_def getPackageVersion_def by (intro raises_intros) auto
    with Pair Inl 1 show ?thesis by (auto dest: raisesD)
  next
    case (Inr y)
    with Pair have "InsertPackageVersionIfNew v s = (Inr y, s')" by simp
    note run = this [unfolded InsertPackageVersionIfNew_def getPackageVersion_def]
    show ?thesis
    proof (cases "find_where (\<lambda>r. (ver_package r, ver_version r) = (ver_package v, ver_version v))
        (package_versions (tbl s))")
      case None
      then have "\<not> (\<exists>r \<in> set (package_versions (tbl s)). ver_package r = ver_package v \<and> ver_version r = ver_version v)"
        by (auto simp: find_where_None)
      with 1 Pair Inr None run show ?thesis
        by (auto simp: insert_ignore_new find_where_append same_content_def elim!: bindE_okE
            split: if_split_asm option.split_asm dest!: query_ok exec_rows_ok tick_run)
    next
      case (Some q)
      then have "\<exists>r \<in> set (package_versions (tbl s)). ver_package r = ver_package v \<and> ver_version r = ver_version v"
        by (auto dest: find_where_Some)
      with 1 Pair Inr Some run show ?thesis
        by (auto elim!: bindE_okE split: if_split_asm dest!: query_ok exec_rows_ok tick_run)
    qed
  qed
qed

lemma delete_where_none: "(\<And>r. r \<in> set rows \<Longrightarrow> \<not> p r) \<Longrightarrow> delete_where p rows = rows"
  by (simp add: delete_where_def)

section \<open>A sample database\<close>

definition sample_tables :: tables where
  "sample_tables = empty_tables\<lparr>
     packages := [\<lparr>pkg_id = 1, pkg_type = ''oci'', pkg_name = ''node/app'', pkg_owner = ''me'',
        pkg_private = False, pkg_created = 5, pkg_withdrawn = None\<rparr>],
     package_versions :=
       [\<lparr>ver_id = 1, ver_package = 1, ver_version = ''d1'', ver_metadata = ''m'', ver_media_type = ''t'',
         ver_size = 1, ver_source = None, ver_subject = None, ver_artifact = None, ver_created = 5\<rparr>,
        \<lparr>ver_id = 2, ver_package = 1, ver_version = ''d2'', ver_metadata = ''m'', ver_media_type = ''t'',
         ver_size = 1, ver_source = None, ver_subject = None, ver_artifact = None, ver_created = 6\<rparr>],
     package_files := [\<lparr>file_id = 1, file_version = 1, file_name = ''b1'', file_blob = ''b1'', file_size = 3,
        file_ctype = None, file_created = 5\<rparr>],
     package_tags := [\<lparr>tag_id = 1, tag_package = 1, tag_name = ''v1'', tag_version = ''d1'', tag_updated = 5\<rparr>],
     blobs := [\<lparr>blob_id = 1, blob_digest = ''b1'', blob_size = 3, blob_media_type = None,
                blob_stored = True, blob_created = 5\<rparr>,
               \<lparr>blob_id = 2, blob_digest = ''b2'', blob_size = 4, blob_media_type = None,
                blob_stored = True, blob_created = 6\<rparr>],
     seq_packages := 2, seq_versions := 3, seq_files := 2, seq_tags := 2, seq_blobs := 3\<rparr>"

definition sample_store :: store where
  "sample_store = \<lparr>faults = [], clock = 1000, tbl = sample_tables, postgres = False\<rparr>"

lemma wf_sample: "wf_tables (tbl sample_store)"
  by (simp add: sample_store_def sample_tables_def wf_tables_def empty_tables_def pkgs.unique_def
      pkgs.fresh_def vers.unique_def vers.fresh_def fils.unique_def fils.fresh_def tgs.unique_def
      tgs.fresh_def dels.unique_def dels.fresh_def blbs.unique_def blbs.fresh_def pbls.unique_def
      pbls.fresh_def acts.unique_def acts.fresh_def reqs.unique_def reqs.fresh_def avts.unique_def
      avts.fresh_def upls.unique_def upls.fresh_def dvls.unique_def dvls.fresh_def)



theorem tag_resolves_witness:
  "\<exists>s1 m s2 s3. wf_tables (tbl sample_store) \<and>
     PutTag 1 ''latest'' ''d2'' sample_store = (Inr (), s1) \<and>
     GetManifestByTag 1 ''latest'' s1 = (Inr (Some m), s2) \<and>
     GetManifestByDigest 1 ''d2'' s1 = (Inr (Some m), s3)"
proof -
  let ?s1 = "snd (PutTag 1 ''latest'' ''d2'' sample_store)"
  have 1: "PutTag 1 ''latest'' ''d2'' sample_store = (Inr (), ?s1)"
    by (rule prod_eqI) (simp, code_simp, simp)
  have "case fst (GetManifestByTag 1 ''latest'' ?s1) of Inr (Some m) \<Rightarrow> True | _ \<Rightarrow> False"
    by code_simp
  then obtain m s2 where 2: "GetManifestByTag 1 ''latest'' ?s1 = (Inr (Some m), s2)"
    by (cases "GetManifestByTag 1 ''latest'' ?s1") (auto split: sum.splits option.splits)
  have "case fst (GetManifestByDigest 1 ''d2'' ?s1) of Inr (Some m) \<Rightarrow> True | _ \<Rightarrow> False"
    by code_simp
  then obtain m' s3 where 3: "GetManifestByDigest 1 ''d2'' ?s1 = (Inr (Some m'), s3)"
    by (cases "GetManifestByDigest 1 ''d2'' ?s1") (auto split: sum.splits option.splits)
  from tag_resolves [OF wf_sample 1 2 3] 1 2 3 wf_sample show ?thesis by blast
qed

definition sample_manifest :: Manifest where
  "sample_manifest = \<lparr>man_id = 0, man_repo = 1, man_digest = ''d3'', man_media_type = ''t'', man_size = 9,
     man_content = ''json'', man_source = None, man_subject = None, man_artifact = None, man_created = 0\<rparr>"



theorem publish_immutable_witness:
  "fst (InsertPackageVersionIfNew (manifestAsVersion sample_manifest) sample_store) \<noteq> Inl ErrIO \<and>
   set (package_versions (tbl sample_store)) \<subseteq>
   set (package_versions (tbl (snd (InsertPackageVersionIfNew (manifestAsVersion sample_manifest) sample_store))))"
proof -
  have "case fst (InsertPackageVersionIfNew (manifestAsVersion sample_manifest) sample_store) of
      Inr _ \<Rightarrow> True | _ \<Rightarrow> False"
    by code_simp
  with publish_immutable [of sample_store "manifestAsVersion sample_manifest"] show ?thesis
    by (auto split: sum.splits)
qed

theorem create_package_owner_witness:
  "case GetOrCreatePackage ''oci'' ''node/app'' ''other'' sample_store of
     (Inl e, s') \<Rightarrow> e = ErrPackageOwnerMismatch \<and> tbl s' = tbl sample_store
   | (Inr p, s') \<Rightarrow> False"
proof -
  have "fst (GetOrCreatePackage ''oci'' ''node/app'' ''other'' sample_store) = Inl ErrPackageOwnerMismatch"
    by code_simp
  with create_package_owner [of sample_store "''oci''" "''node/app''" "''other''"] show ?thesis
    by (auto split: prod.splits)
qed

end
