(* ===== verification/Pagination.thy ===== *)
theory Pagination
  imports Prog
begin

text \<open>
  Keyset pagination. The program walks large tables in pages: \<open>SELECT ... WHERE key > after
  ORDER BY key LIMIT n\<close>, then again from the last key of the page, until a page comes back
  short. \<open>keyset_loop\<close> is that loop, with the page fetch and the per-page work as arguments;
  the locale states what a fetch promises and proves, once, that the loop ends and hands
  every row to the body exactly once, in key order. A full page that is empty (page size zero)
  is the index panic of \<open>batch[len(batch)-1]\<close>. The fuel bounds the number of pages;
  one more than the number of rows is always enough.
\<close>

definition page_after :: "('r \<Rightarrow> 'k::linorder) \<Rightarrow> 'k \<Rightarrow> nat \<Rightarrow> 'r list \<Rightarrow> 'r list" where
  "page_after key a n rows = take n (order_by key (select_where (\<lambda>r. a < key r) rows))"

fun keyset_loop ::
  "nat \<Rightarrow> ('k \<Rightarrow> ('s, 'r list) prog) \<Rightarrow> ('r \<Rightarrow> 'k) \<Rightarrow> nat \<Rightarrow> ('x \<Rightarrow> 'r list \<Rightarrow> ('s, 'x) prog) \<Rightarrow>
   'k \<Rightarrow> 'x \<Rightarrow> ('s, 'x) prog" where
  "keyset_loop 0 fetch key n body a x = fail (Errorf ''out of fuel'')"
| "keyset_loop (Suc f) fetch key n body a x =
     bindE (fetch a) (\<lambda>b.
     bindE (body x b) (\<lambda>y.
     if length b < n then ret y
     else if b = [] then fail (Errorf ''index out of range'')
     else keyset_loop f fetch key n body (key (last b)) y))"

section \<open>One page after another\<close>

lemma strict_take_filter:
  assumes "sorted_wrt (\<lambda>x y. key x < (key y :: 'k::linorder)) xs" and "0 < n" and "n \<le> length xs"
  shows "filter (\<lambda>r. key (last (take n xs)) < key r) xs = drop n xs"
proof -
  have l: "last (take n xs) = xs ! (n - 1)"
    using assms(2,3) by (cases n) (auto simp: take_Suc_conv_app_nth)
  have idx: "key (xs ! i) < key (xs ! j)" if "i < j" "j < length xs" for i j
    using assms(1) that by (simp add: sorted_wrt_iff_nth_less)
  have "filter (\<lambda>r. key (xs ! (n - 1)) < key r) (take n xs) = []"
  proof (rule filter_False, rule ballI)
    fix x
    assume "x \<in> set (take n xs)"
    then obtain i where "i < n" "i < length xs" "x = xs ! i" by (auto simp: in_set_conv_nth)
    then show "\<not> key (xs ! (n - 1)) < key x"
      using idx [of i "n - 1"] assms(3) by (cases "i = n - 1") force+
  qed
  moreover have "filter (\<lambda>r. key (xs ! (n - 1)) < key r) (drop n xs) = drop n xs"
  proof (rule filter_True, rule ballI)
    fix x
    assume "x \<in> set (drop n xs)"
    then obtain i where "i < length (drop n xs)" "x = drop n xs ! i"
      by (metis in_set_conv_nth)
    then have "n + i < length xs" "x = xs ! (n + i)" by auto
    then show "key (xs ! (n - 1)) < key x" using idx assms(2) by simp
  qed
  ultimately have "filter (\<lambda>r. key (xs ! (n - 1)) < key r) (take n xs @ drop n xs) = drop n xs"
    by (simp del: append_take_drop_id)
  then show ?thesis by (simp add: l)
qed

lemma strict_sort_key:
  "distinct (map key rows) \<Longrightarrow> sorted_wrt (\<lambda>x y. key x < (key y :: 'k::linorder)) (sort_key key rows)"
  using strict_sorted_iff [of "map key (sort_key key rows)"] sorted_sort_key [of key rows]
  by (simp add: sorted_wrt_map distinct_map)

lemma remaining_rows:
  assumes "distinct (map key rows)" and "0 < n" and "length (page_after key a n rows) = n"
  shows "order_by key (select_where (\<lambda>r. a < key r) rows) =
         page_after key a n rows @
         order_by key (select_where (\<lambda>r. key (last (page_after key a n rows)) < key r) rows)"
proof -
  let ?xs = "filter (\<lambda>r. a < key r) (sort_key key rows)"
  have R: "order_by key (select_where (\<lambda>r. b < key r) rows) = filter (\<lambda>r. b < key r) (sort_key key rows)" for b
    by (simp add: order_by_def select_where_def filter_sort)
  have P: "page_after key a n rows = take n ?xs" by (simp add: page_after_def R)
  have n: "n \<le> length ?xs" using assms(3) P by (metis length_take min.absorb_iff2 min.commute)
  have s: "sorted_wrt (\<lambda>x y. key x < key y) ?xs"
    by (intro sorted_wrt_filter strict_sort_key assms(1))
  have "last (take n ?xs) \<in> set ?xs"
    using assms(2) n by (metis in_set_takeD last_in_set length_greater_0_conv length_take less_le_trans
        min.absorb2 take_eq_Nil not_less)
  then have "a < key (last (take n ?xs))" by simp
  then have "filter (\<lambda>r. key (last (take n ?xs)) < key r) (sort_key key rows) =
             filter (\<lambda>r. key (last (take n ?xs)) < key r) ?xs"
    by (auto simp: filter_filter intro!: filter_cong)
  also have "\<dots> = drop n ?xs" by (rule strict_take_filter [OF s assms(2) n])
  finally show ?thesis unfolding P R by simp
qed

section \<open>The loop\<close>

text \<open>
  The interface: a fetch returns the page of what \<open>view\<close> shows of the state, or an error, and
  does not change the view; keys are distinct and the page size positive.
\<close>

locale keyset_source =
  fixes fetch :: "'k::linorder \<Rightarrow> ('s, 'r list) prog"
    and key :: "'r \<Rightarrow> 'k"
    and n :: nat
    and view :: "'s \<Rightarrow> 'r list"
  assumes fetch_ok: "fetch a s = (Inr b, s') \<Longrightarrow> b = page_after key a n (view s) \<and> view s' = view s"
    and fetch_err: "fetch a s = (Inl e, s') \<Longrightarrow> e = ErrIO"
    and size_pos: "0 < n"
begin

text \<open>
  Partial correctness: an invariant \<open>I\<close> over the rows handed out so far, kept by the body on
  every page, holds of all rows at the end.
\<close>

lemma loop_visits_all:
  assumes body: "\<And>seen b x s y s'. I seen x s \<Longrightarrow> body x b s = (Inr y, s') \<Longrightarrow>
      I (seen @ b) y s' \<and> view s' = view s"
    and fetch_keeps: "\<And>seen x a s b s'. I seen x s \<Longrightarrow> fetch a s = (Inr b, s') \<Longrightarrow> I seen x s'"
    and "distinct (map key (view s))"
    and "I seen x s"
    and "keyset_loop fuel fetch key n body a x s = (Inr y, s')"
  shows "I (seen @ order_by key (select_where (\<lambda>r. a < key r) (view s))) y s'"
  using assms(3-5)
proof (induction fuel arbitrary: a x s seen)
  case 0
  then show ?case by simp
next
  case (Suc f)
  from Suc.prems(3) obtain b t u z where
    f: "fetch a s = (Inr b, t)" and bd: "body x b t = (Inr z, u)"
    and r: "(if length b < n then ret z
             else if b = [] then fail (Errorf ''index out of range'')
             else keyset_loop f fetch key n body (key (last b)) z) u = (Inr y, s')"
    by (auto simp: bindE_ok)
  note b = fetch_ok [OF f]
  have I: "I (seen @ b) z u" and v: "view u = view s"
    using body [OF fetch_keeps [OF Suc.prems(2) f] bd] b by auto
  show ?case
  proof (cases "length b < n")
    case True
    then have "b = order_by key (select_where (\<lambda>r. a < key r) (view s))"
      using b by (simp add: page_after_def)
    with True r I show ?thesis by simp
  next
    case False
    then have full: "length (page_after key a n (view s)) = n"
      using b by (simp add: page_after_def)
    have ne: "b \<noteq> []" using False size_pos by auto
    have "I ((seen @ b) @ order_by key (select_where (\<lambda>r. key (last b) < key r) (view u))) y s'"
      using False ne r I v Suc.prems(1) by (intro Suc.IH) auto
    then show ?thesis
      using remaining_rows [OF Suc.prems(1) size_pos full] b v by simp
  qed
qed

text \<open>
  Termination: with fuel beyond the number of remaining rows the only errors are those of a
  fetch or of the body; the loop neither runs out of fuel nor indexes an empty page.
\<close>

lemma loop_errors:
  assumes body: "\<And>x b s r s'. body x b s = (r, s') \<Longrightarrow> view s' = view s"
    and body_err: "\<And>x b s e s'. body x b s = (Inl e, s') \<Longrightarrow> E e"
    and "E ErrIO"
    and "distinct (map key (view s))"
    and "length (select_where (\<lambda>r. a < key r) (view s)) < fuel"
    and "keyset_loop fuel fetch key n body a x s = (Inl e, s')"
  shows "E e"
  using assms(4-6)
proof (induction fuel arbitrary: a x s)
  case 0
  then show ?case by simp
next
  case (Suc f)
  consider (fetch) "fetch a s = (Inl e, s')"
    | (body) b t where "fetch a s = (Inr b, t)" "body x b t = (Inl e, s')"
    | (step) b t y u where "fetch a s = (Inr b, t)" "body x b t = (Inr y, u)"
        "(if length b < n then ret y else if b = [] then fail (Errorf ''index out of range'')
          else keyset_loop f fetch key n body (key (last b)) y) u = (Inl e, s')"
    using Suc.prems(3) by (auto simp: bindE_err)
  then show ?case
  proof cases
    case fetch
    with fetch_err assms(3) show ?thesis by blast
  next
    case body
    with body_err show ?thesis by blast
  next
    case step
    note b = fetch_ok [OF step(1)]
    have long: "\<not> length b < n" and ne: "b \<noteq> []"
      using step(3) size_pos by (auto split: if_splits)
    then have full: "length (page_after key a n (view s)) = n"
      using b by (simp add: page_after_def)
    have v: "view u = view s" using assms(1) [OF step(2)] b by simp
    have "length (select_where (\<lambda>r. a < key r) (view s)) =
          n + length (select_where (\<lambda>r. key (last b) < key r) (view s))"
      using arg_cong [OF remaining_rows [OF Suc.prems(1) size_pos full], of length] b full
      by (simp add: order_by_def)
    then show ?thesis
      using Suc.prems v size_pos step(3) long ne by (intro Suc.IH [of u "key (last b)" y]) auto
  qed
qed

text \<open>
  Total correctness: from a state in which neither a fetch nor the body fails, and keep it so, the
  loop returns.
\<close>

lemma loop_total:
  assumes body: "\<And>x b s. J s \<Longrightarrow> \<exists>y s'. body x b s = (Inr y, s') \<and> J s' \<and> view s' = view s"
    and fetch: "\<And>a s. J s \<Longrightarrow> \<exists>b s'. fetch a s = (Inr b, s') \<and> J s'"
    and "distinct (map key (view s))" and "length (select_where (\<lambda>r. a < key r) (view s)) < fuel" and "J s"
  shows "\<exists>y s'. keyset_loop fuel fetch key n body a x s = (Inr y, s') \<and> J s'"
  using assms(3-5)
proof (induction fuel arbitrary: a x s)
  case 0
  then show ?case by simp
next
  case (Suc f)
  from fetch [OF Suc.prems(3)] obtain b t where f: "fetch a s = (Inr b, t)" "J t" by blast
  from body [OF f(2), of x b] obtain y u where y: "body x b t = (Inr y, u)" "J u" "view u = view t" by blast
  note b = fetch_ok [OF f(1)]
  show ?case
  proof (cases "length b < n")
    case True
    with f y show ?thesis by (simp add: bindE_def ret_def)
  next
    case False
    then have full: "length (page_after key a n (view s)) = n" using b by (simp add: page_after_def)
    have ne: "b \<noteq> []" using False size_pos by auto
    have "length (select_where (\<lambda>r. a < key r) (view s)) =
          n + length (select_where (\<lambda>r. key (last b) < key r) (view s))"
      using arg_cong [OF remaining_rows [OF Suc.prems(1) size_pos full], of length] b full
      by (simp add: order_by_def)
    with Suc.prems y b size_pos have "\<exists>z s'. keyset_loop f fetch key n body (key (last b)) y u = (Inr z, s') \<and> J s'"
      by (intro Suc.IH) auto
    with False ne f y show ?thesis by (simp add: bindE_def)
  qed
qed

end

end
