(* ===== verification/Blobs.thy ===== *)
theory Blobs
  imports Models Pagination
begin

text \<open>
  \<open>internal/database/blobs.go\<close>: the blob rows, their reference checks and the queries the
  garbage collector uses. A digest is the string the code carries (\<open>sha256:...\<close>).
\<close>

section \<open>Operations\<close>

definition GetBlob :: "string \<Rightarrow> ('z store_scheme, Blob option) prog" where
  "GetBlob digest = query (\<lambda>t. find_where (\<lambda>r. blob_digest r = digest) (blobs t))"

definition overwrite_blob :: "int \<Rightarrow> string option \<Rightarrow> bool \<Rightarrow> Blob \<Rightarrow> Blob" where
  "overwrite_blob sizeBytes mediaType storedLocally r =
     r\<lparr>blob_size := (if storedLocally then sizeBytes else blob_size r),
       blob_media_type := coalesce mediaType (blob_media_type r),
       blob_stored := (blob_stored r \<or> storedLocally)\<rparr>"

definition PutBlob :: "string \<Rightarrow> int \<Rightarrow> string option \<Rightarrow> bool \<Rightarrow> ('z store_scheme, unit) prog" where
  "PutBlob digest sizeBytes mediaType storedLocally = exec (\<lambda>c t. t\<lparr>blobs := upsert_where
       (\<lambda>r. blob_digest r = digest) (overwrite_blob sizeBytes mediaType storedLocally)
       \<lparr>blob_id = seq_blobs t, blob_digest = digest, blob_size = sizeBytes,
        blob_media_type = mediaType, blob_stored = storedLocally, blob_created = c\<rparr> (blobs t),
     seq_blobs := seq_blobs t + 1\<rparr>)"

definition BlobExistsInRepo :: "string \<Rightarrow> string \<Rightarrow> ('z store_scheme, bool) prog" where
  "BlobExistsInRepo repoName digest = query (\<lambda>t. exists_where
     (\<lambda>pf. file_blob pf = digest \<and>
        exists_where (\<lambda>pv. ver_id pv = file_version pf \<and>
          exists_where (\<lambda>p. pkg_id p = ver_package pv \<and> pkg_type p = ''oci'' \<and> pkg_name p = repoName)
            (packages t)) (package_versions t) \<and>
        exists_where (\<lambda>b. blob_digest b = file_blob pf) (blobs t))
     (package_files t))"

text \<open>\<open>LIMIT 1\<close> without an order: the model returns the first match in insertion order.\<close>

definition FindRepoForBlob :: "string \<Rightarrow> ('z store_scheme, string) prog" where
  "FindRepoForBlob digest = bindE (query (\<lambda>t. find_where
     (\<lambda>p. pkg_type p = ''oci'' \<and>
        exists_where (\<lambda>pv. ver_package pv = pkg_id p \<and>
          exists_where (\<lambda>pf. file_version pf = ver_id pv \<and> file_blob pf = digest \<and>
            exists_where (\<lambda>b. blob_digest b = file_blob pf) (blobs t)) (package_files t))
          (package_versions t))
     (packages t)))
     (\<lambda>row. case row of None \<Rightarrow> ret '''' | Some p \<Rightarrow> ret (pkg_name p))"

record BlobReconcileRow =
  br_digest :: string
  br_stored :: bool

definition reconcile_row :: "Blob \<Rightarrow> BlobReconcileRow" where
  "reconcile_row b = \<lparr>br_digest = blob_digest b, br_stored = blob_stored b\<rparr>"

definition ListBlobsForReconcile :: "string \<Rightarrow> int \<Rightarrow> ('z store_scheme, BlobReconcileRow list) prog" where
  "ListBlobsForReconcile startAfter limit = query (\<lambda>t. limit_rows limit (order_by br_digest
     (select_where (\<lambda>r. startAfter < br_digest r) (map reconcile_row (blobs t)))))"

definition IsBlobReferenced :: "string \<Rightarrow> ('z store_scheme, bool) prog" where
  "IsBlobReferenced digest = query (\<lambda>t. exists_where (\<lambda>f. file_blob f = digest) (package_files t))"

definition HasPeerBlob :: "string \<Rightarrow> ('z store_scheme, bool) prog" where
  "HasPeerBlob digest = query (\<lambda>t. exists_where (\<lambda>p. pb_digest p = digest) (peer_blobs t))"

definition SetBlobStoredLocally :: "string \<Rightarrow> bool \<Rightarrow> ('z store_scheme, unit) prog" where
  "SetBlobStoredLocally digest stored = exec (\<lambda>_ t. t\<lparr>blobs :=
     update_where (\<lambda>r. blob_digest r = digest) (\<lambda>r. r\<lparr>blob_stored := stored\<rparr>) (blobs t)\<rparr>)"

definition DeleteBlob :: "string \<Rightarrow> ('z store_scheme, unit) prog" where
  "DeleteBlob digest = exec (\<lambda>_ t. t\<lparr>blobs :=
     delete_where (\<lambda>r. blob_digest r = digest) (blobs t)\<rparr>)"

text \<open>The \<open>WHERE\<close> clause of the orphan query; a zero \<open>createdBefore\<close> is \<open>None\<close>.\<close>

definition orphaned :: "int option \<Rightarrow> tables \<Rightarrow> Blob \<Rightarrow> bool" where
  "orphaned createdBefore t b \<longleftrightarrow>
     \<not> exists_where (\<lambda>pf. file_blob pf = blob_digest b) (package_files t) \<and>
     (blob_stored b \<or> \<not> exists_where (\<lambda>pb. pb_digest pb = blob_digest b) (peer_blobs t)) \<and>
     (case createdBefore of None \<Rightarrow> True | Some c \<Rightarrow> blob_created b < c)"

definition OrphanedBlobs :: "int \<Rightarrow> int option \<Rightarrow> ('z store_scheme, string list) prog" where
  "OrphanedBlobs limit createdBefore = query (\<lambda>t.
     limit_rows limit (map blob_digest (select_where (orphaned createdBefore t) (blobs t))))"

definition blob_digest_page :: "int \<Rightarrow> string \<Rightarrow> ('z store_scheme, string list) prog" where
  "blob_digest_page pageSize afterDigest = query (\<lambda>t. limit_rows pageSize (order_by (\<lambda>d. d)
     (select_where (\<lambda>d. afterDigest < d) (map blob_digest (blobs t)))))"

text \<open>The result map is the list of its keys. The fuel is read off the table.\<close>

definition AllBlobDigests :: "int \<Rightarrow> ('z store_scheme, string list) prog" where
  "AllBlobDigests pageSize = bindE (gets (\<lambda>s. length (blobs (tbl s)))) (\<lambda>rows.
     keyset_loop (Suc rows) (blob_digest_page pageSize) (\<lambda>d. d) (nat pageSize)
       (\<lambda>digests batch. ret (digests @ batch)) '''' [])"

section \<open>Lemmas\<close>

lemma wf_blobs_distinct: "wf_tables t \<Longrightarrow> distinct (map blob_digest (blobs t))"
  by (simp add: wf_tables_def blbs.unique_def)

text \<open>The digest query and the reconcile query are keyset sources, at every page size.\<close>

interpretation blob_digest_source: keyset_source "blob_digest_page (int (Suc k))" "\<lambda>d. d" "Suc k"
    "\<lambda>s. map blob_digest (blobs (tbl s))" for k
  unfolding blob_digest_page_def
  by unfold_locales (auto simp: page_after_def limit_rows_def nat_add_distrib dest: query_ok query_err)

interpretation reconcile_source: keyset_source "\<lambda>a. ListBlobsForReconcile a (int (Suc k))" br_digest
    "Suc k" "\<lambda>s. map reconcile_row (blobs (tbl s))" for k
  unfolding ListBlobsForReconcile_def
  by unfold_locales (auto simp: page_after_def limit_rows_def nat_add_distrib dest: query_ok query_err)

section \<open>Properties\<close>

text \<open>The paged scan of all blob digests is complete and terminates: for every page size it either
  fails with an I/O error or returns every nonempty digest of the table exactly once, in order.\<close>

lemma all_digests_complete:
  assumes "0 < pageSize" and "wf_tables (tbl s)"
  shows "case fst (AllBlobDigests pageSize s) of
      Inl e \<Rightarrow> e = ErrIO
    | Inr digests \<Rightarrow> digests = sort (filter (\<lambda>d. '''' < d) (map blob_digest (blobs (tbl s))))"
proof -
  obtain k where k: "pageSize = int (Suc k)"
    using assms(1) by (metis Suc_pred' zero_less_nat_eq nat_0_le order_less_imp_le)
  define body where "body = (\<lambda>digests batch. ret (digests @ batch) :: ('a store_scheme, string list) prog)"
  let ?loop = "keyset_loop (Suc (length (blobs (tbl s)))) (blob_digest_page (int (Suc k))) (\<lambda>d. d) (Suc k) body '''' []"
  have run: "AllBlobDigests pageSize s = ?loop s"
    by (simp add: AllBlobDigests_def k body_def bindE_def gets_def nat_add_distrib)
  have d: "distinct (map (\<lambda>d. d) (map blob_digest (blobs (tbl s))))"
    using wf_blobs_distinct [OF assms(2)] by simp
  obtain r s' where r: "?loop s = (r, s')" by (cases "?loop s") auto
  show ?thesis
  proof (cases r)
    case (Inl e)
    have "e = ErrIO"
      by (rule blob_digest_source.loop_errors [OF _ _ refl d _ r [unfolded Inl]])
        (auto simp: body_def select_where_def less_Suc_eq_le)
    with run r Inl show ?thesis by simp
  next
    case (Inr ds)
    have "ds = [] @ order_by (\<lambda>d. d) (select_where (\<lambda>d. '''' < d) (map blob_digest (blobs (tbl s))))"
      by (rule blob_digest_source.loop_visits_all [where I = "\<lambda>seen x s. x = seen", OF _ _ d _ r [unfolded Inr]])
        (auto simp: body_def)
    with run r Inr show ?thesis by (simp add: order_by_def select_where_def)
  qed
qed

definition blob_row :: "int \<Rightarrow> string \<Rightarrow> Blob" where
  "blob_row i d = \<lparr>blob_id = i, blob_digest = d, blob_size = 1, blob_media_type = None, blob_stored = True, blob_created = 0\<rparr>"

definition blob_store3 :: store where
  "blob_store3 = (init_store 0)\<lparr>tbl := empty_tables\<lparr>blobs := [blob_row 1 ''b'', blob_row 2 ''c'', blob_row 3 ''a''], seq_blobs := 4\<rparr>\<rparr>"

lemma all_digests_complete_witness: "fst (AllBlobDigests 2 blob_store3) = Inr [''a'', ''b'', ''c'']"
proof -
  have w: "wf_tables (tbl blob_store3)"
    using wf_empty_tables
    by (simp add: blob_store3_def blob_row_def wf_tables_def empty_tables_def blbs.unique_def blbs.fresh_def)
  have f: "\<not> isl (fst (AllBlobDigests 2 blob_store3))" by code_simp
  have srt: "sort (filter (\<lambda>d. '''' < d) (map blob_digest (blobs (tbl blob_store3)))) = [''a'', ''b'', ''c'']" by code_simp
  from all_digests_complete [of 2 blob_store3] w f srt show ?thesis
    by (cases "fst (AllBlobDigests 2 blob_store3)") auto
qed

end
