(* ===== verification/Path_Match.thy ===== *)
theory Path_Match
  imports Prelude
begin

text \<open>
  Go's \<open>path.Match\<close>, which the program uses for repository globs, tag pins and follower tag
  filters. The definitions follow the library's own routine (\<open>scanChunk\<close>, \<open>matchChunk\<close>,
  \<open>getEsc\<close>), over bytes: names and globs of the program are ASCII, where a rune is one byte.
  \<open>None\<close> is \<open>ErrBadPattern\<close>.
\<close>

section \<open>The matcher\<close>

text \<open>\<open>scanChunk\<close>: strip leading stars, then take everything up to the next star outside a class.\<close>

fun scan_body :: "bool \<Rightarrow> string \<Rightarrow> string \<times> string" where
  "scan_body inrange [] = ([], [])"
| "scan_body inrange (c # p) =
     (if c = CHR 0x5C then
        (case p of
           [] \<Rightarrow> ([c], [])
         | d # p' \<Rightarrow> (let (b, r) = scan_body inrange p' in (c # d # b, r)))
      else if c = CHR ''['' then (let (b, r) = scan_body True p in (c # b, r))
      else if c = CHR '']'' then (let (b, r) = scan_body False p in (c # b, r))
      else if c = CHR ''*'' \<and> \<not> inrange then ([], c # p)
      else (let (b, r) = scan_body inrange p in (c # b, r)))"

definition scanChunk :: "string \<Rightarrow> bool \<times> string \<times> string" where
  "scanChunk pattern =
     (let p = dropWhile (\<lambda>c. c = CHR ''*'') pattern in
      case scan_body False p of (chunk, rest) \<Rightarrow> (p \<noteq> pattern, chunk, rest))"

definition getEsc :: "string \<Rightarrow> (char \<times> string) option" where
  "getEsc chunk = (case chunk of
      [] \<Rightarrow> None
    | c # cs \<Rightarrow>
        if c = CHR ''-'' \<or> c = CHR '']'' then None
        else if c = CHR 0x5C then
          (case cs of d # ds \<Rightarrow> if ds = [] then None else Some (d, ds) | [] \<Rightarrow> None)
        else if cs = [] then None else Some (c, cs))"

lemma getEsc_shorter: "getEsc chunk = Some (r, rest) \<Longrightarrow> length rest < length chunk"
  by (auto simp: getEsc_def split: list.splits if_splits)

text \<open>
  The ranges of a character class against the byte \<open>r\<close>; \<open>first\<close> says that no range was read
  yet, so that a closing bracket is not the end. Returns whether a range matched.
\<close>

function (sequential) class_ranges :: "bool \<Rightarrow> char \<Rightarrow> bool \<Rightarrow> string \<Rightarrow> (bool \<times> string) option" where
  "class_ranges first r m chunk =
     (if chunk \<noteq> [] \<and> hd chunk = CHR '']'' \<and> \<not> first then Some (m, tl chunk)
      else case getEsc chunk of
          None \<Rightarrow> None
        | Some (lo, rest) \<Rightarrow>
            if hd rest = CHR ''-'' then
              (case getEsc (tl rest) of
                 None \<Rightarrow> None
               | Some (hi, rest') \<Rightarrow> class_ranges False r (m \<or> (lo \<le> r \<and> r \<le> hi)) rest')
            else class_ranges False r (m \<or> lo = r) rest)"
  by pat_completeness auto
termination
proof (relation "measure (\<lambda>(_, _, _, chunk). length chunk)", goal_cases)
  case 1
  show ?case by simp
next
  case (2 first r m chunk p lo rest q hi rest')
  then have "length rest < length chunk" and "length rest' < length (tl rest)"
    by (auto dest: getEsc_shorter)
  then show ?case by simp
next
  case (3 first r m chunk p lo rest)
  then show ?case by (auto dest: getEsc_shorter)
qed

declare class_ranges.simps [simp del]

lemma class_ranges_shorter:
  "class_ranges first r m chunk = Some (b, rest) \<Longrightarrow> length rest < length chunk"
proof (induction first r m chunk rule: class_ranges.induct)
  case (1 first r m chunk)
  show ?case
  proof (cases "chunk \<noteq> [] \<and> hd chunk = CHR '']'' \<and> \<not> first")
    case True
    with 1(3) show ?thesis by (subst (asm) class_ranges.simps) auto
  next
    case False
    with 1(3) obtain lo rs where e: "getEsc chunk = Some (lo, rs)"
      by (auto simp: class_ranges.simps [of first] split: option.splits if_splits)
    note lt = getEsc_shorter [OF e]
    show ?thesis
    proof (cases "hd rs = CHR ''-''")
      case True
      with 1(3) False e obtain hi rs' where h: "getEsc (tl rs) = Some (hi, rs')"
        and c: "class_ranges False r (m \<or> (lo \<le> r \<and> r \<le> hi)) rs' = Some (b, rest)"
        by (auto simp: class_ranges.simps [of first] split: option.splits if_splits)
      from 1(1) [OF False e refl True h refl c] getEsc_shorter [OF h] lt show ?thesis by simp
    next
      case no: False
      with 1(3) False e have "class_ranges False r (m \<or> lo = r) rs = Some (b, rest)"
        by (auto simp: class_ranges.simps [of first])
      from 1(2) [OF False e refl no this] lt show ?thesis by simp
    qed
  qed
qed

text \<open>
  \<open>matchChunk\<close>: \<open>Some (Some rest)\<close> when the chunk matched a prefix of \<open>s\<close>, \<open>Some None\<close> when it
  did not. After a mismatch the rest of the chunk is still read, for its syntax.
\<close>

function (sequential) match_chunk :: "bool \<Rightarrow> string \<Rightarrow> string \<Rightarrow> string option option" where
  "match_chunk failed [] s = Some (if failed then None else Some s)"
| "match_chunk failed0 (c # cs) s =
     (let failed = (failed0 \<or> s = []) in
      if c = CHR ''['' then
        (let negated = (cs \<noteq> [] \<and> hd cs = CHR ''^'');
             body = (if negated then tl cs else cs);
             r = (if failed then CHR 0x00 else hd s) in
         case class_ranges True r False body of
           None \<Rightarrow> None
         | Some (m, rest) \<Rightarrow>
             match_chunk (failed \<or> m = negated) rest (if failed then s else tl s))
      else if c = CHR ''?'' then
        match_chunk (failed \<or> hd s = CHR ''/'') cs (if failed then s else tl s)
      else if c = CHR 0x5C then
        (case cs of
           [] \<Rightarrow> None
         | d # ds \<Rightarrow> match_chunk (failed \<or> d \<noteq> hd s) ds (if failed then s else tl s))
      else match_chunk (failed \<or> c \<noteq> hd s) cs (if failed then s else tl s))"
  by pat_completeness auto
termination
proof (relation "measure (\<lambda>(_, chunk, _). length chunk)", goal_cases)
  case 1
  show ?case by simp
next
  case (2 failed0 c cs s failed negated body r p m rest)
  then have "length rest < length body" by (auto dest: class_ranges_shorter)
  moreover have "length body \<le> length cs" using 2 by simp
  ultimately show ?case by simp
qed auto

definition matchChunk :: "string \<Rightarrow> string \<Rightarrow> string option option" where
  "matchChunk chunk s = match_chunk False chunk s"

text \<open>
  The inner loop of a starred chunk: the leftmost position past the current one, before any
  slash, where the chunk matches; the last chunk has to reach the end of the name.
\<close>

fun star_search :: "bool \<Rightarrow> string \<Rightarrow> string \<Rightarrow> string option option" where
  "star_search lastc chunk [] = Some None"
| "star_search lastc chunk (x # name) =
     (if x = CHR ''/'' then Some None
      else case matchChunk chunk name of
          None \<Rightarrow> None
        | Some None \<Rightarrow> star_search lastc chunk name
        | Some (Some t) \<Rightarrow> if lastc \<and> t \<noteq> [] then star_search lastc chunk name else Some (Some t))"

lemma scan_body_length:
  "length (fst (scan_body b p)) + length (snd (scan_body b p)) = length p"
proof (induction b p rule: scan_body.induct)
  case (2 b c p)
  then show ?case by (cases p) (auto simp: Let_def case_prod_beta)
qed simp

lemma scan_body_nonempty: "c \<noteq> CHR ''*'' \<Longrightarrow> fst (scan_body b (c # p)) \<noteq> []"
  by (cases p) (simp_all add: Let_def case_prod_beta)

lemma scanChunk_shorter:
  assumes "scanChunk p = (star, chunk, rest)" and "p \<noteq> []"
  shows "length rest < length p"
proof -
  let ?q = "dropWhile (\<lambda>c. c = CHR ''*'') p"
  have r: "rest = snd (scan_body False ?q)"
    using assms(1) by (simp add: scanChunk_def Let_def case_prod_beta)
  obtain c cs where p: "p = c # cs" using assms(2) by (cases p) auto
  show ?thesis
  proof (cases "c = CHR ''*''")
    case True
    then have "length ?q \<le> length cs" using p by (simp add: length_dropWhile_le)
    with r p scan_body_length [of False ?q] show ?thesis by simp
  next
    case False
    with p r have "length rest = length (snd (scan_body False p))" by simp
    moreover have "0 < length (fst (scan_body False p))"
      using scan_body_nonempty [OF False] p by blast
    ultimately show ?thesis using scan_body_length [of False p] by linarith
  qed
qed

text \<open>The syntax check of what is left of the pattern after a mismatch.\<close>

function pattern_rest_ok :: "string \<Rightarrow> bool" where
  "pattern_rest_ok pattern =
     (if pattern = [] then True
      else case scanChunk pattern of (_, chunk, rest) \<Rightarrow>
        matchChunk chunk [] \<noteq> None \<and> pattern_rest_ok rest)"
  by pat_completeness auto
termination
  by (relation "measure length") (auto dest: scanChunk_shorter [OF sym])

declare pattern_rest_ok.simps [simp del]

text \<open>A match at the current position counts unless it is the last chunk and leaves a rest.\<close>

definition chunk_hit :: "string \<Rightarrow> string option \<Rightarrow> string option" where
  "chunk_hit rest got = (case got of
      Some t \<Rightarrow> if t = [] \<or> rest \<noteq> [] then Some t else None
    | None \<Rightarrow> None)"

function path_match :: "string \<Rightarrow> string \<Rightarrow> bool option" where
  "path_match pattern name =
     (if pattern = [] then Some (name = [])
      else case scanChunk pattern of (star, chunk, rest) \<Rightarrow>
        if star \<and> chunk = [] then Some (\<not> Contains_char name CHR ''/'')
        else case matchChunk chunk name of
            None \<Rightarrow> None
          | Some got \<Rightarrow>
              (case chunk_hit rest got of
                 Some t \<Rightarrow> path_match rest t
               | None \<Rightarrow>
                   (case (if star then star_search (rest = []) chunk name else Some None) of
                      None \<Rightarrow> None
                    | Some (Some t) \<Rightarrow> path_match rest t
                    | Some None \<Rightarrow> if pattern_rest_ok rest then Some False else None)))"
  by pat_completeness auto
termination
  by (relation "measure (\<lambda>(pattern, _). length pattern)") (auto dest: scanChunk_shorter [OF sym])

declare path_match.simps [simp del]

section \<open>A pattern is malformed for every name or for none\<close>

lemma class_ranges_shape:
  "map_option snd (class_ranges first r m chunk) = map_option snd (class_ranges first r' m' chunk)"
proof (induction first r m chunk arbitrary: r' m' rule: class_ranges.induct)
  case (1 first r m chunk)
  show ?case
  proof (cases "chunk \<noteq> [] \<and> hd chunk = CHR '']'' \<and> \<not> first")
    case True
    then show ?thesis by (subst (1 2) class_ranges.simps) simp
  next
    case no: False
    show ?thesis
    proof (cases "getEsc chunk")
      case None
      with no show ?thesis by (subst (1 2) class_ranges.simps) simp
    next
      case (Some p)
      obtain lo rest where p: "p = (lo, rest)" by (cases p) auto
      note e = Some [unfolded p]
      show ?thesis
      proof (cases "hd rest = CHR ''-''")
        case False
        have "map_option snd (class_ranges False r (m \<or> lo = r) rest) =
              map_option snd (class_ranges False r' (m' \<or> lo = r') rest)"
          by (rule 1(2) [OF no e refl False])
        with no e False show ?thesis by (subst (1 2) class_ranges.simps) auto
      next
        case dash: True
        show ?thesis
        proof (cases "getEsc (tl rest)")
          case None
          with no e dash show ?thesis by (subst (1 2) class_ranges.simps) simp
        next
          case (Some q)
          obtain hi rest' where q: "q = (hi, rest')" by (cases q) auto
          have "map_option snd (class_ranges False r (m \<or> (lo \<le> r \<and> r \<le> hi)) rest') =
                map_option snd (class_ranges False r' (m' \<or> (lo \<le> r' \<and> r' \<le> hi)) rest')"
            by (rule 1(1) [OF no e refl dash Some [unfolded q] refl])
          with no e dash Some q show ?thesis by (subst (1 2) class_ranges.simps) auto
        qed
      qed
    qed
  qed
qed

lemma map_option_snd_Some: "map_option snd x = Some r \<Longrightarrow> \<exists>m. x = Some (m, r)"
  by (cases x) auto

lemma match_chunk_bad: "match_chunk f chunk s = None \<longleftrightarrow> match_chunk f' chunk s' = None"
proof (induction f chunk s arbitrary: f' s' rule: match_chunk.induct)
  case (1 f s)
  show ?case by simp
next
  case (2 f c cs s)
  let ?r = "\<lambda>f s. if f \<or> s = [] then CHR 0x00 else hd s"
  let ?body = "if cs \<noteq> [] \<and> hd cs = CHR ''^'' then tl cs else cs"
  show ?case
  proof (cases "c = CHR ''[''")
    case True
    note shape = class_ranges_shape [of True "?r f s" False ?body "?r f' s'" False]
    show ?thesis
    proof (cases "class_ranges True (?r f s) False ?body")
      case None
      with shape have "class_ranges True (?r f' s') False ?body = None" by simp
      with None True show ?thesis by (simp add: Let_def)
    next
      case (Some p)
      obtain m rest where p: "p = (m, rest)" by (cases p) auto
      have "map_option snd (class_ranges True (?r f' s') False ?body) = Some rest"
        unfolding shape [symmetric] Some p by simp
      from map_option_snd_Some [OF this]
      obtain m' where "class_ranges True (?r f' s') False ?body = Some (m', rest)" ..
      with Some p True 2(1) [OF refl True refl refl refl Some [unfolded p] refl] show ?thesis
        by (simp add: Let_def)
    qed
  next
    case no: False
    consider "c = CHR ''?''" | "c = CHR 0x5C" | "c \<noteq> CHR ''?''" "c \<noteq> CHR 0x5C" by blast
    then show ?thesis
    proof cases
      case 1
      with 2(2) [OF refl no 1] show ?thesis by (simp add: Let_def)
    next
      case bs: 2
      show ?thesis
      proof (cases cs)
        case Nil
        with bs show ?thesis by (simp add: Let_def)
      next
        case (Cons d ds)
        with bs 2(3) [OF refl no _ bs Cons] show ?thesis by (simp add: Let_def)
      qed
    next
      case 3
      with no 2(4) [OF refl no 3] show ?thesis by (simp add: Let_def)
    qed
  qed
qed

lemma matchChunk_bad: "matchChunk chunk s = None \<longleftrightarrow> matchChunk chunk s' = None"
  unfolding matchChunk_def by (rule match_chunk_bad)

lemma star_search_ok: "matchChunk chunk s0 \<noteq> None \<Longrightarrow> star_search lastc chunk name \<noteq> None"
proof (induction name)
  case (Cons x name)
  then have "matchChunk chunk name \<noteq> None" using matchChunk_bad [of chunk s0 name] by simp
  with Cons show ?case by (auto split: option.splits)
qed simp

lemma scanChunk_empty: "scanChunk p = (star, [], rest) \<Longrightarrow> rest = []"
proof -
  assume a: "scanChunk p = (star, [], rest)"
  let ?q = "dropWhile (\<lambda>c. c = CHR ''*'') p"
  from a have e: "scan_body False ?q = ([], rest)" by (simp add: scanChunk_def Let_def case_prod_beta prod_eq_iff)
  show "rest = []"
  proof (cases ?q)
    case Nil
    with e show ?thesis by simp
  next
    case (Cons c cs)
    then have "c \<noteq> CHR ''*''" using hd_dropWhile [of "\<lambda>c. c = CHR ''*''" p] by simp
    with scan_body_nonempty [of c False cs] e Cons show ?thesis by simp
  qed
qed

lemma path_match_bad: "path_match pattern name = None \<longleftrightarrow> \<not> pattern_rest_ok pattern"
proof (induction pattern name rule: path_match.induct)
  case (1 pattern name)
  show ?case
  proof (cases "pattern = []")
    case True
    then show ?thesis by (simp add: path_match.simps [of "[]"] pattern_rest_ok.simps [of "[]"])
  next
    case ne: False
    obtain star chunk rest where sc: "scanChunk pattern = (star, chunk, rest)"
      by (cases "scanChunk pattern") auto
    have ok: "pattern_rest_ok pattern \<longleftrightarrow> matchChunk chunk name \<noteq> None \<and> pattern_rest_ok rest"
      using ne sc matchChunk_bad [of chunk "[]" name]
      by (auto simp: pattern_rest_ok.simps [of pattern])
    show ?thesis
    proof (cases "star \<and> chunk = []")
      case True
      then have "matchChunk chunk name \<noteq> None" by (simp add: matchChunk_def)
      moreover have "pattern_rest_ok rest"
        using True sc scanChunk_empty by (simp add: pattern_rest_ok.simps)
      ultimately show ?thesis
        using True ne sc ok by (auto simp: path_match.simps [of pattern])
    next
      case notstar: False
      note nstar = ne sc notstar
      show ?thesis
      proof (cases "matchChunk chunk name")
        case None
        with nstar ok show ?thesis by (auto simp: path_match.simps [of pattern])
      next
        case (Some got)
        then have ss: "star_search (rest = []) chunk name \<noteq> None"
          using star_search_ok by (metis option.distinct(1))
        from ok Some have ok': "pattern_rest_ok pattern \<longleftrightarrow> pattern_rest_ok rest" by simp
        show ?thesis
        proof (cases "chunk_hit rest got")
          case (Some t)
          with nstar \<open>matchChunk chunk name = Some got\<close> ok'
            1(2) [OF ne sc [symmetric] refl notstar \<open>matchChunk chunk name = Some got\<close> Some]
          show ?thesis by (auto simp: path_match.simps [of pattern])
        next
          case None
          note hit = this
          obtain found where f: "(if star then star_search (rest = []) chunk name else Some None) = Some found"
            using ss by (cases star) auto
          show ?thesis
          proof (cases found)
            case None
            with nstar \<open>matchChunk chunk name = Some got\<close> ok' hit f
            show ?thesis by (auto simp: path_match.simps [of pattern])
          next
            case (Some t)
            with nstar \<open>matchChunk chunk name = Some got\<close> ok' hit f
              1(1) [OF ne sc [symmetric] refl notstar \<open>matchChunk chunk name = Some got\<close> hit f Some]
            show ?thesis by (auto simp: path_match.simps [of pattern])
          qed
        qed
      qed
    qed
  qed
qed

section \<open>Literal and prefix patterns\<close>

definition glob_literal :: "string \<Rightarrow> bool" where
  "glob_literal p \<longleftrightarrow> (\<forall>c \<in> set p. c \<notin> {CHR ''*'', CHR ''?'', CHR ''['', CHR 0x5C})"

lemma glob_literal_Cons [simp]:
  "glob_literal (c # p) \<longleftrightarrow>
     c \<noteq> CHR ''*'' \<and> c \<noteq> CHR ''?'' \<and> c \<noteq> CHR ''['' \<and> c \<noteq> CHR 0x5C \<and> glob_literal p"
  by (auto simp: glob_literal_def)

lemma glob_literal_Nil [simp]: "glob_literal []"
  by (simp add: glob_literal_def)

lemma scan_body_literal: "glob_literal p \<Longrightarrow> scan_body False p = (p, [])"
  by (induction p) (auto simp: Let_def)

lemma scan_body_literal_star: "glob_literal p \<Longrightarrow> scan_body False (p @ CHR ''*'' # q) = (p, CHR ''*'' # q)"
  by (induction p) (auto simp: Let_def)

lemma match_chunk_literal:
  "glob_literal p \<Longrightarrow>
   match_chunk f p s = Some (if \<not> f \<and> HasPrefix s p then Some (drop (length p) s) else None)"
proof (induction p arbitrary: f s)
  case Nil
  show ?case by (simp add: HasPrefix_def)
next
  case (Cons c p)
  then have "match_chunk f (c # p) s = match_chunk (f \<or> s = [] \<or> c \<noteq> hd s) p (if f \<or> s = [] then s else tl s)"
    by (simp add: Let_def disj_assoc)
  also have "\<dots> = Some (if \<not> f \<and> HasPrefix s (c # p) then Some (drop (length (c # p)) s) else None)"
    using Cons by (cases s) (auto simp: HasPrefix_def)
  finally show ?case .
qed

lemma path_match_literal: "glob_literal p \<Longrightarrow> path_match p s = Some (s = p)"
proof (cases p)
  case Nil
  then show ?thesis by (simp add: path_match.simps [of "[]"])
next
  case (Cons c q)
  assume l: "glob_literal p"
  have "scanChunk p = (False, p, [])"
    using l Cons by (simp add: scanChunk_def scan_body_literal)
  moreover have "p \<noteq> []" using Cons by simp
  ultimately show ?thesis
    using l by (auto simp: path_match.simps [of p] path_match.simps [of "[]"]
        pattern_rest_ok.simps [of "[]"] matchChunk_def match_chunk_literal chunk_hit_def HasPrefix_iff)
qed

lemma path_match_star: "path_match ''*'' s = Some (CHR ''/'' \<notin> set s)"
  by (simp add: path_match.simps [of "''*''"] scanChunk_def Contains_char_def)

lemma path_match_prefix:
  assumes "glob_literal p"
  shows "path_match (p @ ''*'') s = Some (\<exists>t. s = p @ t \<and> CHR ''/'' \<notin> set t)"
proof (cases p)
  case Nil
  then show ?thesis by (simp add: path_match_star)
next
  case (Cons c q)
  have "scanChunk (p @ ''*'') = (False, p, ''*'')"
    using assms Cons scan_body_literal_star [OF assms, of "[]"] by (simp add: scanChunk_def)
  moreover have "pattern_rest_ok ''*''"
    using path_match_bad [of "''*''" "[]"] path_match_star [of "[]"] by simp
  moreover have "p \<noteq> []" using Cons by simp
  ultimately show ?thesis
    using assms
    by (auto simp: path_match.simps [of "p @ ''*''"] matchChunk_def match_chunk_literal chunk_hit_def
        HasPrefix_iff path_match_star)
qed

end
