(* ===== verification/Actors.thy ===== *)
theory Actors
  imports Models Pagination Path_Match "HOL-Library.Option_ord"
begin

text \<open>
  \<open>internal/database/actors.go\<close>: remote actors with both directions of a follow, pending
  follow requests, peer health and the locations of blobs on peers. \<open>CURRENT_TIMESTAMP\<close> and
  \<open>time.Now()\<close> are the clock. \<open>NULL\<close> sorts below every value (SQLite's order).
\<close>

section \<open>LIKE with an escape character\<close>

definition like_char :: "bool \<Rightarrow> char \<Rightarrow> char" where
  "like_char nocase c = (if nocase then lower_char c else c)"

text \<open>\<open>s LIKE p ESCAPE '\'\<close>; SQLite folds ASCII case, Postgres does not.\<close>

fun like :: "bool \<Rightarrow> string \<Rightarrow> string \<Rightarrow> bool" where
  "like nocase [] s \<longleftrightarrow> s = []"
| "like nocase (c # p) s \<longleftrightarrow>
     (if c = CHR 0x5C then
        (case (p, s) of
           (d # p', x # s') \<Rightarrow> like_char nocase d = like_char nocase x \<and> like nocase p' s'
         | _ \<Rightarrow> False)
      else if c = CHR ''%'' then
        (like nocase p s \<or> (case s of [] \<Rightarrow> False | x # s' \<Rightarrow> like nocase (c # p) s'))
      else
        (case s of
           [] \<Rightarrow> False
         | x # s' \<Rightarrow> (c = CHR ''_'' \<or> like_char nocase c = like_char nocase x) \<and> like nocase p s'))"

definition escapeLike :: "string \<Rightarrow> string" where
  "escapeLike s = concat (map
     (\<lambda>c. if c = CHR 0x5C \<or> c = CHR ''%'' \<or> c = CHR ''_'' then [CHR 0x5C, c] else [c]) s)"

definition endpointDomainConds :: "string \<Rightarrow> string \<times> string \<times> string" where
  "endpointDomainConds domain =
     (let base = ''https://'' @ domain; escaped = ''https://'' @ escapeLike domain in
      (base, escaped @ ''/%'', escaped @ '':%''))"

definition endpoint_in_domain :: "bool \<Rightarrow> string \<Rightarrow> string \<Rightarrow> bool" where
  "endpoint_in_domain pg domain endpoint =
     (case endpointDomainConds domain of (exact, withPath, withPort) \<Rightarrow>
        endpoint = exact \<or> like (\<not> pg) withPath endpoint \<or> like (\<not> pg) withPort endpoint)"

section \<open>Actor rows\<close>

text \<open>A row with the column defaults.\<close>

definition default_actor :: "int \<Rightarrow> tables \<Rightarrow> string \<Rightarrow> Actor" where
  "default_actor c t actorURL = \<lparr>act_id = seq_actors t, act_url = actorURL, act_name = None,
     act_alias = None, act_endpoint = '''', act_key = None, act_they_follow = False,
     act_they_follow_at = None, act_we_follow = False, act_we_status = None,
     act_we_accept_at = None, act_healthy = True, act_policy = ''lazy'', act_seen = None,
     act_globs = None, act_created = c\<rparr>"

definition merge_actor :: "Actor \<Rightarrow> Actor \<Rightarrow> Actor" where
  "merge_actor a r = r\<lparr>act_name := coalesce (act_name a) (act_name r),
     act_alias := coalesce (act_alias a) (act_alias r), act_endpoint := act_endpoint a,
     act_key := coalesce (act_key a) (act_key r),
     act_they_follow := (if act_they_follow a then True else act_they_follow r),
     act_they_follow_at := coalesce (act_they_follow_at a) (act_they_follow_at r),
     act_we_follow := (if act_we_follow a then True else act_we_follow r),
     act_we_status := coalesce (act_we_status a) (act_we_status r),
     act_we_accept_at := coalesce (act_we_accept_at a) (act_we_accept_at r),
     act_healthy := act_healthy a, act_policy := act_policy a,
     act_seen := coalesce (act_seen a) (act_seen r)\<rparr>"

definition UpsertActor :: "Actor \<Rightarrow> ('z store_scheme, unit) prog" where
  "UpsertActor a = exec (\<lambda>c t. t\<lparr>actors := upsert_where (\<lambda>r. act_url r = act_url a) (merge_actor a)
       (a\<lparr>act_id := seq_actors t, act_globs := None, act_created := c\<rparr>) (actors t),
     seq_actors := seq_actors t + 1\<rparr>)"

definition GetActor :: "string \<Rightarrow> ('z store_scheme, Actor option) prog" where
  "GetActor actorURL = query (\<lambda>t. find_where (\<lambda>r. act_url r = actorURL) (actors t))"

definition DeleteActor :: "string \<Rightarrow> ('z store_scheme, unit) prog" where
  "DeleteActor actorURL = exec (\<lambda>_ t. t\<lparr>actors :=
     delete_where (\<lambda>r. act_url r = actorURL) (actors t)\<rparr>)"

definition FindActorByInput :: "string \<Rightarrow> ('z store_scheme, Actor option) prog" where
  "FindActorByInput input =
     bindE (query (\<lambda>t. find_where (\<lambda>r. act_url r = input) (actors t))) (\<lambda>a. case a of
       Some a \<Rightarrow> ret (Some a) | None \<Rightarrow>
     bindE (query (\<lambda>t. find_where (\<lambda>r. act_alias r = Some input) (actors t))) (\<lambda>a. case a of
       Some a \<Rightarrow> ret (Some a) | None \<Rightarrow>
     bindE (query (\<lambda>t. find_where (\<lambda>r. act_name r = Some input) (actors t))) (\<lambda>a. case a of
       Some a \<Rightarrow> ret (Some a) | None \<Rightarrow>
     bindE (gets postgres) (\<lambda>pg.
     query (\<lambda>t. find_where (\<lambda>r. endpoint_in_domain pg input (act_endpoint r)) (actors t))))))"

definition ListActors :: "('z store_scheme, Actor list) prog" where
  "ListActors = query (\<lambda>t. order_by_desc act_created (actors t))"

definition ListAllPeers :: "('z store_scheme, Actor list) prog" where
  "ListAllPeers = ListActors"

definition CountPeers :: "('z store_scheme, nat) prog" where
  "CountPeers = query (\<lambda>t. length (actors t))"

section \<open>Follow requests\<close>

definition AddFollowRequest ::
  "string \<Rightarrow> string \<Rightarrow> string \<Rightarrow> string option \<Rightarrow> ('z store_scheme, unit) prog" where
  "AddFollowRequest actorURL publicKeyPEM endpoint alias = exec (\<lambda>c t. t\<lparr>follow_requests := upsert_where
       (\<lambda>r. fr_url r = actorURL)
       (\<lambda>r. r\<lparr>fr_key := publicKeyPEM, fr_endpoint := endpoint, fr_alias := alias\<rparr>)
       \<lparr>fr_id = seq_requests t, fr_url = actorURL, fr_key = publicKeyPEM, fr_endpoint = endpoint,
        fr_alias = alias, fr_requested = c\<rparr> (follow_requests t),
     seq_requests := seq_requests t + 1\<rparr>)"

definition GetFollowRequest :: "string \<Rightarrow> ('z store_scheme, FollowRequest option) prog" where
  "GetFollowRequest actorURL = query (\<lambda>t. find_where (\<lambda>r. fr_url r = actorURL) (follow_requests t))"

definition FindFollowRequestByInput :: "string \<Rightarrow> ('z store_scheme, FollowRequest option) prog" where
  "FindFollowRequestByInput input =
     bindE (query (\<lambda>t. find_where (\<lambda>r. fr_url r = input) (follow_requests t))) (\<lambda>a. case a of
       Some a \<Rightarrow> ret (Some a) | None \<Rightarrow>
     bindE (query (\<lambda>t. find_where (\<lambda>r. fr_alias r = Some input) (follow_requests t))) (\<lambda>a. case a of
       Some a \<Rightarrow> ret (Some a) | None \<Rightarrow>
     bindE (gets postgres) (\<lambda>pg.
     query (\<lambda>t. find_where (\<lambda>r. endpoint_in_domain pg input (fr_endpoint r)) (follow_requests t)))))"

definition ListFollowRequests :: "('z store_scheme, FollowRequest list) prog" where
  "ListFollowRequests = query (\<lambda>t. order_by_desc fr_requested (follow_requests t))"

text \<open>An \<open>UPDATE\<close> or \<open>DELETE\<close> with its \<open>RowsAffected\<close>, which the method turns into an error when zero.\<close>

definition affecting :: "('z store_scheme, nat) prog \<Rightarrow> err \<Rightarrow> ('z store_scheme, unit) prog" where
  "affecting m e = bindE m (\<lambda>n. if n = 0 then fail e else ret ())"

definition RejectFollowRequest :: "string \<Rightarrow> ('z store_scheme, unit) prog" where
  "RejectFollowRequest actorURL = affecting (exec_rows (\<lambda>_ t.
     (count_where (\<lambda>r. fr_url r = actorURL) (follow_requests t),
      t\<lparr>follow_requests := delete_where (\<lambda>r. fr_url r = actorURL) (follow_requests t)\<rparr>)))
     (Errorf ''no pending follow request'')"

definition RefreshFollowRequest ::
  "string \<Rightarrow> string \<Rightarrow> string \<Rightarrow> string option \<Rightarrow> ('z store_scheme, unit) prog" where
  "RefreshFollowRequest actorURL publicKeyPEM endpoint alias = affecting (exec_rows (\<lambda>_ t.
     (count_where (\<lambda>r. fr_url r = actorURL) (follow_requests t),
      t\<lparr>follow_requests := update_where (\<lambda>r. fr_url r = actorURL)
          (\<lambda>r. r\<lparr>fr_key := publicKeyPEM, fr_endpoint := endpoint, fr_alias := alias\<rparr>)
          (follow_requests t)\<rparr>)))
     (Errorf ''no follow request found'')"

section \<open>Followers\<close>

text \<open>\<open>UPDATE actors SET ... WHERE\<close> with the count of rows it touched.\<close>

definition update_actors :: "(Actor \<Rightarrow> bool) \<Rightarrow> (int \<Rightarrow> Actor \<Rightarrow> Actor) \<Rightarrow> ('z store_scheme, nat) prog" where
  "update_actors p f = exec_rows (\<lambda>c t.
     (count_where p (actors t), t\<lparr>actors := update_where p (f c) (actors t)\<rparr>))"

definition ListFollowers :: "('z store_scheme, Actor list) prog" where
  "ListFollowers = query (\<lambda>t. order_by_desc act_they_follow_at (select_where act_they_follow (actors t)))"

definition ListFollows :: "('z store_scheme, Actor list) prog" where
  "ListFollows = ListFollowers"

text \<open>The cleaning loop of \<open>UpdateFollowFilter\<close>: trims, drops empties, stops at the first bad glob.\<close>

fun clean_globs :: "string list \<Rightarrow> string list option" where
  "clean_globs [] = Some []"
| "clean_globs (g # gs) =
     (let g' = TrimSpace g in
      if g' = [] then clean_globs gs
      else if path_match g' ''probe'' = None then None
      else map_option (Cons g') (clean_globs gs))"

definition UpdateFollowFilter :: "string \<Rightarrow> string list \<Rightarrow> ('z store_scheme, unit) prog" where
  "UpdateFollowFilter actorURL tagGlobs = (case clean_globs tagGlobs of
      None \<Rightarrow> fail ErrInvalidGlob
    | Some cleaned \<Rightarrow>
        affecting (update_actors (\<lambda>r. act_url r = actorURL \<and> act_they_follow r)
          (\<lambda>_ r. r\<lparr>act_globs := (if cleaned = [] then None else Some (join_with '','' cleaned))\<rparr>))
        ErrFollowerNotFound)"

definition GetFollow :: "string \<Rightarrow> ('z store_scheme, Actor option) prog" where
  "GetFollow actorURL = query (\<lambda>t. find_where (\<lambda>r. act_url r = actorURL \<and> act_they_follow r) (actors t))"

definition AddFollow :: "string \<Rightarrow> string \<Rightarrow> string \<Rightarrow> string option \<Rightarrow> ('z store_scheme, unit) prog" where
  "AddFollow actorURL publicKeyPEM endpoint alias = run_tx (
     bindE (exec (\<lambda>c t. t\<lparr>actors := upsert_where (\<lambda>r. act_url r = actorURL)
         (\<lambda>r. r\<lparr>act_key := Some publicKeyPEM, act_endpoint := endpoint,
               act_alias := coalesce alias (act_alias r),
               act_they_follow := True, act_they_follow_at := Some c\<rparr>)
         ((default_actor c t actorURL)\<lparr>act_key := Some publicKeyPEM, act_endpoint := endpoint,
            act_alias := alias, act_they_follow := True, act_they_follow_at := Some c\<rparr>) (actors t),
       seq_actors := seq_actors t + 1\<rparr>)) (\<lambda>_.
     exec (\<lambda>_ t. t\<lparr>follow_requests := delete_where (\<lambda>r. fr_url r = actorURL) (follow_requests t)\<rparr>)))"

definition RemoveFollow :: "string \<Rightarrow> ('z store_scheme, unit) prog" where
  "RemoveFollow actorURL = affecting (update_actors (\<lambda>r. act_url r = actorURL \<and> act_they_follow r)
     (\<lambda>_ r. r\<lparr>act_they_follow := False, act_they_follow_at := None\<rparr>)) (Errorf ''no follow found'')"

definition CountFollows :: "('z store_scheme, nat) prog" where
  "CountFollows = query (\<lambda>t. count_where act_they_follow (actors t))"

text \<open>\<open>bun\<close> writes \<open>LIMIT\<close> and \<open>OFFSET\<close> only for positive arguments.\<close>

definition bun_page :: "int \<Rightarrow> int \<Rightarrow> 'r list \<Rightarrow> 'r list" where
  "bun_page offset limit rows =
     (let rest = (if 0 < offset then drop (nat offset) rows else rows) in
      if 0 < limit then take (nat limit) rest else rest)"

definition ListFollowsPage :: "int \<Rightarrow> int \<Rightarrow> ('z store_scheme, Actor list) prog" where
  "ListFollowsPage offset limit = query (\<lambda>t. bun_page offset limit
     (order_by_desc act_they_follow_at (select_where act_they_follow (actors t))))"

definition ListFollowsBatch :: "int \<Rightarrow> int \<Rightarrow> ('z store_scheme, Actor list) prog" where
  "ListFollowsBatch afterID limit = query (\<lambda>t. bun_page 0 limit
     (order_by act_id (select_where (\<lambda>r. act_they_follow r \<and> afterID < act_id r) (actors t))))"

definition RefreshFollow :: "string \<Rightarrow> string \<Rightarrow> string \<Rightarrow> string option \<Rightarrow> ('z store_scheme, unit) prog" where
  "RefreshFollow actorURL publicKeyPEM endpoint alias = affecting (update_actors
     (\<lambda>r. act_url r = actorURL \<and> act_they_follow r)
     (\<lambda>_ r. r\<lparr>act_key := Some publicKeyPEM, act_endpoint := endpoint, act_alias := alias\<rparr>))
     (Errorf ''no follow found'')"

definition RefreshOutgoingFollow ::
  "string \<Rightarrow> string \<Rightarrow> string \<Rightarrow> string option \<Rightarrow> ('z store_scheme, unit) prog" where
  "RefreshOutgoingFollow actorURL publicKeyPEM endpoint alias = affecting (update_actors
     (\<lambda>r. act_url r = actorURL \<and> act_we_follow r)
     (\<lambda>_ r. r\<lparr>act_key := Some publicKeyPEM, act_endpoint := endpoint, act_alias := alias\<rparr>))
     (Errorf ''no outgoing follow found'')"

definition AcceptFollowRequest :: "string \<Rightarrow> ('z store_scheme, unit) prog" where
  "AcceptFollowRequest actorURL = bindE (GetFollowRequest actorURL) (\<lambda>fr. case fr of
      None \<Rightarrow> fail (Errorf ''no pending follow request'')
    | Some fr \<Rightarrow> AddFollow (fr_url fr) (fr_key fr) (fr_endpoint fr) (fr_alias fr))"

section \<open>Outgoing follows\<close>

definition ListFollowing :: "('z store_scheme, Actor list) prog" where
  "ListFollowing = query (\<lambda>t. order_by_desc act_we_accept_at (select_where
     (\<lambda>r. act_we_follow r \<and> act_we_status r = Some ''accepted'') (actors t)))"

definition GetOutgoingFollow :: "string \<Rightarrow> ('z store_scheme, Actor option) prog" where
  "GetOutgoingFollow actorURL = query (\<lambda>t.
     find_where (\<lambda>r. act_url r = actorURL \<and> act_we_follow r) (actors t))"

definition AddOutgoingFollow :: "string \<Rightarrow> ('z store_scheme, unit) prog" where
  "AddOutgoingFollow actorURL = exec (\<lambda>c t. t\<lparr>actors := upsert_where (\<lambda>r. act_url r = actorURL)
       (\<lambda>r. if act_we_status r = Some ''accepted'' then r\<lparr>act_we_follow := True\<rparr>
            else r\<lparr>act_we_follow := True, act_we_status := Some ''pending'',
                   act_we_accept_at := None, act_created := c\<rparr>)
       ((default_actor c t actorURL)\<lparr>act_we_follow := True, act_we_status := Some ''pending''\<rparr>)
       (actors t),
     seq_actors := seq_actors t + 1\<rparr>)"

definition pending_outgoing :: "string \<Rightarrow> Actor \<Rightarrow> bool" where
  "pending_outgoing actorURL r \<longleftrightarrow>
     act_url r = actorURL \<and> act_we_follow r \<and> act_we_status r = Some FollowStatusPending"

definition AcceptOutgoingFollow :: "string \<Rightarrow> ('z store_scheme, unit) prog" where
  "AcceptOutgoingFollow actorURL = affecting (update_actors (pending_outgoing actorURL)
     (\<lambda>c r. r\<lparr>act_we_status := Some FollowStatusAccepted, act_we_accept_at := Some c\<rparr>))
     (Errorf ''no pending outgoing follow'')"

definition RejectOutgoingFollow :: "string \<Rightarrow> ('z store_scheme, unit) prog" where
  "RejectOutgoingFollow actorURL = bindE (update_actors (pending_outgoing actorURL)
     (\<lambda>c r. r\<lparr>act_we_status := Some FollowStatusRejected, act_created := c\<rparr>)) (\<lambda>_. ret ())"

definition clear_outgoing :: "Actor \<Rightarrow> Actor" where
  "clear_outgoing r = r\<lparr>act_we_follow := False, act_we_status := None, act_we_accept_at := None\<rparr>"

definition RemoveOutgoingFollow :: "string \<Rightarrow> ('z store_scheme, unit) prog" where
  "RemoveOutgoingFollow actorURL = affecting (update_actors
     (\<lambda>r. act_url r = actorURL \<and> act_we_follow r) (\<lambda>_. clear_outgoing))
     (Errorf ''no outgoing follow found'')"

definition ListOutgoingFollows :: "string \<Rightarrow> ('z store_scheme, Actor list) prog" where
  "ListOutgoingFollows status = query (\<lambda>t. order_by_desc act_created (select_where
     (\<lambda>r. act_we_follow r \<and> act_we_status r = Some status) (actors t)))"

definition ListAllOutgoingFollows :: "('z store_scheme, Actor list) prog" where
  "ListAllOutgoingFollows = query (\<lambda>t. order_by_desc act_created (select_where act_we_follow (actors t)))"

definition CountOutgoingFollows :: "string \<Rightarrow> ('z store_scheme, nat) prog" where
  "CountOutgoingFollows status = query (\<lambda>t. count_where
     (\<lambda>r. act_we_follow r \<and> act_we_status r = Some status) (actors t))"

definition ListOutgoingFollowsPage :: "string \<Rightarrow> int \<Rightarrow> int \<Rightarrow> ('z store_scheme, Actor list) prog" where
  "ListOutgoingFollowsPage status limit offset = query (\<lambda>t. bun_page offset limit
     (order_by_desc act_created (select_where
        (\<lambda>r. act_we_follow r \<and> act_we_status r = Some status) (actors t))))"

definition ListOutgoingFollowsBatch :: "string \<Rightarrow> int \<Rightarrow> int \<Rightarrow> ('z store_scheme, Actor list) prog" where
  "ListOutgoingFollowsBatch status afterID limit = query (\<lambda>t. bun_page 0 limit
     (order_by act_id (select_where
        (\<lambda>r. act_we_follow r \<and> act_we_status r = Some status \<and> afterID < act_id r) (actors t))))"

definition stale_outgoing :: "int \<Rightarrow> int \<Rightarrow> Actor \<Rightarrow> bool" where
  "stale_outgoing pendingCutoff rejectedCutoff r \<longleftrightarrow> act_we_follow r \<and>
     (act_we_status r = Some ''pending'' \<and> act_created r < pendingCutoff \<or>
      act_we_status r = Some ''rejected'' \<and> act_created r < rejectedCutoff)"

definition DeleteStaleOutgoingFollows :: "int \<Rightarrow> int \<Rightarrow> ('z store_scheme, nat) prog" where
  "DeleteStaleOutgoingFollows pendingTTL rejectedTTL = bindE now (\<lambda>c.
     update_actors (stale_outgoing (c - pendingTTL) (c - rejectedTTL)) (\<lambda>_. clear_outgoing))"

section \<open>Peers\<close>

definition UpsertPeer ::
  "string \<Rightarrow> string \<Rightarrow> string option \<Rightarrow> string \<Rightarrow> bool \<Rightarrow> ('z store_scheme, unit) prog" where
  "UpsertPeer actorURL endpoint name replicationPolicy isHealthy =
     exec (\<lambda>c t. t\<lparr>actors := upsert_where (\<lambda>r. act_url r = actorURL)
       (\<lambda>r. r\<lparr>act_name := coalesce name (act_name r), act_endpoint := endpoint,
             act_healthy := isHealthy, act_policy := replicationPolicy, act_seen := Some c\<rparr>)
       ((default_actor c t actorURL)\<lparr>act_name := name, act_endpoint := endpoint,
          act_healthy := isHealthy, act_policy := replicationPolicy, act_seen := Some c\<rparr>) (actors t),
     seq_actors := seq_actors t + 1\<rparr>)"

definition GetPeer :: "string \<Rightarrow> ('z store_scheme, Actor option) prog" where
  "GetPeer actorURL = GetActor actorURL"

definition SetActorHealth :: "string \<Rightarrow> bool \<Rightarrow> ('z store_scheme, unit) prog" where
  "SetActorHealth actorURL healthy = bindE (update_actors (\<lambda>r. act_url r = actorURL)
     (\<lambda>c r. r\<lparr>act_healthy := healthy, act_seen := Some c\<rparr>)) (\<lambda>_. ret ())"

definition SetPeerHealth :: "string \<Rightarrow> bool \<Rightarrow> ('z store_scheme, unit) prog" where
  "SetPeerHealth actorURL healthy = SetActorHealth actorURL healthy"

definition SetPeerHealthByDomain :: "string \<Rightarrow> bool \<Rightarrow> ('z store_scheme, unit) prog" where
  "SetPeerHealthByDomain domain healthy = bindE (gets postgres) (\<lambda>pg.
     bindE (update_actors (\<lambda>r. endpoint_in_domain pg domain (act_endpoint r))
       (\<lambda>_ r. r\<lparr>act_healthy := healthy\<rparr>)) (\<lambda>_. ret ()))"

text \<open>\<open>Hostname\<close> stands for \<open>url.Parse\<close> followed by \<open>Hostname()\<close>; a parse error is \<open>None\<close>.\<close>

definition parseEndpointURL :: "(string \<Rightarrow> string option) \<Rightarrow> string \<Rightarrow> string option" where
  "parseEndpointURL Hostname endpoint = (case Hostname endpoint of
      None \<Rightarrow> None
    | Some h \<Rightarrow> if h = '''' then None else Some h)"

definition UnhealthyPeerDomains :: "(string \<Rightarrow> string option) \<Rightarrow> ('z store_scheme, string list) prog" where
  "UnhealthyPeerDomains Hostname =
     bindE (query (\<lambda>t. map act_endpoint (select_where (\<lambda>r. \<not> act_healthy r) (actors t))))
     (\<lambda>endpoints. ret (List.map_filter (parseEndpointURL Hostname) endpoints))"

definition ListHealthyActors :: "('z store_scheme, Actor list) prog" where
  "ListHealthyActors = query (\<lambda>t. select_where act_healthy (actors t))"

section \<open>Peer blobs\<close>

definition PutPeerBlob :: "string \<Rightarrow> string \<Rightarrow> string \<Rightarrow> ('z store_scheme, unit) prog" where
  "PutPeerBlob peerActor blobDigest peerEndpoint = exec (\<lambda>c t. t\<lparr>peer_blobs := upsert_where
       (\<lambda>r. (pb_actor r, pb_digest r) = (peerActor, blobDigest))
       (\<lambda>r. r\<lparr>pb_endpoint := peerEndpoint, pb_verified := Some c\<rparr>)
       \<lparr>pb_id = seq_peer_blobs t, pb_actor = peerActor, pb_digest = blobDigest,
        pb_endpoint = peerEndpoint, pb_verified = Some c\<rparr> (peer_blobs t),
     seq_peer_blobs := seq_peer_blobs t + 1\<rparr>)"

text \<open>A \<open>NULL\<close> verification time is not below the cutoff.\<close>

definition stale_peer_blob :: "int \<Rightarrow> PeerBlob \<Rightarrow> bool" where
  "stale_peer_blob cutoff r = (case pb_verified r of None \<Rightarrow> False | Some v \<Rightarrow> v < cutoff)"

definition CleanupStalePeerBlobs :: "int \<Rightarrow> ('z store_scheme, nat) prog" where
  "CleanupStalePeerBlobs olderThan = exec_rows (\<lambda>c t.
     (count_where (stale_peer_blob (c - olderThan)) (peer_blobs t),
      t\<lparr>peer_blobs := delete_where (stale_peer_blob (c - olderThan)) (peer_blobs t)\<rparr>))"

definition FindPeersWithBlob :: "string \<Rightarrow> ('z store_scheme, PeerBlob list) prog" where
  "FindPeersWithBlob blobDigest = query (\<lambda>t. order_by_desc pb_verified (select_where
     (\<lambda>pb. pb_digest pb = blobDigest \<and>
        exists_where (\<lambda>a. act_url a = pb_actor pb \<and> act_healthy a) (actors t))
     (peer_blobs t)))"

section \<open>Lemmas\<close>

lemma escapeLike_Nil [simp]: "escapeLike [] = []"
  by (simp add: escapeLike_def)

lemma like_percent [simp]: "like nc ''%'' s"
  by (induction s) auto

lemma like_escape:
  "like nc (escapeLike d @ p) s \<longleftrightarrow>
     (\<exists>u v. s = u @ v \<and> map (like_char nc) u = map (like_char nc) d \<and> like nc p v)"
proof (induction d arbitrary: s)
  case Nil
  then show ?case by simp
next
  case (Cons c d)
  have e: "escapeLike (c # d) @ p =
      (if c = CHR 0x5C \<or> c = CHR ''%'' \<or> c = CHR ''_'' then CHR 0x5C # c # escapeLike d @ p else c # escapeLike d @ p)"
    by (simp add: escapeLike_def)
  have "like nc (escapeLike (c # d) @ p) s \<longleftrightarrow>
      (\<exists>x s'. s = x # s' \<and> like_char nc c = like_char nc x \<and> like nc (escapeLike d @ p) s')"
    unfolding e by (cases s) auto
  also have "\<dots> \<longleftrightarrow> (\<exists>u v. s = u @ v \<and> map (like_char nc) u = map (like_char nc) (c # d) \<and> like nc p v)"
    (is "?L \<longleftrightarrow> ?R")
  proof
    assume ?L
    then obtain x s' u v where "s = x # s'" "like_char nc c = like_char nc x" "s' = u @ v"
      "map (like_char nc) u = map (like_char nc) d" "like nc p v"
      unfolding Cons.IH by blast
    then show ?R by (intro exI [of _ "x # u"] exI [of _ v]) simp
  next
    assume ?R
    then obtain u v where "s = u @ v" "map (like_char nc) u = map (like_char nc) (c # d)" "like nc p v" by blast
    then show ?L unfolding Cons.IH by (cases u) auto
  qed
  finally show ?case .
qed

lemma lower_char_eq:
  assumes "(of_char c :: nat) \<notin> {65..90} \<union> {97..122}"
  shows "lower_char x = c \<longleftrightarrow> x = c" and "lower_char c = c"
proof -
  show f: "lower_char c = c" using assms by (auto simp: lower_char_def Let_def)
  have "char_of (of_char x + 32 :: nat) \<noteq> c" if "(of_char x :: nat) \<in> {65..90}"
  proof
    assume "char_of (of_char x + 32 :: nat) = c"
    then have "(of_char x + 32 :: nat) = of_char c" using that by auto
    with that assms show False by auto
  qed
  with f show "lower_char x = c \<longleftrightarrow> x = c" by (auto simp: lower_char_def Let_def)
qed

text \<open>The host part of an endpoint: what follows the scheme up to a port or a path.\<close>

lemma like_domain:
  assumes "c = CHR ''/'' \<or> c = CHR '':''"
  shows "like nc (''https://'' @ escapeLike d @ [c, CHR ''%'']) s \<longleftrightarrow>
     (\<exists>u v. s = u @ c # v \<and> map (like_char nc) u = map (like_char nc) (''https://'' @ d))"
proof -
  have p: "''https://'' @ escapeLike d = escapeLike (''https://'' @ d)"
    by (simp add: escapeLike_def)
  have h: "like nc [c, CHR ''%''] v \<longleftrightarrow> (\<exists>v'. v = c # v')" for v
  proof -
    have "(of_char c :: nat) \<notin> {65..90} \<union> {97..122}" using assms by (elim disjE) simp_all
    note lc = lower_char_eq [OF this]
    have "like_char nc c = like_char nc x \<longleftrightarrow> x = c" for x
      unfolding like_char_def by (cases nc) (simp_all only: lc if_True if_False eq_commute [of c])
    moreover have "like nc (c # ''%'') v = (case v of [] \<Rightarrow> False | x # v' \<Rightarrow> like_char nc c = like_char nc x \<and> like nc ''%'' v')"
      by (subst like.simps, use assms in \<open>auto simp del: like.simps split: list.splits\<close>)
    ultimately show ?thesis by (auto simp del: like.simps split: list.splits)
  qed
  show ?thesis
    unfolding append_assoc [symmetric] p like_escape h by blast
qed

text \<open>The view of outgoing follows that the federation protocol is about.\<close>

definition outgoing :: "tables \<Rightarrow> string \<Rightarrow> bool \<times> string option" where
  "outgoing t u = (case find_where (\<lambda>r. act_url r = u) (actors t) of
      None \<Rightarrow> (False, None)
    | Some r \<Rightarrow> (act_we_follow r, act_we_status r))"

lemma find_update_url:
  assumes "\<And>r. p r \<Longrightarrow> act_url (f r) = act_url r"
  shows "find_where (\<lambda>r. act_url r = u) (update_where p f rows) =
    map_option (\<lambda>r. if p r then f r else r) (find_where (\<lambda>r. act_url r = u) rows)"
  using assms by (induction rows) (auto simp: find_where_def update_where_def)

lemma find_upsert_url:
  assumes "\<And>r. act_url r = k \<Longrightarrow> act_url (f r) = k" and "act_url new = k" and "u \<noteq> k"
  shows "find_where (\<lambda>r. act_url r = u) (upsert_where (\<lambda>r. act_url r = k) f new rows) =
    find_where (\<lambda>r. act_url r = u) rows"
proof (cases "list_ex (\<lambda>r. act_url r = k) rows")
  case True
  then have "upsert_where (\<lambda>r. act_url r = k) f new rows = update_where (\<lambda>r. act_url r = k) f rows"
    by (simp add: upsert_where_def update_where_def)
  then show ?thesis
    using assms find_where_Some [of "\<lambda>r. act_url r = u" rows]
    by (cases "find_where (\<lambda>r. act_url r = u) rows") (auto simp: find_update_url)
next
  case False
  with assms(2,3) show ?thesis
    by (simp add: upsert_where_def find_where_append split: option.splits)
qed

lemma count_where_0: "count_where p rows = 0 \<longleftrightarrow> (\<forall>r \<in> set rows. \<not> p r)"
  by (auto simp: count_where_def filter_empty_conv)

lemma update_where_none: "(\<And>r. r \<in> set rows \<Longrightarrow> \<not> p r) \<Longrightarrow> update_where p f rows = rows"
  by (simp add: update_where_def map_idI)

text \<open>An update that must affect a row either does, or changes nothing and fails.\<close>

lemma affecting_ok:
  assumes "affecting (update_actors p f) e s = (Inr x, s')"
  shows "(\<exists>r \<in> set (actors (tbl s)). p r) \<and> tbl s' = (tbl s)\<lparr>actors := update_where p (f (clock s)) (actors (tbl s))\<rparr>"
  using assms unfolding affecting_def update_actors_def
  by (auto elim!: bindE_okE dest!: exec_rows_ok simp: count_where_0 split: if_splits)

lemma affecting_err:
  assumes "affecting (update_actors p f) e s = (Inl e', s')"
  shows "tbl s' = tbl s \<and> (e' = ErrIO \<or> e' = e \<and> (\<forall>r \<in> set (actors (tbl s)). \<not> p r))"
  using assms unfolding affecting_def update_actors_def
  by (auto elim!: bindE_errE dest!: exec_rows_ok exec_rows_err simp: count_where_0 update_where_none split: if_splits)

section \<open>Properties\<close>

text \<open>The domain match behind peer health and actor lookup is exact: whatever LIKE metacharacters the
  domain contains, an endpoint matches exactly when it is the https URL of the domain, or that URL
  followed by a port or a path (up to ASCII case on SQLite). A longer host name never matches.\<close>

lemma domain_match_exact:
  "endpoint_in_domain pg d ep \<longleftrightarrow>
     ep = ''https://'' @ d \<or>
     (\<exists>u c v. ep = u @ c # v \<and> (c = CHR ''/'' \<or> c = CHR '':'') \<and>
        (if pg then u = ''https://'' @ d else ToLower u = ToLower (''https://'' @ d)))"
proof -
  have m: "map (like_char (\<not> pg)) u = map (like_char (\<not> pg)) w \<longleftrightarrow> (if pg then u = w else ToLower u = ToLower w)" for u w
    by (simp add: like_char_def ToLower_def cong: map_cong)
  have "endpoint_in_domain pg d ep \<longleftrightarrow> ep = ''https://'' @ d \<or>
      like (\<not> pg) (''https://'' @ escapeLike d @ [CHR ''/'', CHR ''%'']) ep \<or>
      like (\<not> pg) (''https://'' @ escapeLike d @ [CHR '':'', CHR ''%'']) ep"
    by (simp only: endpoint_in_domain_def endpointDomainConds_def Let_def prod.case append_assoc append.simps)
  then show ?thesis
    unfolding like_domain [OF disjI1, OF refl] like_domain [OF disjI2, OF refl] m by blast
qed

text \<open>The protocol of an outgoing follow as a machine on (following, status); \<open>None\<close> is a refused call.\<close>

datatype follow_op = Add | Accept | Reject | Remove

fun follow_op_prog :: "follow_op \<Rightarrow> string \<Rightarrow> ('z store_scheme, unit) prog" where
  "follow_op_prog Add u = AddOutgoingFollow u"
| "follow_op_prog Accept u = AcceptOutgoingFollow u"
| "follow_op_prog Reject u = RejectOutgoingFollow u"
| "follow_op_prog Remove u = RemoveOutgoingFollow u"

fun follow_spec :: "follow_op \<Rightarrow> bool \<times> string option \<Rightarrow> (bool \<times> string option) option" where
  "follow_spec Add (w, st) = Some (True, if st = Some ''accepted'' then st else Some ''pending'')"
| "follow_spec Accept (w, st) = (if w \<and> st = Some ''pending'' then Some (True, Some ''accepted'') else None)"
| "follow_spec Reject (w, st) = Some (if w \<and> st = Some ''pending'' then (True, Some ''rejected'') else (w, st))"
| "follow_spec Remove (w, st) = (if w then Some (False, None) else None)"

lemma outgoing_update:
  assumes "\<And>r. p r \<Longrightarrow> act_url r = u" and "\<And>r. p r \<Longrightarrow> act_url (f r) = act_url r"
  shows "outgoing (t\<lparr>actors := update_where p f (actors t)\<rparr>) = (outgoing t)(u :=
    (case find_where (\<lambda>r. act_url r = u) (actors t) of
       None \<Rightarrow> (False, None)
     | Some r \<Rightarrow> if p r then (act_we_follow (f r), act_we_status (f r)) else (act_we_follow r, act_we_status r)))"
proof
  fix v
  have "find_where (\<lambda>r. act_url r = v) (actors t) = Some r \<Longrightarrow> p r \<Longrightarrow> v = u" for r
    using find_where_Some assms(1) by fastforce
  then show "outgoing (t\<lparr>actors := update_where p f (actors t)\<rparr>) v = ((outgoing t)(u :=
    (case find_where (\<lambda>r. act_url r = u) (actors t) of
       None \<Rightarrow> (False, None)
     | Some r \<Rightarrow> if p r then (act_we_follow (f r), act_we_status (f r)) else (act_we_follow r, act_we_status r)))) v"
    by (auto simp: outgoing_def find_update_url [OF assms(2)] split: option.splits)
qed

lemma unique_url_hit:
  assumes "acts.unique rows"
  shows "(\<exists>r \<in> set rows. act_url r = u \<and> q r) \<longleftrightarrow> (\<exists>r. find_where (\<lambda>r. act_url r = u) rows = Some r \<and> q r)"
proof
  assume "\<exists>r \<in> set rows. act_url r = u \<and> q r"
  then obtain r where "r \<in> set rows" "act_url r = u" "q r" by blast
  with acts.unique_lookup [OF assms, of r] show "\<exists>r. find_where (\<lambda>r. act_url r = u) rows = Some r \<and> q r" by simp
qed (blast dest: find_where_Some)

lemma add_view:
  assumes "acts.unique (actors (tbl s))" and "AddOutgoingFollow u s = (r, s')"
  shows "case r of
      Inr _ \<Rightarrow> (\<exists>v. follow_spec Add (outgoing (tbl s) u) = Some v \<and> outgoing (tbl s') = (outgoing (tbl s))(u := v))
    | Inl e \<Rightarrow> tbl s' = tbl s \<and> (e = ErrIO \<or> follow_spec Add (outgoing (tbl s) u) = None)"
proof (cases r)
  case (Inl e)
  with assms show ?thesis by (auto simp: AddOutgoingFollow_def dest: exec_err)
next
  case (Inr x)
  with assms have "tbl s' = (tbl s)\<lparr>actors := upsert_where (\<lambda>r. act_url r = u)
     (\<lambda>r. if act_we_status r = Some ''accepted'' then r\<lparr>act_we_follow := True\<rparr>
          else r\<lparr>act_we_follow := True, act_we_status := Some ''pending'',
                 act_we_accept_at := None, act_created := clock s\<rparr>)
     ((default_actor (clock s) (tbl s) u)\<lparr>act_we_follow := True, act_we_status := Some ''pending''\<rparr>)
     (actors (tbl s)), seq_actors := seq_actors (tbl s) + 1\<rparr>"
    by (auto simp: AddOutgoingFollow_def dest: exec_ok)
  then show ?thesis
    by (auto simp: Inr fun_eq_iff outgoing_def acts.upsert_lookup find_upsert_url default_actor_def split: option.splits)
qed

lemma accept_view:
  assumes "acts.unique (actors (tbl s))" and "AcceptOutgoingFollow u s = (r, s')"
  shows "case r of
      Inr _ \<Rightarrow> (\<exists>v. follow_spec Accept (outgoing (tbl s) u) = Some v \<and> outgoing (tbl s') = (outgoing (tbl s))(u := v))
    | Inl e \<Rightarrow> tbl s' = tbl s \<and> (e = ErrIO \<or> follow_spec Accept (outgoing (tbl s) u) = None)"
proof (cases r)
  case (Inl e)
  with assms(2) have "tbl s' = tbl s \<and> (e = ErrIO \<or> (\<forall>r \<in> set (actors (tbl s)). \<not> pending_outgoing u r))"
    by (auto simp: AcceptOutgoingFollow_def dest: affecting_err)
  with unique_url_hit [OF assms(1), of u "\<lambda>r. act_we_follow r \<and> act_we_status r = Some ''pending''"] show ?thesis
    by (auto simp: Inl outgoing_def pending_outgoing_def FollowStatusPending_def split: option.splits)
next
  case (Inr x)
  with assms(2) have hit: "\<exists>r \<in> set (actors (tbl s)). act_url r = u \<and> act_we_follow r \<and> act_we_status r = Some ''pending''"
    and t: "tbl s' = (tbl s)\<lparr>actors := update_where (pending_outgoing u)
      (\<lambda>r. r\<lparr>act_we_status := Some ''accepted'', act_we_accept_at := Some (clock s)\<rparr>) (actors (tbl s))\<rparr>"
    by (auto simp: AcceptOutgoingFollow_def FollowStatusAccepted_def FollowStatusPending_def pending_outgoing_def dest!: affecting_ok)
  from hit obtain r0 where r0: "find_where (\<lambda>r. act_url r = u) (actors (tbl s)) = Some r0"
    "act_we_follow r0" "act_we_status r0 = Some ''pending''"
    using unique_url_hit [OF assms(1), of u "\<lambda>r. act_we_follow r \<and> act_we_status r = Some ''pending''"] by auto
  then have "pending_outgoing u r0" by (auto simp: pending_outgoing_def FollowStatusPending_def dest: find_where_Some)
  with r0 show ?thesis
    using outgoing_update [of "pending_outgoing u" u "\<lambda>r. r\<lparr>act_we_status := Some ''accepted'', act_we_accept_at := Some (clock s)\<rparr>" "tbl s"]
    by (auto simp: Inr t outgoing_def [of "tbl s" u] pending_outgoing_def)
qed

lemma reject_view:
  assumes "acts.unique (actors (tbl s))" and "RejectOutgoingFollow u s = (r, s')"
  shows "case r of
      Inr _ \<Rightarrow> (\<exists>v. follow_spec Reject (outgoing (tbl s) u) = Some v \<and> outgoing (tbl s') = (outgoing (tbl s))(u := v))
    | Inl e \<Rightarrow> tbl s' = tbl s \<and> (e = ErrIO \<or> follow_spec Reject (outgoing (tbl s) u) = None)"
proof (cases r)
  case (Inl e)
  with assms(2) show ?thesis
    by (auto simp: RejectOutgoingFollow_def update_actors_def elim!: bindE_errE dest: exec_rows_err)
next
  case (Inr x)
  with assms(2) have t: "tbl s' = (tbl s)\<lparr>actors := update_where (pending_outgoing u)
      (\<lambda>r. r\<lparr>act_we_status := Some ''rejected'', act_created := clock s\<rparr>) (actors (tbl s))\<rparr>"
    by (auto simp: RejectOutgoingFollow_def update_actors_def FollowStatusRejected_def elim!: bindE_okE dest!: exec_rows_ok)
  have p: "find_where (\<lambda>r. act_url r = u) (actors (tbl s)) = Some r0 \<Longrightarrow>
      pending_outgoing u r0 \<longleftrightarrow> act_we_follow r0 \<and> act_we_status r0 = Some ''pending''" for r0
    by (auto simp: pending_outgoing_def FollowStatusPending_def dest: find_where_Some)
  show ?thesis
    unfolding t using outgoing_update [of "pending_outgoing u" u "\<lambda>r. r\<lparr>act_we_status := Some ''rejected'', act_created := clock s\<rparr>" "tbl s"]
      find_where_Some [of "\<lambda>r. act_url r = u" "actors (tbl s)"]
    by (cases "find_where (\<lambda>r. act_url r = u) (actors (tbl s))")
      (auto simp: Inr p outgoing_def [of "tbl s" u] pending_outgoing_def FollowStatusPending_def)
qed

lemma remove_view:
  assumes "acts.unique (actors (tbl s))" and "RemoveOutgoingFollow u s = (r, s')"
  shows "case r of
      Inr _ \<Rightarrow> (\<exists>v. follow_spec Remove (outgoing (tbl s) u) = Some v \<and> outgoing (tbl s') = (outgoing (tbl s))(u := v))
    | Inl e \<Rightarrow> tbl s' = tbl s \<and> (e = ErrIO \<or> follow_spec Remove (outgoing (tbl s) u) = None)"
proof (cases r)
  case (Inl e)
  with assms(2) have "tbl s' = tbl s \<and> (e = ErrIO \<or> (\<forall>r \<in> set (actors (tbl s)). \<not> (act_url r = u \<and> act_we_follow r)))"
    by (auto simp: RemoveOutgoingFollow_def dest: affecting_err)
  with unique_url_hit [OF assms(1), of u act_we_follow] show ?thesis
    by (auto simp: Inl outgoing_def split: option.splits)
next
  case (Inr x)
  with assms(2) have hit: "\<exists>r \<in> set (actors (tbl s)). act_url r = u \<and> act_we_follow r"
    and t: "tbl s' = (tbl s)\<lparr>actors := update_where (\<lambda>r. act_url r = u \<and> act_we_follow r) clear_outgoing (actors (tbl s))\<rparr>"
    by (auto simp: RemoveOutgoingFollow_def dest!: affecting_ok)
  from hit obtain r0 where "find_where (\<lambda>r. act_url r = u) (actors (tbl s)) = Some r0" "act_url r0 = u" "act_we_follow r0"
    unfolding unique_url_hit [OF assms(1)] using find_where_Some [of "\<lambda>r. act_url r = u"] by blast
  then show ?thesis
    unfolding t using outgoing_update [of "\<lambda>r. act_url r = u \<and> act_we_follow r" u clear_outgoing "tbl s"]
    by (simp add: Inr outgoing_def [of "tbl s" u] clear_outgoing_def)
qed

text \<open>C21. The life of an outgoing follow refines the machine \<open>follow_spec\<close>: adding makes it pending
  unless it was accepted, only a pending follow is accepted, rejecting touches only a pending one,
  removing clears it. No call touches the follow of another actor, and a call that reports an error
  changed nothing: it is an I/O failure or a step the machine refuses.\<close>

lemma outgoing_follow_machine:
  assumes "acts.unique (actors (tbl s))" and "follow_op_prog op u s = (r, s')"
  shows "case r of
      Inr _ \<Rightarrow> (\<exists>v. follow_spec op (outgoing (tbl s) u) = Some v \<and> outgoing (tbl s') = (outgoing (tbl s))(u := v))
    | Inl e \<Rightarrow> tbl s' = tbl s \<and> (e = ErrIO \<or> follow_spec op (outgoing (tbl s) u) = None)"
  using assms by (cases op) (simp_all only: follow_op_prog.simps add_view accept_view reject_view remove_view)

definition sample_actor :: Actor where
  "sample_actor = (default_actor 0 empty_tables ''https://b.example/ap'')
     \<lparr>act_endpoint := ''https://b.example'', act_we_follow := True, act_we_status := Some ''pending''\<rparr>"

definition actor_store :: store where
  "actor_store = (init_store 7)\<lparr>tbl := empty_tables\<lparr>actors := [sample_actor], seq_actors := 2\<rparr>\<rparr>"

lemma outgoing_follow_machine_witness:
  "\<exists>s'. AcceptOutgoingFollow ''https://b.example/ap'' actor_store = (Inr (), s') \<and>
     outgoing (tbl s') ''https://b.example/ap'' = (True, Some ''accepted'')"
proof -
  let ?u = "''https://b.example/ap''"
  have o: "outgoing (tbl actor_store) ?u = (True, Some ''pending'')"
    by (simp add: outgoing_def actor_store_def sample_actor_def default_actor_def)
  obtain r s' where run: "AcceptOutgoingFollow ?u actor_store = (r, s')" by (cases "AcceptOutgoingFollow ?u actor_store")
  have f: "r = Inr ()"
    using run by (auto simp: AcceptOutgoingFollow_def affecting_def update_actors_def exec_rows_nofault actor_store_def init_store_def
        bindE_def count_where_def pending_outgoing_def FollowStatusPending_def sample_actor_def default_actor_def ret_def)
  have "acts.unique (actors (tbl actor_store))" by (simp add: actor_store_def acts.unique_def)
  from outgoing_follow_machine [OF this, of Accept ?u r s'] run f o show ?thesis by auto
qed

text \<open>Accepting a follow request is all or nothing: on success the request is gone and its actor is a
  follower with exactly the key, endpoint and alias of the request (the alias kept when the request
  has none), every other request and actor unchanged; on an error no table changed.\<close>

lemma accept_request_atomic:
  assumes "AcceptFollowRequest u s = (r, s')"
  shows "case r of
      Inl e \<Rightarrow> tbl s' = tbl s
    | Inr _ \<Rightarrow> (\<exists>fr a. find_where (\<lambda>q. fr_url q = u) (follow_requests (tbl s)) = Some fr \<and>
        follow_requests (tbl s') = filter (\<lambda>q. fr_url q \<noteq> u) (follow_requests (tbl s)) \<and>
        find_where (\<lambda>x. act_url x = u) (actors (tbl s')) = Some a \<and>
        act_they_follow a \<and> act_key a = Some (fr_key fr) \<and> act_endpoint a = fr_endpoint fr \<and>
        (fr_alias fr \<noteq> None \<longrightarrow> act_alias a = fr_alias fr) \<and>
        (\<forall>v. v \<noteq> u \<longrightarrow> find_where (\<lambda>x. act_url x = v) (actors (tbl s')) = find_where (\<lambda>x. act_url x = v) (actors (tbl s))))"
proof (cases r)
  case (Inl e)
  with assms show ?thesis
    by (auto simp: AcceptFollowRequest_def GetFollowRequest_def AddFollow_def elim!: bindE_errE
        dest!: query_err query_ok run_tx_err split: option.split_asm)
next
  case (Inr x)
  with assms obtain fr t where fr: "find_where (\<lambda>q. fr_url q = u) (follow_requests (tbl s)) = Some fr"
    and t: "tbl t = tbl s" "AddFollow (fr_url fr) (fr_key fr) (fr_endpoint fr) (fr_alias fr) t = (Inr (), s')"
    by (auto simp: AcceptFollowRequest_def GetFollowRequest_def elim!: bindE_okE dest!: query_ok split: option.split_asm)
  have u: "fr_url fr = u" using find_where_Some [OF fr] by simp
  from t(2) obtain c new f where c: "tbl s' = (tbl s)\<lparr>actors := upsert_where (\<lambda>r. act_url r = u) f new (actors (tbl s)),
      seq_actors := seq_actors (tbl s) + 1, follow_requests := delete_where (\<lambda>r. fr_url r = u) (follow_requests (tbl s))\<rparr>"
    and f: "f = (\<lambda>r. r\<lparr>act_key := Some (fr_key fr), act_endpoint := fr_endpoint fr,
               act_alias := coalesce (fr_alias fr) (act_alias r),
               act_they_follow := True, act_they_follow_at := Some c\<rparr>)"
    and new: "new = (default_actor c (tbl s) u)\<lparr>act_key := Some (fr_key fr), act_endpoint := fr_endpoint fr,
            act_alias := fr_alias fr, act_they_follow := True, act_they_follow_at := Some c\<rparr>"
    unfolding AddFollow_def u
    by (elim run_tx_ok bindE_okE) (auto dest!: exec_ok simp: t(1))
  have k: "act_url new = u" "\<And>r. act_url r = u \<Longrightarrow> act_url (f r) = u"
    by (simp_all add: f new default_actor_def)
  show ?thesis
    using fr acts.upsert_lookup [of u f new "actors (tbl s)"] find_upsert_url [of u f new]
    by (auto simp: Inr c k delete_where_def f new default_actor_def coalesce_def split: option.splits)
qed

definition request_store :: store where
  "request_store = (init_store 7)\<lparr>tbl := empty_tables\<lparr>follow_requests := [\<lparr>fr_id = 1, fr_url = ''https://c.example/ap'',
     fr_key = ''KEY'', fr_endpoint = ''https://c.example'', fr_alias = None, fr_requested = 3\<rparr>], seq_requests := 2\<rparr>\<rparr>"

lemma accept_request_atomic_witness:
  "\<exists>s' a. AcceptFollowRequest ''https://c.example/ap'' request_store = (Inr (), s') \<and>
     follow_requests (tbl s') = [] \<and>
     find_where (\<lambda>x. act_url x = ''https://c.example/ap'') (actors (tbl s')) = Some a \<and> act_key a = Some ''KEY''"
proof -
  let ?u = "''https://c.example/ap''"
  obtain r s' where run: "AcceptFollowRequest ?u request_store = (r, s')" by (cases "AcceptFollowRequest ?u request_store")
  have r: "r = Inr ()"
    using run by (auto simp: AcceptFollowRequest_def GetFollowRequest_def AddFollow_def run_tx_def in_tx_def request_store_def
        init_store_def empty_tables_def bindE_def sql_simps tick_def ret_def)
  have q: "follow_requests (tbl request_store) = [\<lparr>fr_id = 1, fr_url = ?u,
     fr_key = ''KEY'', fr_endpoint = ''https://c.example'', fr_alias = None, fr_requested = 3\<rparr>]"
    by (simp add: request_store_def)
  from accept_request_atomic [OF run] show ?thesis by (auto simp: r run q)
qed

end
