(* ===== verification/Activities.thy ===== *)
theory Activities
  imports Models
begin

text \<open>
  \<open>internal/database/activities.go\<close>, \<open>delivery.go\<close> and \<open>uploads.go\<close>: the activity log that
  rejects replays, the persistent delivery queue with its retry state machine, and the upload
  sessions. The clock counts seconds.
\<close>

section \<open>Activities\<close>

definition InsertActivityIfNew ::
  "string \<Rightarrow> string \<Rightarrow> string \<Rightarrow> string \<Rightarrow> ('z store_scheme, bool) prog" where
  "InsertActivityIfNew activityID activityType actorURL objectJSON =
     bindE (exec_rows (\<lambda>c t. (
         if exists_where (\<lambda>r. av_activity_id r = activityID) (activities t) then 0 else 1 :: nat,
         t\<lparr>activities := insert_ignore (\<lambda>r. av_activity_id r = activityID)
             \<lparr>av_id = seq_activities t, av_activity_id = activityID, av_type = activityType,
              av_actor = actorURL, av_object = objectJSON, av_published = c, av_created = c\<rparr>
             (activities t),
           seq_activities := seq_activities t + 1\<rparr>))) (\<lambda>n.
     bindE tick (\<lambda>_. ret (0 < n)))"

definition PutActivity :: "string \<Rightarrow> string \<Rightarrow> string \<Rightarrow> string \<Rightarrow> ('z store_scheme, unit) prog" where
  "PutActivity activityID activityType actorURL objectJSON =
     bindE (InsertActivityIfNew activityID activityType actorURL objectJSON) (\<lambda>_. ret ())"

definition GetActivity :: "string \<Rightarrow> ('z store_scheme, Activity option) prog" where
  "GetActivity activityID = query (\<lambda>t.
     find_where (\<lambda>r. av_activity_id r = activityID) (activities t))"

definition ListActivitiesPage :: "string \<Rightarrow> int \<Rightarrow> int \<Rightarrow> ('z store_scheme, Activity list) prog" where
  "ListActivitiesPage actorURL beforeID limit = query (\<lambda>t.
     let rows = order_by_desc av_id (select_where
           (\<lambda>r. (actorURL = '''' \<or> av_actor r = actorURL) \<and> (beforeID \<le> 0 \<or> av_id r < beforeID))
           (activities t))
     in if 0 < limit then take (nat limit) rows else rows)"

definition CountActivities :: "string \<Rightarrow> ('z store_scheme, nat) prog" where
  "CountActivities actorURL = query (\<lambda>t.
     count_where (\<lambda>r. actorURL = '''' \<or> av_actor r = actorURL) (activities t))"

section \<open>Deliveries\<close>

definition EnqueueDeliveryInserted :: "string \<Rightarrow> string \<Rightarrow> string \<Rightarrow> ('z store_scheme, bool) prog" where
  "EnqueueDeliveryInserted activityID inboxURL activityJSON =
     bindE (exec_rows (\<lambda>c t. (
         if exists_where (\<lambda>r. (dv_activity r, dv_inbox r) = (activityID, inboxURL)) (delivery_queue t)
         then 0 else 1 :: nat,
         t\<lparr>delivery_queue := insert_ignore (\<lambda>r. (dv_activity r, dv_inbox r) = (activityID, inboxURL))
             \<lparr>dv_id = seq_deliveries t, dv_activity = activityID, dv_inbox = inboxURL,
              dv_json = activityJSON, dv_attempts = 0, dv_max = 10, dv_next = c, dv_error = None,
              dv_status = ''pending'', dv_created = c\<rparr> (delivery_queue t),
           seq_deliveries := seq_deliveries t + 1\<rparr>))) (\<lambda>n.
     bindE tick (\<lambda>_. ret (0 < n)))"

definition EnqueueDelivery :: "string \<Rightarrow> string \<Rightarrow> string \<Rightarrow> ('z store_scheme, unit) prog" where
  "EnqueueDelivery activityID inboxURL activityJSON =
     bindE (EnqueueDeliveryInserted activityID inboxURL activityJSON) (\<lambda>_. ret ())"

definition due :: "int \<Rightarrow> Delivery \<Rightarrow> bool" where
  "due c r \<longleftrightarrow> dv_status r = ''pending'' \<and> dv_next r \<le> c"

definition PendingDeliveries :: "int \<Rightarrow> ('z store_scheme, Delivery list) prog" where
  "PendingDeliveries limit = bindE now (\<lambda>c. query (\<lambda>t.
     let rows = order_by dv_next (select_where (due c) (delivery_queue t))
     in if 0 < limit then take (nat limit) rows else rows))"

definition MarkDelivered :: "int \<Rightarrow> ('z store_scheme, unit) prog" where
  "MarkDelivered did = exec (\<lambda>_ t. t\<lparr>delivery_queue := update_where (\<lambda>r. dv_id r = did)
     (\<lambda>r. r\<lparr>dv_status := ''delivered'', dv_attempts := dv_attempts r + 1\<rparr>) (delivery_queue t)\<rparr>)"

text \<open>\<open>1 << min(attempts, 12)\<close> seconds; Go panics on a negative shift count.\<close>

definition delivery_backoff :: "int \<Rightarrow> int" where
  "delivery_backoff attempts = 2 ^ nat (min attempts 12)"

definition MarkDeliveryFailed :: "int \<Rightarrow> int \<Rightarrow> int \<Rightarrow> string \<Rightarrow> ('z store_scheme, unit) prog" where
  "MarkDeliveryFailed did attempts maxAttempts lastError =
     (if attempts < 0 then fail (Errorf ''negative shift amount'')
      else exec (\<lambda>c t. t\<lparr>delivery_queue := update_where (\<lambda>r. dv_id r = did)
        (\<lambda>r. r\<lparr>dv_attempts := dv_attempts r + 1, dv_error := Some lastError,
              dv_status := (if maxAttempts \<le> attempts + 1 then ''failed'' else ''pending''),
              dv_next := c + delivery_backoff attempts\<rparr>) (delivery_queue t)\<rparr>))"

definition CleanupDeliveries :: "int \<Rightarrow> ('z store_scheme, nat) prog" where
  "CleanupDeliveries olderThan = exec_rows (\<lambda>c t.
     let p = (\<lambda>r. dv_status r \<in> {''delivered'', ''failed''} \<and> dv_created r < c - olderThan) in
     (count_where p (delivery_queue t), t\<lparr>delivery_queue := delete_where p (delivery_queue t)\<rparr>))"

section \<open>Upload sessions\<close>

text \<open>A plain \<open>INSERT\<close>: a second session with the same uuid violates the unique index.\<close>

definition CreateUploadSession :: "string \<Rightarrow> int \<Rightarrow> int \<Rightarrow> ('z store_scheme, UploadSession) prog" where
  "CreateUploadSession uuid repoID ttl =
     bindE (exec_rows (\<lambda>c t.
       let row = \<lparr>up_id = seq_uploads t, up_uuid = uuid, up_repo = repoID, up_bytes = 0,
                  up_created = c, up_expires = c + ttl\<rparr> in
       (if exists_where (\<lambda>r. up_uuid r = uuid) (upload_sessions t) then None else Some row,
        t\<lparr>upload_sessions := insert_ignore (\<lambda>r. up_uuid r = uuid) row (upload_sessions t),
          seq_uploads := seq_uploads t + 1\<rparr>)))
     (\<lambda>row. case row of
        None \<Rightarrow> fail (Errorf ''UNIQUE constraint failed'')
      | Some r \<Rightarrow> ret r)"

definition GetUploadSession :: "string \<Rightarrow> ('z store_scheme, UploadSession option) prog" where
  "GetUploadSession uuid = bindE now (\<lambda>c. query (\<lambda>t.
     find_where (\<lambda>r. up_uuid r = uuid \<and> c < up_expires r) (upload_sessions t)))"

definition DeleteUploadSession :: "string \<Rightarrow> ('z store_scheme, unit) prog" where
  "DeleteUploadSession uuid = exec (\<lambda>_ t. t\<lparr>upload_sessions :=
     delete_where (\<lambda>r. up_uuid r = uuid) (upload_sessions t)\<rparr>)"

definition ListUploadSessions :: "('z store_scheme, UploadSession list) prog" where
  "ListUploadSessions = query (\<lambda>t. order_by_desc up_created (upload_sessions t))"

definition UploadSessionUUIDsByRepo :: "int \<Rightarrow> ('z store_scheme, string list) prog" where
  "UploadSessionUUIDsByRepo repoID = query (\<lambda>t.
     map up_uuid (select_where (\<lambda>r. up_repo r = repoID) (upload_sessions t)))"

definition AllUploadSessionUUIDs :: "('z store_scheme, string list) prog" where
  "AllUploadSessionUUIDs = query (\<lambda>t. map up_uuid (upload_sessions t))"

definition ListExpiredUploadSessions :: "int \<Rightarrow> ('z store_scheme, string list) prog" where
  "ListExpiredUploadSessions limit = bindE now (\<lambda>c. query (\<lambda>t.
     limit_rows limit (map up_uuid (select_where (\<lambda>r. up_expires r \<le> c) (upload_sessions t)))))"

section \<open>Lemmas\<close>

lemma InsertActivityIfNew_ok:
  assumes "InsertActivityIfNew i ty a obj s = (Inr b, s')"
  shows "b \<longleftrightarrow> i \<notin> av_activity_id ` set (activities (tbl s))"
    and "activities (tbl s') = (if b then activities (tbl s) @ [\<lparr>av_id = seq_activities (tbl s), av_activity_id = i,
        av_type = ty, av_actor = a, av_object = obj, av_published = clock s, av_created = clock s\<rparr>]
      else activities (tbl s))"
    and "tbl s' = (tbl s)\<lparr>activities := activities (tbl s'), seq_activities := seq_activities (tbl s) + 1\<rparr>"
  using assms unfolding InsertActivityIfNew_def
  by (auto elim!: bindE_okE dest!: exec_rows_ok tick_run simp: insert_ignore_def list_ex_iff image_iff split: if_splits)

lemma InsertActivityIfNew_ids:
  assumes "InsertActivityIfNew i ty a obj s = (r, s')"
  shows "av_activity_id ` set (activities (tbl s)) \<subseteq> av_activity_id ` set (activities (tbl s'))"
  using assms unfolding InsertActivityIfNew_def
  by (cases r) (auto elim!: bindE_okE bindE_errE dest!: exec_rows_ok exec_rows_err tick_run simp: set_insert_ignore split: if_splits)
end
