(* ===== verification/Database.thy ===== *)
theory Database
  imports Packages Blobs Actors Activities
begin

text \<open>
  The database as a state machine: every exported method of \<open>internal/database\<close> that writes
  is a step, and any sequence of calls, with I/O failures at any place, is a run.

  \<open>table_inv\<close> is the interface of an invariant on the tables: it is kept by each kind of
  statement the code issues. The preservation of the invariant by every method is proved
  once inside it; the schema invariant, the ownership history and the parents of tags are
  interpretations.
\<close>

section \<open>Invariants of statements\<close>

locale table_inv =
  fixes P :: "tables \<Rightarrow> bool"
  assumes st_ignore_packages: "\<And>t new k. P t \<Longrightarrow>
      (pkg_type new, pkg_name new) = k \<Longrightarrow>
      pkg_id new = seq_packages t \<Longrightarrow>
      P (t\<lparr>packages := insert_ignore (\<lambda>r. (pkg_type r, pkg_name r) = k) new (packages t), seq_packages := seq_packages t + 1\<rparr>)"
    and st_update_packages: "\<And>t f p. P t \<Longrightarrow>
      (\<And>r. p r \<Longrightarrow> (pkg_type (f r), pkg_name (f r)) = (pkg_type r, pkg_name r)) \<Longrightarrow>
      (\<And>r. p r \<Longrightarrow> pkg_id (f r) = pkg_id r) \<Longrightarrow>
      (\<And>r. p r \<Longrightarrow> pkg_owner (f r) = pkg_owner r) \<Longrightarrow>
      P (t\<lparr>packages := update_where p f (packages t)\<rparr>)"
    and st_upsert_package_versions: "\<And>t new k f. P t \<Longrightarrow>
      (ver_package new, ver_version new) = k \<Longrightarrow>
      ver_id new = seq_versions t \<Longrightarrow>
      (\<And>r. (ver_package r, ver_version r) = k \<Longrightarrow> (ver_package (f r), ver_version (f r)) = k) \<Longrightarrow>
      (\<And>r. (ver_package r, ver_version r) = k \<Longrightarrow> ver_id (f r) = ver_id r) \<Longrightarrow>
      P (t\<lparr>package_versions := upsert_where (\<lambda>r. (ver_package r, ver_version r) = k) f new (package_versions t), seq_versions := seq_versions t + 1\<rparr>)"
    and st_ignore_package_versions: "\<And>t new k. P t \<Longrightarrow>
      (ver_package new, ver_version new) = k \<Longrightarrow>
      ver_id new = seq_versions t \<Longrightarrow>
      P (t\<lparr>package_versions := insert_ignore (\<lambda>r. (ver_package r, ver_version r) = k) new (package_versions t), seq_versions := seq_versions t + 1\<rparr>)"
    and st_delete_package_versions: "\<And>t p. P t \<Longrightarrow>
      P (t\<lparr>package_versions := delete_where p (package_versions t)\<rparr>)"
    and st_upsert_package_files: "\<And>t new k f. P t \<Longrightarrow>
      (file_version new, file_name new) = k \<Longrightarrow>
      file_id new = seq_files t \<Longrightarrow>
      (\<And>r. (file_version r, file_name r) = k \<Longrightarrow> (file_version (f r), file_name (f r)) = k) \<Longrightarrow>
      (\<And>r. (file_version r, file_name r) = k \<Longrightarrow> file_id (f r) = file_id r) \<Longrightarrow>
      P (t\<lparr>package_files := upsert_where (\<lambda>r. (file_version r, file_name r) = k) f new (package_files t), seq_files := seq_files t + 1\<rparr>)"
    and st_delete_package_files: "\<And>t p. P t \<Longrightarrow>
      P (t\<lparr>package_files := delete_where p (package_files t)\<rparr>)"
    and st_delete_package_tags: "\<And>t p. P t \<Longrightarrow>
      P (t\<lparr>package_tags := delete_where p (package_tags t)\<rparr>)"
    and st_ignore_deleted_versions: "\<And>t new k. P t \<Longrightarrow>
      (del_type new, del_name new, del_version new) = k \<Longrightarrow>
      del_id new = seq_deleted t \<Longrightarrow>
      P (t\<lparr>deleted_versions := insert_ignore (\<lambda>r. (del_type r, del_name r, del_version r) = k) new (deleted_versions t), seq_deleted := seq_deleted t + 1\<rparr>)"
    and st_delete_deleted_versions: "\<And>t p. P t \<Longrightarrow>
      P (t\<lparr>deleted_versions := delete_where p (deleted_versions t)\<rparr>)"
    and st_upsert_blobs: "\<And>t new k f. P t \<Longrightarrow>
      blob_digest new = k \<Longrightarrow>
      blob_id new = seq_blobs t \<Longrightarrow>
      (\<And>r. blob_digest r = k \<Longrightarrow> blob_digest (f r) = k) \<Longrightarrow>
      (\<And>r. blob_digest r = k \<Longrightarrow> blob_id (f r) = blob_id r) \<Longrightarrow>
      P (t\<lparr>blobs := upsert_where (\<lambda>r. blob_digest r = k) f new (blobs t), seq_blobs := seq_blobs t + 1\<rparr>)"
    and st_update_blobs: "\<And>t f p. P t \<Longrightarrow>
      (\<And>r. p r \<Longrightarrow> blob_digest (f r) = blob_digest r) \<Longrightarrow>
      (\<And>r. p r \<Longrightarrow> blob_id (f r) = blob_id r) \<Longrightarrow>
      P (t\<lparr>blobs := update_where p f (blobs t)\<rparr>)"
    and st_delete_blobs: "\<And>t p. P t \<Longrightarrow>
      P (t\<lparr>blobs := delete_where p (blobs t)\<rparr>)"
    and st_upsert_peer_blobs: "\<And>t new k f. P t \<Longrightarrow>
      (pb_actor new, pb_digest new) = k \<Longrightarrow>
      pb_id new = seq_peer_blobs t \<Longrightarrow>
      (\<And>r. (pb_actor r, pb_digest r) = k \<Longrightarrow> (pb_actor (f r), pb_digest (f r)) = k) \<Longrightarrow>
      (\<And>r. (pb_actor r, pb_digest r) = k \<Longrightarrow> pb_id (f r) = pb_id r) \<Longrightarrow>
      P (t\<lparr>peer_blobs := upsert_where (\<lambda>r. (pb_actor r, pb_digest r) = k) f new (peer_blobs t), seq_peer_blobs := seq_peer_blobs t + 1\<rparr>)"
    and st_delete_peer_blobs: "\<And>t p. P t \<Longrightarrow>
      P (t\<lparr>peer_blobs := delete_where p (peer_blobs t)\<rparr>)"
    and st_upsert_actors: "\<And>t new k f. P t \<Longrightarrow>
      act_url new = k \<Longrightarrow>
      act_id new = seq_actors t \<Longrightarrow>
      (\<And>r. act_url r = k \<Longrightarrow> act_url (f r) = k) \<Longrightarrow>
      (\<And>r. act_url r = k \<Longrightarrow> act_id (f r) = act_id r) \<Longrightarrow>
      P (t\<lparr>actors := upsert_where (\<lambda>r. act_url r = k) f new (actors t), seq_actors := seq_actors t + 1\<rparr>)"
    and st_update_actors: "\<And>t f p. P t \<Longrightarrow>
      (\<And>r. p r \<Longrightarrow> act_url (f r) = act_url r) \<Longrightarrow>
      (\<And>r. p r \<Longrightarrow> act_id (f r) = act_id r) \<Longrightarrow>
      P (t\<lparr>actors := update_where p f (actors t)\<rparr>)"
    and st_delete_actors: "\<And>t p. P t \<Longrightarrow>
      P (t\<lparr>actors := delete_where p (actors t)\<rparr>)"
    and st_upsert_follow_requests: "\<And>t new k f. P t \<Longrightarrow>
      fr_url new = k \<Longrightarrow>
      fr_id new = seq_requests t \<Longrightarrow>
      (\<And>r. fr_url r = k \<Longrightarrow> fr_url (f r) = k) \<Longrightarrow>
      (\<And>r. fr_url r = k \<Longrightarrow> fr_id (f r) = fr_id r) \<Longrightarrow>
      P (t\<lparr>follow_requests := upsert_where (\<lambda>r. fr_url r = k) f new (follow_requests t), seq_requests := seq_requests t + 1\<rparr>)"
    and st_update_follow_requests: "\<And>t f p. P t \<Longrightarrow>
      (\<And>r. p r \<Longrightarrow> fr_url (f r) = fr_url r) \<Longrightarrow>
      (\<And>r. p r \<Longrightarrow> fr_id (f r) = fr_id r) \<Longrightarrow>
      P (t\<lparr>follow_requests := update_where p f (follow_requests t)\<rparr>)"
    and st_delete_follow_requests: "\<And>t p. P t \<Longrightarrow>
      P (t\<lparr>follow_requests := delete_where p (follow_requests t)\<rparr>)"
    and st_ignore_activities: "\<And>t new k. P t \<Longrightarrow>
      av_activity_id new = k \<Longrightarrow>
      av_id new = seq_activities t \<Longrightarrow>
      P (t\<lparr>activities := insert_ignore (\<lambda>r. av_activity_id r = k) new (activities t), seq_activities := seq_activities t + 1\<rparr>)"
    and st_ignore_upload_sessions: "\<And>t new k. P t \<Longrightarrow>
      up_uuid new = k \<Longrightarrow>
      up_id new = seq_uploads t \<Longrightarrow>
      P (t\<lparr>upload_sessions := insert_ignore (\<lambda>r. up_uuid r = k) new (upload_sessions t), seq_uploads := seq_uploads t + 1\<rparr>)"
    and st_delete_upload_sessions: "\<And>t p. P t \<Longrightarrow>
      P (t\<lparr>upload_sessions := delete_where p (upload_sessions t)\<rparr>)"
    and st_ignore_delivery_queue: "\<And>t new k. P t \<Longrightarrow>
      (dv_activity new, dv_inbox new) = k \<Longrightarrow>
      dv_id new = seq_deliveries t \<Longrightarrow>
      P (t\<lparr>delivery_queue := insert_ignore (\<lambda>r. (dv_activity r, dv_inbox r) = k) new (delivery_queue t), seq_deliveries := seq_deliveries t + 1\<rparr>)"
    and st_update_delivery_queue: "\<And>t f p. P t \<Longrightarrow>
      (\<And>r. p r \<Longrightarrow> (dv_activity (f r), dv_inbox (f r)) = (dv_activity r, dv_inbox r)) \<Longrightarrow>
      (\<And>r. p r \<Longrightarrow> dv_id (f r) = dv_id r) \<Longrightarrow>
      P (t\<lparr>delivery_queue := update_where p f (delivery_queue t)\<rparr>)"
    and st_delete_delivery_queue: "\<And>t p. P t \<Longrightarrow>
      P (t\<lparr>delivery_queue := delete_where p (delivery_queue t)\<rparr>)"
begin

lemmas st_intros =
  st_ignore_packages st_update_packages st_upsert_package_versions st_ignore_package_versions
  st_delete_package_versions st_upsert_package_files st_delete_package_files
  st_delete_package_tags st_ignore_deleted_versions st_delete_deleted_versions st_upsert_blobs
  st_update_blobs st_delete_blobs st_upsert_peer_blobs st_delete_peer_blobs st_upsert_actors
  st_update_actors st_delete_actors st_upsert_follow_requests st_update_follow_requests
  st_delete_follow_requests st_ignore_activities st_ignore_upload_sessions
  st_delete_upload_sessions st_ignore_delivery_queue st_update_delivery_queue
  st_delete_delivery_queue

lemma keeps_GetOrCreatePackage: "keeps (\<lambda>s. P (tbl s)) (GetOrCreatePackage a b c)"
  unfolding GetOrCreatePackage_def
  by (intro keeps_intros st_intros; simp add: new_package_def)

lemma keeps_SetPackagePrivate: "keeps (\<lambda>s. P (tbl s)) (SetPackagePrivate a b)"
  unfolding SetPackagePrivate_def
  by (intro keeps_intros st_intros; simp)

lemma keeps_MarkPackageWithdrawn: "keeps (\<lambda>s. P (tbl s)) (MarkPackageWithdrawn a)"
  unfolding MarkPackageWithdrawn_def
  by (intro keeps_intros st_intros; simp)

lemma keeps_putPackageVersion: "keeps (\<lambda>s. P (tbl s)) (putPackageVersion a)"
  unfolding putPackageVersion_def Let_def upsert_version_def getPackageVersion_def
  by (intro keeps_intros st_intros; simp add: overwrite_version_def)

lemma keeps_PutPackageVersion: "keeps (\<lambda>s. P (tbl s)) (PutPackageVersion a)"
  unfolding PutPackageVersion_def
  by (intro keeps_intros st_intros keeps_putPackageVersion; simp)

lemma keeps_InsertPackageVersionIfNew: "keeps (\<lambda>s. P (tbl s)) (InsertPackageVersionIfNew a)"
  unfolding InsertPackageVersionIfNew_def getPackageVersion_def
  by (intro keeps_intros st_intros; simp)

lemma keeps_DeletePackageVersion: "keeps (\<lambda>s. P (tbl s)) (DeletePackageVersion a b)"
  unfolding DeletePackageVersion_def del_tags_of_version_def del_files_of_version_def del_version_row_def
  by (intro keeps_intros st_intros; simp)

lemma keeps_PutPackageFile: "keeps (\<lambda>s. P (tbl s)) (PutPackageFile a)"
  unfolding PutPackageFile_def
  by (intro keeps_intros st_intros; simp)

lemma keeps_putBlobReferences: "keeps (\<lambda>s. P (tbl s)) (putBlobReferences a b)"
  unfolding putBlobReferences_def upsert_blob_reference_def
  by (intro keeps_intros st_intros; simp)

lemma keeps_PutBlobReferences: "keeps (\<lambda>s. P (tbl s)) (PutBlobReferences a b)"
  unfolding PutBlobReferences_def
  by (intro keeps_intros st_intros keeps_putBlobReferences; simp)

lemma keeps_DeletePackageFile: "keeps (\<lambda>s. P (tbl s)) (DeletePackageFile a b)"
  unfolding DeletePackageFile_def
  by (intro keeps_intros st_intros; simp)

lemma keeps_DeletePackageTag: "keeps (\<lambda>s. P (tbl s)) (DeletePackageTag a b)"
  unfolding DeletePackageTag_def
  by (intro keeps_intros st_intros; simp)

lemma keeps_RecordDeletedVersion: "keeps (\<lambda>s. P (tbl s)) (RecordDeletedVersion a b c d)"
  unfolding RecordDeletedVersion_def insert_tombstone_def
  by (intro keeps_intros st_intros; simp add: new_tombstone_def)

lemma keeps_PruneDeletedVersions: "keeps (\<lambda>s. P (tbl s)) (PruneDeletedVersions a)"
  unfolding PruneDeletedVersions_def
  by (intro keeps_intros st_intros; simp)

lemma keeps_PutManifest: "keeps (\<lambda>s. P (tbl s)) (PutManifest a)"
  unfolding PutManifest_def
  by (intro keeps_intros st_intros keeps_PutPackageVersion; simp)

lemma keeps_PutManifestWithLayers: "keeps (\<lambda>s. P (tbl s)) (PutManifestWithLayers a b)"
  unfolding PutManifestWithLayers_def
  by (intro keeps_intros st_intros keeps_putPackageVersion keeps_putBlobReferences; simp)

lemma keeps_purgeUnreferencedBlobs: "keeps (\<lambda>s. P (tbl s)) (purgeUnreferencedBlobs a)"
  unfolding purgeUnreferencedBlobs_def
  by (intro keeps_intros st_intros; simp)

lemma keeps_DeletePackageVersionWithBlobs: "keeps (\<lambda>s. P (tbl s)) (DeletePackageVersionWithBlobs a b)"
  unfolding DeletePackageVersionWithBlobs_def del_tags_of_version_def del_files_of_version_def del_version_row_def
  by (intro keeps_intros st_intros keeps_purgeUnreferencedBlobs; simp)

lemma keeps_PruneUntaggedManifests: "keeps (\<lambda>s. P (tbl s)) (PruneUntaggedManifests a b)"
  unfolding PruneUntaggedManifests_def Let_def
  by (intro keeps_intros st_intros; simp)

lemma keeps_PutBlob: "keeps (\<lambda>s. P (tbl s)) (PutBlob a b c d)"
  unfolding PutBlob_def
  by (intro keeps_intros st_intros; simp add: overwrite_blob_def)

lemma keeps_SetBlobStoredLocally: "keeps (\<lambda>s. P (tbl s)) (SetBlobStoredLocally a b)"
  unfolding SetBlobStoredLocally_def
  by (intro keeps_intros st_intros; simp)

lemma keeps_DeleteBlob: "keeps (\<lambda>s. P (tbl s)) (DeleteBlob a)"
  unfolding DeleteBlob_def
  by (intro keeps_intros st_intros; simp)

lemma keeps_update_actors:
  "(\<And>c r. p r \<Longrightarrow> act_url (f c r) = act_url r) \<Longrightarrow> (\<And>c r. p r \<Longrightarrow> act_id (f c r) = act_id r) \<Longrightarrow>
   keeps (\<lambda>s. P (tbl s)) (update_actors p f)"
  unfolding update_actors_def by (intro keeps_intros st_intros; simp)

lemma keeps_UpsertActor: "keeps (\<lambda>s. P (tbl s)) (UpsertActor a)"
  unfolding UpsertActor_def
  by (intro keeps_intros st_intros; simp add: merge_actor_def)

lemma keeps_DeleteActor: "keeps (\<lambda>s. P (tbl s)) (DeleteActor a)"
  unfolding DeleteActor_def
  by (intro keeps_intros st_intros; simp)

lemma keeps_AddFollowRequest: "keeps (\<lambda>s. P (tbl s)) (AddFollowRequest a b c d)"
  unfolding AddFollowRequest_def
  by (intro keeps_intros st_intros; simp)

lemma keeps_RejectFollowRequest: "keeps (\<lambda>s. P (tbl s)) (RejectFollowRequest a)"
  unfolding RejectFollowRequest_def affecting_def
  by (intro keeps_intros st_intros; simp)

lemma keeps_RefreshFollowRequest: "keeps (\<lambda>s. P (tbl s)) (RefreshFollowRequest a b c d)"
  unfolding RefreshFollowRequest_def affecting_def
  by (intro keeps_intros st_intros; simp)

lemma keeps_UpdateFollowFilter: "keeps (\<lambda>s. P (tbl s)) (UpdateFollowFilter a b)"
  unfolding UpdateFollowFilter_def affecting_def
  by (intro keeps_intros st_intros keeps_update_actors; simp)

lemma keeps_AddFollow: "keeps (\<lambda>s. P (tbl s)) (AddFollow a b c d)"
  unfolding AddFollow_def
  by (intro keeps_intros st_intros; simp add: default_actor_def)

lemma keeps_RemoveFollow: "keeps (\<lambda>s. P (tbl s)) (RemoveFollow a)"
  unfolding RemoveFollow_def affecting_def
  by (intro keeps_intros st_intros keeps_update_actors; simp)

lemma keeps_RefreshFollow: "keeps (\<lambda>s. P (tbl s)) (RefreshFollow a b c d)"
  unfolding RefreshFollow_def affecting_def
  by (intro keeps_intros st_intros keeps_update_actors; simp)

lemma keeps_RefreshOutgoingFollow: "keeps (\<lambda>s. P (tbl s)) (RefreshOutgoingFollow a b c d)"
  unfolding RefreshOutgoingFollow_def affecting_def
  by (intro keeps_intros st_intros keeps_update_actors; simp)

lemma keeps_AcceptFollowRequest: "keeps (\<lambda>s. P (tbl s)) (AcceptFollowRequest a)"
  unfolding AcceptFollowRequest_def GetFollowRequest_def
  by (intro keeps_intros st_intros keeps_AddFollow; simp)

lemma keeps_AddOutgoingFollow: "keeps (\<lambda>s. P (tbl s)) (AddOutgoingFollow a)"
  unfolding AddOutgoingFollow_def
  by (intro keeps_intros st_intros; simp add: default_actor_def)

lemma keeps_AcceptOutgoingFollow: "keeps (\<lambda>s. P (tbl s)) (AcceptOutgoingFollow a)"
  unfolding AcceptOutgoingFollow_def affecting_def
  by (intro keeps_intros st_intros keeps_update_actors; simp)

lemma keeps_RejectOutgoingFollow: "keeps (\<lambda>s. P (tbl s)) (RejectOutgoingFollow a)"
  unfolding RejectOutgoingFollow_def
  by (intro keeps_intros st_intros keeps_update_actors; simp)

lemma keeps_RemoveOutgoingFollow: "keeps (\<lambda>s. P (tbl s)) (RemoveOutgoingFollow a)"
  unfolding RemoveOutgoingFollow_def affecting_def
  by (intro keeps_intros st_intros keeps_update_actors; simp add: clear_outgoing_def)

lemma keeps_DeleteStaleOutgoingFollows: "keeps (\<lambda>s. P (tbl s)) (DeleteStaleOutgoingFollows a b)"
  unfolding DeleteStaleOutgoingFollows_def
  by (intro keeps_intros st_intros keeps_update_actors; simp add: clear_outgoing_def)

lemma keeps_UpsertPeer: "keeps (\<lambda>s. P (tbl s)) (UpsertPeer a b c d e)"
  unfolding UpsertPeer_def
  by (intro keeps_intros st_intros; simp add: default_actor_def)

lemma keeps_SetActorHealth: "keeps (\<lambda>s. P (tbl s)) (SetActorHealth a b)"
  unfolding SetActorHealth_def
  by (intro keeps_intros st_intros keeps_update_actors; simp)

lemma keeps_SetPeerHealthByDomain: "keeps (\<lambda>s. P (tbl s)) (SetPeerHealthByDomain a b)"
  unfolding SetPeerHealthByDomain_def
  by (intro keeps_intros st_intros keeps_update_actors; simp)

lemma keeps_PutPeerBlob: "keeps (\<lambda>s. P (tbl s)) (PutPeerBlob a b c)"
  unfolding PutPeerBlob_def
  by (intro keeps_intros st_intros; simp)

lemma keeps_CleanupStalePeerBlobs: "keeps (\<lambda>s. P (tbl s)) (CleanupStalePeerBlobs a)"
  unfolding CleanupStalePeerBlobs_def
  by (intro keeps_intros st_intros; simp)

lemma keeps_InsertActivityIfNew: "keeps (\<lambda>s. P (tbl s)) (InsertActivityIfNew a b c d)"
  unfolding InsertActivityIfNew_def
  by (intro keeps_intros st_intros; simp)

lemma keeps_EnqueueDeliveryInserted: "keeps (\<lambda>s. P (tbl s)) (EnqueueDeliveryInserted a b c)"
  unfolding EnqueueDeliveryInserted_def
  by (intro keeps_intros st_intros; simp)

lemma keeps_MarkDelivered: "keeps (\<lambda>s. P (tbl s)) (MarkDelivered a)"
  unfolding MarkDelivered_def
  by (intro keeps_intros st_intros; simp)

lemma keeps_MarkDeliveryFailed: "keeps (\<lambda>s. P (tbl s)) (MarkDeliveryFailed a b c d)"
  unfolding MarkDeliveryFailed_def
  by (intro keeps_intros st_intros; simp)

lemma keeps_CleanupDeliveries: "keeps (\<lambda>s. P (tbl s)) (CleanupDeliveries a)"
  unfolding CleanupDeliveries_def Let_def
  by (intro keeps_intros st_intros; simp)

lemma keeps_CreateUploadSession: "keeps (\<lambda>s. P (tbl s)) (CreateUploadSession a b c)"
  unfolding CreateUploadSession_def Let_def
  by (intro keeps_intros st_intros; simp)

lemma keeps_DeleteUploadSession: "keeps (\<lambda>s. P (tbl s)) (DeleteUploadSession a)"
  unfolding DeleteUploadSession_def
  by (intro keeps_intros st_intros; simp)

lemma st_insert_tombstone: "P t \<Longrightarrow> P (insert_tombstone a b c d e t)"
  unfolding insert_tombstone_def by (intro st_intros; simp add: new_tombstone_def)

lemma st_tombstone_versions: "P t \<Longrightarrow> P (tombstone_versions a b c d t)"
  unfolding tombstone_versions_def
  by (rule fold_invariant [where Q = "\<lambda>_. True"]) (simp_all add: st_insert_tombstone)

end

text \<open>An invariant that also survives the deletion of package rows and the insertion of tags.\<close>

locale full_table_inv = table_inv +
  assumes st_delete_packages: "\<And>t p. P t \<Longrightarrow>
      P (t\<lparr>packages := delete_where p (packages t)\<rparr>)"
    and st_upsert_package_tags: "\<And>t new k f. P t \<Longrightarrow>
      (tag_package new, tag_name new) = k \<Longrightarrow>
      tag_id new = seq_tags t \<Longrightarrow>
      (\<And>r. (tag_package r, tag_name r) = k \<Longrightarrow> (tag_package (f r), tag_name (f r)) = k) \<Longrightarrow>
      (\<And>r. (tag_package r, tag_name r) = k \<Longrightarrow> tag_id (f r) = tag_id r) \<Longrightarrow>
      P (t\<lparr>package_tags := upsert_where (\<lambda>r. (tag_package r, tag_name r) = k) f new (package_tags t), seq_tags := seq_tags t + 1\<rparr>)"
begin

lemma keeps_PutPackageTag: "keeps (\<lambda>s. P (tbl s)) (PutPackageTag a b c)"
  unfolding PutPackageTag_def upsert_tag_def
  by (intro keeps_intros st_upsert_package_tags; simp)

lemmas del_defs = del_files_of_package_def del_tags_of_package_def del_versions_of_package_def
  del_uploads_of_package_def del_package_def

lemma keeps_DeletePackage: "keeps (\<lambda>s. P (tbl s)) (DeletePackage a)"
  unfolding DeletePackage_def del_defs
  by (intro keeps_intros st_intros st_delete_packages; simp)

lemma keeps_deletePackageRowsTx: "keeps (\<lambda>s. P (tbl s)) (deletePackageRowsTx a)"
  unfolding deletePackageRowsTx_def del_defs
  by (intro keeps_intros st_intros st_delete_packages; simp)

lemma keeps_DeletePackageWithBlobs: "keeps (\<lambda>s. P (tbl s)) (DeletePackageWithBlobs a)"
  unfolding DeletePackageWithBlobs_def
  by (intro keeps_intros keeps_deletePackageRowsTx keeps_purgeUnreferencedBlobs)

lemma keeps_DeleteOwnedRepositoryWithBlobs:
  "keeps (\<lambda>s. P (tbl s)) (DeleteOwnedRepositoryWithBlobs a b)"
  unfolding DeleteOwnedRepositoryWithBlobs_def erase_owned_repo_def
  by (intro keeps_intros keeps_deletePackageRowsTx keeps_purgeUnreferencedBlobs st_tombstone_versions)

end

section \<open>The invariants\<close>

interpretation wf: full_table_inv wf_tables
  by unfold_locales (rule wf_intros; assumption | simp)+

text \<open>
  What the tables of a later state may say about the packages of an earlier one: a package
  whose id was already given out is one of the earlier packages, with the same type, name
  and owner.
\<close>

definition package_history :: "tables \<Rightarrow> tables \<Rightarrow> bool" where
  "package_history t0 t \<longleftrightarrow> seq_packages t0 \<le> seq_packages t \<and>
     (\<forall>p \<in> set (packages t). pkg_id p < seq_packages t0 \<longrightarrow>
        (\<exists>q \<in> set (packages t0). (pkg_id q, pkg_type q, pkg_name q, pkg_owner q) =
                                 (pkg_id p, pkg_type p, pkg_name p, pkg_owner p)))"

interpretation history: full_table_inv "package_history t0" for t0
  by unfold_locales (auto simp: package_history_def set_insert_ignore split: if_splits)

text \<open>Every tag row belongs to a package row.\<close>

definition tags_parented :: "tables \<Rightarrow> bool" where
  "tags_parented t \<longleftrightarrow> (\<forall>g \<in> set (package_tags t). \<exists>p \<in> set (packages t). pkg_id p = tag_package g)"

lemma tags_parented_update:
  assumes "tags_parented t" and "\<And>r. p r \<Longrightarrow> pkg_id (f r) = pkg_id r"
  shows "tags_parented (t\<lparr>packages := update_where p f (packages t)\<rparr>)"
  unfolding tags_parented_def
proof
  fix g
  assume "g \<in> set (package_tags (t\<lparr>packages := update_where p f (packages t)\<rparr>))"
  with assms(1) obtain q where q: "q \<in> set (packages t)" "pkg_id q = tag_package g"
    by (auto simp: tags_parented_def)
  then have "pkg_id (if p q then f q else q) = tag_package g" using assms(2) by simp
  with q(1) show "\<exists>r \<in> set (packages (t\<lparr>packages := update_where p f (packages t)\<rparr>)). pkg_id r = tag_package g"
    by (intro bexI [of _ "if p q then f q else q"]) simp_all
qed

interpretation parented: table_inv tags_parented
  by unfold_locales ((rule tags_parented_update; simp) |
      (auto simp: tags_parented_def set_insert_ignore split: if_splits)[1])+

lemma parented_PutPackageTag: "keeps (\<lambda>s. tags_parented (tbl s)) (PutPackageTag pid name version)"
  unfolding PutPackageTag_def run_tx_def
proof (rule keeps_in_tx_commit)
  fix s u :: "'z store_scheme" and x
  assume "tags_parented (tbl s)"
    and "bindE (bindE (query (\<lambda>t. exists_where (\<lambda>r. pkg_id r = pid) (packages t)))
        (\<lambda>ex. if \<not> ex then fail ErrRepositoryGone else exec (upsert_tag pid name version)))
        (\<lambda>x. ret (Commit x)) s = (Inr (Commit x), u)"
  then show "tags_parented (tbl u)"
    by (auto simp: tags_parented_def upsert_tag_def set_upsert_where elim!: bindE_okE
        split: if_split_asm dest!: query_ok exec_ok; blast)
qed

lemma parented_drop: "tags_parented t \<Longrightarrow> tags_parented (drop_package pid t)"
  by (fastforce simp: tags_parented_def drop_package_def)

lemma parented_purge: "tags_parented (purge_blobs c t) \<longleftrightarrow> tags_parented t"
  by (simp add: tags_parented_def purge_blobs_def)

lemma parented_DeletePackage: "keeps (\<lambda>s. tags_parented (tbl s)) (DeletePackage pid)"
  unfolding DeletePackage_def
  by (rule keeps_in_tx_commit) (simp add: DeletePackage_commit parented_drop)

lemma parented_DeletePackageWithBlobs: "keeps (\<lambda>s. tags_parented (tbl s)) (DeletePackageWithBlobs pid)"
  unfolding DeletePackageWithBlobs_def
  by (rule keeps_in_tx_commit)
    (auto simp: parented_purge parented_drop elim!: bindE_okE
      dest!: deletePackageRowsTx_ok purgeUnreferencedBlobs_ok)

lemma parented_erased: "repo_erased rid name purged t t' \<Longrightarrow> tags_parented t \<Longrightarrow> tags_parented t'"
  by (fastforce simp: repo_erased_def tags_parented_def)

lemma parented_DeleteOwnedRepositoryWithBlobs:
  "keeps (\<lambda>s. tags_parented (tbl s)) (DeleteOwnedRepositoryWithBlobs rid owner)"
  unfolding DeleteOwnedRepositoryWithBlobs_def
  by (rule keeps_in_tx_commit)
    (auto simp: now_def elim!: bindE_okE split: option.split_asm if_split_asm
      dest!: query_ok erase_ok; rule parented_erased; assumption)

section \<open>Runs\<close>

text \<open>
  One step of the system as seen by the database: the environment moves the clock forward and
  decides which of the following calls fail, or one method runs to its end. Methods that only
  read and the OCI-named wrappers (\<open>PutManifest\<close>, \<open>PutTag\<close>, \<open>DeleteManifest\<close>, ...) are the
  methods they call.
\<close>

inductive db_step :: "store \<Rightarrow> store \<Rightarrow> bool" where
  env: "clock s \<le> c \<Longrightarrow> db_step s (s\<lparr>faults := fs, clock := c\<rparr>)"
| GetOrCreatePackage: "db_step s (snd (GetOrCreatePackage ty name owner s))"
| SetPackagePrivate: "db_step s (snd (SetPackagePrivate pid b s))"
| MarkPackageWithdrawn: "db_step s (snd (MarkPackageWithdrawn pid s))"
| PutPackageVersion: "db_step s (snd (PutPackageVersion v s))"
| InsertPackageVersionIfNew: "db_step s (snd (InsertPackageVersionIfNew v s))"
| PutManifestWithLayers: "db_step s (snd (PutManifestWithLayers m refs s))"
| DeletePackageVersion: "db_step s (snd (DeletePackageVersion pid version s))"
| DeletePackageVersionWithBlobs: "db_step s (snd (DeletePackageVersionWithBlobs pid version s))"
| PutPackageFile: "db_step s (snd (PutPackageFile f s))"
| PutBlobReferences: "db_step s (snd (PutBlobReferences vid refs s))"
| DeletePackageFile: "db_step s (snd (DeletePackageFile vid filename s))"
| PutPackageTag: "db_step s (snd (PutPackageTag pid name version s))"
| DeletePackageTag: "db_step s (snd (DeletePackageTag pid name s))"
| RecordDeletedVersion: "db_step s (snd (RecordDeletedVersion ty name version src s))"
| PruneDeletedVersions: "db_step s (snd (PruneDeletedVersions olderThan s))"
| DeletePackage: "db_step s (snd (DeletePackage pid s))"
| DeletePackageWithBlobs: "db_step s (snd (DeletePackageWithBlobs pid s))"
| DeleteOwnedRepositoryWithBlobs: "db_step s (snd (DeleteOwnedRepositoryWithBlobs rid owner s))"
| PruneUntaggedManifests: "db_step s (snd (PruneUntaggedManifests olderThan limit s))"
| PutBlob: "db_step s (snd (PutBlob digest sz mt stored s))"
| SetBlobStoredLocally: "db_step s (snd (SetBlobStoredLocally digest stored s))"
| DeleteBlob: "db_step s (snd (DeleteBlob digest s))"
| UpsertActor: "db_step s (snd (UpsertActor a s))"
| DeleteActor: "db_step s (snd (DeleteActor url s))"
| AddFollowRequest: "db_step s (snd (AddFollowRequest url key ep alias s))"
| RejectFollowRequest: "db_step s (snd (RejectFollowRequest url s))"
| RefreshFollowRequest: "db_step s (snd (RefreshFollowRequest url key ep alias s))"
| UpdateFollowFilter: "db_step s (snd (UpdateFollowFilter url globs s))"
| AddFollow: "db_step s (snd (AddFollow url key ep alias s))"
| RemoveFollow: "db_step s (snd (RemoveFollow url s))"
| RefreshFollow: "db_step s (snd (RefreshFollow url key ep alias s))"
| RefreshOutgoingFollow: "db_step s (snd (RefreshOutgoingFollow url key ep alias s))"
| AcceptFollowRequest: "db_step s (snd (AcceptFollowRequest url s))"
| AddOutgoingFollow: "db_step s (snd (AddOutgoingFollow url s))"
| AcceptOutgoingFollow: "db_step s (snd (AcceptOutgoingFollow url s))"
| RejectOutgoingFollow: "db_step s (snd (RejectOutgoingFollow url s))"
| RemoveOutgoingFollow: "db_step s (snd (RemoveOutgoingFollow url s))"
| DeleteStaleOutgoingFollows: "db_step s (snd (DeleteStaleOutgoingFollows pttl rttl s))"
| UpsertPeer: "db_step s (snd (UpsertPeer url ep nm policy healthy s))"
| SetActorHealth: "db_step s (snd (SetActorHealth url healthy s))"
| SetPeerHealthByDomain: "db_step s (snd (SetPeerHealthByDomain domain healthy s))"
| PutPeerBlob: "db_step s (snd (PutPeerBlob peer digest ep s))"
| CleanupStalePeerBlobs: "db_step s (snd (CleanupStalePeerBlobs olderThan s))"
| InsertActivityIfNew: "db_step s (snd (InsertActivityIfNew aid aty url json s))"
| EnqueueDeliveryInserted: "db_step s (snd (EnqueueDeliveryInserted aid inbox json s))"
| MarkDelivered: "db_step s (snd (MarkDelivered did s))"
| MarkDeliveryFailed: "db_step s (snd (MarkDeliveryFailed did attempts maxAttempts msg s))"
| CleanupDeliveries: "db_step s (snd (CleanupDeliveries olderThan s))"
| CreateUploadSession: "db_step s (snd (CreateUploadSession uuid rid ttl s))"
| DeleteUploadSession: "db_step s (snd (DeleteUploadSession uuid s))"

inductive_cases db_stepE: "db_step s s'"

abbreviation db_run :: "store \<Rightarrow> store \<Rightarrow> bool" where
  "db_run \<equiv> rtranclp db_step"

context table_inv
begin

lemmas keeps_all = keeps_GetOrCreatePackage keeps_SetPackagePrivate keeps_MarkPackageWithdrawn
  keeps_PutPackageVersion keeps_InsertPackageVersionIfNew keeps_PutManifestWithLayers
  keeps_DeletePackageVersion keeps_DeletePackageVersionWithBlobs keeps_PutPackageFile
  keeps_PutBlobReferences keeps_DeletePackageFile keeps_DeletePackageTag
  keeps_RecordDeletedVersion keeps_PruneDeletedVersions keeps_PruneUntaggedManifests
  keeps_PutBlob keeps_SetBlobStoredLocally keeps_DeleteBlob keeps_UpsertActor keeps_DeleteActor
  keeps_AddFollowRequest keeps_RejectFollowRequest keeps_RefreshFollowRequest
  keeps_UpdateFollowFilter keeps_AddFollow keeps_RemoveFollow keeps_RefreshFollow
  keeps_RefreshOutgoingFollow keeps_AcceptFollowRequest keeps_AddOutgoingFollow
  keeps_AcceptOutgoingFollow keeps_RejectOutgoingFollow keeps_RemoveOutgoingFollow
  keeps_DeleteStaleOutgoingFollows keeps_UpsertPeer keeps_SetActorHealth
  keeps_SetPeerHealthByDomain keeps_PutPeerBlob keeps_CleanupStalePeerBlobs
  keeps_InsertActivityIfNew keeps_EnqueueDeliveryInserted keeps_MarkDelivered
  keeps_MarkDeliveryFailed keeps_CleanupDeliveries keeps_CreateUploadSession
  keeps_DeleteUploadSession

text \<open>An invariant that the four remaining methods keep is kept by every step and every run.\<close>

lemma step_keeps:
  assumes "\<And>pid name version. keeps (\<lambda>s. P (tbl s)) (PutPackageTag pid name version :: (store, unit) prog)"
    and "\<And>pid. keeps (\<lambda>s. P (tbl s)) (DeletePackage pid :: (store, unit) prog)"
    and "\<And>pid. keeps (\<lambda>s. P (tbl s)) (DeletePackageWithBlobs pid :: (store, string list) prog)"
    and "\<And>rid owner. keeps (\<lambda>s. P (tbl s)) (DeleteOwnedRepositoryWithBlobs rid owner :: (store, RepoDeletion option) prog)"
    and "db_step s s'" and "P (tbl s)"
  shows "P (tbl s')"
  using assms(5,6)
  by (cases rule: db_step.cases)
    (simp_all add: keeps_all [unfolded keeps_def, rule_format] assms(1-4) [unfolded keeps_def, rule_format])

lemma run_keeps:
  assumes "\<And>pid name version. keeps (\<lambda>s. P (tbl s)) (PutPackageTag pid name version :: (store, unit) prog)"
    and "\<And>pid. keeps (\<lambda>s. P (tbl s)) (DeletePackage pid :: (store, unit) prog)"
    and "\<And>pid. keeps (\<lambda>s. P (tbl s)) (DeletePackageWithBlobs pid :: (store, string list) prog)"
    and "\<And>rid owner. keeps (\<lambda>s. P (tbl s)) (DeleteOwnedRepositoryWithBlobs rid owner :: (store, RepoDeletion option) prog)"
    and "db_run s s'" and "P (tbl s)"
  shows "P (tbl s')"
  using assms(5,6) by (induction rule: rtranclp_induct) (auto intro: step_keeps [OF assms(1-4)])

end

context full_table_inv
begin

lemmas run_inv = run_keeps [OF keeps_PutPackageTag keeps_DeletePackage keeps_DeletePackageWithBlobs
    keeps_DeleteOwnedRepositoryWithBlobs]

end

section \<open>Properties\<close>

text \<open>C17. In every state reachable from the empty database, through any sequence of method calls
  with I/O failures at any place, all unique indexes hold, row ids are unique and below their
  counter, and no tag row is left without its package.\<close>

lemma reachable_consistent:
  assumes "db_run (init_store c) s"
  shows "wf_tables (tbl s) \<and> tags_parented (tbl s)"
  using wf.run_inv [OF assms] wf_empty_tables
    parented.run_keeps [OF parented_PutPackageTag parented_DeletePackage
      parented_DeletePackageWithBlobs parented_DeleteOwnedRepositoryWithBlobs assms]
  by (simp add: init_store_def tags_parented_def empty_tables_def)

theorem reachable_consistent_witness:
  "wf_tables (tbl (snd (PutPackageTag 1 ''v1'' ''d1'' (snd (GetOrCreatePackage ''oci'' ''a'' ''me'' (init_store 0)))))) \<and>
   tags_parented (tbl (snd (PutPackageTag 1 ''v1'' ''d1'' (snd (GetOrCreatePackage ''oci'' ''a'' ''me'' (init_store 0))))))"
proof -
  let ?s1 = "snd (GetOrCreatePackage ''oci'' ''a'' ''me'' (init_store 0))"
  have "db_run (init_store 0) ?s1" by (rule r_into_rtranclp) (rule db_step.GetOrCreatePackage)
  then have "db_run (init_store 0) (snd (PutPackageTag 1 ''v1'' ''d1'' ?s1))"
    by (rule rtranclp.rtrancl_into_rtrancl) (rule db_step.PutPackageTag)
  then show ?thesis by (rule reachable_consistent)
qed

text \<open>C18. Ownership is immutable: along any run, a package that is still there under its id has
  the type, name and owner it had, and ids are never given out twice.\<close>

lemma ownership_immutable:
  assumes "wf_tables (tbl s)" and "db_run s s'"
    and "p \<in> set (packages (tbl s))" and "p' \<in> set (packages (tbl s'))" and "pkg_id p' = pkg_id p"
  shows "pkg_type p' = pkg_type p \<and> pkg_name p' = pkg_name p \<and> pkg_owner p' = pkg_owner p"
proof -
  have "package_history (tbl s) (tbl s')"
    by (rule history.run_inv [OF assms(2)]) (auto simp: package_history_def)
  moreover have "pkg_id p' < seq_packages (tbl s)"
    using assms by (auto simp: wf_tables_def pkgs.fresh_def)
  ultimately obtain q where "q \<in> set (packages (tbl s))" and q:
    "(pkg_id q, pkg_type q, pkg_name q, pkg_owner q) = (pkg_id p', pkg_type p', pkg_name p', pkg_owner p')"
    using assms(4) by (auto simp: package_history_def)
  moreover from this have "q = p"
    using assms by (auto simp: wf_tables_def pkgs.fresh_def dest: map_eq_inj_on)
  ultimately show ?thesis by simp
qed

theorem ownership_immutable_witness:
  "\<exists>p \<in> set (packages (tbl sample_store)). \<exists>p' \<in> set (packages (tbl (snd (SetPackagePrivate 1 True sample_store)))).
     pkg_id p' = pkg_id p \<and> pkg_private p' \<and> pkg_owner p' = pkg_owner p"
proof -
  let ?s = "snd (SetPackagePrivate 1 True sample_store)"
  let ?p = "hd (packages (tbl sample_store))" and ?p' = "hd (packages (tbl ?s))"
  have 1: "packages (tbl sample_store) \<noteq> []" "packages (tbl ?s) \<noteq> []" "pkg_id ?p' = pkg_id ?p" "pkg_private ?p'"
    by code_simp+
  have "db_run sample_store ?s" by (rule r_into_rtranclp) (rule db_step.SetPackagePrivate)
  then have "pkg_owner ?p' = pkg_owner ?p"
    using ownership_immutable [of sample_store ?s ?p ?p'] wf_sample 1 hd_in_set by blast
  with 1 show ?thesis by (meson hd_in_set)
qed

text \<open>The activity log only grows: no statement changes or removes a row of it.\<close>

definition log_extends :: "tables \<Rightarrow> tables \<Rightarrow> bool" where
  "log_extends t0 t \<longleftrightarrow> (\<exists>new. activities t = activities t0 @ new)"

interpretation log: full_table_inv "log_extends t0" for t0
  by unfold_locales (auto simp: log_extends_def insert_ignore_def)

text \<open>C24. Replays are rejected for good: once an activity id has been recorded, then whatever the database
  does afterwards, recording the same id again reports that it is not new, adds no row, and the
  recorded activity is still the first one.\<close>

lemma replay_rejected:
  assumes "InsertActivityIfNew i ty a obj s = (Inr b, s1)" and "db_run s1 s2"
    and "InsertActivityIfNew i ty' a' obj' s2 = (Inr b', s3)"
  shows "\<not> b' \<and> activities (tbl s3) = activities (tbl s2) \<and>
    find_where (\<lambda>r. av_activity_id r = i) (activities (tbl s3)) = find_where (\<lambda>r. av_activity_id r = i) (activities (tbl s1))"
proof -
  have i: "\<exists>r \<in> set (activities (tbl s1)). av_activity_id r = i"
    using InsertActivityIfNew_ok(1,2) [OF assms(1)] by auto
  have "log_extends (tbl s1) (tbl s2)"
    by (rule log.run_inv [OF assms(2)]) (simp add: log_extends_def)
  then obtain new where n: "activities (tbl s2) = activities (tbl s1) @ new" by (auto simp: log_extends_def)
  from i obtain r where f: "find_where (\<lambda>r. av_activity_id r = i) (activities (tbl s1)) = Some r"
    by (cases "find_where (\<lambda>r. av_activity_id r = i) (activities (tbl s1))") (auto simp: find_where_None)
  have "\<not> b'" using InsertActivityIfNew_ok(1) [OF assms(3)] i n by auto
  with InsertActivityIfNew_ok(2) [OF assms(3)] f n show ?thesis by (simp add: find_where_append)
qed

theorem replay_rejected_witness:
  "\<exists>s1 s3. InsertActivityIfNew ''id1'' ''Create'' ''https://b.example/ap'' ''{}'' (init_store 0) = (Inr True, s1) \<and>
     InsertActivityIfNew ''id1'' ''Delete'' ''https://x.example/ap'' ''{}'' s1 = (Inr False, s3) \<and>
     activities (tbl s3) = activities (tbl s1)"
proof -
  have run: "\<exists>b u. InsertActivityIfNew i ty a obj s = (Inr b, u) \<and> faults u = []" if "faults s = []" for i ty a obj and s :: store
    using that by (simp add: InsertActivityIfNew_def bindE_def exec_rows_nofault tick_def ret_def)
  obtain b s1 where 1: "InsertActivityIfNew ''id1'' ''Create'' ''https://b.example/ap'' ''{}'' (init_store 0) = (Inr b, s1)" "faults s1 = []"
    using run [of "init_store 0" "''id1''" "''Create''" "''https://b.example/ap''" "''{}''"] by (auto simp: init_store_def)
  have b using InsertActivityIfNew_ok(1) [OF 1(1)] by (simp add: init_store_def empty_tables_def)
  obtain b' s3 where 3: "InsertActivityIfNew ''id1'' ''Delete'' ''https://x.example/ap'' ''{}'' s1 = (Inr b', s3)"
    using run [OF 1(2)] by blast
  from replay_rejected [OF 1(1) rtranclp.rtrancl_refl 3] 1 3 \<open>b\<close> show ?thesis by auto
qed

end
