(* ===== verification/Validate.thy ===== *)
theory Validate
  imports Prog "HOL-Library.Word"
begin

text \<open>
  \<open>internal/validate/validate.go\<close>: the syntax checks on digests, repository names, tags, media
  types and activity ids, the private-address filter of outbound connections, and the clean-up
  of free text. The regular expressions are written as recognisers; \<open>url.Parse\<close>, \<open>net.ParseIP\<close>,
  the DNS resolver and the dialer are parameters. An address is a word of its width.
\<close>

unbundle bit_operations_syntax

section \<open>Digests, repository names, tags, media types\<close>

definition is_hex_lower :: "char \<Rightarrow> bool" where
  "is_hex_lower c \<longleftrightarrow> is_digit c \<or> (let n = of_char c :: nat in 97 \<le> n \<and> n \<le> 102)"

definition Digest :: "string \<Rightarrow> bool" where
  "Digest d \<longleftrightarrow> (case CutPrefix d ''sha256:'' of
      None \<Rightarrow> False
    | Some h \<Rightarrow> length h = 64 \<and> list_all is_hex_lower h)"

definition is_lownum :: "char \<Rightarrow> bool" where
  "is_lownum c \<longleftrightarrow> is_lower c \<or> is_digit c"

definition is_repo_sep :: "char \<Rightarrow> bool" where
  "is_repo_sep c \<longleftrightarrow> c \<in> {CHR ''.'', CHR ''_'', CHR ''-''}"

text \<open>\<open>repoComponentRe\<close>: words of lower-case letters and digits joined by single separators.\<close>

fun repo_word :: "string \<Rightarrow> bool" and repo_word_more :: "string \<Rightarrow> bool" where
  "repo_word [] = False"
| "repo_word (c # cs) = (is_lownum c \<and> repo_word_more cs)"
| "repo_word_more [] = True"
| "repo_word_more (c # cs) = (is_lownum c \<and> repo_word_more cs \<or> is_repo_sep c \<and> repo_word cs)"

definition RepoName :: "string \<Rightarrow> bool" where
  "RepoName name \<longleftrightarrow>
     name \<noteq> [] \<and> length name \<le> 256 \<and>
     (let parts = split_on (CHR ''/'') name in
      length parts \<le> 8 \<and> list_all (\<lambda>p. p \<noteq> [] \<and> repo_word p) parts)"

definition is_mime_char :: "char \<Rightarrow> bool" where
  "is_mime_char c \<longleftrightarrow> is_alnum c \<or> c \<in> set ''!#$&-^_.+''"

definition mime_part :: "string \<Rightarrow> bool" where
  "mime_part p = (case p of [] \<Rightarrow> False
     | c # cs \<Rightarrow> is_alnum c \<and> length cs \<le> 126 \<and> list_all is_mime_char cs)"

text \<open>\<open>mediaTypeRe\<close>: neither part can contain a slash, so the slash is the only one.\<close>

definition MediaType :: "string \<Rightarrow> bool" where
  "MediaType s \<longleftrightarrow> length s \<le> 255 \<and>
     (case split_on (CHR ''/'') s of [a, b] \<Rightarrow> mime_part a \<and> mime_part b | _ \<Rightarrow> False)"

definition ActivityID :: "string \<Rightarrow> bool" where
  "ActivityID i \<longleftrightarrow> length i \<le> 2048"

definition ManifestContent :: "string \<Rightarrow> int \<Rightarrow> bool" where
  "ManifestContent content maxSize \<longleftrightarrow> int (length content) \<le> maxSize \<and> content \<noteq> []"

definition is_tag_char :: "char \<Rightarrow> bool" where
  "is_tag_char c \<longleftrightarrow> is_alnum c \<or> c \<in> {CHR ''.'', CHR ''_'', CHR ''-''}"

definition Tag_ok :: "string \<Rightarrow> bool" where
  "Tag_ok tag = (case tag of [] \<Rightarrow> True
     | c # cs \<Rightarrow> (is_alnum c \<or> c = CHR ''_'') \<and> length cs \<le> 127 \<and> list_all is_tag_char cs)"

section \<open>Addresses\<close>

datatype ip = IPv4 "32 word" | IPv6 "128 word"

text \<open>\<open>net.IP.To4\<close>: an IPv4-mapped IPv6 address is the IPv4 address.\<close>

definition To4 :: "ip \<Rightarrow> 32 word option" where
  "To4 a = (case a of IPv4 w \<Rightarrow> Some w
     | IPv6 w \<Rightarrow> if drop_bit 32 w = 0xFFFF then Some (ucast w) else None)"

datatype cidr = Net4 "32 word" nat | Net6 "128 word" nat

text \<open>\<open>net.IPNet.Contains\<close>: the first \<open>n\<close> bits agree, after the address is reduced to four bytes where possible.\<close>

definition cidr_contains :: "cidr \<Rightarrow> ip \<Rightarrow> bool" where
  "cidr_contains c a = (case c of
      Net4 base n \<Rightarrow> (case To4 a of Some w \<Rightarrow> drop_bit (32 - n) w = drop_bit (32 - n) base | None \<Rightarrow> False)
    | Net6 base n \<Rightarrow> (case To4 a of Some w \<Rightarrow> False
        | None \<Rightarrow> (case a of IPv6 w \<Rightarrow> drop_bit (128 - n) w = drop_bit (128 - n) base | IPv4 w \<Rightarrow> False)))"

definition privateRanges :: "cidr list" where
  "privateRanges =
     [Net4 0x0A000000 8, Net4 0xAC100000 12, Net4 0xC0A80000 16, Net4 0x7F000000 8,
      Net4 0x64400000 10, Net4 0xA9FE0000 16,
      Net6 1 128,
      Net6 0xFC000000000000000000000000000000 7,
      Net6 0xFE800000000000000000000000000000 10,
      Net6 0xFF000000000000000000000000000000 8,
      Net6 0x20020000000000000000000000000000 16,
      Net6 0x0064FF9B000000000000000000000000 96]"

definition checkPrivateIP :: "ip \<Rightarrow> bool" where
  "checkPrivateIP a \<longleftrightarrow> list_all (\<lambda>c. \<not> cidr_contains c a) privateRanges"

definition IsUnspecified :: "ip \<Rightarrow> bool" where
  "IsUnspecified a = (case To4 a of Some w \<Rightarrow> w = 0
     | None \<Rightarrow> (case a of IPv6 w \<Rightarrow> w = 0 | IPv4 w \<Rightarrow> False))"

text \<open>
  A parsed URL: scheme, host with port, host without port, and the rest that printing the URL
  needs (user information, path, query, fragment), left opaque.
\<close>

record URL =
  u_scheme :: string
  u_host :: string
  u_hostname :: string
  u_rest :: string

definition PeerEndpoint ::
  "(string \<Rightarrow> URL option) \<Rightarrow> (string \<Rightarrow> ip option) \<Rightarrow> bool \<Rightarrow> string \<Rightarrow> bool" where
  "PeerEndpoint url_Parse ParseIP allowPrivate endpoint = (case url_Parse endpoint of
      None \<Rightarrow> False
    | Some u \<Rightarrow>
        (u_scheme u = ''http'' \<or> u_scheme u = ''https'') \<and> u_host u \<noteq> '''' \<and>
        (allowPrivate \<or>
          u_hostname u \<notin> {''localhost'', ''127.0.0.1'', ''::1'', ''0.0.0.0''} \<and>
          (case ParseIP (u_hostname u) of None \<Rightarrow> True | Some a \<Rightarrow> checkPrivateIP a)))"

text \<open>
  The connection is a parameter too: \<open>dial a\<close> says whether the address answers. The result is
  the address connected to; a failed split of host and port is \<open>None\<close> of \<open>SplitHostPort\<close>.
\<close>

definition SafeDialContext ::
  "(string \<Rightarrow> (string \<times> string) option) \<Rightarrow> (string \<Rightarrow> ip list option) \<Rightarrow> (ip \<Rightarrow> string \<Rightarrow> bool) \<Rightarrow>
   bool \<Rightarrow> string \<Rightarrow> err + ip" where
  "SafeDialContext SplitHostPort LookupIPAddr dial allowPrivate addr = (case SplitHostPort addr of
      None \<Rightarrow> Inl (Errorf ''invalid address'')
    | Some (host, port) \<Rightarrow> (case LookupIPAddr host of
        None \<Rightarrow> Inl (Errorf ''DNS lookup failed'')
      | Some ips \<Rightarrow>
          if \<not> allowPrivate \<and> \<not> list_all (\<lambda>a. \<not> IsUnspecified a \<and> checkPrivateIP a) ips
          then Inl (Errorf ''blocked address'')
          else (case List.find (\<lambda>a. dial a port) ips of
              None \<Rightarrow> Inl (Errorf ''failed to connect'')
            | Some a \<Rightarrow> Inr a)))"

section \<open>Free text\<close>

text \<open>Text as its code points; \<open>utf8_len\<close> is the number of bytes \<open>WriteRune\<close> appends.\<close>

definition utf8_len :: "nat \<Rightarrow> nat" where
  "utf8_len r = (if r < 0x80 then 1 else if r < 0x800 then 2 else if r < 0x10000 then 3 else 4)"

definition keep_rune :: "nat \<Rightarrow> bool" where
  "keep_rune r \<longleftrightarrow> r = 9 \<or> r = 10 \<or> r = 13 \<or> \<not> (r < 0x20 \<or> r = 0x7F)"

fun sanitize_loop :: "nat \<Rightarrow> int \<Rightarrow> nat list \<Rightarrow> nat list" where
  "sanitize_loop len maxLen [] = []"
| "sanitize_loop len maxLen (r # rs) =
     (if maxLen \<le> int len then []
      else if keep_rune r then r # sanitize_loop (len + utf8_len r) maxLen rs
      else sanitize_loop len maxLen rs)"

definition SanitizeText :: "nat list \<Rightarrow> int \<Rightarrow> nat list" where
  "SanitizeText s maxLen = sanitize_loop 0 maxLen s"

definition utf8_bytes :: "nat list \<Rightarrow> nat" where
  "utf8_bytes s = sum_list (map utf8_len s)"

section \<open>Lemmas\<close>

lemma repo_word_chars:
  "repo_word s \<Longrightarrow> s \<noteq> [] \<and> is_lownum (hd s) \<and> is_lownum (last s) \<and> (\<forall>c \<in> set s. is_lownum c \<or> is_repo_sep c)"
  "repo_word_more s \<Longrightarrow> s \<noteq> [] \<Longrightarrow> is_lownum (last s) \<and> (\<forall>c \<in> set s. is_lownum c \<or> is_repo_sep c)"
  by (induction s rule: repo_word_repo_word_more.induct) (auto split: if_splits)

lemma repo_word_not_dots: "repo_word s \<Longrightarrow> s \<noteq> ''.'' \<and> s \<noteq> ''..''"
  by (auto simp: is_lownum_def is_lower_def is_digit_def)

lemma drop_bit_eq_iff:
  fixes w :: "'a::len word"
  assumes "k * 2 ^ n + 2 ^ n \<le> 2 ^ LENGTH('a)"
  shows "drop_bit n w = of_nat k \<longleftrightarrow> k * 2 ^ n \<le> unat w \<and> unat w < (k + 1) * 2 ^ n"
proof -
  have "(k + 1) * 1 \<le> (k + 1) * 2 ^ n" by (intro mult_le_mono) simp_all
  then have "k < 2 ^ LENGTH('a)" using assms by simp
  then have "unat (of_nat k :: 'a word) = k" by (simp add: unat_of_nat)
  then have "drop_bit n w = of_nat k \<longleftrightarrow> unat w div 2 ^ n = k"
    by (metis unat_drop_bit_eq word_unat_eq_iff drop_bit_eq_div)
  also have "\<dots> \<longleftrightarrow> k * 2 ^ n \<le> unat w \<and> unat w < (k + 1) * 2 ^ n"
  proof
    assume k: "unat w div 2 ^ n = k"
    have "2 ^ n * (unat w div 2 ^ n) \<le> unat w" "unat w < 2 ^ n * (unat w div 2 ^ n) + 2 ^ n"
      using dividend_less_times_div [of "2 ^ n" "unat w"] by (simp_all add: add.commute)
    with k show "k * 2 ^ n \<le> unat w \<and> unat w < (k + 1) * 2 ^ n" by (simp add: algebra_simps)
  next
    assume "k * 2 ^ n \<le> unat w \<and> unat w < (k + 1) * 2 ^ n"
    then show "unat w div 2 ^ n = k" by (intro div_nat_eqI) (simp_all add: algebra_simps)
  qed
  finally show ?thesis .
qed

text \<open>The six IPv4 ranges as intervals.\<close>

definition in_range :: "nat \<Rightarrow> nat \<Rightarrow> nat \<Rightarrow> bool" where
  "in_range lo hi x \<longleftrightarrow> lo \<le> x \<and> x < hi + 1"

lemma checkPrivateIP_v4:
  "checkPrivateIP (IPv4 w) \<longleftrightarrow>
     \<not> in_range 0x0A000000 0x0AFFFFFF (unat w) \<and> \<not> in_range 0xAC100000 0xAC1FFFFF (unat w) \<and>
     \<not> in_range 0xC0A80000 0xC0A8FFFF (unat w) \<and> \<not> in_range 0x7F000000 0x7FFFFFFF (unat w) \<and>
     \<not> in_range 0x64400000 0x647FFFFF (unat w) \<and> \<not> in_range 0xA9FE0000 0xA9FEFFFF (unat w)"
  using drop_bit_eq_iff [of "0x0A" 24 w] drop_bit_eq_iff [of "0xAC1" 20 w]
    drop_bit_eq_iff [of "0xC0A8" 16 w] drop_bit_eq_iff [of "0x7F" 24 w]
    drop_bit_eq_iff [of "0x191" 22 w] drop_bit_eq_iff [of "0xA9FE" 16 w]
  by (simp add: checkPrivateIP_def privateRanges_def cidr_contains_def To4_def in_range_def)

lemma checkPrivateIP_mapped: "To4 a = Some w \<Longrightarrow> checkPrivateIP a = checkPrivateIP (IPv4 w)"
  by (simp add: checkPrivateIP_def privateRanges_def cidr_contains_def To4_def split: ip.splits if_splits)


lemma sanitize_loop_bounds:
  "int (utf8_bytes (sanitize_loop len maxLen s)) + int len \<le> max (int len) (maxLen + 3)"
proof (induction len maxLen s rule: sanitize_loop.induct)
  case (1 len maxLen)
  show ?case by (simp add: utf8_bytes_def)
next
  case (2 len maxLen r rs)
  have "utf8_len r \<le> 4" by (simp add: utf8_len_def)
  with 2 show ?case by (auto simp: utf8_bytes_def split: if_splits)
qed

lemma sanitize_loop_keeps: "r \<in> set (sanitize_loop len maxLen s) \<Longrightarrow> keep_rune r \<and> r \<in> set s"
  by (induction len maxLen s rule: sanitize_loop.induct) (auto split: if_splits)

lemma sanitize_loop_all:
  "int len + int (utf8_bytes s) \<le> maxLen \<Longrightarrow> sanitize_loop len maxLen s = filter keep_rune s"
proof (induction len maxLen s rule: sanitize_loop.induct)
  case (2 len maxLen r rs)
  have "0 < utf8_len r" by (simp add: utf8_len_def)
  with 2 show ?case by (auto simp: utf8_bytes_def)
qed simp

section \<open>Properties\<close>

text \<open>An accepted repository name is a safe relative path: between one and eight components,
  none of them empty, \<open>.\<close> or \<open>..\<close>, each starting and ending with a lower-case letter or a
  digit and made of those and the three separators; the components joined by slashes are the name.\<close>

lemma repo_name_safe:
  assumes "RepoName name"
  shows "let parts = split_on (CHR ''/'') name in
     join_with ''/'' parts = name \<and> 1 \<le> length parts \<and> length parts \<le> 8 \<and>
     (\<forall>p \<in> set parts. p \<noteq> '''' \<and> p \<noteq> ''.'' \<and> p \<noteq> ''..'' \<and> is_lownum (hd p) \<and> is_lownum (last p) \<and>
        (\<forall>c \<in> set p. is_lownum c \<or> is_repo_sep c))"
  using assms repo_word_chars(1) repo_word_not_dots
  by (auto simp: RepoName_def Let_def list_all_iff join_split_on Suc_le_eq)

theorem repo_name_safe_witness: "RepoName ''example.com/my-app/v1.2'' \<and>
   ''..'' \<notin> set (split_on (CHR ''/'') ''example.com/my-app/v1.2'')"
proof -
  have "RepoName ''example.com/my-app/v1.2''" by code_simp
  with repo_name_safe [OF this] show ?thesis by (auto simp: Let_def)
qed



text \<open>C27. With the filter on, \<open>SafeDialContext\<close> only ever connects to an address the resolver
  returned that is neither unspecified nor private, and one private answer blocks the whole host.\<close>

lemma safe_dial:
  assumes "SafeDialContext split lookup dial False addr = Inr a"
  shows "\<exists>host port ips. split addr = Some (host, port) \<and> lookup host = Some ips \<and> a \<in> set ips \<and>
     dial a port \<and> (\<forall>b \<in> set ips. \<not> IsUnspecified b \<and> checkPrivateIP b)"
  using assms
  by (auto simp: SafeDialContext_def list_all_iff find_Some_iff split: option.splits prod.splits if_splits)

theorem safe_dial_witness:
  "\<exists>a. SafeDialContext (\<lambda>_. Some (''h'', ''443'')) (\<lambda>_. Some [IPv4 0x08080808]) (\<lambda>_ _. True) False ''h:443'' = Inr a \<and>
     checkPrivateIP a"
proof -
  have run: "SafeDialContext (\<lambda>_. Some (''h'', ''443'')) (\<lambda>_. Some [IPv4 0x08080808]) (\<lambda>_ _. True) False ''h:443'' =
      Inr (IPv4 0x08080808)"
    by (simp add: SafeDialContext_def IsUnspecified_def To4_def checkPrivateIP_v4 in_range_def)
  from safe_dial [OF run] show ?thesis using run by auto
qed

text \<open>Sanitised text holds no control character other than tab, newline and return, every
  rune of it comes from the input, a text within the limit only loses its control characters, and
  the length exceeds the limit by at most three bytes.\<close>

lemma sanitize_text:
  assumes "0 \<le> maxLen"
  shows "(\<forall>r \<in> set (SanitizeText s maxLen). keep_rune r \<and> r \<in> set s) \<and>
     int (utf8_bytes (SanitizeText s maxLen)) \<le> maxLen + 3 \<and>
     (int (utf8_bytes s) \<le> maxLen \<longrightarrow> SanitizeText s maxLen = filter keep_rune s)"
  using assms sanitize_loop_bounds [of 0 maxLen s] sanitize_loop_all [of 0 s maxLen]
  by (auto simp: SanitizeText_def dest: sanitize_loop_keeps)

theorem sanitize_text_witness: "int (utf8_bytes (SanitizeText [97, 0xE9, 7] 2)) \<le> 5"
  using sanitize_text [of 2 "[97, 0xE9, 7]"] by simp

lemma sanitize_exceeds_limit: "utf8_bytes (SanitizeText [0xE9] 1) = 2"
  by code_simp

end
