(* ===== verification/Util.thy ===== *)
theory Util
  imports Path_Match Prog
begin

text \<open>
  \<open>internal/util\<close> and \<open>internal/workers/workers.go\<close>: repository globs relative to a namespace,
  the restart loop of background workers with its exponential backoff, and the ordered start
  and shutdown of the workers. Durations are in milliseconds here.
\<close>

section \<open>Repository globs\<close>

definition matchGlob :: "string \<Rightarrow> string \<Rightarrow> bool" where
  "matchGlob glob s \<longleftrightarrow> path_match glob s = Some True"

definition MatchRepoGlob :: "string \<Rightarrow> string \<Rightarrow> string \<Rightarrow> bool" where
  "MatchRepoGlob glob repo namespace =
     (if matchGlob glob repo then True
      else if namespace \<noteq> '''' then
        (case CutPrefix repo (namespace @ ''/'') of
           Some rel \<Rightarrow> matchGlob glob rel
         | None \<Rightarrow> False)
      else False)"

section \<open>Restart with backoff\<close>

definition initialBackoff :: int where "initialBackoff = 100"
definition maxBackoff :: int where "maxBackoff = 30000"

text \<open>
  One execution of the worker function either panics or returns; the environment is the list
  of the outcomes of successive executions (\<open>True\<close> for a panic). \<open>Must\<close> returns the sleeps it
  made and whether it returned; a worker that panics more often than the list is long has not
  returned yet.
\<close>

definition mustExec :: "bool \<Rightarrow> int \<Rightarrow> bool \<times> int" where
  "mustExec panics backoff = (if panics then (True, backoff) else (False, initialBackoff))"

fun must_loop :: "int \<Rightarrow> bool list \<Rightarrow> int list \<times> bool" where
  "must_loop backoff [] = ([], False)"
| "must_loop backoff (p # ps) =
     (case mustExec p backoff of (panicked, backoff') \<Rightarrow>
        if \<not> panicked then ([], True)
        else (let next_b = (let d = backoff' * 2 in if d > maxBackoff then maxBackoff else d);
                  (sleeps, returned) = must_loop next_b ps
              in (backoff' # sleeps, returned)))"

definition Must :: "bool list \<Rightarrow> int list \<times> bool" where
  "Must panics = must_loop initialBackoff panics"

section \<open>Workers\<close>

text \<open>The lifecycle calls a worker can receive, by the worker's name, in the order they happen.\<close>

datatype lifecycle = Started string | Stopped string | Waited string

record Workers =
  Services :: "string list"
  Waiters :: "string list"
  Drainables :: "string list"
  Cleanup :: "string list"

definition workers_Start :: "Workers \<Rightarrow> lifecycle list" where
  "workers_Start w = map Started (Services w) @ map Started (Drainables w)"

definition workers_stop :: "Workers \<Rightarrow> lifecycle list" where
  "workers_stop w = map Stopped (Services w) @ map Waited (Waiters w) @
     map Stopped (Drainables w) @ map Stopped (Cleanup w)"

section \<open>Lemmas\<close>

lemma matchGlob_prefix:
  "glob_literal p \<Longrightarrow> matchGlob (p @ ''*'') s \<longleftrightarrow> (\<exists>t. s = p @ t \<and> CHR ''/'' \<notin> set t)"
  by (simp add: matchGlob_def path_match_prefix)

lemma must_loop_sleeps:
  "0 < b \<Longrightarrow> b \<le> maxBackoff \<Longrightarrow> i < length (fst (must_loop b ps)) \<Longrightarrow>
   fst (must_loop b ps) ! i = min (b * 2 ^ i) maxBackoff"
proof (induction ps arbitrary: b i)
  case Nil
  then show ?case by simp
next
  case (Cons p ps)
  then have p: "p" by (auto simp: mustExec_def split: if_splits)
  define nb where "nb = (if b * 2 > maxBackoff then maxBackoff else b * 2)"
  have run: "fst (must_loop b (p # ps)) = b # fst (must_loop nb ps)"
    using p by (simp add: mustExec_def Let_def nb_def case_prod_beta)
  show ?case
  proof (cases i)
    case 0
    with run Cons.prems show ?thesis by (simp add: min_def)
  next
    case (Suc j)
    have nb: "0 < nb" "nb \<le> maxBackoff" using Cons.prems by (auto simp: nb_def maxBackoff_def)
    have "j < length (fst (must_loop nb ps))" using Cons.prems(3) run Suc by simp
    with Cons.IH [OF nb] have "fst (must_loop nb ps) ! j = min (nb * 2 ^ j) maxBackoff" by blast
    also have "\<dots> = min (b * 2 ^ i) maxBackoff"
    proof (cases "b * 2 > maxBackoff")
      case True
      have "(1::int) \<le> 2 ^ j" by simp
      then have "maxBackoff * 1 \<le> maxBackoff * 2 ^ j" by (intro mult_left_mono) (simp_all add: maxBackoff_def)
      moreover have "b * 2 * 1 \<le> b * 2 * 2 ^ j" using Cons.prems(1) by (intro mult_left_mono) simp_all
      ultimately show ?thesis using True Suc by (simp add: nb_def min_def algebra_simps)
    next
      case False
      with Suc show ?thesis by (simp add: nb_def algebra_simps)
    qed
    finally show ?thesis using run Suc by simp
  qed
qed

lemma must_loop_returns: "snd (must_loop b ps) \<longleftrightarrow> \<not> list_all (\<lambda>p. p) ps"
  by (induction ps arbitrary: b) (auto simp: mustExec_def Let_def case_prod_beta)

lemma must_loop_count: "length (fst (must_loop b ps)) = length (takeWhile (\<lambda>p. p) ps)"
  by (induction ps arbitrary: b) (auto simp: mustExec_def Let_def case_prod_beta)

section \<open>Properties\<close>

text \<open>The restart loop sleeps once per panic, the i-th time for the initial backoff doubled i
  times and capped at the maximum, and it returns as soon as one execution returns.\<close>

lemma must_backoff:
  "length (fst (Must panics)) = length (takeWhile (\<lambda>p. p) panics) \<and>
   (\<forall>i < length (fst (Must panics)). fst (Must panics) ! i = min (100 * 2 ^ i) 30000) \<and>
   (snd (Must panics) \<longleftrightarrow> False \<in> set panics)"
  using must_loop_sleeps [of initialBackoff] must_loop_count must_loop_returns
  by (auto simp: Must_def initialBackoff_def maxBackoff_def list_all_iff)

theorem must_backoff_witness: "fst (Must (replicate 11 True)) ! 10 = 30000"
  using must_backoff [of "replicate 11 True"]
  by (simp add: takeWhile_replicate)

text \<open>A repository glob of the form \<open>prefix*\<close> excludes a repository of the local namespace
  exactly when the prefix fits the full name or the name inside the namespace and the star does not
  have to cross a slash.\<close>

lemma repo_glob_prefix:
  assumes "glob_literal p" and "ns \<noteq> ''''"
  shows "MatchRepoGlob (p @ ''*'') (ns @ ''/'' @ name) ns \<longleftrightarrow>
     (\<exists>t. (ns @ ''/'' @ name = p @ t \<or> name = p @ t) \<and> CHR ''/'' \<notin> set t)"
proof -
  have "MatchRepoGlob (p @ ''*'') (ns @ ''/'' @ name) ns \<longleftrightarrow>
      matchGlob (p @ ''*'') (ns @ ''/'' @ name) \<or> matchGlob (p @ ''*'') name"
    using assms(2) by (simp add: MatchRepoGlob_def CutPrefix_def HasPrefix_iff)
  with matchGlob_prefix [OF assms(1)] show ?thesis by auto
qed

theorem repo_glob_prefix_witness:
  "MatchRepoGlob ''internal-*'' ''example.com/internal-tool'' ''example.com''"
proof -
  have "glob_literal ''internal-''" by (simp add: glob_literal_def)
  from repo_glob_prefix [OF this, of "''example.com''" "''internal-tool''"] show ?thesis by simp
qed

end
