(* ===== verification/Simple_Queue.thy ===== *)
theory Simple_Queue
  imports Prog
begin

text \<open>
  \<open>internal/queue/simple.go\<close>: the FIFO queue between HTTP handlers and background workers. The
  lock makes every method atomic, so the concurrent behaviour is the interleaving of whole
  calls: \<open>queue_step\<close> is one call by any producer or consumer. A consumer parked in \<open>PopCtx\<close> is
  a waiting thread; it resumes when it is signalled, and either finds an item, or its context
  done, or waits again.

  \<open>fifo_queue\<close> is the interface the inbox worker relies on; the slice implementation is the
  interpretation.
\<close>

section \<open>The interface\<close>

locale fifo_queue =
  fixes empty :: 'q
    and push :: "'a \<Rightarrow> 'q \<Rightarrow> 'q"
    and pop :: "'q \<Rightarrow> ('a option) \<times> 'q"
    and contents :: "'q \<Rightarrow> 'a list"
  assumes contents_empty: "contents empty = []"
    and contents_push: "contents (push x q) = contents q @ [x]"
    and pop_empty: "contents q = [] \<Longrightarrow> pop q = (None, q)"
    and pop_front: "contents q = x # xs \<Longrightarrow> fst (pop q) = Some x \<and> contents (snd (pop q)) = xs"
begin

text \<open>Pop until empty, with the number of items as fuel.\<close>

fun pop_all :: "nat \<Rightarrow> 'q \<Rightarrow> 'a list \<times> 'q" where
  "pop_all 0 q = ([], q)"
| "pop_all (Suc n) q = (case pop q of
      (None, q') \<Rightarrow> ([], q')
    | (Some x, q') \<Rightarrow> (let (xs, q'') = pop_all n q' in (x # xs, q'')))"

lemma pop_all_contents:
  "length (contents q) \<le> n \<Longrightarrow> fst (pop_all n q) = contents q \<and> contents (snd (pop_all n q)) = []"
proof (induction n arbitrary: q)
  case 0
  then show ?case by simp
next
  case (Suc n)
  show ?case
  proof (cases "contents q")
    case Nil
    with pop_empty show ?thesis by simp
  next
    case (Cons x xs)
    with pop_front [OF Cons] obtain q' where q: "pop q = (Some x, q')" "contents q' = xs"
      by (cases "pop q") auto
    with Suc.IH [of q'] Suc.prems Cons show ?thesis by (simp add: case_prod_beta Let_def)
  qed
qed

lemma push_all_pop_all:
  "fst (pop_all (length xs) (fold push xs empty)) = xs"
proof -
  have "contents (fold push xs q) = contents q @ xs" for q
    by (induction xs arbitrary: q) (simp_all add: contents_push)
  with pop_all_contents [of "fold push xs empty" "length xs"] show ?thesis
    by (simp add: contents_empty)
qed

end

section \<open>The implementation\<close>

record 'a SimpleQueue =
  items :: "'a list"

definition NewSimpleQueue :: "'a SimpleQueue" where
  "NewSimpleQueue = \<lparr>items = []\<rparr>"

definition Push :: "'a \<Rightarrow> 'a SimpleQueue \<Rightarrow> 'a SimpleQueue" where
  "Push item q = q\<lparr>items := items q @ [item]\<rparr>"

definition TryPush :: "'a \<Rightarrow> int \<Rightarrow> 'a SimpleQueue \<Rightarrow> bool \<times> 'a SimpleQueue" where
  "TryPush item maxSize q =
     (if maxSize \<le> int (length (items q)) then (False, q)
      else (True, q\<lparr>items := items q @ [item]\<rparr>))"

definition Pop :: "'a SimpleQueue \<Rightarrow> 'a option \<times> 'a SimpleQueue" where
  "Pop q = (case items q of [] \<Rightarrow> (None, q) | x # xs \<Rightarrow> (Some x, q\<lparr>items := xs\<rparr>))"

text \<open>
  The critical sections of \<open>PopCtx\<close>: the attempt on entry (the fast path takes an item without
  looking at the context), and the attempt after each wake-up. \<open>Wait\<close> means the consumer goes
  back to sleep.
\<close>

datatype 'a popctx = Got 'a | Cancelled | Wait

definition PopCtx_enter :: "bool \<Rightarrow> 'a SimpleQueue \<Rightarrow> 'a popctx \<times> 'a SimpleQueue" where
  "PopCtx_enter done q = (case items q of
      x # xs \<Rightarrow> (Got x, q\<lparr>items := xs\<rparr>)
    | [] \<Rightarrow> (if done then Cancelled else Wait, q))"

definition PopCtx_wake :: "bool \<Rightarrow> 'a SimpleQueue \<Rightarrow> 'a popctx \<times> 'a SimpleQueue" where
  "PopCtx_wake done q = (case items q of
      [] \<Rightarrow> (if done then Cancelled else Wait, q)
    | x # xs \<Rightarrow> if done then (Cancelled, q) else (Got x, q\<lparr>items := xs\<rparr>))"

definition Len :: "'a SimpleQueue \<Rightarrow> nat" where
  "Len q = length (items q)"

definition Drain :: "'a SimpleQueue \<Rightarrow> 'a list \<times> 'a SimpleQueue" where
  "Drain q = (items q, q\<lparr>items := []\<rparr>)"

interpretation sq: fifo_queue NewSimpleQueue Push Pop items
  by unfold_locales (auto simp: NewSimpleQueue_def Push_def Pop_def)

section \<open>Interleavings\<close>

text \<open>
  A history records what was accepted and what was handed out, in order. Producers and
  consumers take their steps in any order.
\<close>

record 'a run =
  q :: "'a SimpleQueue"
  accepted :: "'a list"
  taken :: "'a list"

inductive queue_step :: "'a run \<Rightarrow> 'a run \<Rightarrow> bool" where
  push: "queue_step r (r\<lparr>q := Push x (q r), accepted := accepted r @ [x]\<rparr>)"
| try_push: "TryPush x n (q r) = (True, q') \<Longrightarrow> queue_step r (r\<lparr>q := q', accepted := accepted r @ [x]\<rparr>)"
| try_push_full: "TryPush x n (q r) = (False, q') \<Longrightarrow> queue_step r (r\<lparr>q := q'\<rparr>)"
| pop: "Pop (q r) = (Some x, q') \<Longrightarrow> queue_step r (r\<lparr>q := q', taken := taken r @ [x]\<rparr>)"
| pop_none: "Pop (q r) = (None, q') \<Longrightarrow> queue_step r (r\<lparr>q := q'\<rparr>)"
| enter: "PopCtx_enter d (q r) = (Got x, q') \<Longrightarrow> queue_step r (r\<lparr>q := q', taken := taken r @ [x]\<rparr>)"
| enter_none: "PopCtx_enter d (q r) = (a, q') \<Longrightarrow> (\<And>x. a \<noteq> Got x) \<Longrightarrow> queue_step r (r\<lparr>q := q'\<rparr>)"
| wake: "PopCtx_wake d (q r) = (Got x, q') \<Longrightarrow> queue_step r (r\<lparr>q := q', taken := taken r @ [x]\<rparr>)"
| wake_none: "PopCtx_wake d (q r) = (a, q') \<Longrightarrow> (\<And>x. a \<noteq> Got x) \<Longrightarrow> queue_step r (r\<lparr>q := q'\<rparr>)"
| drain: "Drain (q r) = (xs, q') \<Longrightarrow> queue_step r (r\<lparr>q := q', taken := taken r @ xs\<rparr>)"

definition fresh_run :: "'a run" where
  "fresh_run = \<lparr>q = NewSimpleQueue, accepted = [], taken = []\<rparr>"

lemmas queue_defs = Push_def TryPush_def Pop_def PopCtx_enter_def PopCtx_wake_def Drain_def

lemma queue_step_fifo:
  "queue_step r r' \<Longrightarrow> accepted r = taken r @ items (q r) \<Longrightarrow> accepted r' = taken r' @ items (q r')"
  by (induction rule: queue_step.induct) (auto simp: queue_defs split: list.splits if_splits)

lemma bounded_push: "0 \<le> n \<Longrightarrow> int (length (items s)) \<le> n \<Longrightarrow> int (length (items (snd (TryPush x n s)))) \<le> n"
  by (auto simp: TryPush_def)

section \<open>Properties\<close>

text \<open>The queue is first-in first-out under any interleaving of producers, consumers, wake-ups,
  cancellations and drains: what was handed out so far is a prefix of what was accepted, in the same
  order, and the rest is exactly what the queue still holds. Nothing is lost, duplicated or reordered.\<close>

lemma queue_fifo:
  assumes "queue_step\<^sup>*\<^sup>* fresh_run r"
  shows "accepted r = taken r @ items (q r)"
  using assms
  by (induction rule: rtranclp_induct) (simp_all add: fresh_run_def NewSimpleQueue_def queue_step_fifo)

theorem queue_fifo_witness:
  "\<exists>r. queue_step\<^sup>*\<^sup>* fresh_run r \<and> accepted r = [1::int, 2] \<and> taken r = [1] \<and> accepted r = taken r @ items (q r)"
proof -
  let ?r1 = "\<lparr>q = \<lparr>items = [1::int]\<rparr>, accepted = [1], taken = []\<rparr>"
  let ?r2 = "\<lparr>q = \<lparr>items = [1::int, 2]\<rparr>, accepted = [1, 2], taken = []\<rparr>"
  let ?r3 = "\<lparr>q = \<lparr>items = [2::int]\<rparr>, accepted = [1, 2], taken = [1]\<rparr>"
  have 1: "queue_step fresh_run ?r1"
    using queue_step.push [of fresh_run 1] by (simp add: fresh_run_def NewSimpleQueue_def Push_def)
  have 2: "queue_step ?r1 ?r2"
    using queue_step.try_push [of 2 256 ?r1 "\<lparr>items = [1, 2]\<rparr>"] by (simp add: TryPush_def)
  have 3: "queue_step ?r2 ?r3"
    using queue_step.pop [of ?r2 1 "\<lparr>items = [2]\<rparr>"] by (simp add: Pop_def)
  have "queue_step\<^sup>*\<^sup>* fresh_run ?r1" using 1 by (rule r_into_rtranclp)
  then have "queue_step\<^sup>*\<^sup>* fresh_run ?r2" using 2 by (rule rtranclp.rtrancl_into_rtrancl)
  then have "queue_step\<^sup>*\<^sup>* fresh_run ?r3" using 3 by (rule rtranclp.rtrancl_into_rtrancl)
  with queue_fifo [OF this] show ?thesis by (intro exI [of _ ?r3]) simp
qed

text \<open>The bounded push of the inbox worker never lets the queue exceed its capacity, and accepts
  exactly when there is room.\<close>

lemma try_push_bounded:
  "int (Len s) \<le> n \<Longrightarrow> int (Len (snd (TryPush x n s))) \<le> n \<and>
   (fst (TryPush x n s) \<longleftrightarrow> int (Len s) < n) \<and>
   items (snd (TryPush x n s)) = (if fst (TryPush x n s) then items s @ [x] else items s)"
  by (auto simp: TryPush_def Len_def)

theorem try_push_bounded_witness: "int (Len (snd (TryPush (3::int) 2 \<lparr>items = [1, 2]\<rparr>))) \<le> 2"
  using try_push_bounded [of "\<lparr>items = [1::int, 2]\<rparr>" 2 3] by (simp add: Len_def)

end
