(* ===== verification/Circuit.thy ===== *)
theory Circuit
  imports Prelude "HOL-Library.AList"
begin

text \<open>
  The circuit breakers of \<open>internal/upstream/circuit.go\<close> and
  \<open>internal/activitypub/delivery_queue.go\<close>. Both keep a failure count and an opening time per
  key; they differ in what a success does. The maps are association lists, times are seconds and
  the current time is an argument.

  \<open>breaker\<close> is what both promise (counting, opening at the threshold, expiry), \<open>strict_breaker\<close>
  adds that a success resets the count, which only the upstream breaker does.
\<close>

section \<open>The interface\<close>

locale breaker =
  fixes count :: "'c \<Rightarrow> string \<Rightarrow> int"
    and until :: "'c \<Rightarrow> string \<Rightarrow> int option"
    and fail_op :: "int \<Rightarrow> string \<Rightarrow> 'c \<Rightarrow> bool \<times> 'c"
    and open_op :: "int \<Rightarrow> string \<Rightarrow> 'c \<Rightarrow> bool \<times> 'c"
    and threshold :: nat
    and duration :: int
  assumes fail_count: "count (snd (fail_op now d c)) e = count c e + (if e = d then 1 else 0)"
    and fail_until: "until (snd (fail_op now d c)) e =
      (if e = d \<and> int threshold \<le> count c d + 1 \<and> until c d = None then Some (now + duration) else until c e)"
    and fail_reports: "fst (fail_op now d c) \<longleftrightarrow> int threshold \<le> count c d + 1 \<and> until c d = None"
    and open_expires: "until c d = Some t \<Longrightarrow> t < now \<Longrightarrow>
      fst (open_op now d c) = False \<and> until (snd (open_op now d c)) d = None \<and> count (snd (open_op now d c)) d = 0"
    and open_stays: "(\<And>t. until c d = Some t \<Longrightarrow> now \<le> t) \<Longrightarrow>
      fst (open_op now d c) = (until c d \<noteq> None) \<and> snd (open_op now d c) = c"
    and threshold_pos: "0 < threshold"
begin

text \<open>A burst of failures of one key at the given times.\<close>

fun failures_at :: "int list \<Rightarrow> string \<Rightarrow> 'c \<Rightarrow> 'c" where
  "failures_at [] d c = c"
| "failures_at (t # ts) d c = failures_at ts d (snd (fail_op t d c))"

lemma failures_append: "failures_at (ts @ us) d c = failures_at us d (failures_at ts d c)"
  by (induction ts arbitrary: c) simp_all

lemma failures_count: "count (failures_at ts d c) e = count c e + (if e = d then int (length ts) else 0)"
  by (induction ts arbitrary: c) (simp_all add: fail_count)

lemma failures_other: "e \<noteq> d \<Longrightarrow> until (failures_at ts d c) e = until c e"
  by (induction ts arbitrary: c) (simp_all add: fail_until)

lemma failures_below:
  "until c d = None \<Longrightarrow> count c d + int (length ts) < int threshold \<Longrightarrow> until (failures_at ts d c) d = None"
  by (induction ts arbitrary: c) (simp_all add: fail_until fail_count)

text \<open>The threshold-th failure opens the circuit, for the duration from that failure on.\<close>

lemma failures_open:
  assumes "until c d = None" and "count c d = 0" and "length ts + 1 = threshold"
  shows "until (failures_at (ts @ [now]) d c) d = Some (now + duration)"
    and "fst (fail_op now d (failures_at ts d c))"
proof -
  have "until (failures_at ts d c) d = None" "count (failures_at ts d c) d + 1 = int threshold"
    using failures_below [of c d ts] assms failures_count [of ts d c d] by (simp_all flip: assms(3))
  then show "until (failures_at (ts @ [now]) d c) d = Some (now + duration)"
    and "fst (fail_op now d (failures_at ts d c))"
    by (simp_all add: failures_append fail_until fail_reports)
qed

lemma open_while: "until c d = Some t \<Longrightarrow> now \<le> t \<Longrightarrow> fst (open_op now d c)"
  using open_stays [of c d now] by simp

end

locale strict_breaker = breaker +
  fixes success_op :: "string \<Rightarrow> 'a \<Rightarrow> 'a"
  assumes success_resets: "count (success_op d c) d = 0 \<and> until (success_op d c) d = None"
begin

text \<open>After a success fewer than the threshold further failures never open the circuit.\<close>

lemma consecutive_only:
  "length ts < threshold \<Longrightarrow> until (failures_at ts d (success_op d c)) d = None"
  using failures_below [of "success_op d c" d ts] success_resets [of d c] by simp

end

section \<open>Shared state\<close>

record circuit =
  failures :: "(string \<times> int) list"
  openUntil :: "(string \<times> int) list"

definition failure_count :: "circuit \<Rightarrow> string \<Rightarrow> int" where
  "failure_count cb k = (case map_of (failures cb) k of None \<Rightarrow> 0 | Some n \<Rightarrow> n)"

definition open_until :: "circuit \<Rightarrow> string \<Rightarrow> int option" where
  "open_until cb k = map_of (openUntil cb) k"

definition clear_key :: "string \<Rightarrow> circuit \<Rightarrow> circuit" where
  "clear_key k cb = cb\<lparr>openUntil := AList.delete k (openUntil cb), failures := AList.delete k (failures cb)\<rparr>"

definition is_open_at :: "int \<Rightarrow> string \<Rightarrow> circuit \<Rightarrow> bool \<times> circuit" where
  "is_open_at now k cb = (case map_of (openUntil cb) k of
      None \<Rightarrow> (False, cb)
    | Some t \<Rightarrow> if t < now then (False, clear_key k cb) else (True, cb))"

definition record_failure_at :: "nat \<Rightarrow> int \<Rightarrow> int \<Rightarrow> string \<Rightarrow> circuit \<Rightarrow> bool \<times> circuit" where
  "record_failure_at thr dur now k cb =
     (let n = failure_count cb k + 1; cb' = cb\<lparr>failures := AList.update k n (failures cb)\<rparr> in
      if int thr \<le> n \<and> map_of (openUntil cb') k = None
      then (True, cb'\<lparr>openUntil := AList.update k (now + dur) (openUntil cb')\<rparr>)
      else (False, cb'))"

section \<open>The upstream breaker\<close>

definition up_circuitThreshold :: nat where "up_circuitThreshold = 5"
definition up_circuitOpenDuration :: int where "up_circuitOpenDuration = 300"

definition newCircuitBreaker :: circuit where
  "newCircuitBreaker = \<lparr>failures = [], openUntil = []\<rparr>"

definition up_isOpen :: "int \<Rightarrow> string \<Rightarrow> circuit \<Rightarrow> bool \<times> circuit" where
  "up_isOpen now registry cb = is_open_at now registry cb"

definition up_recordSuccess :: "string \<Rightarrow> circuit \<Rightarrow> bool \<times> circuit" where
  "up_recordSuccess registry cb = (map_of (openUntil cb) registry \<noteq> None, clear_key registry cb)"

definition up_recordFailure :: "int \<Rightarrow> string \<Rightarrow> circuit \<Rightarrow> bool \<times> circuit" where
  "up_recordFailure now registry cb =
     record_failure_at up_circuitThreshold up_circuitOpenDuration now registry cb"

definition openCount :: "int \<Rightarrow> circuit \<Rightarrow> nat" where
  "openCount now cb = length (filter (\<lambda>(k, t). now < t) (openUntil cb))"

section \<open>The delivery breaker\<close>

definition circuitBreakerThreshold :: nat where "circuitBreakerThreshold = 5"
definition dl_circuitOpenDuration :: int where "dl_circuitOpenDuration = 3600"

definition dl_isOpen :: "int \<Rightarrow> string \<Rightarrow> circuit \<Rightarrow> bool \<times> circuit" where
  "dl_isOpen now domain cb = is_open_at now domain cb"

definition dl_recordSuccess :: "string \<Rightarrow> circuit \<Rightarrow> circuit" where
  "dl_recordSuccess domain cb =
     (if map_of (openUntil cb) domain = None then cb else clear_key domain cb)"

definition dl_recordFailure :: "int \<Rightarrow> string \<Rightarrow> circuit \<Rightarrow> bool \<times> circuit" where
  "dl_recordFailure now domain cb =
     record_failure_at circuitBreakerThreshold dl_circuitOpenDuration now domain cb"

definition forceOpen :: "int \<Rightarrow> string \<Rightarrow> int \<Rightarrow> circuit \<Rightarrow> circuit" where
  "forceOpen now domain duration cb = cb\<lparr>openUntil := AList.update domain (now + duration) (openUntil cb)\<rparr>"

section \<open>Both are breakers\<close>

lemma breaker_shared:
  "0 < thr \<Longrightarrow> breaker failure_count open_until (record_failure_at thr dur) is_open_at thr dur"
  by unfold_locales
    (auto simp: record_failure_at_def is_open_at_def clear_key_def failure_count_def open_until_def Let_def
      update_conv' delete_conv' restrict_map_def split: option.splits)

interpretation up: strict_breaker failure_count open_until up_recordFailure up_isOpen
    up_circuitThreshold up_circuitOpenDuration "\<lambda>k cb. snd (up_recordSuccess k cb)"
proof -
  have "up_recordFailure = record_failure_at up_circuitThreshold up_circuitOpenDuration" "up_isOpen = is_open_at"
    by (auto simp: fun_eq_iff up_recordFailure_def up_isOpen_def)
  moreover have "breaker failure_count open_until (record_failure_at up_circuitThreshold up_circuitOpenDuration)
      is_open_at up_circuitThreshold up_circuitOpenDuration"
    by (rule breaker_shared) (simp add: up_circuitThreshold_def)
  ultimately show "strict_breaker failure_count open_until up_recordFailure up_isOpen
    up_circuitThreshold up_circuitOpenDuration (\<lambda>k cb. snd (up_recordSuccess k cb))"
    by (auto simp: strict_breaker_def strict_breaker_axioms_def up_recordSuccess_def clear_key_def
        failure_count_def open_until_def delete_conv' restrict_map_def)
qed

interpretation dl: breaker failure_count open_until dl_recordFailure dl_isOpen
    circuitBreakerThreshold dl_circuitOpenDuration
proof -
  have "dl_recordFailure = record_failure_at circuitBreakerThreshold dl_circuitOpenDuration" "dl_isOpen = is_open_at"
    by (auto simp: fun_eq_iff dl_recordFailure_def dl_isOpen_def)
  then show "breaker failure_count open_until dl_recordFailure dl_isOpen
      circuitBreakerThreshold dl_circuitOpenDuration"
    using breaker_shared [of circuitBreakerThreshold dl_circuitOpenDuration]
    by (simp add: circuitBreakerThreshold_def)
qed

section \<open>Properties\<close>

definition up_failures :: "int list \<Rightarrow> string \<Rightarrow> circuit \<Rightarrow> circuit" where
  "up_failures ts k cb = fold (\<lambda>t cb. snd (up_recordFailure t k cb)) ts cb"

definition dl_failures :: "int list \<Rightarrow> string \<Rightarrow> circuit \<Rightarrow> circuit" where
  "dl_failures ts k cb = fold (\<lambda>t cb. snd (dl_recordFailure t k cb)) ts cb"

lemma up_failures_at: "up_failures ts k cb = up.failures_at ts k cb"
  unfolding up_failures_def by (induction ts arbitrary: cb) simp_all

lemma dl_failures_at: "dl_failures ts k cb = dl.failures_at ts k cb"
  unfolding dl_failures_def by (induction ts arbitrary: cb) simp_all

text \<open>Five failures of one key open either breaker, for its duration counted from the fifth:
  the circuit is open at every time up to then and closed at every later time; no other key is
  affected. Fewer than five leave it closed.\<close>

lemma circuit_opens:
  assumes "failure_count cb k = 0" and "open_until cb k = None" and "length ts = 4"
  shows "(\<forall>now. fst (up_isOpen now k (up_failures (ts @ [t]) k cb)) \<longleftrightarrow> now \<le> t + 300) \<and>
     (\<forall>now. fst (dl_isOpen now k (dl_failures (ts @ [t]) k cb)) \<longleftrightarrow> now \<le> t + 3600) \<and>
     (\<forall>now. \<not> fst (up_isOpen now k (up_failures ts k cb)) \<and> \<not> fst (dl_isOpen now k (dl_failures ts k cb))) \<and>
     (\<forall>e. e \<noteq> k \<longrightarrow> open_until (up_failures (ts @ [t]) k cb) e = open_until cb e \<and>
        open_until (dl_failures (ts @ [t]) k cb) e = open_until cb e)"
proof -
  have thr: "length ts + 1 = up_circuitThreshold" "length ts + 1 = circuitBreakerThreshold"
    using assms(3) by (simp_all add: up_circuitThreshold_def circuitBreakerThreshold_def)
  have u: "open_until (up_failures (ts @ [t]) k cb) k = Some (t + 300)"
    using up.failures_open(1) [OF assms(2,1) thr(1)] by (simp add: up_failures_at up_circuitOpenDuration_def)
  have d: "open_until (dl_failures (ts @ [t]) k cb) k = Some (t + 3600)"
    using dl.failures_open(1) [OF assms(2,1) thr(2)] by (simp add: dl_failures_at dl_circuitOpenDuration_def)
  have below: "open_until (up_failures ts k cb) k = None" "open_until (dl_failures ts k cb) k = None"
    using up.failures_below [OF assms(2), of ts] dl.failures_below [OF assms(2), of ts] assms(1,3)
    by (simp_all add: up_failures_at dl_failures_at up_circuitThreshold_def circuitBreakerThreshold_def)
  have opn: "fst (up_isOpen now k c) \<longleftrightarrow> (\<exists>t. open_until c k = Some t \<and> now \<le> t)"
    "fst (dl_isOpen now k c) \<longleftrightarrow> (\<exists>t. open_until c k = Some t \<and> now \<le> t)" for now c
    by (auto simp: up_isOpen_def dl_isOpen_def is_open_at_def open_until_def split: option.splits)
  show ?thesis
    using u d below up.failures_other dl.failures_other by (auto simp: opn up_failures_at dl_failures_at)
qed

theorem circuit_opens_witness:
  "fst (up_isOpen 305 ''docker.io'' (up_failures [1, 2, 3, 4, 5] ''docker.io'' newCircuitBreaker)) \<and>
   \<not> fst (up_isOpen 306 ''docker.io'' (up_failures [1, 2, 3, 4, 5] ''docker.io'' newCircuitBreaker))"
  using circuit_opens [of newCircuitBreaker "''docker.io''" "[1, 2, 3, 4]" 5]
  by (simp add: newCircuitBreaker_def failure_count_def open_until_def)

text \<open>For the upstream breaker only consecutive failures count: after a success, any number of
  failures below the threshold leaves the circuit closed.\<close>

lemma upstream_consecutive:
  assumes "length ts < 5"
  shows "\<not> fst (up_isOpen now k (up_failures ts k (snd (up_recordSuccess k cb))))"
  using up.consecutive_only [of ts k cb] assms
  by (auto simp: up_circuitThreshold_def up_failures_at up_isOpen_def is_open_at_def open_until_def split: option.splits)

theorem upstream_consecutive_witness:
  "\<not> fst (up_isOpen 9 ''r'' (up_failures [8] ''r'' (snd (up_recordSuccess ''r'' (up_failures [1, 2, 3, 4] ''r'' newCircuitBreaker)))))"
  by (rule upstream_consecutive) simp

text \<open>The delivery breaker counts failures that are not consecutive: four failures, a success and
  one more failure open it, because a success while the circuit is closed changes nothing.\<close>

lemma delivery_not_consecutive:
  "fst (dl_isOpen 6 ''peer.example'' (dl_failures [5] ''peer.example''
     (dl_recordSuccess ''peer.example'' (dl_failures [1, 2, 3, 4] ''peer.example'' newCircuitBreaker))))"
  by code_simp

end
