(* ===== verification/Delivery_Queue.thy ===== *)
theory Delivery_Queue
  imports Actors Activities Circuit
begin

text \<open>
  \<open>internal/activitypub/delivery_queue.go\<close>: the worker that takes due deliveries from the
  database, skips domains whose circuit is open, posts the others and records the outcome. Its
  state is the database with the breaker and the log of posts made. Posting
  (\<open>DeliverActivity\<close>: an HTTP request) and \<open>url.Parse\<close> are parameters: \<open>post inbox json\<close> is \<open>None\<close>
  for success and the error text otherwise, \<open>Hostname\<close> the host of a URL with a host part. The
  deliveries of one batch run concurrently in the code; the model takes them one after another,
  which is one of its schedules.
\<close>

record dq = store +
  breaker_st :: circuit
  posted :: "(string \<times> string) list"

definition deliveryBatchSize :: int where "deliveryBatchSize = 50"
definition deliveryCleanupAge :: int where "deliveryCleanupAge = 7 * 24 * 3600"

definition inboxDomain :: "(string \<Rightarrow> string option) \<Rightarrow> string \<Rightarrow> string" where
  "inboxDomain Hostname inboxURL = (case Hostname inboxURL of None \<Rightarrow> '''' | Some h \<Rightarrow> h)"

definition dq_isOpen :: "string \<Rightarrow> ('z dq_scheme, bool) prog" where
  "dq_isOpen domain = (\<lambda>s. case dl_isOpen (clock s) domain (breaker_st s) of
      (b, cb) \<Rightarrow> (Inr b, s\<lparr>breaker_st := cb\<rparr>))"

definition dq_recordFailure :: "string \<Rightarrow> ('z dq_scheme, bool) prog" where
  "dq_recordFailure domain = (\<lambda>s. case dl_recordFailure (clock s) domain (breaker_st s) of
      (b, cb) \<Rightarrow> (Inr b, s\<lparr>breaker_st := cb\<rparr>))"

definition dq_recordSuccess :: "string \<Rightarrow> ('z dq_scheme, unit) prog" where
  "dq_recordSuccess domain = modify (\<lambda>s. s\<lparr>breaker_st := dl_recordSuccess domain (breaker_st s)\<rparr>)"

definition post_activity ::
  "(string \<Rightarrow> string \<Rightarrow> string option) \<Rightarrow> Delivery \<Rightarrow> ('z dq_scheme, string option) prog" where
  "post_activity post d = bindE (modify (\<lambda>s. s\<lparr>posted := posted s @ [(dv_inbox d, dv_activity d)]\<rparr>))
     (\<lambda>_. ret (post (dv_inbox d) (dv_json d)))"

definition deliver ::
  "(string \<Rightarrow> string option) \<Rightarrow> (string \<Rightarrow> string \<Rightarrow> string option) \<Rightarrow> Delivery \<Rightarrow> ('z dq_scheme, unit) prog" where
  "deliver Hostname post d = (let domain = inboxDomain Hostname (dv_inbox d) in
     bindE (if domain \<noteq> '''' then dq_isOpen domain else ret False) (\<lambda>skip.
     if skip then ignore (MarkDeliveryFailed (dv_id d) (dv_attempts d) (dv_max d) ''circuit open'')
     else bindE (post_activity post d) (\<lambda>outcome. case outcome of
         Some e \<Rightarrow>
           bindE (if domain \<noteq> '''' then
                    bindE (dq_recordFailure domain) (\<lambda>opened.
                      if opened then ignore (SetPeerHealthByDomain domain False) else ret ())
                  else ret ()) (\<lambda>_.
           ignore (MarkDeliveryFailed (dv_id d) (dv_attempts d) (dv_max d) e))
       | None \<Rightarrow>
           bindE (if domain \<noteq> '''' then
                    bindE (dq_isOpen domain) (\<lambda>wasClosed.
                    bindE (dq_recordSuccess domain) (\<lambda>_.
                      if wasClosed then ignore (SetPeerHealthByDomain domain True) else ret ()))
                  else ret ()) (\<lambda>_.
           ignore (MarkDelivered (dv_id d))))))"

definition processBatch ::
  "(string \<Rightarrow> string option) \<Rightarrow> (string \<Rightarrow> string \<Rightarrow> string option) \<Rightarrow> ('z dq_scheme, unit) prog" where
  "processBatch Hostname post = handle (PendingDeliveries deliveryBatchSize) (\<lambda>r. case r of
      Inl e \<Rightarrow> ret ()
    | Inr deliveries \<Rightarrow> foreach deliveries (deliver Hostname post))"

definition drainRemaining ::
  "(string \<Rightarrow> string option) \<Rightarrow> (string \<Rightarrow> string \<Rightarrow> string option) \<Rightarrow> ('z dq_scheme, unit) prog" where
  "drainRemaining Hostname post = processBatch Hostname post"

definition dq_cleanup :: "('z dq_scheme, unit) prog" where
  "dq_cleanup = ignore (CleanupDeliveries deliveryCleanupAge)"

definition PreWarmCircuit :: "(string \<Rightarrow> string option) \<Rightarrow> ('z dq_scheme, unit) prog" where
  "PreWarmCircuit Hostname = handle (UnhealthyPeerDomains Hostname) (\<lambda>r. case r of
      Inl e \<Rightarrow> ret ()
    | Inr domains \<Rightarrow> foreach domains (\<lambda>d.
        modify (\<lambda>s. s\<lparr>breaker_st := forceOpen (clock s) d dl_circuitOpenDuration (breaker_st s)\<rparr>)))"

section \<open>Lemmas\<close>

text \<open>
  The retry invariant: a pending delivery has attempts left. It is kept by the statements of a
  delivery when the row is the one that was fetched.
\<close>

definition attempts_left :: "tables \<Rightarrow> bool" where
  "attempts_left t \<longleftrightarrow> (\<forall>r \<in> set (delivery_queue t). 0 \<le> dv_attempts r \<and> dv_attempts r \<le> dv_max r \<and>
     (dv_status r = ''pending'' \<longrightarrow> dv_attempts r < dv_max r))"

text \<open>What one delivery does to the queue table: nothing, or one row marked.\<close>

definition marked :: "Delivery \<Rightarrow> tables \<Rightarrow> tables \<Rightarrow> bool" where
  "marked d t t' \<longleftrightarrow> delivery_queue t' = delivery_queue t \<or>
     (\<exists>f. delivery_queue t' = update_where (\<lambda>r. dv_id r = dv_id d) f (delivery_queue t) \<and>
        (\<forall>r. dv_id (f r) = dv_id r \<and> dv_attempts (f r) = dv_attempts r + 1 \<and> dv_max (f r) = dv_max r \<and>
           (dv_status (f r) = ''pending'' \<longrightarrow> dv_attempts d + 1 < dv_max d)))"

lemma marked_attempts_left:
  assumes "marked d t t'" and "attempts_left t" and "d \<in> set (delivery_queue t)"
    and "distinct (map dv_id (delivery_queue t))" and "dv_attempts d < dv_max d"
  shows "attempts_left t'"
proof -
  have "r = d" if "r \<in> set (delivery_queue t)" "dv_id r = dv_id d" for r
    using map_eq_inj_on [OF assms(4) that(1) assms(3)] that(2) by simp
  with assms(1,2,5) show ?thesis
    unfolding marked_def attempts_left_def by (fastforce split: if_splits)
qed

lemma marked_others:
  "marked d t t' \<Longrightarrow> d' \<in> set (delivery_queue t) \<Longrightarrow> dv_id d' \<noteq> dv_id d \<Longrightarrow> d' \<in> set (delivery_queue t')"
  by (auto simp: marked_def intro: rev_image_eqI)

lemma marked_ids: "marked d t t' \<Longrightarrow> map dv_id (delivery_queue t') = map dv_id (delivery_queue t)"
  by (auto simp: marked_def map_update_where)

lemma dq_isOpen_run: "dq_isOpen d s = (r, s') \<Longrightarrow> tbl s' = tbl s \<and> clock s' = clock s \<and> faults s' = faults s \<and>
    posted s' = posted s \<and> (\<exists>b. r = Inr b \<and> b = fst (dl_isOpen (clock s) d (breaker_st s))
      \<and> breaker_st s' = snd (dl_isOpen (clock s) d (breaker_st s)))"
  by (auto simp: dq_isOpen_def split: prod.splits)

lemma dq_recordFailure_run: "dq_recordFailure d s = (r, s') \<Longrightarrow> tbl s' = tbl s \<and> (\<exists>b. r = Inr b)"
  by (auto simp: dq_recordFailure_def split: prod.splits)

lemma dq_recordSuccess_run: "dq_recordSuccess d s = (r, s') \<Longrightarrow> tbl s' = tbl s \<and> r = Inr ()"
  by (auto simp: dq_recordSuccess_def)

lemma post_activity_run: "post_activity p d s = (r, s') \<Longrightarrow>
    tbl s' = tbl s \<and> clock s' = clock s \<and> breaker_st s' = breaker_st s \<and> faults s' = faults s \<and>
    posted s' = posted s @ [(dv_inbox d, dv_activity d)] \<and> r = Inr (p (dv_inbox d) (dv_json d))"
  by (auto simp: post_activity_def bindE_def modify_def ret_def)

lemma health_run: "SetPeerHealthByDomain d b s = (r, s') \<Longrightarrow> delivery_queue (tbl s') = delivery_queue (tbl s)"
proof -
  have "keeps (\<lambda>u. delivery_queue (tbl u) = delivery_queue (tbl s)) (SetPeerHealthByDomain d b)"
    unfolding SetPeerHealthByDomain_def update_actors_def by (intro keeps_intros) simp
  then show "SetPeerHealthByDomain d b s = (r, s') \<Longrightarrow> delivery_queue (tbl s') = delivery_queue (tbl s)"
    unfolding keeps_def by (metis snd_conv)
qed

lemma failed_run:
  assumes "MarkDeliveryFailed (dv_id d) (dv_attempts d) (dv_max d) e s = (r, s')"
  shows "marked d (tbl s) (tbl s')"
proof (cases r)
  case (Inl x)
  with assms show ?thesis
    by (auto simp: MarkDeliveryFailed_def marked_def split: if_splits dest: exec_err)
next
  case (Inr x)
  with assms have "tbl s' = (tbl s)\<lparr>delivery_queue := update_where (\<lambda>r. dv_id r = dv_id d)
        (\<lambda>r. r\<lparr>dv_attempts := dv_attempts r + 1, dv_error := Some e,
              dv_status := (if dv_max d \<le> dv_attempts d + 1 then ''failed'' else ''pending''),
              dv_next := clock s + delivery_backoff (dv_attempts d)\<rparr>) (delivery_queue (tbl s))\<rparr>"
    by (auto simp: MarkDeliveryFailed_def split: if_splits dest: exec_ok)
  then show ?thesis
    unfolding marked_def by (intro disjI2 exI [of _ "\<lambda>r. r\<lparr>dv_attempts := dv_attempts r + 1, dv_error := Some e,
              dv_status := (if dv_max d \<le> dv_attempts d + 1 then ''failed'' else ''pending''),
              dv_next := clock s + delivery_backoff (dv_attempts d)\<rparr>"]) simp
qed

lemma delivered_run:
  assumes "MarkDelivered (dv_id d) s = (r, s')"
  shows "marked d (tbl s) (tbl s')"
proof (cases r)
  case (Inl x)
  with assms show ?thesis by (auto simp: MarkDelivered_def marked_def dest: exec_err)
next
  case (Inr x)
  with assms have "tbl s' = (tbl s)\<lparr>delivery_queue := update_where (\<lambda>r. dv_id r = dv_id d)
        (\<lambda>r. r\<lparr>dv_status := ''delivered'', dv_attempts := dv_attempts r + 1\<rparr>) (delivery_queue (tbl s))\<rparr>"
    by (auto simp: MarkDelivered_def dest: exec_ok)
  then show ?thesis
    unfolding marked_def by (intro disjI2 exI [of _ "\<lambda>r. r\<lparr>dv_status := ''delivered'', dv_attempts := dv_attempts r + 1\<rparr>"]) simp
qed

lemma marked_cong: "delivery_queue t1 = delivery_queue t \<Longrightarrow> marked d t1 t' \<Longrightarrow> marked d t t'"
  by (simp add: marked_def)

lemma raises_deliver: "raises {} (deliver Hostname post d)"
proof -
  have "raises {} (dq_isOpen x :: ('a dq_scheme, bool) prog)" "raises {} (dq_recordFailure x :: ('a dq_scheme, bool) prog)"
    "raises {} (dq_recordSuccess x :: ('a dq_scheme, unit) prog)" "raises {} (post_activity p d :: ('a dq_scheme, string option) prog)" for x p
    by (auto intro!: raisesI dest: dq_isOpen_run dq_recordFailure_run dq_recordSuccess_run post_activity_run)
  then show ?thesis unfolding deliver_def Let_def by (intro raises_intros)
qed

lemma deliver_run:
  assumes "deliver Hostname post d s = (r, s')"
  shows "r = Inr () \<and> marked d (tbl s) (tbl s')"
proof (cases r)
  case (Inl e)
  with assms raisesD [OF raises_deliver] show ?thesis by blast
next
  case (Inr x)
  with assms show ?thesis
    unfolding deliver_def Let_def
    by (auto simp: ignore_run elim!: bindE_okE split: if_split_asm option.split_asm
        dest!: dq_isOpen_run dq_recordFailure_run dq_recordSuccess_run post_activity_run
          failed_run delivered_run health_run; simp add: marked_def)
qed

lemma batch_attempts_left:
  "foreach ds (deliver Hostname post) s = (r, s') \<Longrightarrow> attempts_left (tbl s) \<Longrightarrow> distinct (map dv_id (delivery_queue (tbl s))) \<Longrightarrow>
   distinct (map dv_id ds) \<Longrightarrow> (\<And>d. d \<in> set ds \<Longrightarrow> d \<in> set (delivery_queue (tbl s)) \<and> dv_attempts d < dv_max d) \<Longrightarrow>
   attempts_left (tbl s')"
proof (induction ds arbitrary: s)
  case Nil
  then show ?case by simp
next
  case (Cons d ds)
  from Cons.prems(1) obtain t where d: "deliver Hostname post d s = (Inr (), t)"
    and rest: "foreach ds (deliver Hostname post) t = (r, s')"
    by (cases "deliver Hostname post d s") (auto simp: bindE_def dest: deliver_run)
  have m: "marked d (tbl s) (tbl t)" using deliver_run [OF d] by simp
  show ?case
  proof (rule Cons.IH [OF rest])
    show "attempts_left (tbl t)" using marked_attempts_left [OF m] Cons.prems by simp
    show "distinct (map dv_id (delivery_queue (tbl t)))" using marked_ids [OF m] Cons.prems(3) by simp
    show "distinct (map dv_id ds)" using Cons.prems(4) by simp
    fix d'
    assume d': "d' \<in> set ds"
    then have "dv_id d' \<noteq> dv_id d" using Cons.prems(4) by (auto simp: image_iff)
    with marked_others [OF m] Cons.prems(5) d'
    show "d' \<in> set (delivery_queue (tbl t)) \<and> dv_attempts d' < dv_max d'" by auto
  qed
qed

lemma pending_batch:
  assumes "PendingDeliveries n s = (Inr ds, t)"
  shows "tbl t = tbl s \<and> set ds \<subseteq> {r \<in> set (delivery_queue (tbl s)). due (clock s) r} \<and>
     (distinct (map dv_id (delivery_queue (tbl s))) \<longrightarrow> distinct (map dv_id ds))"
proof -
  define rows where "rows = order_by dv_next (select_where (due (clock s)) (delivery_queue (tbl s)))"
  have ds: "ds = (if 0 < n then take (nat n) rows else rows)" "tbl t = tbl s"
    using assms by (auto simp: PendingDeliveries_def now_def Let_def rows_def elim!: bindE_okE dest!: query_ok)
  have "set rows = {r \<in> set (delivery_queue (tbl s)). due (clock s) r}" by (simp add: rows_def)
  moreover have "distinct (map dv_id rows)" if "distinct (map dv_id (delivery_queue (tbl s)))"
    using that by (simp add: rows_def order_by_def select_where_def distinct_map inj_on_def)
  ultimately show ?thesis
    using ds by (auto simp: take_map [symmetric] dest: in_set_takeD)
qed

lemma attempts_left_kept:
  "attempts_left t \<Longrightarrow> delivery_queue t' = delivery_queue t \<Longrightarrow> attempts_left t'"
  by (simp add: attempts_left_def)

section \<open>Properties\<close>

text \<open>C26. Retries are bounded: processing a batch keeps, for every delivery, the number of attempts at
  most its maximum and below it while the delivery is pending, whatever the posts return and whatever
  I/O fails; so a delivery is attempted at most \<open>max_attempts\<close> times.\<close>

lemma retries_bounded:
  assumes "wf_tables (tbl s)" and "attempts_left (tbl s)"
  shows "attempts_left (tbl (snd (processBatch Hostname post s)))"
proof -
  obtain r t where p: "PendingDeliveries deliveryBatchSize s = (r, t)" by (cases "PendingDeliveries deliveryBatchSize s") auto
  have d: "distinct (map dv_id (delivery_queue (tbl s)))" using assms(1) by (simp add: wf_tables_def dvls.fresh_def)
  show ?thesis
  proof (cases r)
    case (Inl e)
    have "keeps (\<lambda>u. delivery_queue (tbl u) = delivery_queue (tbl s)) (PendingDeliveries deliveryBatchSize)"
      unfolding PendingDeliveries_def Let_def by (intro keeps_intros)
    then have "delivery_queue (tbl t) = delivery_queue (tbl s)" using p unfolding keeps_def by (metis snd_conv)
    with Inl p assms(2) show ?thesis by (simp add: processBatch_def handle_def ret_def attempts_left_def)
  next
    case (Inr ds)
    note b = pending_batch [OF p [unfolded Inr]]
    obtain q u where run: "foreach ds (deliver Hostname post) t = (q, u)" by (cases "foreach ds (deliver Hostname post) t") auto
    have "attempts_left (tbl u)"
      by (rule batch_attempts_left [OF run]) (use b d assms(2) in \<open>auto simp: attempts_left_def due_def\<close>)
    with run Inr p show ?thesis by (simp add: processBatch_def handle_def)
  qed
qed

text \<open>The row after a failed attempt.\<close>

definition failed_row :: "int \<Rightarrow> Delivery \<Rightarrow> string \<Rightarrow> Delivery \<Rightarrow> Delivery" where
  "failed_row c d e r = r\<lparr>dv_attempts := dv_attempts r + 1, dv_error := Some e,
     dv_status := (if dv_max d \<le> dv_attempts d + 1 then ''failed'' else ''pending''),
     dv_next := c + 2 ^ nat (min (dv_attempts d) 12)\<rparr>"

definition delivered_row :: "Delivery \<Rightarrow> Delivery" where
  "delivered_row r = r\<lparr>dv_status := ''delivered'', dv_attempts := dv_attempts r + 1\<rparr>"

lemma failed_no_fault:
  "faults s = [] \<Longrightarrow> 0 \<le> dv_attempts d \<Longrightarrow>
   MarkDeliveryFailed (dv_id d) (dv_attempts d) (dv_max d) e s = (Inr (), s\<lparr>tbl := (tbl s)\<lparr>delivery_queue :=
     update_where (\<lambda>r. dv_id r = dv_id d) (failed_row (clock s) d e) (delivery_queue (tbl s))\<rparr>\<rparr>)"
  by (simp add: MarkDeliveryFailed_def exec_nofault failed_row_def [abs_def] delivery_backoff_def)

lemma delivered_no_fault:
  "faults s = [] \<Longrightarrow> MarkDelivered i s = (Inr (), s\<lparr>tbl := (tbl s)\<lparr>delivery_queue :=
     update_where (\<lambda>r. dv_id r = i) delivered_row (delivery_queue (tbl s))\<rparr>\<rparr>)"
  by (simp add: MarkDelivered_def exec_nofault delivered_row_def [abs_def])

lemma health_no_fault:
  "faults s = [] \<Longrightarrow> \<exists>as. SetPeerHealthByDomain d b s = (Inr (), s\<lparr>tbl := (tbl s)\<lparr>actors := as\<rparr>\<rparr>)"
  by (auto simp: SetPeerHealthByDomain_def update_actors_def gets_def bindE_def ret_def exec_rows_nofault)

text \<open>A circuit found closed is still closed when it is looked at again.\<close>

lemma closed_again: "\<not> fst (dl_isOpen c d cb) \<Longrightarrow> \<not> fst (dl_isOpen c d (snd (dl_isOpen c d cb)))"
  by (auto simp: dl_isOpen_def is_open_at_def clear_key_def delete_conv split: option.splits if_splits)


definition sample_delivery :: Delivery where
  "sample_delivery = \<lparr>dv_id = 1, dv_activity = ''act1'', dv_inbox = ''https://b.example/inbox'', dv_json = ''{}'',
     dv_attempts = 3, dv_max = 10, dv_next = 5, dv_error = None, dv_status = ''pending'', dv_created = 0\<rparr>"

definition sample_dq :: dq where
  "sample_dq = \<lparr>faults = [], clock = 9, tbl = empty_tables\<lparr>delivery_queue := [sample_delivery], seq_deliveries := 2\<rparr>,
     postgres = False, breaker_st = newCircuitBreaker, posted = []\<rparr>"


lemma retries_bounded_witness:
  "attempts_left (tbl (snd (processBatch (\<lambda>_. Some ''b.example'') (\<lambda>_ _. Some ''refused'') sample_dq)))"
proof (rule retries_bounded)
  show "wf_tables (tbl sample_dq)"
    using wf_empty_tables
    by (simp add: sample_dq_def wf_tables_def empty_tables_def dvls.unique_def dvls.fresh_def sample_delivery_def)
  show "attempts_left (tbl sample_dq)"
    by (simp add: sample_dq_def attempts_left_def sample_delivery_def)
qed

end
