(* ===== verification/Fed_World.thy ===== *)
theory Fed_World
  imports Database Validate Simple_Queue Complex_Main "HOL-Library.AList"
begin

text \<open>
  What the federation code shares: JSON values as \<open>encoding/json\<close> decodes them, the state the
  inbox and the publisher work on, and the parts of the world outside the program as one record of
  parameters (\<open>url.Parse\<close>, base64, SHA-256, the public-suffix list, remote actors, HTTP posts).
  Models \<open>internal/activitypub/urlcheck.go\<close> and \<open>follow.go\<close>.

  Remote actors may answer differently each time: \<open>FetchActor\<close> depends on a counter of the fetches
  made so far, which is part of the state.
\<close>

section \<open>JSON\<close>

text \<open>
  \<open>any\<close> after decoding: a number is the \<open>float64\<close>, whose value is a rational; an object is a
  Go map, looked up by key.
\<close>

datatype json =
    JNull
  | JBool bool
  | JNum rat
  | JStr string
  | JArr "json list"
  | JObj "(string \<times> json) list"

type_synonym jobj = "(string \<times> json) list"

text \<open>\<open>v, _ := obj[k].(string)\<close> and \<open>.(float64)\<close>: the zero value when absent or of another type.\<close>

definition jstr :: "jobj \<Rightarrow> string \<Rightarrow> string" where
  "jstr obj k = (case map_of obj k of Some (JStr s) \<Rightarrow> s | _ \<Rightarrow> '''')"

definition jnum :: "jobj \<Rightarrow> string \<Rightarrow> rat" where
  "jnum obj k = (case map_of obj k of Some (JNum x) \<Rightarrow> x | _ \<Rightarrow> 0)"

text \<open>\<open>int64(f)\<close> truncates toward zero.\<close>

definition int64_of :: "rat \<Rightarrow> int" where
  "int64_of x = (if 0 \<le> x then \<lfloor>x\<rfloor> else \<lceil>x\<rceil>)"

section \<open>State and world\<close>

record FedActor =
  fa_id :: string
  fa_inbox :: string
  fa_shared_inbox :: "string option"
  fa_key_owner :: string
  fa_key_pem :: string
  fa_namespace :: string

record RawActivity =
  ra_id :: string
  ra_type :: string
  ra_actor :: string
  ra_object :: json

record InboxTask =
  task_activity :: RawActivity
  task_key :: string
  task_body :: string

record descriptor =
  d_digest :: string
  d_size :: int
  d_media_type :: string

text \<open>
  The state of a federating node: the database, the namespace cache, the failed fetches, the
  block lists, the queue of the inbox worker, and logs of what left the node (replication
  requests, notifications, invalidated cache entries, direct posts, wake-ups of the delivery worker).
\<close>

record fed = store +
  nsCache :: "(string \<times> string) list"
  fetchFailures :: "string list"
  blocked_domains :: "string list"
  blocked_actors :: "string list"
  inbox_queue :: "InboxTask SimpleQueue"
  fetches :: nat
  uuids :: nat
  replicated :: "(string \<times> string \<times> int) list"
  notified :: "string list"
  invalidated :: "string list"
  direct_posts :: "(string \<times> string) list"
  woken :: nat

record world =
  url_Parse :: "string \<Rightarrow> URL option"
  url_String :: "URL \<Rightarrow> string"
  ParseIP :: "string \<Rightarrow> ip option"
  ip_loopback :: "ip \<Rightarrow> bool"
  ip_internal :: "ip \<Rightarrow> bool"
  Fetch :: "nat \<Rightarrow> string \<Rightarrow> FedActor option"
  Sum256 :: "string \<Rightarrow> string"
  DecodeString :: "string \<Rightarrow> string option"
  EncodeToString :: "string \<Rightarrow> string"
  EffectiveTLDPlusOne :: "string \<Rightarrow> string option"
  UnmarshalManifest :: "string \<Rightarrow> (descriptor \<times> descriptor list \<times> descriptor list) option"
  Marshal :: "json \<Rightarrow> string"
  uuid_New :: "nat \<Rightarrow> string"
  Post :: "string \<Rightarrow> string \<Rightarrow> string option"
  RFC3339 :: "int \<Rightarrow> string"
  allowInsecureHTTP :: bool
  AllowPrivateIPs :: bool

definition new_uuid :: "world \<Rightarrow> ('z fed_scheme, string) prog" where
  "new_uuid w = (\<lambda>s. (Inr (uuid_New w (uuids s)), s\<lparr>uuids := Suc (uuids s)\<rparr>))"

section \<open>Actor URLs\<close>

definition EndpointFromActorURL :: "world \<Rightarrow> string \<Rightarrow> string" where
  "EndpointFromActorURL w actorURL = (case url_Parse w actorURL of
      None \<Rightarrow> actorURL
    | Some u \<Rightarrow> u_scheme u @ ''://'' @ u_host u)"

definition DomainFromActorURL :: "world \<Rightarrow> string \<Rightarrow> string" where
  "DomainFromActorURL w actorURL = (case url_Parse w actorURL of None \<Rightarrow> '''' | Some u \<Rightarrow> u_hostname u)"

definition ActorAlias :: "world \<Rightarrow> FedActor \<Rightarrow> string" where
  "ActorAlias w actor = (if fa_namespace actor \<noteq> '''' then fa_namespace actor
     else DomainFromActorURL w (fa_id actor))"

text \<open>\<open>ip_internal\<close> stands for \<open>IsPrivate || IsUnspecified || IsLinkLocalUnicast\<close> of \<open>net.IP\<close>.\<close>

definition validateFederationURL :: "world \<Rightarrow> string \<Rightarrow> bool" where
  "validateFederationURL w rawURL = (case url_Parse w rawURL of
      None \<Rightarrow> False
    | Some u \<Rightarrow>
        if u_scheme u \<noteq> ''https'' \<and> (\<not> allowInsecureHTTP w \<or> u_scheme u \<noteq> ''http'') then False
        else (case ParseIP w (u_hostname u) of
            Some a \<Rightarrow>
              if ip_loopback w a then allowInsecureHTTP w
              else \<not> (\<not> allowInsecureHTTP w \<and> ip_internal w a)
          | None \<Rightarrow> \<not> (u_hostname u = ''localhost'' \<and> \<not> allowInsecureHTTP w)))"

text \<open>
  A remote actor document: fetched only from a URL that passes the check, and only with an id
  (\<open>ParseActor\<close>).
\<close>

definition FetchActor :: "world \<Rightarrow> string \<Rightarrow> ('z fed_scheme, FedActor) prog" where
  "FetchActor w actorURL =
     (if \<not> validateFederationURL w actorURL then fail (Errorf ''unsafe actor URL'')
      else (\<lambda>s. case Fetch w (fetches s) actorURL of
          None \<Rightarrow> (Inl (Errorf ''fetching actor''), s\<lparr>fetches := Suc (fetches s)\<rparr>)
        | Some a \<Rightarrow> (if fa_id a = '''' then Inl (Errorf ''actor document missing id'') else Inr a,
                     s\<lparr>fetches := Suc (fetches s)\<rparr>)))"

section \<open>Sending follow activities\<close>

definition DeliverActivity :: "world \<Rightarrow> string \<Rightarrow> string \<Rightarrow> ('z fed_scheme, unit) prog" where
  "DeliverActivity w inboxURL activityJSON =
     (if \<not> validateFederationURL w inboxURL then fail (Errorf ''unsafe inbox URL'')
      else bindE (modify (\<lambda>s. s\<lparr>direct_posts := direct_posts s @ [(inboxURL, activityJSON)]\<rparr>)) (\<lambda>_.
        case Post w inboxURL activityJSON of None \<Rightarrow> ret () | Some e \<Rightarrow> fail (Errorf e)))"

text \<open>\<open>queue\<close> says whether an enqueue function is set: the persistent queue, which all servers set.\<close>

definition deliverOrEnqueue :: "world \<Rightarrow> bool \<Rightarrow> string \<Rightarrow> string \<Rightarrow> string \<Rightarrow> ('z fed_scheme, unit) prog" where
  "deliverOrEnqueue w queue activityID inboxURL activityJSON =
     (if queue then EnqueueDelivery activityID inboxURL activityJSON
      else DeliverActivity w inboxURL activityJSON)"

definition follow_json :: "string \<Rightarrow> string \<Rightarrow> json" where
  "follow_json actor object = JObj [(''type'', JStr ''Follow''), (''actor'', JStr actor), (''object'', JStr object)]"

definition activity_json :: "string \<Rightarrow> string \<Rightarrow> string \<Rightarrow> json \<Rightarrow> json" where
  "activity_json aid ty actor object = JObj [(''@context'', JStr ''https://www.w3.org/ns/activitystreams''),
     (''id'', JStr aid), (''type'', JStr ty), (''actor'', JStr actor), (''object'', object)]"

definition SendAccept :: "world \<Rightarrow> string \<Rightarrow> bool \<Rightarrow> string \<Rightarrow> ('z fed_scheme, unit) prog" where
  "SendAccept w self queue followerActorURL =
     bindE (FetchActor w followerActorURL) (\<lambda>actor.
     bindE (new_uuid w) (\<lambda>u.
     let activityID = self @ ''#accept-'' @ u in
     deliverOrEnqueue w queue activityID (fa_inbox actor)
       (Marshal w (activity_json activityID ''Accept'' self (follow_json followerActorURL self)))))"

definition SendReject :: "world \<Rightarrow> string \<Rightarrow> bool \<Rightarrow> string \<Rightarrow> ('z fed_scheme, unit) prog" where
  "SendReject w self queue followerActorURL =
     bindE (FetchActor w followerActorURL) (\<lambda>actor.
     bindE (new_uuid w) (\<lambda>u.
     let activityID = self @ ''#reject-'' @ u in
     ignore (deliverOrEnqueue w queue activityID (fa_inbox actor)
       (Marshal w (activity_json activityID ''Reject'' self (follow_json followerActorURL self))))))"

text \<open>\<open>url.QueryEscape\<close> of the target's id is a parameter.\<close>

definition SendFollow ::
  "world \<Rightarrow> (string \<Rightarrow> string) \<Rightarrow> string \<Rightarrow> bool \<Rightarrow> string \<Rightarrow> ('z fed_scheme, string) prog" where
  "SendFollow w QueryEscape self queue targetActorURL =
     bindE (FetchActor w targetActorURL) (\<lambda>actor.
     let activityID = self @ ''#follow-'' @ QueryEscape (fa_id actor) in
     bindE (deliverOrEnqueue w queue activityID (fa_inbox actor)
       (Marshal w (activity_json activityID ''Follow'' self (JStr (fa_id actor))))) (\<lambda>_.
     ret (fa_id actor)))"

definition SendUndo :: "world \<Rightarrow> string \<Rightarrow> bool \<Rightarrow> string \<Rightarrow> ('z fed_scheme, unit) prog" where
  "SendUndo w self queue peerActorURL =
     bindE (FetchActor w peerActorURL) (\<lambda>actor.
     bindE (new_uuid w) (\<lambda>u.
     let activityID = self @ ''#undo-'' @ u in
     deliverOrEnqueue w queue activityID (fa_inbox actor)
       (Marshal w (activity_json activityID ''Undo'' self (follow_json self (fa_id actor))))))"

end
