(* ===== verification/Inbox_Content.thy ===== *)
theory Inbox_Content
  imports Fed_World
begin

text \<open>
  \<open>internal/activitypub/inbox_content.go\<close>: what an activity of a followed actor may do to the
  local copy of its packages. Every handler checks that the actor is followed, that the repository
  belongs to it (by its namespace for a new repository, by its owner for an existing one), and that
  manifest content has the digest it claims.

  The properties say what a remote actor cannot do: touch a repository of somebody else, claim a
  namespace that is not its own, store content under a digest it does not have, or do anything at all
  without being followed.
\<close>

section \<open>Configuration\<close>

record inbox_cfg =
  self_actor :: string
  maxManifestSize :: int
  maxBlobSize :: int
  autoAccept :: string
  allowedDomains :: "string list"
  has_worker :: bool
  has_replicator :: bool
  has_notifier :: bool
  has_actor_cache :: bool
  has_enqueue :: bool

text \<open>A federation adapter of a package backend: activity type, object type, object, actor.\<close>

type_synonym adapter = "string \<Rightarrow> string \<Rightarrow> jobj \<Rightarrow> string \<Rightarrow> (fed, unit) prog"

section \<open>Namespaces\<close>

definition matchesDomain :: "string \<Rightarrow> string \<Rightarrow> bool" where
  "matchesDomain host domain \<longleftrightarrow> host = domain \<or> HasSuffix host (''.'' @ domain)"

definition senderDomainFromActorURL :: "world \<Rightarrow> string \<Rightarrow> string option" where
  "senderDomainFromActorURL w actorURL = (case url_Parse w actorURL of
      None \<Rightarrow> None
    | Some u \<Rightarrow> if u_hostname u = '''' then None else Some (ToLower (u_hostname u)))"

definition repoOwnedBySender :: "string \<Rightarrow> string \<Rightarrow> bool" where
  "repoOwnedBySender repo senderDomain \<longleftrightarrow> ToLower (Cut_before repo (CHR ''/'')) = senderDomain"

definition validNamespaceForHost :: "world \<Rightarrow> string \<Rightarrow> string \<Rightarrow> bool" where
  "validNamespaceForHost w ns0 actorHost0 = (let ns = ToLower ns0; actorHost = ToLower actorHost0 in
     if ns = actorHost then True
     else if \<not> HasSuffix actorHost (''.'' @ ns) then False
     else (case EffectiveTLDPlusOne w actorHost of
         None \<Rightarrow> False
       | Some etld1 \<Rightarrow> ns = etld1 \<or> HasSuffix ns (''.'' @ etld1)))"

definition cache_ns :: "string \<Rightarrow> string \<Rightarrow> (fed, unit) prog" where
  "cache_ns actorURL ns = modify (\<lambda>s. s\<lparr>nsCache := AList.update actorURL ns (nsCache s)\<rparr>)"

definition fetchSenderNamespace :: "world \<Rightarrow> string \<Rightarrow> (fed, string) prog" where
  "fetchSenderNamespace w actorURL = bindE (gets (\<lambda>s. map_of (nsCache s) actorURL)) (\<lambda>item. case item of
      Some ns \<Rightarrow> ret ns
    | None \<Rightarrow> (case senderDomainFromActorURL w actorURL of
          None \<Rightarrow> fail (Errorf ''actor URL has no host'')
        | Some actorHost \<Rightarrow>
            handle (FetchActor w actorURL) (\<lambda>r. case r of
                Inl _ \<Rightarrow> bindE (cache_ns actorURL actorHost) (\<lambda>_. ret actorHost)
              | Inr actor \<Rightarrow>
                  (let ns = (if fa_namespace actor = '''' \<or> \<not> validNamespaceForHost w (fa_namespace actor) actorHost
                             then actorHost else fa_namespace actor) in
                   bindE (cache_ns actorURL ns) (\<lambda>_. ret ns)))))"

section \<open>Manifests, tags and blobs of a remote actor\<close>

text \<open>Both errors of the owner check are refusals; an unknown repository is \<open>None\<close>.\<close>

definition requireRepoOwner :: "string \<Rightarrow> string \<Rightarrow> (fed, Repository option) prog" where
  "requireRepoOwner repo actorURL = handle (GetRepository repo) (\<lambda>r. case r of
      Inr (Some repoObj) \<Rightarrow> handle (IsRepositoryOwner (repo_id repoObj) actorURL) (\<lambda>own. case own of
          Inr True \<Rightarrow> ret (Some repoObj)
        | _ \<Rightarrow> fail (Errorf ''not authorized for repository''))
    | _ \<Rightarrow> ret None)"

definition deleteManifest :: "jobj \<Rightarrow> string \<Rightarrow> (fed, unit) prog" where
  "deleteManifest obj actorURL =
     (let repo = jstr obj ''ociRepository''; digest = jstr obj ''ociDigest'' in
      if repo = '''' \<or> digest = '''' then fail (Errorf ''missing ociRepository or ociDigest'')
      else bindE (requireRepoOwner repo actorURL) (\<lambda>repoObj. case repoObj of
          None \<Rightarrow> ret ()
        | Some r \<Rightarrow>
            bindE (DeleteManifest (repo_id r) digest) (\<lambda>_.
            ignore (RecordDeletedManifest digest repo actorURL))))"

definition deleteTag :: "jobj \<Rightarrow> string \<Rightarrow> (fed, unit) prog" where
  "deleteTag obj actorURL =
     (let repo = jstr obj ''ociRepository''; tag = jstr obj ''ociTag'' in
      if repo = '''' \<or> tag = '''' then fail (Errorf ''missing ociRepository or ociTag'')
      else bindE (requireRepoOwner repo actorURL) (\<lambda>repoObj. case repoObj of
          None \<Rightarrow> ret ()
        | Some r \<Rightarrow> DeleteTag (repo_id r) tag))"

definition ref_of :: "descriptor \<Rightarrow> BlobRef list" where
  "ref_of d = (if d_digest d = '''' then []
     else [\<lparr>ref_digest = d_digest d, ref_size = d_size d,
            ref_media_type = (if d_media_type d \<noteq> '''' then Some (d_media_type d) else None)\<rparr>])"

definition extractLayerRefs :: "world \<Rightarrow> string \<Rightarrow> BlobRef list" where
  "extractLayerRefs w content = (case UnmarshalManifest w content of
      None \<Rightarrow> []
    | Some (config, layers, manifests) \<Rightarrow>
        ref_of config @ concat (map ref_of layers) @ concat (map ref_of manifests))"

definition ReplicateBlob :: "string \<Rightarrow> string \<Rightarrow> int \<Rightarrow> (fed, unit) prog" where
  "ReplicateBlob endpoint digest sz = modify (\<lambda>s. s\<lparr>replicated := replicated s @ [(endpoint, digest, sz)]\<rparr>)"

text \<open>One round of the replication loop; \<open>continue\<close> is \<open>ret ()\<close>.\<close>

definition replicate_ref :: "BlobRef \<Rightarrow> (fed, unit) prog" where
  "replicate_ref r = handle (FindPeersWithBlob (ref_digest r)) (\<lambda>ps. case ps of
      Inr (p # _) \<Rightarrow> handle (GetBlob (ref_digest r)) (\<lambda>b. case b of
          Inr (Some blob) \<Rightarrow> if blob_stored blob then ret ()
            else ReplicateBlob (pb_endpoint p) (ref_digest r) (blob_size blob)
        | _ \<Rightarrow> ret ())
    | _ \<Rightarrow> ret ())"

definition recordLayersAndReplicate :: "world \<Rightarrow> inbox_cfg \<Rightarrow> string option \<Rightarrow> int \<Rightarrow> string \<Rightarrow> (fed, unit) prog" where
  "recordLayersAndReplicate w cfg content repoID digest = (case content of
      None \<Rightarrow> ret ()
    | Some c \<Rightarrow> (let refs = extractLayerRefs w c in
        if refs = [] then ret ()
        else handle (GetManifestByDigest repoID digest) (\<lambda>r. case r of
            Inr (Some man) \<Rightarrow>
              bindE (ignore (PutManifestLayers (man_id man) refs)) (\<lambda>_.
              if \<not> has_replicator cfg then ret () else foreach refs replicate_ref)
          | _ \<Rightarrow> ret ())))"

text \<open>
  The content of the object: \<open>None\<close> when absent or not base64 (logged only), an error when it is too
  large or does not hash to the claimed digest. Empty content decodes to a non-nil empty slice only
  from a nonempty encoding.
\<close>

definition manifest_content :: "world \<Rightarrow> inbox_cfg \<Rightarrow> jobj \<Rightarrow> string \<Rightarrow> err + string option" where
  "manifest_content w cfg obj digest =
     (let encoded = jstr obj ''ociContent'' in
      if encoded = '''' then Inr None
      else (case DecodeString w encoded of
          None \<Rightarrow> Inr None
        | Some decoded \<Rightarrow>
            if maxManifestSize cfg < int (length decoded) then Inl (Errorf ''manifest content exceeds size limit'')
            else if ''sha256:'' @ Sum256 w decoded \<noteq> digest then Inl (Errorf ''manifest content digest mismatch'')
            else Inr (Some decoded)))"

text \<open>The checks of \<open>ingestManifest\<close> that read only the object, in the order of the code.\<close>

definition check_manifest :: "inbox_cfg \<Rightarrow> jobj \<Rightarrow> err option" where
  "check_manifest cfg obj =
     (let repo = jstr obj ''ociRepository''; digest = jstr obj ''ociDigest'';
          mediaType = jstr obj ''ociMediaType''; size = jnum obj ''ociSize''; tag = jstr obj ''ociTag'' in
      if repo = '''' \<or> digest = '''' then Some (Errorf ''missing ociRepository or ociDigest'')
      else if \<not> RepoName repo then Some (Errorf ''invalid repository name'')
      else if \<not> Digest digest then Some (Errorf ''invalid digest'')
      else if mediaType = '''' \<or> \<not> MediaType mediaType then Some (Errorf ''invalid or missing ociMediaType'')
      else if size \<le> 0 \<or> of_int (maxManifestSize cfg) < size then Some (Errorf ''invalid manifest size'')
      else if tag \<noteq> '''' \<and> \<not> Tag_ok tag then Some (Errorf ''invalid tag'')
      else None)"

text \<open>The repository of the manifest: an existing one of the actor, or a new one it will own.\<close>

definition ingest_repo :: "string \<Rightarrow> string \<Rightarrow> (fed, Repository) prog" where
  "ingest_repo repo actorURL = bindE (GetRepository repo) (\<lambda>got. case got of
      Some repoObj \<Rightarrow> bindE (IsRepositoryOwner (repo_id repoObj) actorURL) (\<lambda>isOwner.
        if \<not> isOwner then fail (Errorf ''not authorized for repository'') else ret repoObj)
    | None \<Rightarrow> GetOrCreateRepository repo actorURL)"

definition ingestManifest :: "world \<Rightarrow> inbox_cfg \<Rightarrow> jobj \<Rightarrow> string \<Rightarrow> (fed, unit) prog" where
  "ingestManifest w cfg obj actorURL = (case check_manifest cfg obj of Some e \<Rightarrow> fail e | None \<Rightarrow>
     (let repo = jstr obj ''ociRepository''; digest = jstr obj ''ociDigest''; tag = jstr obj ''ociTag'';
          subjectDigest = jstr obj ''ociSubjectDigest'' in
      bindE (fetchSenderNamespace w actorURL) (\<lambda>senderNS.
      if \<not> repoOwnedBySender repo senderNS then fail (Errorf ''repository not scoped to sender namespace'')
      else bindE (ingest_repo repo actorURL) (\<lambda>repoObj.
      if subjectDigest \<noteq> '''' \<and> \<not> Digest subjectDigest then fail (Errorf ''invalid ociSubjectDigest'')
      else (case manifest_content w cfg obj digest of Inl e \<Rightarrow> fail e | Inr content \<Rightarrow>
        bindE (PutManifest \<lparr>man_id = 0, man_repo = repo_id repoObj, man_digest = digest,
             man_media_type = jstr obj ''ociMediaType'',
             man_size = (case content of None \<Rightarrow> int64_of (jnum obj ''ociSize'') | Some c \<Rightarrow> int (length c)),
             man_content = (case content of None \<Rightarrow> '''' | Some c \<Rightarrow> c), man_source = Some actorURL,
             man_subject = (if subjectDigest \<noteq> '''' then Some subjectDigest else None),
             man_artifact = None, man_created = 0\<rparr>) (\<lambda>_.
        bindE (recordLayersAndReplicate w cfg content (repo_id repoObj) digest) (\<lambda>_.
        if tag \<noteq> '''' then PutTag (repo_id repoObj) tag digest else ret ())))))))"

definition ingestTag :: "jobj \<Rightarrow> string \<Rightarrow> (fed, unit) prog" where
  "ingestTag obj actorURL =
     (let repo = jstr obj ''ociRepository''; tag = jstr obj ''ociTag''; digest = jstr obj ''ociDigest'' in
      if repo = '''' \<or> tag = '''' \<or> digest = '''' then fail (Errorf ''missing ociRepository, ociTag, or ociDigest'')
      else if \<not> RepoName repo then fail (Errorf ''invalid repository name'')
      else if \<not> Tag_ok tag then fail (Errorf ''invalid tag name'')
      else if \<not> Digest digest then fail (Errorf ''invalid digest'')
      else bindE (requireRepoOwner repo actorURL) (\<lambda>repoObj. case repoObj of
          None \<Rightarrow> ret ()
        | Some r \<Rightarrow> bindE (GetManifestByDigest (repo_id r) digest) (\<lambda>man. case man of
              None \<Rightarrow> fail (Errorf ''manifest not found in repo'')
            | Some _ \<Rightarrow> PutTag (repo_id r) tag digest)))"

definition ingestBlobRef :: "world \<Rightarrow> inbox_cfg \<Rightarrow> jobj \<Rightarrow> string \<Rightarrow> (fed, unit) prog" where
  "ingestBlobRef w cfg obj actorURL =
     (let digest = jstr obj ''ociDigest''; size = jnum obj ''ociSize''; endpoint = jstr obj ''ociEndpoint'' in
      if digest = '''' \<or> endpoint = '''' then fail (Errorf ''missing ociDigest or ociEndpoint'')
      else if \<not> Digest digest then fail (Errorf ''invalid digest'')
      else if \<not> PeerEndpoint (url_Parse w) (ParseIP w) (AllowPrivateIPs w) endpoint then fail (Errorf ''invalid peer endpoint'')
      else (case senderDomainFromActorURL w actorURL of None \<Rightarrow> fail (Errorf ''invalid actor URL'') | Some senderDomain \<Rightarrow>
        (case url_Parse w endpoint of None \<Rightarrow> fail (Errorf ''endpoint does not match sender domain'') | Some u \<Rightarrow>
          if ToLower (u_hostname u) \<noteq> senderDomain then fail (Errorf ''endpoint does not match sender domain'')
          else if size < 0 \<or> of_int (maxBlobSize cfg) < size then fail (Errorf ''invalid blob size'')
          else bindE (PutPeerBlob actorURL digest endpoint) (\<lambda>_.
               bindE (PutBlob digest (int64_of size) None False) (\<lambda>_.
               if has_replicator cfg then ReplicateBlob endpoint digest (int64_of size) else ret ())))))"

section \<open>Activities\<close>

definition isFollowed :: "string \<Rightarrow> (fed, bool) prog" where
  "isFollowed actorURL = handle (GetFollow actorURL) (\<lambda>r. case r of
      Inr (Some _) \<Rightarrow> ret True
    | _ \<Rightarrow> ret False)"

definition requireFollowed :: "string \<Rightarrow> (fed, unit) prog \<Rightarrow> (fed, unit) prog" where
  "requireFollowed actorURL body = bindE (isFollowed actorURL) (\<lambda>followed.
     if \<not> followed then fail (FedError ErrNotRelevant ''not following actor'') else body)"

definition run_adapter ::
  "(string \<Rightarrow> adapter option) \<Rightarrow> string \<Rightarrow> jobj \<Rightarrow> string \<Rightarrow> (fed, unit) prog" where
  "run_adapter adapters activityType obj actorURL = (let objType = jstr obj ''type'' in
     case adapters objType of
       Some ingest \<Rightarrow> ingest activityType objType obj actorURL
     | None \<Rightarrow> ret ())"

definition processCreate ::
  "world \<Rightarrow> inbox_cfg \<Rightarrow> (string \<Rightarrow> adapter option) \<Rightarrow> RawActivity \<Rightarrow> (fed, unit) prog" where
  "processCreate w cfg adapters act = requireFollowed (ra_actor act) (case ra_object act of
      JObj obj \<Rightarrow> if jstr obj ''type'' = ''OCIManifest'' then ingestManifest w cfg obj (ra_actor act)
                  else run_adapter adapters ''Create'' obj (ra_actor act)
    | _ \<Rightarrow> fail (Errorf ''invalid Create object''))"

definition processUpdate ::
  "world \<Rightarrow> inbox_cfg \<Rightarrow> (string \<Rightarrow> adapter option) \<Rightarrow> RawActivity \<Rightarrow> (fed, unit) prog" where
  "processUpdate w cfg adapters act = requireFollowed (ra_actor act) (case ra_object act of
      JObj obj \<Rightarrow>
        if jstr obj ''type'' = ''OCITag'' then ingestTag obj (ra_actor act)
        else if jstr obj ''type'' \<in> {''Actor'', ''Person'', ''Service'', ''Application''} then
          (if has_actor_cache cfg then modify (\<lambda>s. s\<lparr>invalidated := invalidated s @ [ra_actor act]\<rparr>) else ret ())
        else run_adapter adapters ''Update'' obj (ra_actor act)
    | _ \<Rightarrow> fail (Errorf ''invalid Update object''))"

definition processAnnounce ::
  "world \<Rightarrow> inbox_cfg \<Rightarrow> (string \<Rightarrow> adapter option) \<Rightarrow> RawActivity \<Rightarrow> (fed, unit) prog" where
  "processAnnounce w cfg adapters act = requireFollowed (ra_actor act) (case ra_object act of
      JObj obj \<Rightarrow> if jstr obj ''type'' = ''OCIBlob'' then ingestBlobRef w cfg obj (ra_actor act)
                  else run_adapter adapters ''Announce'' obj (ra_actor act)
    | _ \<Rightarrow> ret ())"

definition processDelete ::
  "world \<Rightarrow> inbox_cfg \<Rightarrow> (string \<Rightarrow> adapter option) \<Rightarrow> RawActivity \<Rightarrow> (fed, unit) prog" where
  "processDelete w cfg adapters act = requireFollowed (ra_actor act) (case ra_object act of
      JObj obj \<Rightarrow>
        if jstr obj ''type'' = ''OCIManifest'' then deleteManifest obj (ra_actor act)
        else if jstr obj ''type'' = ''OCITag'' then deleteTag obj (ra_actor act)
        else run_adapter adapters ''Delete'' obj (ra_actor act)
    | _ \<Rightarrow> ret ())"

section \<open>The contract between the handlers and the database\<close>

text \<open>A namespace an actor may use: the host of its URL, or a parent domain it may claim.\<close>

definition ns_allowed :: "world \<Rightarrow> string \<Rightarrow> string \<Rightarrow> bool" where
  "ns_allowed w actorURL ns \<longleftrightarrow> (\<exists>host. senderDomainFromActorURL w actorURL = Some host \<and>
     (ns = host \<or> validNamespaceForHost w ns host))"

definition cache_ok :: "world \<Rightarrow> fed \<Rightarrow> bool" where
  "cache_ok w s \<longleftrightarrow> (\<forall>u ns. map_of (nsCache s) u = Some ns \<longrightarrow> ns_allowed w u ns)"

definition repo_allowed :: "world \<Rightarrow> string \<Rightarrow> string \<Rightarrow> bool" where
  "repo_allowed w actorURL repo \<longleftrightarrow> RepoName repo \<and> (\<exists>ns. ns_allowed w actorURL ns \<and> repoOwnedBySender repo ns)"

definition manifest_ok :: "world \<Rightarrow> string \<Rightarrow> Manifest \<Rightarrow> bool" where
  "manifest_ok w actorURL m \<longleftrightarrow> Digest (man_digest m) \<and> man_source m = Some actorURL \<and>
     (man_content m = '''' \<or> ''sha256:'' @ Sum256 w (man_content m) = man_digest m \<and> man_size m = int (length (man_content m)))"

text \<open>
  What the handlers rely on: the owner check and the creation of a repository hand out only ids of
  the actor, and statements on such ids keep the invariant. Proved once for every invariant that
  meets the contract: all OCI content activities keep it.
\<close>

definition oci_only :: "(string \<Rightarrow> adapter option) \<Rightarrow> RawActivity \<Rightarrow> bool" where
  "oci_only adapters act = (case ra_object act of JObj obj \<Rightarrow> adapters (jstr obj ''type'') = None | _ \<Rightarrow> True)"

locale owner_scoped =
  fixes w :: world and A :: string and I :: "tables \<Rightarrow> bool" and mine :: "int \<Rightarrow> bool" and own_version :: "int \<Rightarrow> bool"
  assumes own_check: "yields (\<lambda>s. I (tbl s)) (IsRepositoryOwner rid A :: (fed, bool) prog) (\<lambda>b. b \<longrightarrow> mine rid)"
    and own_create: "repo_allowed w A repo \<Longrightarrow>
      yields (\<lambda>s. I (tbl s)) (GetOrCreateRepository repo A :: (fed, Repository) prog) (\<lambda>r. mine (repo_id r))"
    and own_put: "mine (man_repo m) \<Longrightarrow> manifest_ok w A m \<Longrightarrow> keeps (\<lambda>s. I (tbl s)) (PutManifest m :: (fed, Manifest) prog)"
    and own_manifest: "mine rid \<Longrightarrow>
      yields (\<lambda>s. I (tbl s)) (GetManifestByDigest rid d :: (fed, Manifest option) prog)
        (\<lambda>r. \<forall>m. r = Some m \<longrightarrow> own_version (man_id m))"
    and own_layers: "own_version v \<Longrightarrow> keeps (\<lambda>s. I (tbl s)) (PutManifestLayers v refs :: (fed, unit) prog)"
    and own_delete: "mine rid \<Longrightarrow> keeps (\<lambda>s. I (tbl s)) (DeleteManifest rid d :: (fed, unit) prog)"
    and own_put_tag: "mine rid \<Longrightarrow> keeps (\<lambda>s. I (tbl s)) (PutTag rid tag d :: (fed, unit) prog)"
    and own_delete_tag: "mine rid \<Longrightarrow> keeps (\<lambda>s. I (tbl s)) (DeleteTag rid tag :: (fed, unit) prog)"
    and keeps_tombstone: "keeps (\<lambda>s. I (tbl s)) (RecordDeletedManifest d repo A :: (fed, unit) prog)"
    and keeps_peer_blob: "keeps (\<lambda>s. I (tbl s)) (PutPeerBlob A d ep :: (fed, unit) prog)"
    and keeps_blob: "keeps (\<lambda>s. I (tbl s)) (PutBlob d sz None False :: (fed, unit) prog)"
begin

abbreviation inv :: "fed \<Rightarrow> bool" where
  "inv s \<equiv> I (tbl s) \<and> cache_ok w s"

lemma cache_frame: "db_frame s s' \<Longrightarrow> cache_ok w s' = cache_ok w s"
  by (auto simp: cache_ok_def elim: db_frameE)

lemma with_cache:
  assumes "yields (\<lambda>s. I (tbl s)) m Q" and "\<And>s. keeps (db_frame s) m"
  shows "yields inv m Q"
proof (rule yieldsI)
  fix s r s'
  assume s: "inv s" and run: "m s = (r, s')"
  have "db_frame s s'" by (rule keepsD [OF assms(2) _ run]) simp
  with s run assms(1) show "inv s' \<and> (\<forall>x. r = Inr x \<longrightarrow> Q x)"
    by (auto simp: yields_def cache_frame)
qed

lemma with_cache_keeps:
  "keeps (\<lambda>s. I (tbl s)) m \<Longrightarrow> (\<And>s. keeps (db_frame s) m) \<Longrightarrow> yields inv m (\<lambda>_. True)"
  by (intro with_cache yields_keeps)

lemma read_only: "yields inv (query f) (\<lambda>_. True)"
  by (intro with_cache_keeps keeps_intros)

lemma y_get_repository: "yields inv (GetRepository repo) (\<lambda>_. True)"
  unfolding GetRepository_def GetPackage_def
  by (intro yields_bindE [OF read_only] yields_intros) simp

lemma y_own_check: "yields inv (IsRepositoryOwner rid A) (\<lambda>b. b \<longrightarrow> mine rid)"
  by (rule with_cache [OF own_check]) (unfold IsRepositoryOwner_def IsPackageOwner_def, intro keeps_intros)

lemma y_create: "repo_allowed w A repo \<Longrightarrow> yields inv (GetOrCreateRepository repo A) (\<lambda>r. mine (repo_id r))"
  by (rule with_cache [OF own_create]) (assumption, unfold GetOrCreateRepository_def GetOrCreatePackage_def, intro keeps_intros)

lemma y_put: "mine (man_repo m) \<Longrightarrow> manifest_ok w A m \<Longrightarrow> yields inv (PutManifest m) (\<lambda>_. True)"
  by (rule with_cache_keeps [OF own_put])
    (assumption | (unfold PutManifest_def PutPackageVersion_def putPackageVersion_def getPackageVersion_def Let_def, intro keeps_intros))+

lemma y_manifest: "mine rid \<Longrightarrow> yields inv (GetManifestByDigest rid d) (\<lambda>r. \<forall>m. r = Some m \<longrightarrow> own_version (man_id m))"
  by (rule with_cache [OF own_manifest])
    (assumption | (unfold GetManifestByDigest_def GetPackageVersion_def getPackageVersion_def, intro keeps_intros))+

lemma y_layers: "own_version v \<Longrightarrow> yields inv (PutManifestLayers v refs) (\<lambda>_. True)"
  by (rule with_cache_keeps [OF own_layers])
    (assumption | (unfold PutManifestLayers_def PutBlobReferences_def putBlobReferences_def, intro keeps_intros))+

lemma y_delete: "mine rid \<Longrightarrow> yields inv (DeleteManifest rid d) (\<lambda>_. True)"
  by (rule with_cache_keeps [OF own_delete])
    (assumption | (unfold DeleteManifest_def DeletePackageVersion_def, intro keeps_intros))+

lemma y_put_tag: "mine rid \<Longrightarrow> yields inv (PutTag rid tag d) (\<lambda>_. True)"
  by (rule with_cache_keeps [OF own_put_tag])
    (assumption | (unfold PutTag_def PutPackageTag_def, intro keeps_intros))+

lemma y_delete_tag: "mine rid \<Longrightarrow> yields inv (DeleteTag rid tag) (\<lambda>_. True)"
  by (rule with_cache_keeps [OF own_delete_tag])
    (assumption | (unfold DeleteTag_def DeletePackageTag_def, intro keeps_intros))+

lemma y_tombstone: "yields inv (RecordDeletedManifest d repo A) (\<lambda>_. True)"
  by (rule with_cache_keeps [OF keeps_tombstone])
    (unfold RecordDeletedManifest_def RecordDeletedVersion_def, intro keeps_intros)

lemma y_peer_blob: "yields inv (PutPeerBlob A d ep) (\<lambda>_. True)"
  by (rule with_cache_keeps [OF keeps_peer_blob]) (unfold PutPeerBlob_def, intro keeps_intros)

lemma y_blob: "yields inv (PutBlob d sz None False) (\<lambda>_. True)"
  by (rule with_cache_keeps [OF keeps_blob]) (unfold PutBlob_def, intro keeps_intros)

lemma y_replicate: "yields inv (ReplicateBlob ep d sz) (\<lambda>_. True)"
  unfolding ReplicateBlob_def by (rule yields_modify) (simp add: cache_ok_def)

lemma y_replicate_ref: "yields inv (replicate_ref r) (\<lambda>_. True)"
  unfolding replicate_ref_def FindPeersWithBlob_def GetBlob_def
  by (rule yields_handle [OF read_only])
    (auto intro!: yields_intros yields_handle [OF read_only] y_replicate split: list.splits option.splits)

lemma y_namespace: "yields inv (fetchSenderNamespace w A) (ns_allowed w A)"
proof -
  have c: "yields inv (cache_ns A ns) (\<lambda>_. True)" if "ns_allowed w A ns" for ns
    unfolding cache_ns_def
    by (rule yields_modify) (use that in \<open>auto simp: cache_ok_def update_conv split: if_splits\<close>)
  have f: "yields inv (FetchActor w A) (\<lambda>_. True)"
    by (rule yieldsI) (auto simp: FetchActor_def fail_def cache_ok_def split: if_splits option.splits)
  show ?thesis
    unfolding fetchSenderNamespace_def
  proof (rule yields_bindE [of _ _ "\<lambda>item. \<forall>ns. item = Some ns \<longrightarrow> ns_allowed w A ns"])
    show "yields inv (gets (\<lambda>s. map_of (nsCache s) A)) (\<lambda>item. \<forall>ns. item = Some ns \<longrightarrow> ns_allowed w A ns)"
      by (rule yields_gets) (auto simp: cache_ok_def)
  qed (auto intro!: yields_intros yields_handle [OF f] yields_bindE [OF c] simp: Let_def ns_allowed_def)
qed

lemma y_require_owner:
  "yields inv (requireRepoOwner repo A) (\<lambda>r. \<forall>x. r = Some x \<longrightarrow> mine (repo_id x))"
  unfolding requireRepoOwner_def
  by (rule yields_handle [OF y_get_repository])
    (auto intro!: yields_intros yields_handle [OF y_own_check] split: option.splits bool.splits)

lemma y_ingest_repo: "repo_allowed w A repo \<Longrightarrow> yields inv (ingest_repo repo A) (\<lambda>r. mine (repo_id r))"
  unfolding ingest_repo_def
  by (rule yields_bindE [OF y_get_repository])
    (auto intro!: yields_intros yields_bindE [OF y_own_check] y_create)

lemma y_record_layers:
  "mine rid \<Longrightarrow> yields inv (recordLayersAndReplicate w cfg content rid d) (\<lambda>_. True)"
  unfolding recordLayersAndReplicate_def Let_def
  by (intro yields_intros TrueI yields_handle [OF y_manifest])
    (auto intro!: yields_intros yields_bindE [OF yields_ignore [OF y_layers]] yields_foreach y_replicate_ref split: option.splits)

lemma content_ok:
  "manifest_content w cfg obj d = Inr (Some c) \<Longrightarrow> ''sha256:'' @ Sum256 w c = d"
  by (auto simp: manifest_content_def Let_def split: if_splits option.splits)

lemma check_ok:
  "check_manifest cfg obj = None \<Longrightarrow> RepoName (jstr obj ''ociRepository'') \<and> Digest (jstr obj ''ociDigest'')"
  by (auto simp: check_manifest_def Let_def split: if_splits)

lemma y_ingest_manifest: "yields inv (ingestManifest w cfg obj A) (\<lambda>_. True)"
proof (cases "check_manifest cfg obj")
  case None
  note chk = check_ok [OF None]
  show ?thesis
    unfolding ingestManifest_def None option.case Let_def
  proof (rule yields_bindE [OF y_namespace], intro yields_intros yields_bindE [OF y_ingest_repo])
    fix ns
    assume "ns_allowed w A ns" and "\<not> \<not> repoOwnedBySender (jstr obj ''ociRepository'') ns"
    then show "repo_allowed w A (jstr obj ''ociRepository'')" using chk by (auto simp: repo_allowed_def)
  next
    fix ns repoObj content
    assume "mine (repo_id repoObj)" and "manifest_content w cfg obj (jstr obj ''ociDigest'') = Inr content"
    then show "yields inv (bindE (PutManifest \<lparr>man_id = 0, man_repo = repo_id repoObj, man_digest = jstr obj ''ociDigest'',
             man_media_type = jstr obj ''ociMediaType'',
             man_size = (case content of None \<Rightarrow> int64_of (jnum obj ''ociSize'') | Some c \<Rightarrow> int (length c)),
             man_content = (case content of None \<Rightarrow> '''' | Some c \<Rightarrow> c), man_source = Some A,
             man_subject = (if jstr obj ''ociSubjectDigest'' \<noteq> '''' then Some (jstr obj ''ociSubjectDigest'') else None),
             man_artifact = None, man_created = 0\<rparr>) (\<lambda>_.
        bindE (recordLayersAndReplicate w cfg content (repo_id repoObj) (jstr obj ''ociDigest'')) (\<lambda>_.
        if jstr obj ''ociTag'' \<noteq> '''' then PutTag (repo_id repoObj) (jstr obj ''ociTag'') (jstr obj ''ociDigest'') else ret ())))
        (\<lambda>_. True)"
      using chk
      by (intro yields_bindE [OF y_put] yields_bindE [OF y_record_layers] yields_intros y_put_tag)
        (auto simp: manifest_ok_def dest: content_ok split: option.splits)
  qed
qed (auto simp: ingestManifest_def intro: yields_intros)

lemma y_ingest_tag: "yields inv (ingestTag obj A) (\<lambda>_. True)"
  unfolding ingestTag_def Let_def
  by (intro yields_intros yields_bindE [OF y_require_owner])
    (auto intro!: yields_intros yields_bindE [OF y_manifest] y_put_tag split: option.splits)

lemma y_delete_manifest: "yields inv (deleteManifest obj A) (\<lambda>_. True)"
  unfolding deleteManifest_def Let_def
  by (intro yields_intros yields_bindE [OF y_require_owner])
    (auto intro!: yields_intros yields_bindE [OF y_delete] yields_ignore [OF y_tombstone] split: option.splits)

lemma y_delete_tag_obj: "yields inv (deleteTag obj A) (\<lambda>_. True)"
  unfolding deleteTag_def Let_def
  by (intro yields_intros yields_bindE [OF y_require_owner])
    (auto intro!: yields_intros y_delete_tag split: option.splits)

lemma y_ingest_blob: "yields inv (ingestBlobRef w cfg obj A) (\<lambda>_. True)"
  unfolding ingestBlobRef_def Let_def
  by (intro yields_intros yields_bindE [OF y_peer_blob] yields_bindE [OF y_blob] y_replicate TrueI)

lemma y_followed: "yields inv (isFollowed A) (\<lambda>_. True)"
  unfolding isFollowed_def GetFollow_def
  by (rule yields_handle [OF read_only]) (auto intro!: yields_intros split: option.splits)

text \<open>Every content activity of the actor whose object is not left to a package adapter.\<close>

lemma content_with_adapters:
  assumes "ra_actor act = A"
    and "\<And>obj ingest kind. ra_object act = JObj obj \<Longrightarrow> adapters (jstr obj ''type'') = Some ingest \<Longrightarrow>
      yields inv (ingest kind (jstr obj ''type'') obj A) (\<lambda>_. True)"
  shows "yields inv (processCreate w cfg adapters act) (\<lambda>_. True)"
    and "yields inv (processUpdate w cfg adapters act) (\<lambda>_. True)"
    and "yields inv (processAnnounce w cfg adapters act) (\<lambda>_. True)"
    and "yields inv (processDelete w cfg adapters act) (\<lambda>_. True)"
proof -
  have m: "yields inv (modify (\<lambda>s. s\<lparr>invalidated := invalidated s @ [A]\<rparr>)) (\<lambda>_. True)"
    by (rule yields_modify) (simp add: cache_ok_def)
  have a: "yields inv (run_adapter adapters kind obj A) (\<lambda>_. True)" if "ra_object act = JObj obj" for kind obj
    using assms(2) [OF that] unfolding run_adapter_def Let_def by (auto intro!: yields_intros split: option.split)
  note rules = yields_intros y_ingest_manifest y_ingest_tag y_ingest_blob y_delete_manifest y_delete_tag_obj m a
  show "yields inv (processCreate w cfg adapters act) (\<lambda>_. True)"
    "yields inv (processUpdate w cfg adapters act) (\<lambda>_. True)"
    "yields inv (processAnnounce w cfg adapters act) (\<lambda>_. True)"
    "yields inv (processDelete w cfg adapters act) (\<lambda>_. True)"
    unfolding processCreate_def processUpdate_def processAnnounce_def processDelete_def requireFollowed_def assms(1)
    by (cases "ra_object act"; auto intro!: yields_bindE [OF y_followed] rules)+
qed

lemma content_keeps:
  assumes "ra_actor act = A" and "oci_only adapters act"
  shows "yields inv (processCreate w cfg adapters act) (\<lambda>_. True)"
    and "yields inv (processUpdate w cfg adapters act) (\<lambda>_. True)"
    and "yields inv (processAnnounce w cfg adapters act) (\<lambda>_. True)"
    and "yields inv (processDelete w cfg adapters act) (\<lambda>_. True)"
  by (rule content_with_adapters [OF assms(1)]; use assms(2) in \<open>simp add: oci_only_def\<close>)+

end

end
