(* ===== verification/Inbox_Safety.thy ===== *)
theory Inbox_Safety
  imports Inbox_Content
begin

text \<open>
  What a remote actor can and cannot do through the content activities of \<open>inbox_content.go\<close>. Two
  invariants meet the contract \<open>owner_scoped\<close>: \<open>isolated\<close> (the rows of other owners do not change)
  and \<open>provenance\<close> (where new rows come from).
\<close>


section \<open>Isolation\<close>

text \<open>
  What belongs to others: the packages with an id in \<open>F\<close>, their versions and tags, and the
  files of those versions.
\<close>

definition foreign_view :: "int set \<Rightarrow> tables \<Rightarrow>
    Package list \<times> PackageVersion list \<times> PackageTag list \<times> PackageFile list" where
  "foreign_view F t = (filter (\<lambda>p. pkg_id p \<in> F) (packages t),
     filter (\<lambda>v. ver_package v \<in> F) (package_versions t),
     filter (\<lambda>g. tag_package g \<in> F) (package_tags t),
     filter (\<lambda>f. file_version f \<in> ver_id ` set (filter (\<lambda>v. ver_package v \<in> F) (package_versions t)))
       (package_files t))"

definition foreign_ids :: "string \<Rightarrow> tables \<Rightarrow> int set" where
  "foreign_ids owner t = pkg_id ` {p \<in> set (packages t). pkg_owner p \<noteq> owner}"

definition isolated :: "string \<Rightarrow> tables \<Rightarrow> tables \<Rightarrow> bool" where
  "isolated owner t0 t \<longleftrightarrow> wf_tables t0 \<and> wf_tables t \<and>
     foreign_view (foreign_ids owner t0) t = foreign_view (foreign_ids owner t0) t0"

lemma isolated_refl: "wf_tables t \<Longrightarrow> isolated owner t t"
  by (simp add: isolated_def)

lemma filter_upsert:
  assumes "\<And>r. p r \<Longrightarrow> \<not> Q r \<and> \<not> Q (f r)" and "\<not> Q new"
  shows "filter Q (upsert_where p f new rows) = filter Q rows"
proof -
  have "filter Q (map (\<lambda>r. if p r then f r else r) rows) = filter Q rows"
    using assms(1) by (induction rows) auto
  with assms(2) show ?thesis by (simp add: upsert_where_def)
qed

lemma filter_insert_ignore: "\<not> Q new \<Longrightarrow> filter Q (insert_ignore p new rows) = filter Q rows"
  unfolding insert_ignore_def by simp

lemma filter_delete_where:
  "(\<And>r. r \<in> set rows \<Longrightarrow> p r \<Longrightarrow> \<not> Q r) \<Longrightarrow> filter Q (delete_where p rows) = filter Q rows"
  unfolding delete_where_def by (induction rows) auto

lemma isolated_views:
  assumes "isolated owner t0 t"
  shows "filter (\<lambda>p. pkg_id p \<in> foreign_ids owner t0) (packages t) = filter (\<lambda>p. pkg_id p \<in> foreign_ids owner t0) (packages t0)"
    and "filter (\<lambda>v. ver_package v \<in> foreign_ids owner t0) (package_versions t) =
      filter (\<lambda>v. ver_package v \<in> foreign_ids owner t0) (package_versions t0)"
  using assms unfolding isolated_def foreign_view_def by (simp_all only: prod.inject)

lemma foreign_package:
  assumes "isolated owner t0 t" and "p \<in> set (packages t)" and "pkg_id p \<in> foreign_ids owner t0"
  shows "pkg_owner p \<noteq> owner"
proof -
  have "p \<in> set (filter (\<lambda>p. pkg_id p \<in> foreign_ids owner t0) (packages t))"
    using assms(2,3) by simp
  then have "p \<in> set (packages t0)" unfolding isolated_views(1) [OF assms(1)] by simp
  moreover obtain q where "q \<in> set (packages t0)" "pkg_owner q \<noteq> owner" "pkg_id p = pkg_id q"
    using assms(3) by (auto simp: foreign_ids_def)
  moreover have "distinct (map pkg_id (packages t0))"
    using assms(1) by (simp add: isolated_def wf_tables_def pkgs.fresh_def)
  ultimately show ?thesis by (metis map_eq_inj_on)
qed

lemma foreign_lt:
  assumes "isolated owner t0 t" and "i \<in> foreign_ids owner t0"
  shows "i < seq_packages t"
proof -
  obtain q where q: "q \<in> set (packages t0)" "pkg_id q = i"
    using assms(2) by (auto simp: foreign_ids_def)
  then have "q \<in> set (filter (\<lambda>p. pkg_id p \<in> foreign_ids owner t0) (packages t0))" using assms(2) by simp
  then have "q \<in> set (packages t)" unfolding isolated_views(1) [OF assms(1), symmetric] by simp
  with assms(1) q(2) show ?thesis by (auto simp: isolated_def wf_tables_def pkgs.fresh_def)
qed

text \<open>A call keeps the isolation if it keeps the schema and the view.\<close>

lemma keeps_isolated:
  assumes "keeps (\<lambda>s. wf_tables (tbl s)) m"
    and "\<And>F V. F = foreign_ids owner t0 \<Longrightarrow> keeps (\<lambda>s. foreign_view F (tbl s) = V) m"
  shows "keeps (\<lambda>s. isolated owner t0 (tbl s)) m"
  using assms(1) assms(2) [OF refl, of "foreign_view (foreign_ids owner t0) t0"]
  unfolding isolated_def keeps_def by simp

lemma view_upsert_version:
  assumes "ver_package v \<notin> F"
  shows "foreign_view F (upsert_version v c t) = foreign_view F t"
proof -
  have "filter (\<lambda>r. ver_package r \<in> F) (package_versions (upsert_version v c t)) =
      filter (\<lambda>r. ver_package r \<in> F) (package_versions t)"
    unfolding upsert_version_def using assms
    by (simp del: set_filter, intro filter_upsert) (auto simp: overwrite_version_def)
  then show ?thesis
    unfolding foreign_view_def by (simp only:) (simp add: upsert_version_def)
qed

lemma view_reference:
  assumes "vid \<notin> ver_id ` set (fst (snd (foreign_view F t)))"
  shows "foreign_view F (upsert_blob_reference vid b c t) = foreign_view F t"
proof -
  let ?Q = "\<lambda>f. file_version f \<in> ver_id ` set (filter (\<lambda>v. ver_package v \<in> F) (package_versions t))"
  have "vid \<notin> ver_id ` set (filter (\<lambda>v. ver_package v \<in> F) (package_versions t))"
    using assms unfolding foreign_view_def by (simp del: set_filter)
  then have "filter ?Q (package_files (upsert_blob_reference vid b c t)) = filter ?Q (package_files t)"
    unfolding upsert_blob_reference_def
    by (simp del: set_filter) (rule filter_upsert; simp del: set_filter)
  then show ?thesis
    unfolding foreign_view_def by (simp add: upsert_blob_reference_def)
qed

lemma view_tag: "pid \<notin> F \<Longrightarrow> foreign_view F (upsert_tag pid name d c t) = foreign_view F t"
  unfolding foreign_view_def upsert_tag_def by (simp, intro filter_upsert) auto

lemma view_del_tag: "pid \<notin> F \<Longrightarrow> foreign_view F (t\<lparr>package_tags :=
     delete_where (\<lambda>r. tag_package r = pid \<and> cond r) (package_tags t)\<rparr>) = foreign_view F t"
  unfolding foreign_view_def by (simp, intro filter_delete_where) auto

lemma view_del_version:
  assumes "vers.fresh n (package_versions t)" and "v \<in> set (package_versions t)" and "ver_package v \<notin> F"
  shows "foreign_view F (t\<lparr>package_files := delete_where (\<lambda>r. file_version r = ver_id v) (package_files t),
     package_versions := delete_where (\<lambda>r. ver_id r = ver_id v) (package_versions t)\<rparr>) = foreign_view F t"
proof -
  have same: "r = v" if "r \<in> set (package_versions t)" "ver_id r = ver_id v" for r
    using assms(1,2) that map_eq_inj_on by (auto simp: vers.fresh_def)
  with assms(3) have v: "filter (\<lambda>v. ver_package v \<in> F) (delete_where (\<lambda>r. ver_id r = ver_id v) (package_versions t)) =
      filter (\<lambda>v. ver_package v \<in> F) (package_versions t)"
    by (intro filter_delete_where) auto
  have "ver_id v \<notin> ver_id ` set (filter (\<lambda>v. ver_package v \<in> F) (package_versions t))"
    using same assms(3) by force
  then have f: "filter (\<lambda>f. file_version f \<in> ver_id ` set (filter (\<lambda>v. ver_package v \<in> F) (package_versions t)))
       (delete_where (\<lambda>r. file_version r = ver_id v) (package_files t)) =
     filter (\<lambda>f. file_version f \<in> ver_id ` set (filter (\<lambda>v. ver_package v \<in> F) (package_versions t))) (package_files t)"
    by (intro filter_delete_where) (simp only: not_False_eq_True)
  show ?thesis
    unfolding foreign_view_def by (simp add: v f del: set_filter)
qed

lemma iso_own_check:
  "yields (\<lambda>s. isolated A t0 (tbl s)) (IsRepositoryOwner rid A :: ('z store_scheme, bool) prog)
     (\<lambda>b. b \<longrightarrow> rid \<notin> foreign_ids A t0)"
proof (rule yieldsI)
  fix s s' :: "'z store_scheme" and r
  assume I: "isolated A t0 (tbl s)" and run: "IsRepositoryOwner rid A s = (r, s')"
  have t: "tbl s' = tbl s"
    using run unfolding IsRepositoryOwner_def IsPackageOwner_def
    by (cases r) (auto elim!: bindE_okE bindE_errE dest!: query_ok query_err split: option.split_asm)
  moreover have "rid \<notin> foreign_ids A t0" if "r = Inr True"
  proof
    assume f: "rid \<in> foreign_ids A t0"
    from run that obtain p where "find_where (\<lambda>r. pkg_id r = rid) (packages (tbl s)) = Some p" "pkg_owner p = A"
      unfolding IsRepositoryOwner_def IsPackageOwner_def
      by (auto elim!: bindE_okE dest!: query_ok split: option.split_asm)
    with find_where_Some [OF this(1)] foreign_package [OF I, of p] f show False by simp
  qed
  ultimately show "isolated A t0 (tbl s') \<and> (\<forall>x. r = Inr x \<longrightarrow> x \<longrightarrow> rid \<notin> foreign_ids A t0)"
    using I by auto
qed

lemma iso_create_package:
  "yields (\<lambda>s. isolated A t0 (tbl s)) (GetOrCreatePackage ty name A :: ('z store_scheme, Package) prog)
     (\<lambda>p. pkg_id p \<notin> foreign_ids A t0)"
proof (rule yieldsI)
  fix s s' :: "'z store_scheme" and r0
  assume I: "isolated A t0 (tbl s)" and g: "GetOrCreatePackage ty name A s = (r0, s')"
  have wf': "wf_tables (tbl s')"
    using wf.keeps_GetOrCreatePackage g I unfolding keeps_def isolated_def by (metis snd_conv)
  note spec = create_package_spec [of s ty name A, unfolded g prod.case]
  show "isolated A t0 (tbl s') \<and> (\<forall>p. r0 = Inr p \<longrightarrow> pkg_id p \<notin> foreign_ids A t0)"
  proof (cases r0)
    case (Inl e)
    with spec I show ?thesis by (simp add: isolated_def)
  next
    case (Inr p)
    show ?thesis
    proof (cases "find_where (\<lambda>r. (pkg_type r, pkg_name r) = (ty, name)) (packages (tbl s))")
      case (Some q0)
      with spec Inr have t: "tbl s' = tbl s" and p: "pkg_id p = pkg_id q0" "pkg_owner q0 = A" by auto
      have "q0 \<in> set (packages (tbl s))" using find_where_Some [OF Some] by simp
      with foreign_package [OF I] p t I Inr show ?thesis by auto
    next
      case None
      with spec Inr have t: "tbl s' = (tbl s)\<lparr>packages := packages (tbl s) @ [p], seq_packages := seq_packages (tbl s) + 1\<rparr>"
        and p: "pkg_id p = seq_packages (tbl s)" by (auto simp: new_package_def)
      have n: "pkg_id p \<notin> foreign_ids A t0" using foreign_lt [OF I] p by auto
      then have "foreign_view (foreign_ids A t0) (tbl s') = foreign_view (foreign_ids A t0) (tbl s)"
        unfolding t foreign_view_def by simp
      with wf' I n Inr show ?thesis by (simp add: isolated_def)
    qed
  qed
qed

lemma iso_create:
  "yields (\<lambda>s. isolated A t0 (tbl s)) (GetOrCreateRepository repo A :: ('z store_scheme, Repository) prog)
     (\<lambda>r. repo_id r \<notin> foreign_ids A t0)"
  unfolding GetOrCreateRepository_def
  by (rule yields_bindE [OF iso_create_package]) (auto intro!: yields_intros simp: packageAsRepository_def)

lemma wf_PutManifest: "keeps (\<lambda>s. wf_tables (tbl s)) (PutManifest m)"
  unfolding PutManifest_def by (intro keeps_bindE wf.keeps_PutPackageVersion keeps_ret)

lemma iso_put:
  assumes "man_repo m \<notin> foreign_ids A t0"
  shows "keeps (\<lambda>s. isolated A t0 (tbl s)) (PutManifest m)"
proof (rule keeps_isolated [OF wf_PutManifest])
  fix F V
  assume F: "F = foreign_ids A t0"
  have v: "foreign_view F (upsert_version (manifestAsVersion m) c t) = foreign_view F t" for c t
    by (rule view_upsert_version) (use assms F in \<open>simp add: manifestAsVersion_def\<close>)
  show "keeps (\<lambda>s. foreign_view F (tbl s) = V) (PutManifest m)"
    unfolding PutManifest_def PutPackageVersion_def putPackageVersion_def getPackageVersion_def Let_def
    by (intro keeps_intros) (simp_all add: v)
qed

lemma iso_manifest:
  "yields (\<lambda>s. isolated A t0 (tbl s)) (GetManifestByDigest rid d :: ('z store_scheme, Manifest option) prog)
     (\<lambda>r. rid \<notin> foreign_ids A t0 \<longrightarrow> (\<forall>m. r = Some m \<longrightarrow>
        man_id m \<notin> ver_id ` set (filter (\<lambda>v. ver_package v \<in> foreign_ids A t0) (package_versions t0))))"
proof (rule yieldsI, intro conjI allI impI notI)
  fix s s' :: "'z store_scheme" and r x m
  assume I: "isolated A t0 (tbl s)" and run: "GetManifestByDigest rid d s = (r, s')"
  show "isolated A t0 (tbl s')"
    using I run unfolding GetManifestByDigest_def GetPackageVersion_def getPackageVersion_def
    by (cases r) (auto elim!: bindE_okE bindE_errE dest!: query_ok query_err)
  assume x: "r = Inr x" "x = Some m" and mine: "rid \<notin> foreign_ids A t0"
    and f: "man_id m \<in> ver_id ` set (filter (\<lambda>v. ver_package v \<in> foreign_ids A t0) (package_versions t0))"
  from run x obtain v where "find_where (\<lambda>r. (ver_package r, ver_version r) = (rid, d)) (package_versions (tbl s)) = Some v"
    and m: "man_id m = ver_id v"
    unfolding GetManifestByDigest_def GetPackageVersion_def getPackageVersion_def
    by (cases "find_where (\<lambda>r. (ver_package r, ver_version r) = (rid, d)) (package_versions (tbl s))")
      (auto elim!: bindE_okE dest!: query_ok simp: versionAsManifest_def)
  from find_where_Some [OF this(1)] have v: "v \<in> set (package_versions (tbl s))" "ver_package v = rid" by auto
  from f m obtain u where "u \<in> set (package_versions (tbl s))" "ver_id u = ver_id v" "ver_package u \<in> foreign_ids A t0"
    unfolding isolated_views(2) [OF I, symmetric] by auto
  moreover have "distinct (map ver_id (package_versions (tbl s)))"
    using I by (simp add: isolated_def wf_tables_def vers.fresh_def)
  ultimately show False using v mine map_eq_inj_on by metis
qed

lemma iso_references:
  fixes vid :: int
  assumes "vid \<notin> ver_id ` set (filter (\<lambda>v. ver_package v \<in> foreign_ids A t0) (package_versions t0))"
  shows "keeps (\<lambda>s. isolated A t0 (tbl s)) (putBlobReferences vid refs)"
proof -
  have "wf_tables (upsert_blob_reference vid b c t)" if "wf_tables t" for b c t
    using that unfolding upsert_blob_reference_def by (intro wf.st_intros) simp_all
  then have "isolated A t0 (upsert_blob_reference vid b c t)" if "isolated A t0 t" for b c t
  proof -
    have "vid \<notin> ver_id ` set (fst (snd (foreign_view (foreign_ids A t0) t)))"
      using assms isolated_views(2) [OF that] unfolding foreign_view_def by (simp del: set_filter)
    from view_reference [OF this] that \<open>\<And>t c b. wf_tables t \<Longrightarrow> wf_tables (upsert_blob_reference vid b c t)\<close>
    show ?thesis by (simp add: isolated_def)
  qed
  then show ?thesis unfolding putBlobReferences_def by (intro keeps_intros)
qed

lemma iso_layers:
  assumes "vid \<notin> ver_id ` set (filter (\<lambda>v. ver_package v \<in> foreign_ids A t0) (package_versions t0))"
  shows "keeps (\<lambda>s. isolated A t0 (tbl s)) (PutManifestLayers vid refs)"
  unfolding PutManifestLayers_def PutBlobReferences_def using assms by (intro keeps_intros iso_references)

text \<open>A row of a package that is not foreign has no foreign id.\<close>

lemma own_version:
  assumes "isolated A t0 t" and "v \<in> set (package_versions t)" and "ver_package v \<notin> foreign_ids A t0"
  shows "ver_id v \<notin> ver_id ` set (filter (\<lambda>v. ver_package v \<in> foreign_ids A t0) (package_versions t0))"
proof
  assume "ver_id v \<in> ver_id ` set (filter (\<lambda>v. ver_package v \<in> foreign_ids A t0) (package_versions t0))"
  then obtain u where "u \<in> set (package_versions t)" "ver_id u = ver_id v" "ver_package u \<in> foreign_ids A t0"
    unfolding isolated_views(2) [OF assms(1), symmetric] by auto
  moreover have "distinct (map ver_id (package_versions t))"
    using assms(1) by (simp add: isolated_def wf_tables_def vers.fresh_def)
  ultimately show False using assms(2,3) map_eq_inj_on by metis
qed

lemma iso_with_layers:
  assumes "man_repo m \<notin> foreign_ids A t0"
  shows "keeps (\<lambda>s. isolated A t0 (tbl s)) (PutManifestWithLayers m refs :: ('z store_scheme, Manifest) prog)"
proof (rule keepsI)
  fix s :: "'z store_scheme"
  assume I: "isolated A t0 (tbl s)"
  show "isolated A t0 (tbl (snd (PutManifestWithLayers m refs s)))"
  proof (cases "PutManifestWithLayers m refs s")
    case (Pair r s')
    show ?thesis
    proof (cases r)
      case (Inl e)
      with run_tx_err [OF Pair [unfolded Inl PutManifestWithLayers_def]] Pair I show ?thesis by simp
    next
      case (Inr m')
      with Pair obtain t1 t2 u :: "'z store_scheme" and v x where
        t: "tbl t1 = tbl s" "tbl s' = tbl u" and pv: "putPackageVersion (manifestAsVersion m) t1 = (Inr v, t2)"
        and pr: "putBlobReferences (ver_id v) refs t2 = (Inr x, u)"
        by (auto elim: with_layers_ok)
      note p = putPackageVersion_ok [OF pv]
      have own: "ver_package (manifestAsVersion m) \<notin> foreign_ids A t0" using assms by (simp add: manifestAsVersion_def)
      have "wf_tables (tbl t2)"
        using keepsD [OF wf.keeps_putPackageVersion _ pv] I t(1) by (simp add: isolated_def)
      with view_upsert_version [OF own] p I t(1) have I2: "isolated A t0 (tbl t2)" by (simp add: isolated_def)
      have "v \<in> set (package_versions (tbl t2))" using p find_where_Some by metis
      moreover have "ver_package v \<notin> foreign_ids A t0" using p own by (simp add: same_content_def)
      note v = calculation this
      from keepsD [OF iso_references [OF own_version [OF I2 v]] I2 pr] t Pair show ?thesis by simp
    qed
  qed
qed

lemma iso_delete:
  assumes "rid \<notin> foreign_ids A t0"
  shows "keeps (\<lambda>s. isolated A t0 (tbl s)) (DeleteManifest rid d :: ('z store_scheme, unit) prog)"
  unfolding DeleteManifest_def DeletePackageVersion_def
proof (rule keeps_in_tx_commit)
  let ?body = "bindE (query (\<lambda>t. find_where (\<lambda>r. (ver_package r, ver_version r) = (rid, d)) (package_versions t)))
     (\<lambda>row. case row of None \<Rightarrow> ret (Abort ()) | Some v \<Rightarrow>
        bindE (exec (del_tags_of_version rid d)) (\<lambda>_. bindE (exec (del_files_of_version (ver_id v))) (\<lambda>_.
        bindE (exec (del_version_row (ver_id v))) (\<lambda>_. ret (Commit ())))))"
  fix s u :: "'z store_scheme" and x
  assume I: "isolated A t0 (tbl s)" and run: "?body s = (Inr (Commit x), u)"
  have "keeps (\<lambda>s. wf_tables (tbl s)) ?body"
    unfolding del_tags_of_version_def del_files_of_version_def del_version_row_def
    by (intro keeps_intros wf.st_intros)
  with I run have wf: "wf_tables (tbl u)" by (auto simp: isolated_def dest: keepsD)
  from run obtain v where v: "find_where (\<lambda>r. (ver_package r, ver_version r) = (rid, d)) (package_versions (tbl s)) = Some v"
    and t: "tbl u = (tbl s)\<lparr>package_tags := delete_where (\<lambda>r. tag_package r = rid \<and> tag_version r = d) (package_tags (tbl s)),
      package_files := delete_where (\<lambda>r. file_version r = ver_id v) (package_files (tbl s)),
      package_versions := delete_where (\<lambda>r. ver_id r = ver_id v) (package_versions (tbl s))\<rparr>"
    by (auto elim!: bindE_okE dest!: query_ok exec_ok split: option.split_asm
        simp: del_tags_of_version_def del_files_of_version_def del_version_row_def)
  let ?t = "(tbl s)\<lparr>package_tags := delete_where (\<lambda>r. tag_package r = rid \<and> tag_version r = d) (package_tags (tbl s))\<rparr>"
  have "vers.fresh (seq_versions (tbl s)) (package_versions (tbl s))" using I by (simp add: isolated_def wf_tables_def)
  then have "foreign_view (foreign_ids A t0) (tbl u) = foreign_view (foreign_ids A t0) ?t"
    using find_where_Some [OF v] assms view_del_version [of _ ?t v "foreign_ids A t0"] by (simp add: t)
  then show "isolated A t0 (tbl u)"
    using I wf view_del_tag [OF assms] by (simp add: isolated_def)
qed

lemma iso_put_tag: "rid \<notin> foreign_ids A t0 \<Longrightarrow> keeps (\<lambda>s. isolated A t0 (tbl s)) (PutTag rid tag d)"
proof (rule keeps_isolated)
  show "keeps (\<lambda>s. wf_tables (tbl s)) (PutTag rid tag d)" unfolding PutTag_def by (rule wf.keeps_PutPackageTag)
qed (unfold PutTag_def PutPackageTag_def, intro keeps_intros, simp add: view_tag)

lemma iso_delete_tag: "rid \<notin> foreign_ids A t0 \<Longrightarrow> keeps (\<lambda>s. isolated A t0 (tbl s)) (DeleteTag rid tag)"
proof (rule keeps_isolated)
  show "keeps (\<lambda>s. wf_tables (tbl s)) (DeleteTag rid tag)" unfolding DeleteTag_def by (rule wf.keeps_DeletePackageTag)
qed (unfold DeleteTag_def DeletePackageTag_def, intro keeps_intros, simp add: view_del_tag)

text \<open>Statements on the other tables.\<close>

lemma iso_others:
  "keeps (\<lambda>s. isolated A t0 (tbl s)) (RecordDeletedManifest d repo B)"
  "keeps (\<lambda>s. isolated A t0 (tbl s)) (PutPeerBlob B d ep)"
  "keeps (\<lambda>s. isolated A t0 (tbl s)) (PutBlob d sz mt st)"
proof -
  show "keeps (\<lambda>s. isolated A t0 (tbl s)) (RecordDeletedManifest d repo B)"
    unfolding RecordDeletedManifest_def
    by (rule keeps_isolated, rule wf.keeps_RecordDeletedVersion)
      (unfold RecordDeletedVersion_def insert_tombstone_def, intro keeps_intros, simp add: foreign_view_def)
  show "keeps (\<lambda>s. isolated A t0 (tbl s)) (PutPeerBlob B d ep)"
    by (rule keeps_isolated, rule wf.keeps_PutPeerBlob) (unfold PutPeerBlob_def, intro keeps_intros, simp add: foreign_view_def)
  show "keeps (\<lambda>s. isolated A t0 (tbl s)) (PutBlob d sz mt st)"
    by (rule keeps_isolated, rule wf.keeps_PutBlob) (unfold PutBlob_def, intro keeps_intros, simp add: foreign_view_def)
qed

interpretation iso: owner_scoped w A "isolated A t0" "\<lambda>i. i \<notin> foreign_ids A t0"
    "\<lambda>i. i \<notin> ver_id ` set (filter (\<lambda>v. ver_package v \<in> foreign_ids A t0) (package_versions t0))" for w A t0
  by unfold_locales
    (rule iso_own_check iso_create iso_put iso_layers iso_delete iso_put_tag iso_delete_tag iso_others
      yields_weaken [OF iso_manifest]; simp del: set_filter)+

section \<open>Provenance\<close>

text \<open>
  What the tables may hold beyond the rows of \<open>t0\<close>: OCI repositories the actor owns inside a
  namespace it may use, and manifests that name the actor as their source and whose content, when
  there is any, has the digest they are stored under.
\<close>

definition provenance :: "world \<Rightarrow> string \<Rightarrow> tables \<Rightarrow> tables \<Rightarrow> bool" where
  "provenance w A t0 t \<longleftrightarrow>
     (\<forall>p \<in> set (packages t). p \<in> set (packages t0) \<or>
        pkg_type p = ''oci'' \<and> pkg_owner p = A \<and> repo_allowed w A (pkg_name p)) \<and>
     (\<forall>v \<in> set (package_versions t). v \<in> set (package_versions t0) \<or>
        ver_source v = Some A \<and> Digest (ver_version v) \<and>
        (ver_metadata v = '''' \<or> ''sha256:'' @ Sum256 w (ver_metadata v) = ver_version v))"

lemma provenance_refl: "provenance w A t t"
  by (simp add: provenance_def)

lemma prov_create:
  assumes "repo_allowed w A repo"
  shows "keeps (\<lambda>s. provenance w A t0 (tbl s)) (GetOrCreateRepository repo A)"
  unfolding GetOrCreateRepository_def GetOrCreatePackage_def
  by (intro keeps_intros) (use assms in \<open>auto simp: provenance_def set_insert_ignore new_package_def ociPackageType_def\<close>)

lemma prov_put:
  assumes "manifest_ok w A m"
  shows "keeps (\<lambda>s. provenance w A t0 (tbl s)) (PutManifest m)"
proof -
  have "provenance w A t0 (upsert_version (manifestAsVersion m) c t)" if "provenance w A t0 t" for c t
    using assms that
    by (fastforce simp: provenance_def upsert_version_def set_upsert_where overwrite_version_def manifestAsVersion_def manifest_ok_def
        split: if_splits)
  then show ?thesis
    unfolding PutManifest_def PutPackageVersion_def putPackageVersion_def getPackageVersion_def Let_def
    by (intro keeps_intros)
qed

lemma prov_kept: "packages t' = packages t \<Longrightarrow> set (package_versions t') \<subseteq> set (package_versions t) \<Longrightarrow>
    provenance w A t0 t \<Longrightarrow> provenance w A t0 t'"
  by (auto simp: provenance_def)

lemma prov_others:
  "keeps (\<lambda>s. provenance w A t0 (tbl s)) (PutManifestLayers vid refs)"
  "keeps (\<lambda>s. provenance w A t0 (tbl s)) (DeleteManifest rid d)"
  "keeps (\<lambda>s. provenance w A t0 (tbl s)) (PutTag rid tag d)"
  "keeps (\<lambda>s. provenance w A t0 (tbl s)) (DeleteTag rid tag)"
  "keeps (\<lambda>s. provenance w A t0 (tbl s)) (RecordDeletedManifest d repo B)"
  "keeps (\<lambda>s. provenance w A t0 (tbl s)) (PutPeerBlob B d ep)"
  "keeps (\<lambda>s. provenance w A t0 (tbl s)) (PutBlob d sz mt st)"
  unfolding PutManifestLayers_def PutBlobReferences_def putBlobReferences_def upsert_blob_reference_def
    DeleteManifest_def DeletePackageVersion_def del_tags_of_version_def del_files_of_version_def del_version_row_def
    PutTag_def PutPackageTag_def upsert_tag_def DeleteTag_def DeletePackageTag_def
    RecordDeletedManifest_def RecordDeletedVersion_def insert_tombstone_def PutPeerBlob_def PutBlob_def
  by (intro keeps_intros; rule prov_kept; auto)+

interpretation prov: owner_scoped w A "provenance w A t0" "\<lambda>_. True" "\<lambda>_. True" for w A t0
proof unfold_locales
  show "yields (\<lambda>s. provenance w A t0 (tbl s)) (IsRepositoryOwner rid A :: (fed, bool) prog) (\<lambda>b. b \<longrightarrow> True)" for rid
    unfolding IsRepositoryOwner_def IsPackageOwner_def
    by (rule yields_weaken [OF yields_keeps]) (intro keeps_intros, simp)
  show "yields (\<lambda>s. provenance w A t0 (tbl s)) (GetManifestByDigest rid d :: (fed, Manifest option) prog)
      (\<lambda>r. \<forall>m. r = Some m \<longrightarrow> True)" for rid d
    unfolding GetManifestByDigest_def GetPackageVersion_def getPackageVersion_def
    by (rule yields_weaken [OF yields_keeps]) (intro keeps_intros, simp)
qed (auto intro: prov_others prov_put yields_keeps prov_create)

section \<open>Actors that are not followed\<close>

text \<open>The four content activities as one operation.\<close>

datatype content_kind = CCreate | CUpdate | CAnnounce | CDelete

fun process_content ::
  "content_kind \<Rightarrow> world \<Rightarrow> inbox_cfg \<Rightarrow> (string \<Rightarrow> adapter option) \<Rightarrow> RawActivity \<Rightarrow> (fed, unit) prog" where
  "process_content CCreate = processCreate"
| "process_content CUpdate = processUpdate"
| "process_content CAnnounce = processAnnounce"
| "process_content CDelete = processDelete"

definition followed :: "string \<Rightarrow> tables \<Rightarrow> bool" where
  "followed A t \<longleftrightarrow> (\<exists>a \<in> set (actors t). act_url a = A \<and> act_they_follow a)"

lemma isFollowed_run:
  assumes "isFollowed A s = (r, s')"
  shows "tbl s' = tbl s \<and> db_frame s s' \<and> (\<exists>b. r = Inr b \<and> (b \<longrightarrow> followed A (tbl s)))"
proof -
  have "keeps (db_frame s) (isFollowed A)"
    unfolding isFollowed_def GetFollow_def by (rule keepsI) (auto simp: handle_def ret_def dest: keepsD [OF keeps_frame_query] split: prod.splits sum.splits option.splits)
  from keepsD [OF this _ assms] have "db_frame s s'" by simp
  moreover have "tbl s' = tbl s \<and> (\<exists>b. r = Inr b \<and> (b \<longrightarrow> followed A (tbl s)))"
  proof -
    let ?find = "\<lambda>t. find_where (\<lambda>r. act_url r = A \<and> act_they_follow r) (actors t)"
    obtain g u where g: "query ?find s = (g, u)" by (cases "query ?find s")
    with assms have run: "(case g of Inr (Some _) \<Rightarrow> ret True | _ \<Rightarrow> ret False) u = (r, s')"
      by (simp add: isFollowed_def GetFollow_def handle_def)
    show ?thesis
    proof (cases g)
      case (Inl e)
      with g run show ?thesis by (auto dest: query_err)
    next
      case (Inr x)
      note ok = query_ok [OF g [unfolded Inr]]
      show ?thesis
      proof (cases x)
        case None
        with ok run Inr show ?thesis by (auto simp: ret_def)
      next
        case (Some a)
        with ok have "find_where (\<lambda>r. act_url r = A \<and> act_they_follow r) (actors (tbl s)) = Some a" by simp
        from find_where_Some [OF this] have "followed A (tbl s)" by (auto simp: followed_def)
        moreover from run Inr Some have "r = Inr True" "s' = u" by (simp_all add: ret_def)
        ultimately show ?thesis using ok by auto
      qed
    qed
  qed
  ultimately show ?thesis by simp
qed

lemma requireFollowed_refuses:
  assumes "\<not> followed A (tbl s)" and "requireFollowed A body s = (r, s')"
  shows "r = Inl (FedError ErrNotRelevant ''not following actor'') \<and> tbl s' = tbl s \<and> db_frame s s'"
proof -
  obtain r0 u where u: "isFollowed A s = (r0, u)" by (cases "isFollowed A s")
  with isFollowed_run [OF u] assms show ?thesis
    by (auto simp: requireFollowed_def bindE_def fail_def)
qed

section \<open>Properties\<close>

text \<open>A content activity of an actor that does not follow this node is refused as not relevant and
  changes nothing at all, neither a table nor any other state of the node.\<close>

lemma unfollowed_refused:
  assumes "\<not> followed (ra_actor act) (tbl s)" and "process_content kind w cfg adapters act s = (r, s')"
  shows "r = Inl (FedError ErrNotRelevant ''not following actor'') \<and> tbl s' = tbl s \<and> db_frame s s'"
  using assms requireFollowed_refuses
  by (cases kind) (auto simp: processCreate_def processUpdate_def processAnnounce_def processDelete_def)

text \<open>C2. What a remote actor can add: after any OCI content activity every package row is an old one or
  an OCI repository owned by the actor whose name starts with a namespace the actor may use (its host,
  or a parent domain not above the registrable one), and every manifest row is an old one or has the
  actor as its source, a well-formed digest, and content that hashes to that digest.\<close>

lemma remote_provenance:
  assumes "cache_ok w s" and "oci_only adapters act"
    and "process_content kind w cfg adapters act s = (r, s')"
  shows "provenance w (ra_actor act) (tbl s) (tbl s') \<and> cache_ok w s'"
  using prov.content_keeps [OF refl assms(2), of w "tbl s" cfg, THEN yieldsD, of s r s'] assms(1,3) provenance_refl
  by (cases kind) auto

section \<open>Witnesses\<close>

text \<open>
  A node with one package of its own and the follower \<open>https://b.example/ap\<close>, in a world where URLs
  look like \<open>https://host/ap\<close>, hashing is the identity on content and no remote actor answers.
\<close>

definition demo_url :: "string \<Rightarrow> URL option" where
  "demo_url s = (if HasPrefix s ''https://'' then
     (let host = Cut_before (drop 8 s) (CHR ''/'') in
      Some \<lparr>u_scheme = ''https'', u_host = host, u_hostname = host, u_rest = drop (8 + length host) s\<rparr>) else None)"

definition demo_world :: world where
  "demo_world = \<lparr>url_Parse = demo_url, url_String = (\<lambda>u. u_scheme u @ ''://'' @ u_host u @ u_rest u),
     ParseIP = (\<lambda>_. None), ip_loopback = (\<lambda>_. False), ip_internal = (\<lambda>_. False), Fetch = (\<lambda>_ _. None),
     Sum256 = (\<lambda>c. replicate 64 (CHR ''a'')), DecodeString = (\<lambda>c. Some c), EncodeToString = (\<lambda>c. c),
     EffectiveTLDPlusOne = (\<lambda>h. Some h), UnmarshalManifest = (\<lambda>_. None), Marshal = (\<lambda>_. ''{}''),
     uuid_New = (\<lambda>n. ''u''), Post = (\<lambda>_ _. None), RFC3339 = (\<lambda>_. ''t''), allowInsecureHTTP = False, AllowPrivateIPs = False\<rparr>"

definition demo_cfg :: inbox_cfg where
  "demo_cfg = \<lparr>self_actor = ''https://a.example/ap'', maxManifestSize = 1000, maxBlobSize = 1000, autoAccept = ''none'',
     allowedDomains = [], has_worker = False, has_replicator = False, has_notifier = False, has_actor_cache = False,
     has_enqueue = True\<rparr>"

definition follower_row :: Actor where
  "follower_row = (default_actor 0 empty_tables ''https://b.example/ap'')
     \<lparr>act_endpoint := ''https://b.example'', act_they_follow := True, act_they_follow_at := Some 0, act_key := Some ''KEY''\<rparr>"

definition demo_tables :: tables where
  "demo_tables = empty_tables\<lparr>
     packages := [\<lparr>pkg_id = 1, pkg_type = ''oci'', pkg_name = ''a.example/app'', pkg_owner = ''https://a.example/ap'',
       pkg_private = False, pkg_created = 0, pkg_withdrawn = None\<rparr>], seq_packages := 2,
     package_tags := [\<lparr>tag_id = 1, tag_package = 1, tag_name = ''v1'', tag_version = ''d'', tag_updated = 0\<rparr>], seq_tags := 2,
     actors := [follower_row], seq_actors := 2\<rparr>"

definition demo_fed :: fed where
  "demo_fed = \<lparr>faults = [], clock = 5, tbl = demo_tables, postgres = False, nsCache = [], fetchFailures = [],
     blocked_domains = [''evil.example''], blocked_actors = [], inbox_queue = NewSimpleQueue, fetches = 0, uuids = 0,
     replicated = [], notified = [], invalidated = [], direct_posts = [], woken = 0\<rparr>"

lemma wf_demo: "wf_tables demo_tables"
  using wf_empty_tables
  by (simp add: demo_tables_def wf_tables_def empty_tables_def follower_row_def default_actor_def pkgs.unique_def pkgs.fresh_def
      tgs.unique_def tgs.fresh_def acts.unique_def acts.fresh_def)

lemma cache_demo: "cache_ok w demo_fed"
  by (simp add: cache_ok_def demo_fed_def)

text \<open>The follower tries to delete a tag of a repository it does not own.\<close>

definition demo_delete :: RawActivity where
  "demo_delete = \<lparr>ra_id = ''i1'', ra_type = ''Delete'', ra_actor = ''https://b.example/ap'',
     ra_object = JObj [(''type'', JStr ''OCITag''), (''ociRepository'', JStr ''a.example/app''), (''ociTag'', JStr ''v1'')]\<rparr>"

text \<open>It creates a manifest in its own namespace.\<close>

definition demo_create :: RawActivity where
  "demo_create = \<lparr>ra_id = ''i2'', ra_type = ''Create'', ra_actor = ''https://b.example/ap'',
     ra_object = JObj [(''type'', JStr ''OCIManifest''), (''ociRepository'', JStr ''b.example/lib''),
       (''ociDigest'', JStr (''sha256:'' @ replicate 64 (CHR ''a''))), (''ociMediaType'', JStr ''application/json''),
       (''ociSize'', JNum 7), (''ociContent'', JStr ''content''), (''ociTag'', JStr ''latest'')]\<rparr>"

lemma remote_provenance_witness:
  "fst (process_content CCreate demo_world demo_cfg (\<lambda>_. None) demo_create demo_fed) = Inr () \<and>
   map pkg_name (packages (tbl (snd (process_content CCreate demo_world demo_cfg (\<lambda>_. None) demo_create demo_fed)))) =
     [''a.example/app'', ''b.example/lib''] \<and>
   provenance demo_world ''https://b.example/ap'' demo_tables
     (tbl (snd (process_content CCreate demo_world demo_cfg (\<lambda>_. None) demo_create demo_fed)))"
proof -
  let ?p = "process_content CCreate demo_world demo_cfg (\<lambda>_. None) demo_create demo_fed"
  have "case ?p of (r, s) \<Rightarrow> r = Inr () \<and> map pkg_name (packages (tbl s)) = [''a.example/app'', ''b.example/lib'']" by code_simp
  then have 1: "fst ?p = Inr ()" and 2: "map pkg_name (packages (tbl (snd ?p))) = [''a.example/app'', ''b.example/lib'']"
    by (simp_all add: case_prod_beta)
  have "tbl demo_fed = demo_tables" "ra_actor demo_create = ''https://b.example/ap''" "oci_only (\<lambda>_. None) demo_create"
    by (simp_all add: demo_fed_def demo_create_def oci_only_def)
  with remote_provenance [of demo_world demo_fed "\<lambda>_. None" demo_create CCreate demo_cfg "fst ?p" "snd ?p"] cache_demo 1 2
  show ?thesis by simp
qed

lemma unfollowed_refused_witness:
  "fst (process_content CCreate demo_world demo_cfg (\<lambda>_. None) (demo_create\<lparr>ra_actor := ''https://c.example/ap''\<rparr>) demo_fed) =
     Inl (FedError ErrNotRelevant ''not following actor'') \<and>
   tbl (snd (process_content CCreate demo_world demo_cfg (\<lambda>_. None) (demo_create\<lparr>ra_actor := ''https://c.example/ap''\<rparr>) demo_fed)) = demo_tables"
proof -
  have "\<not> followed ''https://c.example/ap'' (tbl demo_fed)"
    by (simp add: followed_def demo_fed_def demo_tables_def follower_row_def default_actor_def)
  then have f: "\<not> followed (ra_actor (demo_create\<lparr>ra_actor := ''https://c.example/ap''\<rparr>)) (tbl demo_fed)" by simp
  obtain r s' where run: "process_content CCreate demo_world demo_cfg (\<lambda>_. None) (demo_create\<lparr>ra_actor := ''https://c.example/ap''\<rparr>) demo_fed = (r, s')"
    by (metis surj_pair)
  have "tbl demo_fed = demo_tables" by (simp add: demo_fed_def)
  with unfollowed_refused [OF f run] show ?thesis unfolding run by simp
qed

end
