(* ===== verification/Inbox.thy ===== *)
theory Inbox
  imports Inbox_Safety
begin

text \<open>
  \<open>internal/activitypub/inbox.go\<close>, \<open>inbox_follow.go\<close>, \<open>inbox_worker.go\<close> and \<open>adapter.go\<close>: the HTTP
  entry point that authenticates, filters and deduplicates activities, the follow handshake, the
  dispatch, and the registry of package adapters.

  The verification of the HTTP signature is a parameter \<open>verify\<close> (key, body); the rate limiters are a
  parameter \<open>allowed\<close> that gives their verdict for the actor. A request is what \<open>ServeHTTP\<close> reads of
  it.
\<close>

section \<open>Actor URLs\<close>

definition keyIDToActorURL :: "string \<Rightarrow> string" where
  "keyIDToActorURL keyID = Cut_before keyID (CHR ''#'')"

definition normaliseActorURL :: "world \<Rightarrow> string \<Rightarrow> string option" where
  "normaliseActorURL w raw = (case url_Parse w raw of
      None \<Rightarrow> None
    | Some u \<Rightarrow> if u_scheme u = '''' \<or> u_host u = '''' then None
        else Some (TrimRight_char (url_String w (u\<lparr>u_host := ToLower (u_host u), u_scheme := ToLower (u_scheme u)\<rparr>)) (CHR ''/'')))"

definition normaliseActorKey :: "world \<Rightarrow> string \<Rightarrow> string" where
  "normaliseActorKey w raw = (case normaliseActorURL w raw of Some n \<Rightarrow> n | None \<Rightarrow> raw)"

text \<open>\<open>""\<close> stands for an unrecognised object, which the code reports with \<open>false\<close>.\<close>

definition extractObjectType :: "json \<Rightarrow> string option" where
  "extractObjectType obj = (case obj of
      JObj v \<Rightarrow> Some (jstr v ''type'')
    | JStr _ \<Rightarrow> Some ''Follow''
    | _ \<Rightarrow> None)"

section \<open>Block lists\<close>

definition isBlocked :: "world \<Rightarrow> string \<Rightarrow> fed \<Rightarrow> bool" where
  "isBlocked w actorURL s =
     (if normaliseActorKey w actorURL \<in> set (blocked_actors s) then True
      else (case url_Parse w actorURL of
          None \<Rightarrow> False
        | Some u \<Rightarrow> list_ex (matchesDomain (u_hostname u)) (blocked_domains s)))"

definition PauseDomain :: "string \<Rightarrow> fed \<Rightarrow> fed" where
  "PauseDomain domain s = s\<lparr>blocked_domains := List.insert domain (blocked_domains s)\<rparr>"

definition ResumeDomain :: "string \<Rightarrow> fed \<Rightarrow> fed" where
  "ResumeDomain domain s = s\<lparr>blocked_domains := removeAll domain (blocked_domains s)\<rparr>"

definition PauseActor :: "world \<Rightarrow> string \<Rightarrow> fed \<Rightarrow> fed" where
  "PauseActor w actorURL s = s\<lparr>blocked_actors := List.insert (normaliseActorKey w actorURL) (blocked_actors s)\<rparr>"

definition ResumeActor :: "world \<Rightarrow> string \<Rightarrow> fed \<Rightarrow> fed" where
  "ResumeActor w actorURL s = s\<lparr>blocked_actors := removeAll (normaliseActorKey w actorURL) (blocked_actors s)\<rparr>"

definition BlockedDomains :: "fed \<Rightarrow> string list" where
  "BlockedDomains s = sort (remdups (blocked_domains s))"

definition BlockedActors :: "fed \<Rightarrow> string list" where
  "BlockedActors s = sort (remdups (blocked_actors s))"

section \<open>Keys of remote actors\<close>

definition checkActorDomainAllowed :: "world \<Rightarrow> inbox_cfg \<Rightarrow> string \<Rightarrow> bool" where
  "checkActorDomainAllowed w cfg actorURL =
     (if allowedDomains cfg = [] then True
      else (case url_Parse w actorURL of
          None \<Rightarrow> False
        | Some u \<Rightarrow> list_ex (matchesDomain (u_hostname u)) (allowedDomains cfg)))"

definition doFetchActorKey :: "world \<Rightarrow> inbox_cfg \<Rightarrow> string \<Rightarrow> (fed, string) prog" where
  "doFetchActorKey w cfg actorURL =
     (if \<not> checkActorDomainAllowed w cfg actorURL then fail (Errorf ''actor domain not in allowed list'')
      else bindE (gets fetchFailures) (\<lambda>failed.
        if actorURL \<in> set failed then fail (Errorf ''actor recently failed to fetch (cached)'')
        else handle (FetchActor w actorURL) (\<lambda>r. case r of
            Inl e \<Rightarrow> bindE (modify (\<lambda>s. s\<lparr>fetchFailures := List.insert actorURL (fetchFailures s)\<rparr>)) (\<lambda>_. fail e)
          | Inr actor \<Rightarrow>
              if fa_key_owner actor \<noteq> '''' \<and> normaliseActorURL w (fa_key_owner actor) \<noteq> Some actorURL
              then fail (Errorf ''public key owner does not match'')
              else ret (fa_key_pem actor))))"

definition fetchActorPublicKey :: "world \<Rightarrow> inbox_cfg \<Rightarrow> string \<Rightarrow> (fed, string) prog" where
  "fetchActorPublicKey w cfg actorURL =
     handle (GetFollow actorURL) (\<lambda>f.
       let pk = (case f of Inr a \<Rightarrow> GetPublicKeyPEM a | Inl _ \<Rightarrow> '''') in
       if pk \<noteq> '''' then ret pk
       else handle (GetFollowRequest actorURL) (\<lambda>r. case r of
           Inr (Some fr) \<Rightarrow> if fr_key fr \<noteq> '''' then ret (fr_key fr) else doFetchActorKey w cfg actorURL
         | _ \<Rightarrow> doFetchActorKey w cfg actorURL))"

definition refetchActorPublicKey :: "world \<Rightarrow> inbox_cfg \<Rightarrow> string \<Rightarrow> (fed, string) prog" where
  "refetchActorPublicKey w cfg actorURL = doFetchActorKey w cfg actorURL"

section \<open>The follow handshake\<close>

definition followGone :: "string \<Rightarrow> (fed, bool) prog" where
  "followGone actorURL = handle (GetFollow actorURL) (\<lambda>f. case f of
      Inr (Some _) \<Rightarrow> ret False
    | _ \<Rightarrow> handle (GetFollowRequest actorURL) (\<lambda>r. case r of
          Inr (Some _) \<Rightarrow> ret False
        | _ \<Rightarrow> ret True))"

definition domain_accepts :: "world \<Rightarrow> inbox_cfg \<Rightarrow> string \<Rightarrow> bool" where
  "domain_accepts w cfg actorURL = (case url_Parse w actorURL of
      None \<Rightarrow> False
    | Some u \<Rightarrow> list_ex (matchesDomain (u_hostname u)) (allowedDomains cfg))"

definition shouldAutoAccept :: "world \<Rightarrow> inbox_cfg \<Rightarrow> string \<Rightarrow> (fed, bool) prog" where
  "shouldAutoAccept w cfg actorURL =
     (if autoAccept cfg = ''all'' then ret True
      else if autoAccept cfg = ''mutual'' then
        handle (GetOutgoingFollow actorURL) (\<lambda>r. case r of
            Inr a \<Rightarrow> if HasPendingOrAcceptedOutgoingFollow a then ret True else ret (domain_accepts w cfg actorURL)
          | Inl _ \<Rightarrow> ret (domain_accepts w cfg actorURL))
      else ret (domain_accepts w cfg actorURL))"

definition notify_pending :: "inbox_cfg \<Rightarrow> string \<Rightarrow> (fed, unit) prog" where
  "notify_pending cfg actorURL =
     (if has_notifier cfg then modify (\<lambda>s. s\<lparr>notified := notified s @ [actorURL]\<rparr>) else ret ())"

definition processFollow :: "world \<Rightarrow> inbox_cfg \<Rightarrow> RawActivity \<Rightarrow> string \<Rightarrow> (fed, unit) prog" where
  "processFollow w cfg act pubKeyPEM = (case ra_object act of
      JStr target \<Rightarrow>
        if target \<noteq> self_actor cfg then fail (Errorf ''follow target mismatch'')
        else if ra_actor act = self_actor cfg then fail (Errorf ''cannot follow yourself'')
        else handle (FetchActor w (ra_actor act)) (\<lambda>r.
          let alias = (case r of Inr a \<Rightarrow> if ActorAlias w a \<noteq> '''' then Some (ActorAlias w a) else None | Inl _ \<Rightarrow> None) in
          bindE (AddFollowRequest (ra_actor act) pubKeyPEM (EndpointFromActorURL w (ra_actor act)) alias) (\<lambda>_.
          bindE (shouldAutoAccept w cfg (ra_actor act)) (\<lambda>auto.
          if \<not> auto then notify_pending cfg (ra_actor act)
          else handle (AcceptFollowRequest (ra_actor act)) (\<lambda>a. case a of
              Inl _ \<Rightarrow> notify_pending cfg (ra_actor act)
            | Inr _ \<Rightarrow> ignore (SendAccept w (self_actor cfg) (has_enqueue cfg) (ra_actor act))))))
    | _ \<Rightarrow> fail (Errorf ''invalid Follow object''))"

definition processAccept :: "world \<Rightarrow> inbox_cfg \<Rightarrow> RawActivity \<Rightarrow> (fed, unit) prog" where
  "processAccept w cfg act = (case extractObjectType (ra_object act) of
      None \<Rightarrow> fail (Errorf ''invalid Accept object'')
    | Some followType \<Rightarrow>
        if followType \<noteq> ''Follow'' then ret ()
        else handle (GetOutgoingFollow (ra_actor act)) (\<lambda>outgoing. case outgoing of
            Inl _ \<Rightarrow> ret ()
          | Inr a \<Rightarrow>
              if \<not> HasPendingOutgoingFollow a then ret ()
              else bindE (ignore (AcceptOutgoingFollow (ra_actor act))) (\<lambda>_.
                if autoAccept cfg = ''mutual'' then
                  handle (GetFollowRequest (ra_actor act)) (\<lambda>fr. case fr of
                      Inr (Some _) \<Rightarrow> handle (AcceptFollowRequest (ra_actor act)) (\<lambda>r. case r of
                          Inl _ \<Rightarrow> ret ()
                        | Inr _ \<Rightarrow> ignore (SendAccept w (self_actor cfg) (has_enqueue cfg) (ra_actor act)))
                    | _ \<Rightarrow> ret ())
                else ret ())))"

definition processReject :: "RawActivity \<Rightarrow> (fed, unit) prog" where
  "processReject act =
     (if extractObjectType (ra_object act) \<noteq> Some ''Follow'' then ret ()
      else bindE (ignore (RejectOutgoingFollow (ra_actor act))) (\<lambda>_.
           ignore (RejectFollowRequest (ra_actor act))))"

definition same_actor :: "world \<Rightarrow> string \<Rightarrow> string \<Rightarrow> bool" where
  "same_actor w a b = (case (normaliseActorURL w a, normaliseActorURL w b) of (Some x, Some y) \<Rightarrow> x = y | _ \<Rightarrow> False)"

definition processUndo :: "world \<Rightarrow> inbox_cfg \<Rightarrow> RawActivity \<Rightarrow> (fed, unit) prog" where
  "processUndo w cfg act = (case ra_object act of
      JObj obj \<Rightarrow>
        if jstr obj ''type'' \<noteq> ''Follow'' then ret ()
        else if jstr obj ''actor'' \<noteq> '''' \<and> \<not> same_actor w (jstr obj ''actor'') (ra_actor act) then ret ()
        else if jstr obj ''object'' \<noteq> '''' \<and> \<not> same_actor w (jstr obj ''object'') (self_actor cfg) then ret ()
        else ignore (RemoveFollow (ra_actor act))
    | _ \<Rightarrow> ret ())"

section \<open>Dispatch and worker\<close>

definition dispatch :: "world \<Rightarrow> inbox_cfg \<Rightarrow> (string \<Rightarrow> adapter option) \<Rightarrow> InboxTask \<Rightarrow> (fed, unit) prog" where
  "dispatch w cfg adapters task = (let act = task_activity task in
     if ra_type act = ''Follow'' then processFollow w cfg act (task_key task)
     else if ra_type act = ''Accept'' then processAccept w cfg act
     else if ra_type act = ''Reject'' then processReject act
     else if ra_type act = ''Undo'' then processUndo w cfg act
     else if ra_type act = ''Create'' then processCreate w cfg adapters act
     else if ra_type act = ''Update'' then processUpdate w cfg adapters act
     else if ra_type act = ''Announce'' then processAnnounce w cfg adapters act
     else if ra_type act = ''Delete'' then processDelete w cfg adapters act
     else ret ())"

definition inboxQueueSize :: int where "inboxQueueSize = 256"

definition Enqueue :: "InboxTask \<Rightarrow> (fed, bool) prog" where
  "Enqueue task = (\<lambda>s. case TryPush task inboxQueueSize (inbox_queue s) of
      (ok, q') \<Rightarrow> (Inr ok, s\<lparr>inbox_queue := q'\<rparr>))"

definition worker_process :: "world \<Rightarrow> inbox_cfg \<Rightarrow> (string \<Rightarrow> adapter option) \<Rightarrow> InboxTask \<Rightarrow> (fed, unit) prog" where
  "worker_process w cfg adapters task = ignore (dispatch w cfg adapters task)"

text \<open>Draining pops until the queue is empty; handlers do not push, so its length is fuel enough.\<close>

fun worker_drain :: "nat \<Rightarrow> world \<Rightarrow> inbox_cfg \<Rightarrow> (string \<Rightarrow> adapter option) \<Rightarrow> (fed, unit) prog" where
  "worker_drain 0 w cfg adapters = ret ()"
| "worker_drain (Suc n) w cfg adapters = (\<lambda>s. case Pop (inbox_queue s) of
      (None, q') \<Rightarrow> (Inr (), s\<lparr>inbox_queue := q'\<rparr>)
    | (Some task, q') \<Rightarrow> bindE (worker_process w cfg adapters task) (\<lambda>_. worker_drain n w cfg adapters) (s\<lparr>inbox_queue := q'\<rparr>))"

section \<open>The HTTP entry point\<close>

record inbox_request =
  rq_method :: string
  rq_content_type :: string
  rq_body :: "string option"
  rq_key_id :: "string option"
  rq_activity :: "RawActivity option"

definition isActivityPubContentType :: "string \<Rightarrow> bool" where
  "isActivityPubContentType ct = (let mediaType = TrimSpace (Cut_before ct (CHR '';'')) in
     mediaType = ''application/activity+json'' \<or> mediaType = ''application/ld+json'')"

text \<open>The key a request is verified with: the known one, or a freshly fetched one that differs.\<close>

definition verified_key ::
  "world \<Rightarrow> inbox_cfg \<Rightarrow> (string \<Rightarrow> string \<Rightarrow> bool) \<Rightarrow> string \<Rightarrow> string \<Rightarrow> (fed, string option) prog" where
  "verified_key w cfg verify actorURL body =
     handle (fetchActorPublicKey w cfg actorURL) (\<lambda>k. case k of
         Inl _ \<Rightarrow> ret None
       | Inr pem \<Rightarrow>
           if verify pem body then ret (Some pem)
           else handle (refetchActorPublicKey w cfg actorURL) (\<lambda>f. case f of
               Inl _ \<Rightarrow> ret None
             | Inr fresh \<Rightarrow> ret (if fresh \<noteq> pem \<and> verify fresh body then Some fresh else None)))"

text \<open>The status code of the response.\<close>

definition record_and_dispatch ::
  "world \<Rightarrow> inbox_cfg \<Rightarrow> (string \<Rightarrow> adapter option) \<Rightarrow> InboxTask \<Rightarrow> (fed, int) prog" where
  "record_and_dispatch w cfg adapters task = (let act = task_activity task in
     bindE (if ra_type act = ''Follow'' then followGone (ra_actor act) else ret False) (\<lambda>gone.
     handle (if gone then ret True
             else InsertActivityIfNew (ra_id act) (ra_type act) (ra_actor act) (task_body task)) (\<lambda>ins. case ins of
         Inl _ \<Rightarrow> ret 503
       | Inr False \<Rightarrow> ret 202
       | Inr True \<Rightarrow>
           if has_worker cfg then bindE (Enqueue task) (\<lambda>ok. ret (if ok then 202 else 503))
           else bindE (ignore (dispatch w cfg adapters task)) (\<lambda>_. ret 202))))"

definition ServeHTTP ::
  "world \<Rightarrow> inbox_cfg \<Rightarrow> (string \<Rightarrow> string \<Rightarrow> bool) \<Rightarrow> (string \<Rightarrow> bool) \<Rightarrow> (string \<Rightarrow> adapter option) \<Rightarrow>
   inbox_request \<Rightarrow> (fed, int) prog" where
  "ServeHTTP w cfg verify allowed adapters r =
     (if rq_method r \<noteq> ''POST'' then ret 405
      else if \<not> isActivityPubContentType (rq_content_type r) then ret 415
      else (case rq_body r of None \<Rightarrow> ret 400 | Some body \<Rightarrow>
      (case rq_key_id r of None \<Rightarrow> ret 401 | Some keyID \<Rightarrow>
      (let actorURL = keyIDToActorURL keyID in
       bindE (gets (isBlocked w actorURL)) (\<lambda>blocked.
       if blocked then ret 202
       else bindE (verified_key w cfg verify actorURL body) (\<lambda>key. case key of None \<Rightarrow> ret 401 | Some pem \<Rightarrow>
       (case rq_activity r of None \<Rightarrow> ret 400 | Some act \<Rightarrow>
       (case (normaliseActorURL w (ra_actor act), normaliseActorURL w actorURL) of
          (Some normClaimed, Some normSigned) \<Rightarrow>
            if normClaimed \<noteq> normSigned then ret 403
            else bindE (gets (isBlocked w (ra_actor act))) (\<lambda>blocked2.
              if blocked2 then ret 202
              else if \<not> allowed normClaimed then ret 429
              else if ra_id act = '''' then ret 400
              else if \<not> ActivityID (ra_id act) then ret 400
              else record_and_dispatch w cfg adapters
                \<lparr>task_activity = act, task_key = pem, task_body = body\<rparr>)
        | _ \<Rightarrow> ret 400))))))))"

section \<open>The adapter registry\<close>

record 'a AdapterRegistry =
  byAP :: "(string \<times> 'a) list"
  byPkg :: "(string \<times> 'a) list"

definition NewAdapterRegistry :: "'a AdapterRegistry" where
  "NewAdapterRegistry = \<lparr>byAP = [], byPkg = []\<rparr>"

definition reservedAPTypes :: "string list" where
  "reservedAPTypes = [''OCIManifest'', ''OCITag'', ''OCIBlob'']"

text \<open>The first object type that cannot be registered decides the error.\<close>

fun check_types :: "'a AdapterRegistry \<Rightarrow> string list \<Rightarrow> err option" where
  "check_types r [] = None"
| "check_types r (t # ts) =
     (if t \<in> set reservedAPTypes then Some (Errorf ''AP type is reserved'')
      else if map_of (byAP r) t \<noteq> None then Some (Errorf ''AP type already claimed'')
      else check_types r ts)"

definition Register :: "string \<Rightarrow> string list \<Rightarrow> 'a \<Rightarrow> 'a AdapterRegistry \<Rightarrow> err + 'a AdapterRegistry" where
  "Register packageType apTypes a r =
     (if map_of (byPkg r) packageType \<noteq> None then Inl (Errorf ''adapter already registered'')
      else (case check_types r apTypes of
          Some e \<Rightarrow> Inl e
        | None \<Rightarrow> Inr (r\<lparr>byPkg := AList.update packageType a (byPkg r),
                         byAP := fold (\<lambda>t m. AList.update t a m) apTypes (byAP r)\<rparr>)))"

definition Lookup :: "'a AdapterRegistry \<Rightarrow> string \<Rightarrow> 'a option" where
  "Lookup r apType = map_of (byAP r) apType"

section \<open>Lemmas\<close>

text \<open>What everything before the deduplication leaves alone.\<close>

definition quiet :: "fed \<Rightarrow> fed \<Rightarrow> bool" where
  "quiet s s' \<longleftrightarrow> tbl s' = tbl s \<and> inbox_queue s' = inbox_queue s \<and>
     blocked_domains s' = blocked_domains s \<and> blocked_actors s' = blocked_actors s"

lemma quiet_refl [simp]: "quiet s s"
  by (simp add: quiet_def)

lemma quiet_query [keeps_intros]: "keeps (quiet s) (query f)"
  by (rule keepsI) (auto simp: query_def bindE_def tick_def gets_def quiet_def split: list.splits sum.splits prod.splits)

lemma quiet_fetch [keeps_intros]: "keeps (quiet s) (FetchActor w u)"
  by (rule keepsI) (auto simp: FetchActor_def fail_def quiet_def split: option.splits)

lemma quiet_key: "keeps (quiet s) (doFetchActorKey w cfg u)"
  unfolding doFetchActorKey_def
  by (intro keeps_intros keeps_modify) (simp add: quiet_def)

lemma quiet_verified_key: "keeps (quiet s) (verified_key w cfg verify u body)"
  unfolding verified_key_def fetchActorPublicKey_def refetchActorPublicKey_def GetFollow_def GetFollowRequest_def Let_def
  by (intro keeps_intros quiet_key)

lemma verified_key_ok:
  "verified_key w cfg verify u body s = (Inr (Some pem), s') \<Longrightarrow> verify pem body"
  by (auto simp: verified_key_def handle_def ret_def split: prod.splits sum.splits if_splits)

lemma isBlocked_quiet: "quiet s s' \<Longrightarrow> isBlocked w u s' = isBlocked w u s"
  by (simp add: isBlocked_def quiet_def split: option.splits)

section \<open>Properties\<close>

text \<open>Authentication of the inbox: a request changes the database or the task queue only if it is a
  POST whose signature verified under some key for its body, whose key id and claimed actor normalise to
  the same URL, neither blocked, within its rate limit, and with an acceptable activity id.\<close>

lemma inbox_authenticated:
  assumes "ServeHTTP w cfg verify allowed adapters rq s = (r, s')"
    and "tbl s' \<noteq> tbl s \<or> inbox_queue s' \<noteq> inbox_queue s"
  shows "\<exists>body keyID pem act n. rq_method rq = ''POST'' \<and> rq_body rq = Some body \<and> rq_key_id rq = Some keyID \<and>
     rq_activity rq = Some act \<and> verify pem body \<and>
     normaliseActorURL w (ra_actor act) = Some n \<and> normaliseActorURL w (keyIDToActorURL keyID) = Some n \<and>
     \<not> isBlocked w (ra_actor act) s \<and> \<not> isBlocked w (keyIDToActorURL keyID) s \<and> allowed n \<and>
     ra_id act \<noteq> '''' \<and> ActivityID (ra_id act)"
proof -
  have noop: False if "r' = r \<and> s'' = s'" "quiet s s''" for r' and s''
    using that assms(2) by (auto simp: quiet_def)
  from assms obtain body keyID where 1: "rq_method rq = ''POST''" "rq_body rq = Some body" "rq_key_id rq = Some keyID"
    by (auto simp: ServeHTTP_def ret_def split: if_split_asm option.split_asm)
  let ?u = "keyIDToActorURL keyID"
  obtain k t where k: "verified_key w cfg verify ?u body s = (k, t)" by (cases "verified_key w cfg verify ?u body s")
  have t: "quiet s t" by (rule keepsD [OF quiet_verified_key _ k]) simp
  from assms 1 k t obtain pem act n where 2: "\<not> isBlocked w ?u s" "k = Inr (Some pem)" "rq_activity rq = Some act"
    "normaliseActorURL w (ra_actor act) = Some n" "normaliseActorURL w ?u = Some n"
    by (auto simp: ServeHTTP_def ret_def Let_def bindE_def gets_def quiet_def
        split: if_split_asm option.split_asm sum.split_asm)
  from assms 1 k t 2 have "\<not> isBlocked w (ra_actor act) t" "allowed n" "ra_id act \<noteq> ''''" "ActivityID (ra_id act)"
    by (auto simp: ServeHTTP_def ret_def Let_def bindE_def gets_def quiet_def split: if_split_asm)
  with 1 2 isBlocked_quiet [OF t] verified_key_ok [of w cfg verify ?u body s pem t] k show ?thesis by blast
qed

text \<open>The tables a handler leaves alone, as an invariant of its programs.\<close>

lemma keeps_actors_query [keeps_intros]: "keeps (\<lambda>s. actors (tbl s) = X) (query f)"
  by (rule keepsI) (auto simp: query_def bindE_def tick_def gets_def split: list.splits sum.splits prod.splits)

lemma keeps_actors_fetch [keeps_intros]: "keeps (\<lambda>s. actors (tbl s) = X) (FetchActor w u)"
  by (rule keepsI) (auto simp: FetchActor_def fail_def split: option.splits)

lemma keeps_actors_request [keeps_intros]: "keeps (\<lambda>s. actors (tbl s) = X) (AddFollowRequest a k e l)"
  unfolding AddFollowRequest_def
  by (rule keepsI) (auto simp: exec_def bindE_def tick_def modify_def split: list.splits sum.splits prod.splits)

lemma keeps_actors_notify [keeps_intros]: "keeps (\<lambda>s. actors (tbl s) = X) (notify_pending cfg u)"
  unfolding notify_pending_def by (intro keeps_intros keeps_modify) simp

text \<open>What lets a follow request pass without an operator.\<close>

definition auto_accepts :: "world \<Rightarrow> inbox_cfg \<Rightarrow> string \<Rightarrow> Actor list \<Rightarrow> bool" where
  "auto_accepts w cfg A rows \<longleftrightarrow> autoAccept cfg = ''all'' \<or> domain_accepts w cfg A \<or>
     autoAccept cfg = ''mutual'' \<and> (\<exists>a \<in> set rows. act_url a = A \<and> act_we_follow a \<and> HasPendingOrAcceptedOutgoingFollow (Some a))"

lemma GetOutgoingFollow_yields:
  "yields (\<lambda>s. actors (tbl s) = X) (GetOutgoingFollow A) (\<lambda>r. \<forall>a. r = Some a \<longrightarrow> a \<in> set X \<and> act_url a = A \<and> act_we_follow a)"
  unfolding GetOutgoingFollow_def
proof (rule yieldsI)
  fix s r and s' :: "'a store_scheme"
  assume X: "actors (tbl s) = X" and run: "query (\<lambda>t. find_where (\<lambda>r. act_url r = A \<and> act_we_follow r) (actors t)) s = (r, s')"
  then show "actors (tbl s') = X \<and> (\<forall>x. r = Inr x \<longrightarrow> (\<forall>a. x = Some a \<longrightarrow> a \<in> set X \<and> act_url a = A \<and> act_we_follow a))"
    by (cases r) (auto dest!: query_ok query_err dest: find_where_Some)
qed

lemma shouldAutoAccept_yields:
  "yields (\<lambda>s. actors (tbl s) = X) (shouldAutoAccept w cfg A) (\<lambda>b. b \<longrightarrow> auto_accepts w cfg A X)"
  unfolding shouldAutoAccept_def auto_accepts_def
  by (intro yields_intros yields_handle [OF GetOutgoingFollow_yields])
    (auto intro!: yields_intros simp: HasPendingOrAcceptedOutgoingFollow_def HasPendingOutgoingFollow_def
      HasAcceptedOutgoingFollow_def split: option.split_asm)

text \<open>A stranger cannot make itself a follower: unless the follow policy lets its request pass (\<open>all\<close>, an
  allowed domain, or under \<open>mutual\<close> a follow of ours that is pending or accepted), a Follow leaves the
  table of actors as it was, so the request waits for an operator.\<close>

lemma follow_needs_approval:
  assumes "\<not> auto_accepts w cfg (ra_actor act) (actors (tbl s))" and "processFollow w cfg act key s = (r, s')"
  shows "actors (tbl s') = actors (tbl s)"
proof -
  have "yields (\<lambda>u. actors (tbl u) = actors (tbl s)) (processFollow w cfg act key) (\<lambda>_. True)"
  proof (cases "ra_object act")
    case (JStr target)
    have pending: "yields (\<lambda>u. actors (tbl u) = actors (tbl s))
        (bindE (shouldAutoAccept w cfg (ra_actor act)) (\<lambda>auto. if \<not> auto then notify_pending cfg (ra_actor act) else f auto))
        (\<lambda>_. True)" for f
      by (rule yields_bindE [OF shouldAutoAccept_yields]) (use assms(1) in \<open>auto intro: yields_keeps keeps_intros\<close>)
    show ?thesis
      unfolding processFollow_def Let_def JStr json.case
      by (intro yields_intros yields_handle [OF yields_keeps] yields_bindE [where m = "AddFollowRequest _ _ _ _", OF yields_keeps]
          pending keeps_intros)
  qed (auto simp: processFollow_def intro: yields_intros)
  from yieldsD [OF this _ assms(2)] show ?thesis by simp
qed

lemma processAccept_no_pending:
  assumes "\<And>a. a \<in> set (actors (tbl s)) \<Longrightarrow> \<not> pending_outgoing (ra_actor act) a"
    and "processAccept w cfg act s = (r, s')"
  shows "tbl s' = tbl s \<and> db_frame s s'"
proof -
  obtain g u where g: "GetOutgoingFollow (ra_actor act) s = (g, u)" by (cases "GetOutgoingFollow (ra_actor act) s")
  have u: "db_frame s u \<and> tbl u = tbl s"
    using g [unfolded GetOutgoingFollow_def] keepsD [OF keeps_frame_query _ g [unfolded GetOutgoingFollow_def], of s]
    by (cases g) (auto dest: query_ok query_err)
  have "\<not> HasPendingOutgoingFollow a" if "g = Inr a" for a
  proof -
    from g that have "a = find_where (\<lambda>r. act_url r = ra_actor act \<and> act_we_follow r) (actors (tbl s))"
      by (auto simp: GetOutgoingFollow_def dest: query_ok)
    with assms(1) show ?thesis
      by (auto simp: HasPendingOutgoingFollow_def pending_outgoing_def dest!: find_where_Some split: option.splits)
  qed
  with assms(2) g u show ?thesis
    by (cases g) (auto simp: processAccept_def handle_def ret_def fail_def split: option.splits if_splits)
qed

text \<open>An unsolicited Accept is inert: without an outgoing follow of ours to that actor that is still
  pending, an Accept changes no table and nothing else of the node.\<close>

lemma unsolicited_accept:
  assumes "list_all (\<lambda>a. \<not> pending_outgoing (ra_actor act) a) (actors (tbl s))"
    and "processAccept w cfg act s = (r, s')"
  shows "tbl s' = tbl s \<and> db_frame s s'"
  by (rule processAccept_no_pending [OF _ assms(2)]) (use assms(1) in \<open>simp add: list_all_iff\<close>)

lemma InsertActivityIfNew_known:
  assumes "InsertActivityIfNew i ty a obj s = (r, s')" and "i \<in> av_activity_id ` set (activities (tbl s))"
  shows "db_frame s s' \<and> (\<forall>b. r = Inr b \<longrightarrow> \<not> b) \<and>
    (tbl s' = tbl s \<or> tbl s' = (tbl s)\<lparr>seq_activities := seq_activities (tbl s) + 1\<rparr>)"
proof -
  have "keeps (db_frame s) (InsertActivityIfNew i ty a obj)"
    unfolding InsertActivityIfNew_def by (intro keeps_intros)
  from keepsD [OF this _ assms(1)] have "db_frame s s'" by simp
  moreover have "r = Inr b \<Longrightarrow> \<not> b" for b using assms InsertActivityIfNew_ok(1) by metis
  moreover have "tbl s' = tbl s \<or> tbl s' = (tbl s)\<lparr>seq_activities := seq_activities (tbl s) + 1\<rparr>"
    using assms unfolding InsertActivityIfNew_def
    by (cases r) (auto elim!: bindE_okE bindE_errE dest!: exec_rows_ok exec_rows_err tick_run
      simp: insert_ignore_def list_ex_iff image_iff split: if_splits)
  ultimately show ?thesis by blast
qed

lemma record_known:
  assumes "ra_type (task_activity task) \<noteq> ''Follow''"
    and "ra_id (task_activity task) \<in> av_activity_id ` set (activities (tbl s))"
    and "record_and_dispatch w cfg adapters task s = (r, s')"
  shows "r \<in> {Inr 202, Inr 503} \<and> db_frame s s' \<and>
    (tbl s' = tbl s \<or> tbl s' = (tbl s)\<lparr>seq_activities := seq_activities (tbl s) + 1\<rparr>)"
proof -
  let ?ins = "InsertActivityIfNew (ra_id (task_activity task)) (ra_type (task_activity task)) (ra_actor (task_activity task)) (task_body task)"
  obtain g u where g: "?ins s = (g, u)" by (cases "?ins s")
  from InsertActivityIfNew_known [OF g assms(2)] assms(1,3) g show ?thesis
    by (cases g) (auto simp: record_and_dispatch_def Let_def handle_def split: bool.splits)
qed

text \<open>A duplicate is acknowledged and ignored: an activity other than a Follow whose id is already
  recorded gets 202 (or 503 when the database fails), is neither queued nor processed, and changes
  nothing but the id sequence of the log.\<close>

lemma duplicate_ignored:
  assumes "ra_type (task_activity task) \<noteq> ''Follow''"
    and "ra_id (task_activity task) \<in> av_activity_id ` set (activities (tbl s))"
    and "record_and_dispatch w cfg adapters task s = (r, s')"
  shows "r \<in> {Inr 202, Inr 503} \<and> db_frame s s' \<and> inbox_queue s' = inbox_queue s \<and>
    (tbl s' = tbl s \<or> tbl s' = (tbl s)\<lparr>seq_activities := seq_activities (tbl s) + 1\<rparr>)"
  using record_known [OF assms] by (auto elim: db_frameE)

text \<open>A retry after "busy, retry later" is lost: when the task queue is full, a new activity is answered
  503, but its id is already recorded; whatever the log gains meanwhile, the same activity sent
  again is never queued.\<close>

lemma full_queue_loses:
  assumes "has_worker cfg" and "faults s = []" and "inboxQueueSize \<le> int (length (items (inbox_queue s)))"
    and "ra_type (task_activity task) \<noteq> ''Follow''"
    and "ra_id (task_activity task) \<notin> av_activity_id ` set (activities (tbl s))"
    and "record_and_dispatch w cfg adapters task s = (r, s1)"
    and "log_extends (tbl s1) (tbl s2)" and "record_and_dispatch w cfg adapters task s2 = (r2, s3)"
  shows "r = Inr 503 \<and> inbox_queue s1 = inbox_queue s \<and> inbox_queue s3 = inbox_queue s2 \<and> r2 \<in> {Inr 202, Inr 503}"
proof -
  let ?ins = "InsertActivityIfNew (ra_id (task_activity task)) (ra_type (task_activity task)) (ra_actor (task_activity task)) (task_body task)"
  obtain b u where ru: "?ins s = (Inr b, u)"
    using assms(2) by (auto simp: InsertActivityIfNew_def bindE_def exec_rows_nofault tick_def ret_def)
  have "keeps (db_frame s) ?ins" unfolding InsertActivityIfNew_def by (intro keeps_intros)
  from keepsD [OF this _ ru] ru have u: "?ins s = (Inr b, u)" "db_frame s u" by simp_all
  from InsertActivityIfNew_ok [OF u(1)] assms(5)
  have b: "b" "ra_id (task_activity task) \<in> av_activity_id ` set (activities (tbl u))" by auto
  from u(2) have "inbox_queue u = inbox_queue s" by (auto elim: db_frameE)
  with assms(1,3,4,6) u(1) b(1) have 1: "r = Inr 503" "inbox_queue s1 = inbox_queue s" "tbl s1 = tbl u"
    by (auto simp: record_and_dispatch_def Let_def handle_def Enqueue_def TryPush_def bindE_def ret_def)
  from assms(7) 1(3) b(2) have "ra_id (task_activity task) \<in> av_activity_id ` set (activities (tbl s2))"
    by (auto simp: log_extends_def)
  from record_known [OF assms(4) this assms(8)] 1 show ?thesis by (auto elim: db_frameE)
qed

section \<open>The registry of adapters\<close>

lemma check_types_None:
  "check_types r ts = None \<longleftrightarrow> (\<forall>t \<in> set ts. t \<notin> set reservedAPTypes \<and> map_of (byAP r) t = None)"
  by (induction ts) auto

lemma map_of_fold_update:
  "map_of (fold (\<lambda>t m. AList.update t a m) ts m) k = (if k \<in> set ts then Some a else map_of m k)"
  by (induction ts arbitrary: m) (auto simp: update_conv')

definition registrable :: "string \<Rightarrow> string list \<Rightarrow> 'a AdapterRegistry \<Rightarrow> bool" where
  "registrable pkgType ts r \<longleftrightarrow> map_of (byPkg r) pkgType = None \<and>
     list_all (\<lambda>t. t \<notin> set reservedAPTypes \<and> Lookup r t = None) ts"

text \<open>A registered adapter serves exactly its own object types and takes nobody else's: a registration
  is refused exactly when its package type is taken or one of its object types is reserved for OCI or
  already served, and otherwise lookup gives the new adapter for its types and the old answer for
  every other type.\<close>

lemma Register_Lookup:
  "case Register pkgType ts a r of
     Inr r' \<Rightarrow> registrable pkgType ts r \<and> Lookup r' t = (if t \<in> set ts then Some a else Lookup r t)
   | Inl _ \<Rightarrow> \<not> registrable pkgType ts r"
proof (cases "check_types r ts")
  case None
  then have "\<forall>t \<in> set ts. t \<notin> set reservedAPTypes \<and> map_of (byAP r) t = None"
    using check_types_None [of r ts] by simp
  with None show ?thesis
    by (auto simp: Register_def registrable_def Lookup_def map_of_fold_update list_all_iff)
next
  case (Some e)
  then have "\<not> (\<forall>t \<in> set ts. t \<notin> set reservedAPTypes \<and> map_of (byAP r) t = None)"
    using check_types_None [of r ts] by simp
  with Some show ?thesis by (auto simp: Register_def registrable_def Lookup_def list_all_iff)
qed

section \<open>Witnesses\<close>

definition demo_request :: inbox_request where
  "demo_request = \<lparr>rq_method = ''POST'', rq_content_type = ''application/activity+json; charset=utf-8'', rq_body = Some ''{}'',
     rq_key_id = Some ''https://b.example/ap#main-key'', rq_activity = Some demo_create\<rparr>"

definition demo_task :: InboxTask where
  "demo_task = \<lparr>task_activity = demo_create, task_key = ''KEY'', task_body = ''{}''\<rparr>"

definition demo_follow :: RawActivity where
  "demo_follow = \<lparr>ra_id = ''f1'', ra_type = ''Follow'', ra_actor = ''https://c.example/ap'', ra_object = JStr ''https://a.example/ap''\<rparr>"

definition demo_accept :: RawActivity where
  "demo_accept = \<lparr>ra_id = ''f2'', ra_type = ''Accept'', ra_actor = ''https://c.example/ap'', ra_object = JStr ''https://c.example/f''\<rparr>"

text \<open>A node whose task queue is full.\<close>

definition busy_fed :: fed where
  "busy_fed = demo_fed\<lparr>inbox_queue := \<lparr>items = replicate 256 demo_task\<rparr>\<rparr>"

lemma follow_needs_approval_witness:
  "fst (processFollow demo_world demo_cfg demo_follow ''K'' demo_fed) = Inr () \<and>
   actors (tbl (snd (processFollow demo_world demo_cfg demo_follow ''K'' demo_fed))) = actors demo_tables \<and>
   map fr_url (follow_requests (tbl (snd (processFollow demo_world demo_cfg demo_follow ''K'' demo_fed)))) = [''https://c.example/ap'']"
proof -
  let ?p = "processFollow demo_world demo_cfg demo_follow ''K'' demo_fed"
  have "case ?p of (r, s) \<Rightarrow> r = Inr () \<and> map fr_url (follow_requests (tbl s)) = [''https://c.example/ap'']" by code_simp
  then have 1: "fst ?p = Inr ()" and 2: "map fr_url (follow_requests (tbl (snd ?p))) = [''https://c.example/ap'']"
    by (simp_all add: case_prod_beta)
  have "\<not> auto_accepts demo_world demo_cfg (ra_actor demo_follow) (actors (tbl demo_fed))"
    by (simp add: auto_accepts_def domain_accepts_def demo_cfg_def split: option.splits)
  from follow_needs_approval [OF this, of "''K''" "fst ?p" "snd ?p"] 1 2 show ?thesis by (simp add: demo_fed_def)
qed

lemma unsolicited_accept_witness:
  "fst (processAccept demo_world demo_cfg demo_accept demo_fed) = Inr () \<and>
   tbl (snd (processAccept demo_world demo_cfg demo_accept demo_fed)) = demo_tables"
proof -
  let ?p = "processAccept demo_world demo_cfg demo_accept demo_fed"
  have 1: "fst ?p = Inr ()" by code_simp
  have "list_all (\<lambda>a. \<not> pending_outgoing (ra_actor demo_accept) a) (actors (tbl demo_fed))" by code_simp
  from unsolicited_accept [OF this, of demo_world demo_cfg "fst ?p" "snd ?p"] 1 show ?thesis by (simp add: demo_fed_def)
qed

text \<open>The node has recorded the activity.\<close>

definition seen_fed :: fed where
  "seen_fed = snd (record_and_dispatch demo_world demo_cfg (\<lambda>_. None) demo_task demo_fed)"

lemma duplicate_ignored_witness:
  "fst (record_and_dispatch demo_world demo_cfg (\<lambda>_. None) demo_task seen_fed) = Inr 202 \<and>
   inbox_queue (snd (record_and_dispatch demo_world demo_cfg (\<lambda>_. None) demo_task seen_fed)) = inbox_queue seen_fed"
proof -
  let ?p = "record_and_dispatch demo_world demo_cfg (\<lambda>_. None) demo_task seen_fed"
  have 2: "ra_type (task_activity demo_task) \<noteq> ''Follow''" by code_simp
  let ?rec = "record_and_dispatch demo_world demo_cfg (\<lambda>_. None) demo_task"
  have "case ?rec demo_fed of (_, s) \<Rightarrow> fst (?rec s) = Inr 202 \<and>
      ra_id (task_activity demo_task) \<in> set (map av_activity_id (activities (tbl s)))" by code_simp
  then have 1: "fst ?p = Inr 202" and "ra_id (task_activity demo_task) \<in> set (map av_activity_id (activities (tbl seen_fed)))"
    by (simp_all add: case_prod_beta seen_fed_def)
  then have "ra_id (task_activity demo_task) \<in> av_activity_id ` set (activities (tbl seen_fed))" by simp
  from duplicate_ignored [OF 2 this prod.collapse [symmetric], of demo_world demo_cfg "\<lambda>_. None"] 1 show ?thesis by blast
qed

lemma full_queue_loses_witness:
  "\<exists>s1 s3 answer. record_and_dispatch demo_world (demo_cfg\<lparr>has_worker := True\<rparr>) (\<lambda>_. None) demo_task busy_fed = (Inr 503, s1) \<and>
     inbox_queue s3 = NewSimpleQueue \<and>
     record_and_dispatch demo_world (demo_cfg\<lparr>has_worker := True\<rparr>) (\<lambda>_. None) demo_task (s1\<lparr>inbox_queue := NewSimpleQueue\<rparr>) = (answer, s3)"
proof -
  let ?rec = "record_and_dispatch demo_world (demo_cfg\<lparr>has_worker := True\<rparr>) (\<lambda>_. None) demo_task"
  let ?s2 = "snd (?rec busy_fed)\<lparr>inbox_queue := NewSimpleQueue\<rparr>"
  have "activities (tbl busy_fed) = []" "length (items (inbox_queue busy_fed)) = 256" "faults busy_fed = []"
    by (simp_all add: busy_fed_def demo_fed_def demo_tables_def empty_tables_def)
  then have "fst (?rec busy_fed) = Inr 503 \<and> inbox_queue (snd (?rec ?s2)) = inbox_queue ?s2"
    using full_queue_loses [of "demo_cfg\<lparr>has_worker := True\<rparr>" busy_fed demo_task demo_world "\<lambda>_. None" "fst (?rec busy_fed)" "snd (?rec busy_fed)"
      ?s2 "fst (?rec ?s2)" "snd (?rec ?s2)"]
    by (simp add: inboxQueueSize_def demo_task_def demo_create_def log_extends_def)
  then show ?thesis
    by (intro exI [of _ "snd (?rec busy_fed)"] exI [of _ "snd (?rec ?s2)"] exI [of _ "fst (?rec ?s2)"]) (simp add: prod_eq_iff)
qed
end
