(* ===== verification/Publisher.thy ===== *)
theory Publisher
  imports Inbox Util
begin

text \<open>
  \<open>internal/activitypub/publisher.go\<close>, \<open>actor_cache.go\<close> and the objects of \<open>objects.go\<close>: how a push,
  a tag, a deletion or a package publication becomes one activity in the log and one delivery per
  inbox of the followers that accept it.

  The cache of actor documents holds the live entries; which of them expire between two calls is up
  to the cache library. A Go map is iterated in an unspecified order, so the order of the enqueued
  inboxes is a parameter \<open>pc_order\<close>. The resolutions of one batch run concurrently in the code; the
  model runs them in the order of the batch.
\<close>

section \<open>Objects\<close>

definition ociContext :: json where
  "ociContext = JArr [JStr ''https://www.w3.org/ns/activitystreams'', JStr ''https://w3id.org/security/v1'',
     JStr ''https://opencontainers.org/ns/distribution'']"

definition EncodeContent :: "world \<Rightarrow> string \<Rightarrow> string" where
  "EncodeContent w data = (if data = '''' then '''' else EncodeToString w data)"

text \<open>The fields marked \<open>omitempty\<close> are left out when empty.\<close>

definition omitempty :: "string \<Rightarrow> string \<Rightarrow> jobj" where
  "omitempty k v = (if v = '''' then [] else [(k, JStr v)])"

definition OCIManifest_json ::
  "string \<Rightarrow> string \<Rightarrow> string \<Rightarrow> string \<Rightarrow> string \<Rightarrow> string \<Rightarrow> int \<Rightarrow> string \<Rightarrow> string \<Rightarrow> string \<Rightarrow> jobj" where
  "OCIManifest_json objectID attributedTo published repo digest mediaType sz content subjectDigest tag =
     [(''@context'', ociContext), (''type'', JStr ''OCIManifest''), (''id'', JStr objectID), (''attributedTo'', JStr attributedTo),
      (''published'', JStr published), (''ociRepository'', JStr repo), (''ociDigest'', JStr digest), (''ociMediaType'', JStr mediaType),
      (''ociSize'', JNum (of_int sz))]
     @ omitempty ''ociContent'' content @ omitempty ''ociSubjectDigest'' subjectDigest @ omitempty ''ociTag'' tag"

definition OCITag_json :: "string \<Rightarrow> string \<Rightarrow> string \<Rightarrow> string \<Rightarrow> string \<Rightarrow> string \<Rightarrow> jobj" where
  "OCITag_json objectID attributedTo published repo tag digest =
     [(''@context'', ociContext), (''type'', JStr ''OCITag''), (''id'', JStr objectID), (''attributedTo'', JStr attributedTo),
      (''published'', JStr published), (''ociRepository'', JStr repo), (''ociTag'', JStr tag), (''ociDigest'', JStr digest)]"

definition OCIBlob_json :: "string \<Rightarrow> string \<Rightarrow> string \<Rightarrow> string \<Rightarrow> int \<Rightarrow> string \<Rightarrow> jobj" where
  "OCIBlob_json objectID attributedTo published digest sz endpoint =
     [(''@context'', ociContext), (''type'', JStr ''OCIBlob''), (''id'', JStr objectID), (''attributedTo'', JStr attributedTo),
      (''published'', JStr published), (''ociDigest'', JStr digest), (''ociSize'', JNum (of_int sz)), (''ociEndpoint'', JStr endpoint)]"

section \<open>State and configuration\<close>

record pub = fed +
  actorCache :: "(string \<times> FedActor) list"

record APPublisher =
  pc_self :: string
  pc_account_domain :: string
  pc_endpoint :: string
  pc_excluded :: "string list"
  pc_notify :: bool
  pc_order :: "string list \<Rightarrow> string list"

datatype pubKind = PubManifest | PubTag | PubBlob | PubManifestDelete | PubTagDelete

record pubContext =
  px_kind :: pubKind
  px_repo :: string
  px_tag :: string

definition followerBatchSize :: int where "followerBatchSize = 100"

section \<open>The cache of actors\<close>

definition ActorCache_Get :: "world \<Rightarrow> string \<Rightarrow> ('z pub_scheme, FedActor) prog" where
  "ActorCache_Get w actorURL = bindE (gets (\<lambda>s. map_of (actorCache s) actorURL)) (\<lambda>item. case item of
      Some a \<Rightarrow> ret a
    | None \<Rightarrow> bindE (FetchActor w actorURL) (\<lambda>a.
        bindE (modify (\<lambda>s. s\<lparr>actorCache := AList.update actorURL a (actorCache s)\<rparr>)) (\<lambda>_. ret a)))"

definition ActorCache_Invalidate :: "string \<Rightarrow> ('z pub_scheme, unit) prog" where
  "ActorCache_Invalidate actorURL = modify (\<lambda>s. s\<lparr>actorCache := AList.delete actorURL (actorCache s)\<rparr>)"

definition inbox_of :: "FedActor \<Rightarrow> string" where
  "inbox_of actor = (case fa_shared_inbox actor of
      Some i \<Rightarrow> if i \<noteq> '''' then i else fa_inbox actor
    | None \<Rightarrow> fa_inbox actor)"

definition resolveInbox :: "world \<Rightarrow> string \<Rightarrow> ('z pub_scheme, string) prog" where
  "resolveInbox w actorURL = bindE (ActorCache_Get w actorURL) (\<lambda>actor. ret (inbox_of actor))"

section \<open>Filters\<close>

definition repoExcluded :: "APPublisher \<Rightarrow> string \<Rightarrow> bool" where
  "repoExcluded p repo = (if repo = '''' then False
     else list_ex (\<lambda>g. MatchRepoGlob g repo (pc_account_domain p)) (pc_excluded p))"

definition glob_accepts :: "string \<Rightarrow> string \<Rightarrow> bool" where
  "glob_accepts glob tag = (let g = TrimSpace glob in if g = '''' then False else path_match g tag = Some True)"

definition actorAcceptsActivity :: "Actor \<Rightarrow> pubContext \<Rightarrow> bool" where
  "actorAcceptsActivity actor px =
     (if px_kind px \<in> {PubBlob, PubManifestDelete, PubTagDelete} then True
      else if px_kind px = PubManifest \<and> px_tag px = '''' then True
      else (case act_globs actor of
          None \<Rightarrow> True
        | Some globs \<Rightarrow> (let raw = TrimSpace globs in
            if raw = '''' then False
            else list_ex (\<lambda>g. glob_accepts g (px_tag px)) (split_on (CHR '','') raw))))"

section \<open>Enqueueing\<close>

text \<open>The resolutions of one batch: a follower whose inbox cannot be resolved is skipped.\<close>

definition collect_inbox :: "world \<Rightarrow> pubContext \<Rightarrow> string list \<Rightarrow> Actor \<Rightarrow> ('z pub_scheme, string list) prog" where
  "collect_inbox w px inboxes f =
     (if \<not> actorAcceptsActivity f px then ret inboxes
      else handle (resolveInbox w (act_url f)) (\<lambda>r. case r of
          Inl _ \<Rightarrow> ret inboxes
        | Inr inbox \<Rightarrow> ret (List.insert inbox inboxes)))"

definition resolve_followers :: "world \<Rightarrow> pubContext \<Rightarrow> ('z pub_scheme, string list) prog" where
  "resolve_followers w px = bindE (gets (\<lambda>s. length (actors (tbl s)))) (\<lambda>rows.
     keyset_loop (Suc rows) (\<lambda>afterID. ListFollowsBatch afterID followerBatchSize) act_id (nat followerBatchSize)
       (\<lambda>inboxes batch. foldP (collect_inbox w px) inboxes batch) 0 [])"

definition enqueue_inbox :: "string \<Rightarrow> string \<Rightarrow> bool \<Rightarrow> string \<Rightarrow> ('z pub_scheme, bool) prog" where
  "enqueue_inbox activityID activityJSON queuedNew inbox =
     handle (EnqueueDeliveryInserted activityID inbox activityJSON) (\<lambda>r. case r of
         Inl _ \<Rightarrow> ret queuedNew
       | Inr inserted \<Rightarrow> ret (queuedNew \<or> inserted))"

definition enqueueToFollowers ::
  "world \<Rightarrow> APPublisher \<Rightarrow> string \<Rightarrow> string \<Rightarrow> pubContext \<Rightarrow> ('z pub_scheme, unit) prog" where
  "enqueueToFollowers w p activityID activityJSON px =
     bindE (resolve_followers w px) (\<lambda>inboxes.
     bindE (foldP (enqueue_inbox activityID activityJSON) False (pc_order p inboxes)) (\<lambda>queuedNew.
     if queuedNew \<and> pc_notify p then modify (\<lambda>s. s\<lparr>woken := Suc (woken s)\<rparr>) else ret ()))"

section \<open>Publishing\<close>

definition ReplaceAll_slash :: "string \<Rightarrow> string" where
  "ReplaceAll_slash ref = map (\<lambda>c. if c = CHR ''/'' then CHR '':'' else c) ref"

definition objectURL :: "APPublisher \<Rightarrow> string \<Rightarrow> string \<Rightarrow> string" where
  "objectURL p kind ref = pc_endpoint p @ ''/ap/objects/'' @ kind @ ''/'' @ ReplaceAll_slash ref"

definition activityURL :: "world \<Rightarrow> APPublisher \<Rightarrow> ('z pub_scheme, string) prog" where
  "activityURL w p = bindE (new_uuid w) (\<lambda>u. ret (pc_endpoint p @ ''/ap/activities/'' @ u))"

definition published_json :: "APPublisher \<Rightarrow> string \<Rightarrow> string \<Rightarrow> json \<Rightarrow> json" where
  "published_json p activityID activityType object = JObj
     [(''@context'', JStr ''https://www.w3.org/ns/activitystreams''), (''id'', JStr activityID), (''type'', JStr activityType),
      (''actor'', JStr (pc_self p)), (''to'', JArr [JStr ''https://www.w3.org/ns/activitystreams#Public'']),
      (''cc'', JArr [JStr (pc_endpoint p @ ''/ap/followers'')]), (''object'', object)]"

definition createAndDeliver ::
  "world \<Rightarrow> APPublisher \<Rightarrow> string \<Rightarrow> json \<Rightarrow> pubContext \<Rightarrow> ('z pub_scheme, unit) prog" where
  "createAndDeliver w p activityType object px =
     (if activityType \<noteq> ''Delete'' \<and> repoExcluded p (px_repo px) then ret ()
      else bindE (activityURL w p) (\<lambda>activityID.
        let activityJSON = Marshal w (published_json p activityID activityType object) in
        bindE (PutActivity activityID activityType (pc_self p) activityJSON) (\<lambda>_.
        enqueueToFollowers w p activityID activityJSON px)))"

definition PublishManifest ::
  "world \<Rightarrow> APPublisher \<Rightarrow> string \<Rightarrow> string \<Rightarrow> string \<Rightarrow> string \<Rightarrow> int \<Rightarrow> string \<Rightarrow> string option \<Rightarrow> ('z pub_scheme, unit) prog" where
  "PublishManifest w p repo tag digest mediaType sz content subjectDigest = bindE now (\<lambda>c.
     createAndDeliver w p ''Create'' (JObj (OCIManifest_json (objectURL p ''manifest'' digest) (pc_self p) (RFC3339 w c)
       repo digest mediaType sz (EncodeContent w content) (case subjectDigest of None \<Rightarrow> '''' | Some d \<Rightarrow> d) tag))
     \<lparr>px_kind = PubManifest, px_repo = repo, px_tag = tag\<rparr>)"

definition PublishTag :: "world \<Rightarrow> APPublisher \<Rightarrow> string \<Rightarrow> string \<Rightarrow> string \<Rightarrow> ('z pub_scheme, unit) prog" where
  "PublishTag w p repo tag digest = bindE now (\<lambda>c.
     createAndDeliver w p ''Update'' (JObj (OCITag_json (objectURL p ''tag'' (repo @ ''/'' @ tag)) (pc_self p) (RFC3339 w c)
       repo tag digest)) \<lparr>px_kind = PubTag, px_repo = repo, px_tag = tag\<rparr>)"

definition Publish :: "world \<Rightarrow> APPublisher \<Rightarrow> string \<Rightarrow> json \<Rightarrow> ('z pub_scheme, unit) prog" where
  "Publish w p activityType object = createAndDeliver w p activityType object \<lparr>px_kind = PubBlob, px_repo = '''', px_tag = ''''\<rparr>"

definition PublishManifestDelete :: "world \<Rightarrow> APPublisher \<Rightarrow> string \<Rightarrow> string \<Rightarrow> ('z pub_scheme, unit) prog" where
  "PublishManifestDelete w p repo digest = bindE now (\<lambda>c.
     createAndDeliver w p ''Delete'' (JObj (OCIManifest_json (objectURL p ''manifest'' digest) (pc_self p) (RFC3339 w c)
       repo digest '''' 0 '''' '''' '''')) \<lparr>px_kind = PubManifestDelete, px_repo = repo, px_tag = ''''\<rparr>)"

definition PublishTagDelete :: "world \<Rightarrow> APPublisher \<Rightarrow> string \<Rightarrow> string \<Rightarrow> ('z pub_scheme, unit) prog" where
  "PublishTagDelete w p repo tag = bindE now (\<lambda>c.
     createAndDeliver w p ''Delete'' (JObj (OCITag_json (objectURL p ''tag'' (repo @ ''/'' @ tag)) (pc_self p) (RFC3339 w c)
       repo tag '''')) \<lparr>px_kind = PubTagDelete, px_repo = repo, px_tag = tag\<rparr>)"

definition WithdrawRepo :: "world \<Rightarrow> APPublisher \<Rightarrow> string \<Rightarrow> string list \<Rightarrow> string list \<Rightarrow> ('z pub_scheme, unit) prog" where
  "WithdrawRepo w p repo tags manifestDigests =
     bindE (foreach tags (\<lambda>tag. PublishTagDelete w p repo tag)) (\<lambda>_.
     foreach manifestDigests (\<lambda>dgst. PublishManifestDelete w p repo dgst))"

definition PublishBlobRef :: "world \<Rightarrow> APPublisher \<Rightarrow> string \<Rightarrow> int \<Rightarrow> ('z pub_scheme, unit) prog" where
  "PublishBlobRef w p digest sz = bindE now (\<lambda>c.
     createAndDeliver w p ''Announce'' (JObj (OCIBlob_json (objectURL p ''blob'' digest) (pc_self p) (RFC3339 w c)
       digest sz (pc_endpoint p))) \<lparr>px_kind = PubBlob, px_repo = '''', px_tag = ''''\<rparr>)"

definition FindBlobPeers :: "string \<Rightarrow> ('z store_scheme, string list) prog" where
  "FindBlobPeers digest = bindE (FindPeersWithBlob digest) (\<lambda>peerBlobs. ret (map pb_endpoint peerBlobs))"

section \<open>Resolving inboxes\<close>

text \<open>
  A world whose actors answer the same at every fetch, \<open>F u\<close> being the answer for \<open>u\<close>; what the
  publisher can learn about \<open>u\<close> in it; a cache that holds only such answers.
\<close>

definition stable_world :: "world \<Rightarrow> (string \<Rightarrow> FedActor option) \<Rightarrow> bool" where
  "stable_world w F \<longleftrightarrow> (\<forall>n u. Fetch w n u = F u)"

definition actor_at :: "world \<Rightarrow> (string \<Rightarrow> FedActor option) \<Rightarrow> string \<Rightarrow> FedActor option" where
  "actor_at w F u = (if \<not> validateFederationURL w u then None
     else (case F u of None \<Rightarrow> None | Some a \<Rightarrow> if fa_id a = '''' then None else Some a))"

definition cache_true :: "world \<Rightarrow> (string \<Rightarrow> FedActor option) \<Rightarrow> 'z pub_scheme \<Rightarrow> bool" where
  "cache_true w F s \<longleftrightarrow> (\<forall>u a. map_of (actorCache s) u = Some a \<longrightarrow> actor_at w F u = Some a)"

lemma FetchActor_stable:
  assumes "stable_world w F"
  obtains e n where "FetchActor w u s = (case actor_at w F u of None \<Rightarrow> Inl e | Some a \<Rightarrow> Inr a, s\<lparr>fetches := n\<rparr>)"
proof -
  from assms have F: "Fetch w n v = F v" for n v by (simp add: stable_world_def)
  have "\<exists>e n. FetchActor w u s = (case actor_at w F u of None \<Rightarrow> Inl e | Some a \<Rightarrow> Inr a, s\<lparr>fetches := n\<rparr>)"
  proof (cases "validateFederationURL w u")
    case False
    then show ?thesis
      by (intro exI [of _ "Errorf ''unsafe actor URL''"] exI [of _ "fetches s"]) (simp add: FetchActor_def fail_def actor_at_def)
  next
    case True
    then show ?thesis
      by (intro exI [of _ "Errorf (case F u of None \<Rightarrow> ''fetching actor'' | _ \<Rightarrow> ''actor document missing id'')"]
          exI [of _ "Suc (fetches s)"]) (simp add: FetchActor_def actor_at_def F split: option.split)
  qed
  with that show thesis by blast
qed

lemma resolveInbox_run:
  assumes "stable_world w F" and "cache_true w F s" and "resolveInbox w u s = (r, s')"
  shows "cache_true w F s' \<and> tbl s' = tbl s \<and> faults s' = faults s \<and>
    (case actor_at w F u of None \<Rightarrow> isl r | Some a \<Rightarrow> r = Inr (inbox_of a))"
proof (cases "map_of (actorCache s) u")
  case (Some a)
  with assms(2) have "actor_at w F u = Some a" by (simp add: cache_true_def)
  with Some assms(2,3) show ?thesis
    by (simp add: resolveInbox_def ActorCache_Get_def bindE_def gets_def ret_def)
next
  case None
  obtain e n where f: "FetchActor w u s = (case actor_at w F u of None \<Rightarrow> Inl e | Some a \<Rightarrow> Inr a, s\<lparr>fetches := n\<rparr>)"
    by (rule FetchActor_stable [OF assms(1)])
  with None assms(2,3) show ?thesis
    by (cases "actor_at w F u")
      (auto simp: resolveInbox_def ActorCache_Get_def bindE_def gets_def modify_def ret_def cache_true_def update_conv' split: if_split_asm)
qed

text \<open>The inboxes an activity goes to.\<close>

definition targets :: "world \<Rightarrow> (string \<Rightarrow> FedActor option) \<Rightarrow> pubContext \<Rightarrow> Actor list \<Rightarrow> string set" where
  "targets w F px rows = {inbox_of d | d a. a \<in> set rows \<and> actorAcceptsActivity a px \<and> actor_at w F (act_url a) = Some d}"

lemma targets_simps [simp]:
  "targets w F px [] = {}"
  "targets w F px (xs @ ys) = targets w F px xs \<union> targets w F px ys"
  by (auto simp: targets_def)

lemma targets_Cons: "targets w F px (a # xs) = targets w F px [a] \<union> targets w F px xs"
  by (auto simp: targets_def)

lemma query_cache: "query f s = (r, s') \<Longrightarrow> cache_true w F s \<Longrightarrow> cache_true w F s'"
  using keepsD [OF keeps_frame_query db_frame_refl, of f s r s'] by (auto simp: cache_true_def elim!: db_frameE)

lemma keeps_fetch_tbl [keeps_intros]: "keeps (\<lambda>s. P (tbl s)) (FetchActor w u)"
  by (rule keepsI) (auto simp: FetchActor_def fail_def split: option.splits)

lemma keeps_collect: "keeps (\<lambda>s. tbl s = t) (collect_inbox w px acc a)"
  unfolding collect_inbox_def resolveInbox_def ActorCache_Get_def
  by (intro keeps_intros keeps_fetch_tbl [where P = "\<lambda>x. x = t"] keeps_modify) simp

lemma raises_collect: "raises {} (collect_inbox w px acc a)"
  unfolding collect_inbox_def by (rule raisesI) (auto simp: handle_def split: if_split_asm prod.split_asm sum.split_asm)

lemma collect_inbox_run:
  assumes "stable_world w F" and "cache_true w F s" and "collect_inbox w px acc a s = (r, s')"
  shows "cache_true w F s' \<and> tbl s' = tbl s \<and> faults s' = faults s \<and>
    (\<exists>acc'. r = Inr acc' \<and> set acc' = set acc \<union> targets w F px [a])"
proof (cases "actorAcceptsActivity a px")
  case False
  with assms show ?thesis by (simp add: collect_inbox_def targets_def)
next
  case True
  obtain q t where q: "resolveInbox w (act_url a) s = (q, t)" by (cases "resolveInbox w (act_url a) s")
  with resolveInbox_run [OF assms(1,2) q] True assms(3) show ?thesis
    by (cases q) (auto simp: collect_inbox_def handle_def targets_def split: option.split_asm)
qed

lemma collect_batch_run:
  assumes "stable_world w F" and "cache_true w F s" and "foldP (collect_inbox w px) acc batch s = (r, s')"
  shows "cache_true w F s' \<and> tbl s' = tbl s \<and> faults s' = faults s \<and>
    (\<exists>acc'. r = Inr acc' \<and> set acc' = set acc \<union> targets w F px batch)"
  using assms(2,3)
proof (induction batch arbitrary: acc s)
  case Nil
  then show ?case by simp
next
  case (Cons a batch)
  obtain q t where q: "collect_inbox w px acc a s = (q, t)" by (cases "collect_inbox w px acc a s")
  note c = collect_inbox_run [OF assms(1) Cons.prems(1) q]
  then obtain acc1 where acc1: "q = Inr acc1" "set acc1 = set acc \<union> targets w F px [a]" by blast
  with Cons.prems(2) q have "foldP (collect_inbox w px) acc1 batch t = (r, s')" by (simp add: bindE_def)
  from Cons.IH [OF _ this] c acc1 show ?case by (auto simp: targets_Cons [of w F px a batch])
qed

text \<open>The followers are a keyset source.\<close>

interpretation follows_source: keyset_source "\<lambda>a. ListFollowsBatch a followerBatchSize" act_id "nat followerBatchSize"
    "\<lambda>s. select_where act_they_follow (actors (tbl s))"
  unfolding ListFollowsBatch_def
  by unfold_locales (auto simp: page_after_def bun_page_def followerBatchSize_def select_where_def conj_commute
      dest: query_ok query_err)

lemma follower_rows:
  assumes "wf_tables t"
  shows "distinct (map act_id (select_where act_they_follow (actors t)))"
    and "select_where (\<lambda>a. 0 < act_id a) (select_where act_they_follow (actors t)) = select_where act_they_follow (actors t)"
proof -
  from assms have d: "distinct (map act_id (actors t))" and p: "\<forall>r \<in> set (actors t). 0 < act_id r"
    by (auto simp: wf_tables_def acts.fresh_def)
  from d show "distinct (map act_id (select_where act_they_follow (actors t)))"
    by (simp add: select_where_def distinct_map_filter)
  from p show "select_where (\<lambda>a. 0 < act_id a) (select_where act_they_follow (actors t)) = select_where act_they_follow (actors t)"
    by (auto simp: select_where_def intro: filter_cong)
qed

lemma resolve_followers_run:
  assumes "wf_tables (tbl s)" and "stable_world w F" and "cache_true w F s" and "resolve_followers w px s = (r, s')"
  shows "case r of Inl e \<Rightarrow> e = ErrIO
    | Inr inboxes \<Rightarrow> set inboxes = targets w F px (select_where act_they_follow (actors (tbl s))) \<and>
        tbl s' = tbl s \<and> cache_true w F s'"
proof -
  let ?body = "\<lambda>inboxes batch. foldP (collect_inbox w px) inboxes batch"
  let ?loop = "keyset_loop (Suc (length (actors (tbl s)))) (\<lambda>afterID. ListFollowsBatch afterID followerBatchSize) act_id
      (nat followerBatchSize) ?body 0 []"
  from assms(4) have run: "?loop s = (r, s')" by (simp add: resolve_followers_def bindE_def gets_def)
  note rows = follower_rows [OF assms(1)]
  show ?thesis
  proof (cases r)
    case (Inl e)
    have T: "tbl u' = tbl u" if "foldP (collect_inbox w px) x b u = (q, u')" for x b q and u u' :: "'a pub_scheme"
      by (rule keepsD [OF keeps_foldP [OF keeps_collect] refl that])
    have N: "foldP (collect_inbox w px) x b u \<noteq> (Inl q, u')" for x b q and u u' :: "'a pub_scheme"
      using raisesD [OF raises_foldP [where E = "{}" and f = "collect_inbox w px", OF raises_collect]] by blast
    have "e = ErrIO"
      by (rule follows_source.loop_errors [OF _ _ refl rows(1) _ run [unfolded Inl]])
        (simp_all add: T N select_where_def less_Suc_eq_le)
    with Inl show ?thesis by simp
  next
    case (Inr inboxes)
    let ?I = "\<lambda>seen x u. tbl u = tbl s \<and> cache_true w F u \<and> set x = targets w F px seen"
    have "?I ([] @ order_by act_id (select_where (\<lambda>a. 0 < act_id a) (select_where act_they_follow (actors (tbl s))))) inboxes s'"
    proof (rule follows_source.loop_visits_all [where I = ?I, OF _ _ rows(1) _ run [unfolded Inr]])
      fix seen b x y and u u' :: "'a pub_scheme"
      assume "?I seen x u" "foldP (collect_inbox w px) x b u = (Inr y, u')"
      with collect_batch_run [OF assms(2), of u px x b "Inr y" u']
      show "?I (seen @ b) y u' \<and> select_where act_they_follow (actors (tbl u')) = select_where act_they_follow (actors (tbl u))"
        by auto
    qed (use assms(3) in \<open>auto simp: ListFollowsBatch_def dest: query_ok query_cache\<close>)
    with Inr rows(2) show ?thesis by (auto simp: targets_def order_by_def)
  qed
qed

section \<open>Enqueueing\<close>

text \<open>Without faults the deliveries of an activity are, after the loop, the old ones and one row per inbox.\<close>

definition inboxes_of :: "string \<Rightarrow> tables \<Rightarrow> string set" where
  "inboxes_of i t = dv_inbox ` {r \<in> set (delivery_queue t). dv_activity r = i}"

definition others_of :: "string \<Rightarrow> tables \<Rightarrow> Delivery list" where
  "others_of i t = filter (\<lambda>r. dv_activity r \<noteq> i) (delivery_queue t)"

lemma enqueue_inbox_run:
  assumes "faults s = []" and "enqueue_inbox i j b inbox s = (r, s')"
  shows "(\<exists>b'. r = Inr b') \<and> faults s' = [] \<and> inboxes_of i (tbl s') = insert inbox (inboxes_of i (tbl s)) \<and>
    others_of i (tbl s') = others_of i (tbl s) \<and> (wf_tables (tbl s) \<longrightarrow> wf_tables (tbl s')) \<and>
    set (delivery_queue (tbl s)) \<subseteq> set (delivery_queue (tbl s'))"
proof -
  have "wf_tables (tbl s) \<longrightarrow> wf_tables (tbl s')"
    using keepsD [OF wf.keeps_EnqueueDeliveryInserted] assms(2)
    by (auto simp: enqueue_inbox_def handle_def ret_def split: prod.split_asm sum.split_asm)
  moreover define row where "row = \<lparr>dv_id = seq_deliveries (tbl s), dv_activity = i, dv_inbox = inbox,
      dv_json = j, dv_attempts = 0, dv_max = 10, dv_next = clock s, dv_error = None,
      dv_status = ''pending'', dv_created = clock s\<rparr>"
  then have row: "dv_activity row = i" "dv_inbox row = inbox" by simp_all
  from assms have "faults s' = []" "\<exists>b'. r = Inr b'"
    "delivery_queue (tbl s') = insert_ignore (\<lambda>d. (dv_activity d, dv_inbox d) = (i, inbox)) row (delivery_queue (tbl s))"
    unfolding row_def
    by (auto simp: enqueue_inbox_def EnqueueDeliveryInserted_def handle_def bindE_def exec_rows_nofault tick_def ret_def)
  ultimately show ?thesis
    using row by (auto simp: inboxes_of_def others_of_def insert_ignore_def list_ex_iff image_iff) metis+
qed

lemma enqueue_all_run:
  assumes "faults s = []" and "foldP (enqueue_inbox i j) b xs s = (r, s')"
  shows "(\<exists>b'. r = Inr b') \<and> faults s' = [] \<and> inboxes_of i (tbl s') = set xs \<union> inboxes_of i (tbl s) \<and>
    others_of i (tbl s') = others_of i (tbl s) \<and> (wf_tables (tbl s) \<longrightarrow> wf_tables (tbl s')) \<and>
    set (delivery_queue (tbl s)) \<subseteq> set (delivery_queue (tbl s'))"
  using assms
proof (induction xs arbitrary: b s)
  case Nil
  then show ?case by simp
next
  case (Cons x xs)
  obtain q t where q: "enqueue_inbox i j b x s = (q, t)" by (cases "enqueue_inbox i j b x s")
  note one = enqueue_inbox_run [OF Cons.prems(1) q]
  then obtain b' where b': "q = Inr b'" by blast
  with Cons.prems(2) q have "foldP (enqueue_inbox i j) b' xs t = (r, s')" by (simp add: bindE_def)
  from Cons.IH [OF _ this] one b' show ?case by auto
qed

text \<open>Without faults nothing of the resolution fails.\<close>

lemma resolve_nofault:
  assumes "faults s = []" and "resolve_followers w px s = (r, s')" and "wf_tables (tbl s)" and "stable_world w F" and "cache_true w F s"
  shows "faults s' = [] \<and> (\<exists>inboxes. r = Inr inboxes)"
proof -
  have "\<exists>y u'. foldP (collect_inbox w px) x b u = (Inr y, u') \<and> (faults u' = [] \<and> cache_true w F u') \<and>
      select_where act_they_follow (actors (tbl u')) = select_where act_they_follow (actors (tbl u))"
    if "faults u = [] \<and> cache_true w F u" for x b and u :: "'a pub_scheme"
    using collect_batch_run [OF assms(4), of u px x b] that by (metis surj_pair)
  moreover have "\<exists>b u'. ListFollowsBatch a followerBatchSize u = (Inr b, u') \<and> faults u' = [] \<and> cache_true w F u'"
    if "faults u = [] \<and> cache_true w F u" for a and u :: "'a pub_scheme"
    using that by (simp add: ListFollowsBatch_def query_nofault)
  ultimately have "\<exists>y u'. keyset_loop (Suc (length (actors (tbl s)))) (\<lambda>afterID. ListFollowsBatch afterID followerBatchSize) act_id
      (nat followerBatchSize) (\<lambda>inboxes batch. foldP (collect_inbox w px) inboxes batch) 0 [] s = (Inr y, u') \<and>
      (faults u' = [] \<and> cache_true w F u')"
    using assms(1,5) follower_rows [OF assms(3)]
    by (intro follows_source.loop_total) (auto simp: select_where_def less_Suc_eq_le)
  with assms(2) show ?thesis by (auto simp: resolve_followers_def bindE_def gets_def)
qed

text \<open>C15. Publication reaches every follower once: without I/O faults, in a world whose actors answer
  consistently, enqueueing an activity succeeds; afterwards it has exactly one delivery for each
  inbox (shared inbox preferred) of the followers whose filter accepts it, besides those it already
  had, and the deliveries of other activities are untouched.\<close>

lemma publish_reaches_followers:
  assumes "wf_tables (tbl s)" and "stable_world w F" and "cache_true w F s" and "faults s = []"
    and "\<And>xs. set (pc_order p xs) = set xs"
    and "enqueueToFollowers w p i j px s = (r, s')"
  shows "r = Inr () \<and> others_of i (tbl s') = others_of i (tbl s) \<and>
    inboxes_of i (tbl s') = targets w F px (select_where act_they_follow (actors (tbl s))) \<union> inboxes_of i (tbl s) \<and>
    distinct (map dv_inbox (filter (\<lambda>d. dv_activity d = i) (delivery_queue (tbl s'))))"
proof -
  obtain q t where q: "resolve_followers w px s = (q, t)" by (cases "resolve_followers w px s")
  from resolve_nofault [OF assms(4) q assms(1-3)] obtain inboxes where t: "faults t = []" "q = Inr inboxes" by blast
  with resolve_followers_run [OF assms(1-3) q]
  have i: "set inboxes = targets w F px (select_where act_they_follow (actors (tbl s)))" "tbl t = tbl s" by auto
  obtain b u where u: "foldP (enqueue_inbox i j) False (pc_order p inboxes) t = (b, u)"
    by (cases "foldP (enqueue_inbox i j) False (pc_order p inboxes) t")
  note e = enqueue_all_run [OF t(1) u]
  then obtain new where "b = Inr new" by blast
  with assms(6) q t(2) u have s': "r = Inr ()" "tbl s' = tbl u"
    by (auto simp: enqueueToFollowers_def bindE_def modify_def ret_def split: if_split_asm)
  have "distinct (map dv_inbox (filter (\<lambda>d. dv_activity d = i) (delivery_queue (tbl u))))"
  proof -
    from e i(2) assms(1) have "dvls.unique (delivery_queue (tbl u))" by (simp add: wf_tables_def)
    then show ?thesis by (auto simp: dvls.unique_def distinct_map inj_on_def)
  qed
  with s' e i assms(5) show ?thesis by auto
qed

section \<open>Follow filters\<close>

lemma clean_globs_trimmed: "clean_globs gs = Some cleaned \<Longrightarrow> g \<in> set cleaned \<Longrightarrow> trimmed g \<and> (\<exists>g' \<in> set gs. g = TrimSpace g')"
  by (induction gs arbitrary: cleaned) (auto simp: Let_def trimmed_TrimSpace split: if_split_asm)

text \<open>The stored filter accepts a tag exactly when one of its globs matches.\<close>

lemma stored_filter:
  assumes "clean_globs gs = Some cleaned" and "cleaned \<noteq> []" and "\<And>g. g \<in> set gs \<Longrightarrow> CHR '','' \<notin> set g"
    and "act_globs a = Some (join_with '','' cleaned)" and "px_kind px = PubTag \<or> px_kind px = PubManifest \<and> px_tag px \<noteq> ''''"
  shows "actorAcceptsActivity a px \<longleftrightarrow> (\<exists>g \<in> set cleaned. path_match g (px_tag px) = Some True)"
proof -
  note c = clean_globs_trimmed [OF assms(1)]
  have sub: "set (TrimSpace g) \<subseteq> set g" for g
    by (auto simp: TrimSpace_def dest!: set_dropWhileD)
  have nc: "CHR '','' \<notin> set g" if "g \<in> set cleaned" for g
    using c [OF that] assms(3) sub by blast
  have t: "trimmed (join_with '','' cleaned)" using c assms(2) by (intro trimmed_join) auto
  have "glob_accepts g (px_tag px) \<longleftrightarrow> path_match g (px_tag px) = Some True" if "g \<in> set cleaned" for g
    using c [OF that] by (auto simp: glob_accepts_def TrimSpace_trimmed trimmed_def)
  then have "list_ex (\<lambda>g. glob_accepts g (px_tag px)) cleaned \<longleftrightarrow> (\<exists>g \<in> set cleaned. path_match g (px_tag px) = Some True)"
    by (auto simp: list_ex_iff)
  with assms(2,4,5) t split_on_join [OF assms(2) nc] show ?thesis
    by (auto simp: actorAcceptsActivity_def Let_def TrimSpace_trimmed [OF t] trimmed_def)
qed

lemma updated_globs:
  "a \<in> set (update_where (\<lambda>r. act_url r = A \<and> act_they_follow r) (\<lambda>r. r\<lparr>act_globs := v\<rparr>) rows) \<Longrightarrow>
   act_url a = A \<and> act_they_follow a \<Longrightarrow> act_globs a = v"
  unfolding update_where_def set_map
proof (erule imageE)
  fix r
  assume "act_url a = A \<and> act_they_follow a" "a = (if act_url r = A \<and> act_they_follow r then r\<lparr>act_globs := v\<rparr> else r)"
  then show "act_globs a = v" by (cases "act_url r = A \<and> act_they_follow r") simp_all
qed

text \<open>A follower's tag filter does what the operator asked: after \<open>UpdateFollowFilter\<close> succeeded with globs
  that contain no comma, an activity that bears a tag goes to the follower exactly when no glob was
  given or one of them (trimmed, blanks dropped) matches the tag.\<close>

lemma filter_roundtrip:
  assumes "UpdateFollowFilter A gs s = (Inr (), s')" and "list_all (\<lambda>g. CHR '','' \<notin> set g) gs"
    and "a \<in> set (actors (tbl s'))" and "act_url a = A" and "act_they_follow a"
    and "px_kind px = PubTag \<or> px_kind px = PubManifest \<and> px_tag px \<noteq> ''''"
  shows "\<exists>cleaned. clean_globs gs = Some cleaned \<and>
    (actorAcceptsActivity a px \<longleftrightarrow> cleaned = [] \<or> (\<exists>g \<in> set cleaned. path_match g (px_tag px) = Some True))"
proof -
  from assms(1) obtain cleaned where c: "clean_globs gs = Some cleaned"
    by (auto simp: UpdateFollowFilter_def split: option.split_asm)
  with assms(1) have "actors (tbl s') = update_where (\<lambda>r. act_url r = A \<and> act_they_follow r)
      (\<lambda>r. r\<lparr>act_globs := if cleaned = [] then None else Some (join_with '','' cleaned)\<rparr>) (actors (tbl s))"
    by (auto simp: UpdateFollowFilter_def dest!: affecting_ok)
  with assms(3-5) have g: "act_globs a = (if cleaned = [] then None else Some (join_with '','' cleaned))"
    by (intro updated_globs) simp_all
  show ?thesis
  proof (cases "cleaned = []")
    case True
    with g have "actorAcceptsActivity a px" by (simp add: actorAcceptsActivity_def)
    with c True show ?thesis by simp
  next
    case False
    with g c stored_filter [OF c False _ _ assms(6), of a] assms(2) [unfolded list_all_iff] show ?thesis by auto
  qed
qed

text \<open>A glob with a comma is torn apart: \<open>v[1,2]*\<close> passes the validation of the filter, but the stored
  filter does not accept the tag \<open>v1\<close> that the glob matches.\<close>

lemma comma_glob_lost:
  "\<exists>cleaned. clean_globs [''v[1,2]*''] = Some cleaned \<and> path_match ''v[1,2]*'' ''v1'' = Some True \<and>
     \<not> actorAcceptsActivity (follower_row\<lparr>act_globs := Some (join_with '','' cleaned)\<rparr>)
        \<lparr>px_kind = PubTag, px_repo = ''a.example/app'', px_tag = ''v1''\<rparr>"
proof -
  have 1: "clean_globs [''v[1,2]*''] = Some [''v[1,2]*'']" by code_simp
  have 2: "path_match ''v[1,2]*'' ''v1'' = Some True" by code_simp
  have 3: "\<not> actorAcceptsActivity (follower_row\<lparr>act_globs := Some (join_with '','' [''v[1,2]*''])\<rparr>)
        \<lparr>px_kind = PubTag, px_repo = ''a.example/app'', px_tag = ''v1''\<rparr>" by code_simp
  from 1 2 3 show ?thesis by blast
qed

section \<open>Exclusion\<close>

lemma keeps_enqueue_activities: "keeps (\<lambda>s. activities (tbl s) = L) (enqueueToFollowers w p i j px)"
proof -
  have collect: "keeps (\<lambda>s. activities (tbl s) = L) (collect_inbox w px acc a)" for acc a
    unfolding collect_inbox_def resolveInbox_def ActorCache_Get_def
    by (intro keeps_intros keeps_fetch_tbl [where P = "\<lambda>t. activities t = L"] keeps_modify) simp
  have batch: "keeps (\<lambda>s. activities (tbl s) = L) (ListFollowsBatch a n)" for a n
    unfolding ListFollowsBatch_def by (rule keeps_query)
  have row: "keeps (\<lambda>s. activities (tbl s) = L) (enqueue_inbox i j b x)" for b x
    unfolding enqueue_inbox_def EnqueueDeliveryInserted_def
    by (intro keeps_intros keeps_exec_rows keeps_tick_tbl [where P = "\<lambda>t. activities t = L"]) auto
  have loop: "keeps (\<lambda>s. activities (tbl s) = L) (keyset_loop f (\<lambda>a. ListFollowsBatch a n) key m (\<lambda>x b. foldP (collect_inbox w px) x b) a x)"
    for f n key m a x
    by (induction f arbitrary: a x) (auto intro!: keeps_intros collect batch)
  show ?thesis
    unfolding enqueueToFollowers_def resolve_followers_def
    by (intro keeps_intros loop row keeps_modify) simp
qed

text \<open>Exclusion and withdrawal: for an excluded repository every activity other than a Delete is dropped
  without any effect, while a Delete that is reported as sent is in the activity log, so an excluded
  repository can still be withdrawn from peers.\<close>

lemma exclusion_spares_deletes:
  assumes "repoExcluded p (px_repo px)" and "createAndDeliver w p ty obj px s = (r, s')"
  shows "ty \<noteq> ''Delete'' \<and> r = Inr () \<and> s' = s \<or>
    ty = ''Delete'' \<and> (isl r \<or> pc_endpoint p @ ''/ap/activities/'' @ uuid_New w (uuids s) \<in> av_activity_id ` set (activities (tbl s')))"
proof (cases "ty = ''Delete''")
  case False
  with assms show ?thesis by (simp add: createAndDeliver_def)
next
  case True
  let ?i = "pc_endpoint p @ ''/ap/activities/'' @ uuid_New w (uuids s)"
  have "?i \<in> av_activity_id ` set (activities (tbl s'))" if "r = Inr x" for x
  proof -
    from assms(2) that True obtain t u y where
      ins: "InsertActivityIfNew ?i ''Delete'' (pc_self p) (Marshal w (published_json p ?i ''Delete'' obj)) t = (Inr y, u)"
      and e: "enqueueToFollowers w p ?i (Marshal w (published_json p ?i ''Delete'' obj)) px u = (r, s')"
      by (auto simp: createAndDeliver_def activityURL_def new_uuid_def PutActivity_def Let_def bindE_ok)
    from InsertActivityIfNew_ok [OF ins] have "?i \<in> av_activity_id ` set (activities (tbl u))" by auto
    with keepsD [OF keeps_enqueue_activities refl e] show ?thesis by simp
  qed
  with True show ?thesis by (cases r) auto
qed

section \<open>Witnesses\<close>

definition demo_peer :: "string \<Rightarrow> FedActor option" where
  "demo_peer u = (if u = ''https://b.example/ap'' then Some \<lparr>fa_id = u, fa_inbox = ''https://b.example/in'',
     fa_shared_inbox = Some ''https://b.example/shared'', fa_key_owner = u, fa_key_pem = ''KEY'', fa_namespace = ''''\<rparr> else None)"

definition pub_world :: world where
  "pub_world = demo_world\<lparr>Fetch := (\<lambda>_. demo_peer)\<rparr>"

definition demo_pub :: pub where
  "demo_pub = \<lparr>faults = [], clock = 5, tbl = demo_tables, postgres = False, nsCache = [], fetchFailures = [],
     blocked_domains = [], blocked_actors = [], inbox_queue = NewSimpleQueue, fetches = 0, uuids = 0,
     replicated = [], notified = [], invalidated = [], direct_posts = [], woken = 0, actorCache = []\<rparr>"

definition demo_publisher :: APPublisher where
  "demo_publisher = \<lparr>pc_self = ''https://a.example/ap'', pc_account_domain = ''a.example'', pc_endpoint = ''https://a.example'',
     pc_excluded = [''secret*''], pc_notify = True, pc_order = (\<lambda>xs. xs)\<rparr>"

definition demo_px :: pubContext where
  "demo_px = \<lparr>px_kind = PubTag, px_repo = ''a.example/app'', px_tag = ''v1''\<rparr>"

lemma publish_reaches_followers_witness:
  "fst (enqueueToFollowers pub_world demo_publisher ''act1'' ''{}'' demo_px demo_pub) = Inr () \<and>
   inboxes_of ''act1'' (tbl (snd (enqueueToFollowers pub_world demo_publisher ''act1'' ''{}'' demo_px demo_pub))) = {''https://b.example/shared''}"
proof -
  let ?r = "enqueueToFollowers pub_world demo_publisher ''act1'' ''{}'' demo_px demo_pub"
  have s: "stable_world pub_world demo_peer" by (simp add: stable_world_def pub_world_def)
  have c: "cache_true pub_world demo_peer demo_pub" by (simp add: cache_true_def demo_pub_def)
  have t: "tbl demo_pub = demo_tables" "faults demo_pub = []" by (simp_all add: demo_pub_def)
  have o: "set (pc_order demo_publisher xs) = set xs" for xs by (simp add: demo_publisher_def)
  have "actorAcceptsActivity follower_row demo_px" "actor_at pub_world demo_peer (act_url follower_row) = demo_peer ''https://b.example/ap''"
    "map_option inbox_of (demo_peer ''https://b.example/ap'') = Some ''https://b.example/shared''"
    by code_simp+
  moreover have "select_where act_they_follow (actors demo_tables) = [follower_row]"
    by (simp add: demo_tables_def follower_row_def select_where_def)
  ultimately have "targets pub_world demo_peer demo_px (select_where act_they_follow (actors demo_tables)) = {''https://b.example/shared''}"
    by (auto simp: targets_def)
  with publish_reaches_followers [OF _ s c t(2) o, of "''act1''" "''{}''" demo_px "fst ?r" "snd ?r"] wf_demo t
  show ?thesis by (simp add: inboxes_of_def demo_tables_def empty_tables_def)
qed

lemma filter_roundtrip_witness:
  "\<exists>s'. UpdateFollowFilter ''https://b.example/ap'' ['' v* '', '''', ''latest''] demo_pub = (Inr (), s') \<and>
     \<not> list_ex (\<lambda>a. actorAcceptsActivity a (demo_px\<lparr>px_tag := ''nightly''\<rparr>)) (actors (tbl s'))"
proof -
  let ?gs = "['' v* '', '''', ''latest'']"
  let ?r = "UpdateFollowFilter ''https://b.example/ap'' ?gs demo_pub"
  let ?px = "demo_px\<lparr>px_tag := ''nightly''\<rparr>"
  have 1: "fst ?r = Inr ()" by code_simp
  have 2: "list_all (\<lambda>a. act_url a = ''https://b.example/ap'' \<and> act_they_follow a) (actors (tbl (snd ?r)))" by code_simp
  have c: "clean_globs ?gs = Some [''v*'', ''latest'']" by code_simp
  have m: "path_match ''v*'' ''nightly'' = Some False" "path_match ''latest'' ''nightly'' = Some False" by code_simp+
  have k: "px_kind ?px = PubTag" "px_tag ?px = ''nightly''" by (simp_all add: demo_px_def)
  have "\<not> actorAcceptsActivity a ?px" if "a \<in> set (actors (tbl (snd ?r)))" for a
  proof -
    note mem = that
    from that 2 have "act_url a = ''https://b.example/ap''" "act_they_follow a" by (auto simp: list_all_iff)
    moreover have "UpdateFollowFilter ''https://b.example/ap'' ?gs demo_pub = (Inr (), snd ?r)" using 1 by (simp add: prod_eq_iff)
    moreover have "list_all (\<lambda>g. CHR '','' \<notin> set g) ?gs" by simp
    ultimately obtain cleaned where "clean_globs ?gs = Some cleaned"
      "actorAcceptsActivity a ?px \<longleftrightarrow> cleaned = [] \<or> (\<exists>g \<in> set cleaned. path_match g (px_tag ?px) = Some True)"
      using filter_roundtrip [OF _ _ mem _ _ disjI1 [OF k(1)]] by blast
    with c m k show ?thesis by auto
  qed
  with 1 show ?thesis by (intro exI [of _ "snd ?r"]) (simp add: list_ex_iff prod_eq_iff)
qed

lemma exclusion_spares_deletes_witness:
  "createAndDeliver pub_world demo_publisher ''Create'' JNull (demo_px\<lparr>px_repo := ''secret-lib''\<rparr>) demo_pub = (Inr (), demo_pub)"
proof -
  have "repoExcluded demo_publisher (px_repo (demo_px\<lparr>px_repo := ''secret-lib''\<rparr>))" by code_simp
  with exclusion_spares_deletes [of demo_publisher "demo_px\<lparr>px_repo := ''secret-lib''\<rparr>" pub_world "''Create''" JNull demo_pub] show ?thesis
    by (cases "createAndDeliver pub_world demo_publisher ''Create'' JNull (demo_px\<lparr>px_repo := ''secret-lib''\<rparr>) demo_pub") auto
qed

end
