(* ===== verification/Publish_Ingest.thy ===== *)
theory Publish_Ingest
  imports Publisher
begin

text \<open>
  The two ends of federation composed: the object that \<open>PublishManifest\<close> sends is read by
  \<open>ingestManifest\<close> of another node. The hypotheses on the world are the round trip of base64 and that
  the encoding of something is not empty.
\<close>

section \<open>From the sender to the receiver\<close>

lemma manifest_json_fields:
  "jstr (OCIManifest_json oid att pb repo digest mt sz content subj tag) ''ociRepository'' = repo"
  "jstr (OCIManifest_json oid att pb repo digest mt sz content subj tag) ''ociDigest'' = digest"
  "jstr (OCIManifest_json oid att pb repo digest mt sz content subj tag) ''ociMediaType'' = mt"
  "jstr (OCIManifest_json oid att pb repo digest mt sz content subj tag) ''ociContent'' = content"
  "jstr (OCIManifest_json oid att pb repo digest mt sz content subj tag) ''ociSubjectDigest'' = subj"
  "jstr (OCIManifest_json oid att pb repo digest mt sz content subj tag) ''ociTag'' = tag"
  "jnum (OCIManifest_json oid att pb repo digest mt sz content subj tag) ''ociSize'' = of_int sz"
  by (simp_all add: OCIManifest_json_def jstr_def jnum_def omitempty_def)

text \<open>What the sender may push and the receiver is willing to take.\<close>

record pushed =
  ps_repo :: string
  ps_tag :: string
  ps_digest :: string
  ps_media_type :: string
  ps_content :: string
  ps_subject :: "string option"

definition pushable :: "world \<Rightarrow> inbox_cfg \<Rightarrow> pushed \<Rightarrow> bool" where
  "pushable w cfg m \<longleftrightarrow> RepoName (ps_repo m) \<and> Digest (ps_digest m) \<and> MediaType (ps_media_type m) \<and> ps_media_type m \<noteq> '''' \<and>
     (ps_tag m = '''' \<or> Tag_ok (ps_tag m)) \<and> ps_subject m \<noteq> Some '''' \<and> (case ps_subject m of None \<Rightarrow> True | Some d \<Rightarrow> Digest d) \<and>
     ps_content m \<noteq> '''' \<and> ps_digest m = ''sha256:'' @ Sum256 w (ps_content m) \<and> int (length (ps_content m)) \<le> maxManifestSize cfg"

definition manifest_object :: "world \<Rightarrow> APPublisher \<Rightarrow> string \<Rightarrow> pushed \<Rightarrow> jobj" where
  "manifest_object w p published m = OCIManifest_json (objectURL p ''manifest'' (ps_digest m)) (pc_self p) published
     (ps_repo m) (ps_digest m) (ps_media_type m) (int (length (ps_content m))) (EncodeContent w (ps_content m))
     (case ps_subject m of None \<Rightarrow> '''' | Some d \<Rightarrow> d) (ps_tag m)"

lemma PublishManifest_object:
  "PublishManifest w p (ps_repo m) (ps_tag m) (ps_digest m) (ps_media_type m) (int (length (ps_content m))) (ps_content m) (ps_subject m) =
   bindE now (\<lambda>c. createAndDeliver w p ''Create'' (JObj (manifest_object w p (RFC3339 w c) m))
     \<lparr>px_kind = PubManifest, px_repo = ps_repo m, px_tag = ps_tag m\<rparr>)"
  by (simp add: PublishManifest_def manifest_object_def)

lemma RepoName_nonempty: "RepoName r \<Longrightarrow> r \<noteq> ''''"
  by (auto simp: RepoName_def)

lemma Digest_nonempty: "Digest d \<Longrightarrow> d \<noteq> ''''"
  by (auto simp: Digest_def HasPrefix_def CutPrefix_def split: option.splits if_splits)

lemma object_accepted:
  assumes "pushable w cfg m" and "EncodeToString w (ps_content m) \<noteq> ''''"
    and "DecodeString w (EncodeToString w (ps_content m)) = Some (ps_content m)"
  shows "check_manifest cfg (manifest_object w p published m) = None"
    and "manifest_content w cfg (manifest_object w p published m) (ps_digest m) = Inr (Some (ps_content m))"
  using assms RepoName_nonempty Digest_nonempty
  by (auto simp: check_manifest_def manifest_content_def manifest_object_def manifest_json_fields pushable_def EncodeContent_def Let_def)

section \<open>The receiver stores it\<close>

definition own_repo :: "string \<Rightarrow> string \<Rightarrow> int \<Rightarrow> tables \<Rightarrow> bool" where
  "own_repo repo A rid t \<longleftrightarrow> (\<exists>p \<in> set (packages t). pkg_id p = rid \<and> pkg_type p = ociPackageType \<and> pkg_name p = repo \<and> pkg_owner p = A)"

definition has_manifest :: "pushed \<Rightarrow> int \<Rightarrow> tables \<Rightarrow> bool" where
  "has_manifest m rid t \<longleftrightarrow> (\<exists>v \<in> set (package_versions t).
     (ver_package v, ver_version v, ver_media_type v, ver_size v, ver_metadata v, ver_subject v) =
     (rid, ps_digest m, ps_media_type m, int (length (ps_content m)), ps_content m, ps_subject m))"

abbreviation io_only :: "err \<Rightarrow> 's \<Rightarrow> bool" where
  "io_only \<equiv> \<lambda>e _. e = ErrIO"

lemma hoare_keepsI: "keeps P m \<Longrightarrow> raises {ErrIO} m \<Longrightarrow> hoare P m (\<lambda>_. P) io_only"
  unfolding hoare_def keeps_def raises_def by (fastforce split: prod.splits sum.splits)

lemma ingest_repo_run:
  assumes wf: "wf_tables (tbl s)"
    and own: "\<And>p. p \<in> set (packages (tbl s)) \<Longrightarrow> pkg_type p = ociPackageType \<Longrightarrow> pkg_name p = repo \<Longrightarrow> pkg_owner p = A"
    and run: "ingest_repo repo A s = (r, s')"
  shows "case r of Inl e \<Rightarrow> e = ErrIO | Inr ro \<Rightarrow> own_repo repo A (repo_id ro) (tbl s')"
proof -
  let ?find = "\<lambda>t. find_where (\<lambda>r. (pkg_type r, pkg_name r) = (ociPackageType, repo)) (packages t)"
  obtain g t where g: "GetPackage ociPackageType repo s = (g, t)" by (cases "GetPackage ociPackageType repo s")
  show ?thesis
  proof (cases g)
    case (Inl e)
    with g run show ?thesis
      by (auto simp: ingest_repo_def GetRepository_def bindE_def GetPackage_def dest: query_err)
  next
    case (Inr x)
    with g have t: "x = ?find (tbl s)" "tbl t = tbl s" by (auto simp: GetPackage_def dest: query_ok)
    show ?thesis
    proof (cases x)
      case None
      with run g Inr have c: "bindE (GetOrCreatePackage ociPackageType repo A) (\<lambda>pkg. ret (packageAsRepository pkg)) t = (r, s')"
        by (simp add: ingest_repo_def GetRepository_def bindE_def ret_def GetOrCreateRepository_def)
      have "?find (tbl t) = None" using None t by simp
      with create_package_spec [of t ociPackageType repo A] c t(2) own show ?thesis
        by (cases "GetOrCreatePackage ociPackageType repo A t")
          (fastforce simp: bindE_def own_repo_def packageAsRepository_def ret_def split: sum.split_asm)
    next
      case (Some p)
      with find_where_Some [OF t(1) [symmetric, unfolded Some]]
      have p: "p \<in> set (packages (tbl s))" "pkg_type p = ociPackageType" "pkg_name p = repo" by auto
      have "find_where (\<lambda>q. pkg_id q = pkg_id p) (packages (tbl s)) = Some p"
        using wf by (intro pkgs.fresh_lookup [OF _ p(1)]) (auto simp: wf_tables_def)
      with run g Inr Some t(2) own [OF p] p show ?thesis
        by (auto simp: ingest_repo_def GetRepository_def IsRepositoryOwner_def IsPackageOwner_def bindE_def ret_def own_repo_def
            packageAsRepository_def split: prod.split_asm sum.split_asm option.split_asm if_split_asm dest!: query_ok query_err)
    qed
  qed
qed

lemma put_manifest_hoare:
  "hoare (\<lambda>s. own_repo repo A rid (tbl s))
     (PutManifest \<lparr>man_id = 0, man_repo = rid, man_digest = ps_digest m, man_media_type = ps_media_type m,
        man_size = int (length (ps_content m)), man_content = ps_content m, man_source = src, man_subject = ps_subject m,
        man_artifact = None, man_created = 0\<rparr>)
     (\<lambda>_ s. own_repo repo A rid (tbl s) \<and> has_manifest m rid (tbl s)) io_only"
proof (rule hoareI)
  fix s :: "'z store_scheme" and x s'
  assume own: "own_repo repo A rid (tbl s)"
    and run: "PutManifest \<lparr>man_id = 0, man_repo = rid, man_digest = ps_digest m, man_media_type = ps_media_type m,
        man_size = int (length (ps_content m)), man_content = ps_content m, man_source = src, man_subject = ps_subject m,
        man_artifact = None, man_created = 0\<rparr> s = (Inr x, s')"
  from run obtain v where v: "putPackageVersion (manifestAsVersion \<lparr>man_id = 0, man_repo = rid, man_digest = ps_digest m,
        man_media_type = ps_media_type m, man_size = int (length (ps_content m)), man_content = ps_content m, man_source = src,
        man_subject = ps_subject m, man_artifact = None, man_created = 0\<rparr>) s = (Inr v, s')"
    by (auto simp: PutManifest_def PutPackageVersion_def elim!: bindE_okE)
  from putPackageVersion_ok [OF v] find_where_Some
  have "has_manifest m rid (tbl s')" by (fastforce simp: has_manifest_def same_content_def manifestAsVersion_def)
  moreover have "packages (tbl s') = packages (tbl s)"
    using putPackageVersion_ok [OF v] by (simp add: upsert_version_def)
  ultimately show "own_repo repo A rid (tbl s') \<and> has_manifest m rid (tbl s')" using own by (simp add: own_repo_def)
next
  fix s :: "'z store_scheme" and e s'
  assume "PutManifest \<lparr>man_id = 0, man_repo = rid, man_digest = ps_digest m, man_media_type = ps_media_type m,
        man_size = int (length (ps_content m)), man_content = ps_content m, man_source = src, man_subject = ps_subject m,
        man_artifact = None, man_created = 0\<rparr> s = (Inl e, s')"
  then show "e = ErrIO"
    by (auto simp: PutManifest_def PutPackageVersion_def elim!: bindE_errE dest: put_version_io)
qed

lemma keeps_replicate_ref: "keeps (\<lambda>s. P (tbl s)) (replicate_ref r)"
  unfolding replicate_ref_def FindPeersWithBlob_def GetBlob_def ReplicateBlob_def
  by (intro keeps_intros keeps_modify) simp_all

lemma record_layers_hoare:
  assumes "\<And>t vid refs c. P t \<Longrightarrow> P (upsert_blob_reference vid refs c t)"
  shows "hoare (\<lambda>s. P (tbl s)) (recordLayersAndReplicate w cfg content rid digest) (\<lambda>_ s. P (tbl s)) io_only"
proof (rule hoare_keepsI)
  show "keeps (\<lambda>s. P (tbl s)) (recordLayersAndReplicate w cfg content rid digest)"
    unfolding recordLayersAndReplicate_def GetManifestByDigest_def GetPackageVersion_def getPackageVersion_def
      PutManifestLayers_def PutBlobReferences_def putBlobReferences_def
    by (intro keeps_intros keeps_replicate_ref) (auto intro: assms)
  show "raises {ErrIO} (recordLayersAndReplicate w cfg content rid digest)"
    unfolding recordLayersAndReplicate_def replicate_ref_def ReplicateBlob_def by (intro raises_intros)
qed

lemma put_tag_hoare:
  assumes "\<And>t c. P t \<Longrightarrow> P (upsert_tag rid tag digest c t)"
  shows "hoare (\<lambda>s. own_repo repo A rid (tbl s) \<and> P (tbl s)) (PutTag rid tag digest)
    (\<lambda>_ s. own_repo repo A rid (tbl s) \<and> P (tbl s) \<and>
       (\<exists>g \<in> set (package_tags (tbl s)). (tag_package g, tag_name g, tag_version g) = (rid, tag, digest))) io_only"
proof (rule hoareI)
  fix s :: "'z store_scheme" and x s'
  assume own: "own_repo repo A rid (tbl s) \<and> P (tbl s)" and run: "PutTag rid tag digest s = (Inr x, s')"
  from run obtain c where t: "tbl s' = upsert_tag rid tag digest c (tbl s)"
    unfolding PutTag_def PutPackageTag_def
    by (elim run_tx_ok) (auto elim!: bindE_okE split: if_split_asm dest!: query_ok exec_ok)
  obtain g where "find_where (\<lambda>g. (tag_package g, tag_name g) = (rid, tag)) (package_tags (tbl s')) = Some g" "tag_version g = digest"
    unfolding t by (rule upsert_tag_found)
  with own t assms show "own_repo repo A rid (tbl s') \<and> P (tbl s') \<and>
       (\<exists>g \<in> set (package_tags (tbl s')). (tag_package g, tag_name g, tag_version g) = (rid, tag, digest))"
    by (auto simp: own_repo_def upsert_tag_def dest!: find_where_Some)
next
  fix s :: "'z store_scheme" and e s'
  assume own: "own_repo repo A rid (tbl s) \<and> P (tbl s)" and run: "PutTag rid tag digest s = (Inl e, s')"
  from own have "exists_where (\<lambda>r. pkg_id r = rid) (packages (tbl s))"
    by (auto simp: own_repo_def exists_where_def list_ex_iff)
  with run show "e = ErrIO"
    unfolding PutTag_def PutPackageTag_def
    by (cases rule: run_tx_errE) (auto elim!: bindE_errE split: if_split_asm dest!: query_ok query_err exec_err)
qed

text \<open>The tag, when there is one, points at the manifest.\<close>

definition tag_set :: "pushed \<Rightarrow> int \<Rightarrow> tables \<Rightarrow> bool" where
  "tag_set m rid t \<longleftrightarrow> ps_tag m = '''' \<or>
     (\<exists>g \<in> set (package_tags t). (tag_package g, tag_name g, tag_version g) = (rid, ps_tag m, ps_digest m))"

lemma store_pushed_hoare:
  "hoare (\<lambda>s. own_repo repo A rid (tbl s))
    (bindE (PutManifest \<lparr>man_id = 0, man_repo = rid, man_digest = ps_digest m, man_media_type = ps_media_type m,
        man_size = int (length (ps_content m)), man_content = ps_content m, man_source = src, man_subject = ps_subject m,
        man_artifact = None, man_created = 0\<rparr>) (\<lambda>_.
     bindE (recordLayersAndReplicate w cfg (Some (ps_content m)) rid (ps_digest m)) (\<lambda>_.
     if ps_tag m \<noteq> '''' then PutTag rid (ps_tag m) (ps_digest m) else ret ())))
    (\<lambda>_ s. own_repo repo A rid (tbl s) \<and> has_manifest m rid (tbl s) \<and> tag_set m rid (tbl s)) io_only"
proof (rule hoare_bindE [OF put_manifest_hoare [where repo = repo and A = A]], rule hoare_bindE)
  show "hoare (\<lambda>s. own_repo repo A rid (tbl s) \<and> has_manifest m rid (tbl s))
      (recordLayersAndReplicate w cfg (Some (ps_content m)) rid (ps_digest m))
      (\<lambda>_ s. own_repo repo A rid (tbl s) \<and> has_manifest m rid (tbl s)) io_only"
    by (rule record_layers_hoare) (simp add: own_repo_def has_manifest_def upsert_blob_reference_def)
  show "hoare (\<lambda>s. own_repo repo A rid (tbl s) \<and> has_manifest m rid (tbl s))
      (if ps_tag m \<noteq> '''' then PutTag rid (ps_tag m) (ps_digest m) else ret ())
      (\<lambda>_ s. own_repo repo A rid (tbl s) \<and> has_manifest m rid (tbl s) \<and> tag_set m rid (tbl s)) io_only" for x y
  proof (cases "ps_tag m = ''''")
    case True
    then show ?thesis by (simp add: hoare_def ret_def tag_set_def)
  next
    case False
    have "hoare (\<lambda>s. own_repo repo A rid (tbl s) \<and> has_manifest m rid (tbl s)) (PutTag rid (ps_tag m) (ps_digest m))
      (\<lambda>_ s. own_repo repo A rid (tbl s) \<and> has_manifest m rid (tbl s) \<and>
       (\<exists>g \<in> set (package_tags (tbl s)). (tag_package g, tag_name g, tag_version g) = (rid, ps_tag m, ps_digest m))) io_only"
      by (rule put_tag_hoare) (simp add: has_manifest_def upsert_tag_def)
    with False show ?thesis
      by (auto simp: tag_set_def elim: hoare_weaken)
  qed
qed

text \<open>C7. What one node publishes another stores: the object a node publishes for a pushed manifest passes
  every check of a receiver that knows the sender's namespace and has no repository of that name with
  another owner; the receiver either reports an I/O failure or ends with the repository owned by the
  sender, the manifest with the same digest, media type, size, content and subject, and the tag.\<close>

lemma publish_ingest_roundtrip:
  assumes "pushable w cfg m" and "EncodeToString w (ps_content m) \<noteq> ''''"
    and "DecodeString w (EncodeToString w (ps_content m)) = Some (ps_content m)"
    and "wf_tables (tbl s)" and "map_of (nsCache s) (pc_self p) = Some ns" and "repoOwnedBySender (ps_repo m) ns"
    and "\<And>r. r \<in> set (packages (tbl s)) \<Longrightarrow> pkg_type r = ociPackageType \<Longrightarrow> pkg_name r = ps_repo m \<Longrightarrow> pkg_owner r = pc_self p"
    and "ingestManifest w cfg (manifest_object w p published m) (pc_self p) s = (r, s')"
  shows "case r of Inl e \<Rightarrow> e = ErrIO
    | Inr _ \<Rightarrow> \<exists>rid. own_repo (ps_repo m) (pc_self p) rid (tbl s') \<and> has_manifest m rid (tbl s') \<and> tag_set m rid (tbl s')"
proof -
  let ?obj = "manifest_object w p published m"
  let ?subj = "jstr ?obj ''ociSubjectDigest''"
  have fields: "jstr ?obj ''ociRepository'' = ps_repo m" "jstr ?obj ''ociDigest'' = ps_digest m"
    "jstr ?obj ''ociMediaType'' = ps_media_type m" "jstr ?obj ''ociTag'' = ps_tag m"
    by (simp_all add: manifest_object_def manifest_json_fields)
  have subj: "(if ?subj \<noteq> '''' then Some ?subj else None) = ps_subject m" "(?subj \<noteq> '''' \<and> \<not> Digest ?subj) = False"
    using assms(1) by (auto simp: pushable_def manifest_object_def manifest_json_fields split: option.splits)
  have ns: "fetchSenderNamespace w (pc_self p) s = (Inr ns, s)"
    using assms(5) by (simp add: fetchSenderNamespace_def bindE_def gets_def ret_def)
  let ?store = "\<lambda>rid. bindE (PutManifest \<lparr>man_id = 0, man_repo = rid, man_digest = ps_digest m, man_media_type = ps_media_type m,
      man_size = int (length (ps_content m)), man_content = ps_content m, man_source = Some (pc_self p), man_subject = ps_subject m,
      man_artifact = None, man_created = 0\<rparr>) (\<lambda>_.
    bindE (recordLayersAndReplicate w cfg (Some (ps_content m)) rid (ps_digest m)) (\<lambda>_.
    if ps_tag m \<noteq> '''' then PutTag rid (ps_tag m) (ps_digest m) else ret ()))"
  have run: "ingestManifest w cfg ?obj (pc_self p) s = bindE (ingest_repo (ps_repo m) (pc_self p)) (\<lambda>ro. ?store (repo_id ro)) s"
    unfolding ingestManifest_def Let_def fields object_accepted [OF assms(1-3)] option.case sum.case subj if_False
    using assms(6) by (simp add: bindE_def [of "fetchSenderNamespace w (pc_self p)"] ns)
  define K where "K = (\<lambda>ro :: Repository. ?store (repo_id ro))"
  from assms(8) have K: "bindE (ingest_repo (ps_repo m) (pc_self p)) K s = (r, s')" unfolding run K_def .
  obtain g t where g: "ingest_repo (ps_repo m) (pc_self p) s = (g, t)" by (cases "ingest_repo (ps_repo m) (pc_self p) s")
  have repo: "case g of Inl e \<Rightarrow> e = ErrIO | Inr ro \<Rightarrow> own_repo (ps_repo m) (pc_self p) (repo_id ro) (tbl t)"
    by (rule ingest_repo_run [OF assms(4) _ g]) (rule assms(7))
  show ?thesis
  proof (cases g)
    case (Inl e)
    from K have "r = Inl e" unfolding bindE_def g Inl by simp
    moreover from repo have "e = ErrIO" unfolding Inl by simp
    ultimately show ?thesis by simp
  next
    case (Inr ro)
    from repo have own: "own_repo (ps_repo m) (pc_self p) (repo_id ro) (tbl t)" unfolding Inr by simp
    from K have store: "K ro t = (r, s')" unfolding bindE_def g Inr by simp
    show ?thesis
    proof (cases r)
      case (Inl e)
      with hoare_errD [OF store_pushed_hoare own store [unfolded K_def Inl]] show ?thesis by simp
    next
      case (Inr x)
      with hoare_okD [OF store_pushed_hoare own store [unfolded K_def Inr]] show ?thesis by auto
    qed
  qed
qed

section \<open>Witness\<close>

definition demo_push :: pushed where
  "demo_push = \<lparr>ps_repo = ''a.example/lib'', ps_tag = ''v2'', ps_digest = ''sha256:'' @ replicate 64 (CHR ''a''),
     ps_media_type = ''application/json'', ps_content = ''content'', ps_subject = None\<rparr>"

definition demo_receiver :: fed where
  "demo_receiver = demo_fed\<lparr>nsCache := [(''https://a.example/ap'', ''a.example'')]\<rparr>"

lemma publish_ingest_roundtrip_witness:
  "fst (ingestManifest demo_world demo_cfg (manifest_object demo_world demo_publisher ''t'' demo_push) ''https://a.example/ap'' demo_receiver) = Inr () \<and>
   (\<exists>rid. own_repo ''a.example/lib'' ''https://a.example/ap'' rid
      (tbl (snd (ingestManifest demo_world demo_cfg (manifest_object demo_world demo_publisher ''t'' demo_push) ''https://a.example/ap'' demo_receiver))))"
proof -
  let ?r = "ingestManifest demo_world demo_cfg (manifest_object demo_world demo_publisher ''t'' demo_push) ''https://a.example/ap'' demo_receiver"
  have 1: "pushable demo_world demo_cfg demo_push" by code_simp
  have 2: "fst ?r = Inr ()" by code_simp
  have 3: "repoOwnedBySender (ps_repo demo_push) ''a.example''" by code_simp
  have 4: "pkg_owner r = pc_self demo_publisher"
    if "r \<in> set (packages (tbl demo_receiver))" "pkg_name r = ps_repo demo_push" for r
    using that by (auto simp: demo_receiver_def demo_fed_def demo_tables_def demo_push_def empty_tables_def)
  have "EncodeToString demo_world (ps_content demo_push) \<noteq> ''''"
    "DecodeString demo_world (EncodeToString demo_world (ps_content demo_push)) = Some (ps_content demo_push)"
    "wf_tables (tbl demo_receiver)" "map_of (nsCache demo_receiver) (pc_self demo_publisher) = Some ''a.example''"
    using wf_demo by (simp_all add: demo_world_def demo_push_def demo_receiver_def demo_fed_def demo_publisher_def)
  from publish_ingest_roundtrip [OF 1 this 3 4 prod.collapse [symmetric], of "''t''"] 2
  have "\<exists>rid. own_repo (ps_repo demo_push) (pc_self demo_publisher) rid
      (tbl (snd (ingestManifest demo_world demo_cfg (manifest_object demo_world demo_publisher ''t'' demo_push) (pc_self demo_publisher) demo_receiver)))"
    by (auto simp: demo_publisher_def)
  with 2 show ?thesis by (simp add: demo_push_def demo_publisher_def)
qed

end
