(* ===== verification/Blobstore.thy ===== *)
theory Blobstore
  imports Publisher
begin

text \<open>
  \<open>internal/blobstore/store.go\<close>: content-addressed blobs on the file system. The state is the set of
  files under the blob root by the digest of their path, with content and modification time. Every
  file-system call may fail (\<open>tick\<close>).

  \<open>content_store\<close> is the interface \<open>BlobStore\<close> that the registry, the garbage collector and the
  replicator rely on, with the laws that make it content addressed; the file store is its
  interpretation.
\<close>

section \<open>State\<close>

record disk = pub +
  bfiles :: "(string \<times> string \<times> int) list"

text \<open>A reader: what it delivers, and whether it then fails instead of ending.\<close>

record reader =
  rd_data :: string
  rd_fail :: bool

definition bytes_reader :: "string \<Rightarrow> reader" where
  "bytes_reader s = \<lparr>rd_data = s, rd_fail = False\<rparr>"

text \<open>\<open>io.LimitReader\<close>: at most \<open>n\<close> bytes; a failure beyond them is not seen.\<close>

definition LimitReader :: "reader \<Rightarrow> int \<Rightarrow> reader" where
  "LimitReader r n = \<lparr>rd_data = take (nat n) (rd_data r), rd_fail = rd_fail r \<and> int (length (rd_data r)) < n\<rparr>"

definition hash_of :: "world \<Rightarrow> string \<Rightarrow> string" where
  "hash_of w content = ''sha256:'' @ Sum256 w content"

section \<open>Operations\<close>

text \<open>
  \<open>pathForDigest\<close> is total on valid digests and injective, so a file is known by its digest.
  An error removes the temporary file; the rename at the end is atomic.
\<close>

definition store_Put :: "world \<Rightarrow> reader \<Rightarrow> string \<Rightarrow> ('z disk_scheme, string \<times> int) prog" where
  "store_Put w r expectedDigest =
     (if expectedDigest \<noteq> '''' \<and> \<not> Digest expectedDigest then fail (Errorf ''invalid expected digest'')
      else bindE tick (\<lambda>_.
        if rd_fail r then fail (Errorf ''writing blob'')
        else bindE tick (\<lambda>_.
        bindE tick (\<lambda>_.
        let computed = hash_of w (rd_data r) in
        if expectedDigest \<noteq> '''' \<and> computed \<noteq> expectedDigest then fail (Errorf ''digest mismatch'')
        else if \<not> Digest computed then fail (Errorf ''unexpected invalid computed digest'')
        else bindE tick (\<lambda>_.
          bindE tick (\<lambda>_.
          bindE (modify (\<lambda>s. s\<lparr>bfiles := AList.update computed (rd_data r, clock s) (bfiles s)\<rparr>)) (\<lambda>_.
          ret (computed, int (length (rd_data r))))))))))"

definition store_Open :: "string \<Rightarrow> ('z disk_scheme, string \<times> int) prog" where
  "store_Open digest =
     (if \<not> Digest digest then fail (Errorf ''invalid digest'')
      else bindE tick (\<lambda>_. bindE (gets (\<lambda>s. map_of (bfiles s) digest)) (\<lambda>f. case f of
          None \<Rightarrow> fail ErrBlobNotFound
        | Some (content, _) \<Rightarrow> bindE tick (\<lambda>_. ret (content, int (length content))))))"

definition store_Exists :: "string \<Rightarrow> ('z disk_scheme, bool) prog" where
  "store_Exists digest =
     (if \<not> Digest digest then ret False
      else bindE tick (\<lambda>_. gets (\<lambda>s. map_of (bfiles s) digest \<noteq> None)))"

definition store_Size :: "string \<Rightarrow> ('z disk_scheme, int) prog" where
  "store_Size digest =
     (if \<not> Digest digest then fail (Errorf ''invalid digest'')
      else bindE tick (\<lambda>_. bindE (gets (\<lambda>s. map_of (bfiles s) digest)) (\<lambda>f. case f of
          None \<Rightarrow> fail ErrBlobNotFound
        | Some (content, _) \<Rightarrow> ret (int (length content)))))"

definition store_ModTime :: "string \<Rightarrow> ('z disk_scheme, int) prog" where
  "store_ModTime digest =
     (if \<not> Digest digest then fail (Errorf ''invalid digest'')
      else bindE tick (\<lambda>_. bindE (gets (\<lambda>s. map_of (bfiles s) digest)) (\<lambda>f. case f of
          None \<Rightarrow> fail ErrBlobNotFound
        | Some (_, mtime) \<Rightarrow> ret mtime)))"

definition store_Delete :: "string \<Rightarrow> ('z disk_scheme, unit) prog" where
  "store_Delete digest =
     (if \<not> Digest digest then fail (Errorf ''invalid digest'')
      else bindE tick (\<lambda>_. modify (\<lambda>s. s\<lparr>bfiles := AList.delete digest (bfiles s)\<rparr>)))"

text \<open>Two directory levels are read; a failed one fails the whole listing.\<close>

definition store_ListDigests :: "('z disk_scheme, string list) prog" where
  "store_ListDigests = bindE tick (\<lambda>_. bindE tick (\<lambda>_. gets (\<lambda>s. remdups (map fst (bfiles s)))))"

section \<open>The interface\<close>

text \<open>
  What a blob store promises: \<open>holds s d\<close> is the content stored under \<open>d\<close>. A successful put stores
  the whole input under its hash and touches nothing else; a failed call changes nothing; a
  successful open returns what is held; delete removes exactly one blob.
\<close>

locale content_store =
  fixes put :: "reader \<Rightarrow> string \<Rightarrow> ('s, string \<times> int) prog"
    and open_blob :: "string \<Rightarrow> ('s, string \<times> int) prog"
    and delete :: "string \<Rightarrow> ('s, unit) prog"
    and holds :: "'s \<Rightarrow> string \<Rightarrow> string option"
    and hash :: "string \<Rightarrow> string"
  assumes put_ok: "put r e s = (Inr (d, n), s') \<Longrightarrow> \<not> rd_fail r \<and> d = hash (rd_data r) \<and> n = int (length (rd_data r)) \<and>
        (e = '''' \<or> d = e) \<and> holds s' = (holds s)(d \<mapsto> rd_data r)"
    and put_err: "put r e s = (Inl x, s') \<Longrightarrow> holds s' = holds s"
    and open_ok: "open_blob d s = (Inr (c, n), s') \<Longrightarrow> holds s d = Some c \<and> n = int (length c) \<and> holds s' = holds s"
    and open_err: "open_blob d s = (Inl x, s') \<Longrightarrow> holds s' = holds s"
    and delete_ok: "delete d s = (Inr u, s') \<Longrightarrow> holds s' = (holds s)(d := None)"
    and delete_err: "delete d s = (Inl x, s') \<Longrightarrow> holds s' = holds s"
begin

text \<open>Content addressing: everything held hashes to its digest.\<close>

definition addressed :: "'s \<Rightarrow> bool" where
  "addressed s \<longleftrightarrow> (\<forall>d c. holds s d = Some c \<longrightarrow> hash c = d)"

lemma put_addressed: "addressed s \<Longrightarrow> put r e s = (x, s') \<Longrightarrow> addressed s'"
  by (cases x) (auto simp: addressed_def dest!: put_ok put_err split: if_split_asm)

lemma open_addressed: "addressed s \<Longrightarrow> open_blob d s = (x, s') \<Longrightarrow> addressed s'"
  by (cases x) (auto simp: addressed_def dest!: open_ok open_err)

lemma delete_addressed: "addressed s \<Longrightarrow> delete d s = (x, s') \<Longrightarrow> addressed s'"
  by (cases x) (auto simp: addressed_def dest!: delete_ok delete_err split: if_split_asm)

lemma open_verified: "addressed s \<Longrightarrow> open_blob d s = (Inr (c, n), s') \<Longrightarrow> hash c = d \<and> n = int (length c)"
  by (auto simp: addressed_def dest: open_ok)

text \<open>Everything a client can do with one store.\<close>

inductive blob_step :: "'s \<Rightarrow> 's \<Rightarrow> bool" where
  put_step: "put r e s = (x, s') \<Longrightarrow> blob_step s s'"
| open_step: "open_blob d s = (y, s') \<Longrightarrow> blob_step s s'"
| delete_step: "delete d s = (z, s') \<Longrightarrow> blob_step s s'"

lemma steps_addressed:
  assumes "blob_step\<^sup>*\<^sup>* s s'" and "addressed s"
  shows "addressed s'"
  using assms
  by (induction rule: rtranclp_induct)
    (auto elim!: blob_step.cases intro: put_addressed open_addressed delete_addressed)

text \<open>What was put is what is read, until somebody deletes it or puts the same content again.\<close>

lemma put_then_open:
  assumes "put r e s = (Inr (d, n), s1)" and "holds s2 = holds s1" and "open_blob d s2 = (Inr (c, m), s3)"
  shows "c = rd_data r \<and> m = n"
  using put_ok [OF assms(1)] open_ok [OF assms(3)] assms(2) by auto

end

section \<open>The file store implements it\<close>

definition held :: "'z disk_scheme \<Rightarrow> string \<Rightarrow> string option" where
  "held s d = map_option fst (map_of (bfiles s) d)"

lemma tick_disk: "tick s = (r, s') \<Longrightarrow> bfiles s' = bfiles s"
  by (auto simp: tick_def split: list.splits)

lemma held_tick: "tick s = (r, s') \<Longrightarrow> held s' = held s"
  by (simp add: held_def fun_eq_iff tick_disk)

lemmas disk_elims = bindE_okE bindE_errE

interpretation files: content_store "store_Put w" store_Open store_Delete held "hash_of w" for w
proof unfold_locales
  fix r e s s' d n
  assume "store_Put w r e (s :: 'a disk_scheme) = (Inr (d, n), s')"
  then show "\<not> rd_fail r \<and> d = hash_of w (rd_data r) \<and> n = int (length (rd_data r)) \<and> (e = '''' \<or> d = e) \<and>
      held s' = (held s)(d \<mapsto> rd_data r)"
    by (auto simp: store_Put_def Let_def held_def fun_eq_iff update_conv' elim!: bindE_okE dest!: tick_disk split: if_split_asm)
next
  fix r e s s' x
  assume "store_Put w r e (s :: 'a disk_scheme) = (Inl x, s')"
  then show "held s' = held s"
    by (auto simp: store_Put_def Let_def elim!: bindE_errE dest!: held_tick split: if_split_asm)
next
  fix d s s' c n
  assume "store_Open d (s :: 'a disk_scheme) = (Inr (c, n), s')"
  then show "held s d = Some c \<and> n = int (length c) \<and> held s' = held s"
    by (auto simp: store_Open_def held_def fun_eq_iff elim!: bindE_okE dest!: tick_disk split: if_split_asm option.split_asm)
next
  fix d s s' x
  assume "store_Open d (s :: 'a disk_scheme) = (Inl x, s')"
  then show "held s' = held s"
    by (auto simp: store_Open_def elim!: bindE_errE dest!: held_tick split: if_split_asm option.split_asm)
next
  fix d s s' u
  assume "store_Delete d (s :: 'a disk_scheme) = (Inr u, s')"
  then show "held s' = (held s)(d := None)"
    by (auto simp: store_Delete_def held_def fun_eq_iff delete_conv' elim!: bindE_okE dest!: tick_disk split: if_split_asm)
next
  fix d s s' x
  assume "store_Delete d (s :: 'a disk_scheme) = (Inl x, s')"
  then show "held s' = held s"
    by (auto simp: store_Delete_def elim!: bindE_errE dest!: held_tick split: if_split_asm)
qed

text \<open>A client's calls in any order, and what they leave on the disk, failed ones included.\<close>

datatype blob_op = PutOp reader string | OpenOp string | DeleteOp string

primrec store_op :: "world \<Rightarrow> blob_op \<Rightarrow> 'z disk_scheme \<Rightarrow> 'z disk_scheme" where
  "store_op w (PutOp r e) s = snd (store_Put w r e s)"
| "store_op w (OpenOp d) s = snd (store_Open d s)"
| "store_op w (DeleteOp d) s = snd (store_Delete d s)"

lemma store_op_step: "files.blob_step w s (store_op w x s)"
  by (cases x) (auto simp: prod_eq_iff intro: files.put_step files.open_step files.delete_step)

lemma store_ops_steps: "(files.blob_step w)\<^sup>*\<^sup>* s (fold (store_op w) ops s)"
proof (induction ops arbitrary: s)
  case (Cons x ops)
  show ?case using converse_rtranclp_into_rtranclp [where r = "files.blob_step w", OF store_op_step Cons.IH] by simp
qed simp

text \<open>C16. Whatever was put into the blob store, whichever calls failed and whoever deleted what in
  between, a blob that can be opened has exactly the content its digest names, and the size reported
  with it is its length: the store never serves a truncated, mixed up or mislabelled blob.\<close>

theorem blob_reads_verified:
  assumes "bfiles s = []"
    and "store_Open d (fold (store_op w) ops s) = (Inr (c, n), s')"
  shows "hash_of w c = d \<and> n = int (length c)"
proof -
  have "files.addressed w s" using assms(1) by (simp add: files.addressed_def held_def)
  then have "files.addressed w (fold (store_op w) ops s)" by (rule files.steps_addressed [OF store_ops_steps])
  then show ?thesis using assms(2) by (rule files.open_verified)
qed

definition empty_disk :: disk where
  "empty_disk = \<lparr>faults = [False, True], clock = 1000, tbl = demo_tables, postgres = False, nsCache = [], fetchFailures = [],
     blocked_domains = [], blocked_actors = [], inbox_queue = NewSimpleQueue,
     fetches = 0, uuids = 0, replicated = [], notified = [], invalidated = [], direct_posts = [], woken = 0, actorCache = [],
     bfiles = []\<rparr>"

text \<open>The first put runs into a full disk, the second one is accepted.\<close>

lemma blob_reads_verified_witness:
  "let s = fold (store_op pub_world) [PutOp (bytes_reader ''one'') [], PutOp (bytes_reader ''layer'') []] empty_disk;
       d = hash_of pub_world ''layer''
   in fst (store_Open d s) = Inr (''layer'', 5) \<and> hash_of pub_world ''layer'' = d"
proof -
  let ?s = "fold (store_op pub_world) [PutOp (bytes_reader ''one'') [], PutOp (bytes_reader ''layer'') []] empty_disk"
  let ?d = "hash_of pub_world ''layer''"
  have 1: "fst (store_Open ?d ?s) = Inr (''layer'', 5)" by code_simp
  have "store_Open ?d ?s = (Inr (''layer'', 5), snd (store_Open ?d ?s))" by (rule prod_eqI) (simp_all only: 1 fst_conv snd_conv)
  from blob_reads_verified [OF _ this] have "hash_of pub_world ''layer'' = ?d" by (simp add: empty_disk_def)
  with 1 show ?thesis by (simp add: Let_def)
qed

end
