(* ===== verification/Gc.thy ===== *)
theory Gc
  imports Blobstore
begin

text \<open>
  \<open>internal/peering/gc.go\<close>: the garbage collector. One cycle applies tag retention, prunes untagged
  manifests, drops stale peer references and orphaned blob rows, removes or repairs blob files without
  a row, reconciles rows with the files, and prunes old tombstones. A cycle holds a mutex; the model is
  one cycle without concurrent pushes, whose protection is the grace period.

  The clock does not advance within a cycle. The loops that have no bound in the code take fuel read
  off the tables: every round but the last removes at least one row.
\<close>

section \<open>Configuration\<close>

record RetentionPolicy =
  KeepLastN :: int
  MaxAge :: int
  PinnedGlobs :: "string list option"

record GCConfig =
  gc_Interval :: int
  gc_StalePeerBlobAge :: int
  gc_OrphanBatchSize :: int
  gc_BlobGCGracePeriod :: int
  gc_UntaggedManifestAge :: int
  gc_UntaggedBatchSize :: int
  gc_RetentionDefaults :: RetentionPolicy
  gc_RetentionPerRepo :: "(string \<times> RetentionPolicy) list"
  gc_RetentionTagsPerCycle :: int
  gc_LocalActor :: string
  gc_Namespace :: string
  gc_DiskUsageThreshold :: int
  gc_DiskUsagePath :: string
  gc_publisher :: "APPublisher option"

definition gc_notify :: "string \<Rightarrow> ('z disk_scheme, unit) prog" where
  "gc_notify msg = modify (\<lambda>s. s\<lparr>notified := notified s @ [msg]\<rparr>)"

section \<open>Retention\<close>

definition overlay :: "RetentionPolicy \<Rightarrow> RetentionPolicy \<Rightarrow> RetentionPolicy" where
  "overlay out cfg = \<lparr>KeepLastN = (if KeepLastN cfg \<noteq> 0 then KeepLastN cfg else KeepLastN out),
     MaxAge = (if MaxAge cfg \<noteq> 0 then MaxAge cfg else MaxAge out),
     PinnedGlobs = (if PinnedGlobs cfg \<noteq> None then PinnedGlobs cfg else PinnedGlobs out)\<rparr>"

definition effectiveRetention :: "GCConfig \<Rightarrow> string \<Rightarrow> RetentionPolicy" where
  "effectiveRetention gc repo =
     (case map_of (gc_RetentionPerRepo gc) repo of
        Some cfg \<Rightarrow> overlay (gc_RetentionDefaults gc) cfg
      | None \<Rightarrow>
          if gc_Namespace gc \<noteq> '''' then
            (case CutPrefix repo (gc_Namespace gc @ ''/'') of
               Some rel \<Rightarrow> (case map_of (gc_RetentionPerRepo gc) rel of
                   Some cfg \<Rightarrow> overlay (gc_RetentionDefaults gc) cfg
                 | None \<Rightarrow> gc_RetentionDefaults gc)
             | None \<Rightarrow> gc_RetentionDefaults gc)
          else gc_RetentionDefaults gc)"

definition ownsRepo :: "GCConfig \<Rightarrow> string \<Rightarrow> bool" where
  "ownsRepo gc ownerID \<longleftrightarrow> gc_LocalActor gc \<noteq> '''' \<and> ownerID = gc_LocalActor gc"

definition tagPinned :: "string \<Rightarrow> string list option \<Rightarrow> bool" where
  "tagPinned name globs \<longleftrightarrow> list_ex (\<lambda>g. path_match g name = Some True) (case globs of None \<Rightarrow> [] | Some gs \<Rightarrow> gs)"

text \<open>The selection loop, newest tag first; \<open>kept\<close> counts the unpinned tags kept so far.\<close>

fun retention_candidates :: "RetentionPolicy \<Rightarrow> int \<Rightarrow> int \<Rightarrow> TagForRetention list \<Rightarrow> TagForRetention list" where
  "retention_candidates policy cutoff kept [] = []"
| "retention_candidates policy cutoff kept (t # ts) =
     (if tagPinned (tr_name t) (PinnedGlobs policy) then retention_candidates policy cutoff kept ts
      else if 0 < KeepLastN policy \<and> KeepLastN policy \<le> kept \<or> 0 < MaxAge policy \<and> tr_updated t < cutoff
      then t # retention_candidates policy cutoff kept ts
      else retention_candidates policy cutoff (if 0 < KeepLastN policy then kept + 1 else kept) ts)"

definition delete_tag :: "world \<Rightarrow> GCConfig \<Rightarrow> PackageRetention \<Rightarrow> int \<Rightarrow> int \<Rightarrow> TagForRetention \<Rightarrow> ('z disk_scheme, int) prog" where
  "delete_tag w gc pkg budget deleted t =
     (if 0 \<le> budget \<and> budget \<le> deleted then ret deleted
      else handle (DeletePackageTag (pr_id pkg) (tr_name t)) (\<lambda>r. case r of
          Inl _ \<Rightarrow> ret deleted
        | Inr _ \<Rightarrow> bindE (case gc_publisher gc of
              Some p \<Rightarrow> if ownsRepo gc (pr_owner pkg) then ignore (PublishTagDelete w p (pr_name pkg) (tr_name t)) else ret ()
            | None \<Rightarrow> ret ()) (\<lambda>_. ret (deleted + 1))))"

definition applyRetentionToPackage ::
  "world \<Rightarrow> GCConfig \<Rightarrow> PackageRetention \<Rightarrow> RetentionPolicy \<Rightarrow> int \<Rightarrow> ('z disk_scheme, int) prog" where
  "applyRetentionToPackage w gc pkg policy budget =
     handle (ListTagsForRetention (pr_id pkg)) (\<lambda>r. case r of
         Inl _ \<Rightarrow> ret 0
       | Inr tags \<Rightarrow> bindE now (\<lambda>c.
           foldP (delete_tag w gc pkg budget) 0 (retention_candidates policy (c - MaxAge policy) 0 tags)))"

definition retention_package :: "world \<Rightarrow> GCConfig \<Rightarrow> int \<Rightarrow> PackageRetention \<Rightarrow> ('z disk_scheme, int) prog" where
  "retention_package w gc totalDeleted pkg =
     (let maxDeletes = gc_RetentionTagsPerCycle gc; policy = effectiveRetention gc (pr_name pkg) in
      if 0 < maxDeletes \<and> maxDeletes \<le> totalDeleted then ret totalDeleted
      else if KeepLastN policy \<le> 0 \<and> MaxAge policy \<le> 0 then ret totalDeleted
      else bindE (applyRetentionToPackage w gc pkg policy (if 0 < maxDeletes then maxDeletes - totalDeleted else -1))
        (\<lambda>n. ret (totalDeleted + n)))"

definition retentionPackagePageSize :: int where "retentionPackagePageSize = 100"

fun retention_loop :: "nat \<Rightarrow> world \<Rightarrow> GCConfig \<Rightarrow> string \<Rightarrow> int \<Rightarrow> ('z disk_scheme, int) prog" where
  "retention_loop 0 w gc startAfter totalDeleted = fail (Errorf ''out of fuel'')"
| "retention_loop (Suc f) w gc startAfter totalDeleted =
     (if \<not> (gc_RetentionTagsPerCycle gc \<le> 0 \<or> totalDeleted < gc_RetentionTagsPerCycle gc) then ret totalDeleted
      else handle (ListOCIPackagesForRetention startAfter retentionPackagePageSize) (\<lambda>r. case r of
          Inl _ \<Rightarrow> bindE (gc_notify ''GC: retention list packages failed'') (\<lambda>_. ret totalDeleted)
        | Inr pkgs \<Rightarrow>
            if pkgs = [] then ret totalDeleted
            else bindE (foldP (retention_package w gc) totalDeleted pkgs) (\<lambda>total.
              if int (length pkgs) < retentionPackagePageSize then ret total
              else retention_loop f w gc (pr_name (last pkgs)) total)))"

definition retentionSweep :: "world \<Rightarrow> GCConfig \<Rightarrow> ('z disk_scheme, unit) prog" where
  "retentionSweep w gc = bindE (gets (\<lambda>s. length (packages (tbl s)))) (\<lambda>rows.
     bindE (retention_loop (Suc rows) w gc '''' 0) (\<lambda>_. ret ()))"

section \<open>Untagged manifests\<close>

definition federate_prune :: "world \<Rightarrow> GCConfig \<Rightarrow> UntaggedManifest \<Rightarrow> ('z disk_scheme, unit) prog" where
  "federate_prune w gc r =
     (if \<not> ownsRepo gc (um_owner r) then ret ()
      else bindE (ignore (RecordDeletedManifest (um_digest r) (um_name r) (gc_LocalActor gc))) (\<lambda>_.
        case gc_publisher gc of
          Some p \<Rightarrow> ignore (PublishManifestDelete w p (um_name r) (um_digest r))
        | None \<Rightarrow> ret ()))"

fun prune_loop :: "nat \<Rightarrow> world \<Rightarrow> GCConfig \<Rightarrow> int \<Rightarrow> ('z disk_scheme, unit) prog" where
  "prune_loop 0 w gc limit = fail (Errorf ''out of fuel'')"
| "prune_loop (Suc f) w gc limit =
     handle (PruneUntaggedManifests (gc_UntaggedManifestAge gc) limit) (\<lambda>r. case r of
         Inl _ \<Rightarrow> gc_notify ''GC: prune untagged manifests failed''
       | Inr rows \<Rightarrow>
           if rows = [] then ret ()
           else bindE (foreach rows (federate_prune w gc)) (\<lambda>_.
             if int (length rows) < limit then ret () else prune_loop f w gc limit))"

definition batch_limit :: "int \<Rightarrow> int" where
  "batch_limit n = (if n \<le> 0 then 500 else n)"

definition pruneUntaggedManifests :: "world \<Rightarrow> GCConfig \<Rightarrow> ('z disk_scheme, unit) prog" where
  "pruneUntaggedManifests w gc =
     (if gc_UntaggedManifestAge gc \<le> 0 then ret ()
      else bindE (gets (\<lambda>s. length (package_versions (tbl s)))) (\<lambda>rows.
        prune_loop (Suc rows) w gc (batch_limit (gc_UntaggedBatchSize gc))))"

definition deletedManifestRetention :: int where "deletedManifestRetention = 30 * 24 * 3600"

definition pruneDeletedManifests :: "('z disk_scheme, unit) prog" where
  "pruneDeletedManifests = ignore (PruneDeletedManifests deletedManifestRetention)"

definition cleanupStalePeerBlobs :: "GCConfig \<Rightarrow> ('z disk_scheme, unit) prog" where
  "cleanupStalePeerBlobs gc = handle (CleanupStalePeerBlobs (gc_StalePeerBlobAge gc)) (\<lambda>r. case r of
      Inl _ \<Rightarrow> gc_notify ''GC: failed to cleanup stale peer blobs''
    | Inr _ \<Rightarrow> ret ())"

section \<open>Orphaned blobs\<close>

definition delete_orphan :: "int \<Rightarrow> string \<Rightarrow> ('z disk_scheme, int) prog" where
  "delete_orphan removed digest = handle (DeleteBlob digest) (\<lambda>r. case r of
      Inl _ \<Rightarrow> ret removed
    | Inr _ \<Rightarrow> ret (removed + 1))"

fun orphan_loop :: "nat \<Rightarrow> int \<Rightarrow> int option \<Rightarrow> ('z disk_scheme, unit) prog" where
  "orphan_loop 0 limit cutoff = fail (Errorf ''out of fuel'')"
| "orphan_loop (Suc f) limit cutoff =
     handle (OrphanedBlobs limit cutoff) (\<lambda>r. case r of
         Inl _ \<Rightarrow> gc_notify ''GC: failed to find orphaned blobs''
       | Inr digests \<Rightarrow>
           if digests = [] then ret ()
           else bindE (foldP delete_orphan 0 digests) (\<lambda>removed.
             if removed = 0 \<or> int (length digests) < limit then ret () else orphan_loop f limit cutoff))"

definition cleanupOrphanedBlobMetadata :: "GCConfig \<Rightarrow> ('z disk_scheme, unit) prog" where
  "cleanupOrphanedBlobMetadata gc = bindE now (\<lambda>c.
     bindE (gets (\<lambda>s. length (blobs (tbl s)))) (\<lambda>rows.
     orphan_loop (Suc rows) (batch_limit (gc_OrphanBatchSize gc))
       (if 0 < gc_BlobGCGracePeriod gc then Some (c - gc_BlobGCGracePeriod gc) else None)))"

definition delete_file :: "string \<Rightarrow> ('z disk_scheme, unit) prog" where
  "delete_file digest = ignore (store_Delete digest)"

text \<open>One file without a row: repaired when something refers to it, kept while it is young.\<close>

definition orphan_file :: "GCConfig \<Rightarrow> string list \<Rightarrow> string \<Rightarrow> ('z disk_scheme, unit) prog" where
  "orphan_file gc known digest =
     (if digest \<in> set known then ret ()
      else handle (IsBlobReferenced digest) (\<lambda>r. case r of
          Inl _ \<Rightarrow> ret ()
        | Inr True \<Rightarrow> handle (store_Size digest) (\<lambda>sz. case sz of
              Inl _ \<Rightarrow> ret ()
            | Inr n \<Rightarrow> ignore (PutBlob digest n None True))
        | Inr False \<Rightarrow>
            if 0 < gc_BlobGCGracePeriod gc then
              handle (store_ModTime digest) (\<lambda>m. case m of
                  Inl _ \<Rightarrow> ret ()
                | Inr mtime \<Rightarrow> bindE now (\<lambda>c.
                    if c - gc_BlobGCGracePeriod gc < mtime then ret () else delete_file digest))
            else delete_file digest))"

definition cleanupOrphanedBlobFiles :: "GCConfig \<Rightarrow> ('z disk_scheme, unit) prog" where
  "cleanupOrphanedBlobFiles gc = handle store_ListDigests (\<lambda>r. case r of
      Inl _ \<Rightarrow> gc_notify ''GC: failed to list blob files on disk''
    | Inr diskDigests \<Rightarrow> handle (AllBlobDigests 1000) (\<lambda>k. case k of
          Inl _ \<Rightarrow> gc_notify ''GC: failed to list known blob digests''
        | Inr known \<Rightarrow> foreach diskDigests (orphan_file gc known)))"

section \<open>Reconciling rows and files\<close>

definition reconcileBlobBatchSize :: int where "reconcileBlobBatchSize = 500"

definition reconcile_missing :: "string list \<Rightarrow> string \<Rightarrow> ('z disk_scheme, string list) prog" where
  "reconcile_missing unrecoverable digest =
     handle (store_Exists digest) (\<lambda>re. case re of
         Inr True \<Rightarrow> ret unrecoverable
       | _ \<Rightarrow> handle (HasPeerBlob digest) (\<lambda>h. case h of
             Inl _ \<Rightarrow> ret unrecoverable
           | Inr True \<Rightarrow> bindE (ignore (SetBlobStoredLocally digest False)) (\<lambda>_. ret unrecoverable)
           | Inr False \<Rightarrow> ret (unrecoverable @ [digest])))"

definition reconcile_blob :: "string list \<Rightarrow> BlobReconcileRow \<Rightarrow> ('z disk_scheme, string list) prog" where
  "reconcile_blob unrecoverable row = handle (store_Exists (br_digest row)) (\<lambda>e. case e of
      Inl _ \<Rightarrow> ret unrecoverable
    | Inr ex \<Rightarrow>
        if br_stored row \<and> \<not> ex then reconcile_missing unrecoverable (br_digest row)
        else if \<not> br_stored row \<and> ex then
          bindE (ignore (SetBlobStoredLocally (br_digest row) True)) (\<lambda>_. ret unrecoverable)
        else ret unrecoverable)"

definition reconcileBlobStorageDrift :: "('z disk_scheme, unit) prog" where
  "reconcileBlobStorageDrift = bindE (gets (\<lambda>s. length (blobs (tbl s)))) (\<lambda>rows.
     handle (keyset_loop (Suc rows) (\<lambda>a. ListBlobsForReconcile a reconcileBlobBatchSize) br_digest
         (nat reconcileBlobBatchSize) (\<lambda>unrecoverable batch. foldP reconcile_blob unrecoverable batch) '''' []) (\<lambda>r. case r of
       Inl _ \<Rightarrow> gc_notify ''GC: drift reconcile failed''
     | Inr unrecoverable \<Rightarrow>
         if unrecoverable \<noteq> [] then gc_notify (''GC: blob(s) have file missing and no peer holds them; sample: '' @
           join_with '', '' (take 5 unrecoverable)) else ret ()))"

section \<open>A cycle\<close>

definition collect :: "world \<Rightarrow> GCConfig \<Rightarrow> ('z disk_scheme, unit) prog" where
  "collect w gc =
     bindE (retentionSweep w gc) (\<lambda>_.
     bindE (pruneUntaggedManifests w gc) (\<lambda>_.
     bindE (cleanupStalePeerBlobs gc) (\<lambda>_.
     bindE (cleanupOrphanedBlobMetadata gc) (\<lambda>_.
     bindE (cleanupOrphanedBlobFiles gc) (\<lambda>_.
     bindE reconcileBlobStorageDrift (\<lambda>_.
     pruneDeletedManifests))))))"

definition diskTriggerEnabled :: "GCConfig \<Rightarrow> bool" where
  "diskTriggerEnabled gc \<longleftrightarrow> 0 < gc_DiskUsageThreshold gc \<and> gc_DiskUsagePath gc \<noteq> ''''"

text \<open>Whether a tick starts a cycle; \<open>pct\<close> is the disk usage, \<open>None\<close> when it cannot be read.\<close>

definition maybeCollect :: "GCConfig \<Rightarrow> int \<Rightarrow> int \<Rightarrow> int option \<Rightarrow> bool" where
  "maybeCollect gc lastRun c pct =
     (if gc_Interval gc \<le> c - lastRun then True
      else if \<not> diskTriggerEnabled gc then False
      else (case pct of None \<Rightarrow> False | Some p \<Rightarrow> gc_DiskUsageThreshold gc \<le> p))"

end
