(* ===== verification/Gc_Safety.thy ===== *)
theory Gc_Safety
  imports Gc
begin

text \<open>
  What a garbage-collection cycle may and may not do: a blob that is referenced when the cycle ends and
  a young blob survive it with their content, whatever fails on the way; without failures the cycle
  runs to its end; retention keeps the newest unpinned tags and every pinned one.
\<close>

section \<open>What the phases leave alone\<close>

text \<open>The part of the state the collector must be careful with.\<close>

definition gview :: "'z disk_scheme \<Rightarrow> (PackageFile list \<times> PackageVersion list) \<times> Blob list \<times> (string \<times> string \<times> int) list \<times> int \<times> Package list" where
  "gview s = ((package_files (tbl s), package_versions (tbl s)), blobs (tbl s), bfiles s, clock s, packages (tbl s))"

lemma gview_simps [simp]:
  "gview (s\<lparr>faults := a\<rparr>) = gview s" "gview (s\<lparr>fetches := n\<rparr>) = gview s" "gview (s\<lparr>uuids := n\<rparr>) = gview s"
  "gview (s\<lparr>woken := n\<rparr>) = gview s" "gview (s\<lparr>actorCache := x\<rparr>) = gview s" "gview (s\<lparr>notified := y\<rparr>) = gview s"
  by (simp_all add: gview_def)

lemma gview_keeps [keeps_intros]:
  "keeps (\<lambda>s. P (gview s)) tick"
  "keeps (\<lambda>s. P (gview s)) (query f)"
  "keeps (\<lambda>s. P (gview s)) (FetchActor w u)"
  "keeps (\<lambda>s. P (gview s)) (new_uuid w)"
  "keeps (\<lambda>s. P (gview s)) (gc_notify msg)"
proof -
  show 1: "keeps (\<lambda>s. P (gview s)) tick" by (rule keeps_tick) simp
  show "keeps (\<lambda>s. P (gview s)) (query f)" unfolding query_def by (intro keeps_intros 1)
  show "keeps (\<lambda>s. P (gview s)) (FetchActor w u)"
    by (rule keepsI) (auto simp: FetchActor_def fail_def split: option.splits)
  show "keeps (\<lambda>s. P (gview s)) (new_uuid w)" by (rule keepsI) (simp add: new_uuid_def)
  show "keeps (\<lambda>s. P (gview s)) (gc_notify msg)" unfolding gc_notify_def by (rule keeps_modify) simp
qed

lemma gview_exec:
  assumes "\<And>c t. package_files (f c t) = package_files t" and "\<And>c t. blobs (f c t) = blobs t" and "\<And>c t. packages (f c t) = packages t"
    and "\<And>c t. package_versions (f c t) = package_versions t"
  shows "keeps (\<lambda>s. P (gview s)) (exec f)"
  unfolding exec_def by (intro keeps_intros keeps_modify) (simp add: gview_def assms)

lemma gview_exec_rows:
  assumes "\<And>c t. package_files (snd (f c t)) = package_files t" and "\<And>c t. blobs (snd (f c t)) = blobs t" and "\<And>c t. packages (snd (f c t)) = packages t"
    and "\<And>c t. package_versions (snd (f c t)) = package_versions t"
  shows "keeps (\<lambda>s. P (gview s)) (exec_rows f)"
proof -
  have "keeps (\<lambda>s. P (gview s)) (\<lambda>s. case f (clock s) (tbl s) of (n, t) \<Rightarrow> (Inr n, s\<lparr>tbl := t\<rparr>))"
    by (rule keepsI) (auto simp: gview_def split: prod.splits; metis assms snd_conv)
  then show ?thesis unfolding exec_rows_def by (intro keeps_intros)
qed

lemma gview_keyset [keeps_intros]:
  assumes "\<And>a. keeps P (fetch a)" and "\<And>x b. keeps P (body x b)"
  shows "keeps P (keyset_loop fuel fetch key n body a x)"
  by (induction fuel arbitrary: a x) (auto intro!: keeps_intros assms)

lemma gview_enqueue: "keeps (\<lambda>s. P (gview s)) (enqueueToFollowers w p i j px)"
proof -
  have row: "keeps (\<lambda>s. P (gview s)) (EnqueueDeliveryInserted i x j)" for x
    unfolding EnqueueDeliveryInserted_def by (intro keeps_intros gview_exec_rows) simp_all
  show ?thesis
    unfolding enqueueToFollowers_def resolve_followers_def collect_inbox_def resolveInbox_def ActorCache_Get_def
      enqueue_inbox_def ListFollowsBatch_def
    by (intro keeps_intros row keeps_modify) simp_all
qed

lemma gview_createAndDeliver [keeps_intros]: "keeps (\<lambda>s. P (gview s)) (createAndDeliver w p ty obj px)"
proof -
  have ins: "keeps (\<lambda>s. P (gview s)) (PutActivity i ty a j)" for i ty a j
    unfolding PutActivity_def InsertActivityIfNew_def by (intro keeps_intros gview_exec_rows) simp_all
  show ?thesis
    unfolding createAndDeliver_def activityURL_def by (intro keeps_intros ins gview_enqueue)
qed

lemma gview_publish [keeps_intros]:
  "keeps (\<lambda>s. P (gview s)) (PublishTagDelete w p repo tag)"
  "keeps (\<lambda>s. P (gview s)) (PublishManifestDelete w p repo digest)"
  unfolding PublishTagDelete_def PublishManifestDelete_def by (intro keeps_intros)+

lemma gview_retention_package [keeps_intros]: "keeps (\<lambda>s. P (gview s)) (retention_package w gc n pkg)"
proof -
  have tag: "keeps (\<lambda>s. P (gview s)) (DeletePackageTag i n)" for i n
    unfolding DeletePackageTag_def by (rule gview_exec) simp_all
  show ?thesis
    unfolding retention_package_def applyRetentionToPackage_def delete_tag_def ListTagsForRetention_def
    by (intro keeps_intros tag)
qed

lemma gview_retention: "keeps (\<lambda>s. P (gview s)) (retentionSweep w gc)"
proof -
  have "keeps (\<lambda>s. P (gview s)) (retention_loop f w gc a n)" for f a n
    by (induction f arbitrary: a n)
      (auto intro!: keeps_intros simp: ListOCIPackagesForRetention_def Let_def)
  then show ?thesis unfolding retentionSweep_def by (intro keeps_intros)
qed

lemma frame_disk: "db_frame s s' \<Longrightarrow> bfiles s' = bfiles s \<and> clock s' = clock s"
  by (auto elim!: db_frameE)

text \<open>The prune of manifests changes neither blob rows nor files.\<close>

lemma prune_keeps_blobs: "keeps (\<lambda>s. snd (gview s) = V) (PruneUntaggedManifests age limit)"
proof (rule keepsI)
  fix s :: "'z disk_scheme"
  assume V: "snd (gview s) = V"
  let ?m = "PruneUntaggedManifests age limit :: ('z disk_scheme, UntaggedManifest list) prog"
  have "keeps (db_frame s) ?m"
    unfolding PruneUntaggedManifests_def Let_def by (intro keeps_intros)
  then have "db_frame s (snd (?m s))" by (simp add: keeps_def)
  moreover have "keeps (\<lambda>u. blobs (tbl u) = blobs (tbl s) \<and> packages (tbl u) = packages (tbl s)) ?m"
    unfolding PruneUntaggedManifests_def Let_def by (intro keeps_intros) simp_all
  then have "blobs (tbl (snd (?m s))) = blobs (tbl s) \<and> packages (tbl (snd (?m s))) = packages (tbl s)" by (simp add: keeps_def)
  ultimately show "snd (gview (snd (?m s))) = V" using V frame_disk by (auto simp: gview_def)
qed

lemma gview_federate [keeps_intros]: "keeps (\<lambda>s. P (gview s)) (federate_prune w gc r)"
proof -
  have rec: "keeps (\<lambda>s. P (gview s)) (RecordDeletedManifest d n a)" for d n a
    unfolding RecordDeletedManifest_def RecordDeletedVersion_def insert_tombstone_def by (rule gview_exec) simp_all
  show ?thesis unfolding federate_prune_def by (intro keeps_intros rec)
qed

lemma prune_phase: "keeps (\<lambda>s. snd (gview s) = V) (pruneUntaggedManifests w gc)"
proof -
  have "keeps (\<lambda>s. snd (gview s) = V) (federate_prune w gc r)" for r
    by (rule gview_federate [of "\<lambda>v. snd v = V"])
  then have "keeps (\<lambda>s. snd (gview s) = V) (prune_loop f w gc limit)" for f limit
    by (induction f) (auto intro!: keeps_intros gview_keeps [of "\<lambda>v. snd v = V"] prune_keeps_blobs)
  then show ?thesis unfolding pruneUntaggedManifests_def by (intro keeps_intros)
qed

section \<open>What the collector protects\<close>

text \<open>
  A file or a blob row is protected when a manifest refers to it and while it is within the grace period.
\<close>

definition referenced :: "PackageFile list \<Rightarrow> string \<Rightarrow> bool" where
  "referenced pf d \<longleftrightarrow> (\<exists>f \<in> set pf. file_blob f = d)"

definition young :: "GCConfig \<Rightarrow> int \<Rightarrow> int \<Rightarrow> bool" where
  "young gc c t \<longleftrightarrow> 0 < gc_BlobGCGracePeriod gc \<and> c - gc_BlobGCGracePeriod gc < t"

definition safe_files :: "GCConfig \<Rightarrow> 'z disk_scheme \<Rightarrow> string set" where
  "safe_files gc s0 = {d. referenced (package_files (tbl s0)) d \<or>
     (\<exists>v. map_of (bfiles s0) d = Some v \<and> young gc (clock s0) (snd v))}"

definition safe_rows :: "GCConfig \<Rightarrow> 'z disk_scheme \<Rightarrow> string set" where
  "safe_rows gc s0 = blob_digest ` {b \<in> set (blobs (tbl s0)). referenced (package_files (tbl s0)) (blob_digest b) \<or>
     young gc (clock s0) (blob_created b)}"

text \<open>The protected digests have a row, and every such row is one the orphan query passes over.\<close>

definition rows_ok :: "GCConfig \<Rightarrow> 'z disk_scheme \<Rightarrow> Blob list \<Rightarrow> bool" where
  "rows_ok gc s0 bs \<longleftrightarrow> safe_rows gc s0 \<subseteq> blob_digest ` set bs \<and>
     (\<forall>b \<in> set bs. blob_digest b \<in> safe_rows gc s0 \<longrightarrow>
        referenced (package_files (tbl s0)) (blob_digest b) \<or> young gc (clock s0) (blob_created b))"

definition gc_inv :: "GCConfig \<Rightarrow> 'z disk_scheme \<Rightarrow> 'z disk_scheme \<Rightarrow> bool" where
  "gc_inv gc s0 s \<longleftrightarrow> package_files (tbl s) = package_files (tbl s0) \<and> clock s = clock s0 \<and>
     map_of (bfiles s0) |` safe_files gc s0 \<subseteq>\<^sub>m map_of (bfiles s) \<and> map_of (bfiles s) \<subseteq>\<^sub>m map_of (bfiles s0) \<and>
     rows_ok gc s0 (blobs (tbl s))"

lemma gc_inv_refl:
  assumes "distinct (map blob_digest (blobs (tbl s)))"
  shows "gc_inv gc s s"
proof -
  from assms have "rows_ok gc s (blobs (tbl s))"
    by (auto simp: rows_ok_def safe_rows_def dest: map_eq_inj_on)
  then show ?thesis by (auto simp: gc_inv_def map_le_def restrict_map_def)
qed

lemma gc_inv_gview: "gview s = gview u \<Longrightarrow> gc_inv gc s0 s \<longleftrightarrow> gc_inv gc s0 u"
  by (simp add: gc_inv_def gview_def)

lemma gc_inv_rows:
  "gc_inv gc s0 s \<Longrightarrow> package_files t = package_files (tbl s) \<Longrightarrow> rows_ok gc s0 (blobs t) \<Longrightarrow> gc_inv gc s0 (s\<lparr>tbl := t\<rparr>)"
  by (simp add: gc_inv_def)

lemma map_le_del: "A \<subseteq>\<^sub>m m \<Longrightarrow> d \<notin> dom A \<Longrightarrow> A \<subseteq>\<^sub>m m(d := None)"
  by (auto simp: map_le_def)

lemma gc_inv_file:
  assumes "gc_inv gc s0 s" and "d \<notin> safe_files gc s0"
  shows "gc_inv gc s0 (s\<lparr>bfiles := AList.delete d (bfiles s)\<rparr>)"
proof -
  from assms(1) have le: "map_of (bfiles s0) |` safe_files gc s0 \<subseteq>\<^sub>m map_of (bfiles s)" "map_of (bfiles s) \<subseteq>\<^sub>m map_of (bfiles s0)"
    by (simp_all add: gc_inv_def)
  have "map_of (bfiles s0) |` safe_files gc s0 \<subseteq>\<^sub>m (map_of (bfiles s))(d := None)"
    using le(1) assms(2) by (intro map_le_del) auto
  moreover have "(map_of (bfiles s))(d := None) \<subseteq>\<^sub>m map_of (bfiles s0)"
    by (rule map_le_trans [OF upd_None_map_le le(2)])
  ultimately show ?thesis using assms(1) by (simp add: gc_inv_def delete_conv')
qed

lemma gc_keepsI:
  assumes "\<And>P. keeps (\<lambda>s. P (gview s)) m"
  shows "keeps (gc_inv gc s0) m"
proof (rule keepsI)
  fix s
  assume "gc_inv gc s0 s"
  moreover have "gview (snd (m s)) = gview s"
    using assms [of "\<lambda>v. v = gview s"] by (simp add: keeps_def)
  ultimately show "gc_inv gc s0 (snd (m s))" using gc_inv_gview by blast
qed

lemmas gc_plain [keeps_intros] = gview_keeps [THEN gc_keepsI]

lemma gc_yields_query:
  assumes "\<And>t. package_files t = package_files (tbl s0) \<Longrightarrow> rows_ok gc s0 (blobs t) \<Longrightarrow> Q (f t)"
  shows "yields (gc_inv gc s0) (query f) Q"
proof (rule yieldsI)
  fix s r s'
  assume I: "gc_inv gc s0 s" and run: "query f s = (r, s')"
  have "gc_inv gc s0 s'" by (rule keepsD [of "gc_inv gc s0" "query f", OF _ I run]) (rule keeps_intros)
  moreover have "Q x" if "r = Inr x" for x
    using run [unfolded that] I assms [of "tbl s"] by (auto simp: gc_inv_def dest: query_ok)
  ultimately show "gc_inv gc s0 s' \<and> (\<forall>x. r = Inr x \<longrightarrow> Q x)" by blast
qed

lemma rows_ok_delete: "rows_ok gc s0 bs \<Longrightarrow> d \<notin> safe_rows gc s0 \<Longrightarrow> rows_ok gc s0 (delete_where (\<lambda>r. blob_digest r = d) bs)"
  by (auto simp: rows_ok_def delete_where_def image_iff)

lemma rows_ok_map:
  assumes "rows_ok gc s0 bs" and "\<And>b. blob_digest (f b) = blob_digest b" and "\<And>b. blob_created (f b) = blob_created b"
  shows "rows_ok gc s0 (map f bs)"
proof -
  have "blob_digest ` f ` set bs = blob_digest ` set bs" using assms(2) by (simp add: image_image)
  with assms show ?thesis by (simp add: rows_ok_def)
qed

lemma rows_ok_append:
  assumes "rows_ok gc s0 bs" and "blob_digest b \<notin> blob_digest ` set bs"
  shows "rows_ok gc s0 (bs @ [b])"
  using assms by (auto simp: rows_ok_def)

lemma gc_delete_row: "d \<notin> safe_rows gc s0 \<Longrightarrow> keeps (gc_inv gc s0) (DeleteBlob d)"
  unfolding DeleteBlob_def exec_def
  by (intro keeps_intros keeps_modify gc_inv_rows) (simp_all add: gc_inv_def rows_ok_delete)

lemma gc_put_row: "keeps (gc_inv gc s0) (PutBlob d n mt st)"
proof -
  have "rows_ok gc s0 (upsert_where (\<lambda>r. blob_digest r = d) (overwrite_blob n mt st) b bs)"
    if "rows_ok gc s0 bs" "blob_digest b = d" for b bs
  proof (cases "list_ex (\<lambda>r. blob_digest r = d) bs")
    case True
    then show ?thesis using that by (simp add: upsert_where_def overwrite_blob_def rows_ok_map)
  next
    case False
    then show ?thesis using that by (auto simp: upsert_where_def list_ex_iff intro!: rows_ok_append)
  qed
  then show ?thesis
    unfolding PutBlob_def exec_def
    by (intro keeps_intros keeps_modify gc_inv_rows) (simp_all add: gc_inv_def)
qed

lemma gc_set_row: "keeps (gc_inv gc s0) (SetBlobStoredLocally d b)"
  unfolding SetBlobStoredLocally_def exec_def update_where_def
  by (intro keeps_intros keeps_modify gc_inv_rows) (simp_all add: gc_inv_def rows_ok_map)

lemma gc_delete_file: "d \<notin> safe_files gc s0 \<Longrightarrow> keeps (gc_inv gc s0) (delete_file d)"
  unfolding delete_file_def store_Delete_def
  by (intro keeps_intros keeps_modify gc_inv_file)

section \<open>The phases keep what is protected\<close>

lemma gc_yields_notify: "yields (gc_inv gc s0) (gc_notify msg) (\<lambda>_. True)"
  by (rule yields_keeps) (rule keeps_intros)

lemma gc_orphan_rows: "keeps (gc_inv gc s0) (cleanupOrphanedBlobMetadata gc)"
proof -
  define cut where "cut = (if 0 < gc_BlobGCGracePeriod gc then Some (clock s0 - gc_BlobGCGracePeriod gc) else None)"
  have find: "yields (gc_inv gc s0) (OrphanedBlobs limit cut) (\<lambda>ds. set ds \<inter> safe_rows gc s0 = {})" for limit
    unfolding OrphanedBlobs_def
  proof (rule gc_yields_query)
    fix t :: tables
    assume t: "package_files t = package_files (tbl s0)" "rows_ok gc s0 (blobs t)"
    have "set (limit_rows limit xs) \<subseteq> set xs" for xs :: "string list"
      by (auto simp: limit_rows_def dest: in_set_takeD)
    moreover have "blob_digest b \<notin> safe_rows gc s0" if "b \<in> set (blobs t)" "orphaned cut t b" for b
      using t that by (auto simp: rows_ok_def orphaned_def exists_where_def list_ex_iff referenced_def young_def cut_def split: if_split_asm)
    ultimately show "set (limit_rows limit (map blob_digest (select_where (orphaned cut t) (blobs t)))) \<inter> safe_rows gc s0 = {}"
      by (fastforce simp: select_where_def)
  qed
  have del: "yields (gc_inv gc s0) (foldP delete_orphan n ds) (\<lambda>_. True)" if "set ds \<inter> safe_rows gc s0 = {}" for ds n
    using that unfolding delete_orphan_def
    by (intro yields_keeps keeps_intros gc_delete_row) auto
  have loop: "yields (gc_inv gc s0) (orphan_loop f limit cut) (\<lambda>_. True)" for f limit
  proof (induction f)
    case 0
    then show ?case by (simp add: yields_fail)
  next
    case (Suc f)
    show ?case
      unfolding orphan_loop.simps
      by (rule yields_handle [OF find])
        (auto intro!: yields_ret yields_if yields_bindE [OF del] Suc gc_yields_notify)
  qed
  show ?thesis
  proof (rule keepsI)
    fix s :: "'a disk_scheme"
    assume I: "gc_inv gc s0 s"
    then have "clock s = clock s0" by (simp add: gc_inv_def)
    then have "cleanupOrphanedBlobMetadata gc s = orphan_loop (Suc (length (blobs (tbl s)))) (batch_limit (gc_OrphanBatchSize gc)) cut s"
      by (simp add: cleanupOrphanedBlobMetadata_def now_def bindE_def gets_def cut_def del: orphan_loop.simps)
    with yieldsD [OF loop I] show "gc_inv gc s0 (snd (cleanupOrphanedBlobMetadata gc s))" by (metis prod.collapse)
  qed
qed

lemma gc_known: "keeps (gc_inv gc s0) (AllBlobDigests n)"
  unfolding AllBlobDigests_def blob_digest_page_def by (intro keeps_intros)

text \<open>A file that is neither referenced nor young is not protected; the checks of the loop see this.\<close>

lemma gc_modtime: "yields (gc_inv gc s0) (store_ModTime d) (\<lambda>m. \<exists>c. map_of (bfiles s0) d = Some (c, m))"
proof (rule yieldsI)
  fix s r s'
  assume I: "gc_inv gc s0 s" and run: "store_ModTime d s = (r, s')"
  have k: "keeps (gc_inv gc s0) (store_ModTime d)"
    unfolding store_ModTime_def by (intro keeps_intros)
  from I have le: "map_of (bfiles s) \<subseteq>\<^sub>m map_of (bfiles s0)" by (simp add: gc_inv_def)
  have "\<exists>c. map_of (bfiles s0) d = Some (c, m)" if "r = Inr m" for m
    using run that le by (force simp: store_ModTime_def map_le_def dom_def elim!: bindE_okE dest!: tick_disk split: if_split_asm option.split_asm)
  with keepsD [of "gc_inv gc s0" "store_ModTime d", OF k I run]
  show "gc_inv gc s0 s' \<and> (\<forall>m. r = Inr m \<longrightarrow> (\<exists>c. map_of (bfiles s0) d = Some (c, m)))" by blast
qed

lemma gc_clock: "yields (gc_inv gc s0) now (\<lambda>c. c = clock s0)"
  unfolding now_def by (rule yields_gets) (simp add: gc_inv_def)

lemma gc_orphan_file: "yields (gc_inv gc s0) (orphan_file gc known d) (\<lambda>_. True)"
proof -
  have ref: "yields (gc_inv gc s0) (IsBlobReferenced d) (\<lambda>b. b \<longleftrightarrow> referenced (package_files (tbl s0)) d)"
    unfolding IsBlobReferenced_def
    by (rule gc_yields_query) (auto simp: exists_where_def list_ex_iff referenced_def)
  have size: "keeps (gc_inv gc s0) (store_Size d)"
    unfolding store_Size_def by (intro keeps_intros)
  have old: "yields (gc_inv gc s0) (handle (store_ModTime d) (\<lambda>m. case m of
        Inl _ \<Rightarrow> ret ()
      | Inr mtime \<Rightarrow> bindE now (\<lambda>c. if c - gc_BlobGCGracePeriod gc < mtime then ret () else delete_file d))) (\<lambda>_. True)"
    if r: "\<not> referenced (package_files (tbl s0)) d"
  proof (rule yields_handle [OF gc_modtime])
    fix m
    assume "\<exists>c. map_of (bfiles s0) d = Some (c, m)"
    then have "d \<notin> safe_files gc s0" if "\<not> clock s0 - gc_BlobGCGracePeriod gc < m"
      using r that by (auto simp: safe_files_def young_def)
    then show "yields (gc_inv gc s0) (case Inr m of Inl _ \<Rightarrow> ret ()
      | Inr mtime \<Rightarrow> bindE now (\<lambda>c. if c - gc_BlobGCGracePeriod gc < mtime then ret () else delete_file d)) (\<lambda>_. True)"
      by (auto intro!: yields_bindE [OF gc_clock] yields_ret yields_keeps [OF gc_delete_file])
  qed (simp add: yields_ret)
  have none: "d \<notin> safe_files gc s0" if "\<not> referenced (package_files (tbl s0)) d" "\<not> 0 < gc_BlobGCGracePeriod gc"
    using that by (auto simp: safe_files_def young_def)
  show ?thesis
    unfolding orphan_file_def
  proof (rule yields_if)
    show "yields (gc_inv gc s0) (handle (IsBlobReferenced d) (\<lambda>r. case r of
          Inl _ \<Rightarrow> ret ()
        | Inr True \<Rightarrow> handle (store_Size d) (\<lambda>sz. case sz of Inl _ \<Rightarrow> ret () | Inr n \<Rightarrow> ignore (PutBlob d n None True))
        | Inr False \<Rightarrow>
            if 0 < gc_BlobGCGracePeriod gc then
              handle (store_ModTime d) (\<lambda>m. case m of Inl _ \<Rightarrow> ret ()
                | Inr mtime \<Rightarrow> bindE now (\<lambda>c. if c - gc_BlobGCGracePeriod gc < mtime then ret () else delete_file d))
            else delete_file d)) (\<lambda>_. True)"
    proof (rule yields_handle [OF ref])
      fix b
      assume b: "b \<longleftrightarrow> referenced (package_files (tbl s0)) d"
      show "yields (gc_inv gc s0) (case Inr b of
          Inl _ \<Rightarrow> ret ()
        | Inr True \<Rightarrow> handle (store_Size d) (\<lambda>sz. case sz of Inl _ \<Rightarrow> ret () | Inr n \<Rightarrow> ignore (PutBlob d n None True))
        | Inr False \<Rightarrow>
            if 0 < gc_BlobGCGracePeriod gc then
              handle (store_ModTime d) (\<lambda>m. case m of Inl _ \<Rightarrow> ret ()
                | Inr mtime \<Rightarrow> bindE now (\<lambda>c. if c - gc_BlobGCGracePeriod gc < mtime then ret () else delete_file d))
            else delete_file d) (\<lambda>_. True)"
      proof (cases b)
        case True
        then show ?thesis by (auto intro!: yields_keeps keeps_intros size gc_put_row)
      next
        case False
        with b old none show ?thesis by (auto intro: yields_keeps gc_delete_file)
      qed
    qed (simp add: yields_ret)
  qed (simp add: yields_ret)
qed

lemma gc_files_phase: "yields (gc_inv gc s0) (cleanupOrphanedBlobFiles gc) (\<lambda>_. True)"
proof -
  have list: "keeps (gc_inv gc s0) store_ListDigests"
    unfolding store_ListDigests_def by (intro keeps_intros)
  show ?thesis
    unfolding cleanupOrphanedBlobFiles_def
    by (rule yields_handle [OF yields_keeps [OF list]])
      (auto intro!: gc_yields_notify yields_handle [OF yields_keeps [OF gc_known]] yields_foreach gc_orphan_file)
qed

lemma gc_reconcile: "keeps (gc_inv gc s0) reconcileBlobStorageDrift"
proof -
  have ex: "keeps (gc_inv gc s0) (store_Exists d)" for d
    unfolding store_Exists_def by (intro keeps_intros)
  have "keeps (gc_inv gc s0) (reconcile_blob u row)" for u row
    unfolding reconcile_blob_def reconcile_missing_def HasPeerBlob_def
    by (auto intro!: keeps_intros ex gc_set_row split: bool.split)
  then show ?thesis
    unfolding reconcileBlobStorageDrift_def ListBlobsForReconcile_def by (intro keeps_intros)
qed

lemma gc_stale: "keeps (\<lambda>s. P (gview s)) (cleanupStalePeerBlobs gc)"
proof -
  have "keeps (\<lambda>s. P (gview s)) (CleanupStalePeerBlobs n)" for n
    unfolding CleanupStalePeerBlobs_def by (rule gview_exec_rows) simp_all
  then show ?thesis unfolding cleanupStalePeerBlobs_def by (intro keeps_intros)
qed

lemma gc_tombstones: "keeps (\<lambda>s. P (gview s)) pruneDeletedManifests"
  unfolding pruneDeletedManifests_def PruneDeletedManifests_def PruneDeletedVersions_def
  by (intro keeps_intros gview_exec_rows) simp_all

text \<open>The phases that look at blobs, from the state the two tag phases leave.\<close>

definition blob_phases :: "GCConfig \<Rightarrow> ('z disk_scheme, unit) prog" where
  "blob_phases gc =
     bindE (cleanupStalePeerBlobs gc) (\<lambda>_.
     bindE (cleanupOrphanedBlobMetadata gc) (\<lambda>_.
     bindE (cleanupOrphanedBlobFiles gc) (\<lambda>_.
     bindE reconcileBlobStorageDrift (\<lambda>_.
     pruneDeletedManifests))))"

lemma collect_phases: "collect w gc = bindE (retentionSweep w gc) (\<lambda>_. bindE (pruneUntaggedManifests w gc) (\<lambda>_. blob_phases gc))"
  by (simp add: collect_def blob_phases_def)

lemma blob_phases_inv: "yields (gc_inv gc s0) (blob_phases gc) (\<lambda>_. True)"
  unfolding blob_phases_def
  by (rule yields_bindE [OF yields_keeps [OF gc_keepsI [OF gc_stale]]], rule yields_bindE [OF yields_keeps [OF gc_orphan_rows]],
      rule yields_bindE [OF gc_files_phase], rule yields_bindE [OF yields_keeps [OF gc_reconcile]],
      rule yields_keeps [OF gc_keepsI [OF gc_tombstones]])

section \<open>Properties\<close>

text \<open>C6. The garbage collector never loses a blob that is in use: whatever I/O fails during a cycle, a blob
  file keeps its content and time, and a blob row survives, when a manifest that is still stored at
  the end refers to it or when it is within the grace period; and no file appears or changes.\<close>

lemma gc_safe:
  assumes "wf_tables (tbl s)" and "collect w gc s = (r, s')"
  shows "(\<forall>d v. map_of (bfiles s) d = Some v \<longrightarrow> referenced (package_files (tbl s')) d \<or> young gc (clock s) (snd v) \<longrightarrow>
      map_of (bfiles s') d = Some v) \<and>
    (\<forall>b \<in> set (blobs (tbl s)). referenced (package_files (tbl s')) (blob_digest b) \<or> young gc (clock s) (blob_created b) \<longrightarrow>
      blob_digest b \<in> blob_digest ` set (blobs (tbl s'))) \<and>
    map_of (bfiles s') \<subseteq>\<^sub>m map_of (bfiles s)"
proof -
  have D: "distinct (map blob_digest (blobs (tbl s)))" by (rule wf_blobs_distinct [OF assms(1)])
  obtain q t where q: "retentionSweep w gc s = (q, t)" by (cases "retentionSweep w gc s")
  have t: "gview t = gview s" by (rule keepsD [OF gview_retention refl q])
  obtain q2 u where q2: "pruneUntaggedManifests w gc t = (q2, u)" by (cases "pruneUntaggedManifests w gc t")
  have u: "snd (gview u) = snd (gview t)" by (rule keepsD [OF prune_phase refl q2])
  have inv: "\<exists>x. snd (gview x) = snd (gview s) \<and> gc_inv gc x s'"
  proof (cases "isl q")
    case True
    then have "s' = t" using assms(2) q by (cases q) (auto simp: collect_phases bindE_def)
    with t D gc_inv_refl [of t gc] show ?thesis by (auto simp: gview_def intro!: exI [of _ t])
  next
    case False
    show ?thesis
    proof (cases "isl q2")
      case True
      then have "s' = u" using assms(2) q q2 False by (cases q; cases q2) (auto simp: collect_phases bindE_def)
      with t u D gc_inv_refl [of u gc] show ?thesis by (auto simp: gview_def intro!: exI [of _ u])
    next
      case notl: False
      then have b: "blob_phases gc u = (r, s')" using assms(2) q q2 False by (cases q; cases q2) (auto simp: collect_phases bindE_def)
      have "gc_inv gc u u" using D t u by (intro gc_inv_refl) (simp add: gview_def)
      with yieldsD [OF blob_phases_inv _ b] t u show ?thesis by (intro exI [of _ u]) simp
    qed
  qed
  then obtain x where x: "blobs (tbl x) = blobs (tbl s)" "bfiles x = bfiles s" "clock x = clock s" "gc_inv gc x s'"
    by (auto simp: gview_def)
  have pf: "package_files (tbl s') = package_files (tbl x)" using x(4) by (simp add: gc_inv_def)
  have "map_of (bfiles s') d = Some v"
    if "map_of (bfiles s) d = Some v" "referenced (package_files (tbl s')) d \<or> young gc (clock s) (snd v)" for d v
  proof -
    have "d \<in> safe_files gc x" using that pf x by (cases v) (auto simp: safe_files_def)
    then have "(map_of (bfiles x) |` safe_files gc x) d = Some v" using that(1) x(2) by simp
    moreover have "map_of (bfiles x) |` safe_files gc x \<subseteq>\<^sub>m map_of (bfiles s')" using x(4) by (simp add: gc_inv_def)
    ultimately show ?thesis by (auto simp: map_le_def dom_def)
  qed
  moreover have "blob_digest b \<in> blob_digest ` set (blobs (tbl s'))"
    if "b \<in> set (blobs (tbl s))" "referenced (package_files (tbl s')) (blob_digest b) \<or> young gc (clock s) (blob_created b)" for b
  proof -
    have "blob_digest b \<in> safe_rows gc x" using that pf x by (auto simp: safe_rows_def)
    with x(4) show ?thesis by (auto simp: gc_inv_def rows_ok_def)
  qed
  moreover have "map_of (bfiles s') \<subseteq>\<^sub>m map_of (bfiles s)" using x by (simp add: gc_inv_def)
  ultimately show ?thesis by blast
qed

section \<open>A cycle always completes\<close>

lemma raises_tag [raises_intros]: "raises {} (delete_tag w gc pkg budget n t)"
  unfolding delete_tag_def by (intro raises_intros)

lemma raises_retention_package: "raises {} (retention_package w gc n pkg)"
  unfolding retention_package_def applyRetentionToPackage_def by (intro raises_intros raises_foldP)

lemma gview_packages: "(\<And>P. keeps (\<lambda>s. P (gview s)) m) \<Longrightarrow> keeps (\<lambda>s. packages (tbl s) = P) m"
proof -
  assume "\<And>P. keeps (\<lambda>s. P (gview s)) m"
  from this [of "\<lambda>v. snd (snd (snd (snd v))) = P"] show ?thesis by (simp add: gview_def)
qed

text \<open>The packages with retention are a keyset source.\<close>

definition retention_rows :: "tables \<Rightarrow> PackageRetention list" where
  "retention_rows t = map (\<lambda>p. \<lparr>pr_id = pkg_id p, pr_name = pkg_name p, pr_owner = pkg_owner p\<rparr>)
     (select_where (\<lambda>p. pkg_type p = ociPackageType) (packages t))"

lemma sort_key_map: "sort_key f (map g xs) = map g (sort_key (\<lambda>x. f (g x)) xs)"
proof (induction xs)
  case (Cons x xs)
  have "insort_key f (g x) (map g ys) = map g (insort_key (\<lambda>x. f (g x)) x ys)" for ys
    by (induction ys) simp_all
  with Cons show ?case by simp
qed simp

lemma retention_page: "ListOCIPackagesForRetention a 100 s = (Inr pkgs, s') \<Longrightarrow>
    pkgs = page_after pr_name a 100 (retention_rows (tbl s)) \<and> tbl s' = tbl s"
  by (auto simp: ListOCIPackagesForRetention_def page_after_def retention_rows_def limit_rows_def order_by_def select_where_def
      sort_key_map filter_map o_def take_map conj_commute dest!: query_ok)

lemma retention_loop_returns:
  assumes "distinct (map pr_name (retention_rows (tbl s)))"
    and "length (select_where (\<lambda>r. a < pr_name r) (retention_rows (tbl s))) < fuel"
  shows "\<exists>x s'. retention_loop fuel w gc a m s = (Inr x, s')"
  using assms
proof (induction fuel arbitrary: a m s)
  case 0
  then show ?case by simp
next
  case (Suc f)
  obtain r t where r: "ListOCIPackagesForRetention a retentionPackagePageSize s = (r, t)"
    by (cases "ListOCIPackagesForRetention a retentionPackagePageSize s")
  show ?case
  proof (cases "gc_RetentionTagsPerCycle gc \<le> 0 \<or> m < gc_RetentionTagsPerCycle gc")
    case False
    then show ?thesis by (simp add: ret_def)
  next
    case go: True
    show ?thesis
    proof (cases r)
      case (Inl e)
      with r go show ?thesis by (simp add: handle_def gc_notify_def bindE_def modify_def ret_def)
    next
      case (Inr pkgs)
      from retention_page r Inr have pg: "pkgs = page_after pr_name a 100 (retention_rows (tbl s))" "tbl t = tbl s"
        by (auto simp: retentionPackagePageSize_def)
      obtain q u where q: "foldP (retention_package w gc) m pkgs t = (q, u)"
        by (cases "foldP (retention_package w gc) m pkgs t")
      from raisesD [OF raises_foldP [where E = "{}" and f = "retention_package w gc", OF raises_retention_package]] q
      obtain n where n: "q = Inr n" by (cases q) blast+
      have k: "keeps (\<lambda>s. packages (tbl s) = packages (tbl t)) (foldP (retention_package w gc) m pkgs)"
        by (intro gview_packages keeps_intros)
      have "packages (tbl u) = packages (tbl t)" by (rule keepsD [OF k refl q])
      then have same: "retention_rows (tbl u) = retention_rows (tbl s)" using pg(2) by (simp add: retention_rows_def)
      show ?thesis
      proof (cases "length pkgs < 100")
        case True
        with go r Inr q n show ?thesis
          by (auto simp: handle_def bindE_def retentionPackagePageSize_def ret_def)
      next
        case False
        then have full: "length (page_after pr_name a 100 (retention_rows (tbl s))) = 100"
          using pg(1) by (simp add: page_after_def)
        have ne: "pkgs \<noteq> []" using False by auto
        have "length (select_where (\<lambda>r. a < pr_name r) (retention_rows (tbl s))) =
            100 + length (select_where (\<lambda>r. pr_name (last pkgs) < pr_name r) (retention_rows (tbl s)))"
          using arg_cong [OF remaining_rows [OF Suc.prems(1) _ full], of length] pg(1) full by (simp add: order_by_def)
        with Suc.prems same have "\<exists>x s'. retention_loop f w gc (pr_name (last pkgs)) n u = (Inr x, s')"
          by (intro Suc.IH) auto
        with go r Inr q n False ne show ?thesis
          by (auto simp: handle_def bindE_def retentionPackagePageSize_def)
      qed
    qed
  qed
qed

lemma retention_returns:
  assumes "wf_tables (tbl s)"
  shows "\<exists>s'. retentionSweep w gc s = (Inr (), s')"
proof -
  from assms have u: "distinct (map (\<lambda>p. (pkg_type p, pkg_name p)) (packages (tbl s)))"
    by (simp add: wf_tables_def pkgs.unique_def)
  have "distinct (map pr_name (retention_rows (tbl s)))"
    using u by (auto simp: retention_rows_def select_where_def o_def distinct_map inj_on_def)
  then have "\<exists>x s'. retention_loop (Suc (length (packages (tbl s)))) w gc '''' 0 s = (Inr x, s')"
    by (rule retention_loop_returns) (simp add: retention_rows_def select_where_def less_Suc_eq_le order_trans [OF length_filter_le])
  then show ?thesis by (auto simp: retentionSweep_def bindE_def gets_def ret_def simp del: retention_loop.simps)
qed

text \<open>A prune that reports something shrinks the table of versions.\<close>

lemma prune_shrinks:
  assumes "PruneUntaggedManifests age limit s = (Inr rows, s')" and "rows \<noteq> []"
  shows "length (package_versions (tbl s')) < length (package_versions (tbl s))"
proof -
  define lim where "lim = (if limit \<le> 0 then 500 else limit)"
  let ?vs = "untagged_rows (clock s - age) lim (tbl s)"
  from assms have ne: "?vs \<noteq> []"
    and t: "package_versions (tbl s') = delete_where (\<lambda>v. ver_id v \<in> ver_id ` set ?vs) (package_versions (tbl s))"
    unfolding PruneUntaggedManifests_def Let_def lim_def
    by (auto simp: now_def bindE_def [of "gets clock"] gets_def elim!: in_tx_ok bindE_okE split: if_split_asm dest!: query_ok exec_ok)
  then obtain v where v: "v \<in> set ?vs" by (meson last_in_set)
  then have "v \<in> set (package_versions (tbl s))"
    by (auto simp: untagged_rows_def limit_rows_def order_by_def select_where_def split: if_split_asm dest!: in_set_takeD)
  with v t show ?thesis
    by (auto simp: delete_where_def intro!: length_filter_less)
qed

lemma gview_versions: "(\<And>P. keeps (\<lambda>s. P (gview s)) m) \<Longrightarrow> keeps (\<lambda>s. package_versions (tbl s) = V) m"
proof -
  assume "\<And>P. keeps (\<lambda>s. P (gview s)) m"
  from this [of "\<lambda>v. snd (fst v) = V"] show ?thesis by (simp add: gview_def)
qed

lemma prune_loop_returns:
  "length (package_versions (tbl s)) < fuel \<Longrightarrow> \<exists>s'. prune_loop fuel w gc limit s = (Inr (), s')"
proof (induction fuel arbitrary: s)
  case 0
  then show ?case by simp
next
  case (Suc f)
  obtain r t where r: "PruneUntaggedManifests (gc_UntaggedManifestAge gc) limit s = (r, t)"
    by (cases "PruneUntaggedManifests (gc_UntaggedManifestAge gc) limit s")
  show ?case
  proof (cases r)
    case (Inl e)
    with r show ?thesis by (simp add: handle_def gc_notify_def modify_def)
  next
    case (Inr rows)
    show ?thesis
    proof (cases "rows = []")
      case True
      with r Inr show ?thesis by (simp add: handle_def ret_def)
    next
      case False
      note less = prune_shrinks [OF r [unfolded Inr] False]
      obtain q u where q: "foreach rows (federate_prune w gc) t = (q, u)" by (cases "foreach rows (federate_prune w gc) t")
      have "raises {} (foreach rows (federate_prune w gc) :: ('a disk_scheme, unit) prog)"
        unfolding federate_prune_def by (intro raises_intros)
      with raisesD q have n: "q = Inr ()" by (cases q) fastforce+
      have k: "keeps (\<lambda>s. package_versions (tbl s) = package_versions (tbl t)) (foreach rows (federate_prune w gc))"
        by (intro gview_versions keeps_intros)
      have "package_versions (tbl u) = package_versions (tbl t)" by (rule keepsD [OF k refl q])
      with less Suc.prems have "\<exists>s'. prune_loop f w gc limit u = (Inr (), s')" by (intro Suc.IH) simp
      with r Inr False q n show ?thesis by (auto simp: handle_def bindE_def ret_def)
    qed
  qed
qed

text \<open>A batch of deletions: what went, and that a count above zero means something went.\<close>

lemma delete_orphans_run:
  "foldP delete_orphan n ds s = (r, s') \<Longrightarrow> \<exists>m D. r = Inr m \<and> D \<subseteq> set ds \<and> (m \<noteq> n \<longrightarrow> D \<noteq> {}) \<and> n \<le> m \<and>
     blobs (tbl s') = filter (\<lambda>b. blob_digest b \<notin> D) (blobs (tbl s))"
proof (induction ds arbitrary: n s)
  case Nil
  then show ?case by (auto intro!: exI [of _ "{}"])
next
  case (Cons d ds)
  obtain q t where q: "DeleteBlob d s = (q, t)" by (cases "DeleteBlob d s")
  show ?case
  proof (cases q)
    case (Inl e)
    with q have t: "tbl t = tbl s" by (auto simp: DeleteBlob_def dest: exec_err)
    have "delete_orphan n d s = (Inr (n), t)" using q Inl by (simp add: delete_orphan_def handle_def ret_def)
    with Cons.prems have "foldP delete_orphan n ds t = (r, s')" by (simp add: bindE_def)
    from Cons.IH [OF this] obtain m D where "r = Inr m" "D \<subseteq> set ds" "m \<noteq> n \<longrightarrow> D \<noteq> {}" "n \<le> m"
      "blobs (tbl s') = filter (\<lambda>b. blob_digest b \<notin> D) (blobs (tbl t))" by blast
    with t show ?thesis by (intro exI [of _ m] exI [of _ D]) auto
  next
    case (Inr x)
    with q have t: "blobs (tbl t) = filter (\<lambda>b. blob_digest b \<noteq> d) (blobs (tbl s))"
      by (auto simp: DeleteBlob_def delete_where_def dest!: exec_ok)
    have "delete_orphan n d s = (Inr (n + 1), t)" using q Inr by (simp add: delete_orphan_def handle_def ret_def)
    with Cons.prems have "foldP delete_orphan (n + 1) ds t = (r, s')" by (simp add: bindE_def)
    from Cons.IH [OF this] obtain m D where "r = Inr m" "D \<subseteq> set ds" "n + 1 \<le> m"
      "blobs (tbl s') = filter (\<lambda>b. blob_digest b \<notin> D) (blobs (tbl t))" by blast
    with t show ?thesis
      by (intro exI [of _ m] exI [of _ "insert d D"]) (auto simp: conj_commute)
  qed
qed

lemma orphan_loop_returns:
  "length (blobs (tbl s)) < fuel \<Longrightarrow> \<exists>s'. orphan_loop fuel limit cutoff s = (Inr (), s')"
proof (induction fuel arbitrary: s)
  case 0
  then show ?case by simp
next
  case (Suc f)
  obtain r t where r: "OrphanedBlobs limit cutoff s = (r, t)" by (cases "OrphanedBlobs limit cutoff s")
  show ?case
  proof (cases r)
    case (Inl e)
    with r show ?thesis by (simp add: handle_def gc_notify_def modify_def)
  next
    case (Inr ds)
    with r have ds: "set ds \<subseteq> blob_digest ` set (blobs (tbl s))" and t: "tbl t = tbl s"
      by (auto simp: OrphanedBlobs_def limit_rows_def select_where_def dest!: query_ok in_set_takeD split: if_split_asm)
    obtain q u where q: "foldP delete_orphan 0 ds t = (q, u)" by (cases "foldP delete_orphan 0 ds t")
    from delete_orphans_run [OF q] obtain m D where m: "q = Inr m" "D \<subseteq> set ds" "m \<noteq> 0 \<longrightarrow> D \<noteq> {}"
      "blobs (tbl u) = filter (\<lambda>b. blob_digest b \<notin> D) (blobs (tbl t))" by blast
    show ?thesis
    proof (cases "ds = [] \<or> m = 0 \<or> int (length ds) < limit")
      case True
      with r Inr q m show ?thesis by (auto simp: handle_def bindE_def ret_def)
    next
      case False
      with m obtain d where "d \<in> D" by blast
      with m(2) ds obtain b where "b \<in> set (blobs (tbl s))" "blob_digest b \<in> D" by (metis imageE subsetD)
      then have "length (blobs (tbl u)) < length (blobs (tbl s))"
        unfolding m(4) t by (intro length_filter_less) auto
      with Suc.prems have "\<exists>s'. orphan_loop f limit cutoff u = (Inr (), s')" by (intro Suc.IH) simp
      with r Inr q m False show ?thesis by (auto simp: handle_def bindE_def)
    qed
  qed
qed

lemma raises_blob_phases:
  "raises {} (cleanupStalePeerBlobs gc)" "raises {} (cleanupOrphanedBlobFiles gc)"
  "raises {} reconcileBlobStorageDrift" "raises {} pruneDeletedManifests"
proof -
  show "raises {} (cleanupStalePeerBlobs gc)"
    unfolding cleanupStalePeerBlobs_def gc_notify_def by (intro raises_intros)
  have "raises {} (orphan_file gc known d)" for known d
    unfolding orphan_file_def delete_file_def by (auto intro!: raises_intros split: bool.split)
  then show "raises {} (cleanupOrphanedBlobFiles gc)"
    unfolding cleanupOrphanedBlobFiles_def gc_notify_def by (intro raises_intros)
  show "raises {} reconcileBlobStorageDrift"
    unfolding reconcileBlobStorageDrift_def gc_notify_def by (intro raises_intros)
  show "raises {} pruneDeletedManifests"
    unfolding pruneDeletedManifests_def by (intro raises_intros)
qed

lemma raises_returns: "raises {} m \<Longrightarrow> \<exists>x s'. m s = (Inr x, s')"
  by (cases "m s"; cases "fst (m s)") (auto simp: raises_def)

lemma returns_bindE: "\<exists>x t. m s = (Inr x, t) \<Longrightarrow> (\<And>x t. m s = (Inr x, t) \<Longrightarrow> \<exists>y u. f x t = (Inr y, u)) \<Longrightarrow> \<exists>y u. bindE m f s = (Inr y, u)"
  by (auto simp: bindE_def)


section \<open>Retention\<close>

lemma candidates_unpinned:
  "t \<in> set (retention_candidates policy cutoff kept ts) \<Longrightarrow> t \<in> set ts \<and> \<not> tagPinned (tr_name t) (PinnedGlobs policy)"
  by (induction policy cutoff kept ts rule: retention_candidates.induct) (auto split: if_split_asm)

lemma candidates_keep_last:
  assumes "0 < KeepLastN policy" and "MaxAge policy \<le> 0" and "0 \<le> kept"
  shows "retention_candidates policy cutoff kept ts =
    drop (nat (KeepLastN policy - kept)) (filter (\<lambda>t. \<not> tagPinned (tr_name t) (PinnedGlobs policy)) ts)"
  using assms
proof (induction policy cutoff kept ts rule: retention_candidates.induct)
  case (1 policy cutoff kept)
  then show ?case by simp
next
  case (2 policy cutoff kept t ts)
  show ?case
  proof (cases "tagPinned (tr_name t) (PinnedGlobs policy)")
    case True
    with 2 show ?thesis by simp
  next
    case False
    show ?thesis
    proof (cases "KeepLastN policy \<le> kept")
      case True
      with 2 False show ?thesis by simp
    next
      case notfull: False
      then have "nat (KeepLastN policy - kept) = Suc (nat (KeepLastN policy - (kept + 1)))" by simp
      with 2 False notfull show ?thesis by simp
    qed
  qed
qed

text \<open>Keep-last-n retention deletes exactly the surplus: with only a count configured, the tags chosen for
  deletion are the unpinned tags (newest first) after the first n; with any policy a pinned tag is
  never chosen.\<close>

lemma retention_keeps_newest:
  assumes "0 < KeepLastN policy" and "MaxAge policy \<le> 0"
  shows "retention_candidates policy cutoff 0 ts =
      drop (nat (KeepLastN policy)) (filter (\<lambda>t. \<not> tagPinned (tr_name t) (PinnedGlobs policy)) ts) \<and>
    list_all (\<lambda>t. \<not> tagPinned (tr_name t) (PinnedGlobs any)) (retention_candidates any cutoff kept ts)"
  using candidates_keep_last [OF assms, of 0 cutoff ts] candidates_unpinned
  by (auto simp: list_all_iff)

section \<open>Witnesses\<close>

definition demo_disk :: disk where
  "demo_disk = \<lparr>faults = [], clock = 1000, tbl = demo_tables\<lparr>
       package_versions := [\<lparr>ver_id = 1, ver_package = 1, ver_version = ''d'', ver_metadata = ''m'', ver_media_type = ''t'', ver_size = 1,
         ver_source = None, ver_subject = None, ver_artifact = None, ver_created = 0\<rparr>], seq_versions := 2,
       package_files := [\<lparr>file_id = 1, file_version = 1, file_name = ''x'', file_blob = ''sha256:'' @ replicate 64 (CHR ''a''), file_size = 1,
         file_ctype = None, file_created = 0\<rparr>], seq_files := 2\<rparr>,
     postgres = False, nsCache = [], fetchFailures = [], blocked_domains = [], blocked_actors = [], inbox_queue = NewSimpleQueue,
     fetches = 0, uuids = 0, replicated = [], notified = [], invalidated = [], direct_posts = [], woken = 0, actorCache = [],
     bfiles = [(''sha256:'' @ replicate 64 (CHR ''a''), ''layer'', 0), (''sha256:'' @ replicate 64 (CHR ''b''), ''junk'', 0)]\<rparr>"

definition demo_gc :: GCConfig where
  "demo_gc = \<lparr>gc_Interval = 60, gc_StalePeerBlobAge = 100, gc_OrphanBatchSize = 0, gc_BlobGCGracePeriod = 50,
     gc_UntaggedManifestAge = 10, gc_UntaggedBatchSize = 0,
     gc_RetentionDefaults = \<lparr>KeepLastN = 2, MaxAge = 0, PinnedGlobs = Some [''v*'']\<rparr>, gc_RetentionPerRepo = [],
     gc_RetentionTagsPerCycle = 0, gc_LocalActor = ''https://a.example/ap'', gc_Namespace = ''a.example'',
     gc_DiskUsageThreshold = 0, gc_DiskUsagePath = '''', gc_publisher = Some demo_publisher\<rparr>"

lemma wf_demo_disk: "wf_tables (tbl demo_disk)"
  using wf_demo
  by (simp add: demo_disk_def wf_tables_def vers.unique_def vers.fresh_def fils.unique_def fils.fresh_def)


lemma gc_safe_witness:
  "map fst (bfiles (snd (collect pub_world demo_gc demo_disk))) = [''sha256:'' @ replicate 64 (CHR ''a'')] \<and>
   map_of (bfiles (snd (collect pub_world demo_gc demo_disk))) (''sha256:'' @ replicate 64 (CHR ''a'')) = Some (''layer'', 0)"
proof -
  let ?p = "collect pub_world demo_gc demo_disk"
  let ?d = "''sha256:'' @ replicate 64 (CHR ''a'')"
  have "case ?p of (_, s) \<Rightarrow> map fst (bfiles s) = [?d] \<and> list_ex (\<lambda>f. file_blob f = ?d) (package_files (tbl s))" by code_simp
  then have 1: "map fst (bfiles (snd ?p)) = [?d]" and "list_ex (\<lambda>f. file_blob f = ?d) (package_files (tbl (snd ?p)))"
    by (simp_all add: case_prod_beta)
  then have "referenced (package_files (tbl (snd ?p))) ?d" by (simp add: referenced_def list_ex_iff)
  moreover have "map_of (bfiles demo_disk) ?d = Some (''layer'', 0)" by code_simp
  ultimately have "map_of (bfiles (snd ?p)) ?d = Some (''layer'', 0)"
    using gc_safe [OF wf_demo_disk prod.collapse [symmetric], of pub_world demo_gc] by blast
  with 1 show ?thesis by simp
qed

lemma retention_keeps_newest_witness:
  "retention_candidates (gc_RetentionDefaults demo_gc) 0 0
     (map (\<lambda>n. \<lparr>tr_name = n, tr_updated = 0\<rparr>) [''n3'', ''v1'', ''n2'', ''n1'']) = [\<lparr>tr_name = ''n1'', tr_updated = 0\<rparr>]"
proof -
  have p: "0 < KeepLastN (gc_RetentionDefaults demo_gc)" "MaxAge (gc_RetentionDefaults demo_gc) \<le> 0" "nat (KeepLastN (gc_RetentionDefaults demo_gc)) = 2"
    by (simp_all add: demo_gc_def)
  have "filter (\<lambda>t. \<not> tagPinned (tr_name t) (PinnedGlobs (gc_RetentionDefaults demo_gc)))
      (map (\<lambda>n. \<lparr>tr_name = n, tr_updated = 0\<rparr>) [''n3'', ''v1'', ''n2'', ''n1'']) =
      map (\<lambda>n. \<lparr>tr_name = n, tr_updated = 0\<rparr>) [''n3'', ''n2'', ''n1'']" by code_simp
  moreover have "drop 2 (map (\<lambda>n. \<lparr>tr_name = n, tr_updated = (0 :: int)\<rparr>) [''n3'', ''n2'', ''n1'']) =
      [\<lparr>tr_name = ''n1'', tr_updated = 0\<rparr>]" by (simp add: numeral_2_eq_2)
  ultimately show ?thesis
    using retention_keeps_newest [OF p(1,2), THEN conjunct1] p(3) by metis
qed
end
