(* ===== verification/Fetchers.thy ===== *)
theory Fetchers
  imports Blobstore Circuit
begin

text \<open>
  The HTTP clients: \<open>internal/peering/fetcher.go\<close> (blobs and manifests of federation peers) and
  \<open>internal/upstream/fetcher.go\<close>, \<open>resolver.go\<close> (blobs and manifests of upstream registries, with token
  authentication and a circuit breaker per registry).

  The network is a parameter: \<open>Do\<close> answers the n-th request of the node with a response or a
  transport error. Every request is logged, with the credentials it carries, so that properties can
  speak about what left the node.
\<close>

section \<open>HTTP\<close>

datatype http_auth = NoAuth | BasicAuth string string | Bearer string

record http_req =
  rq_url :: string
  rq_auth :: http_auth

record http_resp =
  rs_status :: int
  rs_body :: reader
  rs_length :: int
  rs_type :: string
  rs_dcd :: string
  rs_www :: string

record net_env =
  Do :: "nat \<Rightarrow> http_req \<Rightarrow> http_resp option"
  NewRequest :: "string \<Rightarrow> bool"
  url_Query :: "URL \<Rightarrow> (string \<times> string) list \<Rightarrow> string"
  DecodeToken :: "string \<Rightarrow> (string \<times> string \<times> int) option"

record cachedToken =
  ct_token :: string
  ct_expiresAt :: int
  ct_credentialsUsed :: bool

record net = disk +
  http_log :: "http_req list"
  up_circuit :: circuit
  tokenCache :: "((string \<times> string) \<times> cachedToken) list"
  challenges :: "(string \<times> string \<times> string) list"

definition http_do :: "net_env \<Rightarrow> http_req \<Rightarrow> ('z net_scheme, http_resp) prog" where
  "http_do e rq = (\<lambda>s.
     (case Do e (length (http_log s)) rq of None \<Rightarrow> Inl ErrIO | Some resp \<Rightarrow> Inr resp, s\<lparr>http_log := http_log s @ [rq]\<rparr>))"

text \<open>\<open>io.ReadAll(io.LimitReader(body, max+1))\<close> and the size check behind it.\<close>

definition read_limited :: "reader \<Rightarrow> int \<Rightarrow> ('z net_scheme, string) prog" where
  "read_limited body max_size = (let r = LimitReader body (max_size + 1) in
     if rd_fail r then fail (Errorf ''reading body'')
     else if max_size < int (length (rd_data r)) then fail (Errorf ''exceeds max size'')
     else ret (rd_data r))"

section \<open>Peers\<close>

record peer_fetcher =
  pf_maxBlobSize :: int
  pf_maxManifestSize :: int

text \<open>The body fails as soon as it delivers more than the limit, instead of being cut off.\<close>

definition streamLimitedReader :: "reader \<Rightarrow> int \<Rightarrow> reader" where
  "streamLimitedReader r limit =
     (if limit < int (length (rd_data r)) then \<lparr>rd_data = take (nat limit) (rd_data r), rd_fail = True\<rparr> else r)"

definition peerURL :: "string \<Rightarrow> string \<Rightarrow> string" where
  "peerURL endpoint path = TrimRight_char endpoint (CHR ''/'') @ path"

definition http_get :: "net_env \<Rightarrow> string \<Rightarrow> ('z net_scheme, http_resp) prog" where
  "http_get e url = (if \<not> NewRequest e url then fail (Errorf ''creating request'')
     else http_do e \<lparr>rq_url = url, rq_auth = NoAuth\<rparr>)"

definition FetchStream :: "net_env \<Rightarrow> peer_fetcher \<Rightarrow> string \<Rightarrow> ('z net_scheme, reader \<times> int) prog" where
  "FetchStream e f sourceURL = bindE (http_get e sourceURL) (\<lambda>resp.
     if rs_status resp \<noteq> 200 then fail (Errorf ''source returned'')
     else ret (streamLimitedReader (rs_body resp) (pf_maxBlobSize f), rs_length resp))"

definition peer_FetchBlobStream ::
  "net_env \<Rightarrow> peer_fetcher \<Rightarrow> string \<Rightarrow> string \<Rightarrow> string \<Rightarrow> ('z net_scheme, reader \<times> int) prog" where
  "peer_FetchBlobStream e f peerEndpoint repo digest =
     bindE (http_get e (peerURL peerEndpoint (''/v2/'' @ repo @ ''/blobs/'' @ digest))) (\<lambda>resp.
     if rs_status resp \<noteq> 200 then fail (Errorf ''peer returned'')
     else ret (streamLimitedReader (rs_body resp) (pf_maxBlobSize f), rs_length resp))"

definition default_manifest_type :: string where
  "default_manifest_type = ''application/vnd.oci.image.manifest.v1+json''"

definition peer_FetchManifest ::
  "net_env \<Rightarrow> world \<Rightarrow> peer_fetcher \<Rightarrow> string \<Rightarrow> string \<Rightarrow> string \<Rightarrow> ('z net_scheme, string \<times> string) prog" where
  "peer_FetchManifest e w f peerEndpoint repo reference =
     bindE (http_get e (peerURL peerEndpoint (''/v2/'' @ repo @ ''/manifests/'' @ reference))) (\<lambda>resp.
     if rs_status resp \<noteq> 200 then fail (Errorf ''peer returned'')
     else bindE (read_limited (rs_body resp) (pf_maxManifestSize f)) (\<lambda>data.
       let computedDigest = hash_of w data in
       if HasPrefix reference ''sha256:'' \<and> computedDigest \<noteq> reference then fail (Errorf ''manifest digest mismatch'')
       else if \<not> HasPrefix reference ''sha256:'' \<and> rs_dcd resp \<noteq> '''' \<and> rs_dcd resp \<noteq> computedDigest
         then fail (Errorf ''manifest digest mismatch'')
       else ret (data, if rs_type resp = '''' then default_manifest_type else rs_type resp)))"

definition Contains :: "string \<Rightarrow> string \<Rightarrow> bool" where
  "Contains s t \<longleftrightarrow> list_ex (\<lambda>i. HasPrefix (drop i s) t) [0..<Suc (length s)]"

definition CheckHealth :: "net_env \<Rightarrow> string \<Rightarrow> ('z net_scheme, unit) prog" where
  "CheckHealth e peerEndpoint = bindE (http_get e (peerURL peerEndpoint ''/v2/'')) (\<lambda>resp.
     if rs_status resp = 200 \<or> rs_status resp = 401 \<and> Contains (rs_www resp) ''Bearer'' then ret ()
     else fail (Errorf ''health check returned''))"

section \<open>Upstream registries\<close>

text \<open>\<open>SplitN(repo, "/", 2)\<close> with a registry name (it has a dot) in front.\<close>

definition ParseUpstreamRepo :: "string \<Rightarrow> (string \<times> string) option" where
  "ParseUpstreamRepo repo = (let first = Cut_before repo (CHR ''/'') in
     if CHR ''/'' \<notin> set repo then None
     else if CHR ''.'' \<notin> set first then None
     else Some (first, drop (Suc (length first)) repo))"

record Upstream =
  us_name :: string
  us_endpoint :: string
  us_auth :: string
  us_username :: string
  us_password :: string
  us_private :: bool

record up_fetcher =
  uf_registries :: "(string \<times> Upstream) list"
  uf_maxBlobSize :: int
  uf_maxManifestSize :: int

definition NewFetcher :: "Upstream list \<Rightarrow> int \<Rightarrow> int \<Rightarrow> up_fetcher" where
  "NewFetcher cfg maxBlob maxManifest =
     \<lparr>uf_registries = fold (\<lambda>r. AList.update (us_name r) r) cfg [], uf_maxBlobSize = maxBlob, uf_maxManifestSize = maxManifest\<rparr>"

definition HasRegistry :: "up_fetcher \<Rightarrow> string \<Rightarrow> bool" where
  "HasRegistry f name \<longleftrightarrow> map_of (uf_registries f) name \<noteq> None"

definition IsRepoPrivate :: "up_fetcher \<Rightarrow> string \<Rightarrow> string \<Rightarrow> ('z net_scheme, bool) prog" where
  "IsRepoPrivate f registryName repo = (case map_of (uf_registries f) registryName of
      None \<Rightarrow> ret False
    | Some reg \<Rightarrow>
        if us_private reg then ret True
        else if us_auth reg = ''basic'' \<and> us_username reg \<noteq> '''' then ret True
        else if us_username reg = '''' then ret False
        else bindE (gets (\<lambda>s. map_of (tokenCache s) (us_name reg, repo))) (\<lambda>c. case c of
            Some ct \<Rightarrow> ret (ct_credentialsUsed ct)
          | None \<Rightarrow> ret True))"

text \<open>\<open>url.PathEscape\<close>: the characters of a path segment that stay as they are, and \<open>%XX\<close> for the rest.\<close>

definition upper_hex :: "nat \<Rightarrow> char" where
  "upper_hex n = (if n < 10 then char_of (48 + n) else char_of (55 + n))"

definition path_char :: "char \<Rightarrow> bool" where
  "path_char c \<longleftrightarrow> is_alnum c \<or> c \<in> set ''-_.~$&+:=@''"

definition PathEscape :: "string \<Rightarrow> string" where
  "PathEscape s = concat (map (\<lambda>c. if path_char c then [c]
     else [CHR ''%'', upper_hex (of_char c div 16), upper_hex (of_char c mod 16)]) s)"

definition escapePathSegments :: "string \<Rightarrow> string" where
  "escapePathSegments path = join_with ''/'' (map PathEscape (split_on (CHR ''/'') path))"

lemma tl_dropWhile_le: "length (tl (dropWhile p xs)) \<le> length xs"
  using length_dropWhile_le [of p xs] by simp

lemma tl_dropWhile_less: "x \<in> set xs \<Longrightarrow> \<not> p x \<Longrightarrow> length (tl (dropWhile p xs)) < length xs"
proof -
  assume "x \<in> set xs" "\<not> p x"
  then have "dropWhile p xs \<noteq> []" by auto
  then show ?thesis using length_dropWhile_le [of p xs] by (cases "dropWhile p xs") auto
qed

text \<open>
  \<open>parseWWWAuthenticate\<close>: the loop over key-value pairs. It ends at a piece without an equals sign
  and at a quote that is not closed.
\<close>

function www_pairs :: "string \<Rightarrow> string \<Rightarrow> string \<Rightarrow> string \<times> string" where
  "www_pairs after realm service =
     (if after = '''' then (realm, service)
      else let a = dropWhile (\<lambda>c. c = CHR '' '' \<or> c = CHR '','') after in
        if CHR ''='' \<notin> set a then (realm, service)
        else let key = TrimSpace (takeWhile (\<lambda>c. c \<noteq> CHR ''='') a);
                 b = tl (dropWhile (\<lambda>c. c \<noteq> CHR ''='') a)
          in if b \<noteq> '''' \<and> hd b = CHR 0x22 then
               (if CHR 0x22 \<notin> set (tl b) then (realm, service)
                else let value = takeWhile (\<lambda>c. c \<noteq> CHR 0x22) (tl b);
                         rest = tl (dropWhile (\<lambda>c. c \<noteq> CHR 0x22) (tl b))
                  in www_pairs rest (if key = ''realm'' then value else realm) (if key = ''service'' then value else service))
             else let value = takeWhile (\<lambda>c. c \<noteq> CHR '','') b;
                      rest = tl (dropWhile (\<lambda>c. c \<noteq> CHR '','') b)
               in www_pairs rest (if key = ''realm'' then value else realm) (if key = ''service'' then value else service))"
  by pat_completeness auto

termination
proof (relation "measure (\<lambda>(after, _, _). length after)", goal_cases)
  case 1 show ?case by simp
next
  case (2 after realm service a key b val rest)
  have "length b < length a" unfolding 2(5) by (rule tl_dropWhile_less [where x = "CHR ''=''"]) (use 2(3) in simp_all)
  moreover have "length a \<le> length after" unfolding 2(2) by (rule length_dropWhile_le)
  moreover have "length rest \<le> length (tl b)" unfolding 2(9) by (rule tl_dropWhile_le)
  ultimately show ?case by simp
next
  case (3 after realm service a key b val rest)
  have "length b < length a" unfolding 3(5) by (rule tl_dropWhile_less [where x = "CHR ''=''"]) (use 3(3) in simp_all)
  moreover have "length a \<le> length after" unfolding 3(2) by (rule length_dropWhile_le)
  moreover have "length rest \<le> length b" unfolding 3(8) by (rule tl_dropWhile_le)
  ultimately show ?case by simp
qed

definition parseWWWAuthenticate :: "string \<Rightarrow> string \<times> string" where
  "parseWWWAuthenticate header = (case CutPrefix header ''Bearer '' of
      None \<Rightarrow> ('''', '''')
    | Some after \<Rightarrow> www_pairs after '''' '''')"

declare www_pairs.simps [simp del]

definition circuit_isOpen :: "string \<Rightarrow> ('z net_scheme, bool) prog" where
  "circuit_isOpen name = (\<lambda>s. case up_isOpen (clock s) name (up_circuit s) of (b, cb) \<Rightarrow> (Inr b, s\<lparr>up_circuit := cb\<rparr>))"

definition circuit_failed :: "string \<Rightarrow> ('z net_scheme, unit) prog" where
  "circuit_failed name = modify (\<lambda>s. s\<lparr>up_circuit := snd (up_recordFailure (clock s) name (up_circuit s))\<rparr>)"

definition circuit_succeeded :: "string \<Rightarrow> ('z net_scheme, unit) prog" where
  "circuit_succeeded name = modify (\<lambda>s. s\<lparr>up_circuit := snd (up_recordSuccess name (up_circuit s))\<rparr>)"

text \<open>The token endpoint of a registry: asked once, then remembered; a failed probe is not remembered.\<close>

definition discoverChallenge :: "net_env \<Rightarrow> Upstream \<Rightarrow> ('z net_scheme, string \<times> string) prog" where
  "discoverChallenge e reg = bindE (gets (\<lambda>s. map_of (challenges s) (us_name reg))) (\<lambda>known. case known of
      Some res \<Rightarrow> ret res
    | None \<Rightarrow>
        let base = TrimRight_char (us_endpoint reg) (CHR ''/'') in
        bindE (http_get e (base @ ''/v2/'')) (\<lambda>resp.
        let parsed = parseWWWAuthenticate (rs_www resp);
            res = (if rs_www resp \<noteq> '''' \<and> fst parsed \<noteq> '''' then parsed else (base @ ''/v2/token'', ''''))
        in bindE (modify (\<lambda>s. s\<lparr>challenges := AList.update (us_name reg) res (challenges s)\<rparr>)) (\<lambda>_. ret res)))"

definition defaultTokenExpirySecd :: int where "defaultTokenExpirySecd = 300"
definition tokenCacheBufferSec :: int where "tokenCacheBufferSec = 30"

text \<open>How long a token is reused: its life time less a buffer of at least one second.\<close>

definition token_lifetime :: "int \<Rightarrow> int" where
  "token_lifetime expires_in =
     (let expiresIn = (if expires_in = 0 then defaultTokenExpirySecd else expires_in);
          b = (if expiresIn \<le> tokenCacheBufferSec then expiresIn div 2 else tokenCacheBufferSec);
          cacheBuffer = (if b < 1 then 1 else b)
      in expiresIn - cacheBuffer)"

definition token_request :: "net_env \<Rightarrow> Upstream \<Rightarrow> URL \<Rightarrow> string \<Rightarrow> string \<Rightarrow> bool \<Rightarrow> http_req" where
  "token_request e reg tokenURL service repo useCredentials =
     \<lparr>rq_url = url_Query e tokenURL ((if service \<noteq> '''' then [(''service'', service)] else []) @
        [(''scope'', ''repository:'' @ repo @ '':pull'')]),
      rq_auth = if useCredentials \<and> us_username reg \<noteq> '''' then BasicAuth (us_username reg) (us_password reg) else NoAuth\<rparr>"

definition fetchToken :: "net_env \<Rightarrow> world \<Rightarrow> Upstream \<Rightarrow> string \<Rightarrow> bool \<Rightarrow> ('z net_scheme, string) prog" where
  "fetchToken e w reg repo useCredentials = handle (discoverChallenge e reg) (\<lambda>r. case r of
      Inl _ \<Rightarrow> bindE (circuit_failed (us_name reg)) (\<lambda>_. fail (Errorf ''discovering auth challenge''))
    | Inr (realm, service) \<Rightarrow> (case url_Parse w realm of
        None \<Rightarrow> fail (Errorf ''parsing realm URL'')
      | Some tokenURL \<Rightarrow>
          if (case url_Parse w (us_endpoint reg) of
                Some endpointURL \<Rightarrow> u_scheme endpointURL = ''https'' \<and> u_scheme tokenURL \<noteq> ''https''
              | None \<Rightarrow> False)
          then fail (Errorf ''refusing non-https token realm'')
          else let rq = token_request e reg tokenURL service repo useCredentials in
            if \<not> NewRequest e (rq_url rq) then fail (Errorf ''creating token request'')
            else bindE (http_do e rq) (\<lambda>resp.
              if rs_status resp \<noteq> 200 then fail (Errorf ''token endpoint returned'')
              else if rd_fail (rs_body resp) then fail (Errorf ''decoding token response'')
              else (case DecodeToken e (rd_data (rs_body resp)) of
                None \<Rightarrow> fail (Errorf ''decoding token response'')
              | Some (tok, access_token, expires_in) \<Rightarrow>
                  let token = (if tok = '''' then access_token else tok) in
                  if token = '''' then fail (Errorf ''no token in response'')
                  else bindE now (\<lambda>c. bindE (modify (\<lambda>s. s\<lparr>tokenCache := AList.update (us_name reg, repo)
                      \<lparr>ct_token = token, ct_expiresAt = c + token_lifetime expires_in, ct_credentialsUsed = useCredentials\<rparr>
                      (tokenCache s)\<rparr>)) (\<lambda>_. ret token))))))"

definition getToken :: "net_env \<Rightarrow> world \<Rightarrow> Upstream \<Rightarrow> string \<Rightarrow> bool \<Rightarrow> ('z net_scheme, string) prog" where
  "getToken e w reg repo useCredentials = bindE now (\<lambda>c.
     bindE (gets (\<lambda>s. map_of (tokenCache s) (us_name reg, repo))) (\<lambda>cached. case cached of
       Some ct \<Rightarrow> if c < ct_expiresAt ct \<and> (ct_credentialsUsed ct \<or> \<not> useCredentials) then ret (ct_token ct)
                  else fetchToken e w reg repo useCredentials
     | None \<Rightarrow> fetchToken e w reg repo useCredentials))"

definition addAuth :: "net_env \<Rightarrow> world \<Rightarrow> Upstream \<Rightarrow> string \<Rightarrow> bool \<Rightarrow> ('z net_scheme, http_auth) prog" where
  "addAuth e w reg repo useCredentials =
     (if us_auth reg = ''none'' then ret NoAuth
      else if us_auth reg = ''basic'' then ret (BasicAuth (us_username reg) (us_password reg))
      else if us_auth reg = ''token'' then bindE (getToken e w reg repo useCredentials) (\<lambda>token. ret (Bearer token))
      else fail (Errorf ''unknown auth type''))"

text \<open>
  One attempt of \<open>fetchManifestWithRetry\<close> and \<open>fetchBlobStreamWithRetry\<close>, which share it; \<open>None\<close>
  asks for the second attempt, which uses the credentials.
\<close>

definition up_attempt ::
  "net_env \<Rightarrow> world \<Rightarrow> up_fetcher \<Rightarrow> string \<Rightarrow> string \<Rightarrow> string \<Rightarrow> bool \<Rightarrow> ('z net_scheme, http_resp option) prog" where
  "up_attempt e w f registryName repo path retried = (case map_of (uf_registries f) registryName of
      None \<Rightarrow> fail (Errorf ''upstream registry not configured'')
    | Some reg \<Rightarrow> bindE (circuit_isOpen registryName) (\<lambda>is_open.
        let reqURL = TrimRight_char (us_endpoint reg) (CHR ''/'') @ ''/v2/'' @ escapePathSegments repo @ path in
        if is_open then fail (Errorf ''circuit open for upstream'')
        else if \<not> NewRequest e reqURL then fail (Errorf ''creating request'')
        else bindE (addAuth e w reg repo retried) (\<lambda>auth.
          handle (http_do e \<lparr>rq_url = reqURL, rq_auth = auth\<rparr>) (\<lambda>r. case r of
            Inl _ \<Rightarrow> bindE (circuit_failed registryName) (\<lambda>_. fail (Errorf ''fetching from upstream''))
          | Inr resp \<Rightarrow>
              if rs_status resp = 401 \<and> \<not> retried then
                bindE (modify (\<lambda>s. s\<lparr>tokenCache := AList.delete (us_name reg, repo) (tokenCache s)\<rparr>)) (\<lambda>_. ret None)
              else if rs_status resp = 404 then fail (Errorf ''not found on upstream'')
              else if rs_status resp \<noteq> 200 then
                bindE (if 500 \<le> rs_status resp then circuit_failed registryName else ret ()) (\<lambda>_. fail (Errorf ''upstream returned''))
              else bindE (circuit_succeeded registryName) (\<lambda>_. ret (Some resp))))))"

definition up_request ::
  "net_env \<Rightarrow> world \<Rightarrow> up_fetcher \<Rightarrow> string \<Rightarrow> string \<Rightarrow> string \<Rightarrow> ('z net_scheme, http_resp) prog" where
  "up_request e w f registryName repo path =
     bindE (up_attempt e w f registryName repo path False) (\<lambda>first. case first of
         Some resp \<Rightarrow> ret resp
       | None \<Rightarrow> bindE (up_attempt e w f registryName repo path True) (\<lambda>second. case second of
             Some resp \<Rightarrow> ret resp
           | None \<Rightarrow> fail (Errorf ''upstream returned'')))"

definition up_FetchManifest ::
  "net_env \<Rightarrow> world \<Rightarrow> up_fetcher \<Rightarrow> string \<Rightarrow> string \<Rightarrow> string \<Rightarrow> ('z net_scheme, string \<times> string) prog" where
  "up_FetchManifest e w f registryName repo reference =
     bindE (up_request e w f registryName repo (''/manifests/'' @ PathEscape reference)) (\<lambda>resp.
     bindE (read_limited (rs_body resp) (uf_maxManifestSize f)) (\<lambda>data.
     ret (data, if rs_type resp = '''' then default_manifest_type else rs_type resp)))"

definition up_FetchBlobStream ::
  "net_env \<Rightarrow> world \<Rightarrow> up_fetcher \<Rightarrow> string \<Rightarrow> string \<Rightarrow> string \<Rightarrow> ('z net_scheme, reader \<times> int) prog" where
  "up_FetchBlobStream e w f registryName repo digest =
     bindE (up_request e w f registryName repo (''/blobs/'' @ PathEscape digest)) (\<lambda>resp.
     ret (LimitReader (rs_body resp) (uf_maxBlobSize f + 1), rs_length resp))"

section \<open>What leaves the node\<close>

text \<open>A run that logs a bounded number of requests, all of one kind.\<close>

definition requests :: "(http_req \<Rightarrow> bool) \<Rightarrow> nat \<Rightarrow> 'z net_scheme \<Rightarrow> 'z net_scheme \<Rightarrow> bool" where
  "requests P n s s' \<longleftrightarrow> (\<exists>new. http_log s' = http_log s @ new \<and> length new \<le> n \<and> list_all P new)"

lemma requests_none: "http_log s' = http_log s \<Longrightarrow> requests P n s s'"
  by (simp add: requests_def)

lemma requests_one: "http_log s' = http_log s @ [q'] \<Longrightarrow> P q' \<Longrightarrow> 0 < n \<Longrightarrow> requests P n s s'"
  by (auto simp: requests_def intro!: exI [of _ "[q']"])

lemma requests_trans: "requests P n s t \<Longrightarrow> requests P m t u \<Longrightarrow> k = n + m \<Longrightarrow> requests P k s u"
  unfolding requests_def by (elim exE conjE) (rule exI [of _ "new @ newa" for new newa], auto)

lemma requests_weaken: "requests P n s t \<Longrightarrow> (\<And>q'. P q' \<Longrightarrow> Q q') \<Longrightarrow> n \<le> m \<Longrightarrow> requests Q m s t"
  by (auto simp: requests_def list_all_iff)

lemma http_do_log: "http_do e rq s = (r, s') \<Longrightarrow> s' = s\<lparr>http_log := http_log s @ [rq]\<rparr>"
  by (simp add: http_do_def)

lemma http_get_log:
  "http_get e url s = (r, s') \<Longrightarrow> requests (\<lambda>q'. rq_auth q' = NoAuth) 1 s s'"
  by (auto simp: http_get_def split: if_split_asm intro: requests_none requests_one dest!: http_do_log)

lemma discover_log:
  "discoverChallenge e reg s = (r, s') \<Longrightarrow> requests (\<lambda>q'. rq_auth q' = NoAuth) 1 s s'"
  unfolding discoverChallenge_def Let_def
  by (cases r) (auto simp: bindE_ok bindE_err requests_def split: option.split_asm dest!: http_get_log)

text \<open>A request for a token with credentials goes to an https realm when the registry is https.\<close>

definition token_ok :: "net_env \<Rightarrow> world \<Rightarrow> Upstream \<Rightarrow> string \<Rightarrow> http_req \<Rightarrow> bool" where
  "token_ok e w reg repo q' \<longleftrightarrow> (\<exists>tokenURL service. q' = token_request e reg tokenURL service repo True \<and>
     \<not> (case url_Parse w (us_endpoint reg) of
          Some endpointURL \<Rightarrow> u_scheme endpointURL = ''https'' \<and> u_scheme tokenURL \<noteq> ''https''
        | None \<Rightarrow> False))"

lemma fetchToken_log:
  assumes "fetchToken e w reg repo use s = (r, s')"
  shows "requests (\<lambda>q'. rq_auth q' = NoAuth \<or> use \<and> token_ok e w reg repo q') 2 s s'"
proof -
  let ?P = "\<lambda>q'. rq_auth q' = NoAuth \<or> use \<and> token_ok e w reg repo q'"
  obtain c t where d: "discoverChallenge e reg s = (c, t)" by (cases "discoverChallenge e reg s")
  have 1: "requests ?P 1 s t" using discover_log [OF d] by (rule requests_weaken) auto
  have ok: "?P (token_request e reg tokenURL service repo use)"
    if "\<not> (case url_Parse w (us_endpoint reg) of
          Some endpointURL \<Rightarrow> u_scheme endpointURL = ''https'' \<and> u_scheme tokenURL \<noteq> ''https''
        | None \<Rightarrow> False)" for tokenURL service
    using that by (cases use) (auto simp: token_ok_def, simp add: token_request_def)
  have "requests ?P 1 t s'"
  proof (cases c)
    case (Inl x)
    with assms d show ?thesis
      by (auto simp: fetchToken_def handle_def circuit_failed_def bindE_def modify_def fail_def intro: requests_none)
  next
    case (Inr rs)
    obtain realm service where rs: "rs = (realm, service)" by (cases rs)
    show ?thesis
    proof (cases "url_Parse w realm")
      case None
      with assms d Inr rs show ?thesis by (auto simp: fetchToken_def handle_def intro: requests_none)
    next
      case (Some tokenURL)
      let ?bad = "case url_Parse w (us_endpoint reg) of
          Some endpointURL \<Rightarrow> u_scheme endpointURL = ''https'' \<and> u_scheme tokenURL \<noteq> ''https''
        | None \<Rightarrow> False"
      let ?rq = "token_request e reg tokenURL service repo use"
      show ?thesis
      proof (cases "?bad \<or> \<not> NewRequest e (rq_url ?rq)")
        case True
        with assms d Inr rs Some show ?thesis
          by (auto simp: fetchToken_def handle_def Let_def split: if_split_asm intro: requests_none)
      next
        case False
        with assms d Inr rs Some obtain x u where "http_do e ?rq t = (x, u)" "http_log s' = http_log u"
          unfolding fetchToken_def handle_def Let_def
          by (cases "http_do e ?rq t"; cases "fst (http_do e ?rq t)")
            (auto simp: bindE_def now_def gets_def modify_def split: if_split_asm option.split_asm)
        with ok False show ?thesis by (auto intro!: requests_one dest!: http_do_log)
      qed
    qed
  qed
  from requests_trans [OF 1 this, of 2] show ?thesis by simp
qed

lemma addAuth_log:
  assumes "addAuth e w reg repo use s = (r, s')"
  shows "requests (\<lambda>q'. rq_auth q' = NoAuth \<or> us_auth reg = ''token'' \<and> use \<and> token_ok e w reg repo q') 2 s s'"
proof (cases "us_auth reg = ''token''")
  case False
  with assms show ?thesis by (auto simp: addAuth_def split: if_split_asm intro: requests_none)
next
  case True
  with assms obtain x where "getToken e w reg repo use s = (x, s')"
    by (auto simp: addAuth_def bindE_def split: prod.splits sum.splits)
  then consider "s' = s" | "fetchToken e w reg repo use s = (x, s')"
    by (auto simp: getToken_def bindE_def now_def gets_def split: option.split_asm if_split_asm)
  then show ?thesis using True
    by cases (auto intro: requests_none dest!: fetchToken_log elim!: requests_weaken)
qed

text \<open>Credentials of \<open>basic\<close> authentication go to the registry itself.\<close>

definition endpoint_ok :: "Upstream \<Rightarrow> http_req \<Rightarrow> bool" where
  "endpoint_ok reg q' \<longleftrightarrow> rq_auth q' = BasicAuth (us_username reg) (us_password reg) \<and> us_auth reg = ''basic'' \<and>
     HasPrefix (rq_url q') (TrimRight_char (us_endpoint reg) (CHR ''/''))"

definition careful :: "net_env \<Rightarrow> world \<Rightarrow> Upstream \<Rightarrow> string \<Rightarrow> bool \<Rightarrow> http_req \<Rightarrow> bool" where
  "careful e w reg repo retried q' \<longleftrightarrow> rq_auth q' = NoAuth \<or> (\<exists>tok. rq_auth q' = Bearer tok) \<or> endpoint_ok reg q' \<or>
     us_auth reg = ''token'' \<and> retried \<and> token_ok e w reg repo q'"

lemma addAuth_value:
  "addAuth e w reg repo use s = (Inr auth, s') \<Longrightarrow>
   auth = NoAuth \<or> (\<exists>tok. auth = Bearer tok) \<or> auth = BasicAuth (us_username reg) (us_password reg) \<and> us_auth reg = ''basic''"
  by (auto simp: addAuth_def bindE_ok split: if_split_asm)

lemma circuit_isOpen_log: "circuit_isOpen n s = (r, s') \<Longrightarrow> http_log s' = http_log s"
  by (auto simp: circuit_isOpen_def split: prod.splits)

text \<open>An attempt sends at most three requests, and asks for the second attempt only when the last of them was answered 401.\<close>

lemma up_attempt_log:
  assumes "up_attempt e w f name repo path retried s = (r, s')" and "map_of (uf_registries f) name = Some reg"
  shows "requests (careful e w reg repo retried) 3 s s'"
    and "r = Inr None \<Longrightarrow> \<not> retried \<and> (\<exists>new rq resp. http_log s' = http_log s @ new @ [rq] \<and>
       Do e (length (http_log s) + length new) rq = Some resp \<and> rs_status resp = 401)"
proof -
  let ?url = "TrimRight_char (us_endpoint reg) (CHR ''/'') @ ''/v2/'' @ escapePathSegments repo @ path"
  obtain b t where o: "circuit_isOpen name s = (Inr b, t)"
    by (cases "up_isOpen (clock s) name (up_circuit s)") (simp add: circuit_isOpen_def)
  note logt = circuit_isOpen_log [OF o]
  have "requests (careful e w reg repo retried) 3 s s' \<and> (r = Inr None \<longrightarrow> \<not> retried \<and>
     (\<exists>new rq resp. http_log s' = http_log s @ new @ [rq] \<and> Do e (length (http_log s) + length new) rq = Some resp \<and> rs_status resp = 401))"
  proof (cases "b \<or> \<not> NewRequest e ?url")
    case True
    with assms o logt show ?thesis
      by (auto simp: up_attempt_def bindE_def Let_def split: if_split_asm intro: requests_none)
  next
    case False
    obtain a u where a: "addAuth e w reg repo retried t = (a, u)" by (cases "addAuth e w reg repo retried t")
    have 1: "requests (careful e w reg repo retried) 2 s u"
      using addAuth_log [OF a] logt by (auto simp: requests_def careful_def list_all_iff)
    show ?thesis
    proof (cases a)
      case (Inl x)
      with assms False o a have "r = Inl x" "s' = u" by (auto simp: up_attempt_def bindE_def Let_def)
      with 1 show ?thesis by (auto elim: requests_weaken)
    next
      case (Inr auth)
      let ?rq = "\<lparr>rq_url = ?url, rq_auth = auth\<rparr>"
      obtain x v where h: "http_do e ?rq u = (x, v)" by (cases "http_do e ?rq u")
      from assms False o a Inr h have end_log: "http_log s' = http_log v"
        and none: "r = Inr None \<Longrightarrow> \<not> retried \<and> (\<exists>resp. x = Inr resp \<and> rs_status resp = 401)"
        by (auto simp: up_attempt_def bindE_def Let_def handle_def circuit_failed_def circuit_succeeded_def modify_def fail_def ret_def
            split: sum.splits if_split_asm)
      have "careful e w reg repo retried ?rq"
        using addAuth_value [OF a [unfolded Inr]] by (auto simp: careful_def endpoint_ok_def HasPrefix_def)
      then have "requests (careful e w reg repo retried) 1 u s'"
        using http_do_log [OF h] end_log by (intro requests_one [of _ _ ?rq]) simp_all
      from requests_trans [OF 1 this, of 3] have "requests (careful e w reg repo retried) 3 s s'" by simp
      moreover obtain new where "http_log u = http_log s @ new" using 1 by (auto simp: requests_def)
      ultimately show ?thesis using none http_do_log [OF h] end_log h
        by (fastforce simp: http_do_def split: option.split_asm)
    qed
  qed
  then show "requests (careful e w reg repo retried) 3 s s'"
    and "r = Inr None \<Longrightarrow> \<not> retried \<and> (\<exists>new rq resp. http_log s' = http_log s @ new @ [rq] \<and>
       Do e (length (http_log s) + length new) rq = Some resp \<and> rs_status resp = 401)" by blast+
qed


section \<open>Parsing and limits\<close>

text \<open>The two parameters of a challenge header are read back exactly, in either case of the values.\<close>

lemma takeWhile_sep: "c \<notin> set xs \<Longrightarrow> takeWhile (\<lambda>x. x \<noteq> c) (xs @ c # ys) = xs"
  by (induction xs) auto

lemma dropWhile_sep: "c \<notin> set xs \<Longrightarrow> dropWhile (\<lambda>x. x \<noteq> c) (xs @ c # ys) = c # ys"
  by (induction xs) auto

lemma www_pair:
  assumes "CHR 0x22 \<notin> set v" and "k \<noteq> ''''" and "trimmed k" and "CHR ''='' \<notin> set k" and "hd k \<noteq> CHR '' ''" and "hd k \<noteq> CHR '',''"
  shows "www_pairs (k @ ''='' @ [CHR 0x22] @ v @ [CHR 0x22] @ rest) realm service =
    www_pairs rest (if k = ''realm'' then v else realm) (if k = ''service'' then v else service)"
proof -
  let ?h = "k @ CHR ''='' # CHR 0x22 # v @ CHR 0x22 # rest"
  have 1: "dropWhile (\<lambda>c. c = CHR '' '' \<or> c = CHR '','') ?h = ?h" using assms(2,5,6) by (cases k) auto
  have 2: "takeWhile (\<lambda>c. c \<noteq> CHR ''='') ?h = k" "dropWhile (\<lambda>c. c \<noteq> CHR ''='') ?h = CHR ''='' # CHR 0x22 # v @ CHR 0x22 # rest"
    using assms(4) by (rule takeWhile_sep, rule dropWhile_sep)
  show ?thesis
    by (subst www_pairs.simps) (simp add: Let_def 1 2 TrimSpace_trimmed [OF assms(3)] takeWhile_sep [OF assms(1)] dropWhile_sep [OF assms(1)])
qed

lemma www_pairs_comma: "www_pairs (CHR '','' # rest) realm service = www_pairs rest realm service"
  by (subst (1 2) www_pairs.simps) (simp add: Let_def)

lemma challenge_roundtrip:
  assumes "CHR 0x22 \<notin> set realm" and "CHR 0x22 \<notin> set service"
  shows "parseWWWAuthenticate (''Bearer realm='' @ [CHR 0x22] @ realm @ [CHR 0x22] @ '',service='' @ [CHR 0x22] @ service @ [CHR 0x22]) =
    (realm, service)"
proof -
  have t: "trimmed ''realm''" "trimmed ''service''" by (simp_all add: trimmed_def is_space_def)
  have "www_pairs (''realm'' @ ''='' @ [CHR 0x22] @ realm @ [CHR 0x22] @ CHR '','' # ''service'' @ ''='' @ [CHR 0x22] @ service @ [CHR 0x22] @ []) '''' '''' =
      (realm, service)"
    using www_pair [OF assms(1) _ t(1)] www_pair [OF assms(2) _ t(2), of "[]"]
    by (simp add: www_pairs_comma www_pairs.simps [of "[]"])
  then show ?thesis by (simp add: parseWWWAuthenticate_def CutPrefix_def HasPrefix_def)
qed

text \<open>A token is never reused beyond its life time; one that lives longer than a second is reused.\<close>

lemma token_lifetime_bounds: "0 < n \<Longrightarrow> 0 \<le> token_lifetime n \<and> token_lifetime n < n \<and> (1 < n \<longrightarrow> 0 < token_lifetime n)"
  by (auto simp: token_lifetime_def tokenCacheBufferSec_def Let_def)

lemma peer_manifest_verified:
  assumes "peer_FetchManifest e w f ep repo ref s = (Inr (data, mt), s')"
  shows "int (length data) \<le> pf_maxManifestSize f \<and> (HasPrefix ref ''sha256:'' \<longrightarrow> hash_of w data = ref)"
  using assms
  by (auto simp: peer_FetchManifest_def read_limited_def Let_def bindE_ok split: if_split_asm)

section \<open>Witness\<close>

definition demo_upstream :: Upstream where
  "demo_upstream = \<lparr>us_name = ''r.example'', us_endpoint = ''https://r.example/'', us_auth = ''token'',
     us_username = ''user'', us_password = ''pw'', us_private = False\<rparr>"

definition answer :: "int \<Rightarrow> string \<Rightarrow> string \<Rightarrow> http_resp option" where
  "answer st body www = Some \<lparr>rs_status = st, rs_body = bytes_reader body, rs_length = -1, rs_type = '''', rs_dcd = '''', rs_www = www\<rparr>"

text \<open>A registry that challenges, hands out tokens, and shows the manifest only to the user.\<close>

definition demo_net :: net_env where
  "demo_net = \<lparr>Do = (\<lambda>n rq. if n = 0 then answer 401 '''' (''Bearer realm='' @ [CHR 0x22] @ ''https://auth.example/t'' @ [CHR 0x22])
       else if n = 1 then answer 200 ''anon'' '''' else if n = 2 then answer 401 '''' ''''
       else if n = 3 then answer 200 ''full'' '''' else answer 200 ''{}'' ''''),
     NewRequest = (\<lambda>_. True), url_Query = (\<lambda>u _. ''https://'' @ u_host u), DecodeToken = (\<lambda>b. Some (b, '''', 60))\<rparr>"

definition demo_net_state :: net where
  "demo_net_state = disk.extend empty_disk (net.fields [] newCircuitBreaker [] [])"


end
