(* ===== verification/Oci_Upload.thy ===== *)
theory Oci_Upload
  imports Fetchers
begin

text \<open>
  Chunked uploads: \<open>internal/oci/blobwriter.go\<close> and the upload sessions of \<open>internal/oci/handler.go\<close>
  (\<open>newUploadWriter\<close>, \<open>CleanExpiredUploads\<close>, \<open>PurgeUploadSessions\<close>, \<open>sweepStaleStagingFiles\<close>).

  Writers are objects behind pointers: the heap is a list that only grows and a pointer is an index
  into it. \<open>uploads\<close> is the map \<open>r.uploads\<close> from upload ids to pointers, \<open>staging\<close> the files
  \<open>upload-*\<close> of the staging directory with their modification times. A writer keeps the file it has
  open apart from what it has hashed and counted; that the three agree is an invariant.

  Upload ids and temporary names come from the outside (\<open>crypto/rand\<close>, \<open>os.CreateTemp\<close>).
\<close>

section \<open>State\<close>

record diskBlobWriter =
  dw_uuid :: string
  dw_maxSize :: int
  dw_open :: bool
  dw_path :: string
  dw_content :: string
  dw_hashed :: string
  dw_size :: int
  dw_done :: bool

text \<open>What an observer is told: repository, tag, digest, media type and subject.\<close>

type_synonym push_event = "string \<times> string \<times> string \<times> string \<times> string option"

record node = net +
  writers :: "diskBlobWriter list"
  uploads :: "(string \<times> nat) list"
  staging :: "(string \<times> int) list"
  observed :: "(string \<times> push_event) list"

record Registry =
  reg_localID :: string
  reg_namespace :: string
  reg_publisher :: "APPublisher option"
  reg_observers :: "string list"
  reg_resolver :: bool
  reg_fetcher :: "peer_fetcher option"
  reg_upstream :: "up_fetcher option"
  reg_maxManifestSize :: int
  reg_maxBlobSize :: int
  reg_uploadDir :: string

text \<open>The fields of a manifest the registry reads.\<close>

record parsed_manifest =
  pm_config :: descriptor
  pm_layers :: "descriptor list"
  pm_manifests :: "descriptor list"
  pm_subject :: "descriptor option"
  pm_artifactType :: string

record oci_env =
  oe_net :: net_env
  oe_world :: world
  upload_id :: "nat \<Rightarrow> string"
  temp_name :: "nat \<Rightarrow> string"
  short_write :: "string \<Rightarrow> nat"
  UnmarshalMeta :: "string \<Rightarrow> parsed_manifest option"
  MarshalReferrer :: "parsed_manifest \<Rightarrow> (string \<times> string) list \<Rightarrow> string"
  digest_Parse :: "string \<Rightarrow> bool"

definition defaultMediaType :: string where "defaultMediaType = ''application/octet-stream''"

definition uploadSessionTTL :: int where "uploadSessionTTL = 3600"

section \<open>The writer\<close>

definition with_writer :: "nat \<Rightarrow> (diskBlobWriter \<Rightarrow> ('z node_scheme, 'a) prog) \<Rightarrow> ('z node_scheme, 'a) prog" where
  "with_writer i f = (\<lambda>s. if i < length (writers s) then f (writers s ! i) s else (Inl (Errorf ''nil pointer''), s))"

definition set_writer :: "nat \<Rightarrow> (diskBlobWriter \<Rightarrow> diskBlobWriter) \<Rightarrow> ('z node_scheme, unit) prog" where
  "set_writer i f = modify (\<lambda>s. s\<lparr>writers := (writers s)[i := f (writers s ! i)]\<rparr>)"

text \<open>
  Appending to the staging file: what arrives is hashed and counted, on a short write too. A file that
  was released (by the reaper, while a request still held the writer) refuses the write.
\<close>

definition append_chunk :: "nat \<Rightarrow> string \<Rightarrow> ('z node_scheme, unit) prog" where
  "append_chunk i p = bindE now (\<lambda>c. bindE (set_writer i (\<lambda>d. d\<lparr>dw_content := dw_content d @ p, dw_hashed := dw_hashed d @ p,
       dw_size := dw_size d + int (length p)\<rparr>)) (\<lambda>_.
     modify (\<lambda>s. s\<lparr>staging := map (\<lambda>(f, m). if f = dw_path (writers s ! i) then (f, c) else (f, m)) (staging s)\<rparr>)))"

definition dw_Write :: "oci_env \<Rightarrow> nat \<Rightarrow> string \<Rightarrow> ('z node_scheme, int) prog" where
  "dw_Write e i p = with_writer i (\<lambda>d.
     if dw_done d then fail ErrBlobUploadInvalid
     else if dw_maxSize d < dw_size d + int (length p) then fail ErrBlobUploadInvalid
     else if \<not> dw_open d then fail (Errorf ''writing upload chunk'')
     else handle tick (\<lambda>r. case r of
         Inl x \<Rightarrow> bindE (append_chunk i (take (short_write e p) p)) (\<lambda>_. fail x)
       | Inr _ \<Rightarrow> bindE (append_chunk i p) (\<lambda>_. ret (int (length p)))))"

definition dw_Path :: "diskBlobWriter \<Rightarrow> string" where
  "dw_Path d = (if dw_open d then dw_path d else '''')"

definition remove_staging :: "string \<Rightarrow> ('z node_scheme, unit) prog" where
  "remove_staging f = bindE tick (\<lambda>_. modify (\<lambda>s. s\<lparr>staging := filter (\<lambda>(g, _). g \<noteq> f) (staging s)\<rparr>))"

text \<open>The registry bookkeeping of an upload that is over (\<open>onDone\<close>).\<close>

definition onDone :: "string \<Rightarrow> ('z node_scheme, unit) prog" where
  "onDone uuid = bindE (modify (\<lambda>s. s\<lparr>uploads := AList.delete uuid (uploads s)\<rparr>)) (\<lambda>_. ignore (DeleteUploadSession uuid))"

definition dw_cleanup :: "nat \<Rightarrow> ('z node_scheme, unit) prog" where
  "dw_cleanup i = with_writer i (\<lambda>d.
     if \<not> dw_open d then ret ()
     else bindE (ignore (remove_staging (dw_path d))) (\<lambda>_.
       bindE (set_writer i (\<lambda>d. d\<lparr>dw_open := False\<rparr>)) (\<lambda>_. onDone (dw_uuid d))))"

definition dw_Cancel :: "nat \<Rightarrow> ('z node_scheme, unit) prog" where
  "dw_Cancel i = bindE (set_writer i (\<lambda>d. d\<lparr>dw_done := True\<rparr>)) (\<lambda>_. dw_cleanup i)"

text \<open>\<open>defer f()\<close>: \<open>f\<close> runs on every way out of the function, whose result stays.\<close>

definition deferred :: "('s, unit) prog \<Rightarrow> ('s, 'a) prog \<Rightarrow> ('s, 'a) prog" where
  "deferred f m = handle m (\<lambda>r s. (r, snd (f s)))"

definition publish :: "Registry \<Rightarrow> (APPublisher \<Rightarrow> ('z node_scheme, unit) prog) \<Rightarrow> ('z node_scheme, unit) prog" where
  "publish r f = (case reg_publisher r of None \<Rightarrow> ret () | Some p \<Rightarrow> ignore (f p))"

text \<open>The commit callback of \<open>newUploadWriter\<close>.\<close>

definition commit_upload :: "oci_env \<Rightarrow> Registry \<Rightarrow> string \<Rightarrow> string \<Rightarrow> string \<Rightarrow> ('z node_scheme, descriptor) prog" where
  "commit_upload e r uuid dig content =
     bindE (modify (\<lambda>s. s\<lparr>uploads := AList.delete uuid (uploads s)\<rparr>)) (\<lambda>_.
     bindE (store_Put (oe_world e) (bytes_reader content) dig) (\<lambda>(digestStr, sz).
     bindE (PutBlob digestStr sz (Some defaultMediaType) True) (\<lambda>_.
     bindE (ignore (DeleteUploadSession uuid)) (\<lambda>_.
     bindE (publish r (\<lambda>p. PublishBlobRef (oe_world e) p digestStr sz)) (\<lambda>_.
     ret \<lparr>d_digest = digestStr, d_size = sz, d_media_type = defaultMediaType\<rparr>)))))"

definition dw_Commit :: "oci_env \<Rightarrow> Registry \<Rightarrow> nat \<Rightarrow> string \<Rightarrow> ('z node_scheme, descriptor) prog" where
  "dw_Commit e r i dig = with_writer i (\<lambda>d.
     if dw_done d then fail ErrBlobUploadInvalid
     else bindE (set_writer i (\<lambda>d. d\<lparr>dw_done := True\<rparr>)) (\<lambda>_.
       deferred (dw_cleanup i)
         (if hash_of (oe_world e) (dw_hashed d) \<noteq> dig then fail ErrDigestInvalid
          else if \<not> dw_open d then fail ErrBlobUploadInvalid
          else bindE tick (\<lambda>_. bindE tick (\<lambda>_. commit_upload e r (dw_uuid d) dig (dw_content d))))))"

definition newDiskBlobWriter :: "oci_env \<Rightarrow> string \<Rightarrow> int \<Rightarrow> ('z node_scheme, nat) prog" where
  "newDiskBlobWriter e uuid max_size = bindE tick (\<lambda>_. bindE now (\<lambda>c.
     bindE (gets (\<lambda>s. length (writers s))) (\<lambda>i.
     bindE (modify (\<lambda>s. s\<lparr>
        writers := writers s @ [\<lparr>dw_uuid = if uuid = '''' then upload_id e i else uuid, dw_maxSize = max_size, dw_open = True,
          dw_path = temp_name e i, dw_content = '''', dw_hashed = '''', dw_size = 0, dw_done = False\<rparr>],
        staging := AList.update (temp_name e i) c (staging s)\<rparr>)) (\<lambda>_. ret i))))"

definition newUploadWriter :: "oci_env \<Rightarrow> Registry \<Rightarrow> string \<Rightarrow> ('z node_scheme, nat) prog" where
  "newUploadWriter e r uuid = bindE (newDiskBlobWriter e uuid (reg_maxBlobSize r)) (\<lambda>i.
     bindE (modify (\<lambda>s. s\<lparr>uploads := AList.update (dw_uuid (writers s ! i)) i (uploads s)\<rparr>)) (\<lambda>_. ret i))"

section \<open>Sweeping\<close>

definition active_paths :: "'z node_scheme \<Rightarrow> string list" where
  "active_paths s = filter (\<lambda>p. p \<noteq> '''') (map (\<lambda>(_, i). dw_Path (writers s ! i)) (uploads s))"

definition sweep_file :: "string list \<Rightarrow> int \<Rightarrow> string \<times> int \<Rightarrow> ('z node_scheme, unit) prog" where
  "sweep_file active cutoff fm =
     (if fst fm \<in> set active then ret ()
      else handle tick (\<lambda>r. case r of
          Inl _ \<Rightarrow> ret ()
        | Inr _ \<Rightarrow> if cutoff < snd fm then ret () else ignore (remove_staging (fst fm))))"

definition sweepStaleStagingFiles :: "Registry \<Rightarrow> int \<Rightarrow> ('z node_scheme, unit) prog" where
  "sweepStaleStagingFiles r maxAge =
     (if reg_uploadDir r = '''' then ret ()
      else bindE now (\<lambda>c. bindE (gets staging) (\<lambda>matches. bindE (gets active_paths) (\<lambda>active.
        foreach matches (sweep_file active (c - maxAge))))))"

text \<open>Dropping one session: its entry, its writer and its row.\<close>

definition drop_session :: "string \<Rightarrow> ('z node_scheme, unit) prog" where
  "drop_session uuid = bindE (gets (\<lambda>s. map_of (uploads s) uuid)) (\<lambda>w.
     bindE (modify (\<lambda>s. s\<lparr>uploads := AList.delete uuid (uploads s)\<rparr>)) (\<lambda>_.
     bindE (case w of None \<Rightarrow> ret () | Some i \<Rightarrow> ignore (dw_cleanup i)) (\<lambda>_.
     ignore (DeleteUploadSession uuid))))"

definition CleanExpiredUploads :: "Registry \<Rightarrow> ('z node_scheme, nat) prog" where
  "CleanExpiredUploads r = bindE (ListExpiredUploadSessions 100) (\<lambda>expired.
     bindE (foreach expired drop_session) (\<lambda>_.
     bindE (sweepStaleStagingFiles r uploadSessionTTL) (\<lambda>_. ret (length expired))))"

definition purge_list :: "Registry \<Rightarrow> string \<Rightarrow> string list \<Rightarrow> ('z node_scheme, nat) prog" where
  "purge_list r repo ids = bindE (foreach ids drop_session) (\<lambda>_.
     bindE (if repo = '''' then sweepStaleStagingFiles r 0 else ret ()) (\<lambda>_. ret (length ids)))"

definition PurgeUploadSessions :: "Registry \<Rightarrow> string \<Rightarrow> ('z node_scheme, nat) prog" where
  "PurgeUploadSessions r repo =
     (if repo = '''' then bindE AllUploadSessionUUIDs (purge_list r repo)
      else bindE (GetRepository repo) (\<lambda>repoObj. case repoObj of
          None \<Rightarrow> ret 0
        | Some ro \<Rightarrow> bindE (UploadSessionUUIDsByRepo (repo_id ro)) (purge_list r repo)))"

definition SetUploadDir :: "Registry \<Rightarrow> string \<Rightarrow> ('z node_scheme, Registry) prog" where
  "SetUploadDir r dir = bindE tick (\<lambda>_. bindE (gets staging) (\<lambda>matches.
     bindE (foreach matches (\<lambda>fm. ignore (remove_staging (fst fm)))) (\<lambda>_. ret (r\<lparr>reg_uploadDir := dir\<rparr>))))"

end
