(* ===== verification/Oci.thy ===== *)
theory Oci
  imports Oci_Upload
begin

text \<open>
  \<open>internal/oci/handler.go\<close>: the OCI registry. Reads (blobs, ranges, manifests, tags, referrers,
  listings) with pull-through from federation peers and upstream registries, and writes (blobs,
  mounts, manifests, deletions), which are confined to the local namespace.

  A reader is the descriptor it reports with the content it delivers. The blob store is the local
  one, the fetchers are those of \<open>Fetchers\<close>, decoding of manifests is a parameter. A listing is
  consumed to its end.
\<close>

section \<open>Names\<close>

definition registry_namespace :: "world \<Rightarrow> string \<Rightarrow> string \<Rightarrow> string" where
  "registry_namespace w localID namespace =
     (if namespace = '''' \<and> localID \<noteq> '''' then
        (case url_Parse w localID of
           Some u \<Rightarrow> if u_host u \<noteq> '''' then u_hostname u else namespace
         | None \<Rightarrow> namespace)
      else namespace)"

definition normalizeRepo :: "Registry \<Rightarrow> string \<Rightarrow> string" where
  "normalizeRepo r repo =
     (if reg_namespace r = '''' then repo
      else if HasPrefix repo (reg_namespace r @ ''/'') then repo
      else if Contains_char (Cut_before repo (CHR ''/'')) (CHR ''.'') then repo
      else reg_namespace r @ ''/'' @ repo)"

definition checkNamespace :: "Registry \<Rightarrow> string \<Rightarrow> bool" where
  "checkNamespace r repo \<longleftrightarrow> reg_namespace r = '''' \<or> HasPrefix repo (reg_namespace r @ ''/'')"

definition looksLikeNamespaceTypo :: "string \<Rightarrow> string \<Rightarrow> bool" where
  "looksLikeNamespaceTypo repo namespace \<longleftrightarrow>
     (let first = Cut_before repo (CHR ''/'') in
      namespace \<noteq> '''' \<and> first \<noteq> '''' \<and> \<not> Contains_char first (CHR ''.'') \<and> HasPrefix namespace (first @ ''.''))"

definition normalizeRepoForWrite :: "Registry \<Rightarrow> string \<Rightarrow> err + string" where
  "normalizeRepoForWrite r repo =
     (if looksLikeNamespaceTypo repo (reg_namespace r) then Inl ErrDenied
      else let repo' = normalizeRepo r repo in
        if checkNamespace r repo' then Inr repo' else Inl ErrDenied)"

definition for_write :: "Registry \<Rightarrow> string \<Rightarrow> (string \<Rightarrow> ('z node_scheme, 'a) prog) \<Rightarrow> ('z node_scheme, 'a) prog" where
  "for_write r repo f = (case normalizeRepoForWrite r repo of Inl x \<Rightarrow> fail x | Inr repo' \<Rightarrow> f repo')"

section \<open>Manifest metadata\<close>

record manifestMeta =
  mm_layers :: "BlobRef list"
  mm_children :: "BlobRef list"
  mm_subject :: "string option"
  mm_artifactType :: "string option"

definition toRef :: "descriptor \<Rightarrow> BlobRef list" where
  "toRef d = (if d_digest d = '''' then []
     else [\<lparr>ref_digest = d_digest d, ref_size = d_size d,
       ref_media_type = if d_media_type d \<noteq> '''' then Some (d_media_type d) else None\<rparr>])"

definition parseManifestMeta :: "oci_env \<Rightarrow> string \<Rightarrow> manifestMeta" where
  "parseManifestMeta e content = (case UnmarshalMeta e content of
      None \<Rightarrow> \<lparr>mm_layers = [], mm_children = [], mm_subject = None, mm_artifactType = None\<rparr>
    | Some m \<Rightarrow> \<lparr>mm_layers = concat (map toRef (pm_config m # pm_layers m)), mm_children = concat (map toRef (pm_manifests m)),
        mm_subject = (case pm_subject m of Some d \<Rightarrow> if d_digest d \<noteq> '''' then Some (d_digest d) else None | None \<Rightarrow> None),
        mm_artifactType = if pm_artifactType m \<noteq> '''' then Some (pm_artifactType m) else None\<rparr>)"

section \<open>Pull-through\<close>

type_synonym blob_reader = "descriptor \<times> string"

definition octets :: "string \<Rightarrow> int \<Rightarrow> string \<Rightarrow> blob_reader" where
  "octets digest sz content = (\<lparr>d_digest = digest, d_size = sz, d_media_type = defaultMediaType\<rparr>, content)"

text \<open>One peer after the other until one delivers the blob.\<close>

fun peers_loop :: "oci_env \<Rightarrow> Registry \<Rightarrow> peer_fetcher \<Rightarrow> string \<Rightarrow> string \<Rightarrow> string list \<Rightarrow> ('z node_scheme, blob_reader) prog" where
  "peers_loop e r f repo digest [] = fail (Errorf ''no peers have blob'')"
| "peers_loop e r f repo digest (peer # peers) =
     handle (peer_FetchBlobStream (oe_net e) f peer repo digest) (\<lambda>stream. case stream of
       Inl _ \<Rightarrow> peers_loop e r f repo digest peers
     | Inr (body, announced) \<Rightarrow>
         if reg_maxBlobSize r < announced then peers_loop e r f repo digest peers
         else handle (store_Put (oe_world e) (LimitReader body (reg_maxBlobSize r + 1)) digest) (\<lambda>put. case put of
           Inl _ \<Rightarrow> peers_loop e r f repo digest peers
         | Inr (storedDigest, sz) \<Rightarrow>
             if reg_maxBlobSize r < sz then bindE (ignore (store_Delete storedDigest)) (\<lambda>_. peers_loop e r f repo digest peers)
             else bindE (ignore (PutBlob storedDigest sz (Some defaultMediaType) True)) (\<lambda>_.
               bindE (publish r (\<lambda>p. PublishBlobRef (oe_world e) p storedDigest sz)) (\<lambda>_.
               handle (store_Open storedDigest) (\<lambda>opened. case opened of
                 Inl _ \<Rightarrow> peers_loop e r f repo digest peers
               | Inr (content, fetchedSize) \<Rightarrow> ret (octets digest fetchedSize content))))))"

definition fetchBlobFromPeers :: "oci_env \<Rightarrow> Registry \<Rightarrow> peer_fetcher \<Rightarrow> string \<Rightarrow> string \<Rightarrow> ('z node_scheme, blob_reader) prog" where
  "fetchBlobFromPeers e r f repo digest = bindE (FindBlobPeers digest) (peers_loop e r f repo digest)"

text \<open>The repository row of an upstream registry, with the privacy the fetch revealed.\<close>

definition mark_private :: "up_fetcher \<Rightarrow> string \<Rightarrow> string \<Rightarrow> int \<Rightarrow> ('z node_scheme, unit) prog" where
  "mark_private u registry upstreamRepo repoID = bindE (IsRepoPrivate u registry upstreamRepo) (\<lambda>private.
     ignore (SetRepositoryPrivate repoID private))"

definition fetchBlobFromUpstream :: "oci_env \<Rightarrow> Registry \<Rightarrow> up_fetcher \<Rightarrow> string \<Rightarrow> string \<Rightarrow> ('z node_scheme, blob_reader option) prog" where
  "fetchBlobFromUpstream e r u repo digest = (case ParseUpstreamRepo repo of
      None \<Rightarrow> ret None
    | Some (registry, upstreamRepo) \<Rightarrow>
        if \<not> HasRegistry u registry then ret None
        else bindE (up_FetchBlobStream (oe_net e) (oe_world e) u registry upstreamRepo digest) (\<lambda>(body, announced).
          if reg_maxBlobSize r < announced then fail (Errorf ''upstream blob exceeds max size'')
          else bindE (store_Put (oe_world e) (LimitReader body (reg_maxBlobSize r + 1)) digest) (\<lambda>(storedDigest, sz).
            if reg_maxBlobSize r < sz then bindE (ignore (store_Delete storedDigest)) (\<lambda>_. fail (Errorf ''upstream blob exceeds max size''))
            else bindE (ignore (PutBlob storedDigest sz (Some defaultMediaType) True)) (\<lambda>_.
              bindE (handle (GetOrCreateRepository (normalizeRepo r repo) (''upstream:'' @ registry)) (\<lambda>ro. case ro of
                  Inl _ \<Rightarrow> ret ()
                | Inr repoObj \<Rightarrow> mark_private u registry upstreamRepo (repo_id repoObj))) (\<lambda>_.
              bindE (store_Open storedDigest) (\<lambda>(content, cachedSize).
              ret (Some (octets digest cachedSize content))))))))"

definition fetchManifestFromUpstream :: "oci_env \<Rightarrow> Registry \<Rightarrow> up_fetcher \<Rightarrow> string \<Rightarrow> string \<Rightarrow> ('z node_scheme, blob_reader option) prog" where
  "fetchManifestFromUpstream e r u repo reference = (case ParseUpstreamRepo repo of
      None \<Rightarrow> ret None
    | Some (registry, upstreamRepo) \<Rightarrow>
        if \<not> HasRegistry u registry then ret None
        else bindE (up_FetchManifest (oe_net e) (oe_world e) u registry upstreamRepo reference) (\<lambda>(data, mediaType).
          let computed = hash_of (oe_world e) data; refIsDigest = digest_Parse e reference in
          if refIsDigest \<and> computed \<noteq> reference then fail (Errorf ''manifest digest mismatch'')
          else bindE (GetOrCreateRepository (normalizeRepo r repo) (''upstream:'' @ registry)) (\<lambda>repoObj.
            bindE (mark_private u registry upstreamRepo (repo_id repoObj)) (\<lambda>_.
            let meta = parseManifestMeta e data in
            bindE (PutManifestWithLayers \<lparr>man_id = 0, man_repo = repo_id repoObj, man_digest = computed, man_media_type = mediaType,
                man_size = int (length data), man_content = data, man_source = None, man_subject = mm_subject meta,
                man_artifact = mm_artifactType meta, man_created = 0\<rparr> (mm_layers meta @ mm_children meta)) (\<lambda>_.
            bindE (if refIsDigest then ret () else ignore (PutTag (repo_id repoObj) reference computed)) (\<lambda>_.
            ret (Some (\<lparr>d_digest = computed, d_size = int (length data), d_media_type = mediaType\<rparr>, data))))))))"

text \<open>An upstream answer, when there is one; its errors are only logged.\<close>

definition try_upstream ::
  "Registry \<Rightarrow> (up_fetcher \<Rightarrow> ('z node_scheme, 'a option) prog) \<Rightarrow> ('a \<Rightarrow> ('z node_scheme, 'b) prog) \<Rightarrow> ('z node_scheme, 'b) prog \<Rightarrow> ('z node_scheme, 'b) prog" where
  "try_upstream r fetch found missing = (case reg_upstream r of
      None \<Rightarrow> missing
    | Some u \<Rightarrow> handle (fetch u) (\<lambda>x. case x of Inr (Some y) \<Rightarrow> found y | _ \<Rightarrow> missing))"

section \<open>Reads\<close>

definition getBlob :: "oci_env \<Rightarrow> Registry \<Rightarrow> string \<Rightarrow> string \<Rightarrow> ('z node_scheme, blob_reader) prog" where
  "getBlob e r originalRepo digest =
     bindE (BlobExistsInRepo (normalizeRepo r originalRepo) digest) (\<lambda>ex.
     if \<not> ex then try_upstream r (\<lambda>u. fetchBlobFromUpstream e r u originalRepo digest) ret (fail ErrBlobUnknown)
     else handle (store_Open digest) (\<lambda>opened. case opened of
         Inr (content, blobSize) \<Rightarrow> ret (octets digest blobSize content)
       | Inl x \<Rightarrow>
           if x \<noteq> ErrBlobNotFound then fail x
           else (case (reg_resolver r, reg_fetcher r) of
               (True, Some f) \<Rightarrow> handle (fetchBlobFromPeers e r f (normalizeRepo r originalRepo) digest) (\<lambda>q. case q of
                   Inr b \<Rightarrow> ret b
                 | Inl _ \<Rightarrow> fail ErrBlobUnknown)
             | _ \<Rightarrow> fail ErrBlobUnknown)))"

text \<open>The file of a blob for a range request, fetched from a peer when it is missing.\<close>

definition open_for_range :: "oci_env \<Rightarrow> Registry \<Rightarrow> string \<Rightarrow> string \<Rightarrow> ('z node_scheme, string \<times> int) prog" where
  "open_for_range e r repo digest = handle (store_Open digest) (\<lambda>opened. case opened of
      Inr f \<Rightarrow> ret f
    | Inl x \<Rightarrow>
        if x \<noteq> ErrBlobNotFound then fail x
        else (case (reg_resolver r, reg_fetcher r) of
            (True, Some f) \<Rightarrow> handle (fetchBlobFromPeers e r f repo digest) (\<lambda>q. case q of
                Inl _ \<Rightarrow> fail ErrBlobUnknown
              | Inr _ \<Rightarrow> handle (store_Open digest) (\<lambda>again. case again of
                    Inl _ \<Rightarrow> fail ErrBlobUnknown
                  | Inr f \<Rightarrow> ret f))
          | _ \<Rightarrow> fail ErrBlobUnknown))"

definition getBlobRange :: "oci_env \<Rightarrow> Registry \<Rightarrow> string \<Rightarrow> string \<Rightarrow> int \<Rightarrow> int \<Rightarrow> ('z node_scheme, blob_reader) prog" where
  "getBlobRange e r repo0 digest offset0 offset1 = (let repo = normalizeRepo r repo0 in
     bindE (BlobExistsInRepo repo digest) (\<lambda>ex.
     if \<not> ex then fail ErrBlobUnknown
     else bindE (open_for_range e r repo digest) (\<lambda>(content, totalSize).
       if totalSize \<le> offset0 then fail ErrRangeInvalid
       else if offset0 < 0 then fail (Errorf ''seeking blob'')
       else bindE tick (\<lambda>_.
         let stop = (if offset1 < 0 \<or> totalSize < offset1 then totalSize else offset1);
             rangeSize = stop - offset0
         in ret (octets digest rangeSize (take (nat rangeSize) (drop (nat offset0) content)))))))"

definition manifest_reader :: "Manifest \<Rightarrow> int \<Rightarrow> string \<Rightarrow> blob_reader" where
  "manifest_reader m sz content = (\<lparr>d_digest = man_digest m, d_size = sz, d_media_type = man_media_type m\<rparr>, content)"

text \<open>The manifest as the fetch leaves it: the media type may have changed.\<close>

definition fetchManifestFromSource :: "oci_env \<Rightarrow> peer_fetcher \<Rightarrow> string \<Rightarrow> Manifest \<Rightarrow> string \<Rightarrow> ('z node_scheme, Manifest \<times> string) prog" where
  "fetchManifestFromSource e f repo m source = handle (GetFollow source) (\<lambda>fo. case fo of
      Inr (Some follow) \<Rightarrow>
        bindE (peer_FetchManifest (oe_net e) (oe_world e) f (act_endpoint follow) repo (man_digest m)) (\<lambda>(data, mediaType).
        if hash_of (oe_world e) data \<noteq> man_digest m then fail (Errorf ''manifest digest mismatch'')
        else let m' = m\<lparr>man_media_type := if mediaType \<noteq> '''' then mediaType else man_media_type m,
                        man_content := data, man_size := int (length data)\<rparr>
          in bindE (ignore (PutManifest m')) (\<lambda>_. ret (m', data)))
    | _ \<Rightarrow> fail (Errorf ''source actor not in follows''))"

definition serveManifest :: "oci_env \<Rightarrow> Registry \<Rightarrow> string \<Rightarrow> Manifest \<Rightarrow> ('z node_scheme, blob_reader) prog" where
  "serveManifest e r repo m =
     (if man_content m \<noteq> '''' then ret (manifest_reader m (man_size m) (man_content m))
      else (case (reg_fetcher r, man_source m) of
          (Some f, Some source) \<Rightarrow> handle (fetchManifestFromSource e f repo m source) (\<lambda>q. case q of
              Inr (m', result) \<Rightarrow> ret (manifest_reader m' (int (length result)) result)
            | Inl _ \<Rightarrow> fail ErrManifestUnknown)
        | _ \<Rightarrow> fail ErrManifestUnknown))"

text \<open>A manifest of a followed peer's repository that is not stored yet.\<close>

definition fetch_owner_manifest :: "oci_env \<Rightarrow> peer_fetcher \<Rightarrow> string \<Rightarrow> Repository \<Rightarrow> string \<Rightarrow> ('z node_scheme, blob_reader option) prog" where
  "fetch_owner_manifest e f repo repoObj digest = handle (GetFollow (repo_owner repoObj)) (\<lambda>fo. case fo of
      Inr (Some follow) \<Rightarrow>
        handle (peer_FetchManifest (oe_net e) (oe_world e) f (act_endpoint follow) repo digest) (\<lambda>q. case q of
            Inr (data, mediaType) \<Rightarrow>
              if hash_of (oe_world e) data = digest then
                let meta = parseManifestMeta e data in
                bindE (ignore (PutManifestWithLayers \<lparr>man_id = 0, man_repo = repo_id repoObj, man_digest = digest, man_media_type = mediaType,
                    man_size = int (length data), man_content = data, man_source = Some (repo_owner repoObj), man_subject = None,
                    man_artifact = None, man_created = 0\<rparr> (mm_layers meta @ mm_children meta))) (\<lambda>_.
                ret (Some (\<lparr>d_digest = digest, d_size = int (length data), d_media_type = mediaType\<rparr>, data)))
              else ret None
          | Inl _ \<Rightarrow> ret None)
    | _ \<Rightarrow> ret None)"

text \<open>\<open>getManifest\<close> after the local look-up: the owner's node, the upstream registry, the tombstone.\<close>

definition missing_manifest :: "oci_env \<Rightarrow> Registry \<Rightarrow> string \<Rightarrow> Repository option \<Rightarrow> string \<Rightarrow> ('z node_scheme, blob_reader) prog" where
  "missing_manifest e r originalRepo repoObj digest =
     bindE (case (reg_fetcher r, repoObj) of
         (Some f, Some ro) \<Rightarrow> if repo_owner ro \<noteq> reg_localID r
            then fetch_owner_manifest e f (normalizeRepo r originalRepo) ro digest else ret None
       | _ \<Rightarrow> ret None) (\<lambda>peer. case peer of
         Some b \<Rightarrow> ret b
       | None \<Rightarrow> try_upstream r (\<lambda>u. fetchManifestFromUpstream e r u originalRepo digest) ret
           (handle (IsManifestDeleted digest) (\<lambda>deleted. case deleted of
               Inr True \<Rightarrow> fail (HTTPError 410)
             | _ \<Rightarrow> fail ErrManifestUnknown)))"

definition getManifest :: "oci_env \<Rightarrow> Registry \<Rightarrow> string \<Rightarrow> string \<Rightarrow> ('z node_scheme, blob_reader) prog" where
  "getManifest e r originalRepo digest = (let repo = normalizeRepo r originalRepo in
     bindE (GetRepository repo) (\<lambda>repoObj. case repoObj of
         None \<Rightarrow> missing_manifest e r originalRepo None digest
       | Some ro \<Rightarrow> bindE (GetManifestByDigest (repo_id ro) digest) (\<lambda>m. case m of
             Some m \<Rightarrow> serveManifest e r repo m
           | None \<Rightarrow> missing_manifest e r originalRepo (Some ro) digest)))"

definition unknown_reference :: "Repository option \<Rightarrow> ('z node_scheme, 'a) prog" where
  "unknown_reference repoObj = fail (case repoObj of None \<Rightarrow> ErrNameUnknown | Some _ \<Rightarrow> ErrManifestUnknown)"

text \<open>The common shape of \<open>getTag\<close>, \<open>resolveTag\<close> and \<open>resolveManifest\<close>: local row, upstream, error.\<close>

definition local_or_upstream ::
  "oci_env \<Rightarrow> Registry \<Rightarrow> string \<Rightarrow> string \<Rightarrow> (int \<Rightarrow> ('z node_scheme, Manifest option) prog) \<Rightarrow>
   (Manifest \<Rightarrow> ('z node_scheme, 'a) prog) \<Rightarrow> (blob_reader \<Rightarrow> 'a) \<Rightarrow> ('z node_scheme, 'a) prog" where
  "local_or_upstream e r originalRepo reference find_local found convert =
     bindE (GetRepository (normalizeRepo r originalRepo)) (\<lambda>repoObj.
     let elsewhere = try_upstream r (\<lambda>u. fetchManifestFromUpstream e r u originalRepo reference) (\<lambda>b. ret (convert b))
           (unknown_reference repoObj)
     in case repoObj of
         None \<Rightarrow> elsewhere
       | Some ro \<Rightarrow> bindE (find_local (repo_id ro)) (\<lambda>m. case m of Some m \<Rightarrow> found m | None \<Rightarrow> elsewhere))"

definition getTag :: "oci_env \<Rightarrow> Registry \<Rightarrow> string \<Rightarrow> string \<Rightarrow> ('z node_scheme, blob_reader) prog" where
  "getTag e r originalRepo tagName = local_or_upstream e r originalRepo tagName
     (\<lambda>rid. GetManifestByTag rid tagName) (serveManifest e r (normalizeRepo r originalRepo)) (\<lambda>b. b)"

definition manifest_descriptor :: "Manifest \<Rightarrow> descriptor" where
  "manifest_descriptor m = \<lparr>d_digest = man_digest m, d_size = man_size m, d_media_type = man_media_type m\<rparr>"

definition resolveManifest :: "oci_env \<Rightarrow> Registry \<Rightarrow> string \<Rightarrow> string \<Rightarrow> ('z node_scheme, descriptor) prog" where
  "resolveManifest e r originalRepo digest = local_or_upstream e r originalRepo digest
     (\<lambda>rid. GetManifestByDigest rid digest) (\<lambda>m. ret (manifest_descriptor m)) fst"

definition resolveTag :: "oci_env \<Rightarrow> Registry \<Rightarrow> string \<Rightarrow> string \<Rightarrow> ('z node_scheme, descriptor) prog" where
  "resolveTag e r originalRepo tagName = local_or_upstream e r originalRepo tagName
     (\<lambda>rid. GetManifestByTag rid tagName) (\<lambda>m. ret (manifest_descriptor m)) fst"

definition blob_descriptor :: "string \<Rightarrow> Blob option \<Rightarrow> ('z node_scheme, descriptor) prog" where
  "blob_descriptor digest blob = (case blob of
      Some b \<Rightarrow> if blob_stored b then ret \<lparr>d_digest = digest, d_size = blob_size b,
          d_media_type = case blob_media_type b of Some mt \<Rightarrow> mt | None \<Rightarrow> defaultMediaType\<rparr>
        else fail ErrBlobUnknown
    | None \<Rightarrow> fail ErrBlobUnknown)"

definition resolveBlob :: "Registry \<Rightarrow> string \<Rightarrow> string \<Rightarrow> ('z node_scheme, descriptor) prog" where
  "resolveBlob r repo digest = bindE (BlobExistsInRepo (normalizeRepo r repo) digest) (\<lambda>ex.
     if \<not> ex then fail ErrBlobUnknown else bindE (GetBlob digest) (blob_descriptor digest))"

definition listPageSize :: int where "listPageSize = 1000"

definition repositories :: "string \<Rightarrow> ('z node_scheme, string list) prog" where
  "repositories startAfter = bindE (gets (\<lambda>s. length (packages (tbl s)))) (\<lambda>rows.
     keyset_loop (Suc rows) (\<lambda>cursor. ListRepositoriesAfter cursor listPageSize) repo_name (nat listPageSize)
       (\<lambda>names repos. ret (names @ map repo_name repos)) startAfter [])"

definition tags :: "Registry \<Rightarrow> string \<Rightarrow> string \<Rightarrow> ('z node_scheme, string list) prog" where
  "tags r repo startAfter = bindE (GetRepository (normalizeRepo r repo)) (\<lambda>repoObj. case repoObj of
      None \<Rightarrow> fail ErrNameUnknown
    | Some ro \<Rightarrow> bindE (gets (\<lambda>s. length (package_tags (tbl s)))) (\<lambda>rows.
        keyset_loop (Suc rows) (\<lambda>cursor. ListTagsAfter (repo_id ro) cursor listPageSize) (\<lambda>t. t) (nat listPageSize)
          (\<lambda>names ts. ret (names @ ts)) startAfter []))"

definition artifact_of :: "Manifest \<Rightarrow> string" where
  "artifact_of m = (case man_artifact m of Some a \<Rightarrow> a | None \<Rightarrow> '''')"

definition referrers :: "Registry \<Rightarrow> string \<Rightarrow> string \<Rightarrow> string \<Rightarrow> ('z node_scheme, (descriptor \<times> string) list) prog" where
  "referrers r repo digest artifactType = bindE (GetRepository (normalizeRepo r repo)) (\<lambda>repoObj. case repoObj of
      None \<Rightarrow> ret []
    | Some ro \<Rightarrow> bindE (ListManifestsBySubject (repo_id ro) digest) (\<lambda>ms.
        ret (map (\<lambda>m. (manifest_descriptor m, artifact_of m))
          (filter (\<lambda>m. artifactType = '''' \<or> artifact_of m = artifactType) ms))))"

definition HasReferrer :: "Registry \<Rightarrow> string \<Rightarrow> string \<Rightarrow> string \<Rightarrow> ('z node_scheme, bool) prog" where
  "HasReferrer r repo subjectDigest artifactType = bindE (GetRepository (normalizeRepo r repo)) (\<lambda>repoObj. case repoObj of
      None \<Rightarrow> ret False
    | Some ro \<Rightarrow> bindE (ListManifestsBySubject (repo_id ro) subjectDigest) (\<lambda>ms.
        ret (list_ex (\<lambda>m. man_artifact m = Some artifactType) ms)))"

section \<open>Writes\<close>

definition pushBlob :: "oci_env \<Rightarrow> Registry \<Rightarrow> string \<Rightarrow> descriptor \<Rightarrow> reader \<Rightarrow> ('z node_scheme, descriptor) prog" where
  "pushBlob e r repo0 desc rd = for_write r repo0 (\<lambda>repo.
     if reg_maxBlobSize r < d_size desc then fail ErrBlobUploadInvalid
     else bindE (GetOrCreateRepository repo (reg_localID r)) (\<lambda>_.
       bindE (store_Put (oe_world e) (LimitReader rd (reg_maxBlobSize r + 1)) (d_digest desc)) (\<lambda>(digest, sz).
       if reg_maxBlobSize r < sz then bindE (ignore (store_Delete digest)) (\<lambda>_. fail ErrBlobUploadInvalid)
       else bindE (PutBlob digest sz (Some (d_media_type desc)) True) (\<lambda>_.
         bindE (publish r (\<lambda>p. PublishBlobRef (oe_world e) p digest sz)) (\<lambda>_.
         ret \<lparr>d_digest = digest, d_size = sz, d_media_type = d_media_type desc\<rparr>)))))"

definition mountBlob :: "Registry \<Rightarrow> string \<Rightarrow> string \<Rightarrow> string \<Rightarrow> ('z node_scheme, descriptor) prog" where
  "mountBlob r fromRepo toRepo0 digest = for_write r toRepo0 (\<lambda>toRepo.
     bindE (GetOrCreateRepository toRepo (reg_localID r)) (\<lambda>_. bindE (GetBlob digest) (blob_descriptor digest)))"

text \<open>When the session row cannot be written the writer is discarded again.\<close>

definition pushBlobChunked :: "oci_env \<Rightarrow> Registry \<Rightarrow> string \<Rightarrow> ('z node_scheme, nat) prog" where
  "pushBlobChunked e r repo0 = for_write r repo0 (\<lambda>repo.
     bindE (GetOrCreateRepository repo (reg_localID r)) (\<lambda>repoObj.
     bindE (newUploadWriter e r '''') (\<lambda>i. with_writer i (\<lambda>d.
     handle (CreateUploadSession (dw_uuid d) (repo_id repoObj) uploadSessionTTL) (\<lambda>q. case q of
         Inr _ \<Rightarrow> ret i
       | Inl x \<Rightarrow> bindE (modify (\<lambda>s. s\<lparr>uploads := AList.delete (dw_uuid d) (uploads s)\<rparr>)) (\<lambda>_.
           bindE (dw_Cancel i) (\<lambda>_. fail x)))))))"

definition pushBlobChunkedResume :: "Registry \<Rightarrow> string \<Rightarrow> string \<Rightarrow> int \<Rightarrow> ('z node_scheme, nat) prog" where
  "pushBlobChunkedResume r repo0 uuid offset = for_write r repo0 (\<lambda>_.
     bindE (GetUploadSession uuid) (\<lambda>session. case session of
         None \<Rightarrow> fail ErrBlobUploadUnknown
       | Some _ \<Rightarrow> bindE (gets (\<lambda>s. map_of (uploads s) uuid)) (\<lambda>w. case w of
             Some i \<Rightarrow> ret i
           | None \<Rightarrow> bindE (ignore (DeleteUploadSession uuid)) (\<lambda>_. fail ErrBlobUploadUnknown))))"

text \<open>What a manifest refers to has to be there, unless the reference is not a digest at all.\<close>

definition check_blob_ref :: "BlobRef \<Rightarrow> ('z node_scheme, unit) prog" where
  "check_blob_ref ref =
     (if \<not> Digest (ref_digest ref) then ret ()
      else bindE (GetBlob (ref_digest ref)) (\<lambda>blob. case blob of
          Some b \<Rightarrow> if blob_stored b then ret () else fail ErrBlobUnknown
        | None \<Rightarrow> fail ErrBlobUnknown))"

definition check_child_ref :: "int \<Rightarrow> BlobRef \<Rightarrow> ('z node_scheme, unit) prog" where
  "check_child_ref repoID ref =
     (if \<not> Digest (ref_digest ref) then ret ()
      else bindE (GetManifestByDigest repoID (ref_digest ref)) (\<lambda>child. case child of
          Some _ \<Rightarrow> ret ()
        | None \<Rightarrow> fail ErrManifestUnknown))"

definition pushed_manifest :: "oci_env \<Rightarrow> int \<Rightarrow> string \<Rightarrow> string \<Rightarrow> Manifest" where
  "pushed_manifest e repoID contents mediaType =
     \<lparr>man_id = 0, man_repo = repoID, man_digest = hash_of (oe_world e) contents, man_media_type = mediaType,
      man_size = int (length contents), man_content = contents, man_source = None,
      man_subject = mm_subject (parseManifestMeta e contents), man_artifact = mm_artifactType (parseManifestMeta e contents),
      man_created = 0\<rparr>"

definition pushManifest :: "oci_env \<Rightarrow> Registry \<Rightarrow> string \<Rightarrow> string \<Rightarrow> string \<Rightarrow> string \<Rightarrow> ('z node_scheme, descriptor) prog" where
  "pushManifest e r repo0 tag contents mediaType = for_write r repo0 (\<lambda>repo.
     if \<not> ManifestContent contents (reg_maxManifestSize r) then fail ErrManifestInvalid
     else if \<not> Tag_ok tag then fail ErrManifestInvalid
     else bindE (GetOrCreateRepository repo (reg_localID r)) (\<lambda>repoObj.
       let digest = hash_of (oe_world e) contents; meta = parseManifestMeta e contents; w = oe_world e in
       bindE (foreach (mm_layers meta) check_blob_ref) (\<lambda>_.
       bindE (foreach (mm_children meta) (check_child_ref (repo_id repoObj))) (\<lambda>_.
       bindE (PutManifestWithLayers (pushed_manifest e (repo_id repoObj) contents mediaType) (mm_layers meta @ mm_children meta)) (\<lambda>_.
       bindE (if tag \<noteq> '''' then PutTag (repo_id repoObj) tag digest else ret ()) (\<lambda>_.
       bindE (publish r (\<lambda>p. bindE (ignore (PublishManifest w p repo tag digest mediaType (int (length contents)) contents (mm_subject meta))) (\<lambda>_.
          if tag \<noteq> '''' then ignore (PublishTag w p repo tag digest) else ret ()))) (\<lambda>_.
       bindE (modify (\<lambda>s. s\<lparr>observed := observed s @ map (\<lambda>ob. (ob, repo, tag, digest, mediaType, mm_subject meta)) (reg_observers r)\<rparr>)) (\<lambda>_.
       ret \<lparr>d_digest = digest, d_size = int (length contents), d_media_type = mediaType\<rparr>))))))))"

definition emptyConfig :: string where "emptyConfig = ''{}''"

definition emptyConfigMediaType :: string where "emptyConfigMediaType = ''application/vnd.oci.empty.v1+json''"

definition AttachReferrer ::
  "oci_env \<Rightarrow> Registry \<Rightarrow> string \<Rightarrow> string \<Rightarrow> string \<Rightarrow> (string \<times> string) list \<Rightarrow> string \<Rightarrow> string \<Rightarrow> ('z node_scheme, string) prog" where
  "AttachReferrer e r repo subjectDigest artifactType annotations payload payloadMediaType = for_write r repo (\<lambda>repoW.
     bindE (GetRepository repoW) (\<lambda>repoObj. case repoObj of
         None \<Rightarrow> fail ErrNameUnknown
       | Some ro \<Rightarrow> bindE (GetManifestByDigest (repo_id ro) subjectDigest) (\<lambda>subject. case subject of
           None \<Rightarrow> fail ErrManifestUnknown
         | Some sub \<Rightarrow>
             let w = oe_world e;
                 cfg = \<lparr>d_digest = hash_of w emptyConfig, d_size = int (length emptyConfig), d_media_type = emptyConfigMediaType\<rparr>;
                 layer = \<lparr>d_digest = hash_of w payload, d_size = int (length payload), d_media_type = payloadMediaType\<rparr>;
                 manifest = \<lparr>pm_config = cfg, pm_layers = [layer], pm_manifests = [],
                   pm_subject = Some \<lparr>d_digest = subjectDigest, d_size = man_size sub, d_media_type = man_media_type sub\<rparr>,
                   pm_artifactType = artifactType\<rparr>
             in bindE (pushBlob e r repoW cfg (bytes_reader emptyConfig)) (\<lambda>_.
                bindE (pushBlob e r repoW layer (bytes_reader payload)) (\<lambda>_.
                bindE (pushManifest e r repoW '''' (MarshalReferrer e manifest annotations) default_manifest_type) (\<lambda>desc.
                ret (d_digest desc)))))))"

text \<open>Deletions: only in a repository of this node.\<close>

definition getOwnedRepo :: "Registry \<Rightarrow> string \<Rightarrow> ('z node_scheme, Repository) prog" where
  "getOwnedRepo r repo = bindE (GetRepository repo) (\<lambda>repoObj. case repoObj of
      None \<Rightarrow> fail ErrNameUnknown
    | Some ro \<Rightarrow> if repo_owner ro \<noteq> reg_localID r then fail ErrDenied else ret ro)"

definition oci_deleteBlob :: "Registry \<Rightarrow> string \<Rightarrow> string \<Rightarrow> ('z node_scheme, unit) prog" where
  "oci_deleteBlob r repo0 digest = for_write r repo0 (\<lambda>repo.
     bindE (getOwnedRepo r repo) (\<lambda>_. bindE (DeleteBlob digest) (\<lambda>_. store_Delete digest)))"

definition oci_deleteManifest :: "oci_env \<Rightarrow> Registry \<Rightarrow> string \<Rightarrow> string \<Rightarrow> ('z node_scheme, unit) prog" where
  "oci_deleteManifest e r repo0 digest = for_write r repo0 (\<lambda>repo.
     bindE (getOwnedRepo r repo) (\<lambda>repoObj.
     bindE (RecordDeletedManifest digest repo (reg_localID r)) (\<lambda>_.
     bindE (DeleteManifest (repo_id repoObj) digest) (\<lambda>_.
     publish r (\<lambda>p. PublishManifestDelete (oe_world e) p repo digest)))))"

definition oci_deleteTag :: "oci_env \<Rightarrow> Registry \<Rightarrow> string \<Rightarrow> string \<Rightarrow> ('z node_scheme, unit) prog" where
  "oci_deleteTag e r repo0 name = for_write r repo0 (\<lambda>repo.
     bindE (getOwnedRepo r repo) (\<lambda>repoObj.
     bindE (DeleteTag (repo_id repoObj) name) (\<lambda>_.
     publish r (\<lambda>p. PublishTagDelete (oe_world e) p repo name))))"

end
