(* ===== verification/Frames.thy ===== *)
theory Frames
  imports Blobstore
begin

text \<open>
  Frame lemmas for the layers above the publisher: database calls and publications leave alone
  everything that the richer states (blob files, HTTP log, uploads) add to the record \<open>pub\<close>, and the
  clock. \<open>above\<close> is that part of a state; the fields of a richer state are determined by it.
\<close>

definition above :: "'z pub_scheme \<Rightarrow> int \<times> 'z" where
  "above s = (clock s, pub.more s)"

lemma above_simps [simp]:
  "above (s\<lparr>faults := a\<rparr>) = above s" "above (s\<lparr>tbl := t\<rparr>) = above s" "above (s\<lparr>fetches := n\<rparr>) = above s"
  "above (s\<lparr>uuids := n\<rparr>) = above s" "above (s\<lparr>woken := n\<rparr>) = above s" "above (s\<lparr>actorCache := x\<rparr>) = above s"
  "above (s\<lparr>notified := y\<rparr>) = above s"
  by (simp_all add: above_def)

named_theorems above_intros \<open>programs that change nothing above the publisher\<close>

lemma above_frame: "db_frame s s' \<Longrightarrow> above s' = above s"
  by (auto elim!: db_frameE)

lemma above_db:
  assumes "\<And>s. keeps (db_frame s) m"
  shows "keeps (\<lambda>s. P (above s)) m"
proof (rule keepsI)
  fix s assume "P (above s)"
  moreover have "db_frame s (snd (m s))" using assms [of s] by (simp add: keeps_def)
  ultimately show "P (above (snd (m s)))" using above_frame by metis
qed

lemma above_tick [above_intros]: "keeps (\<lambda>s. P (above s)) tick" by (rule above_db) (rule keeps_intros)
lemma above_query [above_intros]: "keeps (\<lambda>s. P (above s)) (query f)" by (rule above_db) (rule keeps_intros)
lemma above_exec [above_intros]: "keeps (\<lambda>s. P (above s)) (exec f)" by (rule above_db) (rule keeps_intros)
lemma above_exec_rows [above_intros]: "keeps (\<lambda>s. P (above s)) (exec_rows f)" by (rule above_db) (rule keeps_intros)

lemma above_in_tx [above_intros]: "(\<And>s. keeps (db_frame s) m) \<Longrightarrow> keeps (\<lambda>s. P (above s)) (in_tx m)"
  by (rule above_db) (rule keeps_intros)

lemma above_run_tx [above_intros]: "(\<And>s. keeps (db_frame s) m) \<Longrightarrow> keeps (\<lambda>s. P (above s)) (run_tx m)"
  by (rule above_db) (rule keeps_intros)

lemma above_keyset [above_intros]:
  assumes "\<And>a. keeps P (fetch a)" and "\<And>x b. keeps P (body x b)"
  shows "keeps P (keyset_loop fuel fetch key n body a x)"
  by (induction fuel arbitrary: a x) (auto intro!: keeps_intros assms)

text \<open>The tables that publications do not write.\<close>

definition content :: "tables \<Rightarrow> (Package list \<times> PackageVersion list \<times> PackageTag list \<times> PackageFile list \<times> DeletedVersion list) \<times>
    Blob list \<times> UploadSession list \<times> Actor list" where
  "content t = ((packages t, package_versions t, package_tags t, package_files t, deleted_versions t), blobs t, upload_sessions t, actors t)"

lemma keeps_quiet_exec_rows:
  assumes "\<And>c t. content (snd (f c t)) = content t"
  shows "keeps (\<lambda>s. P (content (tbl s)) (above s)) (exec_rows f)"
proof -
  have "keeps (\<lambda>s. P (content (tbl s)) (above s)) (\<lambda>s. case f (clock s) (tbl s) of (n, t) \<Rightarrow> (Inr n, s\<lparr>tbl := t\<rparr>))"
  proof (rule keepsI)
    fix s :: "'b pub_scheme" assume "P (content (tbl s)) (above s)"
    then show "P (content (tbl (snd (case f (clock s) (tbl s) of (n, t) \<Rightarrow> (Inr n, s\<lparr>tbl := t\<rparr>)))))
        (above (snd (case f (clock s) (tbl s) of (n, t) \<Rightarrow> (Inr n, s\<lparr>tbl := t\<rparr>))))"
      using assms [of "clock s" "tbl s"] by (cases "f (clock s) (tbl s)") simp
  qed
  moreover have "keeps (\<lambda>s. P (content (tbl s)) (above s)) tick" by (rule keeps_tick) simp
  ultimately show ?thesis unfolding exec_rows_def by (intro keeps_intros)
qed

lemma quiet_publish: "keeps (\<lambda>s. P (content (tbl s)) (above s)) (createAndDeliver w p ty obj px)"
proof -
  have f: "keeps (\<lambda>s. P (content (tbl s)) (above s)) (FetchActor w u)" for u
    by (rule keepsI) (auto simp: FetchActor_def fail_def split: option.splits)
  have u: "keeps (\<lambda>s. P (content (tbl s)) (above s)) (new_uuid w)" by (rule keepsI) (simp add: new_uuid_def)
  have t: "keeps (\<lambda>s. P (content (tbl s)) (above s)) tick" by (rule keeps_tick) simp
  have g: "keeps (\<lambda>s. P (content (tbl s)) (above s)) (query h)" for h :: "tables \<Rightarrow> 'q"
    unfolding query_def by (intro keeps_intros t)
  show ?thesis
    unfolding createAndDeliver_def activityURL_def enqueueToFollowers_def resolve_followers_def collect_inbox_def
      resolveInbox_def ActorCache_Get_def enqueue_inbox_def ListFollowsBatch_def EnqueueDeliveryInserted_def PutActivity_def InsertActivityIfNew_def
    by (intro keeps_intros above_keyset keeps_quiet_exec_rows f u t g keeps_modify) (simp_all add: content_def)
qed

lemma quiet_publications:
  "keeps (\<lambda>s. P (content (tbl s)) (above s)) (PublishManifest w p repo tag d mt n c sub)"
  "keeps (\<lambda>s. P (content (tbl s)) (above s)) (PublishTag w p repo tag d)"
  "keeps (\<lambda>s. P (content (tbl s)) (above s)) (PublishBlobRef w p d n)"
  "keeps (\<lambda>s. P (content (tbl s)) (above s)) (PublishManifestDelete w p repo d)"
  "keeps (\<lambda>s. P (content (tbl s)) (above s)) (PublishTagDelete w p repo tag)"
  unfolding PublishManifest_def PublishTag_def PublishBlobRef_def PublishManifestDelete_def PublishTagDelete_def
  by (intro keeps_intros quiet_publish)+

lemma above_publications [above_intros]:
  "keeps (\<lambda>s. P (above s)) (PublishManifest w p repo tag d mt n c sub)"
  "keeps (\<lambda>s. P (above s)) (PublishTag w p repo tag d)"
  "keeps (\<lambda>s. P (above s)) (PublishBlobRef w p d n)"
  "keeps (\<lambda>s. P (above s)) (PublishManifestDelete w p repo d)"
  "keeps (\<lambda>s. P (above s)) (PublishTagDelete w p repo tag)"
  by (rule quiet_publications [where P = "\<lambda>_. P"])+

lemma above_calls [above_intros]:
  "keeps (\<lambda>s. P (above s)) (GetBlob d)"
  "keeps (\<lambda>s. P (above s)) (PutBlob d n mt st)"
  "keeps (\<lambda>s. P (above s)) (DeleteBlob d)"
  "keeps (\<lambda>s. P (above s)) (BlobExistsInRepo repo d)"
  "keeps (\<lambda>s. P (above s)) (GetRepository repo)"
  "keeps (\<lambda>s. P (above s)) (GetOrCreateRepository repo ow)"
  "keeps (\<lambda>s. P (above s)) (SetRepositoryPrivate rid b)"
  "keeps (\<lambda>s. P (above s)) (GetManifestByDigest rid d)"
  "keeps (\<lambda>s. P (above s)) (GetManifestByTag rid tg)"
  "keeps (\<lambda>s. P (above s)) (PutManifest m)"
  "keeps (\<lambda>s. P (above s)) (PutManifestWithLayers m refs)"
  "keeps (\<lambda>s. P (above s)) (DeleteManifest rid d)"
  "keeps (\<lambda>s. P (above s)) (IsManifestDeleted d)"
  "keeps (\<lambda>s. P (above s)) (RecordDeletedManifest d repo ow)"
  "keeps (\<lambda>s. P (above s)) (PutTag rid tg d)"
  "keeps (\<lambda>s. P (above s)) (DeleteTag rid tg)"
  "keeps (\<lambda>s. P (above s)) (GetFollow ow)"
  "keeps (\<lambda>s. P (above s)) (FindBlobPeers d)"
  "keeps (\<lambda>s. P (above s)) (CreateUploadSession uu rid ttl)"
  "keeps (\<lambda>s. P (above s)) (GetUploadSession uu)"
  "keeps (\<lambda>s. P (above s)) (DeleteUploadSession uu)"
  "keeps (\<lambda>s. P (above s)) (ListExpiredUploadSessions n)"
  "keeps (\<lambda>s. P (above s)) (UploadSessionUUIDsByRepo rid)"
  "keeps (\<lambda>s. P (above s)) AllUploadSessionUUIDs"
  unfolding GetBlob_def PutBlob_def DeleteBlob_def BlobExistsInRepo_def GetRepository_def GetPackage_def GetOrCreateRepository_def
    GetOrCreatePackage_def SetRepositoryPrivate_def SetPackagePrivate_def GetManifestByDigest_def GetPackageVersion_def getPackageVersion_def
    GetManifestByTag_def GetPackageVersionByTag_def PutManifest_def PutPackageVersion_def putPackageVersion_def PutManifestWithLayers_def
    putBlobReferences_def DeleteManifest_def DeletePackageVersion_def IsManifestDeleted_def IsVersionDeleted_def RecordDeletedManifest_def
    RecordDeletedVersion_def PutTag_def PutPackageTag_def DeleteTag_def DeletePackageTag_def GetFollow_def FindBlobPeers_def
    FindPeersWithBlob_def CreateUploadSession_def GetUploadSession_def DeleteUploadSession_def ListExpiredUploadSessions_def
    UploadSessionUUIDsByRepo_def AllUploadSessionUUIDs_def
  by (intro keeps_intros above_intros)+

end
