(* ===== verification/Upload_Spec.thy ===== *)
theory Upload_Spec
  imports Oci Frames
begin

text \<open>
  Chunked uploads against their specification: every interleaving of client calls and of the reaper
  refines an abstract machine on staged bytes, and a commit stores exactly the bytes staged or
  nothing.
\<close>

section \<open>Specification\<close>

text \<open>
  What an upload is to its client: bytes staged so far, a file released by the reaper, or finished
  (committed or cancelled). Bytes are only ever appended, within the limit, and nothing leaves the
  finished state.
\<close>

datatype upload = Staged string | Released | Finished

inductive upload_step :: "int \<Rightarrow> upload list \<Rightarrow> upload list \<Rightarrow> bool" for M where
  begin_upload: "upload_step M us (us @ [Staged []])"
| extend_upload: "i < length us \<Longrightarrow> us ! i = Staged c \<Longrightarrow> int (length (c @ p)) \<le> M \<Longrightarrow> upload_step M us (us[i := Staged (c @ p)])"
| release_upload: "i < length us \<Longrightarrow> us ! i = Staged c \<Longrightarrow> upload_step M us (us[i := Released])"
| finish_upload: "i < length us \<Longrightarrow> upload_step M us (us[i := Finished])"

definition upload_of :: "diskBlobWriter \<Rightarrow> upload" where
  "upload_of d = (if dw_done d then Finished else if dw_open d then Staged (dw_content d) else Released)"

text \<open>What was hashed and counted is what is in the file.\<close>

definition writer_ok :: "int \<Rightarrow> diskBlobWriter \<Rightarrow> bool" where
  "writer_ok M d \<longleftrightarrow> dw_maxSize d = M \<and> dw_hashed d = dw_content d \<and> dw_size d = int (length (dw_content d))"

text \<open>The simulation: the writers are sound and have come from \<open>us\<close> by steps of the specification.\<close>

definition follows :: "int \<Rightarrow> upload list \<Rightarrow> diskBlobWriter list \<Rightarrow> bool" where
  "follows M us ds \<longleftrightarrow> list_all (writer_ok M) ds \<and> (upload_step M)\<^sup>*\<^sup>* us (map upload_of ds)"

lemma follows_step:
  assumes "follows M us ds" and "list_all (writer_ok M) ds'" and "upload_step M (map upload_of ds) (map upload_of ds')"
  shows "follows M us ds'"
  using assms unfolding follows_def by (auto intro: rtranclp.rtrancl_into_rtrancl)

lemma follows_same:
  assumes "follows M us ds" and "i < length ds" and "upload_of d = upload_of (ds ! i)" and "writer_ok M d"
  shows "follows M us (ds[i := d])"
proof -
  have "map upload_of (ds[i := d]) = map upload_of ds"
    by (metis assms(2,3) list_update_id map_update nth_map)
  then show ?thesis using assms(1,4) by (auto simp: follows_def list_all_iff dest!: set_update_subset_insert [THEN subsetD])
qed

lemma follows_update:
  assumes "follows M us ds" and "i < length ds" and "writer_ok M d" and "upload_step M (map upload_of ds) ((map upload_of ds)[i := upload_of d])"
  shows "follows M us (ds[i := d])"
proof (rule follows_step [OF assms(1)])
  show "list_all (writer_ok M) (ds[i := d])"
    using assms(1,3) by (auto simp: follows_def list_all_iff dest!: set_update_subset_insert [THEN subsetD])
  show "upload_step M (map upload_of ds) (map upload_of (ds[i := d]))" using assms(4) by (simp add: map_update)
qed

text \<open>Calls that do not reach the uploads.\<close>

lemma writers_above: "above s' = above s \<Longrightarrow> writers s' = writers s \<and> uploads s' = uploads s \<and> staging s' = staging s"
  by (cases s, cases s') (simp add: above_def)

lemma above_keep:
  fixes m :: "('z node_scheme, 'a) prog"
  assumes "\<And>P. keeps (\<lambda>s. P (above s)) m"
  shows "keeps (\<lambda>s. J (writers s) (uploads s) (staging s)) m"
proof (rule keepsI)
  fix s :: "'z node_scheme" assume J: "J (writers s) (uploads s) (staging s)"
  have "above (snd (m s)) = above s" using assms [of "\<lambda>v. v = above s"] by (simp add: keeps_def)
  with J writers_above show "J (writers (snd (m s))) (uploads (snd (m s))) (staging (snd (m s)))" by metis
qed

lemmas writers_keep = above_keep [where J = "\<lambda>ds _ _. J ds" for J]

lemma store_Put_writers [keeps_intros]: "keeps (\<lambda>s. J (writers s)) (store_Put w rd d)"
  unfolding store_Put_def Let_def
  by (intro keeps_intros keeps_modify keeps_tick) simp_all

lemma with_writer_keeps:
  assumes "\<And>s. I s \<Longrightarrow> i < length (writers s) \<Longrightarrow> I (snd (f (writers s ! i) s))"
  shows "keeps I (with_writer i f)"
  using assms by (auto simp: keeps_def with_writer_def)

lemma append_chunk_writers:
  "writers (snd (append_chunk i p s)) = (writers s)[i := (writers s ! i)\<lparr>dw_content := dw_content (writers s ! i) @ p,
     dw_hashed := dw_hashed (writers s ! i) @ p, dw_size := dw_size (writers s ! i) + int (length p)\<rparr>]"
  by (simp add: append_chunk_def set_writer_def bindE_def now_def gets_def modify_def)

lemma tick_writers: "tick s = (r, s') \<Longrightarrow> writers s' = writers s"
  by (auto simp: tick_def split: list.splits)

lemma follows_extend:
  assumes "follows M us (writers s)" and "i < length (writers s)" and "\<not> dw_done (writers s ! i)" and "dw_open (writers s ! i)"
    and "int (length (dw_content (writers s ! i) @ p)) \<le> M"
  shows "follows M us (writers (snd (append_chunk i p s)))"
proof -
  let ?d = "writers s ! i"
  have ok: "writer_ok M ?d" using assms(1,2) by (simp add: follows_def list_all_length)
  show ?thesis unfolding append_chunk_writers
  proof (rule follows_update [OF assms(1,2)])
    show "upload_step M (map upload_of (writers s)) ((map upload_of (writers s))[i := upload_of
        (?d\<lparr>dw_content := dw_content ?d @ p, dw_hashed := dw_hashed ?d @ p, dw_size := dw_size ?d + int (length p)\<rparr>)])"
      using assms(2-5) extend_upload [of i "map upload_of (writers s)" "dw_content ?d" p M] by (simp add: upload_of_def)
  qed (use ok in \<open>simp add: writer_ok_def\<close>)
qed

lemma write_follows: "keeps (\<lambda>s. follows M us (writers s)) (dw_Write e i p)"
proof (rule keepsI)
  fix s :: "'a node_scheme"
  let ?d = "writers s ! i"
  assume f: "follows M us (writers s)"
  show "follows M us (writers (snd (dw_Write e i p s)))"
  proof (cases "i < length (writers s) \<and> \<not> dw_done ?d \<and> dw_size ?d + int (length p) \<le> dw_maxSize ?d \<and> dw_open ?d")
    case False
    with f show ?thesis by (auto simp: dw_Write_def with_writer_def fail_def not_le)
  next
    case True
    with f have "writer_ok M ?d" by (simp add: follows_def list_all_length)
    with True have len: "int (length (dw_content ?d @ p)) \<le> M" by (simp add: writer_ok_def)
    obtain q' t where t: "tick s = (q', t)" by (cases "tick s")
    note wt = tick_writers [OF t]
    have "int (length (dw_content ?d @ take n p)) \<le> M" for n using len by simp
    with len True f have "follows M us (writers (snd (append_chunk i p t)))" "follows M us (writers (snd (append_chunk i (take n p) t)))" for n
      by (auto intro!: follows_extend simp: wt)
    with True t show ?thesis
      by (auto simp: dw_Write_def with_writer_def handle_def bindE_def fail_def ret_def not_less split: sum.splits prod.splits)
        (metis snd_conv)+
  qed
qed

lemma writers_calls:
  fixes J :: "diskBlobWriter list \<Rightarrow> bool"
  shows "keeps (\<lambda>s. J (writers s)) tick" "keeps (\<lambda>s. J (writers s)) (DeleteUploadSession uu)"
    "keeps (\<lambda>s. J (writers s)) (PutBlob d n mt st)" "keeps (\<lambda>s. J (writers s)) (PublishBlobRef w p d n)"
    "keeps (\<lambda>s. J (writers s)) (ListExpiredUploadSessions m)" "keeps (\<lambda>s. J (writers s)) AllUploadSessionUUIDs"
    "keeps (\<lambda>s. J (writers s)) (UploadSessionUUIDsByRepo rid)" "keeps (\<lambda>s. J (writers s)) (GetRepository repo)"
    "keeps (\<lambda>s. J (writers s)) (GetOrCreateRepository repo ow)" "keeps (\<lambda>s. J (writers s)) (CreateUploadSession uu rid m)"
    "keeps (\<lambda>s. J (writers s)) (GetUploadSession uu)"
  by (rule writers_keep, rule above_intros)+

lemma set_done_follows: "keeps (\<lambda>s. follows M us (writers s)) (set_writer i (\<lambda>d. d\<lparr>dw_done := True\<rparr>))"
  unfolding set_writer_def
proof (rule keeps_modify)
  fix s :: "'a node_scheme"
  let ?d = "writers s ! i"
  assume f: "follows M us (writers s)"
  show "follows M us (writers (s\<lparr>writers := (writers s)[i := ?d\<lparr>dw_done := True\<rparr>]\<rparr>))"
  proof (cases "i < length (writers s)")
    case True
    with f have "writer_ok M ?d" by (simp add: follows_def list_all_length)
    with f True finish_upload [of i "map upload_of (writers s)" M] show ?thesis
      by (auto intro!: follows_update simp: writer_ok_def upload_of_def)
  qed (use f in \<open>simp add: list_update_beyond\<close>)
qed

lemma set_closed_follows: "keeps (\<lambda>s. follows M us (writers s)) (set_writer i (\<lambda>d. d\<lparr>dw_open := False\<rparr>))"
  unfolding set_writer_def
proof (rule keeps_modify)
  fix s :: "'a node_scheme"
  let ?d = "writers s ! i" and ?us = "map upload_of (writers s)"
  assume f: "follows M us (writers s)"
  show "follows M us (writers (s\<lparr>writers := (writers s)[i := ?d\<lparr>dw_open := False\<rparr>]\<rparr>))"
  proof (cases "i < length (writers s)")
    case True
    with f have ok: "writer_ok M (?d\<lparr>dw_open := False\<rparr>)" by (auto simp: follows_def list_all_length writer_ok_def)
    show ?thesis
    proof (cases "dw_done ?d \<or> \<not> dw_open ?d")
      case True
      then have "upload_of (?d\<lparr>dw_open := False\<rparr>) = upload_of ?d" by (auto simp: upload_of_def)
      with f ok \<open>i < length (writers s)\<close> show ?thesis by (simp add: follows_same)
    next
      case False
      with f ok \<open>i < length (writers s)\<close> release_upload [of i ?us "dw_content ?d" M] show ?thesis
        by (auto intro!: follows_update simp: upload_of_def)
    qed
  qed (use f in \<open>simp add: list_update_beyond\<close>)
qed

lemma keeps_with_writer: "(\<And>d. keeps I (f d)) \<Longrightarrow> keeps I (with_writer i f)"
  by (auto simp: keeps_def with_writer_def)

lemma keeps_deferred: "keeps I f \<Longrightarrow> keeps I m \<Longrightarrow> keeps I (deferred f m)"
  unfolding deferred_def by (intro keeps_handle keepsI) (simp_all add: keeps_def)

lemma cleanup_follows: "keeps (\<lambda>s. follows M us (writers s)) (dw_cleanup i)"
  unfolding dw_cleanup_def remove_staging_def onDone_def
  by (intro keeps_intros keeps_with_writer writers_calls set_closed_follows keeps_modify) simp_all

lemma commit_upload_follows: "keeps (\<lambda>s. follows M us (writers s)) (commit_upload e r uu dig c)"
  unfolding commit_upload_def publish_def
  by (intro keeps_intros writers_calls keeps_modify) simp_all

lemma start_follows:
  "reg_maxBlobSize r = M \<Longrightarrow> keeps (\<lambda>s. follows M us (writers s)) (newUploadWriter e r uu)"
  unfolding newUploadWriter_def newDiskBlobWriter_def
proof (intro keeps_intros writers_calls keeps_modify)
  fix c n and s :: "'a node_scheme"
  let ?d = "\<lparr>dw_uuid = if uu = '''' then upload_id e n else uu, dw_maxSize = reg_maxBlobSize r, dw_open = True,
          dw_path = temp_name e n, dw_content = '''', dw_hashed = '''', dw_size = 0, dw_done = False\<rparr>"
  assume M: "reg_maxBlobSize r = M" and f: "follows M us (writers s)"
  have "follows M us (writers s @ [?d])"
    by (rule follows_step [OF f])
      (use M f begin_upload [of M "map upload_of (writers s)"] in \<open>auto simp: follows_def writer_ok_def upload_of_def\<close>)
  then show "follows M us (writers (s\<lparr>writers := writers s @ [?d], staging := AList.update (temp_name e n) c (staging s)\<rparr>))" by simp
qed simp

lemma commit_follows: "keeps (\<lambda>s. follows M us (writers s)) (dw_Commit e r i dig)"
  unfolding dw_Commit_def
  by (intro keeps_intros keeps_with_writer keeps_deferred set_done_follows cleanup_follows commit_upload_follows writers_calls)

lemma cancel_follows: "keeps (\<lambda>s. follows M us (writers s)) (dw_Cancel i)"
  unfolding dw_Cancel_def by (intro keeps_intros set_done_follows cleanup_follows)

lemma drop_follows: "keeps (\<lambda>s. follows M us (writers s)) (drop_session uu)"
  unfolding drop_session_def by (intro keeps_intros cleanup_follows writers_calls keeps_modify) simp_all

lemma sweep_follows: "keeps (\<lambda>s. follows M us (writers s)) (sweepStaleStagingFiles r age)"
  unfolding sweepStaleStagingFiles_def sweep_file_def remove_staging_def
  by (intro keeps_intros writers_calls keeps_modify) simp_all

lemma reap_follows:
  "keeps (\<lambda>s. follows M us (writers s)) (CleanExpiredUploads r)"
  "keeps (\<lambda>s. follows M us (writers s)) (PurgeUploadSessions r repo)"
  unfolding CleanExpiredUploads_def PurgeUploadSessions_def purge_list_def
  by (intro keeps_intros drop_follows sweep_follows writers_calls)+

lemma chunked_follows:
  "reg_maxBlobSize r = M \<Longrightarrow> keeps (\<lambda>s. follows M us (writers s)) (pushBlobChunked e r repo)"
  "keeps (\<lambda>s. follows M us (writers s)) (pushBlobChunkedResume r repo uu off)"
  unfolding pushBlobChunked_def pushBlobChunkedResume_def for_write_def
  by (intro keeps_intros keeps_with_writer start_follows cancel_follows writers_calls keeps_modify; simp)+

text \<open>A client's and the reaper's calls, interleaved in any order.\<close>

datatype upload_op =
    StartUpload string
  | ResumeUpload string string int
  | WriteChunk nat string
  | CommitUpload nat string
  | CancelUpload nat
  | CleanExpired
  | PurgeUploads string

primrec upload_run :: "oci_env \<Rightarrow> Registry \<Rightarrow> upload_op \<Rightarrow> 'z node_scheme \<Rightarrow> 'z node_scheme" where
  "upload_run e r (StartUpload repo) s = snd (pushBlobChunked e r repo s)"
| "upload_run e r (ResumeUpload repo uuid offset) s = snd (pushBlobChunkedResume r repo uuid offset s)"
| "upload_run e r (WriteChunk i p) s = snd (dw_Write e i p s)"
| "upload_run e r (CommitUpload i dig) s = snd (dw_Commit e r i dig s)"
| "upload_run e r (CancelUpload i) s = snd (dw_Cancel i s)"
| "upload_run e r CleanExpired s = snd (CleanExpiredUploads r s)"
| "upload_run e r (PurgeUploads repo) s = snd (PurgeUploadSessions r repo s)"

lemma run_follows:
  assumes "follows (reg_maxBlobSize r) us (writers s)"
  shows "follows (reg_maxBlobSize r) us (writers (fold (upload_run e r) ops s))"
proof -
  have step: "follows (reg_maxBlobSize r) us (writers (upload_run e r x s))" if "follows (reg_maxBlobSize r) us (writers s)"
    for x and s :: "'a node_scheme"
    using that by (cases x) (simp_all add: keepsD [OF _ _ surjective_pairing, where P = "\<lambda>s. follows (reg_maxBlobSize r) us (writers s)"]
        write_follows commit_follows cancel_follows reap_follows chunked_follows)
  from assms show ?thesis by (induction ops arbitrary: s) (simp_all add: step)
qed

text \<open>C36. Chunked uploads refine their specification: from any sound state, whatever calls of clients and of the
  reaper interleave and whichever fail, every upload goes through steps of the specification only, so
  that bytes are appended and never reordered, changed or dropped, the size stays within the limit
  and a finished upload stays finished; and what was hashed and counted is always exactly what is in
  the staging file.\<close>

lemma upload_refinement:
  assumes "list_all (writer_ok (reg_maxBlobSize r)) (writers s)"
  shows "(upload_step (reg_maxBlobSize r))\<^sup>*\<^sup>* (map upload_of (writers s)) (map upload_of (writers (fold (upload_run e r) ops s))) \<and>
    list_all (writer_ok (reg_maxBlobSize r)) (writers (fold (upload_run e r) ops s))"
  using run_follows [of r "map upload_of (writers s)" s e ops] assms by (simp add: follows_def)

section \<open>Committing\<close>

definition stored_blob :: "string \<Rightarrow> int \<Rightarrow> tables \<Rightarrow> bool" where
  "stored_blob d n t \<longleftrightarrow> (\<exists>b \<in> set (blobs t). blob_digest b = d \<and> blob_size b = n \<and> blob_stored b)"

lemma PutBlob_stored:
  assumes "PutBlob d n mt True s = (Inr u, s')"
  shows "stored_blob d n (tbl s')"
proof -
  obtain t where "tbl s' = t" and "blobs t = upsert_where (\<lambda>r. blob_digest r = d) (overwrite_blob n mt True)
      \<lparr>blob_id = seq_blobs (tbl s), blob_digest = d, blob_size = n, blob_media_type = mt, blob_stored = True, blob_created = clock s\<rparr> (blobs (tbl s))"
    using assms unfolding PutBlob_def by (auto dest!: exec_ok)
  note row = this
  show ?thesis
  proof (cases "\<exists>b \<in> set (blobs (tbl s)). blob_digest b = d")
    case True
    then obtain b where "b \<in> set (blobs (tbl s))" "blob_digest b = d" by blast
    then have "overwrite_blob n mt True b \<in> set (blobs (tbl s'))" using row True by (auto simp: upsert_where_def list_ex_iff)
    then show ?thesis using \<open>blob_digest b = d\<close> unfolding stored_blob_def
      by (intro bexI [of _ "overwrite_blob n mt True b"]) (simp_all add: overwrite_blob_def)
  next
    case False
    with row show ?thesis by (auto simp: stored_blob_def upsert_where_def list_ex_iff)
  qed
qed

lemma held_above: "above s' = above s \<Longrightarrow> held s' = held s"
  by (cases s, cases s') (simp add: above_def held_def fun_eq_iff)

text \<open>What a finished commit must have left: the content under its digest, with its row.\<close>

definition committed :: "string \<Rightarrow> string \<Rightarrow> 'z disk_scheme \<Rightarrow> bool" where
  "committed d c s \<longleftrightarrow> held s d = Some c \<and> stored_blob d (int (length c)) (tbl s)"

lemma committed_quiet:
  "content (tbl s') = content (tbl s) \<Longrightarrow> above s' = above s \<Longrightarrow> committed d c s' = committed d c s"
  using held_above [of s' s] by (simp add: committed_def content_def stored_blob_def)

lemma committed_publish: "keeps (committed d c) (PublishBlobRef w p d' n)"
proof (rule keepsI)
  fix s :: "'a disk_scheme"
  assume c: "committed d c s"
  let ?s = "snd (PublishBlobRef w p d' n s)"
  have "content (tbl ?s) = content (tbl s) \<and> above ?s = above s"
    using quiet_publications(3) [of "\<lambda>x y. x = content (tbl s) \<and> y = above s"] by (simp add: keeps_def)
  with c committed_quiet show "committed d c ?s" by metis
qed

lemma committed_session: "keeps (committed d c) (DeleteUploadSession uu)"
  unfolding DeleteUploadSession_def exec_def
  by (intro keeps_intros keeps_tick keeps_modify) (simp_all add: committed_def held_def fun_eq_iff stored_blob_def)

lemma committed_cleanup: "keeps (committed d c) (dw_cleanup i)"
  unfolding dw_cleanup_def remove_staging_def onDone_def set_writer_def
  by (intro keeps_intros keeps_with_writer committed_session keeps_tick keeps_modify)
    (simp_all add: committed_def held_def fun_eq_iff)

lemma commit_upload_ok:
  assumes "commit_upload e r uu dig c s = (Inr desc, s')" and "hash_of (oe_world e) c = dig"
  shows "committed dig c s' \<and> desc = \<lparr>d_digest = dig, d_size = int (length c), d_media_type = defaultMediaType\<rparr>"
proof -
  let ?s = "s\<lparr>uploads := AList.delete uu (uploads s)\<rparr>"
  from assms(1) obtain dg n t u v where
    put: "store_Put (oe_world e) (bytes_reader c) dig ?s = (Inr (dg, n), t)"
    and row: "PutBlob dg n (Some defaultMediaType) True t = (Inr (), u)"
    and del: "ignore (DeleteUploadSession uu) u = (Inr (), v)"
    and pub: "publish r (\<lambda>p. PublishBlobRef (oe_world e) p dg n) v = (Inr (), s')"
    and desc: "desc = \<lparr>d_digest = dg, d_size = n, d_media_type = defaultMediaType\<rparr>"
    by (auto simp: commit_upload_def elim!: bindE_okE)
  from files.put_ok [OF put] assms(2) have p: "dg = dig" "n = int (length c)" "held t dig = Some c"
    by (auto simp: bytes_reader_def)
  have "above u = above t" using keepsD [OF above_calls(2) [of "\<lambda>v. v = above t"] refl row] .
  from held_above [OF this] p PutBlob_stored [OF row] have "committed dig c u" by (simp add: committed_def)
  then have "committed dig c v" by (rule keepsD [OF keeps_ignore [OF committed_session] _ del])
  moreover have "keeps (committed dig c) (publish r (\<lambda>p. PublishBlobRef (oe_world e) p dg n))"
    unfolding publish_def by (intro keeps_intros committed_publish)
  ultimately have "committed dig c s'" using pub by (auto dest: keepsD)
  with p desc show ?thesis by simp
qed

text \<open>Every commit ends the upload, whatever its outcome.\<close>

lemma done_update: "dw_done (ds ! i) \<Longrightarrow> dw_done (ds[j := (ds ! j)\<lparr>dw_open := False\<rparr>] ! i)"
  by (cases "j = i"; cases "j < length ds") (auto simp: list_update_beyond)

lemma done_cleanup: "keeps (\<lambda>s. i < length (writers s) \<and> dw_done (writers s ! i)) (dw_cleanup j)"
  unfolding dw_cleanup_def remove_staging_def onDone_def set_writer_def
  by (intro keeps_intros keeps_with_writer keeps_modify writers_calls [where J = "\<lambda>ds. i < length ds \<and> dw_done (ds ! i)"])
    (simp_all add: done_update)

lemma done_commit_upload: "keeps (\<lambda>s. i < length (writers s) \<and> dw_done (writers s ! i)) (commit_upload e r uu dig c)"
  unfolding commit_upload_def publish_def
  by (intro keeps_intros keeps_modify writers_calls [where J = "\<lambda>ds. i < length ds \<and> dw_done (ds ! i)"]
      store_Put_writers [where J = "\<lambda>ds. i < length ds \<and> dw_done (ds ! i)"]) simp_all

lemma commit_finishes:
  assumes "dw_Commit e r i dig s = (q', s')" and "i < length (writers s)"
  shows "dw_done (writers s' ! i)"
proof (cases "dw_done (writers s ! i)")
  case True
  with assms show ?thesis by (auto simp: dw_Commit_def with_writer_def)
next
  case False
  let ?t = "s\<lparr>writers := (writers s)[i := (writers s ! i)\<lparr>dw_done := True\<rparr>]\<rparr>"
  let ?I = "\<lambda>s. i < length (writers s) \<and> dw_done (writers s ! i)"
  have "keeps ?I (deferred (dw_cleanup i) (if hash_of (oe_world e) (dw_hashed d) \<noteq> dig then fail ErrDigestInvalid
          else if \<not> dw_open d then fail ErrBlobUploadInvalid
          else bindE tick (\<lambda>_. bindE tick (\<lambda>_. commit_upload e r (dw_uuid d) dig (dw_content d)))))" for d
    by (intro keeps_intros keeps_deferred done_cleanup done_commit_upload writers_calls(1) [where J = "\<lambda>ds. i < length ds \<and> dw_done (ds ! i)"])
  moreover have "?I ?t" using assms(2) by simp
  ultimately show ?thesis using assms False
    by (fastforce simp: dw_Commit_def with_writer_def bindE_def set_writer_def modify_def dest: keepsD)
qed

lemma commit_length: "dw_Commit e r i dig s = (q', s') \<Longrightarrow> length (writers s') = length (writers s)"
proof -
  note calls = writers_calls [where J = "\<lambda>ds. length ds = length (writers s)"] store_Put_writers [where J = "\<lambda>ds. length ds = length (writers s)"]
  have set: "keeps (\<lambda>u. length (writers u) = length (writers s)) (set_writer i f)" for f
    unfolding set_writer_def by (rule keeps_modify) simp
  have "keeps (\<lambda>u. length (writers u) = length (writers s)) (dw_Commit e r i dig)"
    unfolding dw_Commit_def dw_cleanup_def remove_staging_def onDone_def commit_upload_def publish_def
    by (intro keeps_intros keeps_with_writer keeps_deferred set calls keeps_modify) simp_all
  then show "dw_Commit e r i dig s = (q', s') \<Longrightarrow> length (writers s') = length (writers s)" by (auto dest: keepsD)
qed

text \<open>C37. Committing a chunked upload is sound: it succeeds only for an upload that is not finished and
  still has its staging file, when the digest given by the client is the hash of exactly the bytes
  staged; then the blob store holds these bytes under that digest and the row says so. Whatever the
  outcome, the upload is finished afterwards, and every later write or commit of it is refused.\<close>

lemma upload_commit:
  assumes "list_all (writer_ok M) (writers s)" and "i < length (writers s)" and "dw_Commit e r i dig s = (q', s')"
  shows "(case q' of Inl _ \<Rightarrow> True | Inr desc \<Rightarrow> \<exists>c. upload_of (writers s ! i) = Staged c \<and> hash_of (oe_world e) c = dig \<and>
      held s' dig = Some c \<and> stored_blob dig (int (length c)) (tbl s') \<and>
      desc = \<lparr>d_digest = dig, d_size = int (length c), d_media_type = defaultMediaType\<rparr>) \<and>
    upload_of (writers s' ! i) = Finished \<and>
    fst (dw_Write e i p s') = Inl ErrBlobUploadInvalid \<and> fst (dw_Commit e r i dig2 s') = Inl ErrBlobUploadInvalid"
proof -
  let ?d = "writers s ! i"
  note fin = commit_finishes [OF assms(3,2)]
  have len: "i < length (writers s')" using commit_length [OF assms(3)] assms(2) by simp
  have later: "upload_of (writers s' ! i) = Finished \<and>
    fst (dw_Write e i p s') = Inl ErrBlobUploadInvalid \<and> fst (dw_Commit e r i dig2 s') = Inl ErrBlobUploadInvalid"
    using fin len by (simp add: upload_of_def dw_Write_def dw_Commit_def with_writer_def fail_def)
  have "\<exists>c. upload_of ?d = Staged c \<and> hash_of (oe_world e) c = dig \<and> held s' dig = Some c \<and> stored_blob dig (int (length c)) (tbl s') \<and>
      desc = \<lparr>d_digest = dig, d_size = int (length c), d_media_type = defaultMediaType\<rparr>" if q': "q' = Inr desc" for desc
  proof -
    from assms(1,2) have h: "dw_hashed ?d = dw_content ?d" by (auto simp: list_all_length writer_ok_def)
    from assms q' obtain t u v where d: "\<not> dw_done ?d" "dw_open ?d" "hash_of (oe_world e) (dw_content ?d) = dig"
      and u: "commit_upload e r (dw_uuid ?d) dig (dw_content ?d) u = (Inr desc, v)" and s': "s' = snd (dw_cleanup i v)"
      by (auto simp: dw_Commit_def with_writer_def deferred_def handle_run h elim!: bindE_okE split: if_split_asm)
    from commit_upload_ok [OF u d(3)] have "committed dig (dw_content ?d) v"
      and desc: "desc = \<lparr>d_digest = dig, d_size = int (length (dw_content ?d)), d_media_type = defaultMediaType\<rparr>" by auto
    then have "committed dig (dw_content ?d) s'" using s' committed_cleanup by (auto simp: keeps_def)
    with d desc show ?thesis by (auto simp: upload_of_def committed_def)
  qed
  with later show ?thesis by (cases q') auto
qed

section \<open>Witnesses\<close>

definition oci_world :: world where
  "oci_world = pub_world\<lparr>Sum256 := (\<lambda>c. replicate 64 (if c = ''abcde'' then CHR ''a'' else CHR ''b''))\<rparr>"

text \<open>Every manifest has the content \<open>abcde\<close> as its configuration.\<close>

definition demo_env :: oci_env where
  "demo_env = \<lparr>oe_net = demo_net, oe_world = oci_world, upload_id = (\<lambda>_. ''u1''), temp_name = (\<lambda>_. ''upload-1''), short_write = (\<lambda>_. 1),
     
     UnmarshalMeta = (\<lambda>_. Some \<lparr>pm_config = \<lparr>d_digest = hash_of oci_world ''abcde'', d_size = 5, d_media_type = ''''\<rparr>, pm_layers = [],
       pm_manifests = [], pm_subject = None, pm_artifactType = ''''\<rparr>), MarshalReferrer = (\<lambda>_ _. ''{}''), digest_Parse = (\<lambda>_. True)\<rparr>"

definition demo_registry :: Registry where
  "demo_registry = \<lparr>reg_localID = ''https://a.example/ap'', reg_namespace = ''a.example'', reg_publisher = None,
     reg_observers = [''scanner''], reg_resolver = False, reg_fetcher = None, reg_upstream = None,
     reg_maxManifestSize = 100, reg_maxBlobSize = 5, reg_uploadDir = ''/tmp''\<rparr>"

definition demo_node :: node where
  "demo_node = net.extend (demo_net_state\<lparr>faults := []\<rparr>) (node.fields [] [] [] [])"

text \<open>An upload of five bytes in two chunks, with one that does not fit between them.\<close>

definition demo_upload :: "upload_op list" where
  "demo_upload = [StartUpload ''app'', WriteChunk 0 ''abc'', WriteChunk 0 ''defg'', WriteChunk 0 ''de'']"

lemma upload_refinement_witness:
  "map upload_of (writers demo_node) = [] \<and>
   map upload_of (writers (fold (upload_run demo_env demo_registry) demo_upload demo_node)) = [Staged ''abcde''] \<and>
   (upload_step 5)\<^sup>*\<^sup>* [] [Staged ''abcde'']"
proof -
  have "writers demo_node = []" by code_simp
  moreover have "map upload_of (writers (fold (upload_run demo_env demo_registry) demo_upload demo_node)) = [Staged ''abcde'']" by code_simp
  moreover have "reg_maxBlobSize demo_registry = 5" by (simp add: demo_registry_def)
  ultimately show ?thesis using upload_refinement [of demo_registry demo_node demo_env demo_upload] by simp
qed

lemma upload_commit_witness:
  "let s = fold (upload_run demo_env demo_registry) demo_upload demo_node; s' = snd (dw_Commit demo_env demo_registry 0 (hash_of oci_world ''abcde'') s)
   in held s' (hash_of oci_world ''abcde'') = Some ''abcde'' \<and> fst (dw_Commit demo_env demo_registry 0 ''x'' s') = Inl ErrBlobUploadInvalid"
proof -
  let ?s = "fold (upload_run demo_env demo_registry) demo_upload demo_node" and ?d = "hash_of oci_world ''abcde''"
  let ?r = "dw_Commit demo_env demo_registry 0 ?d ?s"
  have "list_all (writer_ok 5) (writers ?s)" by code_simp
  moreover have "0 < length (writers ?s)" by code_simp
  moreover have "(case fst ?r of Inl _ \<Rightarrow> False | Inr _ \<Rightarrow> True)" by code_simp
  moreover have "map upload_of (writers ?s) = [Staged ''abcde'']" by code_simp
  moreover note upload_commit [of 5 ?s 0 demo_env demo_registry ?d "fst ?r" "snd ?r" "''''" "''x''"]
  ultimately show ?thesis by (auto simp: Let_def split: sum.split_asm)
qed

end
