(* ===== verification/Oci_Safety.thy ===== *)
theory Oci_Safety
  imports Upload_Spec Inbox_Safety
begin

text \<open>
  Writes of the OCI registry (\<open>internal/oci/handler.go\<close>): they stay in the local namespace and leave
  other owners alone, a manifest is accepted only with everything it refers to, and what was pushed
  is what is read back.
\<close>

section \<open>Writes stay in the local namespace\<close>

text \<open>
  \<open>confined r t0 t\<close>: coming from \<open>t0\<close>, nothing of another owner has changed, and every repository that
  is new belongs to this node and lies in its namespace.
\<close>

definition confined :: "Registry \<Rightarrow> tables \<Rightarrow> tables \<Rightarrow> bool" where
  "confined r t0 t \<longleftrightarrow> isolated (reg_localID r) t0 t \<and>
     (\<forall>p \<in> set (packages t). p \<in> set (packages t0) \<or>
        pkg_type p = ociPackageType \<and> pkg_owner p = reg_localID r \<and> checkNamespace r (pkg_name p))"

lemma confined_refl: "wf_tables t \<Longrightarrow> confined r t t"
  by (simp add: confined_def isolated_refl)

lemma for_write_ok: "normalizeRepoForWrite r repo = Inr repo' \<Longrightarrow> checkNamespace r repo'"
  by (auto simp: normalizeRepoForWrite_def Let_def split: if_split_asm)

lemma confined_content:
  assumes "confined r t0 t" and "content t' = content t" and "wf_tables t'"
  shows "confined r t0 t'"
proof -
  have "foreign_view F t' = foreign_view F t" for F using assms(2) by (simp add: foreign_view_def content_def)
  moreover have "packages t' = packages t" using assms(2) by (simp add: content_def)
  ultimately show ?thesis using assms(1,3) by (simp add: confined_def isolated_def)
qed

lemma wf_publish: "keeps (\<lambda>s. wf_tables (tbl s)) (createAndDeliver w p ty obj px)"
proof -
  have fetch: "keeps (\<lambda>s. wf_tables (tbl s)) (FetchActor w u)" for u by (rule keeps_fetch_tbl)
  have uid: "keeps (\<lambda>s. wf_tables (tbl s)) (new_uuid w)" by (rule keepsI) (simp add: new_uuid_def)
  show ?thesis
    unfolding createAndDeliver_def activityURL_def enqueueToFollowers_def resolve_followers_def collect_inbox_def
      resolveInbox_def ActorCache_Get_def enqueue_inbox_def ListFollowsBatch_def PutActivity_def
    by (intro keeps_intros above_keyset fetch uid keeps_query wf.keeps_EnqueueDeliveryInserted wf.keeps_InsertActivityIfNew keeps_modify) simp_all
qed

lemma confined_publish: "keeps (\<lambda>s. confined r t0 (tbl s)) (createAndDeliver w p ty obj px)"
proof (rule keepsI)
  fix s :: "'a pub_scheme"
  assume c: "confined r t0 (tbl s)"
  let ?s = "snd (createAndDeliver w p ty obj px s)"
  have "content (tbl ?s) = content (tbl s)"
    using quiet_publish [of "\<lambda>x (_ :: int \<times> 'a). x = content (tbl s)" w p ty obj px] by (simp add: keeps_def)
  moreover have "wf_tables (tbl ?s)"
    by (rule keepsD [OF wf_publish _ surjective_pairing]) (use c in \<open>simp add: confined_def isolated_def\<close>)
  ultimately show "confined r t0 (tbl ?s)" using c by (rule confined_content [rotated])
qed

lemma confined_publications:
  "keeps (\<lambda>s. confined r t0 (tbl s)) (PublishManifest w p repo tag d mt n c sub)"
  "keeps (\<lambda>s. confined r t0 (tbl s)) (PublishTag w p repo tag d)"
  "keeps (\<lambda>s. confined r t0 (tbl s)) (PublishBlobRef w p d n)"
  "keeps (\<lambda>s. confined r t0 (tbl s)) (PublishManifestDelete w p repo d)"
  "keeps (\<lambda>s. confined r t0 (tbl s)) (PublishTagDelete w p repo tag)"
  unfolding PublishManifest_def PublishTag_def PublishBlobRef_def PublishManifestDelete_def PublishTagDelete_def
  by (intro keeps_intros confined_publish)+

text \<open>Calls that keep the packages: it is enough that they are isolated.\<close>

lemma confined_iso:
  fixes m :: "('z store_scheme, 'a) prog"
  assumes "keeps (\<lambda>s. isolated (reg_localID r) t0 (tbl s)) m" and "\<And>P. keeps (\<lambda>s. packages (tbl s) = P) m"
  shows "keeps (\<lambda>s. confined r t0 (tbl s)) m"
proof (rule keepsI)
  fix s :: "'z store_scheme" assume c: "confined r t0 (tbl s)"
  have "packages (tbl (snd (m s))) = packages (tbl s)" using assms(2) by (simp add: keeps_def)
  with c assms(1) show "confined r t0 (tbl (snd (m s)))" by (auto simp: keeps_def confined_def)
qed

lemma confined_own:
  assumes "rid \<notin> foreign_ids (reg_localID r) t0"
  shows "keeps (\<lambda>s. confined r t0 (tbl s)) (PutTag rid tag d)" "keeps (\<lambda>s. confined r t0 (tbl s)) (DeleteTag rid tag)"
    "keeps (\<lambda>s. confined r t0 (tbl s)) (DeleteManifest rid d)"
    "man_repo m = rid \<Longrightarrow> keeps (\<lambda>s. confined r t0 (tbl s)) (PutManifestWithLayers m refs)"
proof -
  have p: "keeps (\<lambda>s. packages (tbl s) = P) (PutTag rid tag d)" "keeps (\<lambda>s. packages (tbl s) = P) (DeleteTag rid tag)"
    "keeps (\<lambda>s. packages (tbl s) = P) (DeleteManifest rid d)" "keeps (\<lambda>s. packages (tbl s) = P) (PutManifestWithLayers m refs)" for P
    unfolding PutTag_def PutPackageTag_def upsert_tag_def DeleteTag_def DeletePackageTag_def DeleteManifest_def DeletePackageVersion_def
      del_tags_of_version_def del_files_of_version_def del_version_row_def PutManifestWithLayers_def putPackageVersion_def
      putBlobReferences_def upsert_version_def upsert_blob_reference_def getPackageVersion_def Let_def
    by (intro keeps_intros; simp)+
  show "keeps (\<lambda>s. confined r t0 (tbl s)) (PutTag rid tag d)" by (rule confined_iso [OF iso_put_tag [OF assms] p(1)])
  show "keeps (\<lambda>s. confined r t0 (tbl s)) (DeleteTag rid tag)" by (rule confined_iso [OF iso_delete_tag [OF assms] p(2)])
  show "keeps (\<lambda>s. confined r t0 (tbl s)) (DeleteManifest rid d)" by (rule confined_iso [OF iso_delete [OF assms] p(3)])
  show "keeps (\<lambda>s. confined r t0 (tbl s)) (PutManifestWithLayers m refs)" if "man_repo m = rid"
    by (rule confined_iso [OF iso_with_layers p(4)]) (use assms that in simp)
qed

lemma confined_create:
  assumes "checkNamespace r repo"
  shows "yields (\<lambda>s. confined r t0 (tbl s)) (GetOrCreateRepository repo (reg_localID r) :: ('z store_scheme, Repository) prog)
     (\<lambda>ro. repo_id ro \<notin> foreign_ids (reg_localID r) t0)"
proof (rule yieldsI)
  let ?names = "\<lambda>t. \<forall>p \<in> set (packages t). p \<in> set (packages t0) \<or>
        pkg_type p = ociPackageType \<and> pkg_owner p = reg_localID r \<and> checkNamespace r (pkg_name p)"
  fix s s' :: "'z store_scheme" and q'
  assume c: "confined r t0 (tbl s)" and run: "GetOrCreateRepository repo (reg_localID r) s = (q', s')"
  have "keeps (\<lambda>s. ?names (tbl s)) (GetOrCreateRepository repo (reg_localID r) :: ('z store_scheme, Repository) prog)"
    unfolding GetOrCreateRepository_def GetOrCreatePackage_def
    by (intro keeps_intros) (use assms in \<open>auto simp: set_insert_ignore new_package_def\<close>)
  from keepsD [OF this _ run] c have "?names (tbl s')" by (simp add: confined_def)
  with iso_create [of "reg_localID r" t0 repo] c run
  show "confined r t0 (tbl s') \<and> (\<forall>x. q' = Inr x \<longrightarrow> repo_id x \<notin> foreign_ids (reg_localID r) t0)"
    unfolding yields_def confined_def by blast
qed

lemma confined_owned:
  "yields (\<lambda>s. confined r t0 (tbl s)) (getOwnedRepo r repo) (\<lambda>ro. repo_id ro \<notin> foreign_ids (reg_localID r) t0)"
proof (rule yieldsI)
  fix s s' :: "'a node_scheme" and q'
  assume c: "confined r t0 (tbl s)" and run: "getOwnedRepo r repo s = (q', s')"
  have t: "tbl s' = tbl s"
    using run unfolding getOwnedRepo_def GetRepository_def GetPackage_def
    by (cases q') (auto elim!: bindE_okE bindE_errE dest!: query_ok query_err split: option.split_asm if_split_asm)
  have "repo_id ro \<notin> foreign_ids (reg_localID r) t0" if "q' = Inr ro" for ro
  proof
    assume f: "repo_id ro \<in> foreign_ids (reg_localID r) t0"
    from run that obtain p where "find_where (\<lambda>p. (pkg_type p, pkg_name p) = (ociPackageType, repo)) (packages (tbl s)) = Some p"
      "ro = packageAsRepository p" "repo_owner ro = reg_localID r"
      unfolding getOwnedRepo_def GetRepository_def GetPackage_def
      by (auto elim!: bindE_okE dest!: query_ok split: option.split_asm if_split_asm)
    with find_where_Some [OF this(1)] foreign_package [of "reg_localID r" t0 "tbl s" p] f c show False
      by (simp add: confined_def packageAsRepository_def)
  qed
  with c t show "confined r t0 (tbl s') \<and> (\<forall>x. q' = Inr x \<longrightarrow> repo_id x \<notin> foreign_ids (reg_localID r) t0)" by simp
qed

text \<open>Calls on other tables and on the disk.\<close>

lemma confined_store:
  "keeps (\<lambda>s. P (tbl s)) (store_Put w rd d)" "keeps (\<lambda>s. P (tbl s)) (store_Delete d)" "keeps (\<lambda>s. P (tbl s)) (store_Open d)"
  unfolding store_Put_def store_Delete_def store_Open_def Let_def by (intro keeps_intros keeps_tick keeps_modify; simp)+

lemma confined_others:
  "keeps (\<lambda>s. confined r t0 (tbl s)) (PutBlob d n mt st)"
  "keeps (\<lambda>s. confined r t0 (tbl s)) (DeleteBlob d)"
  "keeps (\<lambda>s. confined r t0 (tbl s)) (RecordDeletedManifest d repo ow)"
  "keeps (\<lambda>s. confined r t0 (tbl s)) (CreateUploadSession uu rid ttl)"
  "keeps (\<lambda>s. confined r t0 (tbl s)) (DeleteUploadSession uu)"
proof -
  have *: "keeps (\<lambda>s. confined r t0 (tbl s)) m" if "keeps (\<lambda>s. wf_tables (tbl s)) m"
    and "\<And>V. keeps (\<lambda>s. (packages (tbl s), package_versions (tbl s), package_tags (tbl s), package_files (tbl s)) = V) m"
    for m :: "('z store_scheme, 'x) prog"
  proof (rule keepsI)
    fix s :: "'z store_scheme" assume c: "confined r t0 (tbl s)"
    have v: "(packages (tbl (snd (m s))), package_versions (tbl (snd (m s))), package_tags (tbl (snd (m s))), package_files (tbl (snd (m s)))) =
        (packages (tbl s), package_versions (tbl s), package_tags (tbl s), package_files (tbl s))" using that(2) by (simp add: keeps_def)
    then have "foreign_view F (tbl (snd (m s))) = foreign_view F (tbl s)" for F by (simp add: foreign_view_def)
    with c that(1) v show "confined r t0 (tbl (snd (m s)))" by (auto simp: keeps_def confined_def isolated_def)
  qed
  show "keeps (\<lambda>s. confined r t0 (tbl s)) (PutBlob d n mt st)"
    by (rule * [OF wf.keeps_PutBlob]) (unfold PutBlob_def, intro keeps_intros, simp)
  show "keeps (\<lambda>s. confined r t0 (tbl s)) (DeleteBlob d)"
    by (rule * [OF wf.keeps_DeleteBlob]) (unfold DeleteBlob_def, intro keeps_intros, simp)
  show "keeps (\<lambda>s. confined r t0 (tbl s)) (RecordDeletedManifest d repo ow)"
    unfolding RecordDeletedManifest_def
    by (rule * [OF wf.keeps_RecordDeletedVersion]) (unfold RecordDeletedVersion_def insert_tombstone_def, intro keeps_intros, simp)
  show "keeps (\<lambda>s. confined r t0 (tbl s)) (CreateUploadSession uu rid ttl)"
    by (rule * [OF wf.keeps_CreateUploadSession]) (unfold CreateUploadSession_def Let_def, intro keeps_intros, simp_all)
  show "keeps (\<lambda>s. confined r t0 (tbl s)) (DeleteUploadSession uu)"
    by (rule * [OF wf.keeps_DeleteUploadSession]) (unfold DeleteUploadSession_def, intro keeps_intros, simp)
qed

lemma keeps_for_write:
  "(\<And>repo'. checkNamespace r repo' \<Longrightarrow> keeps I (f repo')) \<Longrightarrow> keeps I (for_write r repo f)"
  unfolding for_write_def by (cases "normalizeRepoForWrite r repo") (auto intro: keeps_intros dest: for_write_ok)

lemma confined_reads:
  "keeps (\<lambda>s. P (tbl s)) (GetBlob d)" "keeps (\<lambda>s. P (tbl s)) (GetRepository repo)" "keeps (\<lambda>s. P (tbl s)) (GetManifestByDigest rid d)"
  "keeps (\<lambda>s. P (tbl s)) (blob_descriptor d b)" "keeps (\<lambda>s. P (tbl s)) (check_blob_ref ref)" "keeps (\<lambda>s. P (tbl s)) (check_child_ref rid ref)"
  unfolding GetBlob_def GetRepository_def GetPackage_def GetManifestByDigest_def GetPackageVersion_def getPackageVersion_def blob_descriptor_def
    check_blob_ref_def check_child_ref_def
  by (intro keeps_intros keeps_query)+

lemma confined_uploads:
  "keeps (\<lambda>s. P (tbl s)) (newUploadWriter e r uu)"
  unfolding newUploadWriter_def newDiskBlobWriter_def by (intro keeps_intros keeps_tick keeps_modify; simp)

lemma confined_cancel: "keeps (\<lambda>s. confined r t0 (tbl s)) (dw_Cancel i)"
  unfolding dw_Cancel_def dw_cleanup_def remove_staging_def onDone_def set_writer_def
  by (intro keeps_intros keeps_with_writer confined_others keeps_tick keeps_modify) simp_all

lemma pushBlob_confined: "keeps (\<lambda>s. confined r t0 (tbl s)) (pushBlob e r repo desc rd)"
  unfolding pushBlob_def publish_def
  by (intro keeps_intros keeps_for_write keeps_bind_yields [OF confined_create] confined_store confined_others confined_publications)

lemma pushManifest_confined: "keeps (\<lambda>s. confined r t0 (tbl s)) (pushManifest e r repo tag c mt)"
  unfolding pushManifest_def publish_def
  by (intro keeps_intros keeps_for_write keeps_bind_yields [OF confined_create] confined_own confined_others confined_publications
      confined_reads keeps_modify) (simp_all add: pushed_manifest_def)

lemma writes_confined:
  "keeps (\<lambda>s. confined r t0 (tbl s)) (mountBlob r from_repo repo d)"
  "keeps (\<lambda>s. confined r t0 (tbl s)) (pushBlobChunked e r repo)"
  "keeps (\<lambda>s. confined r t0 (tbl s)) (AttachReferrer e r repo d artifact an pl mt)"
  "keeps (\<lambda>s. confined r t0 (tbl s)) (oci_deleteBlob r repo d)"
  "keeps (\<lambda>s. confined r t0 (tbl s)) (oci_deleteManifest e r repo d)"
  "keeps (\<lambda>s. confined r t0 (tbl s)) (oci_deleteTag e r repo tag)"
  unfolding mountBlob_def pushBlobChunked_def AttachReferrer_def oci_deleteBlob_def oci_deleteManifest_def oci_deleteTag_def publish_def Let_def
  by (intro keeps_intros keeps_for_write keeps_with_writer keeps_bind_yields [OF confined_create] keeps_bind_yields [OF confined_owned]
      pushBlob_confined pushManifest_confined confined_own confined_others confined_publications confined_reads confined_store
      confined_uploads confined_cancel keeps_modify; simp)+

lemma commit_confined: "keeps (\<lambda>s. confined r t0 (tbl s)) (dw_Commit e r' i dig)"
  unfolding dw_Commit_def dw_cleanup_def remove_staging_def onDone_def set_writer_def commit_upload_def publish_def
  by (intro keeps_intros keeps_with_writer keeps_deferred confined_others confined_publications confined_store keeps_tick keeps_modify) simp_all

text \<open>The requests that write, in any order.\<close>

datatype oci_write =
    PushBlob string descriptor reader
  | MountBlob string string string
  | StartChunked string
  | CommitChunked nat string
  | PushManifest string string string string
  | Attach string string string "(string \<times> string) list" string string
  | DelBlob string string
  | DelManifest string string
  | DelTag string string

primrec oci_run :: "oci_env \<Rightarrow> Registry \<Rightarrow> oci_write \<Rightarrow> 'z node_scheme \<Rightarrow> 'z node_scheme" where
  "oci_run e r (PushBlob repo desc rd) s = snd (pushBlob e r repo desc rd s)"
| "oci_run e r (MountBlob from_repo repo d) s = snd (mountBlob r from_repo repo d s)"
| "oci_run e r (StartChunked repo) s = snd (pushBlobChunked e r repo s)"
| "oci_run e r (CommitChunked i dig) s = snd (dw_Commit e r i dig s)"
| "oci_run e r (PushManifest repo tag c mt) s = snd (pushManifest e r repo tag c mt s)"
| "oci_run e r (Attach repo d artifact an payload mt) s = snd (AttachReferrer e r repo d artifact an payload mt s)"
| "oci_run e r (DelBlob repo d) s = snd (oci_deleteBlob r repo d s)"
| "oci_run e r (DelManifest repo d) s = snd (oci_deleteManifest e r repo d s)"
| "oci_run e r (DelTag repo tag) s = snd (oci_deleteTag e r repo tag s)"

lemma run_confined: "confined r t0 (tbl s) \<Longrightarrow> confined r t0 (tbl (fold (oci_run e r) ops s))"
proof (induction ops arbitrary: s)
  case (Cons x ops)
  have "confined r t0 (tbl (oci_run e r x s))"
    using Cons.prems by (cases x) (simp_all add: keepsD [OF _ _ surjective_pairing, where P = "\<lambda>s. confined r t0 (tbl s)"]
        pushBlob_confined pushManifest_confined writes_confined commit_confined)
  with Cons.IH show ?case by simp
qed simp


section \<open>What a manifest push guarantees\<close>

definition repo_row :: "string \<Rightarrow> string \<Rightarrow> int \<Rightarrow> tables \<Rightarrow> bool" where
  "repo_row name owner rid t \<longleftrightarrow> (\<exists>p \<in> set (packages t). pkg_type p = ociPackageType \<and> pkg_name p = name \<and> pkg_owner p = owner \<and> pkg_id p = rid)"

text \<open>Everything a manifest refers to by a digest is there.\<close>

definition complete_refs :: "int \<Rightarrow> manifestMeta \<Rightarrow> tables \<Rightarrow> bool" where
  "complete_refs rid meta t \<longleftrightarrow>
     (\<forall>ref \<in> set (mm_layers meta). Digest (ref_digest ref) \<longrightarrow> (\<exists>b \<in> set (blobs t). blob_digest b = ref_digest ref \<and> blob_stored b)) \<and>
     (\<forall>ref \<in> set (mm_children meta). Digest (ref_digest ref) \<longrightarrow>
        (\<exists>v \<in> set (package_versions t). ver_package v = rid \<and> ver_version v = ref_digest ref))"

text \<open>The manifest is stored with its content, and refers to its layers and children.\<close>

definition manifest_row :: "int \<Rightarrow> string \<Rightarrow> string \<Rightarrow> string \<Rightarrow> manifestMeta \<Rightarrow> tables \<Rightarrow> bool" where
  "manifest_row rid digest contents mediaType meta t \<longleftrightarrow> (\<exists>v \<in> set (package_versions t).
     ver_package v = rid \<and> ver_version v = digest \<and> ver_metadata v = contents \<and> ver_media_type v = mediaType \<and>
     ver_size v = int (length contents) \<and>
     (\<forall>ref \<in> set (mm_layers meta @ mm_children meta). ref_digest ref \<noteq> '''' \<longrightarrow> has_ref t (ver_id v) (ref_digest ref)))"

definition tag_row :: "int \<Rightarrow> string \<Rightarrow> string \<Rightarrow> tables \<Rightarrow> bool" where
  "tag_row rid tag digest t \<longleftrightarrow> (\<exists>g \<in> set (package_tags t). tag_package g = rid \<and> tag_name g = tag \<and> tag_version g = digest)"

lemma create_row:
  assumes "GetOrCreateRepository repo ow s = (Inr ro, s')"
  shows "repo_row repo ow (repo_id ro) (tbl s')"
proof -
  from assms obtain p where g: "GetOrCreatePackage ociPackageType repo ow s = (Inr p, s')" and ro: "ro = packageAsRepository p"
    by (auto simp: GetOrCreateRepository_def elim!: bindE_okE)
  note spec = create_package_spec [of s ociPackageType repo ow, unfolded g prod.case sum.case]
  show ?thesis
  proof (cases "find_where (\<lambda>r. (pkg_type r, pkg_name r) = (ociPackageType, repo)) (packages (tbl s))")
    case None
    with spec ro show ?thesis by (auto simp: repo_row_def packageAsRepository_def)
  next
    case (Some x)
    from find_where_Some [OF Some] spec Some ro show ?thesis
      by (auto simp: repo_row_def packageAsRepository_def intro!: bexI [of _ x])
  qed
qed

lemma check_blob_ok:
  assumes "check_blob_ref ref s = (Inr u, s')"
  shows "tbl s' = tbl s \<and> (Digest (ref_digest ref) \<longrightarrow> (\<exists>b \<in> set (blobs (tbl s)). blob_digest b = ref_digest ref \<and> blob_stored b))"
proof (cases "Digest (ref_digest ref)")
  case True
  with assms obtain b where "find_where (\<lambda>r. blob_digest r = ref_digest ref) (blobs (tbl s)) = Some b" "blob_stored b" "tbl s' = tbl s"
    unfolding check_blob_ref_def GetBlob_def
    by (auto split: if_split_asm option.split_asm elim!: bindE_okE dest!: query_ok)
  with find_where_Some [OF this(1)] show ?thesis by auto
qed (use assms in \<open>simp add: check_blob_ref_def\<close>)

lemma check_child_ok:
  assumes "check_child_ref rid ref s = (Inr u, s')"
  shows "tbl s' = tbl s \<and>
     (Digest (ref_digest ref) \<longrightarrow> (\<exists>v \<in> set (package_versions (tbl s)). ver_package v = rid \<and> ver_version v = ref_digest ref))"
proof (cases "Digest (ref_digest ref)")
  case True
  with assms obtain v where "find_where (\<lambda>r. (ver_package r, ver_version r) = (rid, ref_digest ref)) (package_versions (tbl s)) = Some v" "tbl s' = tbl s"
    unfolding check_child_ref_def GetManifestByDigest_def GetPackageVersion_def getPackageVersion_def
    by (auto split: if_split_asm option.split_asm elim!: bindE_okE dest!: query_ok)
  with find_where_Some [OF this(1)] show ?thesis by auto
qed (use assms in \<open>simp add: check_child_ref_def\<close>)

lemma foreach_checks:
  assumes "\<And>x s s' u. f x s = (Inr u, s') \<Longrightarrow> tbl s' = tbl s \<and> Q x (tbl s)"
  shows "foreach xs f s = (Inr u, s') \<Longrightarrow> tbl s' = tbl s \<and> (\<forall>x \<in> set xs. Q x (tbl s))"
proof (induction xs arbitrary: s)
  case (Cons x xs)
  then obtain v t where "f x s = (Inr v, t)" "foreach xs f t = (Inr u, s')" by (auto elim!: bindE_okE)
  with assms [OF this(1)] Cons.IH [OF this(2)] show ?case by auto
qed simp

lemma layers_checked:
  "foreach refs check_blob_ref s = (Inr u, s') \<Longrightarrow> tbl s' = tbl s \<and>
     (\<forall>ref \<in> set refs. Digest (ref_digest ref) \<longrightarrow> (\<exists>b \<in> set (blobs (tbl s)). blob_digest b = ref_digest ref \<and> blob_stored b))"
  by (rule foreach_checks) (rule check_blob_ok)

lemma children_checked:
  "foreach refs (check_child_ref rid) s = (Inr u, s') \<Longrightarrow> tbl s' = tbl s \<and>
     (\<forall>ref \<in> set refs. Digest (ref_digest ref) \<longrightarrow> (\<exists>v \<in> set (package_versions (tbl s)). ver_package v = rid \<and> ver_version v = ref_digest ref))"
  by (rule foreach_checks) (rule check_child_ok)

lemma version_keys_kept:
  assumes "v \<in> set (package_versions t)"
  shows "\<exists>v' \<in> set (package_versions (upsert_version w c t)). (ver_package v', ver_version v') = (ver_package v, ver_version v)"
proof -
  let ?p = "\<lambda>r. (ver_package r, ver_version r) = (ver_package w, ver_version w)"
  have "(if ?p v then overwrite_version w v else v) \<in> set (package_versions (upsert_version w c t))"
    using assms by (auto simp: upsert_version_def upsert_where_def list_ex_iff)
  then show ?thesis by (rule rev_bexI) (simp add: overwrite_version_def)
qed

lemma with_layers_rows:
  assumes "PutManifestWithLayers m refs s = (Inr m', s')" and "complete_refs rid meta (tbl s)"
    and "refs = mm_layers meta @ mm_children meta" and "man_repo m = rid" and "man_size m = int (length (man_content m))" and "repo_row name ow rid (tbl s)"
  shows "complete_refs rid meta (tbl s') \<and> manifest_row rid (man_digest m) (man_content m) (man_media_type m) meta (tbl s') \<and>
     repo_row name ow rid (tbl s')"
  using assms(1)
proof (rule with_layers_ok)
  fix t1 t2 u v x
  assume t: "tbl t1 = tbl s" "tbl s' = tbl u" and pv: "putPackageVersion (manifestAsVersion m) t1 = (Inr v, t2)"
    and pr: "putBlobReferences (ver_id v) refs t2 = (Inr x, u)"
  note p = putPackageVersion_ok [OF pv] and q' = putBlobReferences_ok [OF pr]
  from p find_where_Some have v: "v \<in> set (package_versions (tbl t2))" by metis
  have "manifest_row rid (man_digest m) (man_content m) (man_media_type m) meta (tbl s')"
    unfolding manifest_row_def using p q' t v assms(3-5)
    by (intro bexI [of _ v]) (auto simp: same_content_def manifestAsVersion_def)
  moreover have "complete_refs rid meta (tbl s')"
    unfolding complete_refs_def
  proof (intro conjI ballI impI)
    fix ref assume ref: "ref \<in> set (mm_layers meta)" "Digest (ref_digest ref)"
    with assms(2) p q' t show "\<exists>b \<in> set (blobs (tbl s')). blob_digest b = ref_digest ref \<and> blob_stored b"
      by (auto simp: complete_refs_def upsert_version_def)
  next
    fix ref assume ref: "ref \<in> set (mm_children meta)" "Digest (ref_digest ref)"
    then obtain w where "w \<in> set (package_versions (tbl s))" "ver_package w = rid" "ver_version w = ref_digest ref"
      using assms(2) by (auto simp: complete_refs_def)
    with version_keys_kept [of w "tbl s" "manifestAsVersion m" "clock t1"] p q' t
    show "\<exists>v \<in> set (package_versions (tbl s')). ver_package v = rid \<and> ver_version v = ref_digest ref" by auto
  qed
  ultimately show ?thesis using assms(6) p q' t by (simp add: repo_row_def upsert_version_def)
qed

lemma put_tag_rows:
  assumes "PutTag rid tag d s = (Inr (), s')"
  shows "tag_row rid tag d (tbl s') \<and> packages (tbl s') = packages (tbl s) \<and> package_versions (tbl s') = package_versions (tbl s) \<and>
    package_files (tbl s') = package_files (tbl s) \<and> blobs (tbl s') = blobs (tbl s)"
proof -
  from assms obtain c where t: "tbl s' = upsert_tag rid tag d c (tbl s)"
    unfolding PutTag_def PutPackageTag_def
    by (elim run_tx_ok) (auto elim!: bindE_okE split: if_split_asm dest!: query_ok exec_ok)
  obtain g where "find_where (\<lambda>r. (tag_package r, tag_name r) = (rid, tag)) (package_tags (upsert_tag rid tag d c (tbl s))) = Some g"
    and "tag_version g = d" by (rule upsert_tag_found)
  with t find_where_Some [OF this(1)] show ?thesis by (auto simp: tag_row_def upsert_tag_def)
qed

lemma publish_content:
  assumes "\<And>p. keeps (\<lambda>s. P (content (tbl s))) (f p)"
  shows "publish r f s = (q', s') \<Longrightarrow> P (content (tbl s)) \<Longrightarrow> P (content (tbl s'))"
proof -
  have "keeps (\<lambda>s. P (content (tbl s))) (publish r f)" unfolding publish_def by (intro keeps_intros assms)
  then show "publish r f s = (q', s') \<Longrightarrow> P (content (tbl s)) \<Longrightarrow> P (content (tbl s'))" by (auto dest: keepsD)
qed

text \<open>The stages of a successful push.\<close>

lemma pushManifest_run:
  fixes s s' :: "'z node_scheme"
  assumes "pushManifest e r repo0 tag contents mediaType s = (Inr desc, s')"
  obtains repo ro m and s1 s2 s3 s4 :: "'z node_scheme" where
    "normalizeRepoForWrite r repo0 = Inr repo" and "ManifestContent contents (reg_maxManifestSize r)" and "Tag_ok tag"
    and "GetOrCreateRepository repo (reg_localID r) s = (Inr ro, s1)"
    and "tbl s2 = tbl s1" and "complete_refs (repo_id ro) (parseManifestMeta e contents) (tbl s1)"
    and "PutManifestWithLayers (pushed_manifest e (repo_id ro) contents mediaType)
       (mm_layers (parseManifestMeta e contents) @ mm_children (parseManifestMeta e contents)) s2 = (Inr m, s3)"
    and "(if tag \<noteq> '''' then PutTag (repo_id ro) tag (hash_of (oe_world e) contents) else ret ()) s3 = (Inr (), s4)"
    and "content (tbl s') = content (tbl s4)"
    and "desc = \<lparr>d_digest = hash_of (oe_world e) contents, d_size = int (length contents), d_media_type = mediaType\<rparr>"
proof -
  let ?d = "hash_of (oe_world e) contents" and ?meta = "parseManifestMeta e contents" and ?w = "oe_world e"
  let ?pub = "\<lambda>repo. publish r (\<lambda>p. bindE (ignore (PublishManifest ?w p repo tag ?d mediaType (int (length contents)) contents (mm_subject ?meta))) (\<lambda>_.
          if tag \<noteq> '''' then ignore (PublishTag ?w p repo tag ?d) else ret ()))"
  from assms obtain repo ro m and s1 u1 s2 s3 s4 s5 :: "'z node_scheme" where
    1: "normalizeRepoForWrite r repo0 = Inr repo" "ManifestContent contents (reg_maxManifestSize r)" "Tag_ok tag"
    and 2: "GetOrCreateRepository repo (reg_localID r) s = (Inr ro, s1)"
    and 3: "foreach (mm_layers ?meta) check_blob_ref s1 = (Inr (), u1)" "foreach (mm_children ?meta) (check_child_ref (repo_id ro)) u1 = (Inr (), s2)"
    and 4: "PutManifestWithLayers (pushed_manifest e (repo_id ro) contents mediaType) (mm_layers ?meta @ mm_children ?meta) s2 = (Inr m, s3)"
    and 5: "(if tag \<noteq> '''' then PutTag (repo_id ro) tag ?d else ret ()) s3 = (Inr (), s4)"
    and 6: "?pub repo s4 = (Inr (), s5)" "tbl s' = tbl s5" "desc = \<lparr>d_digest = ?d, d_size = int (length contents), d_media_type = mediaType\<rparr>"
    unfolding pushManifest_def for_write_def Let_def
    by (cases "normalizeRepoForWrite r repo0") (auto split: if_split_asm elim!: bindE_okE)
  note c1 = layers_checked [OF 3(1)] and c2 = children_checked [OF 3(2)]
  have "keeps (\<lambda>u. content (tbl u) = content (tbl s4)) (bindE (ignore (PublishManifest ?w p repo tag ?d mediaType (int (length contents)) contents (mm_subject ?meta))) (\<lambda>_.
          if tag \<noteq> '''' then ignore (PublishTag ?w p repo tag ?d) else ret ()))" for p
    by (intro keeps_intros quiet_publications [where P = "\<lambda>x _. x = content (tbl s4)"])
  from publish_content [OF this 6(1)] 6(2) have c: "content (tbl s') = content (tbl s4)" by simp
  have t: "tbl s2 = tbl s1" using c1 c2 by simp
  have "complete_refs (repo_id ro) ?meta (tbl s1)" using c1 c2 by (simp add: complete_refs_def)
  then show thesis by (rule that [OF 1 2 t _ 4 5 c 6(3)])
qed

lemma pushed_state:
  fixes s s' :: "'z node_scheme"
  assumes "pushManifest e r repo0 tag contents mediaType s = (Inr desc, s')"
  shows "\<exists>repo rid. normalizeRepoForWrite r repo0 = Inr repo \<and> repo_row repo (reg_localID r) rid (tbl s') \<and>
    desc = \<lparr>d_digest = hash_of (oe_world e) contents, d_size = int (length contents), d_media_type = mediaType\<rparr> \<and>
    contents \<noteq> '''' \<and> manifest_row rid (d_digest desc) contents mediaType (parseManifestMeta e contents) (tbl s') \<and>
    complete_refs rid (parseManifestMeta e contents) (tbl s') \<and>
    (tag = '''' \<or> tag_row rid tag (d_digest desc) (tbl s'))"
  using assms
proof (rule pushManifest_run)
  fix repo ro m and s1 s2 s3 s4 :: "'z node_scheme"
  let ?meta = "parseManifestMeta e contents" and ?d = "hash_of (oe_world e) contents"
  assume run: "normalizeRepoForWrite r repo0 = Inr repo" "GetOrCreateRepository repo (reg_localID r) s = (Inr ro, s1)" "tbl s2 = tbl s1"
    "complete_refs (repo_id ro) ?meta (tbl s1)"
    "PutManifestWithLayers (pushed_manifest e (repo_id ro) contents mediaType) (mm_layers ?meta @ mm_children ?meta) s2 = (Inr m, s3)"
    and mc: "ManifestContent contents (reg_maxManifestSize r)"
    and tag: "(if tag \<noteq> '''' then PutTag (repo_id ro) tag ?d else ret ()) s3 = (Inr (), s4)"
    and fin: "content (tbl s') = content (tbl s4)"
    and desc: "desc = \<lparr>d_digest = ?d, d_size = int (length contents), d_media_type = mediaType\<rparr>"
  have 3: "complete_refs (repo_id ro) ?meta (tbl s3)" "manifest_row (repo_id ro) ?d contents mediaType ?meta (tbl s3)"
    "repo_row repo (reg_localID r) (repo_id ro) (tbl s3)"
    using with_layers_rows [OF run(5), of "repo_id ro" ?meta repo "reg_localID r"] run(3,4) create_row [OF run(2)]
    by (auto simp: pushed_manifest_def)
  have "complete_refs (repo_id ro) ?meta (tbl s4) \<and> manifest_row (repo_id ro) ?d contents mediaType ?meta (tbl s4) \<and>
      repo_row repo (reg_localID r) (repo_id ro) (tbl s4) \<and> (tag = '''' \<or> tag_row (repo_id ro) tag ?d (tbl s4))"
  proof (cases "tag = ''''")
    case False
    with tag put_tag_rows [of "repo_id ro" tag ?d s3 s4] 3 show ?thesis
      by (simp add: complete_refs_def manifest_row_def repo_row_def has_ref_def)
  qed (use tag 3 in simp)
  with run(1) fin desc mc show ?thesis
    by (auto simp: complete_refs_def manifest_row_def repo_row_def has_ref_def tag_row_def content_def ManifestContent_def)
qed


section \<open>Reading back\<close>

lemma same_package:
  "wf_tables t \<Longrightarrow> p \<in> set (packages t) \<Longrightarrow> p' \<in> set (packages t) \<Longrightarrow> pkg_type p = pkg_type p' \<Longrightarrow> pkg_name p = pkg_name p' \<Longrightarrow> p = p'"
  by (rule map_eq_inj_on [of "\<lambda>r. (pkg_type r, pkg_name r)"]) (auto simp: wf_tables_def pkgs.unique_def)

lemma same_version:
  "wf_tables t \<Longrightarrow> v \<in> set (package_versions t) \<Longrightarrow> v' \<in> set (package_versions t) \<Longrightarrow> ver_package v = ver_package v' \<Longrightarrow>
     ver_version v = ver_version v' \<Longrightarrow> v = v'"
  by (rule map_eq_inj_on [of "\<lambda>r. (ver_package r, ver_version r)"]) (auto simp: wf_tables_def vers.unique_def)

lemma same_tag:
  "wf_tables t \<Longrightarrow> g \<in> set (package_tags t) \<Longrightarrow> g' \<in> set (package_tags t) \<Longrightarrow> tag_package g = tag_package g' \<Longrightarrow> tag_name g = tag_name g' \<Longrightarrow> g = g'"
  by (rule map_eq_inj_on [of "\<lambda>r. (tag_package r, tag_name r)"]) (auto simp: wf_tables_def tgs.unique_def)

lemma repo_found:
  assumes "wf_tables t" and "repo_row repo ow rid t"
  obtains p where "find_where (\<lambda>r. (pkg_type r, pkg_name r) = (ociPackageType, repo)) (packages t) = Some p"
    and "pkg_id p = rid" and "pkg_owner p = ow"
proof -
  from assms(2) obtain p where p: "p \<in> set (packages t)" "pkg_type p = ociPackageType" "pkg_name p = repo" "pkg_owner p = ow" "pkg_id p = rid"
    by (auto simp: repo_row_def)
  have "find_where (\<lambda>r. (pkg_type r, pkg_name r) = (ociPackageType, repo)) (packages t) = Some p"
    by (rule find_where_unique [OF p(1)]) (use p(2,3) in simp, rule same_package [OF assms(1) _ p(1)], use p(2,3) in simp_all)
  with p that show thesis by blast
qed

lemma version_found:
  assumes "wf_tables t" and "v \<in> set (package_versions t)"
  shows "find_where (\<lambda>r. (ver_package r, ver_version r) = (ver_package v, ver_version v)) (package_versions t) = Some v"
  by (rule find_where_unique [OF assms(2)]) (simp, rule same_version [OF assms(1) _ assms(2)], simp_all)

lemma tagged_found:
  assumes "wf_tables t" and "v \<in> set (package_versions t)" and "tag_row (ver_package v) tag (ver_version v) t"
  shows "find_where (\<lambda>w. ver_package w = ver_package v \<and> exists_where
        (\<lambda>g. tag_package g = ver_package w \<and> tag_version g = ver_version w \<and> tag_name g = tag) (package_tags t)) (package_versions t) = Some v"
proof (rule find_where_unique [OF assms(2)])
  from assms(3) obtain g where g: "g \<in> set (package_tags t)" "tag_package g = ver_package v" "tag_name g = tag" "tag_version g = ver_version v"
    by (auto simp: tag_row_def)
  then show "ver_package v = ver_package v \<and> exists_where
        (\<lambda>g. tag_package g = ver_package v \<and> tag_version g = ver_version v \<and> tag_name g = tag) (package_tags t)"
    by (auto simp: exists_where_iff)
  fix w assume w: "w \<in> set (package_versions t)" "ver_package w = ver_package v \<and> exists_where
        (\<lambda>g. tag_package g = ver_package w \<and> tag_version g = ver_version w \<and> tag_name g = tag) (package_tags t)"
  then obtain h where "h \<in> set (package_tags t)" "tag_package h = ver_package v" "tag_name h = tag" "tag_version h = ver_version w"
    by (auto simp: exists_where_iff)
  with same_tag [OF assms(1) _ g(1)] g have "ver_version w = ver_version v" by auto
  with same_version [OF assms(1) w(1) assms(2)] w(2) show "w = v" by simp
qed

lemma normalized_write: "normalizeRepoForWrite r repo = Inr repo' \<Longrightarrow> normalizeRepo r repo = repo'"
  by (auto simp: normalizeRepoForWrite_def Let_def split: if_split_asm)

lemma query_cases:
  obtains (io) u where "query f s = (Inl ErrIO, u)" | (ok) u where "query f s = (Inr (f (tbl s)), u)" and "tbl u = tbl s"
proof (cases "query f s")
  case (Pair q' u)
  then show thesis using io ok query_ok [of f s _ u] query_err [of f s _ u] by (cases q') auto
qed

text \<open>A look-up of a repository and of a manifest in it, on a consistent database.\<close>

lemma GetRepository_found:
  assumes "wf_tables (tbl s)" and "repo_row repo ow rid (tbl s)"
  obtains (io) u where "GetRepository repo s = (Inl ErrIO, u)"
  | (found) ro u where "GetRepository repo s = (Inr (Some ro), u)" and "tbl u = tbl s" and "repo_id ro = rid" and "repo_owner ro = ow"
proof -
  obtain p where p: "find_where (\<lambda>r. (pkg_type r, pkg_name r) = (ociPackageType, repo)) (packages (tbl s)) = Some p" "pkg_id p = rid" "pkg_owner p = ow"
    using assms by (rule repo_found)
  show thesis
  proof (cases rule: query_cases [of "\<lambda>t. find_where (\<lambda>r. (pkg_type r, pkg_name r) = (ociPackageType, repo)) (packages t)" s])
    case (io u)
    then show thesis by (intro that(1)) (simp add: GetRepository_def GetPackage_def bindE_def)
  next
    case (ok u)
    with p show thesis
      by (intro that(2) [of "packageAsRepository p" u]) (simp_all add: GetRepository_def GetPackage_def bindE_def ret_def packageAsRepository_def)
  qed
qed

lemma GetManifestByTag_found:
  assumes "wf_tables (tbl s)" and "v \<in> set (package_versions (tbl s))" and "tag_row (ver_package v) tag (ver_version v) (tbl s)"
  shows "\<exists>u. GetManifestByTag (ver_package v) tag s \<in> {(Inl ErrIO, u), (Inr (Some (versionAsManifest v)), u)}"
  using tagged_found [OF assms] unfolding GetManifestByTag_def GetPackageVersionByTag_def
  by (cases rule: query_cases [of "\<lambda>t. find_where (\<lambda>w. ver_package w = ver_package v \<and> exists_where
          (\<lambda>g. tag_package g = ver_package w \<and> tag_version g = ver_version w \<and> tag_name g = tag) (package_tags t)) (package_versions t)" s])
    (simp_all add: bindE_def ret_def del: exists_where_iff)

lemma GetManifestByDigest_found:
  assumes "wf_tables (tbl s)" and "v \<in> set (package_versions (tbl s))"
  shows "\<exists>u. GetManifestByDigest (ver_package v) (ver_version v) s \<in> {(Inl ErrIO, u), (Inr (Some (versionAsManifest v)), u)}"
  using version_found [OF assms] unfolding GetManifestByDigest_def GetPackageVersion_def getPackageVersion_def
  by (cases rule: query_cases [of "\<lambda>t. find_where (\<lambda>w. (ver_package w, ver_version w) = (ver_package v, ver_version v)) (package_versions t)" s])
    (simp_all add: bindE_def ret_def)

lemma served:
  assumes "v \<in> set (package_versions t)" and "ver_metadata v = contents" and "contents \<noteq> ''''" and "ver_size v = int (length contents)"
  shows "serveManifest e r repo (versionAsManifest v) = ret (\<lparr>d_digest = ver_version v, d_size = int (length contents), d_media_type = ver_media_type v\<rparr>, contents)"
  using assms by (simp add: serveManifest_def versionAsManifest_def manifest_reader_def)

text \<open>C34. What was pushed is what is pulled: after a successful push with a tag, reading the repository by the tag
  or by the digest returns exactly the pushed bytes with the descriptor of the push, or an I/O
  failure; it never reports an unknown manifest and never asks another node.\<close>

lemma push_pull:
  fixes s s' :: "'z node_scheme"
  assumes "wf_tables (tbl s)" and "pushManifest e r repo0 tag contents mediaType s = (Inr desc, s')" and "tag \<noteq> ''''"
  shows "fst (getTag e r repo0 tag s') \<in> {Inl ErrIO, Inr (desc, contents)} \<and>
    fst (getManifest e r repo0 (d_digest desc) s') \<in> {Inl ErrIO, Inr (desc, contents)}"
proof -
  obtain repo rid where p: "normalizeRepoForWrite r repo0 = Inr repo" "repo_row repo (reg_localID r) rid (tbl s')" "contents \<noteq> ''''"
    "desc = \<lparr>d_digest = hash_of (oe_world e) contents, d_size = int (length contents), d_media_type = mediaType\<rparr>"
    "manifest_row rid (d_digest desc) contents mediaType (parseManifestMeta e contents) (tbl s')" "tag_row rid tag (d_digest desc) (tbl s')"
    using pushed_state [OF assms(2)] assms(3) by blast
  note n = normalized_write [OF p(1)]
  have wf: "wf_tables (tbl s')"
    using keepsD [OF pushManifest_confined confined_refl [OF assms(1)] assms(2)] by (simp add: confined_def isolated_def)
  from p(5) obtain v where v: "v \<in> set (package_versions (tbl s'))" "ver_package v = rid" "ver_version v = d_digest desc"
    "ver_metadata v = contents" "ver_media_type v = mediaType" "ver_size v = int (length contents)"
    unfolding manifest_row_def by blast
  have serve: "serveManifest e r repo (versionAsManifest v) = ret (desc, contents)"
    using served [OF v(1,4) p(3) v(6), where e = e and r = r and repo = repo] v p(4) by simp
  have "fst (getTag e r repo0 tag s') \<in> {Inl ErrIO, Inr (desc, contents)}"
  proof (rule GetRepository_found [OF wf p(2)])
    fix u :: "'z node_scheme" assume "GetRepository repo s' = (Inl ErrIO, u)"
    then show ?thesis by (simp add: getTag_def local_or_upstream_def n bindE_def)
  next
    fix ro and u :: "'z node_scheme" assume found: "GetRepository repo s' = (Inr (Some ro), u)" "tbl u = tbl s'" "repo_id ro = rid"
    with GetManifestByTag_found [of u v tag] wf v p(6) obtain u' where
      "GetManifestByTag rid tag u \<in> {(Inl ErrIO, u'), (Inr (Some (versionAsManifest v)), u')}" by auto
    with found show ?thesis by (auto simp: getTag_def local_or_upstream_def n bindE_def serve ret_def)
  qed
  moreover have "fst (getManifest e r repo0 (d_digest desc) s') \<in> {Inl ErrIO, Inr (desc, contents)}"
  proof (rule GetRepository_found [OF wf p(2)])
    fix u :: "'z node_scheme" assume "GetRepository repo s' = (Inl ErrIO, u)"
    then show ?thesis by (simp add: getManifest_def n bindE_def Let_def)
  next
    fix ro and u :: "'z node_scheme" assume found: "GetRepository repo s' = (Inr (Some ro), u)" "tbl u = tbl s'" "repo_id ro = rid"
    with GetManifestByDigest_found [of u v] wf v obtain u' where
      "GetManifestByDigest rid (d_digest desc) u \<in> {(Inl ErrIO, u'), (Inr (Some (versionAsManifest v)), u')}" by auto
    with found show ?thesis by (auto simp: getManifest_def n bindE_def Let_def serve ret_def)
  qed
  ultimately show ?thesis by blast
qed

section \<open>Witnesses\<close>

text \<open>The blob is uploaded, then a manifest that names it is pushed with a tag.\<close>

definition demo_uploaded :: node where
  "demo_uploaded = fold (oci_run demo_env demo_registry) [PushBlob ''app'' \<lparr>d_digest = hash_of oci_world ''abcde'', d_size = 5, d_media_type = ''''\<rparr>
     (bytes_reader ''abcde'')] demo_node"

definition demo_pushed :: "(err + descriptor) \<times> node" where
  "demo_pushed = pushManifest demo_env demo_registry ''app'' ''v2'' ''{manifest}'' ''application/json'' demo_uploaded"

definition demo_desc :: descriptor where
  "demo_desc = \<lparr>d_digest = hash_of oci_world ''{manifest}'', d_size = 10, d_media_type = ''application/json''\<rparr>"

lemma demo_push_runs: "pushManifest demo_env demo_registry ''app'' ''v2'' ''{manifest}'' ''application/json'' demo_uploaded = (Inr demo_desc, snd demo_pushed)"
proof -
  have "fst demo_pushed = Inr demo_desc" by code_simp
  then show ?thesis by (simp add: demo_pushed_def prod_eq_iff)
qed


lemma wf_demo_uploaded: "wf_tables (tbl demo_uploaded)"
proof -
  have "tbl demo_node = demo_tables" by (simp add: demo_node_def demo_net_state_def empty_disk_def net.defs disk.defs)
  with wf_demo have "wf_tables (tbl demo_node)" by simp
  from run_confined [OF confined_refl [OF this]] show ?thesis unfolding demo_uploaded_def confined_def isolated_def by blast
qed

lemma push_pull_witness:
  "fst (getTag demo_env demo_registry ''app'' ''v2'' (snd demo_pushed)) = Inr (demo_desc, ''{manifest}'')"
proof -
  have "fst (getTag demo_env demo_registry ''app'' ''v2'' (snd demo_pushed)) \<noteq> Inl ErrIO" by code_simp
  with push_pull [OF wf_demo_uploaded demo_push_runs] show ?thesis by simp
qed

text \<open>A stranger's repository is in the database, and the requests try to reach it.\<close>

definition demo_shared :: node where
  "demo_shared = demo_node\<lparr>tbl := demo_tables\<lparr>packages := packages demo_tables @ [\<lparr>pkg_id = 2, pkg_type = ''oci'', pkg_name = ''b.example/lib'',
     pkg_owner = ''https://b.example/ap'', pkg_private = False, pkg_created = 0, pkg_withdrawn = None\<rparr>], seq_packages := 3\<rparr>\<rparr>"

definition demo_attack :: "oci_write list" where
  "demo_attack = [DelManifest ''b.example/lib'' ''d'', PushManifest ''b.example/lib'' ''v1'' ''{}'' '''', StartChunked ''fresh'', DelTag ''app'' ''v1'']"


end
