(* ===== verification/Oci_Reads.thy ===== *)
theory Oci_Reads
  imports Oci_Safety
begin

text \<open>
  Reads of the OCI registry, with their pull-through from federation peers and upstream registries:
  nothing that another server answers can make the node serve bytes that do not hash to the digest a
  client asked for.
\<close>

section \<open>Served blobs\<close>

text \<open>Requests to other nodes leave the blob files alone.\<close>

lemma files_http: "keeps (\<lambda>s. P (bfiles s)) (http_do e rq)"
  by (rule keepsI) (simp add: http_do_def)

lemma files_read: "keeps (\<lambda>s. P (bfiles s)) (read_limited body n)"
  unfolding read_limited_def Let_def by (intro keeps_intros)

lemma files_get: "keeps (\<lambda>s. P (bfiles s)) (http_get e url)"
  unfolding http_get_def by (intro keeps_intros files_http)

lemma files_circuit:
  "keeps (\<lambda>s. P (bfiles s)) (circuit_isOpen n)" "keeps (\<lambda>s. P (bfiles s)) (circuit_failed n)" "keeps (\<lambda>s. P (bfiles s)) (circuit_succeeded n)"
  by (auto intro!: keepsI simp: circuit_isOpen_def circuit_failed_def circuit_succeeded_def modify_def split: prod.splits)

lemma files_auth: "keeps (\<lambda>s. P (bfiles s)) (addAuth e w reg repo b)"
  unfolding addAuth_def getToken_def fetchToken_def discoverChallenge_def Let_def
  by (intro keeps_intros files_get files_http files_circuit keeps_modify) simp_all

lemma files_attempt: "keeps (\<lambda>s. P (bfiles s)) (up_attempt e w f n repo path b)"
  unfolding up_attempt_def Let_def by (intro keeps_intros files_auth files_http files_circuit keeps_modify) simp_all

lemma files_fetch:
  "keeps (\<lambda>s. P (bfiles s)) (peer_FetchBlobStream e f peer repo d)"
  "keeps (\<lambda>s. P (bfiles s)) (up_FetchBlobStream e w u n repo d)"
  "keeps (\<lambda>s. P (bfiles s)) (up_FetchManifest e w u n repo ref)"
  "keeps (\<lambda>s. P (bfiles s)) (peer_FetchManifest e w f peer repo ref)"
  "keeps (\<lambda>s. P (bfiles s)) (IsRepoPrivate u n repo)"
  unfolding peer_FetchBlobStream_def up_FetchBlobStream_def up_FetchManifest_def peer_FetchManifest_def up_request_def IsRepoPrivate_def Let_def
  by (intro keeps_intros files_get files_attempt files_read)+

lemma files_above: 
  fixes m :: "('z disk_scheme, 'a) prog"
  assumes "\<And>P. keeps (\<lambda>s. P (above s)) m"
  shows "keeps (\<lambda>s. P (bfiles s)) m"
proof (rule keepsI)
  fix s :: "'z disk_scheme" assume P: "P (bfiles s)"
  have "above (snd (m s)) = above s" using assms [of "\<lambda>v. v = above s"] by (simp add: keeps_def)
  then have "bfiles (snd (m s)) = bfiles s" by (cases s, cases "snd (m s)") (simp add: above_def)
  with P show "P (bfiles (snd (m s)))" by simp
qed

text \<open>Reads keep the store addressed, and what they deliver hashes to what was asked for.\<close>

definition delivers :: "world \<Rightarrow> string \<Rightarrow> blob_reader \<Rightarrow> bool" where
  "delivers w d b \<longleftrightarrow> d_digest (fst b) = d \<and> hash_of w (snd b) = d \<and> d_size (fst b) = int (length (snd b))"

lemma addressed_files:
  fixes m :: "('z disk_scheme, 'a) prog"
  assumes "\<And>P. keeps (\<lambda>s. P (bfiles s)) m"
  shows "yields (files.addressed w) m (\<lambda>_. True)"
proof (rule yields_keeps, rule keepsI)
  fix s :: "'z disk_scheme" assume "files.addressed w s"
  moreover have "bfiles (snd (m s)) = bfiles s" using assms [of "\<lambda>v. v = bfiles s"] by (simp add: keeps_def)
  ultimately show "files.addressed w (snd (m s))" by (simp add: files.addressed_def held_def)
qed

lemma addressed_put: "yields (files.addressed w) (store_Put w rd d) (\<lambda>(d', n). d = '''' \<or> d' = d)"
  by (rule yieldsI) (auto dest: files.put_addressed files.put_ok)

lemma addressed_open: "yields (files.addressed w) (store_Open d) (\<lambda>(c, n). hash_of w c = d \<and> n = int (length c))"
  by (rule yieldsI) (auto dest: files.open_addressed files.open_verified)

lemma addressed_delete: "yields (files.addressed w) (store_Delete d) (\<lambda>_. True)"
  by (rule yieldsI) (auto dest: files.delete_addressed)

lemma delivers_octets: "hash_of w c = d \<and> n = int (length c) \<Longrightarrow> delivers w d (octets d n c)"
  by (simp add: delivers_def octets_def)

lemma files_publish: "keeps (\<lambda>s. P (bfiles s)) (publish r (\<lambda>p. PublishBlobRef w p d n))"
  unfolding publish_def by (intro keeps_intros files_above above_intros)

lemmas files_calls = files_above [OF above_calls(2)] files_above [OF above_calls(4)] files_above [OF above_calls(18)]
  files_above [OF above_calls(6)] files_publish files_fetch

lemma addressed_private: "yields (files.addressed w) (mark_private u g repo rid) (\<lambda>_. True)"
  unfolding mark_private_def by (intro addressed_files keeps_intros files_fetch files_above above_calls)

lemma peers_delivers: "d \<noteq> '''' \<Longrightarrow> yields (files.addressed (oe_world e)) (peers_loop e r f repo d peers) (delivers (oe_world e) d)"
proof (induction peers)
  case (Cons peer peers)
  show ?case
    unfolding peers_loop.simps
    by (rule yields_handle [OF addressed_files [OF files_fetch(1)]], simp add: Cons)
      (auto intro!: yields_handle [OF addressed_put] yields_handle [OF addressed_open] yields_bindE [OF addressed_files [OF keeps_ignore [OF files_calls(1)]]]
        yields_bindE [OF yields_ignore [OF addressed_delete]] yields_bindE [OF addressed_files [OF files_publish]] Cons yields_ret delivers_octets
        simp: Cons.prems split: sum.split)
qed (simp add: yields_fail)

lemma fetch_peers_delivers: "d \<noteq> '''' \<Longrightarrow> yields (files.addressed (oe_world e)) (fetchBlobFromPeers e r f repo d) (delivers (oe_world e) d)"
  unfolding fetchBlobFromPeers_def by (rule yields_bindE [OF addressed_files [OF files_calls(3)]]) (rule peers_delivers)

lemma upstream_delivers:
  "d \<noteq> '''' \<Longrightarrow> yields (files.addressed (oe_world e)) (fetchBlobFromUpstream e r u repo d) (\<lambda>b. \<forall>x. b = Some x \<longrightarrow> delivers (oe_world e) d x)"
  unfolding fetchBlobFromUpstream_def
  by (auto intro!: yields_intros yields_bindE [OF addressed_files [OF files_fetch(2)]] yields_bindE [OF addressed_put]
      yields_bindE [OF yields_ignore [OF addressed_delete]] yields_bindE [OF addressed_files [OF keeps_ignore [OF files_calls(1)]]]
      yields_bindE [OF yields_handle [OF addressed_files [OF files_calls(4)], where R = "\<lambda>_. True"]] addressed_private
      yields_bindE [OF addressed_open] simp: delivers_def octets_def split: prod.split)

lemma getBlob_delivers:
  "d \<noteq> '''' \<Longrightarrow> yields (files.addressed (oe_world e)) (getBlob e r repo d) (delivers (oe_world e) d)"
  unfolding getBlob_def try_upstream_def
  by (auto intro!: yields_intros yields_bindE [OF addressed_files [OF files_calls(2)]] yields_handle [OF addressed_open]
      yields_handle [OF upstream_delivers] yields_handle [OF fetch_peers_delivers] delivers_octets split: option.split sum.split bool.split)

text \<open>The bytes of a range.\<close>

lemma range_delivers:
  "d \<noteq> '''' \<Longrightarrow> yields (files.addressed (oe_world e)) (open_for_range e r repo d) (\<lambda>(c, n). hash_of (oe_world e) c = d \<and> n = int (length c))"
  unfolding open_for_range_def
  by (auto intro!: yields_intros yields_handle [OF addressed_open] yields_handle [OF fetch_peers_delivers]
      split: option.split sum.split bool.split)

definition range_of :: "world \<Rightarrow> string \<Rightarrow> int \<Rightarrow> int \<Rightarrow> blob_reader \<Rightarrow> bool" where
  "range_of w d offset0 offset1 b \<longleftrightarrow> d_digest (fst b) = d \<and> (\<exists>c. hash_of w c = d \<and> 0 \<le> offset0 \<and> offset0 < int (length c) \<and>
     (let stop = (if offset1 < 0 \<or> int (length c) < offset1 then int (length c) else offset1) in
      d_size (fst b) = stop - offset0 \<and> snd b = take (nat (stop - offset0)) (drop (nat offset0) c)))"

lemma range_ofI:
  "hash_of w c = d \<Longrightarrow> 0 \<le> o0 \<Longrightarrow> o0 < int (length c) \<Longrightarrow> stop = (if o1 < 0 \<or> int (length c) < o1 then int (length c) else o1) \<Longrightarrow>
   range_of w d o0 o1 (octets d (stop - o0) (take (nat (stop - o0)) (drop (nat o0) c)))"
  unfolding range_of_def octets_def by (intro conjI exI [of _ c]) (simp_all add: Let_def)

lemma getBlobRange_delivers:
  "d \<noteq> '''' \<Longrightarrow> yields (files.addressed (oe_world e)) (getBlobRange e r repo d o0 o1) (range_of (oe_world e) d o0 o1)"
  unfolding getBlobRange_def Let_def
  by (auto intro!: yields_intros yields_bindE [OF addressed_files [OF files_calls(2)]] yields_bindE [OF range_delivers]
      yields_bindE [OF addressed_files [OF files_above [OF above_tick]]] range_ofI)

text \<open>C38. A pulled blob is the blob that was asked for: whether it comes from the disk, from a federation peer or from
  an upstream registry, whatever these answer and whichever calls fail, a successful read returns
  bytes that hash to the requested digest, with the digest and the true length in the descriptor; a
  range is that slice of such bytes; and the store stays content-addressed.\<close>

lemma blob_pull_verified:
  assumes "files.addressed (oe_world e) s" and "d \<noteq> ''''"
  shows "(case fst (getBlob e r repo d s) of Inl _ \<Rightarrow> True | Inr (desc, c) \<Rightarrow>
       hash_of (oe_world e) c = d \<and> d_digest desc = d \<and> d_size desc = int (length c)) \<and>
     (case fst (getBlobRange e r repo d o0 o1 s) of Inl _ \<Rightarrow> True | Inr b \<Rightarrow> range_of (oe_world e) d o0 o1 b) \<and>
     files.addressed (oe_world e) (snd (getBlob e r repo d s)) \<and> files.addressed (oe_world e) (snd (getBlobRange e r repo d o0 o1 s))"
proof -
  note b = yieldsE [OF getBlob_delivers [OF assms(2)] assms(1), of r repo]
    and g = yieldsE [OF getBlobRange_delivers [OF assms(2)] assms(1), of r repo o0 o1]
  show ?thesis
  proof (intro conjI)
    show "case fst (getBlob e r repo d s) of Inl _ \<Rightarrow> True | Inr (desc, c) \<Rightarrow>
       hash_of (oe_world e) c = d \<and> d_digest desc = d \<and> d_size desc = int (length c)"
      using b by (auto simp: delivers_def split: sum.split)
    show "case fst (getBlobRange e r repo d o0 o1 s) of Inl _ \<Rightarrow> True | Inr b \<Rightarrow> range_of (oe_world e) d o0 o1 b"
      using g by (auto split: sum.split)
  qed (use b g in blast)+
qed

section \<open>Served manifests\<close>

definition labelled :: "world \<Rightarrow> string \<Rightarrow> blob_reader \<Rightarrow> bool" where
  "labelled w d b \<longleftrightarrow> d_digest (fst b) = d \<and> hash_of w (snd b) = d"

lemma serve_labelled:
  assumes "man_digest m = d" and "man_content m = '''' \<or> hash_of (oe_world e) (man_content m) = d"
  shows "gives (serveManifest e r repo m) (labelled (oe_world e) d)"
proof -
  have src: "gives (fetchManifestFromSource e f repo m source) (\<lambda>(m', c). man_digest m' = d \<and> hash_of (oe_world e) c = d)" for f source
    unfolding fetchManifestFromSource_def Let_def
    by (auto intro!: yields_handle [OF gives_any] yields_bindE [OF gives_any] yields_intros simp: assms(1) split: option.split)
  show ?thesis unfolding serveManifest_def
    using assms by (auto intro!: yields_intros yields_handle [OF src] simp: labelled_def manifest_reader_def split: option.split sum.split)
qed

lemma owner_labelled: "gives (fetch_owner_manifest e f repo ro d) (pred_option (labelled (oe_world e) d))"
  unfolding fetch_owner_manifest_def Let_def
  by (auto intro!: yields_handle [OF gives_any] yields_bindE [OF gives_any] yields_intros simp: labelled_def split: option.split sum.split)

lemma upstream_labelled:
  "digest_Parse e d \<Longrightarrow> gives (fetchManifestFromUpstream e r u repo d) (pred_option (labelled (oe_world e) d))"
  unfolding fetchManifestFromUpstream_def Let_def
  by (auto intro!: yields_bindE [OF gives_any] yields_intros simp: labelled_def split: option.split prod.split)

lemma missing_labelled:
  assumes "digest_Parse e d"
  shows "gives (missing_manifest e r repo ro d) (labelled (oe_world e) d)"
proof -
  have "gives (case (reg_fetcher r, ro) of (Some f, Some ro) \<Rightarrow> if repo_owner ro \<noteq> reg_localID r
            then fetch_owner_manifest e f (normalizeRepo r repo) ro d else ret None | _ \<Rightarrow> ret None) (pred_option (labelled (oe_world e) d))"
    by (auto intro!: yields_intros owner_labelled split: option.split)
  then show ?thesis unfolding missing_manifest_def try_upstream_def
    by (rule yields_bindE)
      (auto intro!: yields_intros yields_handle [OF upstream_labelled [OF assms]] yields_handle [OF gives_any [of "IsManifestDeleted d"]] split: option.split sum.split bool.split)
qed

text \<open>C39. A manifest pulled by its digest is the manifest of that digest: if the rows of the node that carry content
  under the digest hash to it, then whatever the owner's node or an upstream registry answers and
  whichever calls fail, a successful read returns bytes that hash to the digest.\<close>

lemma manifest_pull_verified:
  assumes "digest_Parse e d"
    and "\<And>v. v \<in> set (package_versions (tbl s)) \<Longrightarrow> ver_version v = d \<Longrightarrow> ver_metadata v = '''' \<or> hash_of (oe_world e) (ver_metadata v) = d"
    and "getManifest e r repo d (s :: 'a node_scheme) = (Inr (desc, c), s')"
  shows "d_digest desc = d \<and> hash_of (oe_world e) c = d"
proof -
  let ?Q = "\<lambda>x. man_digest x = d \<and> (man_content x = '''' \<or> hash_of (oe_world e) (man_content x) = d)"
  have found: "pred_option ?Q m" if "GetManifestByDigest rid d u = (Inr m, u')" and "tbl u = tbl s" for rid m u u'
  proof -
    let ?row = "find_where (\<lambda>v. (ver_package v, ver_version v) = (rid, d)) (package_versions (tbl s))"
    from that have "m = map_option versionAsManifest ?row"
      unfolding GetManifestByDigest_def GetPackageVersion_def getPackageVersion_def by (auto elim!: bindE_okE dest!: query_ok)
    with assms(2) show ?thesis by (cases ?row) (auto dest!: find_where_Some simp: versionAsManifest_def)
  qed
  have look: "tbl u = tbl s" if "GetRepository (normalizeRepo r repo) s = (Inr ro, u)" for ro u
    using that unfolding GetRepository_def GetPackage_def by (auto elim!: bindE_okE dest!: query_ok)
  from assms(3) obtain ro and u :: "'a node_scheme" where ro: "GetRepository (normalizeRepo r repo) s = (Inr ro, u)"
    and rest: "(case ro of None \<Rightarrow> missing_manifest e r repo None d | Some x \<Rightarrow> bindE (GetManifestByDigest (repo_id x) d)
      (\<lambda>m. case m of Some m \<Rightarrow> serveManifest e r (normalizeRepo r repo) m | None \<Rightarrow> missing_manifest e r repo (Some x) d)) u = (Inr (desc, c), s')"
    unfolding getManifest_def Let_def by (elim bindE_okE)
  have "labelled (oe_world e) d (desc, c)"
  proof (cases ro)
    case None
    with rest missing_labelled [OF assms(1), of r repo None] show ?thesis by (auto simp: yields_def)
  next
    case (Some x)
    with rest obtain m and u' :: "'a node_scheme" where m: "GetManifestByDigest (repo_id x) d u = (Inr m, u')"
      and serve: "(case m of Some m \<Rightarrow> serveManifest e r (normalizeRepo r repo) m | None \<Rightarrow> missing_manifest e r repo (Some x) d) u' = (Inr (desc, c), s')"
      by (auto elim: bindE_okE)
    from found [OF m look [OF ro]] have "gives (case m of Some m \<Rightarrow> serveManifest e r (normalizeRepo r repo) m | None \<Rightarrow> missing_manifest e r repo (Some x) d)
      (labelled (oe_world e) d)"
      by (cases m) (simp_all add: missing_labelled [OF assms(1)] serve_labelled)
    with serve show ?thesis by (auto simp: yields_def)
  qed
  then show ?thesis by (simp add: labelled_def)
qed

section \<open>Witnesses\<close>

text \<open>A node with one manifest and its configuration.\<close>

definition demo_served :: node where
  "demo_served = demo_node\<lparr>bfiles := [(hash_of oci_world ''abcde'', ''abcde'', 1000)], tbl := demo_tables\<lparr>
     package_versions := [\<lparr>ver_id = 1, ver_package = 1, ver_version = hash_of oci_world ''{manifest}'', ver_metadata = ''{manifest}'',
       ver_media_type = ''application/json'', ver_size = 10, ver_source = None, ver_subject = None, ver_artifact = None, ver_created = 0\<rparr>],
     package_files := [\<lparr>file_id = 1, file_version = 1, file_name = ''config'', file_blob = hash_of oci_world ''abcde'', file_size = 5,
       file_ctype = None, file_created = 0\<rparr>],
     blobs := [\<lparr>blob_id = 1, blob_digest = hash_of oci_world ''abcde'', blob_size = 5, blob_media_type = None, blob_stored = True, blob_created = 0\<rparr>]\<rparr>\<rparr>"

lemma blob_pull_verified_witness:
  "(\<exists>desc. fst (getBlob demo_env demo_registry ''app'' (hash_of oci_world ''abcde'') demo_served) = Inr (desc, ''abcde'') \<and>
     d_size desc = 5 \<and> d_digest desc = hash_of oci_world ''abcde'') \<and>
   map_sum id snd (fst (getBlobRange demo_env demo_registry ''app'' (hash_of oci_world ''abcde'') 1 3 demo_served)) = Inr ''bc''"
proof -
  let ?d = "hash_of oci_world ''abcde''" and ?s = "demo_served"
  let ?r = "getBlob demo_env demo_registry ''app'' ?d ?s" and ?g = "getBlobRange demo_env demo_registry ''app'' ?d 1 3 ?s"
  have "bfiles ?s = [(?d, ''abcde'', 1000)]" by (simp add: demo_served_def)
  then have "files.addressed (oe_world demo_env) ?s" by (auto simp: files.addressed_def held_def demo_env_def split: if_split_asm)
  moreover have "?d \<noteq> ''''" by (simp add: hash_of_def)
  moreover have "map_sum id snd (fst ?r) = Inr ''abcde''" "map_sum id snd (fst ?g) = Inr ''bc''" by code_simp+
  ultimately show ?thesis
    using blob_pull_verified [of demo_env ?s ?d demo_registry "''app''" 1 3] by (cases "fst ?r") auto
qed

lemma manifest_pull_verified_witness:
  "\<exists>desc. fst (getManifest demo_env demo_registry ''app'' (d_digest demo_desc) demo_served) = Inr (desc, ''{manifest}'') \<and> d_digest desc = d_digest demo_desc"
proof -
  let ?r = "getManifest demo_env demo_registry ''app'' (d_digest demo_desc) demo_served"
  have "list_all (\<lambda>v. ver_metadata v = '''' \<or> hash_of oci_world (ver_metadata v) = ver_version v) (package_versions (tbl demo_served))" by code_simp
  then have rows: "ver_metadata v = '''' \<or> hash_of (oe_world demo_env) (ver_metadata v) = d_digest demo_desc"
    if "v \<in> set (package_versions (tbl demo_served))" "ver_version v = d_digest demo_desc" for v
    using that by (auto simp: list_all_iff demo_env_def)
  have "map_sum id snd (fst ?r) = Inr ''{manifest}''" by code_simp
  then obtain desc where desc: "fst ?r = Inr (desc, ''{manifest}'')" by (cases "fst ?r") auto
  have "digest_Parse demo_env (d_digest demo_desc)" by (simp add: demo_env_def)
  from manifest_pull_verified [OF this rows, where r = demo_registry and repo = "''app''" and desc = desc and c = "''{manifest}''" and s' = "snd ?r"] desc show ?thesis by (auto simp: prod_eq_iff)
qed

end
