(* ===== verification/Federation.thy ===== *)
theory Federation
  imports Inbox Publisher
begin

text \<open>
  \<open>internal/federation/federation.go\<close>, the service behind the follow commands, and
  \<open>internal/activitypub/webfinger.go\<close>, which turns a handle into the URL of an actor.

  The web is a parameter: \<open>WFGet\<close> answers the n-th request, with the status and the links of the
  decoded document. The cache holds the live entries of \<open>ttlcache\<close>. A context that is cancelled
  between two actors of a refresh is the parameter \<open>done\<close>, by the number of actors visited.
\<close>

section \<open>WebFinger\<close>

record WebFingerLink =
  wl_rel :: string
  wl_type :: string
  wl_href :: string

record wf_env =
  WFGet :: "nat \<Rightarrow> string \<Rightarrow> (int \<times> WebFingerLink list option) option"
  wf_QueryEscape :: "string \<Rightarrow> string"

record svc = fed +
  wf_cache :: "(string \<times> string) list"

definition actor_link :: "WebFingerLink \<Rightarrow> bool" where
  "actor_link l \<longleftrightarrow> wl_rel l = ''self'' \<and> wl_type l = ''application/activity+json'' \<and> wl_href l \<noteq> ''''"

definition fetchWebFinger :: "wf_env \<Rightarrow> string \<Rightarrow> string \<Rightarrow> ('z svc_scheme, string) prog" where
  "fetchWebFinger x domain resource = (\<lambda>s.
     (case WFGet x (fetches s) (''https://'' @ domain @ ''/.well-known/webfinger?resource='' @ wf_QueryEscape x resource) of
        None \<Rightarrow> Inl (Errorf ''webfinger request'')
      | Some (status, links) \<Rightarrow>
          if status \<noteq> 200 then Inl (Errorf ''webfinger returned'')
          else (case links of
              None \<Rightarrow> Inl (Errorf ''decoding webfinger response'')
            | Some ls \<Rightarrow> (case find actor_link ls of
                Some l \<Rightarrow> Inr (wl_href l)
              | None \<Rightarrow> Inl (Errorf ''no ActivityPub actor link''))),
      s\<lparr>fetches := Suc (fetches s)\<rparr>))"

definition wf_Lookup :: "wf_env \<Rightarrow> string \<Rightarrow> string \<Rightarrow> ('z svc_scheme, string) prog" where
  "wf_Lookup x domain resource =
     (if list_ex (Contains_char domain) ''/:@'' then fail (Errorf ''invalid domain'')
      else bindE (gets (\<lambda>s. map_of (wf_cache s) resource)) (\<lambda>item. case item of
          Some actorURL \<Rightarrow> ret actorURL
        | None \<Rightarrow> bindE (fetchWebFinger x domain resource) (\<lambda>actorURL.
            bindE (modify (\<lambda>s. s\<lparr>wf_cache := AList.update resource actorURL (wf_cache s)\<rparr>)) (\<lambda>_. ret actorURL))))"

text \<open>\<open>strings.Cut(input, "@")\<close>.\<close>

definition Cut_at :: "string \<Rightarrow> (string \<times> string) option" where
  "Cut_at s = (if Contains_char s (CHR ''@'') then
     let user = Cut_before s (CHR ''@'') in Some (user, drop (Suc (length user)) s) else None)"

definition ResolveFollowTarget :: "world \<Rightarrow> wf_env \<Rightarrow> string \<Rightarrow> ('z svc_scheme, string) prog" where
  "ResolveFollowTarget w x input =
     (if HasPrefix input ''https://'' \<or> HasPrefix input ''http://'' then
        (if validateFederationURL w input then ret input else fail (Errorf ''unsafe target URL''))
      else let input' = TrimPrefix input ''@'' in
        case Cut_at input' of
          Some (user, domain) \<Rightarrow> wf_Lookup x domain (''acct:'' @ user @ ''@'' @ domain)
        | None \<Rightarrow> wf_Lookup x input' (''acct:registry@'' @ input'))"

record Identity =
  id_ActorURL :: string
  id_Domain :: string
  id_AccountDomain :: string

definition wf_valid :: "Identity \<Rightarrow> string \<Rightarrow> bool" where
  "wf_valid i resource \<longleftrightarrow> resource = id_ActorURL i \<or>
     (case CutPrefix resource ''acct:'' of
        None \<Rightarrow> False
      | Some after \<Rightarrow> (case Cut_at after of
            None \<Rightarrow> False
          | Some (user, domain) \<Rightarrow> user = ''registry'' \<and> (EqualFold domain (id_Domain i) \<or> EqualFold domain (id_AccountDomain i))))"

definition WebFinger_ServeHTTP :: "Identity \<Rightarrow> string \<Rightarrow> string \<Rightarrow> int \<times> WebFingerLink list option" where
  "WebFinger_ServeHTTP i rmethod resource =
     (if rmethod \<noteq> ''GET'' then (405, None)
      else if resource = '''' then (400, None)
      else if \<not> wf_valid i resource then (404, None)
      else (200, Some [\<lparr>wl_rel = ''self'', wl_type = ''application/activity+json'', wl_href = id_ActorURL i\<rparr>]))"

section \<open>The service\<close>

record Service =
  sv_ActorURL :: string
  sv_queue :: bool

definition peer_row :: "world \<Rightarrow> string \<Rightarrow> Actor" where
  "peer_row w actorURL = \<lparr>act_id = 0, act_url = actorURL, act_name = None, act_alias = None,
     act_endpoint = EndpointFromActorURL w actorURL, act_key = None, act_they_follow = False, act_they_follow_at = None,
     act_we_follow = False, act_we_status = None, act_we_accept_at = None, act_healthy = True, act_policy = ''lazy'',
     act_seen = None, act_globs = None, act_created = 0\<rparr>"

definition svc_AddFollow :: "world \<Rightarrow> wf_env \<Rightarrow> Service \<Rightarrow> string \<Rightarrow> ('z svc_scheme, string) prog" where
  "svc_AddFollow w x sv input = bindE (ResolveFollowTarget w x input) (\<lambda>actorURL.
     if actorURL = sv_ActorURL sv then fail (Errorf ''cannot follow yourself'')
     else bindE (FetchActor w actorURL) (\<lambda>actor.
       if fa_id actor = sv_ActorURL sv then fail (Errorf ''cannot follow yourself'')
       else bindE (AddOutgoingFollow (fa_id actor)) (\<lambda>_.
         bindE (SendFollow w (wf_QueryEscape x) (sv_ActorURL sv) (sv_queue sv) (fa_id actor)) (\<lambda>_.
         bindE (ignore (UpsertActor (peer_row w (fa_id actor)))) (\<lambda>_.
         ret (fa_id actor))))))"

definition locate_actor :: "world \<Rightarrow> wf_env \<Rightarrow> string \<Rightarrow> bool \<Rightarrow> ('z svc_scheme, string) prog" where
  "locate_actor w x input force =
     (if force then bindE (FindActorByInput input) (\<lambda>a. case a of
          Some r \<Rightarrow> ret (act_url r)
        | None \<Rightarrow> ResolveFollowTarget w x input)
      else ResolveFollowTarget w x input)"

definition svc_RemoveFollow :: "world \<Rightarrow> wf_env \<Rightarrow> Service \<Rightarrow> string \<Rightarrow> bool \<Rightarrow> ('z svc_scheme, string) prog" where
  "svc_RemoveFollow w x sv input force = bindE (locate_actor w x input force) (\<lambda>actorURL.
     bindE (ignore (SendUndo w (sv_ActorURL sv) (sv_queue sv) actorURL)) (\<lambda>_.
     handle (RemoveFollow actorURL) (\<lambda>errFollow.
     handle (RemoveOutgoingFollow actorURL) (\<lambda>errOutgoing.
     if errFollow \<noteq> Inr () \<and> errOutgoing \<noteq> Inr () \<and> \<not> force then fail (Errorf ''removing follow'')
     else bindE (if force then DeleteActor actorURL else ret ()) (\<lambda>_. ret actorURL)))))"

definition locateFollowRequest :: "world \<Rightarrow> wf_env \<Rightarrow> string \<Rightarrow> ('z svc_scheme, FollowRequest option) prog" where
  "locateFollowRequest w x input =
     (let fallback = FindFollowRequestByInput input in
      handle (ResolveFollowTarget w x input) (\<lambda>r. case r of
          Inr actorURL \<Rightarrow> bindE (GetFollowRequest actorURL) (\<lambda>fr. case fr of
              Some _ \<Rightarrow> ret fr
            | None \<Rightarrow> fallback)
        | Inl _ \<Rightarrow> fallback))"

text \<open>Whether a follow-back was sent; the error of recording the peer behind it is only logged.\<close>

definition sendMutualFollowBack :: "world \<Rightarrow> wf_env \<Rightarrow> Service \<Rightarrow> string \<Rightarrow> ('z svc_scheme, bool) prog" where
  "sendMutualFollowBack w x sv actorURL = bindE (GetOutgoingFollow actorURL) (\<lambda>existing. case existing of
      Some _ \<Rightarrow> ret False
    | None \<Rightarrow> bindE (AddOutgoingFollow actorURL) (\<lambda>_.
        bindE (SendFollow w (wf_QueryEscape x) (sv_ActorURL sv) (sv_queue sv) actorURL) (\<lambda>_.
        bindE (ignore (UpsertActor (peer_row w actorURL))) (\<lambda>_. ret True))))"

definition svc_AcceptFollow :: "world \<Rightarrow> wf_env \<Rightarrow> Service \<Rightarrow> string \<Rightarrow> string \<Rightarrow> ('z svc_scheme, string \<times> bool) prog" where
  "svc_AcceptFollow w x sv input mode = bindE (locateFollowRequest w x input) (\<lambda>fr. case fr of
      None \<Rightarrow> fail (Errorf ''no pending follow request'')
    | Some req \<Rightarrow>
        bindE (AcceptFollowRequest (fr_url req)) (\<lambda>_.
        bindE (ignore (SendAccept w (sv_ActorURL sv) (sv_queue sv) (fr_url req))) (\<lambda>_.
        if mode = ''mutual'' then
          handle (sendMutualFollowBack w x sv (fr_url req)) (\<lambda>sent. ret (fr_url req, sent = Inr True))
        else ret (fr_url req, False))))"

definition svc_RejectFollow :: "world \<Rightarrow> wf_env \<Rightarrow> Service \<Rightarrow> string \<Rightarrow> ('z svc_scheme, string) prog" where
  "svc_RejectFollow w x sv input = bindE (locateFollowRequest w x input) (\<lambda>fr. case fr of
      None \<Rightarrow> fail (Errorf ''no pending follow request'')
    | Some req \<Rightarrow>
        bindE (RejectFollowRequest (fr_url req)) (\<lambda>_.
        bindE (ignore (SendReject w (sv_ActorURL sv) (sv_queue sv) (fr_url req))) (\<lambda>_.
        ret (fr_url req))))"

section \<open>Refreshing actors\<close>

definition actorAlias :: "world \<Rightarrow> FedActor \<Rightarrow> string option" where
  "actorAlias w actor = (let alias = ActorAlias w actor in if alias = '''' then None else Some alias)"

text \<open>
  One actor: its document is fetched and \<open>update\<close> stores key, endpoint and alias; \<open>False\<close> when
  either fails, which is logged.
\<close>

definition refresh_one ::
  "world \<Rightarrow> (string \<Rightarrow> string \<Rightarrow> string option \<Rightarrow> ('z svc_scheme, unit) prog) \<Rightarrow> string \<Rightarrow> ('z svc_scheme, bool) prog" where
  "refresh_one w update actorURL = handle (FetchActor w actorURL) (\<lambda>r. case r of
      Inl _ \<Rightarrow> ret False
    | Inr actor \<Rightarrow> handle (update (fa_key_pem actor) (EndpointFromActorURL w actorURL) (actorAlias w actor)) (\<lambda>u.
        ret (u = Inr ())))"

text \<open>The loop over a list of actors, with the actors that were refreshed; \<open>None\<close> when cancelled.\<close>

fun refresh_loop ::
  "world \<Rightarrow> (nat \<Rightarrow> bool) \<Rightarrow> (string \<Rightarrow> string \<Rightarrow> string \<Rightarrow> string option \<Rightarrow> ('z svc_scheme, unit) prog) \<Rightarrow> (string \<Rightarrow> bool) \<Rightarrow>
   nat \<Rightarrow> string list \<Rightarrow> string list \<Rightarrow> ('z svc_scheme, (nat \<times> string list) option) prog" where
  "refresh_loop w done update skip n refreshed [] = ret (Some (n, refreshed))"
| "refresh_loop w done update skip n refreshed (u # us) =
     (if done n then ret None
      else if skip u then refresh_loop w done update skip (Suc n) refreshed us
      else bindE (refresh_one w (update u) u) (\<lambda>ok.
        refresh_loop w done update skip (Suc n) (if ok then refreshed @ [u] else refreshed) us))"

definition RefreshActors :: "world \<Rightarrow> (nat \<Rightarrow> bool) \<Rightarrow> ('z svc_scheme, unit) prog" where
  "RefreshActors w done = handle ListFollows (\<lambda>r. case r of
      Inl _ \<Rightarrow> ret ()
    | Inr follows \<Rightarrow> bindE (refresh_loop w done RefreshFollow (\<lambda>_. False) 0 [] (map act_url follows)) (\<lambda>x. case x of
        None \<Rightarrow> ret ()
      | Some (n, refreshed) \<Rightarrow> handle ListFollowRequests (\<lambda>r. case r of
          Inl _ \<Rightarrow> ret ()
        | Inr requests \<Rightarrow> bindE (refresh_loop w done RefreshFollowRequest (\<lambda>_. False) n [] (map fr_url requests)) (\<lambda>x. case x of
            None \<Rightarrow> ret ()
          | Some (n, _) \<Rightarrow> handle ListAllOutgoingFollows (\<lambda>r. case r of
              Inl _ \<Rightarrow> ret ()
            | Inr outs \<Rightarrow> bindE (refresh_loop w done RefreshOutgoingFollow (\<lambda>u. u \<in> set refreshed) n [] (map act_url outs))
                (\<lambda>_. ret ()))))))"

section \<open>Handles resolve to the node they name\<close>

lemma Cut_at_user: "CHR ''@'' \<notin> set u \<Longrightarrow> Cut_at (u @ CHR ''@'' # d) = Some (u, d)"
proof -
  assume "CHR ''@'' \<notin> set u"
  then have "takeWhile (\<lambda>x. x \<noteq> CHR ''@'') (u @ CHR ''@'' # d) = u" by (induction u) auto
  then show ?thesis by (simp add: Cut_at_def Cut_before_def Contains_char_def Let_def)
qed

lemma HasPrefix_set: "HasPrefix s p \<Longrightarrow> set p \<subseteq> set s"
  unfolding HasPrefix_def by (metis set_take_subset)

lemma wf_valid_handle:
  "EqualFold d (id_Domain i) \<or> EqualFold d (id_AccountDomain i) \<Longrightarrow> wf_valid i (''acct:registry@'' @ d)"
  using Cut_at_user [of "''registry''" d] by (simp add: wf_valid_def CutPrefix_def HasPrefix_def)

lemma lookup_served:
  assumes "list_all (\<lambda>c. c \<notin> {CHR ''/'', CHR '':'', CHR ''@''}) d" and "map_of (wf_cache s) res = None" and "id_ActorURL i \<noteq> ''''" and "wf_valid i res" and "res \<noteq> ''''"
    and "\<And>n. WFGet x n (''https://'' @ d @ ''/.well-known/webfinger?resource='' @ wf_QueryEscape x res) = Some (WebFinger_ServeHTTP i ''GET'' res)"
  shows "fst (wf_Lookup x d res s) = Inr (id_ActorURL i)"
  using assms by (auto simp: wf_Lookup_def fetchWebFinger_def WebFinger_ServeHTTP_def actor_link_def Contains_char_def list_all_iff bindE_def gets_def
      modify_def ret_def)

text \<open>C23. A handle leads to its node: when the web delivers the answers of a node's own WebFinger endpoint, another
  node that follows \<open>@registry@domain\<close>, \<open>registry@domain\<close> or just \<open>domain\<close>, in any case of its letters, for the
  domain or the account domain of that node, resolves exactly its actor URL.\<close>

lemma webfinger_roundtrip:
  assumes "EqualFold d (id_Domain i) \<or> EqualFold d (id_AccountDomain i)" and "id_ActorURL i \<noteq> ''''" and "d \<noteq> ''''"
    and "list_all (\<lambda>c. c \<notin> {CHR ''/'', CHR '':'', CHR ''@''}) d" and "map_of (wf_cache s) (''acct:registry@'' @ d) = None"
    and "\<And>n. WFGet x n (''https://'' @ d @ ''/.well-known/webfinger?resource='' @ wf_QueryEscape x (''acct:registry@'' @ d)) =
      Some (WebFinger_ServeHTTP i ''GET'' (''acct:registry@'' @ d))"
  shows "input \<in> {''@registry@'' @ d, ''registry@'' @ d, d} \<Longrightarrow> fst (ResolveFollowTarget w x input s) = Inr (id_ActorURL i)"
proof -
  assume inp: "input \<in> {''@registry@'' @ d, ''registry@'' @ d, d}"
  have l: "fst (wf_Lookup x d (''acct:registry@'' @ d) s) = Inr (id_ActorURL i)"
    by (rule lookup_served [OF assms(4,5,2) wf_valid_handle [OF assms(1)] _ assms(6)]) simp
  have u: "Cut_at (''registry@'' @ d) = Some (''registry'', d)" using Cut_at_user [of "''registry''" d] by simp
  have n: "Cut_at d = None" "\<not> HasPrefix d ''@''" "\<not> HasPrefix d ''https://''" "\<not> HasPrefix d ''http://''"
    using assms(4) HasPrefix_set [of d "''@''"] HasPrefix_set [of d "''https://''"] HasPrefix_set [of d "''http://''"]
    by (auto simp: Cut_at_def Contains_char_def list_all_iff)
  from inp consider "input = ''@registry@'' @ d" | "input = ''registry@'' @ d" | "input = d" by blast
  then show ?thesis
  proof cases
    case 3
    with n l show ?thesis by (simp add: ResolveFollowTarget_def TrimPrefix_def Let_def)
  qed (use u l in \<open>simp_all add: ResolveFollowTarget_def TrimPrefix_def HasPrefix_def Let_def\<close>)
qed

section \<open>Refreshing\<close>

text \<open>What a refresh must not touch: everything but the key, the endpoint and the alias.\<close>

definition relation_of :: "Actor \<Rightarrow> Actor" where
  "relation_of a = a\<lparr>act_key := None, act_endpoint := '''', act_alias := None\<rparr>"

definition request_of :: "FollowRequest \<Rightarrow> FollowRequest" where
  "request_of r = r\<lparr>fr_key := '''', fr_endpoint := '''', fr_alias := None\<rparr>"

definition relations :: "tables \<Rightarrow> tables \<times> Actor list \<times> FollowRequest list" where
  "relations t = (t\<lparr>actors := [], follow_requests := []\<rparr>, map relation_of (actors t), map request_of (follow_requests t))"

lemma relations_actors:
  "(\<And>r. relation_of (f r) = relation_of r) \<Longrightarrow> relations (t\<lparr>actors := update_where p f (actors t)\<rparr>) = relations t"
  by (simp add: relations_def map_update_where)

lemma relations_requests:
  "(\<And>r. request_of (f r) = request_of r) \<Longrightarrow> relations (t\<lparr>follow_requests := update_where p f (follow_requests t)\<rparr>) = relations t"
  by (simp add: relations_def map_update_where)

lemma relations_refresh:
  "keeps (\<lambda>s. relations (tbl s) = R) (RefreshFollow u k e a)"
  "keeps (\<lambda>s. relations (tbl s) = R) (RefreshOutgoingFollow u k e a)"
  "keeps (\<lambda>s. relations (tbl s) = R) (RefreshFollowRequest u k e a)"
  unfolding RefreshFollow_def RefreshOutgoingFollow_def RefreshFollowRequest_def affecting_def update_actors_def
  by (intro keeps_intros; simp add: relations_actors relations_requests relation_of_def request_of_def)+

lemma relations_one:
  "(\<And>k e a. keeps (\<lambda>s. relations (tbl s) = R) (update k e a)) \<Longrightarrow> keeps (\<lambda>s. relations (tbl s) = R) (refresh_one w update u)"
  unfolding refresh_one_def by (intro keeps_intros keeps_fetch_tbl)

lemma relations_loop:
  assumes "\<And>u k e a. keeps (\<lambda>s. relations (tbl s) = R) (update u k e a)"
  shows "keeps (\<lambda>s. relations (tbl s) = R) (refresh_loop w stop update skip n refreshed us)"
  by (induction us arbitrary: n refreshed) (auto intro!: keeps_intros relations_one assms)

text \<open>Refreshing actors never changes a relation: whatever the remote nodes answer, whichever calls fail and
  whenever the context is cancelled, only keys, endpoints and aliases of actors and of pending
  requests can differ afterwards; who follows whom, with which status and filter, and every other
  table are exactly as before.\<close>

lemma refresh_keeps_relations:
  fixes s :: "'z svc_scheme"
  shows "relations (tbl (snd (RefreshActors w stop s))) = relations (tbl s)"
proof -
  have "keeps (\<lambda>u. relations (tbl u) = relations (tbl s)) (RefreshActors w stop :: ('z svc_scheme, unit) prog)"
    unfolding RefreshActors_def ListFollows_def ListFollowers_def ListFollowRequests_def ListAllOutgoingFollows_def
    by (intro keeps_intros keeps_query relations_loop relations_refresh)
  then show ?thesis by (simp add: keeps_def)
qed

end
