(* ===== verification/Follow_Handshake.thy ===== *)
theory Follow_Handshake
  imports Federation
begin

text \<open>
  Following from end to end: the service of one node (\<open>internal/federation/federation.go\<close>), the
  activities it sends (\<open>follow.go\<close>), the inbox of the other node (\<open>inbox_follow.go\<close>), its service, and the
  inbox of the first.
\<close>

section \<open>Following\<close>

definition recorded :: "string \<Rightarrow> tables \<Rightarrow> bool" where
  "recorded u t \<longleftrightarrow> fst (outgoing t u) \<and> snd (outgoing t u) \<in> {Some ''pending'', Some ''accepted''}"

lemma outgoing_peer_row: "keeps (\<lambda>s. P (outgoing (tbl s))) (UpsertActor (peer_row w u))"
proof -
  have "outgoing (t\<lparr>actors := upsert_where (\<lambda>r. act_url r = u) (merge_actor (peer_row w u)) (peer_row w u\<lparr>act_id := k, act_globs := None, act_created := c\<rparr>) (actors t),
      seq_actors := n\<rparr>) = outgoing t" for t k c n
  proof (cases "\<exists>r \<in> set (actors t). act_url r = u")
    case True
    then have "upsert_where (\<lambda>r. act_url r = u) (merge_actor (peer_row w u)) (peer_row w u\<lparr>act_id := k, act_globs := None, act_created := c\<rparr>) (actors t) =
        update_where (\<lambda>r. act_url r = u) (merge_actor (peer_row w u)) (actors t)"
      by (auto simp: upsert_where_def list_ex_iff update_where_def)
    then show ?thesis
      by (auto simp: outgoing_def fun_eq_iff find_update_url merge_actor_def peer_row_def coalesce_def split: option.split)
  next
    case False
    then have "find_where (\<lambda>r. act_url r = u) (actors t) = None" by (auto simp: find_where_None)
    with False show ?thesis
      by (auto simp: outgoing_def fun_eq_iff upsert_where_def list_ex_iff find_where_append find_where_single peer_row_def split: option.split)
  qed
  then show ?thesis unfolding UpsertActor_def by (intro keeps_intros) (simp add: peer_row_def)
qed

lemma actors_send: "keeps (\<lambda>s. P (actors (tbl s))) (SendFollow w esc self b u)"
  unfolding SendFollow_def deliverOrEnqueue_def EnqueueDelivery_def EnqueueDeliveryInserted_def DeliverActivity_def Let_def
  by (intro keeps_intros keeps_modify) simp_all

lemma outgoing_send: "keeps (\<lambda>s. P (outgoing (tbl s))) (SendFollow w esc self b u)"
  using actors_send [where P = "\<lambda>A. P (\<lambda>u. case find_where (\<lambda>r. act_url r = u) A of None \<Rightarrow> (False, None) | Some r \<Rightarrow> (act_we_follow r, act_we_status r))"]
  by (simp add: outgoing_def [abs_def])

lemma resolve_tbl: "keeps (\<lambda>s. P (tbl s) (direct_posts s)) (ResolveFollowTarget w x input)"
  unfolding ResolveFollowTarget_def wf_Lookup_def fetchWebFinger_def Let_def
  by (intro keeps_intros keeps_modify keepsI) (simp_all split: prod.split)


lemma fetch_quiet: "keeps (\<lambda>s. P (tbl s) (direct_posts s)) (FetchActor w u)"
  by (rule keepsI) (auto simp: FetchActor_def fail_def split: option.splits)

lemma add_outgoing_err: "AddOutgoingFollow b s = (Inl e, s') \<Longrightarrow> tbl s' = tbl s \<and> direct_posts s' = direct_posts s"
  by (auto simp: AddOutgoingFollow_def exec_def elim!: bindE_errE dest!: tick_err)

text \<open>Either nothing was recorded and nothing sent, or the outgoing follow was recorded first.\<close>

lemma add_follow_run:
  fixes s s' :: "'z svc_scheme"
  assumes "svc_AddFollow w x sv input s = (r, s')"
  obtains (nothing) e where "r = Inl e" and "tbl s' = tbl s" and "direct_posts s' = direct_posts s"
  | (sent) b and u v :: "'z svc_scheme" where "b \<noteq> sv_ActorURL sv" and "tbl u = tbl s" and "direct_posts u = direct_posts s"
      and "AddOutgoingFollow b u = (Inr (), v)"
      and "bindE (SendFollow w (wf_QueryEscape x) (sv_ActorURL sv) (sv_queue sv) b) (\<lambda>_.
         bindE (ignore (UpsertActor (peer_row w b))) (\<lambda>_. ret b)) v = (r, s')"
proof -
  let ?J = "\<lambda>u. tbl u = tbl s \<and> direct_posts u = direct_posts s"
  have res: "?J t" if "ResolveFollowTarget w x input s = (q', t)" for q' and t :: "'z svc_scheme"
    using keepsD [OF resolve_tbl [where P = "\<lambda>a b. a = tbl s \<and> b = direct_posts s"] _ that] by simp
  have fet: "?J t'" if "FetchActor w a t = (q', t')" and "?J t" for q' a and t t' :: "'z svc_scheme"
    using keepsD [OF fetch_quiet [where P = "\<lambda>a b. a = tbl s \<and> b = direct_posts s"] _ that(1)] that(2) by simp
  obtain q1 t1 where 1: "ResolveFollowTarget w x input s = (q1, t1)" by (cases "ResolveFollowTarget w x input s")
  show thesis
  proof (cases q1)
    case (Inl e)
    show thesis by (rule that(1) [of e]) (use Inl assms 1 res [OF 1] in \<open>simp_all add: svc_AddFollow_def bindE_def\<close>)
  next
    case (Inr a)
    obtain q2 t2 where 2: "FetchActor w a t1 = (q2, t2)" by (cases "FetchActor w a t1")
    note f = fet [OF 2 res [OF 1]]
    show thesis
    proof (cases "a = sv_ActorURL sv \<or> (case q2 of Inl _ \<Rightarrow> True | Inr y \<Rightarrow> fa_id y = sv_ActorURL sv)")
      case True
      then show thesis using assms 1 2 f res [OF 1] Inr
        by (cases q2) (auto intro!: that(1) simp: svc_AddFollow_def bindE_def fail_def split: if_split_asm)
    next
      case False
      then obtain y where y: "q2 = Inr y" "fa_id y \<noteq> sv_ActorURL sv" by (cases q2) auto
      obtain q3 t3 where 3: "AddOutgoingFollow (fa_id y) t2 = (q3, t3)" by (cases "AddOutgoingFollow (fa_id y) t2")
      show thesis
      proof (cases q3)
        case (Inl e)
        show thesis by (rule that(1) [of e])
            (use Inl add_outgoing_err [of "fa_id y" t2 e t3] assms 1 2 3 f y False \<open>q1 = Inr a\<close> in \<open>simp_all add: svc_AddFollow_def bindE_def\<close>)
      next
        case Inr3: (Inr z)
        with assms 1 2 3 y False \<open>q1 = Inr a\<close>
        have "bindE (SendFollow w (wf_QueryEscape x) (sv_ActorURL sv) (sv_queue sv) (fa_id y)) (\<lambda>_.
           bindE (ignore (UpsertActor (peer_row w (fa_id y)))) (\<lambda>_. ret (fa_id y))) t3 = (r, s')"
          by (simp add: svc_AddFollow_def bindE_def)
        then show thesis by (rule that(2) [rotated -1]) (use f y 3 Inr3 in simp_all)
      qed
    qed
  qed
qed

lemma recorded_after:
  fixes s s' :: "'z svc_scheme"
  assumes "acts.unique (actors (tbl s))" and "svc_AddFollow w x sv input s = (r, s')"
  shows "(tbl s' = tbl s \<and> direct_posts s' = direct_posts s \<and> (\<exists>e. r = Inl e)) \<or>
    (\<exists>b. b \<noteq> sv_ActorURL sv \<and> recorded b (tbl s') \<and> (case r of Inr b' \<Rightarrow> b' = b | Inl _ \<Rightarrow> True))"
  using assms(2)
proof (cases rule: add_follow_run)
  case (sent b u v)
  let ?rest = "bindE (SendFollow w (wf_QueryEscape x) (sv_ActorURL sv) (sv_queue sv) b) (\<lambda>_.
         bindE (ignore (UpsertActor (peer_row w b))) (\<lambda>_. ret b)) :: ('z svc_scheme, string) prog"
  have "outgoing (tbl v) = (outgoing (tbl u))(b := (True, if snd (outgoing (tbl u) b) = Some ''accepted'' then Some ''accepted'' else Some ''pending''))"
    using add_view [OF _ sent(4)] assms(1) sent(2) by (cases "outgoing (tbl u) b") auto
  then have "recorded b (tbl v)" by (simp add: recorded_def)
  moreover have "keeps (\<lambda>s. recorded b (tbl s)) ?rest"
    unfolding recorded_def
    by (intro keeps_intros outgoing_peer_row [where P = "\<lambda>f. fst (f b) \<and> snd (f b) \<in> {Some ''pending'', Some ''accepted''}"]
        outgoing_send [where P = "\<lambda>f. fst (f b) \<and> snd (f b) \<in> {Some ''pending'', Some ''accepted''}"])
  ultimately have "recorded b (tbl s')" using sent(5) by (auto dest: keepsD)
  moreover have "case r of Inr b' \<Rightarrow> b' = b | Inl _ \<Rightarrow> True" using sent(5) by (cases r) (auto elim!: bindE_okE)
  ultimately show ?thesis using sent(1) by blast
qed simp

text \<open>A Follow is never sent behind the node's back: whatever fails, if adding a follow put anything into the
  delivery queue or posted anything, the outgoing follow is on record, pending or accepted, so that an
  immediate Accept finds it; a successful call has recorded the actor it reports, which is never the
  node itself; and a call that changed nothing failed.\<close>

lemma follow_recorded:
  fixes s s' :: "'z svc_scheme"
  assumes "acts.unique (actors (tbl s))" and "svc_AddFollow w x sv input s = (r, s')"
  shows "(tbl s' = tbl s \<and> direct_posts s' = direct_posts s \<and> (\<exists>e. r = Inl e)) \<or>
    (\<exists>b. b \<noteq> sv_ActorURL sv \<and> recorded b (tbl s') \<and> (case r of Inr b' \<Rightarrow> b' = b | Inl _ \<Rightarrow> True))"
  by (rule recorded_after [OF assms])

section \<open>The handshake\<close>

text \<open>An activity as the receiver decodes it.\<close>

definition raw_activity :: "json \<Rightarrow> RawActivity" where
  "raw_activity j = (case j of
      JObj obj \<Rightarrow> \<lparr>ra_id = jstr obj ''id'', ra_type = jstr obj ''type'', ra_actor = jstr obj ''actor'',
        ra_object = (case map_of obj ''object'' of Some x \<Rightarrow> x | None \<Rightarrow> JNull)\<rparr>
    | _ \<Rightarrow> \<lparr>ra_id = '''', ra_type = '''', ra_actor = '''', ra_object = JNull\<rparr>)"

lemma raw_activity_sent:
  "raw_activity (activity_json i ty a ob) = \<lparr>ra_id = i, ra_type = ty, ra_actor = a, ra_object = ob\<rparr>"
  by (simp add: raw_activity_def activity_json_def jstr_def)

definition requested :: "string \<Rightarrow> string \<Rightarrow> tables \<Rightarrow> bool" where
  "requested a key t \<longleftrightarrow> (\<forall>r \<in> set (follow_requests t). fr_url r = a \<longrightarrow> fr_key r = key)"

definition following :: "string \<Rightarrow> string \<Rightarrow> tables \<Rightarrow> bool" where
  "following a key t \<longleftrightarrow> (\<exists>r \<in> set (actors t). act_url r = a \<and> act_they_follow r \<and> act_key r = Some key)"

lemma request_stored:
  "AddFollowRequest a key ep al s = (Inr x, s') \<Longrightarrow> requested a key (tbl s')"
proof -
  have "requested a key (t\<lparr>follow_requests := upsert_where (\<lambda>r. fr_url r = a) (\<lambda>r. r\<lparr>fr_key := key, fr_endpoint := ep, fr_alias := al\<rparr>)
      \<lparr>fr_id = k, fr_url = a, fr_key = key, fr_endpoint = ep, fr_alias = al, fr_requested = c\<rparr> (follow_requests t), seq_requests := n\<rparr>)" for t k c n
    by (auto simp: requested_def upsert_where_def list_ex_iff)
  note row = this
  assume "AddFollowRequest a key ep al s = (Inr x, s')"
  from exec_ok [OF this [unfolded AddFollowRequest_def]] show "requested a key (tbl s')" by (simp only: row)
qed

lemma keeps_requested:
  "keeps (\<lambda>s. requested a key (tbl s)) (shouldAutoAccept w cfg u)"
  "keeps (\<lambda>s. requested a key (tbl s)) (notify_pending cfg u)"
  "keeps (\<lambda>s. requested a key (tbl s)) (AcceptFollowRequest u)"
  "keeps (\<lambda>s. requested a key (tbl s)) (SendAccept w self b u)"
  unfolding shouldAutoAccept_def notify_pending_def AcceptFollowRequest_def AddFollow_def SendAccept_def deliverOrEnqueue_def
    EnqueueDelivery_def EnqueueDeliveryInserted_def DeliverActivity_def GetFollowRequest_def GetOutgoingFollow_def new_uuid_def Let_def
  by (intro keeps_intros keeps_modify keepsI; auto simp: requested_def)+


lemma followed_requested:
  assumes "processFollow w cfg (raw_activity (activity_json i ''Follow'' a (JStr b))) key s = (Inr (), s')"
  shows "requested a key (tbl s')"
proof -
  let ?auto = "\<lambda>auto. if \<not> auto then notify_pending cfg a
          else handle (AcceptFollowRequest a) (\<lambda>r. case r of
              Inl _ \<Rightarrow> notify_pending cfg a
            | Inr _ \<Rightarrow> ignore (SendAccept w (self_actor cfg) (has_enqueue cfg) a))"
  from assms obtain ep al t u x where req: "AddFollowRequest a key ep al t = (Inr x, u)"
    and rest: "bindE (shouldAutoAccept w cfg a) ?auto u = (Inr (), s')"
    unfolding processFollow_def raw_activity_sent RawActivity.simps json.case Let_def
    by (simp only: handle_run split: if_split_asm) (auto simp only: fail_run elim!: bindE_okE [where m = "AddFollowRequest p q r t" for p q r t])
  have "keeps (\<lambda>s. requested a key (tbl s)) (bindE (shouldAutoAccept w cfg a) ?auto)"
    by (intro keeps_intros keeps_requested)
  from keepsD [OF this request_stored [OF req] rest] show ?thesis .
qed

lemma keeps_following:
  "keeps (\<lambda>s. following a key (tbl s)) (AddOutgoingFollow u)"
  "keeps (\<lambda>s. following a key (tbl s)) (UpsertActor (peer_row w u))"
proof -
  have *: "following a key (t\<lparr>actors := upsert_where p f new (actors t), seq_actors := n\<rparr>)"
    if "following a key t" and "\<And>r. act_url (f r) = act_url r" "\<And>r. act_they_follow r \<Longrightarrow> act_they_follow (f r)"
      "\<And>r. act_key r = Some key \<Longrightarrow> act_key (f r) = Some key" for t p f new n
  proof -
    from that(1) obtain r where r: "r \<in> set (actors t)" "act_url r = a" "act_they_follow r" "act_key r = Some key"
      by (auto simp: following_def)
    let ?r = "if p r then f r else r"
    have "?r \<in> set (upsert_where p f new (actors t))" using r(1) by (auto simp: upsert_where_def list_ex_iff)
    moreover have "act_url ?r = a" "act_they_follow ?r" "act_key ?r = Some key" using r that(2-4) by simp_all
    ultimately show ?thesis unfolding following_def by (intro bexI [of _ ?r] conjI) simp_all
  qed
  show "keeps (\<lambda>s. following a key (tbl s)) (AddOutgoingFollow u)"
    unfolding AddOutgoingFollow_def by (intro keeps_intros *) simp_all
  show "keeps (\<lambda>s. following a key (tbl s)) (UpsertActor (peer_row w u))"
    unfolding UpsertActor_def by (intro keeps_intros *) (simp_all add: merge_actor_def peer_row_def coalesce_def)
qed

lemma following_actors: "(\<And>A. keeps (\<lambda>s. actors (tbl s) = A) m) \<Longrightarrow> keeps (\<lambda>s. following a key (tbl s)) m"
  unfolding following_def keeps_def by metis

lemma actors_send_accept: "keeps (\<lambda>s. actors (tbl s) = A) (SendAccept w self b u)"
  unfolding SendAccept_def deliverOrEnqueue_def EnqueueDelivery_def EnqueueDeliveryInserted_def DeliverActivity_def new_uuid_def Let_def
  by (intro keeps_intros keeps_modify keepsI) simp_all

lemma keeps_following_send: "keeps (\<lambda>s. following a key (tbl s)) (SendFollow w esc self b u)"
  by (rule following_actors) (rule actors_send)

lemma accepted_following:
  fixes s s' :: "'z svc_scheme"
  assumes "svc_AcceptFollow w x sv input mode s = (Inr (a, back), s')" and "requested a key (tbl s)"
  shows "following a key (tbl s')"
proof -
  let ?rest = "\<lambda>a. bindE (ignore (SendAccept w (sv_ActorURL sv) (sv_queue sv) a)) (\<lambda>_.
        if mode = ''mutual'' then handle (sendMutualFollowBack w x sv a) (\<lambda>sent. ret (a, sent = Inr True)) else ret (a, False))
        :: ('z svc_scheme, string \<times> bool) prog"
  have loc: "keeps (\<lambda>s. P (tbl s)) (locateFollowRequest w x input :: ('z svc_scheme, FollowRequest option) prog)" for P
    unfolding locateFollowRequest_def GetFollowRequest_def FindFollowRequestByInput_def Let_def
    by (intro keeps_intros resolve_tbl [where P = "\<lambda>t _. P t"])
  from assms(1) obtain req y and t u :: "'z svc_scheme" where "locateFollowRequest w x input s = (Inr (Some req), t)"
    and acc: "AcceptFollowRequest (fr_url req) t = (Inr y, u)" and rest: "?rest (fr_url req) u = (Inr (a, back), s')"
    unfolding svc_AcceptFollow_def by (auto simp only: fail_run prod.inject sum.inject option.inject elim!: bindE_okE [where m = "locateFollowRequest w x input"]
        bindE_okE [where m = "AcceptFollowRequest z" for z] split: option.split_asm)
  then have t: "tbl t = tbl s" using keepsD [OF loc [of "\<lambda>v. v = tbl s"] refl] by simp
  from rest have a: "fr_url req = a" by (auto simp: handle_run elim!: bindE_okE split: if_split_asm)
  from accept_request_atomic [OF acc] obtain fr r where "find_where (\<lambda>q. fr_url q = a) (follow_requests (tbl t)) = Some fr"
    and r: "find_where (\<lambda>y. act_url y = a) (actors (tbl u)) = Some r" "act_they_follow r" "act_key r = Some (fr_key fr)"
    by (auto simp: a)
  from find_where_Some [OF this(1)] assms(2) t have "fr_key fr = key" by (auto simp: requested_def)
  with r find_where_Some [OF r(1)] have "following a key (tbl u)" by (auto simp: following_def)
  moreover have "keeps (\<lambda>s. following a key (tbl s)) (?rest a)"
    unfolding sendMutualFollowBack_def GetOutgoingFollow_def
    by (intro keeps_intros keeps_following keeps_following_send following_actors [OF actors_send_accept])
  ultimately show ?thesis using rest a by (auto dest: keepsD)
qed

lemma outgoing_request: "keeps (\<lambda>s. P (outgoing (tbl s))) (AcceptFollowRequest u)"
proof -
  have "outgoing (t\<lparr>actors := upsert_where (\<lambda>r. act_url r = v) f new (actors t), seq_actors := n\<rparr>) = outgoing t"
    if "\<And>r. act_url (f r) = act_url r \<and> act_we_follow (f r) = act_we_follow r \<and> act_we_status (f r) = act_we_status r"
      and "act_url new = v" "\<not> act_we_follow new" "act_we_status new = None" for t v f new n
  proof (cases "\<exists>r \<in> set (actors t). act_url r = v")
    case True
    then have "upsert_where (\<lambda>r. act_url r = v) f new (actors t) = update_where (\<lambda>r. act_url r = v) f (actors t)"
      by (auto simp: upsert_where_def list_ex_iff update_where_def)
    with that show ?thesis by (auto simp: outgoing_def fun_eq_iff find_update_url split: option.split)
  next
    case False
    then have "find_where (\<lambda>r. act_url r = v) (actors t) = None" by (auto simp: find_where_None)
    with False that show ?thesis
      by (auto simp: outgoing_def fun_eq_iff upsert_where_def list_ex_iff find_where_append find_where_single split: option.split)
  qed
  note rows = this
  have requests: "outgoing (t\<lparr>follow_requests := R\<rparr>) = outgoing t" for t R by (simp add: outgoing_def fun_eq_iff)
  show ?thesis
    unfolding AcceptFollowRequest_def GetFollowRequest_def AddFollow_def
    by (intro keeps_intros) (simp_all add: rows requests default_actor_def)
qed


lemma outgoing_send_accept: "keeps (\<lambda>s. P (outgoing (tbl s))) (SendAccept w self q' u)"
proof (rule keepsI)
  fix s :: "'a fed_scheme" assume P: "P (outgoing (tbl s))"
  have "actors (tbl (snd (SendAccept w self q' u s))) = actors (tbl s)"
    using keepsD [OF actors_send_accept refl surjective_pairing] .
  with P show "P (outgoing (tbl (snd (SendAccept w self q' u s))))" by (simp add: outgoing_def [abs_def])
qed

lemma accept_follow:
  "processAccept w cfg (raw_activity (activity_json i ''Accept'' b (follow_json a b'))) = handle (GetOutgoingFollow b) (\<lambda>outgoing. case outgoing of
            Inl _ \<Rightarrow> ret ()
          | Inr x \<Rightarrow>
              if \<not> HasPendingOutgoingFollow x then ret ()
              else bindE (ignore (AcceptOutgoingFollow b)) (\<lambda>_.
                if autoAccept cfg = ''mutual'' then
                  handle (GetFollowRequest b) (\<lambda>fr. case fr of
                      Inr (Some _) \<Rightarrow> handle (AcceptFollowRequest b) (\<lambda>r. case r of
                          Inl _ \<Rightarrow> ret ()
                        | Inr _ \<Rightarrow> ignore (SendAccept w (self_actor cfg) (has_enqueue cfg) b))
                    | _ \<Rightarrow> ret ())
                else ret ()))"
  unfolding processAccept_def raw_activity_sent RawActivity.simps extractObjectType_def follow_json_def json.case
  by (simp add: jstr_def)

text \<open>The Accept of a follow that is on record.\<close>

lemma accept_completes:
  assumes "processAccept w cfg (raw_activity (activity_json i ''Accept'' b (follow_json a b))) s = (Inr (), s')"
    and "acts.unique (actors (tbl s))" and "recorded b (tbl s)" and "faults s = []"
  shows "outgoing (tbl s') b = (True, Some ''accepted'')"
proof -
  from assms(3) obtain row where row: "find_where (\<lambda>r. act_url r = b) (actors (tbl s)) = Some row" "act_we_follow row"
    "act_we_status row \<in> {Some ''pending'', Some ''accepted''}"
    by (auto simp: recorded_def outgoing_def split: option.split_asm)
  have get: "GetOutgoingFollow b s = (Inr (Some row), s)"
  proof -
    have "find_where (\<lambda>r. act_url r = b \<and> act_we_follow r) (actors (tbl s)) = Some row"
      using row find_where_Some [OF row(1)] assms(2) by (intro find_where_unique) (auto simp: acts.unique_def intro: map_eq_inj_on)
    then show ?thesis using assms(4) by (simp add: GetOutgoingFollow_def query_def tick_def bindE_def gets_def)
  qed
  show ?thesis
  proof (cases "act_we_status row = Some ''pending''")
    case False
    with row get assms(1) show ?thesis
      by (auto simp: processAccept_def raw_activity_sent extractObjectType_def follow_json_def jstr_def handle_run
          HasPendingOutgoingFollow_def FollowStatusPending_def ret_def outgoing_def split: if_split_asm)
  next
    case True
    obtain q' u where acc: "AcceptOutgoingFollow b s = (q', u)" by (cases "AcceptOutgoingFollow b s")
    have "q' = Inr ()"
      using acc row True assms(4) find_where_Some [OF row(1)]
      by (auto simp: AcceptOutgoingFollow_def affecting_def update_actors_def exec_rows_def tick_def bindE_def ret_def fail_def count_where_def
          pending_outgoing_def FollowStatusPending_def filter_empty_conv split: if_split_asm)
    with accept_view [OF assms(2) acc] row True have out: "outgoing (tbl u) b = (True, Some ''accepted'')"
      by (auto simp: outgoing_def split: if_split_asm)
    let ?rest = "if autoAccept cfg = ''mutual'' then
                  handle (GetFollowRequest b) (\<lambda>fr. case fr of
                      Inr (Some _) \<Rightarrow> handle (AcceptFollowRequest b) (\<lambda>r. case r of
                          Inl _ \<Rightarrow> ret ()
                        | Inr _ \<Rightarrow> ignore (SendAccept w (self_actor cfg) (has_enqueue cfg) b))
                    | _ \<Rightarrow> ret ())
                else ret ()"
    have "keeps (\<lambda>s. outgoing (tbl s) b = (True, Some ''accepted'')) ?rest"
      unfolding GetFollowRequest_def
      by (intro keeps_intros outgoing_request [where P = "\<lambda>f. f b = (True, Some ''accepted'')"]
          outgoing_send_accept [where P = "\<lambda>f. f b = (True, Some ''accepted'')"])
    moreover have "?rest u = (Inr (), s')"
    proof -
      have "ignore (AcceptOutgoingFollow b) s = (Inr (), u)" using acc by (simp add: ignore_run)
      moreover have "HasPendingOutgoingFollow (Some row)" using True row(2) by (simp add: HasPendingOutgoingFollow_def FollowStatusPending_def)
      ultimately show ?thesis using assms(1) get unfolding accept_follow handle_run by (auto simp: bindE_Inr)
    qed
    ultimately show ?thesis using out by (blast dest: keepsD)
  qed
qed


lemma unique_add_follow:
  fixes s s' :: "'z svc_scheme"
  assumes "acts.unique (actors (tbl s))" and "svc_AddFollow w x sv input s = (r, s')"
  shows "acts.unique (actors (tbl s'))"
proof -
  have "keeps (\<lambda>s. acts.unique (actors (tbl s))) (svc_AddFollow w x sv input :: ('z svc_scheme, string) prog)"
    unfolding svc_AddFollow_def AddOutgoingFollow_def UpsertActor_def
    by (intro keeps_intros resolve_tbl [where P = "\<lambda>t _. acts.unique (actors t)"] actors_send [where P = acts.unique])
      (auto intro!: acts.unique_upsert simp: merge_actor_def default_actor_def peer_row_def)
  from keepsD [OF this assms] show ?thesis .
qed


section \<open>Following again\<close>

lemma enqueue_known:
  assumes "\<exists>d. d \<in> set D \<and> dv_activity d = i \<and> dv_inbox d = inb"
  shows "keeps (\<lambda>s. delivery_queue (tbl s) = D \<and> direct_posts s = ps) (EnqueueDelivery i inb js)"
proof -
  have "insert_ignore (\<lambda>r. dv_activity r = i \<and> dv_inbox r = inb) new D = D" for new
    using assms by (auto simp: insert_ignore_def list_ex_iff)
  then show ?thesis
    unfolding EnqueueDelivery_def EnqueueDeliveryInserted_def exec_rows_def
    by (intro keeps_intros keeps_tick) (auto intro!: keepsI)
qed

text \<open>A follow that was delivered once is not sent again: the id of a Follow depends only on the two actors and
  the queue keeps one row per activity and inbox, delivered ones included. So as long as the row of an
  earlier Follow is there, adding the follow again (after it was removed or rejected) reports success
  and records it, but neither queues nor posts anything.\<close>

lemma refollow_not_sent:
  fixes s s' :: "'z svc_scheme"
  assumes "svc_AddFollow w x sv input s = (Inr b, s')" and "sv_queue sv" and "stable_world w peer" and "peer b = Some a" and "fa_id a = b"
    and "\<exists>d. d \<in> set (delivery_queue (tbl s)) \<and> dv_activity d = sv_ActorURL sv @ ''#follow-'' @ wf_QueryEscape x b \<and> dv_inbox d = fa_inbox a"
  shows "delivery_queue (tbl s') = delivery_queue (tbl s) \<and> direct_posts s' = direct_posts s"
  using assms(1)
proof (cases rule: add_follow_run)
  case (sent c u v)
  then have c: "c = b" by (auto elim!: bindE_okE)
  let ?J = "\<lambda>u. delivery_queue (tbl u) = delivery_queue (tbl s) \<and> direct_posts u = direct_posts s"
  have v: "?J v" using sent(2-4) by (auto simp: AddOutgoingFollow_def exec_def elim!: bindE_okE dest!: tick_ok)
  have fetch: "yields ?J (FetchActor w b) (\<lambda>y. fa_id y = b \<and> fa_inbox y = fa_inbox a)"
    using assms(3-5) by (intro yieldsI) (auto simp: FetchActor_def stable_world_def fail_def split: if_split_asm)
  have "keeps ?J (SendFollow w (wf_QueryEscape x) (sv_ActorURL sv) (sv_queue sv) b)"
    unfolding SendFollow_def deliverOrEnqueue_def Let_def
    by (intro keeps_bind_yields [OF fetch] keeps_intros) (use assms(2,6) in \<open>auto intro!: enqueue_known\<close>)
  moreover have "keeps ?J (UpsertActor (peer_row w b))"
    unfolding UpsertActor_def exec_def by (intro keeps_intros keeps_modify keeps_tick) simp_all
  ultimately have "keeps ?J (bindE (SendFollow w (wf_QueryEscape x) (sv_ActorURL sv) (sv_queue sv) b) (\<lambda>_.
         bindE (ignore (UpsertActor (peer_row w b))) (\<lambda>_. ret b)))" by (intro keeps_intros)
  from keepsD [OF this v] sent(5) c show ?thesis by simp
qed simp

section \<open>Witnesses\<close>

definition demo_svc :: svc where
  "demo_svc = fed.extend demo_fed (svc.fields [])"

definition demo_service :: Service where
  "demo_service = \<lparr>sv_ActorURL = ''https://a.example/ap'', sv_queue = True\<rparr>"

text \<open>The web: the other node answers at \<open>B.example\<close>.\<close>

definition demo_identity :: Identity where
  "demo_identity = \<lparr>id_ActorURL = ''https://b.example/ap'', id_Domain = ''b.example'', id_AccountDomain = ''b.example''\<rparr>"

definition demo_web :: wf_env where
  "demo_web = \<lparr>WFGet = (\<lambda>_ _. Some (WebFinger_ServeHTTP demo_identity ''GET'' ''acct:registry@B.example'')), wf_QueryEscape = (\<lambda>s. s)\<rparr>"

lemma webfinger_roundtrip_witness:
  "fst (ResolveFollowTarget pub_world demo_web ''@registry@B.example'' demo_svc) = Inr ''https://b.example/ap''"
proof -
  have "EqualFold ''B.example'' (id_Domain demo_identity)" by code_simp
  moreover have "wf_cache demo_svc = []" by (simp add: demo_svc_def svc.defs fed.defs)
  moreover have "id_ActorURL demo_identity = ''https://b.example/ap''" by (simp add: demo_identity_def)
  ultimately show ?thesis
    using webfinger_roundtrip [of "''B.example''" demo_identity demo_svc demo_web "''@registry@B.example''" pub_world]
    by (simp add: demo_web_def)
qed

definition demo_followed :: "(err + string) \<times> svc" where
  "demo_followed = svc_AddFollow pub_world demo_web demo_service ''https://b.example/ap'' demo_svc"

lemma demo_follow_runs:
  "svc_AddFollow pub_world demo_web demo_service ''https://b.example/ap'' demo_svc = (Inr ''https://b.example/ap'', snd demo_followed)"
proof -
  have "fst demo_followed = Inr ''https://b.example/ap''" by code_simp
  then show ?thesis by (simp add: demo_followed_def prod_eq_iff)
qed

lemma unique_demo_svc: "acts.unique (actors (tbl demo_svc))"
  by (simp add: demo_svc_def svc.defs fed.defs demo_fed_def demo_tables_def acts.unique_def)

lemma follow_recorded_witness: "recorded ''https://b.example/ap'' (tbl (snd demo_followed))"
  using follow_recorded [OF unique_demo_svc demo_follow_runs] by auto

text \<open>The row of the first Follow is still in the queue.\<close>

definition demo_refollow :: svc where
  "demo_refollow = demo_svc\<lparr>tbl := demo_tables\<lparr>delivery_queue := [\<lparr>dv_id = 1, dv_activity = ''https://a.example/ap#follow-https://b.example/ap'',
     dv_inbox = ''https://b.example/in'', dv_json = ''{}'', dv_attempts = 1, dv_max = 10, dv_next = 0, dv_error = None, dv_status = ''delivered'',
     dv_created = 0\<rparr>]\<rparr>\<rparr>"

lemma refollow_not_sent_witness:
  "let p = svc_AddFollow pub_world demo_web demo_service ''https://b.example/ap'' demo_refollow in
   fst p = Inr ''https://b.example/ap'' \<and> delivery_queue (tbl (snd p)) = delivery_queue (tbl demo_refollow)"
proof -
  let ?b = "''https://b.example/ap''"
  let ?p = "svc_AddFollow pub_world demo_web demo_service ?b demo_refollow"
  have 1: "fst ?p = Inr ?b" by code_simp
  obtain a where a: "demo_peer ?b = Some a" "fa_id a = ?b" "fa_inbox a = ''https://b.example/in''" by (auto simp: demo_peer_def)
  have "stable_world pub_world demo_peer" by (simp add: stable_world_def pub_world_def)
  moreover have "sv_queue demo_service" "sv_ActorURL demo_service = ''https://a.example/ap''" by (simp_all add: demo_service_def)
  moreover have "?p = (Inr ?b, snd ?p)" using 1 by (simp add: prod_eq_iff)
  ultimately show ?thesis using refollow_not_sent [of pub_world demo_web demo_service ?b demo_refollow ?b "snd ?p" demo_peer a] a 1
    by (simp add: Let_def demo_refollow_def demo_web_def)
qed

text \<open>The other node: nobody follows it yet.\<close>

definition demo_other :: fed where
  "demo_other = demo_fed\<lparr>tbl := empty_tables\<rparr>"

definition demo_processed :: "(err + unit) \<times> fed" where
  "demo_processed = processFollow pub_world (demo_cfg\<lparr>self_actor := ''https://b.example/ap''\<rparr>)
     (raw_activity (activity_json ''f'' ''Follow'' ''https://a.example/ap'' (JStr ''https://b.example/ap''))) ''KEYA'' demo_other"

definition demo_accepted :: "(err + string \<times> bool) \<times> svc" where
  "demo_accepted = svc_AcceptFollow pub_world demo_web \<lparr>sv_ActorURL = ''https://b.example/ap'', sv_queue = True\<rparr> ''https://a.example/ap'' ''none''
     (fed.extend (snd demo_processed) (svc.fields []))"

definition demo_completed :: "(err + unit) \<times> fed" where
  "demo_completed = processAccept pub_world demo_cfg (raw_activity (activity_json ''g'' ''Accept'' ''https://b.example/ap''
     (follow_json ''https://a.example/ap'' ''https://b.example/ap''))) (fed.truncate (snd demo_followed))"


end
