(* ===== verification/Replicator.thy ===== *)
theory Replicator
  imports Fetchers Frames "HOL-Library.Word"
begin

text \<open>
  Background work on peers: \<open>internal/peering/replicator.go\<close> (eager replication of announced blobs),
  \<open>health.go\<close> (health checks) and \<open>diskusage.go\<close> (the percentage behind the disk trigger of the collector).

  A replication runs in its own goroutine. The jobs in flight are part of the state, each with the
  stage it has reached, and the operations of the replicator, of its jobs and of the rest of the node
  interleave between any two calls of a job (\<open>repl_op\<close>). The time-out and the cancellation of a job's
  context make its next call fail; they are faults of the environment like any other.
\<close>

section \<open>The replicator\<close>

text \<open>What a goroutine was started for, and how far it is.\<close>

datatype job = PeerJob string string | URLJob string string

datatype stage = Pending | Located string | Fetched reader | Stored string int

text \<open>\<open>sem\<close> and \<open>wg\<close>: one entry per goroutine that holds a slot of the semaphore.\<close>

record repl = net +
  in_flight :: "(job \<times> stage) list"

definition replicationMaxConcurrency :: "nat \<Rightarrow> nat" where
  "replicationMaxConcurrency gomaxprocs = (let n = gomaxprocs * 10 in if n < 10 then 10 else n)"

definition replication_failure :: "string \<Rightarrow> ('z net_scheme, unit) prog" where
  "replication_failure msg = modify (\<lambda>s. s\<lparr>notified := notified s @ [msg]\<rparr>)"

definition submit :: "nat \<Rightarrow> job \<Rightarrow> ('z repl_scheme, unit) prog" where
  "submit maxConcurrency j = modify (\<lambda>s.
     if length (in_flight s) < maxConcurrency then s\<lparr>in_flight := in_flight s @ [(j, Pending)]\<rparr> else s)"

definition bg_ReplicateBlob :: "nat \<Rightarrow> string \<Rightarrow> string \<Rightarrow> ('z repl_scheme, unit) prog" where
  "bg_ReplicateBlob maxConcurrency peerEndpoint digest = handle (store_Exists digest) (\<lambda>r. case r of
      Inl _ \<Rightarrow> ret ()
    | Inr ex \<Rightarrow> if ex then ret () else submit maxConcurrency (PeerJob peerEndpoint digest))"

definition bg_ReplicateFromURL :: "nat \<Rightarrow> string \<Rightarrow> string \<Rightarrow> ('z repl_scheme, unit) prog" where
  "bg_ReplicateFromURL maxConcurrency sourceURL digest = handle (store_Exists digest) (\<lambda>r. case r of
      Inl _ \<Rightarrow> ret ()
    | Inr ex \<Rightarrow> if ex then ret () else submit maxConcurrency (URLJob sourceURL digest))"

text \<open>The calls of a job: the repository for the URL, the fetch, the put, the row.\<close>

definition locate_blob :: "string \<Rightarrow> ('z net_scheme, string) prog" where
  "locate_blob digest = handle (FindRepoForBlob digest) (\<lambda>r. case r of Inl _ \<Rightarrow> ret '''' | Inr repo \<Rightarrow> ret repo)"

definition fetched :: "string \<Rightarrow> string \<Rightarrow> ('z net_scheme, reader \<times> int) prog \<Rightarrow> ('z net_scheme, reader option) prog" where
  "fetched source digest m = handle m (\<lambda>r. case r of
      Inl _ \<Rightarrow> bindE (replication_failure (''Failed to replicate blob '' @ digest @ '' from '' @ source)) (\<lambda>_. ret None)
    | Inr (body, _) \<Rightarrow> ret (Some body))"

definition store_fetched :: "world \<Rightarrow> string \<Rightarrow> reader \<Rightarrow> ('z net_scheme, (string \<times> int) option) prog" where
  "store_fetched w digest body = handle (store_Put w body digest) (\<lambda>r. case r of
      Inl _ \<Rightarrow> bindE (replication_failure (''Failed to store replicated blob '' @ digest)) (\<lambda>_. ret None)
    | Inr x \<Rightarrow> ret (Some x))"

definition record_fetched :: "string \<Rightarrow> int \<Rightarrow> ('z net_scheme, unit) prog" where
  "record_fetched storedDigest sz = ignore (PutBlob storedDigest sz (Some ''application/octet-stream'') True)"

definition replicate_from ::
  "world \<Rightarrow> string \<Rightarrow> string \<Rightarrow> ('z net_scheme, reader \<times> int) prog \<Rightarrow> ('z net_scheme, unit) prog" where
  "replicate_from w source digest m = bindE (fetched source digest m) (\<lambda>b. case b of
      None \<Rightarrow> ret ()
    | Some body \<Rightarrow> bindE (store_fetched w digest body) (\<lambda>p. case p of
          None \<Rightarrow> ret ()
        | Some (storedDigest, sz) \<Rightarrow> record_fetched storedDigest sz))"

definition replicateFromURL :: "net_env \<Rightarrow> world \<Rightarrow> peer_fetcher \<Rightarrow> string \<Rightarrow> string \<Rightarrow> ('z net_scheme, unit) prog" where
  "replicateFromURL e w f sourceURL digest = replicate_from w sourceURL digest (FetchStream e f sourceURL)"

definition replicateBlob :: "net_env \<Rightarrow> world \<Rightarrow> peer_fetcher \<Rightarrow> string \<Rightarrow> string \<Rightarrow> ('z net_scheme, unit) prog" where
  "replicateBlob e w f peerEndpoint digest = bindE (locate_blob digest) (\<lambda>repo.
     if repo = '''' then ret ()
     else replicate_from w peerEndpoint digest (peer_FetchBlobStream e f peerEndpoint repo digest))"

text \<open>The same work one call at a time; \<open>None\<close> is the end of the goroutine.\<close>

fun job_step :: "net_env \<Rightarrow> world \<Rightarrow> peer_fetcher \<Rightarrow> job \<times> stage \<Rightarrow> ('z net_scheme, (job \<times> stage) option) prog" where
  "job_step e w f (PeerJob ep d, Pending) = bindE (locate_blob d) (\<lambda>repo.
     ret (if repo = '''' then None else Some (PeerJob ep d, Located repo)))"
| "job_step e w f (PeerJob ep d, Located repo) = bindE (fetched ep d (peer_FetchBlobStream e f ep repo d)) (\<lambda>b.
     ret (map_option (\<lambda>body. (PeerJob ep d, Fetched body)) b))"
| "job_step e w f (URLJob u d, Pending) = bindE (fetched u d (FetchStream e f u)) (\<lambda>b.
     ret (map_option (\<lambda>body. (URLJob u d, Fetched body)) b))"
| "job_step e w f (URLJob u d, Located repo) = ret None"
| "job_step e w f (j, Fetched body) = bindE (store_fetched w (case j of PeerJob _ d \<Rightarrow> d | URLJob _ d \<Rightarrow> d) body) (\<lambda>p.
     ret (map_option (\<lambda>(sd, n). (j, Stored sd n)) p))"
| "job_step e w f (j, Stored sd n) = bindE (record_fetched sd n) (\<lambda>_. ret None)"

text \<open>The scheduler lets the \<open>i\<close>-th job run to its next call; a finished job gives its slot back.\<close>

definition advance :: "net_env \<Rightarrow> world \<Rightarrow> peer_fetcher \<Rightarrow> nat \<Rightarrow> 'z repl_scheme \<Rightarrow> 'z repl_scheme" where
  "advance e w f i s = (if length (in_flight s) \<le> i then s
     else case job_step e w f (in_flight s ! i) s of
         (Inr (Some js), s') \<Rightarrow> s'\<lparr>in_flight := (in_flight s)[i := js]\<rparr>
       | (_, s') \<Rightarrow> s'\<lparr>in_flight := take i (in_flight s) @ drop (Suc i) (in_flight s)\<rparr>)"

section \<open>A job on its own\<close>

fun run_job :: "nat \<Rightarrow> net_env \<Rightarrow> world \<Rightarrow> peer_fetcher \<Rightarrow> job \<times> stage \<Rightarrow> ('z net_scheme, unit) prog" where
  "run_job 0 e w f js = fail (Errorf ''out of fuel'')"
| "run_job (Suc n) e w f js = bindE (job_step e w f js) (\<lambda>r. case r of None \<Rightarrow> ret () | Some js' \<Rightarrow> run_job n e w f js')"

text \<open>Errors are logged and reported, never returned: a job's calls have no error result.\<close>

lemma calls_no_error [raises_intros]:
  "raises {} (replication_failure msg)" "raises {} (locate_blob d)" "raises {} (fetched u d m)" "raises {} (store_fetched w d b)"
  "raises {} (record_fetched sd n)"
  unfolding replication_failure_def locate_blob_def fetched_def store_fetched_def record_fetched_def
  by (auto intro!: raises_intros split: sum.splits)

lemma job_no_error: "raises {} (job_step e w f js)"
  by (cases "(e, w, f, js)" rule: job_step.cases) (auto intro!: raises_intros)

lemma job_stepE:
  obtains r s' where "job_step e w f js s = (Inr r, s')"
  using raisesD [OF job_no_error] by (metis emptyE obj_sumE surj_pair)

text \<open>Run without interruption, the steps of a job are the function the goroutine calls.\<close>

lemma bindE_ret_right [simp]: "bindE m ret = m"
  by (auto simp: bindE_def ret_def fun_eq_iff split: prod.splits sum.splits)

lemma run_stored: "run_job (Suc n) e w f (j, Stored sd sz) = record_fetched sd sz"
  by (simp add: bindE_assoc)

lemma run_fetched: "run_job (Suc (Suc n)) e w f (j, Fetched body) =
    bindE (store_fetched w (case j of PeerJob _ d \<Rightarrow> d | URLJob _ d \<Rightarrow> d) body) (\<lambda>p. case p of
          None \<Rightarrow> ret () | Some (storedDigest, sz) \<Rightarrow> record_fetched storedDigest sz)"
  unfolding run_job.simps(2) [of "Suc n"] job_step.simps bindE_assoc bindE_ret
  by (rule arg_cong [where f = "bindE _"], rule ext)
    (auto simp only: run_stored option.map option.case split_conv split: option.split prod.split)

lemma run_fetch:
  "(\<lambda>b. case map_option (\<lambda>body. (j, Fetched body)) b of None \<Rightarrow> ret () | Some js' \<Rightarrow> run_job (Suc (Suc n)) e w f js') =
   (\<lambda>b. case b of None \<Rightarrow> ret () | Some body \<Rightarrow>
      bindE (store_fetched w (case j of PeerJob _ d \<Rightarrow> d | URLJob _ d \<Rightarrow> d) body) (\<lambda>p. case p of
          None \<Rightarrow> ret () | Some (storedDigest, sz) \<Rightarrow> record_fetched storedDigest sz))"
  by (rule ext) (auto simp only: run_fetched option.map option.case split: option.split)

lemma run_url_job: "run_job (Suc (Suc (Suc n))) e w f (URLJob u d, Pending) = replicateFromURL e w f u d"
  by (simp only: run_job.simps(2) [of "Suc (Suc n)"] job_step.simps(3) bindE_assoc bindE_ret run_fetch replicateFromURL_def replicate_from_def job.case)

lemma run_located: "run_job (Suc (Suc (Suc n))) e w f (PeerJob ep d, Located repo) =
    replicate_from w ep d (peer_FetchBlobStream e f ep repo d)"
  by (simp only: run_job.simps(2) [of "Suc (Suc n)"] job_step.simps(2) bindE_assoc bindE_ret run_fetch replicate_from_def job.case)

lemma run_peer_job: "run_job (Suc (Suc (Suc (Suc n)))) e w f (PeerJob ep d, Pending) = replicateBlob e w f ep d"
  unfolding replicateBlob_def run_job.simps(2) [of "Suc (Suc (Suc n))"] job_step.simps(1) bindE_assoc bindE_ret
  by (rule arg_cong [where f = "bindE (locate_blob d)"], rule ext) (simp add: run_located del: run_job.simps)

section \<open>Interleavings\<close>

text \<open>
  Everything that can happen between two calls of a job: submissions, steps of any job, blobs put and
  rows written by clients and peers (a row is marked as stored after the file was put), changes of
  other tables, time passing with any pattern of failures ahead.
\<close>

datatype repl_op =
    SubmitBlob string string
  | SubmitURL string string
  | Advance nat
  | ClientPut reader string
  | RecordBlob string int "string option" bool
  | OtherTables tables
  | Elapse int "bool list"

primrec repl_apply :: "nat \<Rightarrow> net_env \<Rightarrow> world \<Rightarrow> peer_fetcher \<Rightarrow> repl_op \<Rightarrow> 'z repl_scheme \<Rightarrow> 'z repl_scheme" where
  "repl_apply m e w f (SubmitBlob ep d) s = snd (bg_ReplicateBlob m ep d s)"
| "repl_apply m e w f (SubmitURL u d) s = snd (bg_ReplicateFromURL m u d s)"
| "repl_apply m e w f (Advance i) s = advance e w f i s"
| "repl_apply m e w f (ClientPut r d) s = snd (store_Put w r d s)"
| "repl_apply m e w f (RecordBlob d n mt st) s = (if st \<and> held s d = None then s else snd (PutBlob d n mt st s))"
| "repl_apply m e w f (OtherTables t) s = s\<lparr>tbl := t\<lparr>blobs := blobs (tbl s)\<rparr>\<rparr>"
| "repl_apply m e w f (Elapse c fs) s = s\<lparr>clock := c, faults := fs\<rparr>"

definition stored_digests :: "tables \<Rightarrow> string set" where
  "stored_digests t = blob_digest ` {b \<in> set (blobs t). blob_stored b}"

definition backed :: "'z repl_scheme \<Rightarrow> bool" where
  "backed s \<longleftrightarrow> stored_digests (tbl s) \<subseteq> dom (held s) \<and> (\<forall>j sd n. (j, Stored sd n) \<in> set (in_flight s) \<longrightarrow> sd \<in> dom (held s))"

definition sound :: "nat \<Rightarrow> world \<Rightarrow> 'z repl_scheme \<Rightarrow> bool" where
  "sound m w s \<longleftrightarrow> length (in_flight s) \<le> m \<and> files.addressed w s \<and> backed s"

lemma held_simps [simp]:
  "held (s\<lparr>in_flight := x\<rparr>) = held s" "held (s\<lparr>notified := y\<rparr>) = held s" "held (s\<lparr>tbl := t\<rparr>) = held s"
  "held (s\<lparr>clock := c\<rparr>) = held s" "held (s\<lparr>faults := fs\<rparr>) = held s"
  by (simp_all add: held_def fun_eq_iff)

lemma addressed_simps [simp]:
  "files.addressed w (s\<lparr>in_flight := x\<rparr>) = files.addressed w s" "files.addressed w (s\<lparr>notified := y\<rparr>) = files.addressed w s"
  "files.addressed w (s\<lparr>tbl := t\<rparr>) = files.addressed w s" "files.addressed w (s\<lparr>clock := c\<rparr>) = files.addressed w s"
  "files.addressed w (s\<lparr>faults := fs\<rparr>) = files.addressed w s"
  by (simp_all add: files.addressed_def)

text \<open>What each call can change: reads and fetches nothing of this, a put the files, a row the rows.\<close>

lemma quiet_calls:
  fixes P :: "(job \<times> stage) list \<Rightarrow> (string \<times> string \<times> int) list \<Rightarrow> Blob list \<Rightarrow> bool"
  shows "keeps (\<lambda>s :: 'z repl_scheme. P (in_flight s) (bfiles s) (blobs (tbl s))) (locate_blob d)"
    and "keeps (\<lambda>s :: 'z repl_scheme. P (in_flight s) (bfiles s) (blobs (tbl s))) (fetched u d (FetchStream e f u))"
    and "keeps (\<lambda>s :: 'z repl_scheme. P (in_flight s) (bfiles s) (blobs (tbl s))) (fetched ep d (peer_FetchBlobStream e f ep repo d))"
    and "keeps (\<lambda>s :: 'z repl_scheme. P (in_flight s) (bfiles s) (blobs (tbl s))) (store_Exists d)"
proof -
  have t: "keeps (\<lambda>s :: 'z repl_scheme. P (in_flight s) (bfiles s) (blobs (tbl s))) tick" by (rule keeps_tick) simp
  have q: "keeps (\<lambda>s :: 'z repl_scheme. P (in_flight s) (bfiles s) (blobs (tbl s))) (query g)" for g :: "tables \<Rightarrow> 'q"
    unfolding query_def by (intro keeps_intros t)
  have h: "keeps (\<lambda>s :: 'z repl_scheme. P (in_flight s) (bfiles s) (blobs (tbl s))) (http_do e rq)" for rq
    by (rule keepsI) (simp add: http_do_def)
  show "keeps (\<lambda>s :: 'z repl_scheme. P (in_flight s) (bfiles s) (blobs (tbl s))) (locate_blob d)"
    unfolding locate_blob_def FindRepoForBlob_def by (intro keeps_intros q)
  show "keeps (\<lambda>s :: 'z repl_scheme. P (in_flight s) (bfiles s) (blobs (tbl s))) (fetched u d (FetchStream e f u))"
    and "keeps (\<lambda>s :: 'z repl_scheme. P (in_flight s) (bfiles s) (blobs (tbl s))) (fetched ep d (peer_FetchBlobStream e f ep repo d))"
    unfolding fetched_def FetchStream_def peer_FetchBlobStream_def http_get_def replication_failure_def
    by (intro keeps_intros h keeps_modify; simp)+
  show "keeps (\<lambda>s :: 'z repl_scheme. P (in_flight s) (bfiles s) (blobs (tbl s))) (store_Exists d)"
    unfolding store_Exists_def by (intro keeps_intros t)
qed

lemma put_quiet:
  fixes P :: "(job \<times> stage) list \<Rightarrow> tables \<Rightarrow> bool"
  shows "keeps (\<lambda>s :: 'z repl_scheme. P (in_flight s) (tbl s)) (store_Put w r d)"
  unfolding store_Put_def by (intro keeps_intros keeps_tick keeps_modify) simp_all

lemma row_quiet:
  fixes P :: "(job \<times> stage) list \<Rightarrow> (string \<times> string \<times> int) list \<Rightarrow> bool"
  shows "keeps (\<lambda>s :: 'z repl_scheme. P (in_flight s) (bfiles s)) (PutBlob d n mt st)"
  unfolding PutBlob_def exec_def by (intro keeps_intros keeps_tick keeps_modify) simp_all

lemma row_stored:
  "stored_digests (tbl (snd (PutBlob d n mt st s))) \<subseteq> stored_digests (tbl s) \<union> (if st then {d} else {})"
proof (cases "tick s")
  case (Pair r t)
  then have "tbl t = tbl s" by (auto simp: tick_def split: list.splits)
  with Pair show ?thesis
    by (cases r) (auto simp: PutBlob_def exec_def bindE_def modify_def stored_digests_def upsert_where_def overwrite_blob_def
        list_ex_iff split: if_split_asm intro: rev_image_eqI)
qed

text \<open>A step of a job: files are only added, and only under their own hash; a row is marked as stored
  only when the job has put the file.\<close>

definition extends :: "world \<Rightarrow> 'z repl_scheme \<Rightarrow> 'z repl_scheme \<Rightarrow> bool" where
  "extends w s s' \<longleftrightarrow> in_flight s' = in_flight s \<and> (files.addressed w s \<longrightarrow> files.addressed w s') \<and> dom (held s) \<subseteq> dom (held s')"

lemma quiet_extends:
  fixes s s' :: "'z repl_scheme"
  assumes "\<And>P :: (job \<times> stage) list \<Rightarrow> (string \<times> string \<times> int) list \<Rightarrow> Blob list \<Rightarrow> bool.
      keeps (\<lambda>s :: 'z repl_scheme. P (in_flight s) (bfiles s) (blobs (tbl s))) m" and "m s = (r, s')"
  shows "extends w s s'" and "stored_digests (tbl s') = stored_digests (tbl s)"
proof -
  have *: "in_flight s' = in_flight s" "bfiles s' = bfiles s" "blobs (tbl s') = blobs (tbl s)"
    using keepsD [OF assms(1) [of "\<lambda>a b c. (a, b, c) = (in_flight s, bfiles s, blobs (tbl s))"] _ assms(2)] by simp_all
  then have "held s' = held s" by (simp add: held_def fun_eq_iff)
  with * show "extends w s s'" by (simp add: extends_def files.addressed_def)
  from * show "stored_digests (tbl s') = stored_digests (tbl s)" by (simp add: stored_digests_def)
qed

lemma put_extends:
  fixes s s' :: "'z repl_scheme"
  assumes "store_Put w r d s = (x, s')"
  shows "extends w s s'" and "tbl s' = tbl s" and "x = Inr (sd, n) \<Longrightarrow> sd \<in> dom (held s')"
proof -
  have *: "in_flight s' = in_flight s" "tbl s' = tbl s"
    using keepsD [OF put_quiet [of "\<lambda>a b. (a, b) = (in_flight s, tbl s)"] _ assms] by simp_all
  have "dom (held s) \<subseteq> dom (held s')"
    using files.put_ok [of w r d s] files.put_err [of w r d s] assms by (cases x) fastforce+
  with * show "extends w s s'" using files.put_addressed [OF _ assms] by (simp add: extends_def)
  show "tbl s' = tbl s" by (rule *)
  show "x = Inr (sd, n) \<Longrightarrow> sd \<in> dom (held s')" using files.put_ok [of w r d s sd n s'] assms by simp
qed

lemma row_extends:
  fixes s s' :: "'z repl_scheme"
  assumes "PutBlob d n mt st s = (x, s')"
  shows "extends w s s'" and "stored_digests (tbl s') \<subseteq> stored_digests (tbl s) \<union> (if st then {d} else {})"
    and "held s' = held s"
proof -
  have *: "in_flight s' = in_flight s" "bfiles s' = bfiles s"
    using keepsD [OF row_quiet [of "\<lambda>a b. (a, b) = (in_flight s, bfiles s)"] _ assms] by simp_all
  then show h: "held s' = held s" by (simp add: held_def fun_eq_iff)
  with * show "extends w s s'" by (simp add: extends_def files.addressed_def)
  show "stored_digests (tbl s') \<subseteq> stored_digests (tbl s) \<union> (if st then {d} else {})"
    using row_stored [of d n mt st s] assms by simp
qed

lemma store_fetched_effect:
  fixes s s' :: "'z repl_scheme"
  assumes "store_fetched w d b s = (Inr r, s')"
  shows "extends w s s' \<and> tbl s' = tbl s \<and> (\<forall>sd n. r = Some (sd, n) \<longrightarrow> sd \<in> dom (held s'))"
proof (cases "store_Put w b d s")
  case (Pair x t)
  note put = put_extends [OF Pair]
  show ?thesis
  proof (cases x)
    case (Inl y)
    then have "r = None" "s' = t\<lparr>notified := notified t @ [''Failed to store replicated blob '' @ d]\<rparr>"
      using assms Pair by (auto simp: store_fetched_def replication_failure_def prog_defs)
    then show ?thesis using put(1,2) by (simp add: extends_def)
  next
    case (Inr y)
    then have "r = Some y" "s' = t" using assms Pair by (auto simp: store_fetched_def prog_defs)
    then show ?thesis using put Inr by auto
  qed
qed

lemma job_effect:
  fixes s s' :: "'z repl_scheme"
  assumes "job_step e w f js s = (Inr r, s')"
  shows "extends w s s' \<and> stored_digests (tbl s') \<subseteq> stored_digests (tbl s) \<union> {sd. \<exists>j n. js = (j, Stored sd n)} \<and>
    (\<forall>j sd n. r = Some (j, Stored sd n) \<longrightarrow> sd \<in> dom (held s'))"
proof (cases "(e, w, f, js)" rule: job_step.cases)
  case (1 e' w' f' ep d)
  with assms obtain x where x: "locate_blob d s = (Inr x, s')" and "r = (if x = '''' then None else Some (PeerJob ep d, Located x))"
    by (auto elim!: bindE_okE)
  with 1 quiet_extends [OF quiet_calls(1) x] show ?thesis by (simp split: if_splits)
next
  case (2 e' w' f' ep d repo)
  with assms obtain x where x: "fetched ep d (peer_FetchBlobStream e f ep repo d) s = (Inr x, s')"
    and "r = map_option (\<lambda>body. (PeerJob ep d, Fetched body)) x" by (auto elim!: bindE_okE)
  with 2 quiet_extends [OF quiet_calls(3) x] show ?thesis by auto
next
  case (3 e' w' f' u d)
  with assms obtain x where x: "fetched u d (FetchStream e f u) s = (Inr x, s')"
    and "r = map_option (\<lambda>body. (URLJob u d, Fetched body)) x" by (auto elim!: bindE_okE)
  with 3 quiet_extends [OF quiet_calls(2) x] show ?thesis by auto
next
  case (4 e' w' f' u d repo)
  with assms show ?thesis by (auto simp: extends_def)
next
  case (5 e' w' f' j body)
  with assms obtain x where x: "store_fetched w (case j of PeerJob _ d \<Rightarrow> d | URLJob _ d \<Rightarrow> d) body s = (Inr x, s')"
    and "r = map_option (\<lambda>(sd, n). (j, Stored sd n)) x" by (auto elim!: bindE_okE)
  with 5 store_fetched_effect [OF x] show ?thesis by auto
next
  case (6 e' w' f' j sd n)
  with assms obtain u where "ignore (PutBlob sd n (Some ''application/octet-stream'') True) s = (Inr u, s')" "r = None"
    by (auto elim!: bindE_okE simp: record_fetched_def)
  then obtain x where "PutBlob sd n (Some ''application/octet-stream'') True s = (x, s')"
    by (auto simp: ignore_def handle_def split: prod.splits)
  from row_extends [OF this] show ?thesis using 6 \<open>r = None\<close> by auto
qed

lemma advance_cases:
  fixes s :: "'z repl_scheme"
  obtains (idle) "length (in_flight s) \<le> i" and "advance e w f i s = s"
    | (moved) js s' where "i < length (in_flight s)" and "job_step e w f (in_flight s ! i) s = (Inr (Some js), s')"
        and "advance e w f i s = s'\<lparr>in_flight := (in_flight s)[i := js]\<rparr>"
    | (ended) s' where "i < length (in_flight s)" and "job_step e w f (in_flight s ! i) s = (Inr None, s')"
        and "advance e w f i s = s'\<lparr>in_flight := take i (in_flight s) @ drop (Suc i) (in_flight s)\<rparr>"
proof (cases "length (in_flight s) \<le> i")
  case True
  then show thesis by (intro that(1)) (simp_all add: advance_def)
next
  case False
  obtain r s' where run: "job_step e w f (in_flight s ! i) s = (Inr r, s')" by (rule job_stepE)
  with False show thesis by (cases r) (auto simp: advance_def intro: that)
qed

lemma sound_step:
  fixes s s' :: "'z repl_scheme"
  assumes "sound m w s" and "extends w s s'" and "stored_digests (tbl s') \<subseteq> stored_digests (tbl s) \<union> D" and "D \<subseteq> dom (held s')"
    and "length jobs \<le> length (in_flight s)"
    and "\<And>j sd n. (j, Stored sd n) \<in> set jobs \<Longrightarrow> (j, Stored sd n) \<in> set (in_flight s) \<or> sd \<in> dom (held s')"
  shows "sound m w (s'\<lparr>in_flight := jobs\<rparr>)"
proof -
  have s: "length (in_flight s) \<le> m" "files.addressed w s" "stored_digests (tbl s) \<subseteq> dom (held s)"
    "\<And>j sd n. (j, Stored sd n) \<in> set (in_flight s) \<Longrightarrow> sd \<in> dom (held s)"
    using assms(1) unfolding sound_def backed_def by blast+
  have x: "files.addressed w s'" "dom (held s) \<subseteq> dom (held s')" using assms(2) s(2) by (simp_all add: extends_def)
  have "stored_digests (tbl s') \<subseteq> dom (held s')" using s(3) x(2) assms(3,4) by blast
  moreover have "(j, Stored sd n) \<in> set jobs \<Longrightarrow> sd \<in> dom (held s')" for j sd n
    using assms(6) [of j sd n] s(4) [of j sd n] x(2) by blast
  ultimately show ?thesis using s(1) x(1) assms(5) by (simp add: sound_def backed_def)
qed

lemma advance_sound:
  fixes s :: "'z repl_scheme"
  assumes "sound m w s"
  shows "sound m w (advance e w f i s)"
proof -
  let ?D = "{sd. \<exists>j n. in_flight s ! i = (j, Stored sd n)}"
  have D: "?D \<subseteq> dom (held s')" if i: "i < length (in_flight s)" and x: "extends w s s'" for s'
  proof
    fix sd assume "sd \<in> ?D"
    then obtain j n where "(j, Stored sd n) \<in> set (in_flight s)" using nth_mem [OF i] by auto
    then show "sd \<in> dom (held s')" using assms x unfolding sound_def backed_def extends_def by blast
  qed
  show ?thesis
  proof (cases rule: advance_cases [of s i e w f])
    case idle
    then show ?thesis using assms by simp
  next
    case (moved js s')
    note eff = job_effect [OF moved(2)]
    have "(j, Stored sd n) \<in> set (in_flight s) \<or> sd \<in> dom (held s')" if "(j, Stored sd n) \<in> set ((in_flight s)[i := js])" for j sd n
      using that eff set_update_subset_insert [of "in_flight s" i js] by blast
    then show ?thesis unfolding moved(3)
      using eff D [OF moved(1)] by (intro sound_step [OF assms, where D = ?D]) simp_all
  next
    case (ended s')
    note eff = job_effect [OF ended(2)]
    show ?thesis unfolding ended(3)
      using eff D [OF ended(1)] by (intro sound_step [OF assms, where D = ?D]) (auto simp del: domIff dest: in_set_takeD in_set_dropD)
  qed
qed

lemma submit_sound:
  fixes s :: "'z repl_scheme"
  assumes "sound m w s"
  shows "sound m w (snd (submit m j s))"
  using assms by (auto simp: submit_def modify_def sound_def backed_def)

lemma submission_sound:
  fixes s :: "'z repl_scheme"
  assumes "sound m w s"
  shows "sound m w (snd (handle (store_Exists d) (\<lambda>r. case r of Inl _ \<Rightarrow> ret () | Inr ex \<Rightarrow> if ex then ret () else submit m j) s))"
proof (cases "store_Exists d s")
  case (Pair r t)
  note x = quiet_extends [OF quiet_calls(4) Pair]
  have "sound m w (t\<lparr>in_flight := in_flight t\<rparr>)"
    using x(1) [of w] x(2) by (intro sound_step [OF assms x(1), where D = "{}"]) (simp_all add: extends_def)
  then have "sound m w t" by simp
  then show ?thesis using Pair submit_sound [of m w t j] by (auto simp: handle_def ret_def split: sum.splits)
qed

lemma op_sound:
  fixes s :: "'z repl_scheme"
  assumes "sound m w s"
  shows "sound m w (repl_apply m e w f op s)"
proof (cases op)
  case (SubmitBlob ep d)
  then show ?thesis using submission_sound [OF assms] by (simp add: bg_ReplicateBlob_def)
next
  case (SubmitURL u d)
  then show ?thesis using submission_sound [OF assms] by (simp add: bg_ReplicateFromURL_def)
next
  case (Advance i)
  then show ?thesis using advance_sound [OF assms] by simp
next
  case (ClientPut r d)
  obtain x t where run: "store_Put w r d s = (x, t)" by (cases "store_Put w r d s")
  note put = put_extends [OF run]
  have "sound m w (t\<lparr>in_flight := in_flight t\<rparr>)"
    using put(1,2) by (intro sound_step [OF assms put(1), where D = "{}"]) (simp_all add: extends_def)
  then show ?thesis using ClientPut run by simp
next
  case (RecordBlob d n mt st)
  obtain x t where run: "PutBlob d n mt st s = (x, t)" by (cases "PutBlob d n mt st s")
  note row = row_extends(1) [OF run, where w = w] row_extends(2,3) [OF run]
  show ?thesis
  proof (cases "st \<and> held s d = None")
    case False
    have "sound m w (t\<lparr>in_flight := in_flight t\<rparr>)"
      using row False by (intro sound_step [OF assms row(1) row(2)]) (auto simp: extends_def)
    then show ?thesis using RecordBlob False run assms by simp
  qed (use RecordBlob assms in simp)
next
  case (OtherTables t)
  then show ?thesis using assms by (simp add: sound_def backed_def stored_digests_def)
next
  case (Elapse c fs)
  then show ?thesis using assms by (simp add: sound_def backed_def)
qed

lemma repl_apply_run_sound: "sound m w s \<Longrightarrow> sound m w (fold (repl_apply m e w f) ops s)"
  by (induction ops arbitrary: s) (simp_all add: op_sound)


section \<open>Draining\<close>

text \<open>The calls a job has left.\<close>

fun calls_left :: "job \<times> stage \<Rightarrow> nat" where
  "calls_left (j, Pending) = 4"
| "calls_left (j, Located repo) = 3"
| "calls_left (j, Fetched body) = 2"
| "calls_left (j, Stored sd n) = 1"

definition work_left :: "'z repl_scheme \<Rightarrow> nat" where
  "work_left s = sum_list (map calls_left (in_flight s))"

lemma job_step_progress: "job_step e w f js s = (Inr (Some js'), s') \<Longrightarrow> calls_left js' < calls_left js"
  by (cases "(e, w, f, js)" rule: job_step.cases) (auto simp: eq_commute [of "Some js'"] elim!: bindE_okE split: if_splits)

lemma calls_left_pos: "0 < calls_left js" by (cases js rule: calls_left.cases) simp_all

lemma advance_progress:
  fixes s :: "'z repl_scheme"
  assumes "i < length (in_flight s)"
  shows "work_left (advance e w f i s) < work_left s"
proof (cases rule: advance_cases [of s i e w f])
  case (moved js s')
  let ?xs = "map calls_left (in_flight s)"
  have "calls_left js < ?xs ! i" using job_step_progress [OF moved(2)] moved(1) by simp
  moreover have "?xs ! i \<le> sum_list ?xs" using moved(1) by (intro elem_le_sum_list) simp
  ultimately show ?thesis using moved sum_list_update [of i ?xs "calls_left js"]
    by (simp add: work_left_def map_update)
next
  case (ended s')
  have "in_flight s = take i (in_flight s) @ in_flight s ! i # drop (Suc i) (in_flight s)"
    using ended(1) by (rule id_take_nth_drop)
  then have "work_left s = sum_list (map calls_left (take i (in_flight s))) + calls_left (in_flight s ! i) +
      sum_list (map calls_left (drop (Suc i) (in_flight s)))"
    unfolding work_left_def by (metis add.assoc list.simps(9) map_append sum_list.Cons sum_list_append)
  then show ?thesis using ended calls_left_pos [of "in_flight s ! i"] by (simp add: work_left_def)
qed (use assms in simp)

text \<open>\<open>Wait\<close>: no more submissions, and a scheduler picks which job runs next.\<close>

fun drain_run :: "nat \<Rightarrow> ('z repl_scheme \<Rightarrow> nat) \<Rightarrow> net_env \<Rightarrow> world \<Rightarrow> peer_fetcher \<Rightarrow> 'z repl_scheme \<Rightarrow> 'z repl_scheme" where
  "drain_run 0 pick e w f s = s"
| "drain_run (Suc n) pick e w f s = (if in_flight s = [] then s else drain_run n pick e w f (advance e w f (pick s) s))"


section \<open>Health checks\<close>

record PeerRecord =
  pr_ActorURL :: string
  pr_Endpoint :: string
  pr_IsHealthy :: bool

definition peer_record :: "Actor \<Rightarrow> PeerRecord" where
  "peer_record a = \<lparr>pr_ActorURL = act_url a, pr_Endpoint = act_endpoint a, pr_IsHealthy = act_healthy a\<rparr>"

definition health_notice :: "PeerRecord \<Rightarrow> bool \<Rightarrow> string" where
  "health_notice p healthy = ''Peer '' @ pr_Endpoint p @ (if healthy then '' is back online'' else '' is unreachable'')"

text \<open>The loop of \<open>checkAll\<close>; \<open>stop n\<close> tells whether the context is cancelled before the \<open>n\<close>-th peer.\<close>

fun health_loop :: "net_env \<Rightarrow> (nat \<Rightarrow> bool) \<Rightarrow> nat \<Rightarrow> PeerRecord list \<Rightarrow> ('z net_scheme, unit) prog" where
  "health_loop e stop n [] = ret ()"
| "health_loop e stop n (p # ps) = (if stop n then ret ()
     else handle (CheckHealth e (pr_Endpoint p)) (\<lambda>r. let healthy = (case r of Inl _ \<Rightarrow> False | Inr _ \<Rightarrow> True) in
       bindE (if healthy \<noteq> pr_IsHealthy p then modify (\<lambda>s. s\<lparr>notified := notified s @ [health_notice p healthy]\<rparr>) else ret ()) (\<lambda>_.
       bindE (ignore (SetPeerHealth (pr_ActorURL p) healthy)) (\<lambda>_.
       health_loop e stop (Suc n) ps))))"

definition checkAll :: "net_env \<Rightarrow> (nat \<Rightarrow> bool) \<Rightarrow> ('z net_scheme, unit) prog" where
  "checkAll e stop = handle ListAllPeers (\<lambda>r. case r of
      Inl _ \<Rightarrow> ret ()
    | Inr peers \<Rightarrow> health_loop e stop 0 (map peer_record peers))"

text \<open>What a peer that always answers the same way is worth.\<close>

definition alive :: "net_env \<Rightarrow> string \<Rightarrow> bool" where
  "alive e endpoint \<longleftrightarrow> (let url = peerURL endpoint ''/v2/'' in NewRequest e url \<and>
     (case Do e 0 \<lparr>rq_url = url, rq_auth = NoAuth\<rparr> of
        None \<Rightarrow> False
      | Some resp \<Rightarrow> rs_status resp = 200 \<or> rs_status resp = 401 \<and> Contains (rs_www resp) ''Bearer''))"

definition steady :: "net_env \<Rightarrow> bool" where
  "steady e \<longleftrightarrow> (\<forall>n rq. Do e n rq = Do e 0 rq)"

lemma check_health_alive:
  assumes "steady e"
  shows "(case fst (CheckHealth e ep s) of Inl _ \<Rightarrow> False | Inr _ \<Rightarrow> True) = alive e ep"
    and "\<exists>l. snd (CheckHealth e ep s) = s\<lparr>http_log := l\<rparr>"
proof -
  have d: "Do e (length l) rq = Do e 0 rq" for l :: "http_req list" and rq using assms unfolding steady_def by blast
  show "(case fst (CheckHealth e ep s) of Inl _ \<Rightarrow> False | Inr _ \<Rightarrow> True) = alive e ep"
    by (simp add: CheckHealth_def http_get_def http_do_def alive_def prog_defs Let_def d split: option.splits)
  show "\<exists>l. snd (CheckHealth e ep s) = s\<lparr>http_log := l\<rparr>"
    by (auto simp: CheckHealth_def http_get_def http_do_def prog_defs Let_def intro: exI [of _ "http_log s"] split: option.splits)
qed

lemma set_health_run:
  assumes "faults s = []"
  shows "SetPeerHealth u b s = (Inr (), s\<lparr>tbl := (tbl s)\<lparr>actors := map (\<lambda>r. if act_url r = u
      then r\<lparr>act_healthy := b, act_seen := Some (clock s)\<rparr> else r) (actors (tbl s))\<rparr>\<rparr>)"
  using assms by (simp add: SetPeerHealth_def SetActorHealth_def update_actors_def exec_rows_def tick_def prog_defs update_where_def)

definition checked :: "net_env \<Rightarrow> PeerRecord list \<Rightarrow> int \<Rightarrow> Actor \<Rightarrow> Actor" where
  "checked e ps c r = (case map_of (map (\<lambda>p. (pr_ActorURL p, alive e (pr_Endpoint p))) ps) (act_url r) of
      None \<Rightarrow> r
    | Some b \<Rightarrow> r\<lparr>act_healthy := b, act_seen := Some c\<rparr>)"

definition health_notices :: "net_env \<Rightarrow> PeerRecord list \<Rightarrow> string list" where
  "health_notices e ps = concat (map (\<lambda>p. if alive e (pr_Endpoint p) \<noteq> pr_IsHealthy p then [health_notice p (alive e (pr_Endpoint p))] else []) ps)"

lemma checked_Cons:
  assumes "pr_ActorURL p \<notin> pr_ActorURL ` set ps"
  shows "checked e ps c (if act_url r = pr_ActorURL p then r\<lparr>act_healthy := alive e (pr_Endpoint p), act_seen := Some c\<rparr> else r) =
    checked e (p # ps) c r"
proof -
  have "map_of (map (\<lambda>p. (pr_ActorURL p, alive e (pr_Endpoint p))) ps) (pr_ActorURL p) = None"
    using assms by (auto simp: map_of_eq_None_iff)
  then show ?thesis by (simp add: checked_def)
qed

lemma health_loop_effect:
  assumes "steady e" and "faults s = []" and "distinct (map pr_ActorURL ps)" and "health_loop e (\<lambda>_. False) n ps s = (r, s')"
  shows "tbl s' = (tbl s)\<lparr>actors := map (checked e ps (clock s)) (actors (tbl s))\<rparr> \<and> notified s' = notified s @ health_notices e ps"
  using assms(2-4)
proof (induction ps arbitrary: s n)
  case Nil
  then show ?case by (simp add: checked_def health_notices_def)
next
  case (Cons p ps)
  obtain q l where c: "CheckHealth e (pr_Endpoint p) s = (q, s\<lparr>http_log := l\<rparr>)" and q: "(case q of Inl _ \<Rightarrow> False | Inr _ \<Rightarrow> True) = alive e (pr_Endpoint p)"
    using check_health_alive [OF assms(1), of "pr_Endpoint p" s] by (metis prod.collapse)
  let ?b = "alive e (pr_Endpoint p)"
  let ?s1 = "s\<lparr>http_log := l, notified := notified s @ (if ?b \<noteq> pr_IsHealthy p then [health_notice p ?b] else [])\<rparr>"
  let ?s2 = "?s1\<lparr>tbl := (tbl s)\<lparr>actors := map (\<lambda>r. if act_url r = pr_ActorURL p
      then r\<lparr>act_healthy := ?b, act_seen := Some (clock s)\<rparr> else r) (actors (tbl s))\<rparr>\<rparr>"
  have same: "clock ?s1 = clock s" "tbl ?s1 = tbl s" "faults ?s1 = []" using Cons.prems(1) by simp_all
  have set: "SetPeerHealth (pr_ActorURL p) ?b ?s1 = (Inr (), ?s2)"
    using set_health_run [OF same(3), of "pr_ActorURL p" ?b] unfolding same .
  have notice: "(if ?b \<noteq> pr_IsHealthy p then modify (\<lambda>s. s\<lparr>notified := notified s @ [health_notice p ?b]\<rparr>) else ret ())
      (s\<lparr>http_log := l\<rparr>) = (Inr (), ?s1)" by (simp add: modify_def ret_def)
  have "health_loop e (\<lambda>_. False) n (p # ps) s = health_loop e (\<lambda>_. False) (Suc n) ps ?s2"
    unfolding health_loop.simps if_False handle_def c split_conv Let_def q
    by (subst bindE_Inr, rule notice, rule bindE_Inr) (simp only: ignore_def handle_def set ret_def split_conv)
  then have "health_loop e (\<lambda>_. False) (Suc n) ps ?s2 = (r, s')" using Cons.prems(3) by simp
  with same(1) Cons.prems(1,2) have "tbl s' = (tbl ?s2)\<lparr>actors := map (checked e ps (clock s)) (actors (tbl ?s2))\<rparr>"
    and "notified s' = notified ?s1 @ health_notices e ps" using Cons.IH [of ?s2 "Suc n"] by simp_all
  moreover have "pr_ActorURL p \<notin> pr_ActorURL ` set ps" using Cons.prems(2) by simp
  ultimately show ?case using checked_Cons [of p ps e "clock s"] by (simp add: o_def health_notices_def)
qed

lemma checked_records:
  assumes "acts.unique rows" and "r \<in> set rows" and "set rows' = set rows"
  shows "checked e (map peer_record rows') c r = r\<lparr>act_healthy := alive e (act_endpoint r), act_seen := Some c\<rparr>"
proof -
  let ?m = "map_of (map (\<lambda>p. (pr_ActorURL p, alive e (pr_Endpoint p))) (map peer_record rows'))"
  have "act_url r \<in> fst ` set (map (\<lambda>p. (pr_ActorURL p, alive e (pr_Endpoint p))) (map peer_record rows'))"
    using assms(2,3) by (force simp: peer_record_def)
  then obtain b where b: "?m (act_url r) = Some b" by (metis domD dom_map_of_conv_image_fst)
  then have "(act_url r, b) \<in> set (map (\<lambda>p. (pr_ActorURL p, alive e (pr_Endpoint p))) (map peer_record rows'))" by (rule map_of_SomeD)
  then obtain r' where "r' \<in> set rows" and "act_url r' = act_url r" and "b = alive e (act_endpoint r')"
    using assms(3) by (auto simp: peer_record_def)
  then have "b = alive e (act_endpoint r)" using assms(1,2) by (auto simp: acts.unique_def distinct_map dest: inj_onD)
  then show ?thesis using b by (simp add: checked_def)
qed

text \<open>A round of health checks that meets no I/O failure records for every peer whether it answered
  its probe, and when it was checked; no other column and no other table changes, and exactly the
  peers whose state changed are announced, each once.\<close>

lemma health_recorded:
  assumes "steady e" and "faults s = []" and "acts.unique (actors (tbl s))" and "checkAll e (\<lambda>_. False) s = (r, s')"
  shows "tbl s' = (tbl s)\<lparr>actors := map (\<lambda>a. a\<lparr>act_healthy := alive e (act_endpoint a), act_seen := Some (clock s)\<rparr>) (actors (tbl s))\<rparr>
    \<and> notified s' = notified s @ health_notices e (map peer_record (order_by_desc act_created (actors (tbl s))))"
proof -
  let ?rows = "order_by_desc act_created (actors (tbl s))"
  have "ListAllPeers s = (Inr ?rows, s)"
    using assms(2) by (simp add: ListAllPeers_def ListActors_def query_def tick_def prog_defs)
  then have run: "health_loop e (\<lambda>_. False) 0 (map peer_record ?rows) s = (r, s')"
    using assms(4) by (simp add: checkAll_def handle_def)
  have "distinct (map pr_ActorURL (map peer_record ?rows))"
    using assms(3) by (simp add: acts.unique_def peer_record_def o_def order_by_desc_def rev_map [symmetric] distinct_map inj_on_def)
  from health_loop_effect [OF assms(1,2) this run]
  show ?thesis using checked_records [OF assms(3) _ set_order_by_desc] by (auto intro!: map_cong tables.fold_congs)
qed

section \<open>Disk usage\<close>

text \<open>The unsigned 64-bit arithmetic on the block counts of \<open>statfs\<close>; \<open>None\<close> is a failed call.\<close>

definition diskUsedPercent :: "(64 word \<times> 64 word) option \<Rightarrow> 64 word option" where
  "diskUsedPercent st = (case st of
      None \<Rightarrow> None
    | Some (bblocks, bavail) \<Rightarrow> Some (if bblocks = 0 then 0 else ((bblocks - bavail) * 100) div bblocks))"

text \<open>The percentage is exact, and between 0 and 100, while a hundred times the number of blocks fits
  into 64 bits; beyond that the product wraps around.\<close>

lemma disk_percent_exact:
  assumes "bavail \<le> bblocks" and "bblocks \<noteq> 0" and "unat bblocks * 100 < 2 ^ 64" and "diskUsedPercent (Some (bblocks, bavail)) = Some pct"
  shows "unat pct = (unat bblocks - unat bavail) * 100 div unat bblocks \<and> unat pct \<le> 100"
proof -
  have le: "unat bavail \<le> unat bblocks" using assms(1) by (simp add: word_le_nat_alt)
  have used: "unat (bblocks - bavail) = unat bblocks - unat bavail" using assms(1) by (rule unat_sub)
  have fits: "unat (bblocks - bavail) * unat (100 :: 64 word) < 2 ^ LENGTH(64)"
    using assms(3) used by simp
  have prod: "unat ((bblocks - bavail) * 100) = (unat bblocks - unat bavail) * 100"
    by (subst unat_mult_lem [THEN iffD1, OF fits], subst used) simp
  have "pct = ((bblocks - bavail) * 100) div bblocks" using assms(2,4) by (simp add: diskUsedPercent_def)
  then have pct: "unat pct = (unat bblocks - unat bavail) * 100 div unat bblocks" by (simp only: unat_div prod)
  also have "\<dots> \<le> unat bblocks * 100 div unat bblocks" by (rule div_le_mono) simp
  also have "\<dots> = 100" using assms(2) by (simp add: unat_eq_0)
  finally show ?thesis using pct by simp
qed

lemma disk_percent_wraps:
  "diskUsedPercent (Some (2 ^ 60, 0)) = Some ((2 ^ 60 * 100) div 2 ^ 60) \<and> unat ((2 ^ 60 * 100) div 2 ^ 60 :: 64 word) = 4"
  by (simp add: diskUsedPercent_def)

section \<open>Witnesses\<close>

definition serving_net :: net_env where
  "serving_net = demo_net\<lparr>Do := (\<lambda>_ _. answer 200 ''layer'' '''')\<rparr>"

definition demo_repl :: repl where
  "demo_repl = net.extend demo_net_state (repl.fields [])"

definition demo_digest :: string where
  "demo_digest = hash_of pub_world ''layer''"

text \<open>One blob is announced, fetched, stored and recorded; a second announcement meets a failing disk.\<close>

definition demo_replicated :: repl where
  "demo_replicated = fold (repl_apply (replicationMaxConcurrency 1) serving_net pub_world \<lparr>pf_maxBlobSize = 100, pf_maxManifestSize = 100\<rparr>)
     [Elapse 2000 [], SubmitURL ''https://b.example/x'' demo_digest, Advance 0, Advance 0, Advance 0,
      Elapse 2001 [True], SubmitURL ''https://b.example/y'' demo_digest] demo_repl"



lemma health_recorded_witness:
  "tbl (snd (checkAll serving_net (\<lambda>_. False) (demo_net_state\<lparr>faults := []\<rparr>))) = demo_tables\<lparr>actors := map (\<lambda>a.
     a\<lparr>act_healthy := alive serving_net (act_endpoint a), act_seen := Some 1000\<rparr>) (actors demo_tables)\<rparr>"
proof -
  let ?s = "demo_net_state\<lparr>faults := []\<rparr>"
  have "steady serving_net" by (simp add: steady_def serving_net_def)
  moreover have "acts.unique (actors (tbl ?s))"
    by (simp add: acts.unique_def demo_net_state_def empty_disk_def demo_tables_def disk.defs net.defs)
  moreover have "tbl ?s = demo_tables" "clock ?s = 1000" by (simp_all add: demo_net_state_def empty_disk_def disk.defs net.defs)
  ultimately show ?thesis using health_recorded [OF _ _ _ prod.collapse [symmetric], of serving_net ?s] by simp
qed

end
