(* ===== verification/Httpsig.thy ===== *)
theory Httpsig
  imports Inbox "HOL-Library.Word"
begin

text \<open>
  HTTP signatures (\<open>internal/activitypub/httpsig.go\<close>): what a signed request must contain, how fresh it
  must be, and the cache that recognises a signature seen before.

  The signature library (building and checking the signature itself), the parsers for PEM, PKIX keys
  and dates and SHA-256 are parameters. Times are nanoseconds; an age is a \<open>time.Duration\<close>, a signed
  64-bit number with the saturation of \<open>time.Since\<close>. White space in header values is that of ASCII.
\<close>

section \<open>Requests, keys and the outside\<close>

text \<open>The first value of each header under its canonical name.\<close>

record http_request =
  hr_method :: string
  hr_Host :: string
  hr_headers :: "(string \<times> string) list"

definition Header_Get :: "http_request \<Rightarrow> string \<Rightarrow> string" where
  "Header_Get r name = (case map_of (hr_headers r) name of None \<Rightarrow> '''' | Some v \<Rightarrow> v)"

definition Header_Set :: "string \<Rightarrow> string \<Rightarrow> http_request \<Rightarrow> http_request" where
  "Header_Set name v r = r\<lparr>hr_headers := AList.update name v (hr_headers r)\<rparr>"

text \<open>An RSA key with the bits of its modulus, a key on a named curve, or a key of another type.\<close>

datatype public_key = RSAKey nat string | ECDSAKey string string | OtherKey string

datatype Algorithm = RSA_SHA256 | ECDSA_SHA256

record sig_env =
  se_NewVerifier :: "http_request \<Rightarrow> string option"
  se_Verify :: "http_request \<Rightarrow> public_key \<Rightarrow> Algorithm \<Rightarrow> bool"
  se_SignRequest :: "Algorithm \<Rightarrow> string list \<Rightarrow> public_key \<Rightarrow> string \<Rightarrow> string \<Rightarrow> http_request \<Rightarrow> http_request option"
  se_PemDecode :: "string \<Rightarrow> string option"
  se_ParsePKIX :: "string \<Rightarrow> public_key option"
  se_ParseTime :: "string \<Rightarrow> int option"
  se_FormatTime :: "int \<Rightarrow> string"
  se_Sum256 :: "string \<Rightarrow> string"

section \<open>Durations\<close>

type_synonym Duration = "64 word"

definition signatureMaxAge :: int where
  "signatureMaxAge = 5 * 60 * 1000000000"

definition time_Since :: "int \<Rightarrow> int \<Rightarrow> Duration" where
  "time_Since t date = word_of_int (max (- (2 ^ 63)) (min (2 ^ 63 - 1) (t - date)))"

text \<open>The test on the date header: the age, its sign flipped when it is negative, against the limit.\<close>

definition signature_expired :: "int \<Rightarrow> int \<Rightarrow> bool" where
  "signature_expired t date = (let age = time_Since t date; age' = (if sint age < 0 then - age else age)
     in signatureMaxAge < sint age')"

section \<open>The replay cache\<close>

text \<open>
  Entries with the time they expire. The library extends an entry that is hit (\<open>touch\<close>), unless it is
  configured not to.
\<close>

type_synonym SignatureCache = "(string \<times> int) list"

definition sigCacheTTL :: int where
  "sigCacheTTL = signatureMaxAge + 60 * 1000000000"

definition sig_key :: "string \<Rightarrow> string \<Rightarrow> string" where
  "sig_key keyID signature = keyID @ CHR 0x00 # signature"

definition cache_live :: "int \<Rightarrow> string \<Rightarrow> SignatureCache \<Rightarrow> bool" where
  "cache_live t k c \<longleftrightarrow> (case map_of c k of None \<Rightarrow> False | Some ex \<Rightarrow> t \<le> ex)"

definition seen :: "bool \<Rightarrow> int \<Rightarrow> string \<Rightarrow> string \<Rightarrow> SignatureCache \<Rightarrow> bool \<times> SignatureCache" where
  "seen touch t keyID signature c = (let k = sig_key keyID signature in
     (cache_live t k c, if cache_live t k c \<and> \<not> touch then c else AList.update k (t + sigCacheTTL) c))"

section \<open>The Signature header\<close>

definition Trim_char :: "string \<Rightarrow> char \<Rightarrow> string" where
  "Trim_char s c = TrimRight_char (dropWhile (\<lambda>x. x = c) s) c"

definition Fields :: "string \<Rightarrow> string list" where
  "Fields s = filter (\<lambda>x. x \<noteq> '''') (split_on (CHR '' '') (map (\<lambda>c. if is_space c then CHR '' '' else c) s))"

fun headers_field :: "string list \<Rightarrow> string option \<Rightarrow> err + string option" where
  "headers_field [] found = Inr found"
| "headers_field (part # parts) found = (case CutPrefix (TrimSpace part) ''headers='' of
      None \<Rightarrow> headers_field parts found
    | Some val \<Rightarrow>
        if found \<noteq> None then Inl (Errorf ''duplicate headers= field in Signature header'')
        else headers_field parts (Some (Trim_char val (CHR 0x22))))"

definition extractSignedHeaders :: "http_request \<Rightarrow> err + string list" where
  "extractSignedHeaders req = (let sig = Header_Get req ''Signature'' in
     if sig = '''' then Inl (Errorf ''missing Signature header'')
     else (case headers_field (split_on (CHR '','') sig) None of
         Inl e \<Rightarrow> Inl e
       | Inr None \<Rightarrow> Inl (Errorf ''headers= field missing from Signature header'')
       | Inr (Some headersVal) \<Rightarrow> Inr (Fields headersVal)))"

fun signature_field :: "string list \<Rightarrow> string" where
  "signature_field [] = ''''"
| "signature_field (part # parts) = (case CutPrefix (TrimSpace part) ''signature='' of
      Some val \<Rightarrow> Trim_char val (CHR 0x22)
    | None \<Rightarrow> signature_field parts)"

definition extractRawSignature :: "http_request \<Rightarrow> string" where
  "extractRawSignature req = signature_field (split_on (CHR '','') (Header_Get req ''Signature''))"

definition hasHeader :: "string list \<Rightarrow> string \<Rightarrow> bool" where
  "hasHeader signedHeaders name \<longleftrightarrow> list_ex (\<lambda>h. EqualFold h name) signedHeaders"

section \<open>Verification\<close>

definition requiredSignedHeaders :: "string list" where
  "requiredSignedHeaders = [''(request-target)'', ''host'', ''date'']"

definition verifyBodyDigest :: "sig_env \<Rightarrow> world \<Rightarrow> http_request \<Rightarrow> string \<Rightarrow> err + unit" where
  "verifyBodyDigest e w req body = (let d = Header_Get req ''Digest'' in
     if d = '''' then Inl (Errorf ''digest header required when body is present'')
     else if \<not> HasPrefix d ''SHA-256='' then Inl (Errorf ''unsupported digest algorithm'')
     else if d \<noteq> ''SHA-256='' @ EncodeToString w (se_Sum256 e body) then Inl (Errorf ''body digest mismatch'')
     else Inr ())"

definition parsePublicKeyPEM :: "sig_env \<Rightarrow> string \<Rightarrow> err + public_key" where
  "parsePublicKeyPEM e pemStr = (case se_PemDecode e pemStr of
      None \<Rightarrow> Inl (Errorf ''no PEM block found'')
    | Some block \<Rightarrow> (case se_ParsePKIX e block of
          None \<Rightarrow> Inl (Errorf ''parsing key'')
        | Some (RSAKey bits k) \<Rightarrow> if bits < 2048 then Inl (Errorf ''RSA key too small'') else Inr (RSAKey bits k)
        | Some (ECDSAKey curve k) \<Rightarrow>
            if curve \<in> {''P-256'', ''P-384'', ''P-521''} then Inr (ECDSAKey curve k) else Inl (Errorf ''unsupported ECDSA curve'')
        | Some (OtherKey k) \<Rightarrow> Inl (Errorf ''unsupported key type'')))"

text \<open>\<open>algorithmForPublicKey\<close>, and \<open>algorithmForKey\<close> on the private half; \<open>None\<close> is the panic.\<close>

fun algorithmForPublicKey :: "public_key \<Rightarrow> Algorithm option" where
  "algorithmForPublicKey (ECDSAKey _ _) = Some ECDSA_SHA256"
| "algorithmForPublicKey (RSAKey _ _) = Some RSA_SHA256"
| "algorithmForPublicKey (OtherKey _) = None"

text \<open>Everything \<open>VerifyRequest\<close> checks before the replay cache; the result is the key id.\<close>

definition check_signature :: "sig_env \<Rightarrow> world \<Rightarrow> int \<Rightarrow> http_request \<Rightarrow> string \<Rightarrow> string \<Rightarrow> err + string" where
  "check_signature e w t req pubKeyPEM body = (case se_NewVerifier e req of
      None \<Rightarrow> Inl (Errorf ''verifying signature'')
    | Some keyID \<Rightarrow> (case extractSignedHeaders req of
        Inl x \<Rightarrow> Inl x
      | Inr signedHeaders \<Rightarrow>
          if \<not> list_all (hasHeader signedHeaders) requiredSignedHeaders then Inl (Errorf ''header must be included in signed headers'')
          else if body \<noteq> '''' \<and> \<not> hasHeader signedHeaders ''digest'' then Inl (Errorf ''digest must be included in signed headers when body is present'')
          else let dateStr = Header_Get req ''Date'' in
          if dateStr = '''' then Inl (Errorf ''missing Date header'')
          else (case se_ParseTime e dateStr of
              None \<Rightarrow> Inl (Errorf ''invalid Date header'')
            | Some date \<Rightarrow>
                if signature_expired t date then Inl (Errorf ''signature expired'')
                else (case if body \<noteq> '''' then verifyBodyDigest e w req body else Inr () of
                    Inl x \<Rightarrow> Inl x
                  | Inr _ \<Rightarrow> (case parsePublicKeyPEM e pubKeyPEM of
                        Inl x \<Rightarrow> Inl x
                      | Inr pubKey \<Rightarrow> (case algorithmForPublicKey pubKey of
                            None \<Rightarrow> Inl (Errorf ''unsupported public key type'')
                          | Some algo \<Rightarrow> if se_Verify e req pubKey algo then Inr keyID else Inl (Errorf ''invalid signature'')))))))"

definition VerifyRequest ::
  "sig_env \<Rightarrow> world \<Rightarrow> bool \<Rightarrow> int \<Rightarrow> http_request \<Rightarrow> string \<Rightarrow> string \<Rightarrow> (SignatureCache option, unit) prog" where
  "VerifyRequest e w touch t req pubKeyPEM body = (\<lambda>sigCache. case check_signature e w t req pubKeyPEM body of
      Inl x \<Rightarrow> (Inl x, sigCache)
    | Inr keyID \<Rightarrow> (case sigCache of
        None \<Rightarrow> (Inr (), None)
      | Some c \<Rightarrow>
          let sig = extractRawSignature req in
          if sig = '''' then (Inl (Errorf ''missing signature= field in Signature header''), sigCache)
          else (case seen touch t keyID sig c of
              (True, c') \<Rightarrow> (Inl (Errorf ''replayed signature detected''), Some c')
            | (False, c') \<Rightarrow> (Inr (), Some c'))))"

section \<open>Freshness\<close>

lemma sint_in_range: "- (2 ^ 63) \<le> z \<Longrightarrow> z < 2 ^ 63 \<Longrightarrow> sint (word_of_int z :: 64 word) = z"
  by (simp add: sint_sbintrunc' signed_take_bit_int_eq_self)

text \<open>The freshness test, with the arithmetic of \<open>time.Duration\<close>: a date is taken exactly when it is
  within five minutes of the clock, or so far in the future (about 292 years) that the age saturates;
  the negation of the smallest duration is itself, negative, and passes the limit.\<close>

lemma freshness_exact:
  "signature_expired t date \<longleftrightarrow> signatureMaxAge < \<bar>t - date\<bar> \<and> t - date > - (2 ^ 63)"
proof -
  consider (past) "0 \<le> t - date" | (soon) "t - date < 0" "- (2 ^ 63) < t - date" | (far) "t - date \<le> - (2 ^ 63)" by linarith
  then show ?thesis
  proof cases
    case past
    then have "sint (time_Since t date) = min (2 ^ 63 - 1) (t - date)"
      unfolding time_Since_def by (subst sint_in_range) auto
    then show ?thesis using past by (auto simp: signature_expired_def Let_def signatureMaxAge_def min_def)
  next
    case soon
    then have "time_Since t date = word_of_int (t - date)" by (simp add: time_Since_def)
    moreover have "sint (word_of_int (t - date) :: 64 word) = t - date" using soon by (intro sint_in_range) simp_all
    moreover have "sint (- word_of_int (t - date) :: 64 word) = date - t"
      using soon sint_in_range [of "date - t"] by (simp add: wi_hom_neg [symmetric])
    ultimately show ?thesis using soon by (simp add: signature_expired_def)
  next
    case far
    then have "time_Since t date = word_of_int (- (2 ^ 63))" by (simp add: time_Since_def max_def min_def)
    then show ?thesis using far by (simp add: signature_expired_def signatureMaxAge_def Let_def)
  qed
qed

section \<open>What an accepted request is\<close>

definition strong :: "public_key \<Rightarrow> bool" where
  "strong key \<longleftrightarrow> (case key of RSAKey bits _ \<Rightarrow> 2048 \<le> bits | ECDSAKey curve _ \<Rightarrow> curve \<in> {''P-256'', ''P-384'', ''P-521''} | OtherKey _ \<Rightarrow> False)"

text \<open>The signed headers name the target, the host, the date and, for a body, its digest; the date is
  fresh, the digest is that of the body, and the signature verifies under a strong key.\<close>

definition genuine :: "sig_env \<Rightarrow> world \<Rightarrow> int \<Rightarrow> http_request \<Rightarrow> string \<Rightarrow> string \<Rightarrow> bool" where
  "genuine e w t req pem body \<longleftrightarrow> (\<exists>hs date block key algo.
     extractSignedHeaders req = Inr hs \<and> (\<forall>name \<in> set requiredSignedHeaders. hasHeader hs name) \<and>
     (body \<noteq> '''' \<longrightarrow> hasHeader hs ''digest'' \<and> Header_Get req ''Digest'' = ''SHA-256='' @ EncodeToString w (se_Sum256 e body)) \<and>
     se_ParseTime e (Header_Get req ''Date'') = Some date \<and> \<not> signature_expired t date \<and>
     se_PemDecode e pem = Some block \<and> se_ParsePKIX e block = Some key \<and> strong key \<and>
     algorithmForPublicKey key = Some algo \<and> se_Verify e req key algo)"

lemma digest_matches:
  "verifyBodyDigest e w req body = Inr u \<Longrightarrow> Header_Get req ''Digest'' = ''SHA-256='' @ EncodeToString w (se_Sum256 e body)"
  by (simp add: verifyBodyDigest_def Let_def split: if_split_asm)

lemma parsed_key_strong:
  "parsePublicKeyPEM e pem = Inr key \<Longrightarrow> \<exists>block. se_PemDecode e pem = Some block \<and> se_ParsePKIX e block = Some key \<and> strong key"
  by (auto simp: parsePublicKeyPEM_def strong_def split: option.split_asm public_key.split_asm if_split_asm)

lemma check_genuine:
  assumes "check_signature e w t req pem body = Inr keyID"
  shows "se_NewVerifier e req = Some keyID" and "genuine e w t req pem body"
proof -
  from assms obtain hs date key algo where
    1: "se_NewVerifier e req = Some keyID" "extractSignedHeaders req = Inr hs"
      "list_all (hasHeader hs) requiredSignedHeaders" "body = '''' \<or> hasHeader hs ''digest''"
      "se_ParseTime e (Header_Get req ''Date'') = Some date" "\<not> signature_expired t date"
    and 2: "body \<noteq> '''' \<Longrightarrow> verifyBodyDigest e w req body = Inr ()" and 3: "parsePublicKeyPEM e pem = Inr key"
    and 4: "algorithmForPublicKey key = Some algo" "se_Verify e req key algo"
    by (auto simp: check_signature_def Let_def split: option.split_asm sum.split_asm if_split_asm)
  show "se_NewVerifier e req = Some keyID" by (rule 1)
  show "genuine e w t req pem body"
    unfolding genuine_def using 1 2 4 digest_matches parsed_key_strong [OF 3] by (fastforce simp: list_all_iff)
qed

lemma verify_cases:
  assumes "VerifyRequest e w touch t req pem body c = (r, c')"
  obtains (refused) x where "r = Inl x" and "c' = c"
    | (uncached) keyID where "check_signature e w t req pem body = Inr keyID" and "c = None" and "c' = None" and "r = Inr ()"
    | (cached) keyID cache b cache' where "check_signature e w t req pem body = Inr keyID" and "c = Some cache"
        and "seen touch t keyID (extractRawSignature req) cache = (b, cache')" and "c' = Some cache'"
        and "r = (if b then Inl (Errorf ''replayed signature detected'') else Inr ())" and "extractRawSignature req \<noteq> ''''"
proof (cases "check_signature e w t req pem body")
  case (Inl x)
  then show thesis using assms by (intro that(1)) (auto simp: VerifyRequest_def)
next
  case (Inr keyID)
  show thesis
  proof (cases c)
    case None
    then show thesis using assms Inr by (intro that(2)) (auto simp: VerifyRequest_def)
  next
    case (Some cache)
    show thesis
    proof (cases "extractRawSignature req = ''''")
      case True
      then show thesis using assms Inr Some by (intro that(1)) (auto simp: VerifyRequest_def)
    next
      case False
      obtain b cache' where s: "seen touch t keyID (extractRawSignature req) cache = (b, cache')" by force
      show thesis
        by (rule that(3) [OF Inr Some s]) (use assms Inr Some s False in \<open>auto simp: VerifyRequest_def Let_def split: bool.split_asm\<close>)
    qed
  qed
qed

lemma accepted_genuine: "VerifyRequest e w touch t req pem body c = (Inr u, c') \<Longrightarrow> genuine e w t req pem body"
  by (erule verify_cases) (auto dest: check_genuine)

section \<open>Replays\<close>

text \<open>The cache holds a key at least until \<open>T\<close>; calls that come later only extend that.\<close>

definition held_until :: "string \<Rightarrow> int \<Rightarrow> SignatureCache option \<Rightarrow> bool" where
  "held_until k T c \<longleftrightarrow> (\<exists>cache ex. c = Some cache \<and> map_of cache k = Some ex \<and> T \<le> ex)"

lemma seen_extends:
  assumes "held_until k T (Some c)" and "T \<le> t + sigCacheTTL"
  shows "held_until k T (Some (snd (seen touch t keyID sig c)))"
  using assms by (auto simp: held_until_def seen_def Let_def update_conv')

lemma verify_extends:
  assumes "held_until k T c" and "T \<le> t + sigCacheTTL"
  shows "held_until k T (snd (VerifyRequest e w touch t req pem body c))"
proof (cases rule: verify_cases [OF prod.collapse [symmetric], of e w touch t req pem body c])
  case (3 keyID cache b cache')
  then show ?thesis using assms seen_extends [of k T cache t touch keyID "extractRawSignature req"] by simp
qed (use assms in \<open>auto simp: held_until_def\<close>)

text \<open>A run of verifications, each at its time.\<close>

definition verify_all ::
  "sig_env \<Rightarrow> world \<Rightarrow> bool \<Rightarrow> (int \<times> http_request \<times> string \<times> string) list \<Rightarrow> SignatureCache option \<Rightarrow> SignatureCache option" where
  "verify_all e w touch = fold (\<lambda>(t, req, pem, body) c. snd (VerifyRequest e w touch t req pem body c))"

lemma verify_all_extends:
  "held_until k (t0 + sigCacheTTL) c \<Longrightarrow> (\<And>x. x \<in> set calls \<Longrightarrow> t0 \<le> fst x) \<Longrightarrow> held_until k (t0 + sigCacheTTL) (verify_all e w touch calls c)"
proof (induction calls arbitrary: c)
  case (Cons x calls)
  obtain t req pem body where x: "x = (t, req, pem, body)" by (cases x)
  have "t0 \<le> t" using Cons.prems(2) [of x] x by simp
  then have "held_until k (t0 + sigCacheTTL) (snd (VerifyRequest e w touch t req pem body c))"
    using verify_extends [OF Cons.prems(1)] by simp
  with Cons.IH [of "snd (VerifyRequest e w touch t req pem body c)"] Cons.prems(2) x show ?case by (simp add: verify_all_def)
qed (simp add: verify_all_def)

lemma accepted_held:
  assumes "VerifyRequest e w touch t req pem body (Some c) = (Inr u, c')"
  obtains keyID where "se_NewVerifier e req = Some keyID" and "held_until (sig_key keyID (extractRawSignature req)) (t + sigCacheTTL) c'"
proof (cases rule: verify_cases [OF assms])
  case (3 keyID cache b cache')
  then have "held_until (sig_key keyID (extractRawSignature req)) (t + sigCacheTTL) c'"
    by (auto simp: held_until_def seen_def Let_def update_conv' split: if_split_asm)
  with 3(1) check_genuine(1) that show thesis by blast
qed simp_all

text \<open>C29. No replays: a request that was accepted and whose date is not more than a minute ahead of the
  clock is never accepted again, with any key or body, at any later time, whatever other requests were
  verified in between and whether or not the cache extends its entries.\<close>

theorem signature_replay:
  assumes "VerifyRequest e w touch t1 req pem body (Some c) = (Inr (), c1)"
    and "se_ParseTime e (Header_Get req ''Date'') = Some date" and "date \<le> t1 + 60 * 1000000000"
    and "\<forall>x \<in> set calls. t1 \<le> fst x"
  shows "\<exists>x. fst (VerifyRequest e w touch t2 req pem2 body2 (verify_all e w touch calls c1)) = Inl x"
proof (rule ccontr)
  let ?c = "verify_all e w touch calls c1"
  obtain keyID where k: "se_NewVerifier e req = Some keyID"
    and h: "held_until (sig_key keyID (extractRawSignature req)) (t1 + sigCacheTTL) c1" by (rule accepted_held [OF assms(1)])
  have "held_until (sig_key keyID (extractRawSignature req)) (t1 + sigCacheTTL) ?c"
    using assms(4) by (intro verify_all_extends h) blast
  then obtain cache ex where c: "?c = Some cache"
    "map_of cache (sig_key keyID (extractRawSignature req)) = Some ex" "t1 + sigCacheTTL \<le> ex" unfolding held_until_def by blast
  assume "\<nexists>x. fst (VerifyRequest e w touch t2 req pem2 body2 ?c) = Inl x"
  then obtain u c2 where run: "VerifyRequest e w touch t2 req pem2 body2 ?c = (Inr u, c2)"
    by (metis obj_sumE prod.collapse)
  then have "\<not> signature_expired t2 date" using accepted_genuine assms(2) by (fastforce simp: genuine_def)
  then have "t2 \<le> t1 + sigCacheTTL" using assms(3) by (auto simp: freshness_exact signatureMaxAge_def sigCacheTTL_def)
  then have "cache_live t2 (sig_key keyID (extractRawSignature req)) cache" using c by (simp add: cache_live_def)
  with run c(1) k show False by (cases rule: verify_cases [OF run]) (auto dest: check_genuine(1) simp: seen_def Let_def)
qed

lemma check_other_time:
  assumes "check_signature e w t1 req pem body = Inr keyID" and "se_ParseTime e (Header_Get req ''Date'') = Some date"
    and "\<not> signature_expired t2 date"
  shows "check_signature e w t2 req pem body = Inr keyID"
  using assms by (simp add: check_signature_def Let_def split: option.split_asm sum.split_asm if_split_asm)

text \<open>The limit of the protection: the cache forgets a signature six minutes after it was accepted, but
  a date is accepted until it is five minutes old. A request dated more than a minute ahead, or so far
  in the future that its age saturates, is accepted a second time once its entry has expired.\<close>

theorem replayed_after_expiry:
  assumes "VerifyRequest e w touch t1 req pem body (Some c) = (Inr (), Some c1)"
    and "se_ParseTime e (Header_Get req ''Date'') = Some date"
    and "t1 + sigCacheTTL < t2" and "\<bar>t2 - date\<bar> \<le> signatureMaxAge \<or> 2 ^ 63 \<le> date - t2"
  shows "fst (VerifyRequest e w touch t2 req pem body (Some c1)) = Inr ()"
proof (cases rule: verify_cases [OF assms(1)])
  case (3 keyID cache b cache')
  have "\<not> signature_expired t2 date" using assms(4) by (auto simp: freshness_exact)
  from check_other_time [OF 3(1) assms(2) this] have ok: "check_signature e w t2 req pem body = Inr keyID" .
  have "\<not> b" using 3(5) by (simp split: if_split_asm)
  with 3 have "map_of c1 (sig_key keyID (extractRawSignature req)) = Some (t1 + sigCacheTTL)"
    by (auto simp: seen_def Let_def update_conv' split: if_split_asm)
  then have "\<not> cache_live t2 (sig_key keyID (extractRawSignature req)) c1" using assms(3) by (simp add: cache_live_def)
  with ok 3(6) show ?thesis by (simp add: VerifyRequest_def seen_def Let_def)
qed (use assms(1) in auto)

section \<open>The inbox behind the check\<close>


section \<open>Signing\<close>

definition algorithmForKey :: "public_key \<Rightarrow> Algorithm option" where
  "algorithmForKey key = algorithmForPublicKey key"

text \<open>The request that leaves, its host and date filled in; a private key is named by its public half.\<close>

definition SignRequest :: "sig_env \<Rightarrow> int \<Rightarrow> http_request \<Rightarrow> string \<Rightarrow> public_key \<Rightarrow> string \<Rightarrow> err + http_request" where
  "SignRequest e t req keyID privKey body =
     (let req1 = (if Header_Get req ''Host'' = '''' \<and> hr_Host req \<noteq> '''' then Header_Set ''Host'' (hr_Host req) req else req);
          req2 = (if Header_Get req1 ''Date'' = '''' then Header_Set ''Date'' (se_FormatTime e t) req1 else req1);
          headers = [''(request-target)'', ''host'', ''date''] @ (if body \<noteq> '''' then [''digest''] else [])
      in case algorithmForKey privKey of
          None \<Rightarrow> Inl (Errorf ''unsupported private key type'')
        | Some algo \<Rightarrow> (case se_SignRequest e algo headers privKey keyID body req2 of
              None \<Rightarrow> Inl (Errorf ''signing'')
            | Some sreq \<Rightarrow> Inr sreq))"

text \<open>
  What the library documents of a signed request: the Signature header lists the key id, the
  algorithm, the headers it was asked to sign and a base64 signature, it adds the digest of a body,
  keeps the date, and its own verifier accepts the result.
\<close>

definition quoted :: "string \<Rightarrow> string \<Rightarrow> string" where
  "quoted name v = name @ ''='' @ [CHR 0x22] @ v @ [CHR 0x22]"

definition signing_contract :: "sig_env \<Rightarrow> world \<Rightarrow> bool" where
  "signing_contract e w \<longleftrightarrow> (\<forall>algo hs key keyID body req sreq. se_SignRequest e algo hs key keyID body req = Some sreq \<longrightarrow>
     (\<exists>sig. sig \<noteq> '''' \<and> set sig \<inter> {CHR '','', CHR 0x22} = {} \<and>
        Header_Get sreq ''Signature'' = join_with '','' [quoted ''keyId'' keyID, quoted ''algorithm'' ''hs2019'',
          quoted ''headers'' (join_with '' '' hs), quoted ''signature'' sig]) \<and>
     (body \<noteq> '''' \<longrightarrow> Header_Get sreq ''Digest'' = ''SHA-256='' @ EncodeToString w (se_Sum256 e body)) \<and>
     Header_Get sreq ''Date'' = Header_Get req ''Date'' \<and>
     se_NewVerifier e sreq = Some keyID \<and> se_Verify e sreq key algo)"

lemma signing_contractE:
  assumes "signing_contract e w" and "se_SignRequest e algo hs key keyID body req = Some sreq"
  obtains sig where "sig \<noteq> ''''" and "set sig \<inter> {CHR '','', CHR 0x22} = {}"
    and "Header_Get sreq ''Signature'' = join_with '','' [quoted ''keyId'' keyID, quoted ''algorithm'' ''hs2019'',
          quoted ''headers'' (join_with '' '' hs), quoted ''signature'' sig]"
    and "body \<noteq> '''' \<longrightarrow> Header_Get sreq ''Digest'' = ''SHA-256='' @ EncodeToString w (se_Sum256 e body)"
    and "Header_Get sreq ''Date'' = Header_Get req ''Date''" and "se_NewVerifier e sreq = Some keyID" and "se_Verify e sreq key algo"
  using assms(1) [unfolded signing_contract_def, rule_format, OF assms(2)] by (elim conjE exE) (rule that)

lemma TrimSpace_id: "xs \<noteq> [] \<Longrightarrow> \<not> is_space (hd xs) \<Longrightarrow> \<not> is_space (last xs) \<Longrightarrow> TrimSpace xs = xs"
proof -
  assume xs: "xs \<noteq> []" "\<not> is_space (hd xs)" "\<not> is_space (last xs)"
  then have "dropWhile is_space xs = xs" and "dropWhile is_space (rev xs) = rev xs"
    by (simp_all add: dropWhile_eq_self_iff hd_rev)
  then show ?thesis by (simp add: TrimSpace_def)
qed

lemma TrimSpace_quoted: "name \<noteq> '''' \<Longrightarrow> \<not> is_space (hd name) \<Longrightarrow> TrimSpace (quoted name v) = quoted name v"
  by (rule TrimSpace_id) (simp_all add: quoted_def is_space_def)

lemma Trim_quotes: "CHR 0x22 \<notin> set v \<Longrightarrow> Trim_char ([CHR 0x22] @ v @ [CHR 0x22]) (CHR 0x22) = v"
proof -
  assume v: "CHR 0x22 \<notin> set v"
  have "dropWhile (\<lambda>x. x = CHR 0x22) (v @ [CHR 0x22]) = (if v = [] then [] else v @ [CHR 0x22])"
    using v by (cases v) auto
  moreover have "dropWhile (\<lambda>x. x = CHR 0x22) (rev v) = rev v" using v by (cases "rev v") (auto dest: arg_cong [of _ _ set])
  ultimately show ?thesis by (auto simp: Trim_char_def TrimRight_char_def)
qed

lemma CutPrefix_quoted: "CutPrefix (quoted name v) (name @ ''='') = Some ([CHR 0x22] @ v @ [CHR 0x22])"
  by (simp add: CutPrefix_def HasPrefix_def quoted_def)

lemma CutPrefix_other: "hd (name @ ''='') \<noteq> hd p \<Longrightarrow> p \<noteq> [] \<Longrightarrow> CutPrefix (quoted name v) p = None"
  by (cases p; cases name) (simp_all add: CutPrefix_def HasPrefix_def quoted_def)

lemma signed_parts:
  assumes "Header_Get r ''Signature'' = join_with '','' [quoted ''keyId'' keyID, quoted ''algorithm'' ''hs2019'', quoted ''headers'' hs, quoted ''signature'' sig]"
    and "CHR '','' \<notin> set keyID" and "CHR '','' \<notin> set hs" and "CHR '','' \<notin> set sig"
  shows "split_on (CHR '','') (Header_Get r ''Signature'') =
    [quoted ''keyId'' keyID, quoted ''algorithm'' ''hs2019'', quoted ''headers'' hs, quoted ''signature'' sig]"
  unfolding assms(1) by (rule split_on_join) (use assms(2-4) in \<open>auto simp: quoted_def\<close>)

lemma extract_signed:
  assumes "Header_Get r ''Signature'' = join_with '','' [quoted ''keyId'' keyID, quoted ''algorithm'' ''hs2019'', quoted ''headers'' hs, quoted ''signature'' sig]"
    and "CHR '','' \<notin> set keyID" and "set hs \<inter> {CHR '','', CHR 0x22} = {}" and "set sig \<inter> {CHR '','', CHR 0x22} = {}"
  shows "extractSignedHeaders r = Inr (Fields hs)" and "extractRawSignature r = sig"
proof -
  have split: "split_on (CHR '','') (Header_Get r ''Signature'') =
    [quoted ''keyId'' keyID, quoted ''algorithm'' ''hs2019'', quoted ''headers'' hs, quoted ''signature'' sig]"
    using assms by (intro signed_parts) auto
  have trim: "TrimSpace (quoted ''keyId'' keyID) = quoted ''keyId'' keyID" "TrimSpace (quoted ''algorithm'' ''hs2019'') = quoted ''algorithm'' ''hs2019''"
    "TrimSpace (quoted ''headers'' hs) = quoted ''headers'' hs" "TrimSpace (quoted ''signature'' sig) = quoted ''signature'' sig"
    by (rule TrimSpace_quoted; simp add: is_space_def)+
  have h: "CutPrefix (quoted ''keyId'' keyID) ''headers='' = None" "CutPrefix (quoted ''algorithm'' ''hs2019'') ''headers='' = None"
    "CutPrefix (quoted ''signature'' sig) ''headers='' = None"
    "CutPrefix (quoted ''keyId'' keyID) ''signature='' = None" "CutPrefix (quoted ''algorithm'' ''hs2019'') ''signature='' = None"
    "CutPrefix (quoted ''headers'' hs) ''signature='' = None"
    by (rule CutPrefix_other; simp)+
  have c: "CutPrefix (quoted ''headers'' hs) ''headers='' = Some ([CHR 0x22] @ hs @ [CHR 0x22])"
    "CutPrefix (quoted ''signature'' sig) ''signature='' = Some ([CHR 0x22] @ sig @ [CHR 0x22])"
    using CutPrefix_quoted [of "''headers''" hs] CutPrefix_quoted [of "''signature''" sig] by simp_all
  have q: "Trim_char ([CHR 0x22] @ hs @ [CHR 0x22]) (CHR 0x22) = hs" "Trim_char ([CHR 0x22] @ sig @ [CHR 0x22]) (CHR 0x22) = sig"
    using assms(3,4) by (intro Trim_quotes; blast)+
  have "Header_Get r ''Signature'' \<noteq> ''''" using split by auto
  then show "extractSignedHeaders r = Inr (Fields hs)"
    by (simp only: extractSignedHeaders_def Let_def if_False split headers_field.simps trim h c q option.case sum.case option.distinct not_True_eq_False simp_thms)
  show "extractRawSignature r = sig"
    by (simp only: extractRawSignature_def split signature_field.simps trim h c q option.case)
qed

lemma signed_headers_required:
  "\<forall>name \<in> set requiredSignedHeaders. hasHeader (Fields (join_with '' '' [''(request-target)'', ''host'', ''date''])) name"
  "\<forall>name \<in> set requiredSignedHeaders. hasHeader (Fields (join_with '' '' [''(request-target)'', ''host'', ''date'', ''digest''])) name"
  "hasHeader (Fields (join_with '' '' [''(request-target)'', ''host'', ''date'', ''digest''])) ''digest''"
  by code_simp+

lemma parsed_algorithm: "parsePublicKeyPEM e pem = Inr key \<Longrightarrow> algorithmForPublicKey key = Some algo \<or> algorithmForPublicKey key \<noteq> None"
  by (auto simp: parsePublicKeyPEM_def split: option.split_asm public_key.split_asm if_split_asm)

text \<open>C30. Signing and verifying fit together: a request signed at time \<open>t\<close>, with no date set before, is
  accepted by any node that knows the key and has not seen the signature, as long as the clocks and
  the transport add up to less than the age limit minus the second that the date format drops.\<close>

theorem sign_verify:
  assumes "signing_contract e w" and "SignRequest e t req keyID key body = Inr sreq" and "parsePublicKeyPEM e pem = Inr key"
    and "Header_Get req ''Date'' = ''''" and "se_FormatTime e t \<noteq> ''''" and "se_ParseTime e (se_FormatTime e t) = Some date"
    and "\<bar>t - date\<bar> \<le> 1000000000" and "\<bar>t2 - t\<bar> \<le> signatureMaxAge - 1000000000" and "CHR '','' \<notin> set keyID"
    and "\<forall>c. cache = Some c \<longrightarrow> map_of c (sig_key keyID (extractRawSignature sreq)) = None"
  shows "fst (VerifyRequest e w touch t2 sreq pem body cache) = Inr ()"
proof -
  let ?hs = "[''(request-target)'', ''host'', ''date''] @ (if body \<noteq> '''' then [''digest''] else [])"
  obtain algo req2 where algo: "algorithmForPublicKey key = Some algo"
    and sign: "se_SignRequest e algo ?hs key keyID body req2 = Some sreq" and date: "Header_Get req2 ''Date'' = se_FormatTime e t"
    using assms(2,4) by (auto simp: SignRequest_def algorithmForKey_def Let_def Header_Get_def Header_Set_def update_conv'
        split: option.split_asm if_split_asm)
  obtain sig where sig: "sig \<noteq> ''''" "set sig \<inter> {CHR '','', CHR 0x22} = {}"
    "Header_Get sreq ''Signature'' = join_with '','' [quoted ''keyId'' keyID, quoted ''algorithm'' ''hs2019'',
          quoted ''headers'' (join_with '' '' ?hs), quoted ''signature'' sig]"
    and lib: "body \<noteq> '''' \<longrightarrow> Header_Get sreq ''Digest'' = ''SHA-256='' @ EncodeToString w (se_Sum256 e body)"
      "Header_Get sreq ''Date'' = Header_Get req2 ''Date''" "se_NewVerifier e sreq = Some keyID" "se_Verify e sreq key algo"
    by (rule signing_contractE [OF assms(1) sign])
  note lib = lib [unfolded date]
  have plain: "set (join_with '' '' ?hs) \<inter> {CHR '','', CHR 0x22} = {}" by (cases "body = ''''"; simp)
  note ex = extract_signed [OF sig(3) assms(9) plain sig(2)]
  have "\<bar>t2 - date\<bar> \<le> signatureMaxAge" using assms(7,8) by linarith
  then have fresh: "\<not> signature_expired t2 date" by (simp add: freshness_exact)
  have req: "list_all (hasHeader (Fields (join_with '' '' ?hs))) requiredSignedHeaders"
    and dig: "body = '''' \<or> hasHeader (Fields (join_with '' '' ?hs)) ''digest''"
    using signed_headers_required by (cases "body = ''''"; simp add: list_all_iff)+
  have body: "(if body \<noteq> '''' then verifyBodyDigest e w sreq body else Inr ()) = Inr ()"
    using lib(1) by (simp add: verifyBodyDigest_def HasPrefix_def)
  have "check_signature e w t2 sreq pem body = Inr keyID"
    using req dig fresh body
    by (auto simp only: check_signature_def Let_def lib(2-4) ex(1) assms(3,5,6) algo option.case sum.case if_True if_False simp_thms split: if_split)
  then show ?thesis using assms(10) sig(1) ex(2) by (auto simp: VerifyRequest_def seen_def cache_live_def Let_def split: option.split)
qed

section \<open>Witnesses\<close>

definition demo_sig :: sig_env where
  "demo_sig = \<lparr>se_NewVerifier = (\<lambda>r. map_of (hr_headers r) ''X-Key-Id''), se_Verify = (\<lambda>_ _ _. True),
     se_SignRequest = (\<lambda>_ hs _ keyID body r. Some (Header_Set ''X-Key-Id'' keyID (Header_Set ''Signature'' (join_with '','' [quoted ''keyId'' keyID,
         quoted ''algorithm'' ''hs2019'', quoted ''headers'' (join_with '' '' hs), quoted ''signature'' ''c2ln''])
       (if body \<noteq> '''' then Header_Set ''Digest'' (''SHA-256='' @ EncodeToString demo_world body) r else r)))),
     se_PemDecode = Some, se_ParsePKIX = (\<lambda>b. Some (ECDSAKey ''P-256'' b)),
     se_ParseTime = (\<lambda>d. if d = ''00:00'' then Some 0 else if d = ''00:02'' then Some 120000000000 else None),
     se_FormatTime = (\<lambda>_. ''00:00''), se_Sum256 = (\<lambda>b. b)\<rparr>"

definition demo_signed :: "string \<Rightarrow> string \<Rightarrow> http_request" where
  "demo_signed date body = projr (SignRequest demo_sig 0 \<lparr>hr_method = ''POST'', hr_Host = ''a.example'', hr_headers = [(''Date'', date)]\<rparr>
     ''https://b.example/ap#main-key'' (ECDSAKey ''P-256'' ''k'') body)"

lemma demo_contract: "signing_contract demo_sig demo_world"
  by (auto simp: signing_contract_def demo_sig_def Header_Get_def Header_Set_def update_conv' intro!: exI [of _ "''c2ln''"])

lemma sign_verify_witness:
  "fst (VerifyRequest demo_sig demo_world True 7 (projr (SignRequest demo_sig 5 \<lparr>hr_method = ''POST'', hr_Host = ''a.example'', hr_headers = []\<rparr>
     ''https://b.example/ap#main-key'' (ECDSAKey ''P-256'' ''KEY'') ''{}'')) ''KEY'' ''{}'' (Some [])) = Inr ()"
proof (rule sign_verify [OF demo_contract, where date = 0])
  show "SignRequest demo_sig 5 \<lparr>hr_method = ''POST'', hr_Host = ''a.example'', hr_headers = []\<rparr> ''https://b.example/ap#main-key'' (ECDSAKey ''P-256'' ''KEY'') ''{}'' =
    Inr (projr (SignRequest demo_sig 5 \<lparr>hr_method = ''POST'', hr_Host = ''a.example'', hr_headers = []\<rparr> ''https://b.example/ap#main-key'' (ECDSAKey ''P-256'' ''KEY'') ''{}''))"
    by (simp add: SignRequest_def algorithmForKey_def demo_sig_def Let_def Header_Get_def)
qed (simp_all add: parsePublicKeyPEM_def demo_sig_def Header_Get_def signatureMaxAge_def)

lemma signature_replay_witness:
  "\<exists>x. fst (VerifyRequest demo_sig demo_world False 400000000000 (demo_signed ''00:00'' ''{}'') ''K'' ''{}''
     (verify_all demo_sig demo_world False [(1, demo_signed ''00:02'' ''x'', ''K'', ''x'')]
        (snd (VerifyRequest demo_sig demo_world False 0 (demo_signed ''00:00'' ''{}'') ''K'' ''{}'' (Some []))))) = Inl x"
proof -
  have 1: "fst (VerifyRequest demo_sig demo_world False 0 (demo_signed ''00:00'' ''{}'') ''K'' ''{}'' (Some [])) = Inr ()" by code_simp
  have 2: "se_ParseTime demo_sig (Header_Get (demo_signed ''00:00'' ''{}'') ''Date'') = Some 0" by code_simp
  have 3: "VerifyRequest demo_sig demo_world False 0 (demo_signed ''00:00'' ''{}'') ''K'' ''{}'' (Some []) =
      (Inr (), snd (VerifyRequest demo_sig demo_world False 0 (demo_signed ''00:00'' ''{}'') ''K'' ''{}'' (Some [])))"
    by (rule prod_eqI) (simp_all only: 1 fst_conv snd_conv)
  show ?thesis by (rule signature_replay [OF 3 2]) simp_all
qed

text \<open>A request dated two minutes ahead, captured and sent again six minutes after it was accepted.\<close>

lemma replayed_after_expiry_witness:
  "(case VerifyRequest demo_sig demo_world False 0 (demo_signed ''00:02'' ''{}'') ''K'' ''{}'' (Some []) of (r, c1) \<Rightarrow>
     r = Inr () \<and> fst (VerifyRequest demo_sig demo_world False 361000000000 (demo_signed ''00:02'' ''{}'') ''K'' ''{}'' c1) = Inr ())"
proof -
  let ?c = "[(sig_key ''https://b.example/ap#main-key'' ''c2ln'', 360000000000)]"
  have 1: "VerifyRequest demo_sig demo_world False 0 (demo_signed ''00:02'' ''{}'') ''K'' ''{}'' (Some []) = (Inr (), Some ?c)" by code_simp
  have 2: "se_ParseTime demo_sig (Header_Get (demo_signed ''00:02'' ''{}'') ''Date'') = Some 120000000000" by code_simp
  from replayed_after_expiry [OF 1 2, of 361000000000] 1 show ?thesis by (simp add: signatureMaxAge_def sigCacheTTL_def)
qed


end
