(* ===== verification/Package_Adapters.thy ===== *)
theory Package_Adapters
  imports Publish_Ingest Fetchers
begin

text \<open>
  Federation of package formats: the helpers of \<open>internal/registry/pkgfed/pkgfed.go\<close> and the adapters
  in \<open>npm/federation.go\<close>, \<open>cargo/federation.go\<close>, \<open>pypi/federation.go\<close>, \<open>nuget/federation.go\<close> and
  \<open>goproxy/federation.go\<close>, both directions: what a received object does to the package store, and the
  object that is published for a local upload.

  The metadata types of npm, Cargo and Python packages come from another module: decoding into them
  and encoding again is the parameter \<open>pe_Meta\<close> (\<open>None\<close> is a decoding error), as are the escapes of
  Go module paths. Numbers of JSON are exact; names are folded to lower case as ASCII.
\<close>

record pkg_env =
  pe_Meta :: "string \<Rightarrow> json \<Rightarrow> json option"
  pe_Cargo :: "string \<Rightarrow> (json \<times> string \<times> bool) option"
  pe_EscapePath :: "string \<Rightarrow> string option"
  pe_EscapeVersion :: "string \<Rightarrow> string option"

section \<open>Shared helpers\<close>

text \<open>
  The limit is \<open>math.MaxInt64\<close> as a float, which is \<open>2 ^ 63\<close>: that size passes, although it is not an
  \<open>int64\<close> and the conversion of it depends on the machine.
\<close>

definition ValidateBlobRef :: "string \<Rightarrow> rat \<Rightarrow> err + int" where
  "ValidateBlobRef digest sz =
     (if \<not> Digest digest then Inl (Errorf ''invalid blob digest'')
      else if sz < 0 \<or> 2 ^ 63 < sz then Inl (Errorf ''invalid blob size'')
      else Inr (int64_of sz))"

definition LookupOwnedPackage :: "string \<Rightarrow> string \<Rightarrow> string \<Rightarrow> ('z store_scheme, Package option) prog" where
  "LookupOwnedPackage pkgType name actorURL = bindE (GetPackage pkgType name) (\<lambda>pkg. case pkg of
      None \<Rightarrow> ret None
    | Some p \<Rightarrow> if pkg_owner p \<noteq> actorURL then fail ErrPackageOwnerMismatch else ret (Some p))"

definition RecordPeerBlob :: "world \<Rightarrow> string \<Rightarrow> string \<Rightarrow> ('z store_scheme, unit) prog" where
  "RecordPeerBlob w actorURL digest = (let endpoint = EndpointFromActorURL w actorURL in
     if endpoint = '''' then ret () else PutPeerBlob actorURL digest endpoint)"

text \<open>The location a download is redirected to; \<open>None\<close> leaves the answer to the caller.\<close>

definition RedirectToPeer :: "string \<Rightarrow> (string \<Rightarrow> string) \<Rightarrow> ('z store_scheme, string option) prog" where
  "RedirectToPeer digest buildURL = handle (FindPeersWithBlob digest) (\<lambda>r. case r of
      Inr (p # _) \<Rightarrow> ret (Some (buildURL (pb_endpoint p)))
    | _ \<Rightarrow> ret None)"

text \<open>A replication request by URL, with no size.\<close>

definition ReplicateFromURL :: "string \<Rightarrow> string \<Rightarrow> (fed, unit) prog" where
  "ReplicateFromURL sourceURL digest = modify (\<lambda>s. s\<lparr>replicated := replicated s @ [(sourceURL, digest, 0)]\<rparr>)"

definition announce_blob :: "world \<Rightarrow> bool \<Rightarrow> string \<Rightarrow> string \<Rightarrow> int \<Rightarrow> string \<Rightarrow> (string \<Rightarrow> string) \<Rightarrow> (fed, unit) prog" where
  "announce_blob w replicator actorURL digest sizeBytes contentType buildURL =
     bindE (PutBlob digest sizeBytes (Some contentType) False) (\<lambda>_.
     bindE (RecordPeerBlob w actorURL digest) (\<lambda>_.
     if \<not> replicator then ret ()
     else let peer = EndpointFromActorURL w actorURL in
       if peer = '''' then ret () else ReplicateFromURL (buildURL peer) digest))"

definition new_version :: "int \<Rightarrow> string \<Rightarrow> string \<Rightarrow> string \<Rightarrow> PackageVersion" where
  "new_version packageID version metadata actorURL =
     \<lparr>ver_id = 0, ver_package = packageID, ver_version = version, ver_metadata = metadata, ver_media_type = ''application/json'',
      ver_size = int (length metadata), ver_source = Some actorURL, ver_subject = None, ver_artifact = None, ver_created = 0\<rparr>"

definition new_file :: "int \<Rightarrow> string \<Rightarrow> string \<Rightarrow> int \<Rightarrow> string \<Rightarrow> PackageFile" where
  "new_file versionID filename digest sizeBytes contentType =
     \<lparr>file_id = 0, file_version = versionID, file_name = filename, file_blob = digest, file_size = sizeBytes,
      file_ctype = Some contentType, file_created = 0\<rparr>"

text \<open>The version a file belongs to; its metadata are only built for a new one.\<close>

definition ensure_version :: "int \<Rightarrow> string \<Rightarrow> string option \<Rightarrow> string \<Rightarrow> (fed, PackageVersion) prog" where
  "ensure_version packageID version metadata actorURL = bindE (GetPackageVersion packageID version) (\<lambda>v. case v of
      Some x \<Rightarrow> ret x
    | None \<Rightarrow> (case metadata of
          None \<Rightarrow> fail (Errorf ''decode meta'')
        | Some raw \<Rightarrow> PutPackageVersion (new_version packageID version raw actorURL)))"

text \<open>The file of a pypi, nuget or Go object: neither digest nor size is validated.\<close>

definition ingest_file ::
  "world \<Rightarrow> bool \<Rightarrow> string \<Rightarrow> int \<Rightarrow> string \<Rightarrow> string \<Rightarrow> rat \<Rightarrow> string \<Rightarrow> (string \<Rightarrow> string) \<Rightarrow> (fed, unit) prog" where
  "ingest_file w replicator actorURL versionID filename blobSHA sz contentType buildURL =
     bindE (if blobSHA = '''' then ret () else announce_blob w replicator actorURL blobSHA (int64_of sz) contentType buildURL) (\<lambda>_.
     PutPackageFile (new_file versionID filename blobSHA (int64_of sz) contentType))"

definition octet_stream :: string where
  "octet_stream = ''application/octet-stream''"

text \<open>The metadata field: absent and null give the zero value.\<close>

definition meta_field :: "pkg_env \<Rightarrow> string \<Rightarrow> jobj \<Rightarrow> string \<Rightarrow> json option" where
  "meta_field e packageType obj key = (case map_of obj key of
      None \<Rightarrow> Some JNull
    | Some JNull \<Rightarrow> Some JNull
    | Some m \<Rightarrow> pe_Meta e packageType m)"

section \<open>npm\<close>

definition npm_peerTarballURL :: "string \<Rightarrow> string \<Rightarrow> string \<Rightarrow> string" where
  "npm_peerTarballURL peerEndpoint packageName filename = peerEndpoint @ ''/npm/'' @ packageName @ ''/-/'' @ PathEscape filename"

definition npm_stored :: "string \<Rightarrow> string \<Rightarrow> json \<Rightarrow> json" where
  "npm_stored integrity shasum meta = JObj [(''meta'', meta), (''integrity'', JStr integrity), (''shasum'', JStr shasum)]"

definition npm_ingestVersion :: "pkg_env \<Rightarrow> world \<Rightarrow> bool \<Rightarrow> jobj \<Rightarrow> string \<Rightarrow> (fed, unit) prog" where
  "npm_ingestVersion e w replicator obj actorURL =
     (let name = jstr obj ''npmName''; version = jstr obj ''npmVersion'' in
      if name = '''' \<or> version = '''' then fail (Errorf ''npm version: missing npmName or npmVersion'')
      else bindE (GetOrCreatePackage ''npm'' name actorURL) (\<lambda>dbPkg.
        case meta_field e ''npm'' obj ''npmMeta'' of
          None \<Rightarrow> fail (Errorf ''decode meta'')
        | Some meta \<Rightarrow>
            let raw = Marshal w (npm_stored (jstr obj ''npmIntegrity'') (jstr obj ''npmShasum'') meta) in
            bindE (PutPackageVersion (new_version (pkg_id dbPkg) version raw actorURL)) (\<lambda>v.
            let filename = jstr obj ''npmFilename''; blobDigest = jstr obj ''npmBlobSHA256''; sz = jnum obj ''npmSize'' in
            if filename = '''' then ret ()
            else bindE (if blobDigest = '''' then ret (int64_of sz)
                        else (case ValidateBlobRef blobDigest sz of
                            Inl x \<Rightarrow> fail x
                          | Inr n \<Rightarrow> bindE (announce_blob w replicator actorURL blobDigest n octet_stream
                              (\<lambda>peer. npm_peerTarballURL peer name filename)) (\<lambda>_. ret n))) (\<lambda>n.
              PutPackageFile (new_file (ver_id v) filename blobDigest n octet_stream)))))"

definition npm_deleteVersion :: "jobj \<Rightarrow> string \<Rightarrow> (fed, unit) prog" where
  "npm_deleteVersion obj actorURL = (let name = jstr obj ''npmName''; version = jstr obj ''npmVersion'' in
     if name = '''' \<or> version = '''' then fail (Errorf ''npm delete: missing npmName or npmVersion'')
     else bindE (LookupOwnedPackage ''npm'' name actorURL) (\<lambda>p. case p of
         None \<Rightarrow> ret ()
       | Some dbPkg \<Rightarrow> DeletePackageVersion (pkg_id dbPkg) version))"

definition npm_upsertTag :: "jobj \<Rightarrow> string \<Rightarrow> (fed, unit) prog" where
  "npm_upsertTag obj actorURL = (let name = jstr obj ''npmName''; tag = jstr obj ''npmTag''; version = jstr obj ''npmVersion'' in
     if name = '''' \<or> tag = '''' \<or> version = '''' then fail (Errorf ''npm tag: missing fields'')
     else bindE (LookupOwnedPackage ''npm'' name actorURL) (\<lambda>p. case p of
         None \<Rightarrow> ret ()
       | Some dbPkg \<Rightarrow> PutPackageTag (pkg_id dbPkg) tag version))"

definition npm_deleteTag :: "jobj \<Rightarrow> string \<Rightarrow> (fed, unit) prog" where
  "npm_deleteTag obj actorURL = (let name = jstr obj ''npmName''; tag = jstr obj ''npmTag'' in
     if name = '''' \<or> tag = '''' then fail (Errorf ''npm tag delete: missing fields'')
     else bindE (LookupOwnedPackage ''npm'' name actorURL) (\<lambda>p. case p of
         None \<Rightarrow> ret ()
       | Some dbPkg \<Rightarrow> DeletePackageTag (pkg_id dbPkg) tag))"

definition npm_Ingest :: "pkg_env \<Rightarrow> world \<Rightarrow> bool \<Rightarrow> adapter" where
  "npm_Ingest e w replicator activityType apType obj actorURL =
     (if apType = ''NpmVersion'' then
        (if activityType = ''Delete'' then npm_deleteVersion obj actorURL else npm_ingestVersion e w replicator obj actorURL)
      else if apType = ''NpmTag'' then
        (if activityType = ''Delete'' then npm_deleteTag obj actorURL else npm_upsertTag obj actorURL)
      else ret ())"

section \<open>Cargo\<close>

definition cargo_peerCrateURL :: "string \<Rightarrow> string \<Rightarrow> string \<Rightarrow> string" where
  "cargo_peerCrateURL peerEndpoint name version =
     peerEndpoint @ ''/cargo/api/v1/crates/'' @ PathEscape name @ ''/'' @ PathEscape version @ ''/download''"

definition crateFilename :: "string \<Rightarrow> string \<Rightarrow> string" where
  "crateFilename name version = name @ ''-'' @ version @ ''.crate''"

definition cargo_stored :: "json \<Rightarrow> string \<Rightarrow> bool \<Rightarrow> json" where
  "cargo_stored meta cksum yanked = JObj [(''meta'', meta), (''cksum'', JStr cksum), (''yanked'', JBool yanked)]"

definition cargo_ingestVersion :: "pkg_env \<Rightarrow> world \<Rightarrow> bool \<Rightarrow> jobj \<Rightarrow> string \<Rightarrow> (fed, unit) prog" where
  "cargo_ingestVersion e w replicator obj actorURL =
     (let name = jstr obj ''cargoName''; version = jstr obj ''cargoVersion'' in
      if name = '''' \<or> version = '''' then fail (Errorf ''cargo version: missing cargoName or cargoVersion'')
      else bindE (GetOrCreatePackage ''cargo'' name actorURL) (\<lambda>dbPkg.
        let cksum = jstr obj ''cargoCksum''; sz = jnum obj ''cargoSize''; blobSHA = jstr obj ''cargoBlobSHA256'' in
        case meta_field e ''cargo'' obj ''cargoMeta'' of
          None \<Rightarrow> fail (Errorf ''decode meta'')
        | Some meta \<Rightarrow>
            bindE (PutPackageVersion (new_version (pkg_id dbPkg) version (Marshal w (cargo_stored meta cksum False)) actorURL)) (\<lambda>v.
            if blobSHA = '''' then ret ()
            else (case ValidateBlobRef blobSHA sz of
                Inl x \<Rightarrow> fail x
              | Inr n \<Rightarrow> bindE (announce_blob w replicator actorURL blobSHA n octet_stream (\<lambda>peer. cargo_peerCrateURL peer name version)) (\<lambda>_.
                  PutPackageFile (new_file (ver_id v) (crateFilename name version) blobSHA n octet_stream))))))"

definition jbool :: "jobj \<Rightarrow> string \<Rightarrow> bool" where
  "jbool obj k = (case map_of obj k of Some (JBool b) \<Rightarrow> b | _ \<Rightarrow> False)"

definition cargo_applyYank :: "pkg_env \<Rightarrow> world \<Rightarrow> jobj \<Rightarrow> string \<Rightarrow> (fed, unit) prog" where
  "cargo_applyYank e w obj actorURL = (let name = jstr obj ''cargoName''; version = jstr obj ''cargoVersion''; yanked = jbool obj ''cargoYanked'' in
     if name = '''' \<or> version = '''' then fail (Errorf ''cargo yank: missing cargoName or cargoVersion'')
     else bindE (LookupOwnedPackage ''cargo'' name actorURL) (\<lambda>p. case p of
         None \<Rightarrow> ret ()
       | Some dbPkg \<Rightarrow> bindE (GetPackageVersion (pkg_id dbPkg) version) (\<lambda>r. case r of
             None \<Rightarrow> ret ()
           | Some v \<Rightarrow> (case pe_Cargo e (ver_metadata v) of
                 None \<Rightarrow> fail (Errorf ''cargo yank: decode stored'')
               | Some (meta, cksum, _) \<Rightarrow> let updated = Marshal w (cargo_stored meta cksum yanked) in
                   bindE (PutPackageVersion (v\<lparr>ver_metadata := updated, ver_size := int (length updated)\<rparr>)) (\<lambda>_. ret ())))))"

text \<open>The activity type is ignored.\<close>

definition cargo_Ingest :: "pkg_env \<Rightarrow> world \<Rightarrow> bool \<Rightarrow> adapter" where
  "cargo_Ingest e w replicator activityType apType obj actorURL =
     (if apType = ''CargoVersion'' then cargo_ingestVersion e w replicator obj actorURL
      else if apType = ''CargoYank'' then cargo_applyYank e w obj actorURL
      else ret ())"

section \<open>Python packages\<close>

text \<open>PEP 503: runs of \<open>-\<close>, \<open>_\<close> and \<open>.\<close> become one \<open>-\<close>.\<close>

definition pep503 :: "char \<Rightarrow> bool" where
  "pep503 c \<longleftrightarrow> c \<in> {CHR ''-'', CHR ''_'', CHR ''.''}"

fun squeeze :: "string \<Rightarrow> string" where
  "squeeze [] = []"
| "squeeze (c # cs) =
     (if \<not> pep503 c then c # squeeze cs
      else (case cs of d # _ \<Rightarrow> if pep503 d then squeeze cs else CHR ''-'' # squeeze cs | [] \<Rightarrow> ''-''))"

definition normalizeName :: "string \<Rightarrow> string" where
  "normalizeName name = squeeze (ToLower name)"

definition contentTypeForFilename :: "string \<Rightarrow> string" where
  "contentTypeForFilename filename =
     (if HasSuffix filename ''.whl'' then octet_stream
      else if HasSuffix filename ''.tar.gz'' \<or> HasSuffix filename ''.tgz'' then ''application/x-gtar''
      else if HasSuffix filename ''.zip'' then ''application/zip''
      else octet_stream)"

definition pypi_peerFileURL :: "string \<Rightarrow> string \<Rightarrow> string \<Rightarrow> string \<Rightarrow> string" where
  "pypi_peerFileURL peerEndpoint name version filename =
     peerEndpoint @ ''/pypi/files/'' @ PathEscape name @ ''/'' @ PathEscape version @ ''/'' @ PathEscape filename"

definition pypi_ingestFile :: "pkg_env \<Rightarrow> world \<Rightarrow> bool \<Rightarrow> jobj \<Rightarrow> string \<Rightarrow> (fed, unit) prog" where
  "pypi_ingestFile e w replicator obj actorURL =
     (let rawName = jstr obj ''pypiName''; version = jstr obj ''pypiVersion''; filename = jstr obj ''pypiFilename'' in
      if rawName = '''' \<or> version = '''' \<or> filename = '''' then fail (Errorf ''pypi file: missing name, version, or filename'')
      else let name = normalizeName rawName in
        bindE (GetOrCreatePackage ''pypi'' name actorURL) (\<lambda>dbPkg.
        bindE (ensure_version (pkg_id dbPkg) version
          (map_option (\<lambda>m. Marshal w (JObj [(''meta'', m)])) (meta_field e ''pypi'' obj ''pypiMeta'')) actorURL) (\<lambda>v.
        let given = jstr obj ''pypiContentType'';
            contentType = (if given = '''' then contentTypeForFilename filename else given) in
        ingest_file w replicator actorURL (ver_id v) filename (jstr obj ''pypiBlobSHA256'') (jnum obj ''pypiSize'') contentType
          (\<lambda>peer. pypi_peerFileURL peer name version filename))))"

definition pypi_Ingest :: "pkg_env \<Rightarrow> world \<Rightarrow> bool \<Rightarrow> adapter" where
  "pypi_Ingest e w replicator activityType apType obj actorURL =
     (if apType \<noteq> ''PypiFile'' then ret () else pypi_ingestFile e w replicator obj actorURL)"

section \<open>NuGet\<close>

text \<open>The stored fields by name, in their order; decoding an object sets those it names (in any case of
  the letters), a null leaves a field alone, anything else than a string is an error.\<close>

definition nuget_fields :: "string list" where
  "nuget_fields = [''id'', ''authors'', ''description'', ''projectUrl'', ''tags'']"

definition nuget_zero :: "string \<Rightarrow> (string \<times> string) list" where
  "nuget_zero rawID = map (\<lambda>f. (f, if f = ''id'' then rawID else '''')) nuget_fields"

fun nuget_decode_fields :: "jobj \<Rightarrow> (string \<times> string) list \<Rightarrow> (string \<times> string) list option" where
  "nuget_decode_fields [] stored = Some stored"
| "nuget_decode_fields ((k, v) # rest) stored = (case find (EqualFold k) nuget_fields of
      None \<Rightarrow> nuget_decode_fields rest stored
    | Some f \<Rightarrow> (case v of
          JStr x \<Rightarrow> nuget_decode_fields rest (AList.update f x stored)
        | JNull \<Rightarrow> nuget_decode_fields rest stored
        | _ \<Rightarrow> None))"

definition nuget_RemarshalInto :: "json \<Rightarrow> (string \<times> string) list \<Rightarrow> (string \<times> string) list option" where
  "nuget_RemarshalInto meta stored = (case meta of
      JObj obj \<Rightarrow> nuget_decode_fields obj stored
    | JNull \<Rightarrow> Some stored
    | _ \<Rightarrow> None)"

definition nuget_stored_json :: "(string \<times> string) list \<Rightarrow> json" where
  "nuget_stored_json stored = JObj (map (\<lambda>(k, v). (k, JStr v)) stored)"

definition nuget_peerFileURL :: "string \<Rightarrow> string \<Rightarrow> string \<Rightarrow> string \<Rightarrow> string" where
  "nuget_peerFileURL peerEndpoint pkgID version filename =
     peerEndpoint @ ''/nuget/v3-flatcontainer/'' @ PathEscape pkgID @ ''/'' @ PathEscape version @ ''/'' @ PathEscape filename"

definition nuget_ingestPackage :: "world \<Rightarrow> bool \<Rightarrow> jobj \<Rightarrow> string \<Rightarrow> (fed, unit) prog" where
  "nuget_ingestPackage w replicator obj actorURL =
     (let rawID = jstr obj ''nugetId''; version = jstr obj ''nugetVersion''; filename = jstr obj ''nugetFile'' in
      if rawID = '''' \<or> version = '''' \<or> filename = '''' then fail (Errorf ''nuget package: missing id, version, or filename'')
      else let pkgID = ToLower rawID in
        bindE (GetOrCreatePackage ''nuget'' pkgID actorURL) (\<lambda>dbPkg.
        bindE (ensure_version (pkg_id dbPkg) version
          (map_option (\<lambda>stored. Marshal w (nuget_stored_json stored))
            (case map_of obj ''nugetMeta'' of
                None \<Rightarrow> Some (nuget_zero rawID)
              | Some meta \<Rightarrow> nuget_RemarshalInto meta (nuget_zero rawID))) actorURL) (\<lambda>v.
        ingest_file w replicator actorURL (ver_id v) filename (jstr obj ''nugetBlobSHA256'') (jnum obj ''nugetSize'') octet_stream
          (\<lambda>peer. nuget_peerFileURL peer pkgID version filename))))"

definition nuget_Ingest :: "world \<Rightarrow> bool \<Rightarrow> adapter" where
  "nuget_Ingest w replicator activityType apType obj actorURL =
     (if apType \<noteq> ''NugetPackage'' then ret () else nuget_ingestPackage w replicator obj actorURL)"

section \<open>Go modules\<close>

definition escapePathOrEmpty :: "pkg_env \<Rightarrow> string \<Rightarrow> string" where
  "escapePathOrEmpty e m = (case pe_EscapePath e m of Some x \<Rightarrow> x | None \<Rightarrow> m)"

definition escapeVersionOrEmpty :: "pkg_env \<Rightarrow> string \<Rightarrow> string" where
  "escapeVersionOrEmpty e ver = (case pe_EscapeVersion e ver of Some x \<Rightarrow> x | None \<Rightarrow> ver)"

definition go_peerPath :: "pkg_env \<Rightarrow> string \<Rightarrow> string \<Rightarrow> string \<Rightarrow> string" where
  "go_peerPath e m ver suffix = ''/goproxy/'' @ escapePathOrEmpty e m @ ''/@v/'' @ escapeVersionOrEmpty e ver @ suffix"

definition go_ingestModule :: "pkg_env \<Rightarrow> world \<Rightarrow> bool \<Rightarrow> jobj \<Rightarrow> string \<Rightarrow> (fed, unit) prog" where
  "go_ingestModule e w replicator obj actorURL =
     (let m = jstr obj ''goModule''; ver = jstr obj ''goVersion''; filename = jstr obj ''goFile'' in
      if m = '''' \<or> ver = '''' \<or> filename = '''' then fail (Errorf ''go module: missing module, version, or filename'')
      else bindE (GetOrCreatePackage ''goproxy'' m actorURL) (\<lambda>dbPkg.
        bindE (ensure_version (pkg_id dbPkg) ver (Some (jstr obj ''goInfoMeta'')) actorURL) (\<lambda>v.
        ingest_file w replicator actorURL (ver_id v) (ver @ ''.zip'') (jstr obj ''goBlobSHA256'') (jnum obj ''goSize'') ''application/zip''
          (\<lambda>peer. peer @ go_peerPath e m ver ''.zip''))))"

definition go_Ingest :: "pkg_env \<Rightarrow> world \<Rightarrow> bool \<Rightarrow> adapter" where
  "go_Ingest e w replicator activityType apType obj actorURL =
     (if apType \<noteq> ''GoModule'' then ret () else go_ingestModule e w replicator obj actorURL)"

section \<open>The registered adapters\<close>

text \<open>The registry the server builds, with the backends that are enabled and federated.\<close>

definition package_adapters :: "pkg_env \<Rightarrow> world \<Rightarrow> bool \<Rightarrow> (string \<times> string list \<times> adapter) list" where
  "package_adapters e w replicator = [
     (''npm'', [''NpmVersion'', ''NpmTag''], npm_Ingest e w replicator),
     (''cargo'', [''CargoVersion'', ''CargoYank''], cargo_Ingest e w replicator),
     (''pypi'', [''PypiFile''], pypi_Ingest e w replicator),
     (''nuget'', [''NugetPackage''], nuget_Ingest w replicator),
     (''goproxy'', [''GoModule''], go_Ingest e w replicator)]"

fun register_all :: "(string \<times> string list \<times> adapter) list \<Rightarrow> adapter AdapterRegistry \<Rightarrow> err + adapter AdapterRegistry" where
  "register_all [] r = Inr r"
| "register_all ((packageType, apTypes, a) # rest) r = (case Register packageType apTypes a r of
      Inl x \<Rightarrow> Inl x
    | Inr r' \<Rightarrow> register_all rest r')"

definition server_adapters :: "(string \<Rightarrow> bool) \<Rightarrow> pkg_env \<Rightarrow> world \<Rightarrow> bool \<Rightarrow> err + adapter AdapterRegistry" where
  "server_adapters federated e w replicator =
     register_all (filter (\<lambda>(packageType, _). federated packageType) (package_adapters e w replicator)) NewAdapterRegistry"

section \<open>What is published\<close>

text \<open>
  \<open>BaseContext\<close> and the fields of each object. A field of type \<open>[]byte\<close> is encoded as base64, one of
  type \<open>json.RawMessage\<close> is embedded.
\<close>

definition BaseContext :: json where
  "BaseContext = JArr [JStr ''https://www.w3.org/ns/activitystreams'', JStr ''https://w3id.org/security/v1'']"

definition object_json :: "string \<Rightarrow> string \<Rightarrow> string \<Rightarrow> jobj" where
  "object_json ty objectID published =
     [(''@context'', BaseContext), (''type'', JStr ty), (''id'', JStr objectID), (''published'', JStr published)]"

definition NpmVersion_json :: "string \<Rightarrow> string \<Rightarrow> string \<Rightarrow> PackageVersion \<Rightarrow> PackageFile \<Rightarrow> string \<Rightarrow> string \<Rightarrow> json \<Rightarrow> jobj" where
  "NpmVersion_json endpoint published name v file integrity shasum meta =
     object_json ''NpmVersion'' (endpoint @ ''/ap/objects/npm-version/'' @ PathEscape name @ ''/'' @ PathEscape (ver_version v)) published @
     [(''npmName'', JStr name), (''npmVersion'', JStr (ver_version v)), (''npmIntegrity'', JStr integrity), (''npmShasum'', JStr shasum),
      (''npmTarball'', JStr (endpoint @ ''/npm/'' @ name @ ''/-/'' @ file_name file)), (''npmFilename'', JStr (file_name file)),
      (''npmBlobSHA256'', JStr (file_blob file)), (''npmSize'', JNum (of_int (file_size file))), (''npmMeta'', meta)]"

definition NpmTag_json :: "string \<Rightarrow> string \<Rightarrow> string \<Rightarrow> string \<Rightarrow> string \<Rightarrow> jobj" where
  "NpmTag_json endpoint published name tag version =
     object_json ''NpmTag'' (endpoint @ ''/ap/objects/npm-tag/'' @ PathEscape name @ ''/'' @ PathEscape tag) published @
     [(''npmName'', JStr name), (''npmTag'', JStr tag)] @ (if version = '''' then [] else [(''npmVersion'', JStr version)])"

definition CargoVersion_json :: "string \<Rightarrow> string \<Rightarrow> string \<Rightarrow> PackageVersion \<Rightarrow> PackageFile \<Rightarrow> string \<Rightarrow> json \<Rightarrow> jobj" where
  "CargoVersion_json endpoint published name v file cksum meta =
     object_json ''CargoVersion'' (endpoint @ ''/ap/objects/cargo-version/'' @ PathEscape name @ ''/'' @ PathEscape (ver_version v)) published @
     [(''cargoName'', JStr name), (''cargoVersion'', JStr (ver_version v)), (''cargoCksum'', JStr cksum),
      (''cargoSize'', JNum (of_int (file_size file))), (''cargoBlobSHA256'', JStr (file_blob file)), (''cargoMeta'', meta)]"

definition CargoYank_json :: "string \<Rightarrow> string \<Rightarrow> string \<Rightarrow> string \<Rightarrow> bool \<Rightarrow> jobj" where
  "CargoYank_json endpoint published name version yanked =
     object_json ''CargoYank'' (endpoint @ ''/ap/objects/cargo-yank/'' @ PathEscape name @ ''/'' @ PathEscape version) published @
     [(''cargoName'', JStr name), (''cargoVersion'', JStr version), (''cargoYanked'', JBool yanked)]"

definition PypiFile_json :: "string \<Rightarrow> string \<Rightarrow> string \<Rightarrow> string \<Rightarrow> PackageFile \<Rightarrow> json \<Rightarrow> jobj" where
  "PypiFile_json endpoint published name version file meta =
     object_json ''PypiFile'' (endpoint @ ''/ap/objects/pypi-file/'' @ PathEscape name @ ''/'' @ PathEscape version @ ''/'' @ PathEscape (file_name file)) published @
     [(''pypiName'', JStr name), (''pypiVersion'', JStr version), (''pypiFilename'', JStr (file_name file)), (''pypiBlobSHA256'', JStr (file_blob file)),
      (''pypiSize'', JNum (of_int (file_size file))), (''pypiContentType'', JStr (case file_ctype file of None \<Rightarrow> '''' | Some x \<Rightarrow> x)),
      (''pypiURL'', JStr (pypi_peerFileURL endpoint name version (file_name file))), (''pypiMeta'', meta)]"

definition NugetPackage_json :: "world \<Rightarrow> string \<Rightarrow> string \<Rightarrow> string \<Rightarrow> string \<Rightarrow> PackageFile \<Rightarrow> (string \<times> string) list \<Rightarrow> jobj" where
  "NugetPackage_json w endpoint published pkgID version file stored =
     object_json ''NugetPackage'' (endpoint @ ''/ap/objects/nuget-package/'' @ PathEscape pkgID @ ''/'' @ PathEscape version) published @
     [(''nugetId'', JStr pkgID), (''nugetVersion'', JStr version), (''nugetFile'', JStr (file_name file)), (''nugetBlobSHA256'', JStr (file_blob file)),
      (''nugetSize'', JNum (of_int (file_size file))), (''nugetURL'', JStr (nuget_peerFileURL endpoint pkgID version (file_name file)))] @
     omitempty ''nugetMeta'' (EncodeContent w (Marshal w (nuget_stored_json stored)))"

definition GoModule_json :: "pkg_env \<Rightarrow> world \<Rightarrow> string \<Rightarrow> string \<Rightarrow> string \<Rightarrow> string \<Rightarrow> PackageFile \<Rightarrow> string \<Rightarrow> jobj" where
  "GoModule_json e w endpoint published m ver zipFile infoRaw =
     object_json ''GoModule'' (endpoint @ ''/ap/objects/go-module/'' @ escapePathOrEmpty e m @ ''/'' @ escapeVersionOrEmpty e ver) published @
     [(''goModule'', JStr m), (''goVersion'', JStr ver), (''goFile'', JStr (file_name zipFile)), (''goBlobSHA256'', JStr (file_blob zipFile)),
      (''goSize'', JNum (of_int (file_size zipFile))), (''goURL'', JStr (endpoint @ go_peerPath e m ver ''.zip''))] @
     omitempty ''goInfoMeta'' (EncodeContent w infoRaw)"

text \<open>Publishing: nothing without a publisher, otherwise one activity, whose error is logged.\<close>

definition publish_object :: "world \<Rightarrow> APPublisher option \<Rightarrow> string \<Rightarrow> (string \<Rightarrow> jobj) \<Rightarrow> ('z pub_scheme, unit) prog" where
  "publish_object w publisher activityType object = (case publisher of
      None \<Rightarrow> ret ()
    | Some p \<Rightarrow> bindE now (\<lambda>c. ignore (Publish w p activityType (JObj (object (RFC3339 w c))))))"

definition npm_publishVersion ::
  "world \<Rightarrow> APPublisher option \<Rightarrow> string \<Rightarrow> string \<Rightarrow> PackageVersion \<Rightarrow> PackageFile \<Rightarrow> string \<Rightarrow> string \<Rightarrow> json \<Rightarrow> ('z pub_scheme, unit) prog" where
  "npm_publishVersion w publisher endpoint name v file integrity shasum meta =
     publish_object w publisher ''Create'' (\<lambda>published. NpmVersion_json endpoint published name v file integrity shasum meta)"

definition npm_publishTagSet :: "world \<Rightarrow> APPublisher option \<Rightarrow> string \<Rightarrow> string \<Rightarrow> string \<Rightarrow> string \<Rightarrow> ('z pub_scheme, unit) prog" where
  "npm_publishTagSet w publisher endpoint name tag version =
     publish_object w publisher ''Update'' (\<lambda>published. NpmTag_json endpoint published name tag version)"

definition npm_publishTagDelete :: "world \<Rightarrow> APPublisher option \<Rightarrow> string \<Rightarrow> string \<Rightarrow> string \<Rightarrow> ('z pub_scheme, unit) prog" where
  "npm_publishTagDelete w publisher endpoint name tag =
     publish_object w publisher ''Delete'' (\<lambda>published. NpmTag_json endpoint published name tag '''')"

definition cargo_publishVersion ::
  "world \<Rightarrow> APPublisher option \<Rightarrow> string \<Rightarrow> string \<Rightarrow> PackageVersion \<Rightarrow> PackageFile \<Rightarrow> string \<Rightarrow> json \<Rightarrow> ('z pub_scheme, unit) prog" where
  "cargo_publishVersion w publisher endpoint name v file cksum meta =
     publish_object w publisher ''Create'' (\<lambda>published. CargoVersion_json endpoint published name v file cksum meta)"

definition cargo_publishYank :: "world \<Rightarrow> APPublisher option \<Rightarrow> string \<Rightarrow> string \<Rightarrow> string \<Rightarrow> bool \<Rightarrow> ('z pub_scheme, unit) prog" where
  "cargo_publishYank w publisher endpoint name version yanked =
     publish_object w publisher ''Update'' (\<lambda>published. CargoYank_json endpoint published name version yanked)"

definition pypi_publishFile ::
  "world \<Rightarrow> APPublisher option \<Rightarrow> string \<Rightarrow> string \<Rightarrow> string \<Rightarrow> PackageFile \<Rightarrow> json \<Rightarrow> ('z pub_scheme, unit) prog" where
  "pypi_publishFile w publisher endpoint name version file meta =
     publish_object w publisher ''Create'' (\<lambda>published. PypiFile_json endpoint published name version file meta)"

definition nuget_publishPackage ::
  "world \<Rightarrow> APPublisher option \<Rightarrow> string \<Rightarrow> string \<Rightarrow> string \<Rightarrow> PackageFile \<Rightarrow> (string \<times> string) list \<Rightarrow> ('z pub_scheme, unit) prog" where
  "nuget_publishPackage w publisher endpoint pkgID version file stored =
     publish_object w publisher ''Create'' (\<lambda>published. NugetPackage_json w endpoint published pkgID version file stored)"

definition go_publishModule ::
  "pkg_env \<Rightarrow> world \<Rightarrow> APPublisher option \<Rightarrow> string \<Rightarrow> string \<Rightarrow> string \<Rightarrow> PackageFile \<Rightarrow> string \<Rightarrow> ('z pub_scheme, unit) prog" where
  "go_publishModule e w publisher endpoint m ver zipFile infoRaw =
     publish_object w publisher ''Create'' (\<lambda>published. GoModule_json e w endpoint published m ver zipFile infoRaw)"

end
