(* ===== verification/Package_Federation.thy ===== *)
theory Package_Federation
  imports Package_Adapters
begin

text \<open>
  Properties of the package adapters: what an object of a remote actor can change, whether what one
  node publishes is what another stores, and where it is not.
\<close>

section \<open>What an adapter may rely on and what it keeps\<close>

text \<open>
  The calls the adapters make on the package store, for an actor \<open>A\<close>: \<open>mine\<close> holds of the packages it may
  write and \<open>own_version\<close> of their versions; every call keeps the invariant \<open>P\<close>.
\<close>

locale package_scoped =
  fixes A :: string and P :: "fed \<Rightarrow> bool" and mine :: "int \<Rightarrow> bool" and own_version :: "int \<Rightarrow> bool"
  assumes p_create: "yields P (GetOrCreatePackage ty name A) (\<lambda>p. mine (pkg_id p))"
    and p_lookup: "yields P (GetPackage ty name) (\<lambda>r. \<forall>p. r = Some p \<longrightarrow> pkg_owner p = A \<longrightarrow> mine (pkg_id p))"
    and p_version: "mine pid \<Longrightarrow> yields P (GetPackageVersion pid ver)
      (\<lambda>r. \<forall>v. r = Some v \<longrightarrow> own_version (ver_id v) \<and> ver_package v = pid)"
    and p_put: "mine (ver_package v) \<Longrightarrow> yields P (PutPackageVersion v) (\<lambda>v'. own_version (ver_id v'))"
    and p_file: "own_version (file_version f) \<Longrightarrow> keeps P (PutPackageFile f)"
    and p_delete: "mine pid \<Longrightarrow> keeps P (DeletePackageVersion pid ver)"
    and p_put_tag: "mine pid \<Longrightarrow> keeps P (PutPackageTag pid tag ver)"
    and p_delete_tag: "mine pid \<Longrightarrow> keeps P (DeletePackageTag pid tag)"
    and p_blob: "keeps P (PutBlob d n mt False)"
    and p_peer: "keeps P (PutPeerBlob A d ep)"
    and p_replicated: "P s \<Longrightarrow> P (s\<lparr>replicated := x\<rparr>)"
begin

lemma k_announce: "keeps P (announce_blob w rep A d n ct url)"
  unfolding announce_blob_def RecordPeerBlob_def ReplicateFromURL_def Let_def
  by (intro keeps_intros keeps_modify p_blob p_peer p_replicated)

lemma y_owned: "yields P (LookupOwnedPackage ty name A) (\<lambda>r. \<forall>p. r = Some p \<longrightarrow> mine (pkg_id p))"
  unfolding LookupOwnedPackage_def
  by (rule yields_bindE [OF p_lookup]) (auto intro!: yields_intros split: option.split)

lemma y_ensure: "mine pid \<Longrightarrow> yields P (ensure_version pid ver meta A) (\<lambda>v. own_version (ver_id v))"
  unfolding ensure_version_def
  by (rule yields_bindE [OF p_version])
    (auto intro!: yields_intros p_put simp: new_version_def split: option.split)

lemma k_file: "own_version vid \<Longrightarrow> keeps P (ingest_file w rep A vid filename d sz ct url)"
  unfolding ingest_file_def by (intro keeps_intros k_announce p_file) (simp add: new_file_def)

lemma y_npm_version: "yields P (npm_ingestVersion e w rep obj A) (\<lambda>_. True)"
  unfolding npm_ingestVersion_def Let_def
  by (intro yields_intros yields_bindE [OF p_create] yields_bindE [OF p_put] yields_keeps keeps_intros k_announce p_file)
    (simp_all add: new_version_def new_file_def)

lemma y_cargo_version: "yields P (cargo_ingestVersion e w rep obj A) (\<lambda>_. True)"
  unfolding cargo_ingestVersion_def Let_def
  by (intro yields_intros yields_bindE [OF p_create] yields_bindE [OF p_put] yields_keeps keeps_intros k_announce p_file)
    (simp_all add: new_version_def new_file_def)

lemma y_cargo_yank: "yields P (cargo_applyYank e w obj A) (\<lambda>_. True)"
  unfolding cargo_applyYank_def Let_def
  by (auto intro!: yields_intros yields_bindE [OF y_owned] yields_bindE [OF p_version] yields_bindE [OF p_put]
      split: option.split)

lemma y_pypi: "yields P (pypi_ingestFile e w rep obj A) (\<lambda>_. True)"
  unfolding pypi_ingestFile_def Let_def
  by (intro yields_intros yields_bindE [OF p_create] yields_bindE [OF y_ensure] yields_keeps k_file)

lemma y_nuget: "yields P (nuget_ingestPackage w rep obj A) (\<lambda>_. True)"
  unfolding nuget_ingestPackage_def Let_def
  by (intro yields_intros yields_bindE [OF p_create] yields_bindE [OF y_ensure] yields_keeps k_file)

lemma y_go: "yields P (go_ingestModule e w rep obj A) (\<lambda>_. True)"
  unfolding go_ingestModule_def Let_def
  by (intro yields_intros yields_bindE [OF p_create] yields_bindE [OF y_ensure] yields_keeps k_file)

lemma y_npm_others:
  "yields P (npm_deleteVersion obj A) (\<lambda>_. True)" "yields P (npm_upsertTag obj A) (\<lambda>_. True)" "yields P (npm_deleteTag obj A) (\<lambda>_. True)"
  unfolding npm_deleteVersion_def npm_upsertTag_def npm_deleteTag_def Let_def
  by (auto intro!: yields_intros yields_bindE [OF y_owned]
      p_delete [THEN yields_keeps] p_put_tag [THEN yields_keeps] p_delete_tag [THEN yields_keeps] split: option.split)

lemma adapter_keeps:
  assumes "(ty, types, ingest) \<in> set (package_adapters e w rep)"
  shows "yields P (ingest kind apType obj A) (\<lambda>_. True)"
  using assms y_npm_version y_cargo_version y_cargo_yank y_pypi y_nuget y_go y_npm_others
  by (auto simp: package_adapters_def npm_Ingest_def cargo_Ingest_def pypi_Ingest_def nuget_Ingest_def go_Ingest_def
      intro!: yields_intros)

end

section \<open>Isolation\<close>

text \<open>The packages of other owners, as in \<open>Inbox_Safety\<close>, for the calls the adapters make.\<close>

lemma iso_put_version:
  assumes "ver_package v \<notin> foreign_ids A t0"
  shows "yields (\<lambda>s. isolated A t0 (tbl s)) (PutPackageVersion v :: ('z store_scheme, PackageVersion) prog)
    (\<lambda>v'. ver_id v' \<notin> ver_id ` set (filter (\<lambda>v. ver_package v \<in> foreign_ids A t0) (package_versions t0)))"
proof (rule yieldsI)
  fix s s' :: "'z store_scheme" and r
  assume I: "isolated A t0 (tbl s)" and run: "PutPackageVersion v s = (r, s')"
  have k: "keeps (\<lambda>s. isolated A t0 (tbl s)) (PutPackageVersion v :: ('z store_scheme, PackageVersion) prog)"
  proof (rule keeps_isolated [OF wf.keeps_PutPackageVersion])
    fix F V assume "F = foreign_ids A t0"
    then show "keeps (\<lambda>s. foreign_view F (tbl s) = V) (PutPackageVersion v)"
      unfolding PutPackageVersion_def putPackageVersion_def getPackageVersion_def Let_def
      using assms by (intro keeps_intros) (simp_all add: view_upsert_version)
  qed
  have I': "isolated A t0 (tbl s')" by (rule keepsD [OF k I run])
  have "ver_id v' \<notin> ver_id ` set (filter (\<lambda>v. ver_package v \<in> foreign_ids A t0) (package_versions t0))" if r: "r = Inr v'" for v'
  proof -
    have "putPackageVersion v s = (Inr v', s')" using run r by (simp add: PutPackageVersion_def)
    note p = putPackageVersion_ok [OF this]
    have "v' \<in> set (package_versions (tbl s'))" using p find_where_Some by metis
    moreover have "ver_package v' \<notin> foreign_ids A t0" using p assms by (simp add: same_content_def)
    ultimately show ?thesis by (rule own_version [OF I'])
  qed
  with I' show "isolated A t0 (tbl s') \<and> (\<forall>x. r = Inr x \<longrightarrow>
      ver_id x \<notin> ver_id ` set (filter (\<lambda>v. ver_package v \<in> foreign_ids A t0) (package_versions t0)))" by blast
qed

lemma iso_get_version:
  assumes "pid \<notin> foreign_ids A t0"
  shows "yields (\<lambda>s. isolated A t0 (tbl s)) (GetPackageVersion pid ver :: ('z store_scheme, PackageVersion option) prog)
    (\<lambda>r. \<forall>v. r = Some v \<longrightarrow>
       ver_id v \<notin> ver_id ` set (filter (\<lambda>v. ver_package v \<in> foreign_ids A t0) (package_versions t0)) \<and> ver_package v = pid)"
proof (rule yieldsI)
  fix s s' :: "'z store_scheme" and r
  assume I: "isolated A t0 (tbl s)" and run: "GetPackageVersion pid ver s = (r, s')"
  have t: "tbl s' = tbl s"
    using run unfolding GetPackageVersion_def getPackageVersion_def by (cases r) (auto dest!: query_ok query_err)
  have "ver_id v \<notin> ver_id ` set (filter (\<lambda>v. ver_package v \<in> foreign_ids A t0) (package_versions t0)) \<and> ver_package v = pid"
    if r: "r = Inr (Some v)" for v
  proof -
    have "find_where (\<lambda>r. (ver_package r, ver_version r) = (pid, ver)) (package_versions (tbl s)) = Some v"
      using run r unfolding GetPackageVersion_def getPackageVersion_def by (auto dest!: query_ok)
    from find_where_Some [OF this] have v: "v \<in> set (package_versions (tbl s))" "ver_package v = pid" by auto
    then show ?thesis using own_version [OF I v(1)] assms by blast
  qed
  with I t show "isolated A t0 (tbl s') \<and> (\<forall>x. r = Inr x \<longrightarrow> (\<forall>v. x = Some v \<longrightarrow>
      ver_id v \<notin> ver_id ` set (filter (\<lambda>v. ver_package v \<in> foreign_ids A t0) (package_versions t0)) \<and> ver_package v = pid))"
    by (simp del: set_filter)
qed

lemma iso_lookup:
  "yields (\<lambda>s. isolated A t0 (tbl s)) (GetPackage ty name :: ('z store_scheme, Package option) prog)
    (\<lambda>r. \<forall>p. r = Some p \<longrightarrow> pkg_owner p = A \<longrightarrow> pkg_id p \<notin> foreign_ids A t0)"
proof (rule yieldsI)
  fix s s' :: "'z store_scheme" and r
  assume I: "isolated A t0 (tbl s)" and run: "GetPackage ty name s = (r, s')"
  have t: "tbl s' = tbl s" using run unfolding GetPackage_def by (cases r) (auto dest!: query_ok query_err)
  have "pkg_id p \<notin> foreign_ids A t0" if r: "r = Inr (Some p)" and o: "pkg_owner p = A" for p
  proof
    assume f: "pkg_id p \<in> foreign_ids A t0"
    have "find_where (\<lambda>r. (pkg_type r, pkg_name r) = (ty, name)) (packages (tbl s)) = Some p"
      using run r unfolding GetPackage_def by (auto dest!: query_ok)
    from find_where_Some [OF this] have "p \<in> set (packages (tbl s))" by simp
    from foreign_package [OF I this f] o show False by simp
  qed
  with I t show "isolated A t0 (tbl s') \<and> (\<forall>x. r = Inr x \<longrightarrow> (\<forall>p. x = Some p \<longrightarrow> pkg_owner p = A \<longrightarrow> pkg_id p \<notin> foreign_ids A t0))"
    by simp
qed

lemma iso_file:
  assumes "file_version f \<notin> ver_id ` set (filter (\<lambda>v. ver_package v \<in> foreign_ids A t0) (package_versions t0))"
  shows "keeps (\<lambda>s. isolated A t0 (tbl s)) (PutPackageFile f)"
proof -
  have "foreign_view (foreign_ids A t0) (t\<lparr>package_files := upsert_where
       (\<lambda>r. (file_version r, file_name r) = (file_version f, file_name f))
       (\<lambda>r. r\<lparr>file_blob := file_blob f, file_size := file_size f, file_ctype := file_ctype f\<rparr>)
       (f\<lparr>file_id := seq_files t, file_created := c\<rparr>) (package_files t), seq_files := seq_files t + 1\<rparr>) = foreign_view (foreign_ids A t0) t"
    if "isolated A t0 t" for t c
  proof -
    have n: "file_version f \<notin> ver_id ` set (filter (\<lambda>v. ver_package v \<in> foreign_ids A t0) (package_versions t))"
      unfolding isolated_views(2) [OF that] by (rule assms)
    show ?thesis unfolding foreign_view_def
      by (simp del: set_filter, rule filter_upsert) (use n in \<open>simp_all del: set_filter\<close>)
  qed
  moreover have "keeps (\<lambda>s. wf_tables (tbl s)) (PutPackageFile f)" by (rule wf.keeps_PutPackageFile)
  ultimately show ?thesis
    unfolding PutPackageFile_def isolated_def keeps_def exec_def
    by (auto simp: bindE_def tick_def modify_def split: list.splits if_splits)
qed

interpretation pkgs_iso: package_scoped A "\<lambda>s. isolated A t0 (tbl s) \<and> cache_ok w s" "\<lambda>i. i \<notin> foreign_ids A t0"
    "\<lambda>i. i \<notin> ver_id ` set (filter (\<lambda>v. ver_package v \<in> foreign_ids A t0) (package_versions t0))" for A t0 w
proof unfold_locales
  let ?P = "\<lambda>s. isolated A t0 (tbl s) \<and> cache_ok w s" and ?mine = "\<lambda>i. i \<notin> foreign_ids A t0"
    and ?own = "\<lambda>i. i \<notin> ver_id ` set (filter (\<lambda>v. ver_package v \<in> foreign_ids A t0) (package_versions t0))"
  note db = GetOrCreatePackage_def GetPackage_def GetPackageVersion_def getPackageVersion_def PutPackageVersion_def putPackageVersion_def
    PutPackageFile_def DeletePackageVersion_def PutPackageTag_def DeletePackageTag_def PutBlob_def PutPeerBlob_def Let_def
  show "yields ?P (GetOrCreatePackage ty name A) (\<lambda>p. ?mine (pkg_id p))" for ty name
    by (rule iso.with_cache [OF iso_create_package]) (unfold db, intro keeps_intros)
  show "yields ?P (GetPackage ty name) (\<lambda>r. \<forall>p. r = Some p \<longrightarrow> pkg_owner p = A \<longrightarrow> ?mine (pkg_id p))" for ty name
    by (rule iso.with_cache [OF iso_lookup]) (unfold db, intro keeps_intros)
  show "yields ?P (GetPackageVersion pid ver) (\<lambda>r. \<forall>v. r = Some v \<longrightarrow> ?own (ver_id v) \<and> ver_package v = pid)" if "?mine pid" for pid ver
    by (rule iso.with_cache [OF iso_get_version [OF that]]) (unfold db, intro keeps_intros)
  show "yields ?P (PutPackageVersion v) (\<lambda>v'. ?own (ver_id v'))" if "?mine (ver_package v)" for v
    by (rule iso.with_cache [OF iso_put_version [OF that]]) (unfold db, intro keeps_intros)
  have k: "keeps ?P m" if "keeps (\<lambda>s. isolated A t0 (tbl s)) m" and "\<And>s. keeps (db_frame s) m" for m :: "(fed, 'q) prog"
    using iso.with_cache_keeps [OF that] by (auto simp: keeps_def yields_def prod_eq_iff)
  show "keeps ?P (PutPackageFile f)" if "?own (file_version f)" for f
    by (rule k [OF iso_file [OF that]]) (unfold db, intro keeps_intros)
  show "keeps ?P (DeletePackageVersion pid ver)" if "?mine pid" for pid ver
    by (rule k [OF iso_delete [OF that, unfolded DeleteManifest_def]]) (unfold db, intro keeps_intros)
  show "keeps ?P (PutPackageTag pid tag ver)" if "?mine pid" for pid tag ver
    by (rule k [OF iso_put_tag [OF that, unfolded PutTag_def]]) (unfold db, intro keeps_intros)
  show "keeps ?P (DeletePackageTag pid tag)" if "?mine pid" for pid tag
    by (rule k [OF iso_delete_tag [OF that, unfolded DeleteTag_def]]) (unfold db, intro keeps_intros)
  show "keeps ?P (PutBlob d n mt False)" for d n mt
    by (rule k [OF iso_others(3)]) (unfold db, intro keeps_intros)
  show "keeps ?P (PutPeerBlob A d ep)" for d ep
    by (rule k [OF iso_others(2)]) (unfold db, intro keeps_intros)
  show "?P (s\<lparr>replicated := x\<rparr>)" if "?P s" for s x
    using that by (simp add: cache_ok_def)
qed

lemma register_all_values:
  "register_all xs r = Inr r' \<Longrightarrow> map_of (byAP r') t = Some a \<Longrightarrow> (\<exists>ty types. (ty, types, a) \<in> set xs) \<or> map_of (byAP r) t = Some a"
proof (induction xs r rule: register_all.induct)
  case (2 ty types a' rest r)
  from "2.prems"(1) obtain r1 where reg: "Register ty types a' r = Inr r1" and rest: "register_all rest r1 = Inr r'"
    by (auto split: sum.splits)
  have f: "map_of (fold (\<lambda>t m. AList.update t a' m) types m0) t = Some a \<Longrightarrow> a = a' \<or> map_of m0 t = Some a" for m0
  proof (induction types arbitrary: m0)
    case (Cons x xs)
    then show ?case by (fastforce simp: update_conv' split: if_split_asm)
  qed simp
  have "map_of (byAP r1) t = Some a \<Longrightarrow> a = a' \<or> map_of (byAP r) t = Some a"
    using reg f [of "byAP r"] by (auto simp: Register_def split: if_split_asm option.split_asm)
  with "2.IH" [OF reg rest "2.prems"(2)] show ?case by auto
qed simp

lemma server_adapter_known:
  assumes "server_adapters federated e w rep = Inr reg" and "Lookup reg t = Some ingest"
  obtains ty types where "(ty, types, ingest) \<in> set (package_adapters e w rep)"
  using register_all_values [OF assms(1) [unfolded server_adapters_def], of t ingest] assms(2)
  by (auto simp: Lookup_def NewAdapterRegistry_def)

text \<open>C1. A remote actor cannot touch what belongs to others: whatever object it sends in a create, update,
  announce or delete activity - an OCI object or one of any package format, behind any choice of
  federated backends - and whatever I/O fails on the way, every package owned by somebody else keeps
  its row, its versions, its tags and the files of its versions.\<close>

theorem remote_isolation:
  assumes "wf_tables (tbl s)" and "cache_ok w s" and "server_adapters federated e w rep = Inr reg"
    and "process_content kind w cfg (Lookup reg) act s = (r, s')"
  shows "foreign_view (foreign_ids (ra_actor act) (tbl s)) (tbl s') =
    foreign_view (foreign_ids (ra_actor act) (tbl s)) (tbl s)"
proof -
  have a: "yields (\<lambda>u. isolated (ra_actor act) (tbl s) (tbl u) \<and> cache_ok w u) (ingest k ty obj (ra_actor act)) (\<lambda>_. True)"
    if "Lookup reg ty = Some ingest" for ty ingest k obj
    by (rule server_adapter_known [OF assms(3) that]) (rule pkgs_iso.adapter_keeps)
  have c: "yields (\<lambda>u. isolated (ra_actor act) (tbl s) (tbl u) \<and> cache_ok w u) (process_content kind w cfg (Lookup reg) act) (\<lambda>_. True)"
    by (cases kind; simp; rule iso.content_with_adapters [OF refl]; rule a)
  have "isolated (ra_actor act) (tbl s) (tbl s')"
    using yieldsD [OF c _ assms(4)] assms(2) isolated_refl [OF assms(1)] by simp
  then show ?thesis by (simp add: isolated_def)
qed

section \<open>npm from end to end\<close>

lemma npm_json_fields:
  "jstr (NpmVersion_json ep pb name v file ig sh meta) ''npmName'' = name"
  "jstr (NpmVersion_json ep pb name v file ig sh meta) ''npmVersion'' = ver_version v"
  "jstr (NpmVersion_json ep pb name v file ig sh meta) ''npmIntegrity'' = ig"
  "jstr (NpmVersion_json ep pb name v file ig sh meta) ''npmShasum'' = sh"
  "jstr (NpmVersion_json ep pb name v file ig sh meta) ''npmFilename'' = file_name file"
  "jstr (NpmVersion_json ep pb name v file ig sh meta) ''npmBlobSHA256'' = file_blob file"
  "jnum (NpmVersion_json ep pb name v file ig sh meta) ''npmSize'' = of_int (file_size file)"
  "map_of (NpmVersion_json ep pb name v file ig sh meta) ''npmMeta'' = Some meta"
  by (simp_all add: NpmVersion_json_def object_json_def jstr_def jnum_def)

definition owned_package :: "string \<Rightarrow> string \<Rightarrow> string \<Rightarrow> int \<Rightarrow> tables \<Rightarrow> bool" where
  "owned_package ty name A pid t \<longleftrightarrow> (\<exists>p \<in> set (packages t). pkg_id p = pid \<and> pkg_type p = ty \<and> pkg_name p = name \<and> pkg_owner p = A)"

definition has_version :: "int \<Rightarrow> int \<Rightarrow> string \<Rightarrow> string \<Rightarrow> string \<Rightarrow> tables \<Rightarrow> bool" where
  "has_version pid vid version metadata A t \<longleftrightarrow> (\<exists>v \<in> set (package_versions t).
     (ver_id v, ver_package v, ver_version v, ver_metadata v, ver_source v) = (vid, pid, version, metadata, Some A))"

definition has_file :: "int \<Rightarrow> PackageFile \<Rightarrow> tables \<Rightarrow> bool" where
  "has_file vid file t \<longleftrightarrow> (\<exists>f \<in> set (package_files t).
     (file_version f, file_name f, file_blob f, file_size f) = (vid, file_name file, file_blob file, file_size file))"

lemma create_package_hoare:
  assumes "\<And>p. p \<in> set (packages (tbl s)) \<Longrightarrow> pkg_type p = ty \<Longrightarrow> pkg_name p = name \<Longrightarrow> pkg_owner p = A"
    and "GetOrCreatePackage ty name A s = (r, s')"
  shows "case r of Inl x \<Rightarrow> x = ErrIO | Inr p \<Rightarrow> owned_package ty name A (pkg_id p) (tbl s')"
proof (cases r)
  case (Inl x)
  then show ?thesis using create_package_spec [of s ty name A] assms by fastforce
next
  case (Inr p)
  note spec = create_package_spec [of s ty name A, unfolded assms(2) Inr prod.case sum.case]
  show ?thesis
  proof (cases "find_where (\<lambda>r. (pkg_type r, pkg_name r) = (ty, name)) (packages (tbl s))")
    case None
    with spec Inr show ?thesis by (auto simp: owned_package_def)
  next
    case (Some q0)
    have t: "tbl s' = tbl s" and p: "p = q0\<lparr>pkg_withdrawn := None\<rparr>" and o: "pkg_owner p = A"
      using spec [unfolded Some option.case, unfolded prod.inject] by blast+
    from find_where_Some [OF Some] have "q0 \<in> set (packages (tbl s))" "pkg_type q0 = ty" "pkg_name q0 = name" by simp_all
    then have "owned_package ty name A (pkg_id p) (tbl s')"
      unfolding owned_package_def t using o p by (intro bexI [of _ q0]) simp_all
    then show ?thesis using Inr by simp
  qed
qed

lemma put_version_hoare:
  "hoare (\<lambda>s. owned_package ty name A pid (tbl s)) (PutPackageVersion (new_version pid version raw B))
     (\<lambda>v s. owned_package ty name A pid (tbl s) \<and> has_version pid (ver_id v) version raw B (tbl s)) io_only"
proof (rule hoareI)
  fix s :: "'z store_scheme" and v s'
  assume own: "owned_package ty name A pid (tbl s)" and run: "PutPackageVersion (new_version pid version raw B) s = (Inr v, s')"
  note p = putPackageVersion_ok [OF run [unfolded PutPackageVersion_def]]
  have "v \<in> set (package_versions (tbl s'))" using p find_where_Some by metis
  then have "has_version pid (ver_id v) version raw B (tbl s')"
    using p by (auto simp: has_version_def same_content_def new_version_def intro!: bexI [of _ v])
  moreover have "packages (tbl s') = packages (tbl s)" using p by (simp add: upsert_version_def)
  ultimately show "owned_package ty name A pid (tbl s') \<and> has_version pid (ver_id v) version raw B (tbl s')"
    using own by (simp add: owned_package_def)
next
  fix s :: "'z store_scheme" and x s'
  assume "PutPackageVersion (new_version pid version raw B) s = (Inl x, s')"
  moreover have "raises {ErrIO} (PutPackageVersion (new_version pid version raw B))"
    unfolding PutPackageVersion_def by (intro raises_intros) simp
  ultimately show "x = ErrIO" by (auto dest: raisesD)
qed

lemma announce_hoare:
  "hoare (\<lambda>s. Q (packages (tbl s)) (package_versions (tbl s))) (announce_blob w rep A d n ct url)
     (\<lambda>_ s. Q (packages (tbl s)) (package_versions (tbl s))) io_only"
proof (rule hoare_keepsI)
  show "keeps (\<lambda>s. Q (packages (tbl s)) (package_versions (tbl s))) (announce_blob w rep A d n ct url)"
    unfolding announce_blob_def RecordPeerBlob_def ReplicateFromURL_def PutBlob_def PutPeerBlob_def Let_def
    by (intro keeps_intros keeps_modify) simp_all
  show "raises {ErrIO} (announce_blob w rep A d n ct url)"
    unfolding announce_blob_def RecordPeerBlob_def ReplicateFromURL_def PutBlob_def PutPeerBlob_def Let_def
    by (intro raises_intros) simp_all
qed

lemma put_file_hoare:
  "hoare (\<lambda>s. Q (packages (tbl s)) (package_versions (tbl s))) (PutPackageFile f)
     (\<lambda>_ s. Q (packages (tbl s)) (package_versions (tbl s)) \<and> has_file (file_version f) f (tbl s)) io_only"
proof (rule hoareI)
  fix s :: "'z store_scheme" and x s'
  assume Q: "Q (packages (tbl s)) (package_versions (tbl s))" and run: "PutPackageFile f s = (Inr x, s')"
  from run [unfolded PutPackageFile_def, THEN exec_ok] obtain c where t: "tbl s' = (tbl s)\<lparr>package_files := upsert_where
       (\<lambda>r. (file_version r, file_name r) = (file_version f, file_name f))
       (\<lambda>r. r\<lparr>file_blob := file_blob f, file_size := file_size f, file_ctype := file_ctype f\<rparr>)
       (f\<lparr>file_id := seq_files (tbl s), file_created := c\<rparr>) (package_files (tbl s)), seq_files := seq_files (tbl s) + 1\<rparr>" by auto
  have "has_file (file_version f) f (tbl s')"
    unfolding t has_file_def by (auto simp: upsert_where_def list_ex_iff Bex_def)
  with Q t show "Q (packages (tbl s')) (package_versions (tbl s')) \<and> has_file (file_version f) f (tbl s')" by simp
next
  fix s :: "'z store_scheme" and x s'
  assume "PutPackageFile f s = (Inl x, s')"
  moreover have "raises {ErrIO} (PutPackageFile f)" unfolding PutPackageFile_def by (intro raises_intros) simp
  ultimately show "x = ErrIO" by (auto dest: raisesD)
qed

lemma blob_ref_exact:
  assumes "Digest d" and "0 \<le> n" and "n < 2 ^ 63"
  shows "ValidateBlobRef d (of_int n) = Inr n"
proof -
  have "(of_int n :: rat) \<le> of_int (2 ^ 63)" using assms(3) by (simp only: of_int_le_iff)
  then show ?thesis using assms by (simp add: ValidateBlobRef_def int64_of_def)
qed

lemma file_step_hoare:
  assumes "Digest (file_blob file)" and "0 \<le> file_size file" and "file_size file < 2 ^ 63"
  shows "hoare (\<lambda>s. Q (packages (tbl s)) (package_versions (tbl s)))
    (bindE (if file_blob file = '''' then ret (int64_of (of_int (file_size file)))
       else (case ValidateBlobRef (file_blob file) (of_int (file_size file)) of
           Inl x \<Rightarrow> fail x
         | Inr n \<Rightarrow> bindE (announce_blob w rep A (file_blob file) n ct url) (\<lambda>_. ret n))) (\<lambda>n.
     PutPackageFile (new_file vid (file_name file) (file_blob file) n ct)))
    (\<lambda>_ s. Q (packages (tbl s)) (package_versions (tbl s)) \<and> has_file vid file (tbl s)) io_only"
proof -
  have "file_blob file \<noteq> ''''" using assms(1) by (auto simp: Digest_def CutPrefix_def HasPrefix_def)
  moreover have "has_file vid (new_file vid (file_name file) (file_blob file) (file_size file) ct) = has_file vid file"
    by (simp add: has_file_def new_file_def fun_eq_iff)
  ultimately show ?thesis
    using hoare_bindE [OF announce_hoare [of Q w rep A "file_blob file" "file_size file" ct url]
        put_file_hoare [of Q "new_file vid (file_name file) (file_blob file) (file_size file) ct"]]
    by (simp add: blob_ref_exact [OF assms] bindE_assoc new_file_def)
qed

text \<open>C8. npm versions federate: the object a node publishes for a version makes a receiver that knows no
  package of that name with another owner either report an I/O failure or end with the package owned
  by the sender, the version with the published metadata, and its file with digest and size.\<close>

theorem npm_federates:
  assumes "name \<noteq> ''''" and "ver_version v \<noteq> ''''" and "file_name file \<noteq> ''''"
    and "Digest (file_blob file)" and "0 \<le> file_size file" and "file_size file < 2 ^ 63"
    and "meta \<noteq> JNull" and "pe_Meta e ''npm'' meta = Some meta'"
    and "\<And>p. p \<in> set (packages (tbl s)) \<Longrightarrow> pkg_type p = ''npm'' \<Longrightarrow> pkg_name p = name \<Longrightarrow> pkg_owner p = A"
    and "npm_Ingest e w rep ''Create'' ''NpmVersion'' (NpmVersion_json endpoint published name v file integrity shasum meta) A s = (r, s')"
  shows "case r of Inl x \<Rightarrow> x = ErrIO
    | Inr _ \<Rightarrow> \<exists>pid vid. owned_package ''npm'' name A pid (tbl s') \<and>
        has_version pid vid (ver_version v) (Marshal w (npm_stored integrity shasum meta')) A (tbl s') \<and> has_file vid file (tbl s')"
proof -
  let ?obj = "NpmVersion_json endpoint published name v file integrity shasum meta"
  let ?raw = "Marshal w (npm_stored integrity shasum meta')"
  let ?file = "\<lambda>vid. bindE (if file_blob file = '''' then ret (int64_of (of_int (file_size file)))
       else (case ValidateBlobRef (file_blob file) (of_int (file_size file)) of
           Inl x \<Rightarrow> fail x
         | Inr n \<Rightarrow> bindE (announce_blob w rep A (file_blob file) n octet_stream (\<lambda>peer. npm_peerTarballURL peer name (file_name file)))
             (\<lambda>_. ret n))) (\<lambda>n. PutPackageFile (new_file vid (file_name file) (file_blob file) n octet_stream))"
  have m: "meta_field e ''npm'' ?obj ''npmMeta'' = Some meta'"
    using assms(7,8) by (cases meta) (simp_all add: meta_field_def npm_json_fields)
  define K where "K = (\<lambda>p :: Package. bindE (PutPackageVersion (new_version (pkg_id p) (ver_version v) ?raw A)) (\<lambda>x. ?file (ver_id x)))"
  have run: "bindE (GetOrCreatePackage ''npm'' name A) K s = (r, s')"
    using assms(1-3,10) by (simp add: npm_Ingest_def npm_ingestVersion_def Let_def npm_json_fields m K_def)
  obtain g t where g: "GetOrCreatePackage ''npm'' name A s = (g, t)" by (cases "GetOrCreatePackage ''npm'' name A s")
  have p: "case g of Inl x \<Rightarrow> x = ErrIO | Inr p \<Rightarrow> owned_package ''npm'' name A (pkg_id p) (tbl t)"
    by (rule create_package_hoare [OF _ g]) (rule assms(9))
  show ?thesis
  proof (cases g)
    case (Inl x)
    with run g p show ?thesis by (auto simp: bindE_def)
  next
    case (Inr p0)
    with run g have K: "K p0 t = (r, s')" by (simp add: bindE_def)
    have "hoare (\<lambda>s. owned_package ''npm'' name A (pkg_id p0) (tbl s)) (K p0)
      (\<lambda>_ s. \<exists>vid. (owned_package ''npm'' name A (pkg_id p0) (tbl s) \<and> has_version (pkg_id p0) vid (ver_version v) ?raw A (tbl s)) \<and>
         has_file vid file (tbl s)) io_only"
      unfolding K_def
    proof (rule hoare_bindE [OF put_version_hoare])
      fix x :: PackageVersion
      show "hoare (\<lambda>s. owned_package ''npm'' name A (pkg_id p0) (tbl s) \<and> has_version (pkg_id p0) (ver_id x) (ver_version v) ?raw A (tbl s))
        (?file (ver_id x)) (\<lambda>_ s. \<exists>vid. (owned_package ''npm'' name A (pkg_id p0) (tbl s) \<and>
           has_version (pkg_id p0) vid (ver_version v) ?raw A (tbl s)) \<and> has_file vid file (tbl s)) io_only"
        by (rule hoare_weaken [OF file_step_hoare [OF assms(4-6), where Q =
            "\<lambda>ps vs. owned_package ''npm'' name A (pkg_id p0) (empty_tables\<lparr>packages := ps\<rparr>) \<and>
              has_version (pkg_id p0) (ver_id x) (ver_version v) ?raw A (empty_tables\<lparr>package_versions := vs\<rparr>)"]])
          (auto simp: owned_package_def has_version_def)
    qed
    with K Inr p show ?thesis by (cases r) (auto dest: hoare_okD hoare_errD)
  qed
qed

section \<open>Where federation stops\<close>

text \<open>The limit of the size check is one above the largest \<open>int64\<close>.\<close>

lemma blob_ref_bounds:
  "ValidateBlobRef d x = Inr n \<Longrightarrow> Digest d \<and> 0 \<le> n \<and> n \<le> 2 ^ 63"
  "Digest d \<Longrightarrow> ValidateBlobRef d (2 ^ 63) = Inr (2 ^ 63)"
proof -
  have "\<lfloor>x\<rfloor> \<le> 2 ^ 63" if "x \<le> 2 ^ 63" for x :: rat
  proof -
    have "(of_int \<lfloor>x\<rfloor> :: rat) \<le> of_int (2 ^ 63)" using that of_int_floor_le [of x] by simp
    then show ?thesis by (simp only: of_int_le_iff)
  qed
  then show "ValidateBlobRef d x = Inr n \<Longrightarrow> Digest d \<and> 0 \<le> n \<and> n \<le> 2 ^ 63"
    by (auto simp: ValidateBlobRef_def int64_of_def split: if_split_asm)
  have "\<lfloor>(2 ^ 63 :: rat)\<rfloor> = 2 ^ 63" by (simp add: floor_eq_iff)
  then show "Digest d \<Longrightarrow> ValidateBlobRef d (2 ^ 63) = Inr (2 ^ 63)"
    by (simp add: ValidateBlobRef_def int64_of_def)
qed

lemma nuget_json_fields:
  "jstr (NugetPackage_json w ep pb pid version file stored) ''nugetId'' = pid"
  "jstr (NugetPackage_json w ep pb pid version file stored) ''nugetVersion'' = version"
  "jstr (NugetPackage_json w ep pb pid version file stored) ''nugetFile'' = file_name file"
  "EncodeContent w (Marshal w (nuget_stored_json stored)) \<noteq> '''' \<Longrightarrow>
     map_of (NugetPackage_json w ep pb pid version file stored) ''nugetMeta'' = Some (JStr (EncodeContent w (Marshal w (nuget_stored_json stored))))"
  by (simp_all add: NugetPackage_json_def object_json_def jstr_def omitempty_def)

text \<open>C9. NuGet versions do not federate: the metadata of the published object are a base64 text, which no
  receiver can decode into the structure, so the object a node publishes never creates a version or a
  file at a peer - it fails, or it names a version that was there.\<close>

theorem nuget_never_federated:
  fixes s :: fed
  assumes "EncodeContent w (Marshal w (nuget_stored_json stored)) \<noteq> ''''"
    and "nuget_Ingest w' rep activityType ''NugetPackage'' (NugetPackage_json w endpoint published pkgID version file stored) A s = (r, s')"
  shows "package_versions (tbl s') = package_versions (tbl s)"
proof -
  let ?obj = "NugetPackage_json w endpoint published pkgID version file stored"
  let ?P = "\<lambda>u :: fed. package_versions (tbl u) = package_versions (tbl s)"
  have none: "ensure_version pid ver None A = bindE (GetPackageVersion pid ver) (\<lambda>v. case v of Some x \<Rightarrow> ret x | None \<Rightarrow> fail (Errorf ''decode meta''))" for pid ver
    by (simp add: ensure_version_def option.case_distrib cong: option.case_cong)
  have "keeps ?P (nuget_ingestPackage w' rep ?obj A)"
    unfolding nuget_ingestPackage_def Let_def nuget_json_fields(1-3) nuget_json_fields(4) [OF assms(1)]
      option.case nuget_RemarshalInto_def json.case option.map none ingest_file_def announce_blob_def RecordPeerBlob_def
      ReplicateFromURL_def PutBlob_def PutPeerBlob_def GetOrCreatePackage_def GetPackageVersion_def getPackageVersion_def PutPackageFile_def
    by (intro keeps_intros keeps_modify) (simp_all split: option.splits)
  then show ?thesis using assms(2) by (auto simp: nuget_Ingest_def dest: keepsD)
qed

text \<open>
  Go versions federate with the base64 text of their info document instead of the document: it is
  published as \<open>[]byte\<close> and stored as the text that arrives.
\<close>

lemma go_info_is_base64:
  fixes s :: fed
  assumes "EncodeContent w infoRaw \<noteq> ''''"
    and "go_Ingest e w' rep activityType ''GoModule'' (GoModule_json e w endpoint published m ver zipFile infoRaw) A s = (r, s')"
    and "v \<in> set (package_versions (tbl s'))"
  shows "v \<in> set (package_versions (tbl s)) \<or> ver_metadata v = EncodeContent w infoRaw"
proof -
  let ?obj = "GoModule_json e w endpoint published m ver zipFile infoRaw"
  let ?P = "\<lambda>u :: fed. \<forall>v \<in> set (package_versions (tbl u)). v \<in> set (package_versions (tbl s)) \<or> ver_metadata v = EncodeContent w infoRaw"
  have info: "jstr ?obj ''goInfoMeta'' = EncodeContent w infoRaw"
    using assms(1) by (simp add: GoModule_json_def object_json_def jstr_def omitempty_def)
  have put: "keeps ?P (PutPackageVersion (new_version pid x (EncodeContent w infoRaw) A))" for pid x
    unfolding PutPackageVersion_def putPackageVersion_def getPackageVersion_def Let_def
    by (intro keeps_intros) (auto simp: upsert_version_def upsert_where_def overwrite_version_def new_version_def split: if_split_asm)
  have "keeps ?P (go_ingestModule e w' rep ?obj A)"
    unfolding go_ingestModule_def Let_def info ensure_version_def ingest_file_def announce_blob_def RecordPeerBlob_def
      ReplicateFromURL_def PutBlob_def PutPeerBlob_def GetOrCreatePackage_def GetPackageVersion_def getPackageVersion_def PutPackageFile_def option.case
    by (intro keeps_intros keeps_modify put) (simp_all split: option.splits)
  then show ?thesis using assms(2,3) by (auto simp: go_Ingest_def dest: keepsD)
qed

section \<open>Witnesses\<close>

definition demo_pkg_env :: pkg_env where
  "demo_pkg_env = \<lparr>pe_Meta = (\<lambda>_ m. Some m), pe_Cargo = (\<lambda>_. None), pe_EscapePath = Some, pe_EscapeVersion = Some\<rparr>"

definition demo_registry_adapters :: "adapter AdapterRegistry" where
  "demo_registry_adapters = projr (server_adapters (\<lambda>_. True) demo_pkg_env demo_world True)"

text \<open>A node with an npm package of its own, and a peer that tries to move one of its tags.\<close>

definition demo_npm :: fed where
  "demo_npm = snd (GetOrCreatePackage ''npm'' ''lib'' ''https://a.example/ap'' demo_fed)"

definition demo_retag :: RawActivity where
  "demo_retag = \<lparr>ra_id = ''i9'', ra_type = ''Update'', ra_actor = ''https://b.example/ap'',
     ra_object = JObj [(''type'', JStr ''NpmTag''), (''npmName'', JStr ''lib''), (''npmTag'', JStr ''latest''), (''npmVersion'', JStr ''6.6.6'')]\<rparr>"

lemma wf_demo_npm: "wf_tables (tbl demo_npm)"
proof -
  have "tbl demo_fed = demo_tables" by (simp add: demo_fed_def)
  then show ?thesis using wf.keeps_GetOrCreatePackage wf_demo unfolding keeps_def demo_npm_def by metis
qed

lemma remote_isolation_witness:
  "fst (process_content CUpdate demo_world demo_cfg (Lookup demo_registry_adapters) demo_retag demo_npm) = Inl ErrPackageOwnerMismatch \<and>
   foreign_view (foreign_ids ''https://b.example/ap'' (tbl demo_npm))
     (tbl (snd (process_content CUpdate demo_world demo_cfg (Lookup demo_registry_adapters) demo_retag demo_npm))) =
   foreign_view (foreign_ids ''https://b.example/ap'' (tbl demo_npm)) (tbl demo_npm)"
proof -
  have 1: "fst (process_content CUpdate demo_world demo_cfg (Lookup demo_registry_adapters) demo_retag demo_npm) = Inl ErrPackageOwnerMismatch"
    by code_simp
  have "nsCache demo_npm = []" by code_simp
  then have 2: "cache_ok demo_world demo_npm" by (simp add: cache_ok_def)
  have "isl (server_adapters (\<lambda>_. True) demo_pkg_env demo_world True) = False" by code_simp
  then have 3: "server_adapters (\<lambda>_. True) demo_pkg_env demo_world True = Inr demo_registry_adapters"
    by (simp add: demo_registry_adapters_def sum.collapse)
  have "ra_actor demo_retag = ''https://b.example/ap''" by (simp add: demo_retag_def)
  with remote_isolation [OF wf_demo_npm 2 3 prod.collapse [symmetric], where kind = CUpdate and cfg = demo_cfg and act = demo_retag] 1 show ?thesis by simp
qed

definition demo_npm_version :: PackageVersion where
  "demo_npm_version = new_version 0 ''1.0.0'' '''' ''https://b.example/ap''"

definition demo_npm_file :: PackageFile where
  "demo_npm_file = new_file 0 ''tool-1.0.0.tgz'' (''sha256:'' @ replicate 64 (CHR ''a'')) 12 octet_stream"

definition demo_npm_object :: jobj where
  "demo_npm_object = NpmVersion_json ''https://b.example'' ''t'' ''tool'' demo_npm_version demo_npm_file ''i'' ''s'' (JObj [])"

lemma npm_federates_witness:
  "\<exists>pid vid. owned_package ''npm'' ''tool'' ''https://b.example/ap'' pid
      (tbl (snd (npm_Ingest demo_pkg_env demo_world True ''Create'' ''NpmVersion'' demo_npm_object ''https://b.example/ap'' demo_fed))) \<and>
    has_file vid demo_npm_file
      (tbl (snd (npm_Ingest demo_pkg_env demo_world True ''Create'' ''NpmVersion'' demo_npm_object ''https://b.example/ap'' demo_fed)))"
proof -
  let ?run = "npm_Ingest demo_pkg_env demo_world True ''Create'' ''NpmVersion'' demo_npm_object ''https://b.example/ap'' demo_fed"
  have 1: "fst ?run = Inr ()" by code_simp
  have 2: "Digest (file_blob demo_npm_file)" "file_name demo_npm_file \<noteq> ''''" "ver_version demo_npm_version \<noteq> ''''"
    "file_size demo_npm_file = 12" by code_simp+
  have 3: "pe_Meta demo_pkg_env ''npm'' (JObj []) = Some (JObj [])" by (simp add: demo_pkg_env_def)
  have 4: "list_all (\<lambda>p. pkg_type p = ''npm'' \<longrightarrow> pkg_name p = ''tool'' \<longrightarrow> pkg_owner p = ''https://b.example/ap'') (packages (tbl demo_fed))"
    by code_simp
  have "case fst ?run of Inl x \<Rightarrow> x = ErrIO
    | Inr _ \<Rightarrow> \<exists>pid vid. owned_package ''npm'' ''tool'' ''https://b.example/ap'' pid (tbl (snd ?run)) \<and>
        has_version pid vid (ver_version demo_npm_version) (Marshal demo_world (npm_stored ''i'' ''s'' (JObj []))) ''https://b.example/ap'' (tbl (snd ?run)) \<and>
        has_file vid demo_npm_file (tbl (snd ?run))"
    by (rule npm_federates [OF _ 2(3,2,1) _ _ _ 3])
      (use 2(4) 4 in \<open>auto simp: list_all_iff demo_npm_object_def\<close>)
  with 1 show ?thesis by auto
qed

lemma nuget_never_federated_witness:
  "fst (nuget_Ingest demo_world True ''Create'' ''NugetPackage''
      (NugetPackage_json demo_world ''https://b.example'' ''t'' ''tool'' ''1.0.0'' demo_npm_file (nuget_zero ''Tool'')) ''https://b.example/ap'' demo_fed) =
    Inl (Errorf ''decode meta'') \<and>
   package_versions (tbl (snd (nuget_Ingest demo_world True ''Create'' ''NugetPackage''
      (NugetPackage_json demo_world ''https://b.example'' ''t'' ''tool'' ''1.0.0'' demo_npm_file (nuget_zero ''Tool'')) ''https://b.example/ap'' demo_fed))) =
    package_versions (tbl demo_fed)"
proof -
  have 1: "fst (nuget_Ingest demo_world True ''Create'' ''NugetPackage''
      (NugetPackage_json demo_world ''https://b.example'' ''t'' ''tool'' ''1.0.0'' demo_npm_file (nuget_zero ''Tool'')) ''https://b.example/ap'' demo_fed) =
    Inl (Errorf ''decode meta'')" by code_simp
  have 2: "EncodeContent demo_world (Marshal demo_world (nuget_stored_json (nuget_zero ''Tool''))) \<noteq> ''''" by code_simp
  from 1 nuget_never_federated [OF 2 prod.collapse [symmetric]] show ?thesis by blast
qed

end
