(* ===== verification/Package_Upstream.thy ===== *)
theory Package_Upstream
  imports Package_Adapters
begin

text \<open>
  \<open>internal/upstream/goproxy.go\<close> and \<open>internal/upstream/pypi.go\<close>: the clients of upstream Go module
  proxies and Python package indexes. Each walks its list of bases in order behind a circuit breaker
  of its own; the \<open>Accept\<close> and \<open>User-Agent\<close> headers are not part of the log of requests.
\<close>

section \<open>State\<close>

record pkgs = net +
  go_circuit :: circuit
  pypi_circuit :: circuit

record GoFetcher =
  gf_proxies :: "string list"
  gf_maxModule :: int

record PyPIFetcher =
  yf_bases :: "string list"
  yf_maxFile :: int

definition cleaned :: "string list \<Rightarrow> string list" where
  "cleaned bases = filter (\<lambda>p. p \<noteq> '''') (map (\<lambda>p. TrimRight_char (TrimSpace p) (CHR ''/'')) bases)"

definition NewGoFetcher :: "string list \<Rightarrow> int \<Rightarrow> GoFetcher" where
  "NewGoFetcher proxies maxModuleSize = \<lparr>gf_proxies = cleaned proxies, gf_maxModule = maxModuleSize\<rparr>"

definition NewPyPIFetcher :: "string list \<Rightarrow> int \<Rightarrow> PyPIFetcher" where
  "NewPyPIFetcher bases maxFileSize = \<lparr>yf_bases = cleaned bases, yf_maxFile = maxFileSize\<rparr>"

definition go_Enabled :: "GoFetcher \<Rightarrow> bool" where
  "go_Enabled f \<longleftrightarrow> gf_proxies f \<noteq> []"

definition pypi_Enabled :: "PyPIFetcher \<Rightarrow> bool" where
  "pypi_Enabled f \<longleftrightarrow> yf_bases f \<noteq> []"

section \<open>One request\<close>

text \<open>A breaker as a field of the state: how it is read and replaced.\<close>

type_synonym 'z lens = "('z pkgs_scheme \<Rightarrow> circuit) \<times> (circuit \<Rightarrow> 'z pkgs_scheme \<Rightarrow> 'z pkgs_scheme)"

definition go_breaker :: "'z lens" where
  "go_breaker = (go_circuit, \<lambda>cb s. s\<lparr>go_circuit := cb\<rparr>)"

definition pypi_breaker :: "'z lens" where
  "pypi_breaker = (pypi_circuit, \<lambda>cb s. s\<lparr>pypi_circuit := cb\<rparr>)"

definition breaker_isOpen :: "'z lens \<Rightarrow> string \<Rightarrow> ('z pkgs_scheme, bool) prog" where
  "breaker_isOpen l key = (\<lambda>s. case up_isOpen (clock s) key (fst l s) of (b, cb) \<Rightarrow> (Inr b, snd l cb s))"

definition breaker_record :: "'z lens \<Rightarrow> string \<Rightarrow> bool \<Rightarrow> ('z pkgs_scheme, unit) prog" where
  "breaker_record l key success = modify (\<lambda>s. snd l
     (snd (if success then up_recordSuccess key (fst l s) else up_recordFailure (clock s) key (fst l s))) s)"

text \<open>The request behind the breaker: every answer below 500 closes it, a 404 too.\<close>

definition guarded_do :: "'z lens \<Rightarrow> net_env \<Rightarrow> string \<Rightarrow> string \<Rightarrow> ('z pkgs_scheme, http_resp) prog" where
  "guarded_do l e key reqURL =
     (if \<not> NewRequest e reqURL then fail (Errorf ''creating request'')
      else handle (http_do e \<lparr>rq_url = reqURL, rq_auth = NoAuth\<rparr>) (\<lambda>r. case r of
        Inl _ \<Rightarrow> bindE (breaker_record l key False) (\<lambda>_. fail (Errorf ''fetching''))
      | Inr resp \<Rightarrow> bindE (breaker_record l key (rs_status resp < 500)) (\<lambda>_. ret resp)))"

definition go_do :: "pkg_env \<Rightarrow> net_env \<Rightarrow> string \<Rightarrow> string \<Rightarrow> string \<Rightarrow> ('z pkgs_scheme, http_resp) prog" where
  "go_do p e base m suffix = bindE (breaker_isOpen go_breaker base) (\<lambda>is_open.
     if is_open then fail (Errorf ''circuit open for upstream'')
     else (case pe_EscapePath p m of
         None \<Rightarrow> fail (Errorf ''escaping module path'')
       | Some escaped \<Rightarrow> guarded_do go_breaker e base (base @ ''/'' @ escaped @ ''/'' @ suffix)))"

definition pypi_do :: "net_env \<Rightarrow> string \<Rightarrow> string \<Rightarrow> ('z pkgs_scheme, http_resp) prog" where
  "pypi_do e circuitKey reqURL = bindE (breaker_isOpen pypi_breaker circuitKey) (\<lambda>is_open.
     if is_open then fail (Errorf ''circuit open for upstream'') else guarded_do pypi_breaker e circuitKey reqURL)"

section \<open>Go modules\<close>

text \<open>One proxy after the other until one answers 200; a body beyond the limit ends the walk.\<close>

fun go_walk :: "pkg_env \<Rightarrow> net_env \<Rightarrow> int \<Rightarrow> string \<Rightarrow> string \<Rightarrow> string list \<Rightarrow> err \<Rightarrow> ('z pkgs_scheme, string) prog" where
  "go_walk p e maxModule m suffix [] lastErr = fail lastErr"
| "go_walk p e maxModule m suffix (base # rest) lastErr = handle (go_do p e base m suffix) (\<lambda>r. case r of
      Inl x \<Rightarrow> go_walk p e maxModule m suffix rest x
    | Inr resp \<Rightarrow>
        if rs_status resp \<noteq> 200 then go_walk p e maxModule m suffix rest (Errorf ''upstream returned'')
        else let body = LimitReader (rs_body resp) (maxModule + 1) in
          if rd_fail body then go_walk p e maxModule m suffix rest (Errorf ''reading upstream'')
          else if maxModule < int (length (rd_data body)) then fail (Errorf ''upstream response exceeds max size'')
          else ret (rd_data body))"

definition go_fetchBytes :: "pkg_env \<Rightarrow> net_env \<Rightarrow> GoFetcher \<Rightarrow> string \<Rightarrow> string \<Rightarrow> ('z pkgs_scheme, string) prog" where
  "go_fetchBytes p e f m suffix = go_walk p e (gf_maxModule f) m suffix (gf_proxies f) (Errorf ''no upstream proxy configured'')"

definition go_fetch_version :: "string \<Rightarrow> pkg_env \<Rightarrow> net_env \<Rightarrow> GoFetcher \<Rightarrow> string \<Rightarrow> string \<Rightarrow> ('z pkgs_scheme, string) prog" where
  "go_fetch_version ext p e f m ver = (case pe_EscapeVersion p ver of
      None \<Rightarrow> fail (Errorf ''escaping version'')
    | Some escVer \<Rightarrow> go_fetchBytes p e f m (''@v/'' @ escVer @ ext))"

definition go_FetchInfo :: "pkg_env \<Rightarrow> net_env \<Rightarrow> GoFetcher \<Rightarrow> string \<Rightarrow> string \<Rightarrow> ('z pkgs_scheme, string) prog" where
  "go_FetchInfo = go_fetch_version ''.info''"

definition go_FetchZip :: "pkg_env \<Rightarrow> net_env \<Rightarrow> GoFetcher \<Rightarrow> string \<Rightarrow> string \<Rightarrow> ('z pkgs_scheme, string) prog" where
  "go_FetchZip = go_fetch_version ''.zip''"

definition go_FetchList :: "pkg_env \<Rightarrow> net_env \<Rightarrow> GoFetcher \<Rightarrow> string \<Rightarrow> ('z pkgs_scheme, string) prog" where
  "go_FetchList p e f m = go_fetchBytes p e f m ''@v/list''"

definition go_FetchLatest :: "pkg_env \<Rightarrow> net_env \<Rightarrow> GoFetcher \<Rightarrow> string \<Rightarrow> ('z pkgs_scheme, string) prog" where
  "go_FetchLatest p e f m = go_fetchBytes p e f m ''@latest''"

section \<open>Python packages\<close>

definition pypiIndexMaxBytes :: int where "pypiIndexMaxBytes = 1048576"

text \<open>\<open>pyf_sha256\<close> is the entry \<open>sha256\<close> of the hashes, empty when there is none.\<close>

record PyPIProjectFile =
  pyf_filename :: string
  pyf_url :: string
  pyf_sha256 :: string
  pyf_python :: string

text \<open>
  The walk counts the bases that answered 404: when all of them did, the project is unknown, which is
  the result \<open>None\<close> (\<open>ErrProjectNotFound\<close>).
\<close>

fun pypi_walk ::
  "(string \<Rightarrow> PyPIProjectFile list option) \<Rightarrow> net_env \<Rightarrow> string \<Rightarrow> string list \<Rightarrow> bool \<Rightarrow> err \<Rightarrow> ('z pkgs_scheme, PyPIProjectFile list option) prog" where
  "pypi_walk decode e name [] all404 lastErr = (if all404 then ret None else fail lastErr)"
| "pypi_walk decode e name (base # rest) all404 lastErr =
     handle (pypi_do e base (base @ ''/simple/'' @ PathEscape name @ ''/'')) (\<lambda>r. case r of
        Inl x \<Rightarrow> pypi_walk decode e name rest False x
      | Inr resp \<Rightarrow>
          if rs_status resp = 404 then pypi_walk decode e name rest all404 lastErr
          else if rs_status resp \<noteq> 200 then pypi_walk decode e name rest False (Errorf ''upstream returned'')
          else let body = LimitReader (rs_body resp) (pypiIndexMaxBytes + 1) in
            if rd_fail body then pypi_walk decode e name rest False (Errorf ''reading upstream'')
            else if pypiIndexMaxBytes < int (length (rd_data body)) then fail (Errorf ''upstream index response exceeds max size'')
            else (case decode (rd_data body) of
                None \<Rightarrow> pypi_walk decode e name rest False (Errorf ''parsing upstream index'')
              | Some proj \<Rightarrow> ret (Some proj)))"

definition FetchProject ::
  "(string \<Rightarrow> PyPIProjectFile list option) \<Rightarrow> net_env \<Rightarrow> PyPIFetcher \<Rightarrow> string \<Rightarrow> ('z pkgs_scheme, PyPIProjectFile list option) prog" where
  "FetchProject decode e f name = pypi_walk decode e name (yf_bases f) (yf_bases f \<noteq> []) (Errorf ''no upstream index configured'')"

definition FetchFile :: "world \<Rightarrow> net_env \<Rightarrow> PyPIFetcher \<Rightarrow> string \<Rightarrow> ('z pkgs_scheme, string) prog" where
  "FetchFile w e f fileURL = (case url_Parse w fileURL of
      None \<Rightarrow> fail (Errorf ''invalid upstream file URL'')
    | Some u \<Rightarrow>
        if u_scheme u \<noteq> ''http'' \<and> u_scheme u \<noteq> ''https'' then fail (Errorf ''invalid upstream file URL'')
        else bindE (pypi_do e (u_scheme u @ ''://'' @ u_host u) fileURL) (\<lambda>resp.
          if rs_status resp \<noteq> 200 then fail (Errorf ''upstream file returned'')
          else read_limited (rs_body resp) (yf_maxFile f)))"

section \<open>What the clients leave alone\<close>

text \<open>Nothing but the log of requests and the two breakers changes.\<close>

definition beside_net :: "'z pkgs_scheme \<Rightarrow> tables \<times> (string \<times> string \<times> int) list \<times> bool list \<times> int" where
  "beside_net s = (tbl s, bfiles s, faults s, clock s)"

lemma keeps_breakers:
  assumes "l = go_breaker \<or> l = pypi_breaker"
  shows "keeps (\<lambda>s. P (beside_net s)) (breaker_isOpen l key)" and "keeps (\<lambda>s. P (beside_net s)) (breaker_record l key b)"
  using assms
  by (auto intro!: keepsI simp: breaker_isOpen_def breaker_record_def modify_def go_breaker_def pypi_breaker_def beside_net_def split: prod.splits)

lemma keeps_http_do: "keeps (\<lambda>s. P (beside_net s)) (http_do e rq)"
  by (rule keepsI) (simp add: http_do_def beside_net_def)

lemma keeps_guarded_do:
  "l = go_breaker \<or> l = pypi_breaker \<Longrightarrow> keeps (\<lambda>s. P (beside_net s)) (guarded_do l e key url)"
  unfolding guarded_do_def by (intro keeps_intros keeps_http_do keeps_breakers)

lemma keeps_go_walk: "keeps (\<lambda>s. P (beside_net s)) (go_walk p e n m suffix bases x)"
  by (induction bases arbitrary: x)
    (auto intro!: keeps_intros keeps_breakers keeps_guarded_do simp: go_do_def Let_def)

lemma keeps_pypi_walk: "keeps (\<lambda>s. P (beside_net s)) (pypi_walk decode e name bases b x)"
  by (induction bases arbitrary: b x)
    (auto intro!: keeps_intros keeps_breakers keeps_guarded_do simp: pypi_do_def Let_def)

lemma keeps_go_fetch:
  "keeps (\<lambda>s. P (beside_net s)) (go_FetchInfo p e f m ver)" "keeps (\<lambda>s. P (beside_net s)) (go_FetchZip p e f m ver)"
  "keeps (\<lambda>s. P (beside_net s)) (go_FetchList p e f m)" "keeps (\<lambda>s. P (beside_net s)) (go_FetchLatest p e f m)"
  unfolding go_FetchInfo_def go_FetchZip_def go_FetchList_def go_FetchLatest_def go_fetch_version_def go_fetchBytes_def
  by (intro keeps_intros keeps_go_walk)+

lemma keeps_pypi_fetch:
  "keeps (\<lambda>s. P (beside_net s)) (FetchProject decode e y name)" "keeps (\<lambda>s. P (beside_net s)) (FetchFile w e y url)"
  unfolding FetchProject_def FetchFile_def pypi_do_def read_limited_def Let_def
  by (intro keeps_intros keeps_pypi_walk keeps_breakers keeps_guarded_do; simp)+

text \<open>The size of what is returned never exceeds the limit.\<close>

lemma go_walk_bounded: "go_walk p e n m suffix bases x s = (Inr body, s') \<Longrightarrow> int (length body) \<le> n"
  by (induction bases arbitrary: x s)
    (auto simp: handle_def Let_def split: prod.splits sum.splits if_split_asm)

text \<open>A project is reported as unknown only when every base answered 404.\<close>

lemma pypi_unknown:
  "pypi_walk decode e name bases b x s = (Inr None, s') \<Longrightarrow> b"
  by (induction bases arbitrary: b x s)
    (fastforce simp: handle_def Let_def split: prod.splits sum.splits if_split_asm option.splits)+

end
