(* ===== verification/Package_Registry.thy ===== *)
theory Package_Registry
  imports Package_Upstream Frames
begin

text \<open>
  The package registries of a node, their HTTP handlers: this theory holds what they share
  (\<open>internal/registry/backend.go\<close>, credentials, replies), npm (\<open>npm/backend.go\<close>, \<open>npm/handlers.go\<close>) and
  Cargo (\<open>cargo/backend.go\<close>, \<open>cargo/handlers.go\<close>).

  A handler returns the reply; it never fails. Requests arrive as the router delivers them: the route
  with its parameters, the credentials and the body. The parsers of uploads and the metadata types come
  from another module and are fields of \<open>registry_env\<close>.
\<close>

section \<open>The registry of backends\<close>

record Backend =
  Type :: string
  RoutePrefix :: string

definition mgr_Register :: "Backend option \<Rightarrow> Backend list \<Rightarrow> err + Backend list" where
  "mgr_Register b backends = (case b of
      None \<Rightarrow> Inl (Errorf ''registry: nil backend'')
    | Some b \<Rightarrow>
        if Type b = '''' then Inl (Errorf ''registry: backend type is empty'')
        else if \<not> HasPrefix (RoutePrefix b) ''/'' \<or> RoutePrefix b = ''/'' then Inl (Errorf ''registry: route prefix must start with / and not be /'')
        else if HasSuffix (RoutePrefix b) ''/'' then Inl (Errorf ''registry: route prefix must not end with /'')
        else if list_ex (\<lambda>x. Type x = Type b \<or> RoutePrefix x = RoutePrefix b) backends then Inl (Errorf ''registry: already registered'')
        else Inr (backends @ [b]))"

definition mgr_Lookup :: "string \<Rightarrow> Backend list \<Rightarrow> Backend option" where
  "mgr_Lookup pkgType backends = find (\<lambda>b. Type b = pkgType) backends"

section \<open>Replies\<close>

text \<open>Metadata of npm packages and crates, as far as the handlers build or read them.\<close>

record packument =
  pm_name :: string
  pm_dist_tags :: "(string \<times> string) list"
  pm_versions :: "(string \<times> json) list"
  pm_time :: "(string \<times> int) list"

record cargo_dep =
  dep_name :: string
  dep_req :: string
  dep_features :: "string list"
  dep_optional :: bool
  dep_default_features :: bool
  dep_target :: "string option"
  dep_kind :: string
  dep_registry :: "string option"
  dep_package :: "string option"

record cargo_meta =
  cm_dependencies :: "cargo_dep list"
  cm_features :: "(string \<times> string list) list"
  cm_links :: string

record indexEntry =
  ix_name :: string
  ix_vers :: string
  ix_deps :: "cargo_dep list"
  ix_cksum :: string
  ix_features :: "(string \<times> string list) list"
  ix_yanked :: bool
  ix_links :: "string option"
  ix_v :: int

text \<open>What a reply carries; \<open>File\<close> is a stored blob with content type and digest.\<close>

datatype payload =
    Empty
  | Message string
  | Body string
  | Json json
  | Packument packument
  | CargoIndex "indexEntry list"
  | File string string string

datatype reply = Reply int payload | Found string

fun status_of :: "reply \<Rightarrow> int" where
  "status_of (Reply st _) = st"
| "status_of (Found _) = 302"

definition http_error :: "int \<Rightarrow> string \<Rightarrow> ('s, reply) prog" where
  "http_error st msg = ret (Reply st (Message msg))"

definition on_error :: "('s, 'a) prog \<Rightarrow> int \<Rightarrow> string \<Rightarrow> ('a \<Rightarrow> ('s, reply) prog) \<Rightarrow> ('s, reply) prog" where
  "on_error m st msg k = handle m (\<lambda>r. case r of Inl _ \<Rightarrow> http_error st msg | Inr x \<Rightarrow> k x)"

definition on_missing :: "'a option \<Rightarrow> int \<Rightarrow> string \<Rightarrow> ('a \<Rightarrow> ('s, reply) prog) \<Rightarrow> ('s, reply) prog" where
  "on_missing x st msg k = (case x of None \<Rightarrow> http_error st msg | Some y \<Rightarrow> k y)"

text \<open>\<open>io.ReadAll(io.LimitReader(r.Body, max+1))\<close> with the check behind it.\<close>

definition read_body :: "reader \<Rightarrow> int \<Rightarrow> (string \<Rightarrow> ('s, reply) prog) \<Rightarrow> ('s, reply) prog" where
  "read_body body maxBytes k = (let r = LimitReader body (maxBytes + 1) in
     if rd_fail r then http_error 400 ''read body''
     else if maxBytes < int (length (rd_data r)) then http_error 413 ''publish body too large''
     else k (rd_data r))"

definition maxPublishBytes :: int where "maxPublishBytes = 209715200"

section \<open>Credentials\<close>

record credentials =
  cr_Authorization :: string
  cr_ApiKey :: string

text \<open>\<open>Request.BasicAuth\<close> of the standard library, base64 being a parameter.\<close>

definition Basic :: "world \<Rightarrow> string \<Rightarrow> (string \<times> string) option" where
  "Basic w auth =
     (if length auth < 6 \<or> \<not> EqualFold (take 6 auth) ''Basic '' then None
      else (case DecodeString w (drop 6 auth) of
          None \<Rightarrow> None
        | Some cs \<Rightarrow> if Contains_char cs (CHR '':'')
            then Some (Cut_before cs (CHR '':''), drop (Suc (length (Cut_before cs (CHR '':'')))) cs) else None))"

definition npm_allowed :: "string \<Rightarrow> credentials \<Rightarrow> bool" where
  "npm_allowed token c \<longleftrightarrow> token = '''' \<or> HasPrefix (cr_Authorization c) ''Bearer '' \<and> drop 7 (cr_Authorization c) = token"

definition cargo_allowed :: "string \<Rightarrow> credentials \<Rightarrow> bool" where
  "cargo_allowed token c \<longleftrightarrow> token = '''' \<or> cr_Authorization c = token"

section \<open>State and configuration\<close>

record backend =
  bk_endpoint :: string
  bk_token :: string
  bk_owner :: string
  bk_publisher :: "APPublisher option"

text \<open>\<open>New\<close>: the endpoint without slashes at its end.\<close>

definition new_backend :: "string \<Rightarrow> string \<Rightarrow> string \<Rightarrow> APPublisher option \<Rightarrow> backend" where
  "new_backend endpoint token owner publisher =
     \<lparr>bk_endpoint = TrimRight_char endpoint (CHR ''/''), bk_token = token, bk_owner = owner, bk_publisher = publisher\<rparr>"

record npm_package =
  np_name :: string
  np_version :: string
  np_filename :: string
  np_tags :: "string list"
  np_data :: string

record cargo_package =
  cp_name :: string
  cp_version :: string
  cp_metadata :: json
  cp_content :: reader

record nuget_package =
  gp_id :: string
  gp_version :: string
  gp_authors :: string
  gp_description :: string
  gp_project_url :: string
  gp_tags :: string

record registry_env =
  re_world :: world
  re_net :: net_env
  re_pkg :: pkg_env
  re_Unmarshal :: "string \<Rightarrow> json option"
  npm_ParsePackage :: "string \<Rightarrow> string + npm_package"
  npm_Versions :: "string \<Rightarrow> (string \<times> json) list option"
  npm_Stored :: "string \<Rightarrow> (json \<times> string \<times> string) option"
  npm_SetDist :: "json \<Rightarrow> string \<Rightarrow> string \<Rightarrow> string \<Rightarrow> json"
  re_sha512 :: "string \<Rightarrow> string"
  re_sha1_hex :: "string \<Rightarrow> string"
  cargo_ParsePackage :: "string \<Rightarrow> string + cargo_package"
  cargo_Metadata :: "json \<Rightarrow> cargo_meta option"
  nuget_ParsePackage :: "string \<Rightarrow> string + nuget_package"
  semver_less :: "string \<Rightarrow> string \<Rightarrow> bool"
  pypi_Metadata :: "(string \<times> string) list \<Rightarrow> json"
  pypi_RequiresPython :: "string \<Rightarrow> string"
  pypi_Project :: "string \<Rightarrow> PyPIProjectFile list option"
  go_UnescapePath :: "string \<Rightarrow> string option"
  go_UnescapeVersion :: "string \<Rightarrow> string option"
  go_Check :: "string \<Rightarrow> string \<Rightarrow> bool"
  go_Zip :: "string \<Rightarrow> (string \<times> reader) list option"
  go_ModulePath :: "string \<Rightarrow> string"

text \<open>The steps uploads share: blob and row, package row, version row.\<close>

definition put_upload :: "registry_env \<Rightarrow> string \<Rightarrow> (string \<Rightarrow> ('z disk_scheme, reply) prog) \<Rightarrow> ('z disk_scheme, reply) prog" where
  "put_upload e data k = on_error (store_Put (re_world e) (bytes_reader data) '''') 500 ''store blob'' (\<lambda>(digest, _).
     on_error (PutBlob digest (int (length data)) (Some octet_stream) True) 500 ''record blob'' (\<lambda>_. k digest))"

definition with_own_package :: "string \<Rightarrow> string \<Rightarrow> string \<Rightarrow> string \<Rightarrow> (Package \<Rightarrow> ('z store_scheme, reply) prog) \<Rightarrow> ('z store_scheme, reply) prog" where
  "with_own_package what packageType name owner k = handle (GetOrCreatePackage packageType name owner) (\<lambda>r. case r of
      Inl x \<Rightarrow> if x = ErrPackageOwnerMismatch then http_error 403 (what @ '' is owned by another actor'') else http_error 500 ''package access''
    | Inr dbPkg \<Rightarrow> k dbPkg)"

definition local_version :: "int \<Rightarrow> string \<Rightarrow> string \<Rightarrow> PackageVersion" where
  "local_version packageID version metadata = (new_version packageID version metadata '''')\<lparr>ver_source := None\<rparr>"

definition insert_version :: "PackageVersion \<Rightarrow> (PackageVersion \<Rightarrow> ('z store_scheme, reply) prog) \<Rightarrow> ('z store_scheme, reply) prog" where
  "insert_version v k = on_error (InsertPackageVersionIfNew v) 500 ''put version'' (\<lambda>(inserted, v').
     if \<not> inserted then http_error 409 ''version already exists'' else k v')"

text \<open>The package and the version a request names.\<close>

definition with_package :: "string \<Rightarrow> string \<Rightarrow> string \<Rightarrow> (Package \<Rightarrow> ('z store_scheme, reply) prog) \<Rightarrow> ('z store_scheme, reply) prog" where
  "with_package packageType name missing k = on_error (GetPackage packageType name) 500 ''lookup package'' (\<lambda>p. on_missing p 404 missing k)"

definition with_version :: "Package \<Rightarrow> string \<Rightarrow> int \<Rightarrow> string \<Rightarrow> (PackageVersion \<Rightarrow> ('z store_scheme, reply) prog) \<Rightarrow> ('z store_scheme, reply) prog" where
  "with_version dbPkg version st missing k =
     on_error (GetPackageVersion (pkg_id dbPkg) version) 500 ''lookup version'' (\<lambda>v. on_missing v st missing k)"

text \<open>A stored file: the local blob, or the address of a peer that has it.\<close>

definition serve_blob :: "string \<Rightarrow> string \<Rightarrow> (string \<Rightarrow> string) \<Rightarrow> ('z disk_scheme, reply) prog" where
  "serve_blob digest contentType buildURL = handle (store_Open digest) (\<lambda>r. case r of
      Inr (data, _) \<Rightarrow> ret (Reply 200 (File contentType digest data))
    | Inl x \<Rightarrow>
        if x \<noteq> ErrBlobNotFound then http_error 500 ''open blob''
        else bindE (RedirectToPeer digest buildURL) (\<lambda>peer. case peer of
            Some location \<Rightarrow> ret (Found location)
          | None \<Rightarrow> http_error 404 ''blob missing''))"

definition ok_reply :: reply where
  "ok_reply = Reply 200 (Json (JObj [(''ok'', JBool True)]))"

section \<open>npm\<close>

text \<open>\<open>url.PathUnescape\<close>: a malformed escape is an error.\<close>

definition hex_value :: "char \<Rightarrow> nat option" where
  "hex_value c =
     (if CHR ''0'' \<le> c \<and> c \<le> CHR ''9'' then Some (of_char c - 48)
      else if CHR ''a'' \<le> c \<and> c \<le> CHR ''f'' then Some (of_char c - 87)
      else if CHR ''A'' \<le> c \<and> c \<le> CHR ''F'' then Some (of_char c - 55)
      else None)"

fun PathUnescape :: "string \<Rightarrow> string option" where
  "PathUnescape [] = Some []"
| "PathUnescape (c # cs) =
     (if c \<noteq> CHR ''%'' then map_option ((#) c) (PathUnescape cs)
      else (case cs of
          a # b # rest \<Rightarrow> (case (hex_value a, hex_value b) of
              (Some x, Some y) \<Rightarrow> map_option ((#) (char_of (16 * x + y))) (PathUnescape rest)
            | _ \<Rightarrow> None)
        | _ \<Rightarrow> None))"

definition packageNameFromURL :: "string \<Rightarrow> string \<Rightarrow> string" where
  "packageNameFromURL scope name =
     (if scope \<noteq> '''' then ''@'' @ scope @ ''/'' @ name
      else (case PathUnescape name of Some decoded \<Rightarrow> decoded | None \<Rightarrow> name))"

definition bare_name :: "string \<Rightarrow> string" where
  "bare_name packageName = (if Contains_char packageName (CHR ''/'')
     then drop (Suc (length (Cut_before packageName (CHR ''/'')))) packageName else packageName)"

definition tarballFilename :: "string \<Rightarrow> string \<Rightarrow> string" where
  "tarballFilename name version = bare_name name @ ''-'' @ version @ ''.tgz''"

text \<open>The name without prefix and suffix; the source slices, so the two may not overlap.\<close>

definition versionFromTarballFilename :: "string \<Rightarrow> string \<Rightarrow> string" where
  "versionFromTarballFilename packageName filename = (let prefix = bare_name packageName @ ''-''; suffix = ''.tgz'' in
     if \<not> HasPrefix filename prefix \<or> \<not> HasSuffix filename suffix then ''''
     else take (length filename - length suffix - length prefix) (drop (length prefix) filename))"

definition tarballURL :: "backend \<Rightarrow> string \<Rightarrow> string \<Rightarrow> string" where
  "tarballURL b name filename = bk_endpoint b @ ''/npm/'' @ name @ ''/-/'' @ filename"

text \<open>The second half of a publication: the rows, then the activities.\<close>

definition npm_record :: "registry_env \<Rightarrow> backend \<Rightarrow> npm_package \<Rightarrow> json \<Rightarrow> string \<Rightarrow> ('z pub_scheme, reply) prog" where
  "npm_record e b pkg versionMeta digest = with_own_package ''package'' ''npm'' (np_name pkg) (bk_owner b) (\<lambda>dbPkg.
     let integrity = ''sha512-'' @ EncodeToString (re_world e) (re_sha512 e (np_data pkg));
         shasum = re_sha1_hex e (np_data pkg);
         metadata = Marshal (re_world e) (npm_stored integrity shasum versionMeta)
     in insert_version (local_version (pkg_id dbPkg) (np_version pkg) metadata) (\<lambda>v.
     let file = new_file (ver_id v) (np_filename pkg) digest (int (length (np_data pkg))) octet_stream in
     on_error (PutPackageFile file) 500 ''put file'' (\<lambda>_.
     on_error (foreach (np_tags pkg) (\<lambda>tag. PutPackageTag (pkg_id dbPkg) tag (np_version pkg))) 500 ''put dist-tag'' (\<lambda>_.
     bindE (npm_publishVersion (re_world e) (bk_publisher b) (bk_endpoint b) (np_name pkg) v file integrity shasum versionMeta) (\<lambda>_.
     bindE (foreach (np_tags pkg) (\<lambda>tag. npm_publishTagSet (re_world e) (bk_publisher b) (bk_endpoint b) (np_name pkg) tag (np_version pkg))) (\<lambda>_.
     ret (Reply 201 (Json (JObj [(''ok'', JBool True)])))))))))"

definition npm_handlePublish :: "registry_env \<Rightarrow> backend \<Rightarrow> string \<Rightarrow> reader \<Rightarrow> ('z disk_scheme, reply) prog" where
  "npm_handlePublish e b urlName body = read_body body maxPublishBytes (\<lambda>data.
     (case npm_ParsePackage e data of
        Inl msg \<Rightarrow> http_error 400 msg
      | Inr pkg \<Rightarrow>
          if np_name pkg \<noteq> urlName then http_error 400 ''package name mismatch between URL and body''
          else on_missing (npm_Versions e data) 400 ''decode payload'' (\<lambda>versions.
          on_missing (map_of versions (np_version pkg)) 400 ''publish payload missing version'' (\<lambda>versionMeta.
          put_upload e (np_data pkg) (npm_record e b pkg versionMeta)))))"

text \<open>The versions that decode, with their times; the latest of them is the time of modification.\<close>

definition npm_decoded :: "registry_env \<Rightarrow> PackageVersion list \<Rightarrow> (PackageVersion \<times> json \<times> string \<times> string) list" where
  "npm_decoded e versions = concat (map (\<lambda>v. case npm_Stored e (ver_metadata v) of None \<Rightarrow> [] | Some st \<Rightarrow> [(v, st)]) versions)"

definition npm_handlePackument :: "registry_env \<Rightarrow> backend \<Rightarrow> string \<Rightarrow> ('z store_scheme, reply) prog" where
  "npm_handlePackument e b name = with_package ''npm'' name ''package not found'' (\<lambda>dbPkg.
     on_error (ListPackageVersions (pkg_id dbPkg)) 500 ''list versions'' (\<lambda>versions.
     on_error (ListPackageTags (pkg_id dbPkg)) 500 ''list tags'' (\<lambda>tags.
     let decoded = npm_decoded e versions;
         times = map (\<lambda>(v, _). (ver_version v, ver_created v)) decoded
     in ret (Reply 200 (Packument \<lparr>pm_name = name,
       pm_dist_tags = fold (\<lambda>t. AList.update (tag_name t) (tag_version t)) tags [],
       pm_versions = map (\<lambda>(v, meta, integrity, shasum).
          (ver_version v, npm_SetDist e meta integrity shasum (tarballURL b name (tarballFilename name (ver_version v))))) decoded,
       pm_time = (if times = [] then [] else AList.update ''created'' (ver_created (last versions))
          (AList.update ''modified'' (Max (set (map snd times))) times))\<rparr>)))))"

definition findTarball :: "Package \<Rightarrow> string \<Rightarrow> ('z store_scheme, PackageFile option) prog" where
  "findTarball pkg filename = (let version = versionFromTarballFilename (pkg_name pkg) filename in
     if version = '''' then ret None
     else bindE (GetPackageVersion (pkg_id pkg) version) (\<lambda>v. case v of
         None \<Rightarrow> ret None
       | Some v \<Rightarrow> GetPackageFile (ver_id v) filename))"

definition npm_handleTarball :: "string \<Rightarrow> string \<Rightarrow> ('z disk_scheme, reply) prog" where
  "npm_handleTarball name tarball = with_package ''npm'' name ''package not found'' (\<lambda>dbPkg.
     on_error (findTarball dbPkg tarball) 500 ''lookup tarball'' (\<lambda>file.
     on_missing file 404 ''tarball not found'' (\<lambda>f.
     serve_blob (file_blob f) octet_stream (\<lambda>peer. npm_peerTarballURL peer name (file_name f)))))"

definition handleDistTagsList :: "string \<Rightarrow> ('z store_scheme, reply) prog" where
  "handleDistTagsList name = with_package ''npm'' name ''package not found'' (\<lambda>dbPkg.
     on_error (ListPackageTags (pkg_id dbPkg)) 500 ''list tags'' (\<lambda>tags.
     ret (Reply 200 (Json (JObj (map (\<lambda>t. (tag_name t, JStr (tag_version t))) tags))))))"

definition handleDistTagPut :: "registry_env \<Rightarrow> backend \<Rightarrow> string \<Rightarrow> string \<Rightarrow> reader \<Rightarrow> ('z pub_scheme, reply) prog" where
  "handleDistTagPut e b name tag body = (let r = LimitReader body 1024 in
     if rd_fail r then http_error 400 ''read body''
     else (case re_Unmarshal e (rd_data r) of
         Some (JStr version) \<Rightarrow>
           if version = '''' then http_error 400 ''version is required''
           else with_package ''npm'' name ''package not found'' (\<lambda>dbPkg.
             with_version dbPkg version 400 ''version does not exist'' (\<lambda>_.
             on_error (PutPackageTag (pkg_id dbPkg) tag version) 500 ''put tag'' (\<lambda>_.
             bindE (npm_publishTagSet (re_world e) (bk_publisher b) (bk_endpoint b) name tag version) (\<lambda>_. ret ok_reply))))
       | Some JNull \<Rightarrow> http_error 400 ''version is required''
       | _ \<Rightarrow> http_error 400 ''body must be a JSON string''))"

definition handleDistTagDelete :: "registry_env \<Rightarrow> backend \<Rightarrow> string \<Rightarrow> string \<Rightarrow> ('z pub_scheme, reply) prog" where
  "handleDistTagDelete e b name tag = with_package ''npm'' name ''package not found'' (\<lambda>dbPkg.
     on_error (DeletePackageTag (pkg_id dbPkg) tag) 500 ''delete tag'' (\<lambda>_.
     bindE (npm_publishTagDelete (re_world e) (bk_publisher b) (bk_endpoint b) name tag) (\<lambda>_. ret ok_reply)))"

text \<open>The routes, with the scope and the name of the package as the router captures them.\<close>

datatype npm_route =
    NpmDistTags string string
  | NpmDistTagPut string string string reader
  | NpmDistTagDelete string string string
  | NpmTarball string string string
  | NpmPackument string string
  | NpmPublish string string reader

definition npm_protected :: "npm_route \<Rightarrow> bool" where
  "npm_protected r \<longleftrightarrow> (case r of NpmDistTagPut _ _ _ _ \<Rightarrow> True | NpmDistTagDelete _ _ _ \<Rightarrow> True | NpmPublish _ _ _ \<Rightarrow> True | _ \<Rightarrow> False)"

definition npm_route_handler :: "registry_env \<Rightarrow> backend \<Rightarrow> npm_route \<Rightarrow> ('z disk_scheme, reply) prog" where
  "npm_route_handler e b r = (case r of
      NpmDistTags scope name \<Rightarrow> handleDistTagsList (packageNameFromURL scope name)
    | NpmDistTagPut scope name tag body \<Rightarrow> handleDistTagPut e b (packageNameFromURL scope name) tag body
    | NpmDistTagDelete scope name tag \<Rightarrow> handleDistTagDelete e b (packageNameFromURL scope name) tag
    | NpmTarball scope name tarball \<Rightarrow> npm_handleTarball (packageNameFromURL scope name) tarball
    | NpmPackument scope name \<Rightarrow> npm_handlePackument e b (packageNameFromURL scope name)
    | NpmPublish scope name body \<Rightarrow> npm_handlePublish e b (packageNameFromURL scope name) body)"

definition npm_ServeHTTP :: "registry_env \<Rightarrow> backend \<Rightarrow> credentials \<Rightarrow> npm_route \<Rightarrow> ('z disk_scheme, reply) prog" where
  "npm_ServeHTTP e b c r = (if npm_protected r \<and> \<not> npm_allowed (bk_token b) c then http_error 401 ''unauthorized'' else npm_route_handler e b r)"

section \<open>Cargo\<close>

definition cksumFromDigest :: "string \<Rightarrow> string" where
  "cksumFromDigest digest = TrimPrefix digest ''sha256:''"

definition handleConfig :: "backend \<Rightarrow> ('s, reply) prog" where
  "handleConfig b = ret (Reply 200 (Json (JObj [(''api'', JStr (bk_endpoint b @ ''/cargo'')),
     (''auth-required'', JBool (bk_token b \<noteq> '''')), (''dl'', JStr (bk_endpoint b @ ''/cargo/api/v1/crates''))])))"

definition cargo_handlePublish :: "registry_env \<Rightarrow> backend \<Rightarrow> reader \<Rightarrow> ('z disk_scheme, reply) prog" where
  "cargo_handlePublish e b body = read_body body maxPublishBytes (\<lambda>data.
     (case cargo_ParsePackage e data of
        Inl msg \<Rightarrow> http_error 400 msg
      | Inr pkg \<Rightarrow> let name = ToLower (cp_name pkg); crate = cp_content pkg in
          if rd_fail crate then http_error 400 ''read crate''
          else put_upload e (rd_data crate) (\<lambda>digest.
          with_own_package ''package'' ''cargo'' name (bk_owner b) (\<lambda>dbPkg.
          let cksum = cksumFromDigest digest;
              metadata = Marshal (re_world e) (cargo_stored (cp_metadata pkg) cksum False)
          in insert_version (local_version (pkg_id dbPkg) (cp_version pkg) metadata) (\<lambda>v.
          let file = new_file (ver_id v) (crateFilename name (cp_version pkg)) digest (int (length (rd_data crate))) octet_stream in
          on_error (PutPackageFile file) 500 ''put file'' (\<lambda>_.
          bindE (cargo_publishVersion (re_world e) (bk_publisher b) (bk_endpoint b) name v file cksum (cp_metadata pkg)) (\<lambda>_.
          ret (Reply 200 (Json (JObj [(''warnings'', JObj [(''invalid_categories'', JArr []), (''invalid_badges'', JArr []), (''other'', JArr [])])]))))))))))"

definition buildIndexEntry :: "string \<Rightarrow> string \<Rightarrow> cargo_meta \<Rightarrow> string \<Rightarrow> bool \<Rightarrow> indexEntry" where
  "buildIndexEntry name version meta cksum yanked =
     \<lparr>ix_name = name, ix_vers = version, ix_deps = cm_dependencies meta, ix_cksum = cksum, ix_features = cm_features meta,
      ix_yanked = yanked, ix_links = if cm_links meta \<noteq> '''' then Some (cm_links meta) else None, ix_v = 2\<rparr>"

text \<open>A version whose metadata do not decode is left out.\<close>

definition index_entries :: "registry_env \<Rightarrow> string \<Rightarrow> PackageVersion list \<Rightarrow> indexEntry list" where
  "index_entries e name versions = concat (map (\<lambda>v. case pe_Cargo (re_pkg e) (ver_metadata v) of
      None \<Rightarrow> []
    | Some (meta, cksum, yanked) \<Rightarrow> (case cargo_Metadata e meta of
          None \<Rightarrow> []
        | Some m \<Rightarrow> [buildIndexEntry name (ver_version v) m cksum yanked])) versions)"

definition handleIndex :: "registry_env \<Rightarrow> string \<Rightarrow> ('z store_scheme, reply) prog" where
  "handleIndex e rawName = (let name = ToLower rawName in
     with_package ''cargo'' name ''crate not found'' (\<lambda>dbPkg.
     on_error (ListPackageVersions (pkg_id dbPkg)) 500 ''list versions'' (\<lambda>versions.
     ret (Reply 200 (CargoIndex (index_entries e name versions))))))"

definition cargo_handleDownload :: "string \<Rightarrow> string \<Rightarrow> ('z disk_scheme, reply) prog" where
  "cargo_handleDownload rawName version = (let name = ToLower rawName in
     with_package ''cargo'' name ''crate not found'' (\<lambda>dbPkg.
     with_version dbPkg version 404 ''version not found'' (\<lambda>v.
     on_error (GetPackageFile (ver_id v) (crateFilename name version)) 404 ''crate file missing'' (\<lambda>file.
     on_missing file 404 ''crate file missing'' (\<lambda>f.
     serve_blob (file_blob f) octet_stream (\<lambda>peer. cargo_peerCrateURL peer name version))))))"

definition setYanked :: "registry_env \<Rightarrow> backend \<Rightarrow> string \<Rightarrow> string \<Rightarrow> bool \<Rightarrow> ('z pub_scheme, reply) prog" where
  "setYanked e b rawName version yanked = (let name = ToLower rawName in
     with_package ''cargo'' name ''crate not found'' (\<lambda>dbPkg.
     with_version dbPkg version 404 ''version not found'' (\<lambda>v.
     on_missing (pe_Cargo (re_pkg e) (ver_metadata v)) 500 ''decode metadata'' (\<lambda>(meta, cksum, was).
       if was = yanked then ret ok_reply
       else let updated = Marshal (re_world e) (cargo_stored meta cksum yanked) in
         on_error (PutPackageVersion (v\<lparr>ver_metadata := updated, ver_size := int (length updated)\<rparr>)) 500 ''update version'' (\<lambda>_.
         bindE (cargo_publishYank (re_world e) (bk_publisher b) (bk_endpoint b) name version yanked) (\<lambda>_. ret ok_reply))))))"

datatype cargo_route =
    CargoConfig
  | CargoPublish reader
  | CargoDownload string string
  | CargoYank string string bool
  | CargoSparse string

definition cargo_protected :: "cargo_route \<Rightarrow> bool" where
  "cargo_protected r \<longleftrightarrow> (case r of CargoPublish _ \<Rightarrow> True | CargoYank _ _ _ \<Rightarrow> True | _ \<Rightarrow> False)"

definition cargo_route_handler :: "registry_env \<Rightarrow> backend \<Rightarrow> cargo_route \<Rightarrow> ('z disk_scheme, reply) prog" where
  "cargo_route_handler e b r = (case r of
      CargoConfig \<Rightarrow> handleConfig b
    | CargoPublish body \<Rightarrow> cargo_handlePublish e b body
    | CargoDownload name version \<Rightarrow> cargo_handleDownload name version
    | CargoYank name version yanked \<Rightarrow> setYanked e b name version yanked
    | CargoSparse name \<Rightarrow> handleIndex e name)"

definition cargo_ServeHTTP :: "registry_env \<Rightarrow> backend \<Rightarrow> credentials \<Rightarrow> cargo_route \<Rightarrow> ('z disk_scheme, reply) prog" where
  "cargo_ServeHTTP e b c r = (if cargo_protected r \<and> \<not> cargo_allowed (bk_token b) c then http_error 401 ''unauthorized'' else cargo_route_handler e b r)"

end
