(* ===== verification/Package_Nuget.thy ===== *)
theory Package_Nuget
  imports Package_Registry
begin

text \<open>
  The package registry of NuGet (\<open>nuget/backend.go\<close>, \<open>nuget/handlers.go\<close>), and the uploads by form that
  it has in common with Python packages.
\<close>

section \<open>Uploads\<close>

text \<open>A parsed multipart form; \<open>None\<close> where it is given means that parsing failed or the body was too long.\<close>

record form =
  fm_values :: "(string \<times> string) list"
  fm_files :: "(string \<times> (string \<times> reader) list) list"

definition FormValue :: "form \<Rightarrow> string \<Rightarrow> string" where
  "FormValue f k = (case map_of (fm_values f) k of None \<Rightarrow> '''' | Some v \<Rightarrow> v)"

definition form_file :: "form \<Rightarrow> string \<Rightarrow> (string \<times> reader) option" where
  "form_file f k = (case map_of (fm_files f) k of Some (x # _) \<Rightarrow> Some x | _ \<Rightarrow> None)"

definition read_upload :: "reader \<Rightarrow> int \<Rightarrow> (string \<Rightarrow> ('z env_scheme, reply) prog) \<Rightarrow> ('z env_scheme, reply) prog" where
  "read_upload src maxBytes k = on_error tick 400 ''open upload'' (\<lambda>_. let r = LimitReader src (maxBytes + 1) in
     if rd_fail r then http_error 400 ''read upload''
     else if maxBytes < int (length (rd_data r)) then http_error 413 ''upload too large''
     else k (rd_data r))"

text \<open>A version that must be new: looked up first, then put.\<close>

definition put_new_version :: "int \<Rightarrow> string \<Rightarrow> string \<Rightarrow> (PackageVersion \<Rightarrow> ('z store_scheme, reply) prog) \<Rightarrow> ('z store_scheme, reply) prog" where
  "put_new_version packageID version metadata k =
     on_error (PutPackageVersion (local_version packageID version metadata)) 500 ''put version'' k"

definition check_new :: "int \<Rightarrow> string \<Rightarrow> ('z store_scheme, reply) prog \<Rightarrow> ('z store_scheme, reply) prog" where
  "check_new packageID version k = on_error (GetPackageVersion packageID version) 500 ''lookup version'' (\<lambda>existing.
     if existing \<noteq> None then http_error 409 ''version already exists'' else k)"

section \<open>NuGet\<close>

definition nuget_allowed :: "string \<Rightarrow> credentials \<Rightarrow> bool" where
  "nuget_allowed token c \<longleftrightarrow> token = '''' \<or> cr_ApiKey c = token"

definition maxPushBytes :: int where "maxPushBytes = 524288000"

definition resource_json :: "string \<Rightarrow> string \<Rightarrow> string \<Rightarrow> json" where
  "resource_json rid ty comment = JObj ([(''@id'', JStr rid), (''@type'', JStr ty)] @ omitempty ''comment'' comment)"

definition handleServiceIndex :: "backend \<Rightarrow> ('s, reply) prog" where
  "handleServiceIndex b = (let base = bk_endpoint b @ ''/nuget'' in ret (Reply 200 (Json (JObj [(''version'', JStr ''3.0.0''), (''resources'', JArr [
     resource_json (base @ ''/v3-flatcontainer/'') ''PackageBaseAddress/3.0.0'' ''Base URL for NuGet package downloads'',
     resource_json (base @ ''/v3/package'') ''PackagePublish/2.0.0'' ''Endpoint for pushing and delisting packages'',
     resource_json (base @ ''/v3/registration/'') ''RegistrationsBaseUrl/3.0.0'' ''Base URL for package registration info''])]))))"

definition nupkg_name :: "string \<Rightarrow> string \<Rightarrow> string" where
  "nupkg_name pkgID version = pkgID @ ''.'' @ ToLower version @ ''.nupkg''"

definition nuget_stored_fields :: "nuget_package \<Rightarrow> (string \<times> string) list" where
  "nuget_stored_fields p = [(''id'', gp_id p), (''authors'', gp_authors p), (''description'', gp_description p),
     (''projectUrl'', gp_project_url p), (''tags'', gp_tags p)]"

definition handlePush :: "registry_env \<Rightarrow> backend \<Rightarrow> form option \<Rightarrow> ('z disk_scheme, reply) prog" where
  "handlePush e b frm = on_missing frm 400 ''parse multipart'' (\<lambda>f.
     on_missing (form_file f ''package'') 400 ''package file is required'' (\<lambda>(_, src).
     read_upload src maxPushBytes (\<lambda>body.
     (case nuget_ParsePackage e body of
        Inl msg \<Rightarrow> http_error 400 (''invalid nupkg: '' @ msg)
      | Inr pkg \<Rightarrow> let pkgID = ToLower (gp_id pkg); version = gp_version pkg; stored = nuget_stored_fields pkg in
          put_upload e body (\<lambda>digest.
          with_own_package ''package'' ''nuget'' pkgID (bk_owner b) (\<lambda>dbPkg.
          check_new (pkg_id dbPkg) version (
          put_new_version (pkg_id dbPkg) version (Marshal (re_world e) (nuget_stored_json stored)) (\<lambda>v.
          let file = new_file (ver_id v) (nupkg_name pkgID version) digest (int (length body)) octet_stream in
          on_error (PutPackageFile file) 500 ''put file'' (\<lambda>_.
          bindE (nuget_publishPackage (re_world e) (bk_publisher b) (bk_endpoint b) pkgID version file stored) (\<lambda>_.
          ret (Reply 201 Empty)))))))))))"

definition handleDelete :: "string \<Rightarrow> string \<Rightarrow> ('z store_scheme, reply) prog" where
  "handleDelete rawID version = with_package ''nuget'' (ToLower rawID) ''package not found'' (\<lambda>dbPkg.
     on_error (DeletePackageVersion (pkg_id dbPkg) version) 500 ''delete version'' (\<lambda>_. ret (Reply 204 Empty)))"

definition handleVersionList :: "string \<Rightarrow> ('z store_scheme, reply) prog" where
  "handleVersionList rawID = with_package ''nuget'' (ToLower rawID) ''package not found'' (\<lambda>dbPkg.
     on_error (ListPackageVersions (pkg_id dbPkg)) 500 ''list versions'' (\<lambda>versions.
     ret (Reply 200 (Json (JObj [(''versions'', JArr (map (\<lambda>v. JStr (ToLower (ver_version v))) versions))])))))"

definition nuget_handleDownload :: "string \<Rightarrow> string \<Rightarrow> string \<Rightarrow> ('z disk_scheme, reply) prog" where
  "nuget_handleDownload rawID version filename = (let pid = ToLower rawID in
     with_package ''nuget'' pid ''package not found'' (\<lambda>dbPkg.
     with_version dbPkg version 404 ''version not found'' (\<lambda>v.
     on_error (GetPackageFile (ver_id v) filename) 404 ''file not found'' (\<lambda>file.
     on_missing file 404 ''file not found'' (\<lambda>f.
     serve_blob (file_blob f) octet_stream (\<lambda>peer. nuget_peerFileURL peer pid version filename))))))"

definition registrationBase :: "backend \<Rightarrow> string \<Rightarrow> string" where
  "registrationBase b pid = bk_endpoint b @ ''/nuget/v3/registration/'' @ PathEscape pid @ ''/''"

record registrationLeaf =
  rl_id :: string
  rl_package :: string
  rl_version :: string
  rl_stored :: "(string \<times> string) list"
  rl_published :: string
  rl_content :: string
  rl_registration :: string

text \<open>Decoding with the error ignored: a field of a wrong type keeps its value.\<close>

fun nuget_decode_lenient :: "jobj \<Rightarrow> (string \<times> string) list \<Rightarrow> (string \<times> string) list" where
  "nuget_decode_lenient [] stored = stored"
| "nuget_decode_lenient ((k, v) # rest) stored = nuget_decode_lenient rest (case (find (EqualFold k) nuget_fields, v) of
      (Some f, JStr x) \<Rightarrow> AList.update f x stored
    | _ \<Rightarrow> stored)"

definition nuget_decoded :: "registry_env \<Rightarrow> string \<Rightarrow> (string \<times> string) list" where
  "nuget_decoded e metadata = (case re_Unmarshal e metadata of
      Some (JObj obj) \<Rightarrow> nuget_decode_lenient obj (nuget_zero '''')
    | _ \<Rightarrow> nuget_zero '''')"

definition stored_field :: "(string \<times> string) list \<Rightarrow> string \<Rightarrow> string" where
  "stored_field stored k = (case map_of stored k of None \<Rightarrow> '''' | Some x \<Rightarrow> x)"

definition buildLeaf :: "registry_env \<Rightarrow> backend \<Rightarrow> string \<Rightarrow> PackageVersion \<Rightarrow> registrationLeaf" where
  "buildLeaf e b pid v = (let stored = nuget_decoded e (ver_metadata v); low = ToLower (ver_version v) in
     \<lparr>rl_id = registrationBase b pid @ PathEscape low @ ''.json'',
      rl_package = (if stored_field stored ''id'' = '''' then pid else stored_field stored ''id''),
      rl_version = ver_version v, rl_stored = stored, rl_published = RFC3339 (re_world e) (ver_created v),
      rl_content = nuget_peerFileURL (bk_endpoint b) pid low (nupkg_name pid (ver_version v)),
      rl_registration = registrationBase b pid @ ''index.json''\<rparr>)"

definition leaf_json :: "registrationLeaf \<Rightarrow> json" where
  "leaf_json l = JObj [(''@id'', JStr (rl_id l)),
     (''catalogEntry'', JObj ([(''@id'', JStr (rl_id l)), (''id'', JStr (rl_package l)), (''version'', JStr (rl_version l))] @
        omitempty ''description'' (stored_field (rl_stored l) ''description'') @ omitempty ''authors'' (stored_field (rl_stored l) ''authors'') @
        omitempty ''projectUrl'' (stored_field (rl_stored l) ''projectUrl'') @ omitempty ''tags'' (stored_field (rl_stored l) ''tags'') @
        [(''published'', JStr (rl_published l))])),
     (''packageContent'', JStr (rl_content l)), (''registration'', JStr (rl_registration l))]"

text \<open>\<open>sort.SliceStable\<close>: an element goes in front of the first one it is less than.\<close>

fun insert_stable :: "('a \<Rightarrow> 'a \<Rightarrow> bool) \<Rightarrow> 'a \<Rightarrow> 'a list \<Rightarrow> 'a list" where
  "insert_stable lt x [] = [x]"
| "insert_stable lt x (y # ys) = (if lt x y then x # y # ys else y # insert_stable lt x ys)"

definition SliceStable :: "('a \<Rightarrow> 'a \<Rightarrow> bool) \<Rightarrow> 'a list \<Rightarrow> 'a list" where
  "SliceStable lt xs = fold (insert_stable lt) xs []"

definition lowerVersion :: "registrationLeaf list \<Rightarrow> string" where
  "lowerVersion leaves = (if leaves = [] then '''' else ToLower (rl_version (hd leaves)))"

definition upperVersion :: "registrationLeaf list \<Rightarrow> string" where
  "upperVersion leaves = (if leaves = [] then '''' else ToLower (rl_version (last leaves)))"

definition handleRegistrationIndex :: "registry_env \<Rightarrow> backend \<Rightarrow> string \<Rightarrow> ('z store_scheme, reply) prog" where
  "handleRegistrationIndex e b rawID = (let pid = ToLower rawID; base = registrationBase b pid in
     with_package ''nuget'' pid ''package not found'' (\<lambda>dbPkg.
     on_error (ListPackageVersions (pkg_id dbPkg)) 500 ''list versions'' (\<lambda>versions.
     let leaves = SliceStable (\<lambda>x y. semver_less e (''v'' @ rl_version x) (''v'' @ rl_version y)) (map (buildLeaf e b pid) versions)
     in ret (Reply 200 (Json (JObj [(''@id'', JStr (base @ ''index.json'')), (''count'', JNum 1),
          (''items'', JArr [JObj [(''@id'', JStr (base @ ''index.json'')), (''count'', JNum (of_nat (length leaves))),
             (''items'', JArr (map leaf_json leaves)), (''lower'', JStr (lowerVersion leaves)), (''upper'', JStr (upperVersion leaves))]])]))))))"

definition handleRegistrationLeaf :: "registry_env \<Rightarrow> backend \<Rightarrow> string \<Rightarrow> string \<Rightarrow> ('z store_scheme, reply) prog" where
  "handleRegistrationLeaf e b rawID slug = (let pid = ToLower rawID; version = take (length slug - 5) slug in
     if \<not> HasSuffix slug ''.json'' then http_error 404 ''not found''
     else with_package ''nuget'' pid ''package not found'' (\<lambda>dbPkg.
       with_version dbPkg version 404 ''version not found'' (\<lambda>v. ret (Reply 200 (Json (leaf_json (buildLeaf e b pid v)))))))"

datatype nuget_route =
    NugetIndex
  | NugetPush "form option"
  | NugetDelete string string
  | NugetVersions string
  | NugetDownload string string string
  | NugetRegistration string
  | NugetLeaf string string

definition nuget_protected :: "nuget_route \<Rightarrow> bool" where
  "nuget_protected r \<longleftrightarrow> (case r of NugetPush _ \<Rightarrow> True | NugetDelete _ _ \<Rightarrow> True | _ \<Rightarrow> False)"

definition nuget_route_handler :: "registry_env \<Rightarrow> backend \<Rightarrow> nuget_route \<Rightarrow> ('z disk_scheme, reply) prog" where
  "nuget_route_handler e b r = (case r of
      NugetIndex \<Rightarrow> handleServiceIndex b
    | NugetPush frm \<Rightarrow> handlePush e b frm
    | NugetDelete pid version \<Rightarrow> handleDelete pid version
    | NugetVersions pid \<Rightarrow> handleVersionList pid
    | NugetDownload pid version filename \<Rightarrow> nuget_handleDownload pid version filename
    | NugetRegistration pid \<Rightarrow> handleRegistrationIndex e b pid
    | NugetLeaf pid slug \<Rightarrow> handleRegistrationLeaf e b pid slug)"

definition nuget_ServeHTTP :: "registry_env \<Rightarrow> backend \<Rightarrow> credentials \<Rightarrow> nuget_route \<Rightarrow> ('z disk_scheme, reply) prog" where
  "nuget_ServeHTTP e b c r = (if nuget_protected r \<and> \<not> nuget_allowed (bk_token b) c then http_error 401 ''unauthorized'' else nuget_route_handler e b r)"

end
