(* ===== verification/Package_Caches.thy ===== *)
theory Package_Caches
  imports Package_Nuget
begin

text \<open>
  The package registries that also cache what an upstream serves: Python packages (\<open>pypi/backend.go\<close>,
  \<open>pypi/handlers.go\<close>) and Go modules (\<open>goproxy/backend.go\<close>, \<open>goproxy/handlers.go\<close>). Cached packages
  belong to a sentinel owner, so a package of this node or of a peer is never overwritten by them.
\<close>

section \<open>Python packages\<close>

record pypi_backend = backend +
  yb_upstream :: "PyPIFetcher option"

definition pypi_upstreamOwner :: string where
  "pypi_upstreamOwner = ''upstream:pypi''"

definition pypi_upstreamEnabled :: "pypi_backend \<Rightarrow> bool" where
  "pypi_upstreamEnabled b \<longleftrightarrow> (case yb_upstream b of None \<Rightarrow> False | Some f \<Rightarrow> pypi_Enabled f)"

definition checkPyPIAuth :: "world \<Rightarrow> string \<Rightarrow> credentials \<Rightarrow> bool" where
  "checkPyPIAuth w token c =
     (if HasPrefix (cr_Authorization c) ''Bearer '' then drop 7 (cr_Authorization c) = token
      else (case Basic w (cr_Authorization c) of Some (_, password) \<Rightarrow> password = token | None \<Rightarrow> False))"

definition pypi_allowed :: "world \<Rightarrow> string \<Rightarrow> credentials \<Rightarrow> bool" where
  "pypi_allowed w token c \<longleftrightarrow> token = '''' \<or> checkPyPIAuth w token c"

definition pypi_maxUploadBytes :: int where "pypi_maxUploadBytes = 209715200"

definition metadata_fields :: "form \<Rightarrow> (string \<times> string) list" where
  "metadata_fields f = map (\<lambda>k. (k, FormValue f k))
     [''author'', ''description'', ''long_description'', ''summary'', ''home_page'', ''license'', ''requires_python'']"

definition metadataFromForm :: "registry_env \<Rightarrow> form \<Rightarrow> json" where
  "metadataFromForm e f = pypi_Metadata e (metadata_fields f)"

text \<open>A version to which files are added, created for the first of them.\<close>

definition version_for_file :: "int \<Rightarrow> string \<Rightarrow> string \<Rightarrow> (PackageVersion \<Rightarrow> ('z store_scheme, reply) prog) \<Rightarrow> ('z store_scheme, reply) prog" where
  "version_for_file packageID version metadata k = on_error (GetPackageVersion packageID version) 500 ''lookup version'' (\<lambda>v. case v of
      Some x \<Rightarrow> k x
    | None \<Rightarrow> put_new_version packageID version metadata k)"

definition pypi_handleUpload :: "registry_env \<Rightarrow> 'b backend_scheme \<Rightarrow> form option \<Rightarrow> ('z disk_scheme, reply) prog" where
  "pypi_handleUpload e b frm = on_missing frm 400 ''parse multipart'' (\<lambda>f.
     let name = TrimSpace (FormValue f ''name''); version = TrimSpace (FormValue f ''version'') in
     if name = '''' \<or> version = '''' then http_error 400 ''name and version are required''
     else let normalizedName = normalizeName name in
       on_missing (form_file f ''content'') 400 ''content file is required'' (\<lambda>(filename, src).
       if pypi_maxUploadBytes < int (length (rd_data src)) then http_error 413 ''upload too large''
       else read_upload src pypi_maxUploadBytes (\<lambda>body.
       if FormValue f ''sha256_digest'' \<noteq> '''' \<and> \<not> EqualFold (Sum256 (re_world e) body) (FormValue f ''sha256_digest'')
       then http_error 400 ''sha256_digest mismatch''
       else put_upload e body (\<lambda>digest.
       with_own_package ''package'' ''pypi'' normalizedName (bk_owner b) (\<lambda>dbPkg.
       version_for_file (pkg_id dbPkg) version (Marshal (re_world e) (JObj [(''meta'', metadataFromForm e f)])) (\<lambda>v.
       on_error (GetPackageFile (ver_id v) filename) 500 ''lookup file'' (\<lambda>existing.
       if existing \<noteq> None then http_error 409 (''file already exists: '' @ filename)
       else let file = new_file (ver_id v) filename digest (int (length body)) (contentTypeForFilename filename) in
         on_error (PutPackageFile file) 500 ''put file'' (\<lambda>_.
         bindE (pypi_publishFile (re_world e) (bk_publisher b) (bk_endpoint b) normalizedName version file (metadataFromForm e f)) (\<lambda>_.
         ret (Reply 200 Empty))))))))))"

text \<open>\<open>html.EscapeString\<close>.\<close>

definition EscapeString :: "string \<Rightarrow> string" where
  "EscapeString s = concat (map (\<lambda>c.
      if c = CHR ''<'' then ''&lt;'' else if c = CHR ''>'' then ''&gt;'' else if c = CHR ''&'' then ''&amp;''
      else if c = CHR 0x27 then ''&#39;'' else if c = CHR 0x22 then ''&#34;'' else [c]) s)"

definition link_to :: "string \<Rightarrow> string \<Rightarrow> string \<Rightarrow> string" where
  "link_to href extra text = ''<a href='' @ [CHR 0x22] @ EscapeString href @ [CHR 0x22] @ extra @ ''>'' @ EscapeString text @ ''</a><br>'' @ [CHR 0x0A]"

definition page_end :: string where
  "page_end = ''</body></html>'' @ [CHR 0x0A]"

text \<open>The index of all projects, a batch at a time; an error in between ends it early.\<close>

fun simple_pages :: "nat \<Rightarrow> string \<Rightarrow> string \<Rightarrow> ('z store_scheme, reply) prog" where
  "simple_pages 0 startAfter out = fail (Errorf ''out of fuel'')"
| "simple_pages (Suc fuel) startAfter out = handle (ListPackages ''pypi'' startAfter 1000) (\<lambda>r. case r of
      Inl _ \<Rightarrow> ret (Reply 200 (Body out))
    | Inr pkgs \<Rightarrow> let out' = out @ concat (map (\<lambda>p. link_to (pkg_name p @ ''/'') '''' (pkg_name p)) pkgs) in
        if length pkgs < 1000 then ret (Reply 200 (Body (out' @ page_end))) else simple_pages fuel (pkg_name (last pkgs)) out')"

definition handleSimpleRoot :: "('z store_scheme, reply) prog" where
  "handleSimpleRoot = bindE (gets (\<lambda>s. length (packages (tbl s)))) (\<lambda>rows. simple_pages (Suc rows) ''''
     (''<!DOCTYPE html><html><head><title>Simple Index</title></head><body>'' @ [CHR 0x0A]))"

definition page_start :: "string \<Rightarrow> string" where
  "page_start name = ''<!DOCTYPE html><html><head><title>Links for '' @ EscapeString name @ ''</title></head><body>'' @ [CHR 0x0A] @
     ''<h1>Links for '' @ EscapeString name @ ''</h1>'' @ [CHR 0x0A]"

definition fileURL :: "'b backend_scheme \<Rightarrow> string \<Rightarrow> string \<Rightarrow> string \<Rightarrow> string" where
  "fileURL b name version filename = pypi_peerFileURL (bk_endpoint b) name version filename"

definition requires_attr :: "string \<Rightarrow> string" where
  "requires_attr v = (if v = '''' then '''' else '' data-requires-python='' @ [CHR 0x22] @ EscapeString v @ [CHR 0x22])"

text \<open>The version in the name of a wheel or a source distribution.\<close>

definition dist_suffix :: "string \<Rightarrow> string option" where
  "dist_suffix filename = find (HasSuffix filename) [''.whl'', ''.tar.gz'', ''.tgz'', ''.zip'']"

definition versionFromFilename :: "string \<Rightarrow> string option" where
  "versionFromFilename filename = (case dist_suffix filename of
      None \<Rightarrow> None
    | Some suffix \<Rightarrow> let parts = split_on (CHR ''-'') (take (length filename - length suffix) filename) in
        if suffix = ''.whl'' then (if length parts < 5 then None else Some (parts ! 1))
        else if length parts < 2 then None
        else let v = last parts in if v = '''' \<or> \<not> list_ex is_digit v then None else Some v)"

definition writeUpstreamIndex :: "'b backend_scheme \<Rightarrow> string \<Rightarrow> PyPIProjectFile list \<Rightarrow> string" where
  "writeUpstreamIndex b name files = page_start name @ concat (map (\<lambda>f. case versionFromFilename (pyf_filename f) of
      None \<Rightarrow> ''''
    | Some version \<Rightarrow> link_to (fileURL b name version (pyf_filename f) @ (if pyf_sha256 f \<noteq> '''' then ''#sha256='' @ pyf_sha256 f else ''''))
        (requires_attr (pyf_python f)) (pyf_filename f)) files) @ page_end"

definition file_link :: "registry_env \<Rightarrow> 'b backend_scheme \<Rightarrow> string \<Rightarrow> PackageVersion \<Rightarrow> PackageFile \<Rightarrow> string" where
  "file_link e b name v f = link_to (fileURL b name (ver_version v) (file_name f) @ ''#sha256='' @ cksumFromDigest (file_blob f))
     (requires_attr (pypi_RequiresPython e (ver_metadata v))) (file_name f)"

text \<open>The local listing; a version whose files cannot be read is left out.\<close>

definition local_listing :: "registry_env \<Rightarrow> 'b backend_scheme \<Rightarrow> string \<Rightarrow> Package \<Rightarrow> ('z store_scheme, reply) prog" where
  "local_listing e b name dbPkg = on_error (ListPackageVersions (pkg_id dbPkg)) 500 ''list versions'' (\<lambda>versions.
     bindE (foldP (\<lambda>out v. handle (ListPackageFiles (ver_id v)) (\<lambda>r. case r of
         Inl _ \<Rightarrow> ret out
       | Inr files \<Rightarrow> ret (out @ concat (map (file_link e b name v) files)))) (page_start name) versions) (\<lambda>out.
     ret (Reply 200 (Body (out @ page_end)))))"

definition may_mirror :: "pypi_backend \<Rightarrow> Package option \<Rightarrow> bool" where
  "may_mirror b dbPkg \<longleftrightarrow> (case dbPkg of None \<Rightarrow> True | Some p \<Rightarrow> pkg_owner p = pypi_upstreamOwner) \<and> pypi_upstreamEnabled b"

definition handleSimplePackage :: "registry_env \<Rightarrow> pypi_backend \<Rightarrow> string \<Rightarrow> ('z pkgs_scheme, reply) prog" where
  "handleSimplePackage e b rawName = (let name = normalizeName rawName in
     on_error (GetPackage ''pypi'' name) 500 ''lookup package'' (\<lambda>dbPkg.
     let fallback = on_missing dbPkg 404 ''project not found'' (local_listing e b name) in
     if may_mirror b dbPkg then
       handle (FetchProject (pypi_Project e) (re_net e) (the (yb_upstream b)) name) (\<lambda>r. case r of
           Inr (Some proj) \<Rightarrow> ret (Reply 200 (Body (writeUpstreamIndex b name proj)))
         | _ \<Rightarrow> fallback)
     else fallback))"

text \<open>A file from the upstream index, verified against the hash declared there before it is stored.\<close>

definition pypi_cacheFromUpstream :: "registry_env \<Rightarrow> PyPIFetcher \<Rightarrow> string \<Rightarrow> string \<Rightarrow> string \<Rightarrow> ('z pkgs_scheme, PackageFile option) prog" where
  "pypi_cacheFromUpstream e u name version filename = bindE (FetchProject (pypi_Project e) (re_net e) u name) (\<lambda>proj. case proj of
      None \<Rightarrow> ret None
    | Some files \<Rightarrow> (case find (\<lambda>f. pyf_filename f = filename) files of
        None \<Rightarrow> ret None
      | Some entry \<Rightarrow>
          if versionFromFilename filename \<noteq> Some version then ret None
          else if pyf_sha256 entry = '''' then fail (Errorf ''upstream index has no sha256'')
          else bindE (FetchFile (re_world e) (re_net e) u (pyf_url entry)) (\<lambda>body.
            if \<not> EqualFold (Sum256 (re_world e) body) (pyf_sha256 entry) then fail (Errorf ''upstream file sha256 mismatch'')
            else bindE (store_Put (re_world e) (bytes_reader body) '''') (\<lambda>(digest, _).
            bindE (PutBlob digest (int (length body)) (Some octet_stream) True) (\<lambda>_.
            bindE (GetOrCreatePackage ''pypi'' name pypi_upstreamOwner) (\<lambda>dbPkg.
            bindE (GetPackageVersion (pkg_id dbPkg) version) (\<lambda>r.
            bindE (case r of
                Some v \<Rightarrow> ret v
              | None \<Rightarrow> PutPackageVersion (local_version (pkg_id dbPkg) version
                  (Marshal (re_world e) (JObj [(''meta'', pypi_Metadata e [(''requires_python'', pyf_python entry)])])))) (\<lambda>v.
            let file = new_file (ver_id v) filename digest (int (length body)) (contentTypeForFilename filename) in
            bindE (PutPackageFile file) (\<lambda>_. ret (Some file))))))))))"

definition local_file :: "Package option \<Rightarrow> string \<Rightarrow> string \<Rightarrow> (PackageVersion option \<Rightarrow> PackageFile option \<Rightarrow> ('z store_scheme, reply) prog) \<Rightarrow> ('z store_scheme, reply) prog" where
  "local_file dbPkg version filename k = (case dbPkg of
      None \<Rightarrow> k None None
    | Some p \<Rightarrow> on_error (GetPackageVersion (pkg_id p) version) 500 ''lookup version'' (\<lambda>v. case v of
          None \<Rightarrow> k None None
        | Some v \<Rightarrow> on_error (GetPackageFile (ver_id v) filename) 500 ''lookup file'' (\<lambda>file. k (Some v) file)))"

definition pypi_handleDownload :: "registry_env \<Rightarrow> pypi_backend \<Rightarrow> string \<Rightarrow> string \<Rightarrow> string \<Rightarrow> ('z pkgs_scheme, reply) prog" where
  "pypi_handleDownload e b rawName version filename = (let name = normalizeName rawName in
     on_error (GetPackage ''pypi'' name) 500 ''lookup package'' (\<lambda>dbPkg.
     local_file dbPkg version filename (\<lambda>v found.
     on_error (if found = None \<and> may_mirror b dbPkg then pypi_cacheFromUpstream e (the (yb_upstream b)) name version filename else ret found)
       502 ''upstream fetch failed'' (\<lambda>file.
     on_missing file 404 (if dbPkg = None then ''project not found'' else if v = None then ''version not found'' else ''file not found'') (\<lambda>f.
     serve_blob (file_blob f) (case file_ctype f of None \<Rightarrow> octet_stream | Some ct \<Rightarrow> ct)
       (\<lambda>peer. pypi_peerFileURL peer name version filename))))))"

datatype pypi_route =
    PypiUpload "form option"
  | PypiRoot
  | PypiSimple string
  | PypiDownload string string string

definition pypi_protected :: "pypi_route \<Rightarrow> bool" where
  "pypi_protected r \<longleftrightarrow> (case r of PypiUpload _ \<Rightarrow> True | _ \<Rightarrow> False)"

definition pypi_route_handler :: "registry_env \<Rightarrow> pypi_backend \<Rightarrow> pypi_route \<Rightarrow> ('z pkgs_scheme, reply) prog" where
  "pypi_route_handler e b r = (case r of
      PypiUpload frm \<Rightarrow> pypi_handleUpload e b frm
    | PypiRoot \<Rightarrow> handleSimpleRoot
    | PypiSimple name \<Rightarrow> handleSimplePackage e b name
    | PypiDownload name version filename \<Rightarrow> pypi_handleDownload e b name version filename)"

definition pypi_ServeHTTP :: "registry_env \<Rightarrow> pypi_backend \<Rightarrow> credentials \<Rightarrow> pypi_route \<Rightarrow> ('z pkgs_scheme, reply) prog" where
  "pypi_ServeHTTP e b c r =
     (if pypi_protected r \<and> \<not> pypi_allowed (re_world e) (bk_token b) c then http_error 401 ''unauthorized'' else pypi_route_handler e b r)"

section \<open>Go modules\<close>

record go_backend = backend +
  gb_upstream :: "GoFetcher option"

definition go_upstreamOwner :: string where
  "go_upstreamOwner = ''upstream:goproxy''"

definition zipMediaType :: string where "zipMediaType = ''application/zip''"
definition modMediaType :: string where "modMediaType = ''text/plain; charset=utf-8''"
definition go_maxUploadBytes :: int where "go_maxUploadBytes = 524288000"

definition go_upstreamEnabled :: "go_backend \<Rightarrow> bool" where
  "go_upstreamEnabled b \<longleftrightarrow> (case gb_upstream b of None \<Rightarrow> False | Some f \<Rightarrow> go_Enabled f)"

definition tokenMatches :: "world \<Rightarrow> string \<Rightarrow> credentials \<Rightarrow> bool" where
  "tokenMatches w token c \<longleftrightarrow>
     (case CutPrefix (cr_Authorization c) ''Bearer '' of Some bearer \<Rightarrow> TrimSpace bearer = token | None \<Rightarrow> False) \<or>
     (case Basic w (cr_Authorization c) of Some (_, pass) \<Rightarrow> pass = token | None \<Rightarrow> False)"

definition go_allowed :: "world \<Rightarrow> string \<Rightarrow> credentials \<Rightarrow> bool" where
  "go_allowed w token c \<longleftrightarrow> token = '''' \<or> tokenMatches w token c"

text \<open>\<open>strings.Cut\<close>: around the first occurrence of the separator.\<close>

fun Cut :: "string \<Rightarrow> string \<Rightarrow> (string \<times> string) option" where
  "Cut [] sep = (if sep = '''' then Some ([], []) else None)"
| "Cut (c # cs) sep =
     (if HasPrefix (c # cs) sep then Some ([], drop (length sep) (c # cs)) else map_option (\<lambda>(a, b). (c # a, b)) (Cut cs sep))"

definition TrimSuffix :: "string \<Rightarrow> string \<Rightarrow> string" where
  "TrimSuffix s suffix = (if HasSuffix s suffix then take (length s - length suffix) s else s)"

definition modInfo_json :: "string \<Rightarrow> string \<Rightarrow> json" where
  "modInfo_json version time = JObj [(''Version'', JStr version), (''Time'', JStr time)]"

definition extractGoMod :: "registry_env \<Rightarrow> string \<Rightarrow> string \<Rightarrow> string \<Rightarrow> string option" where
  "extractGoMod e data m ver = (case go_Zip e data of
      None \<Rightarrow> None
    | Some files \<Rightarrow> (case find (\<lambda>(name, _). name = m @ ''@'' @ ver @ ''/go.mod'') files of
        None \<Rightarrow> None
      | Some (_, r) \<Rightarrow> let rd = LimitReader r 1048576 in
          if rd_fail rd \<or> go_ModulePath e (rd_data rd) \<noteq> m then None else Some (rd_data rd)))"

definition storeBlob :: "registry_env \<Rightarrow> string \<Rightarrow> string \<Rightarrow> ('z disk_scheme, string) prog" where
  "storeBlob e data mediaType = bindE (store_Put (re_world e) (bytes_reader data) '''') (\<lambda>(digest, sz).
     bindE (PutBlob digest sz (Some mediaType) True) (\<lambda>_. ret digest))"

text \<open>The two files of a version.\<close>

definition put_module_files :: "int \<Rightarrow> string \<Rightarrow> string \<Rightarrow> int \<Rightarrow> string \<Rightarrow> int \<Rightarrow> ('z store_scheme, unit) prog" where
  "put_module_files vid ver zipDigest zipSize modDigest modSize = foreach
     [new_file vid (ver @ ''.zip'') zipDigest zipSize zipMediaType, new_file vid (ver @ ''.mod'') modDigest modSize modMediaType] PutPackageFile"

definition go_handleUpload :: "registry_env \<Rightarrow> 'b backend_scheme \<Rightarrow> string \<Rightarrow> string \<Rightarrow> reader \<Rightarrow> ('z disk_scheme, reply) prog" where
  "go_handleUpload e b m ver body =
     (if \<not> go_Check e m ver then http_error 400 ''invalid module/version''
      else if rd_fail body \<or> go_maxUploadBytes < int (length (rd_data body)) then http_error 413 ''read upload''
      else on_missing (extractGoMod e (rd_data body) m ver) 400 ''invalid module zip'' (\<lambda>goMod.
        with_own_package ''module'' ''goproxy'' m (bk_owner b) (\<lambda>dbPkg.
        check_new (pkg_id dbPkg) ver (
        on_error (storeBlob e (rd_data body) zipMediaType) 500 ''store zip'' (\<lambda>zipDigest.
        on_error (storeBlob e goMod modMediaType) 500 ''store go.mod'' (\<lambda>modDigest.
        bindE now (\<lambda>c. let infoRaw = Marshal (re_world e) (modInfo_json ver (RFC3339 (re_world e) c)) in
        put_new_version (pkg_id dbPkg) ver infoRaw (\<lambda>v.
        on_error (put_module_files (ver_id v) ver zipDigest (int (length (rd_data body))) modDigest (int (length goMod))) 500 ''put file'' (\<lambda>_.
        bindE (go_publishModule (re_pkg e) (re_world e) (bk_publisher b) (bk_endpoint b) m ver
            (new_file (ver_id v) (ver @ ''.zip'') zipDigest (int (length (rd_data body))) zipMediaType) infoRaw) (\<lambda>_.
        ret (Reply 201 Empty)))))))))))"

text \<open>A version from upstream; whatever fails, the version is reported as missing.\<close>

definition go_cache_steps :: "registry_env \<Rightarrow> GoFetcher \<Rightarrow> string \<Rightarrow> string \<Rightarrow> ('z pkgs_scheme, PackageVersion) prog" where
  "go_cache_steps e u m ver = bindE (go_FetchZip (re_pkg e) (re_net e) u m ver) (\<lambda>zipBytes.
     case extractGoMod e zipBytes m ver of
       None \<Rightarrow> fail (Errorf ''invalid upstream zip'')
     | Some goMod \<Rightarrow>
         bindE (storeBlob e zipBytes zipMediaType) (\<lambda>zipDigest.
         bindE (storeBlob e goMod modMediaType) (\<lambda>modDigest.
         bindE (handle (go_FetchInfo (re_pkg e) (re_net e) u m ver) (\<lambda>r. bindE now (\<lambda>c.
             let built = Marshal (re_world e) (modInfo_json ver (RFC3339 (re_world e) c)) in
             ret (case r of Inl _ \<Rightarrow> built | Inr info \<Rightarrow> if info = '''' then built else info)))) (\<lambda>infoRaw.
         bindE (GetOrCreatePackage ''goproxy'' m go_upstreamOwner) (\<lambda>pkg.
         bindE (PutPackageVersion (local_version (pkg_id pkg) ver infoRaw)) (\<lambda>v.
         bindE (put_module_files (ver_id v) ver zipDigest (int (length zipBytes)) modDigest (int (length goMod))) (\<lambda>_. ret v)))))))"

definition go_cacheFromUpstream :: "registry_env \<Rightarrow> GoFetcher \<Rightarrow> string \<Rightarrow> string \<Rightarrow> ('z pkgs_scheme, PackageVersion option) prog" where
  "go_cacheFromUpstream e u m ver = handle (go_cache_steps e u m ver) (\<lambda>r. ret (case r of Inl _ \<Rightarrow> None | Inr v \<Rightarrow> Some v))"

text \<open>A look-up whose error counts as a miss.\<close>

definition or_nil :: "('s, 'a option) prog \<Rightarrow> ('s, 'a option) prog" where
  "or_nil m = handle m (\<lambda>r. ret (case r of Inl _ \<Rightarrow> None | Inr x \<Rightarrow> x))"

definition resolveVersion :: "registry_env \<Rightarrow> go_backend \<Rightarrow> string \<Rightarrow> string \<Rightarrow> ('z pkgs_scheme, PackageVersion option) prog" where
  "resolveVersion e b m ver =
     bindE (or_nil (GetPackage ''goproxy'' m)) (\<lambda>pkg.
     bindE (case pkg of None \<Rightarrow> ret None | Some p \<Rightarrow> or_nil (GetPackageVersion (pkg_id p) ver)) (\<lambda>v.
     if v \<noteq> None then ret v
     else if go_upstreamEnabled b then go_cacheFromUpstream e (the (gb_upstream b)) m ver else ret None))"

text \<open>The document of a version: what is stored, or one made from its row.\<close>

definition info_reply :: "registry_env \<Rightarrow> string \<Rightarrow> PackageVersion \<Rightarrow> reply" where
  "info_reply e ver v = Reply 200 (if ver_metadata v \<noteq> '''' then Body (ver_metadata v)
     else Json (modInfo_json ver (RFC3339 (re_world e) (ver_created v))))"

definition handleInfo :: "registry_env \<Rightarrow> go_backend \<Rightarrow> string \<Rightarrow> string \<Rightarrow> ('z pkgs_scheme, reply) prog" where
  "handleInfo e b m ver = bindE (resolveVersion e b m ver) (\<lambda>v. on_missing v 404 ''version not found'' (\<lambda>v. ret (info_reply e ver v)))"

definition serveFile :: "registry_env \<Rightarrow> go_backend \<Rightarrow> string \<Rightarrow> string \<Rightarrow> string \<Rightarrow> string \<Rightarrow> ('z pkgs_scheme, reply) prog" where
  "serveFile e b m ver suffix contentType = bindE (resolveVersion e b m ver) (\<lambda>v. on_missing v 404 ''version not found'' (\<lambda>v.
     on_error (GetPackageFile (ver_id v) (ver @ suffix)) 404 ''file not found'' (\<lambda>file.
     on_missing file 404 ''file not found'' (\<lambda>f.
     serve_blob (file_blob f) contentType (\<lambda>peer. peer @ go_peerPath (re_pkg e) m ver suffix)))))"

definition upstream_bytes :: "go_backend \<Rightarrow> (GoFetcher \<Rightarrow> ('z pkgs_scheme, string) prog) \<Rightarrow> ('z pkgs_scheme, reply) prog \<Rightarrow> ('z pkgs_scheme, reply) prog" where
  "upstream_bytes b fetch k =
     (if go_upstreamEnabled b then handle (fetch (the (gb_upstream b))) (\<lambda>r. case r of Inr data \<Rightarrow> ret (Reply 200 (Body data)) | Inl _ \<Rightarrow> k) else k)"

definition handleList :: "registry_env \<Rightarrow> go_backend \<Rightarrow> string \<Rightarrow> ('z pkgs_scheme, reply) prog" where
  "handleList e b m = (let elsewhere = upstream_bytes b (\<lambda>u. go_FetchList (re_pkg e) (re_net e) u m) (ret (Reply 200 Empty)) in
     bindE (or_nil (GetPackage ''goproxy'' m)) (\<lambda>pkg. case pkg of
       None \<Rightarrow> elsewhere
     | Some p \<Rightarrow> on_error (ListPackageVersions (pkg_id p)) 500 ''list versions'' (\<lambda>versions.
         if versions = [] then elsewhere
         else ret (Reply 200 (Body (concat (map (\<lambda>v. case pe_EscapeVersion (re_pkg e) (ver_version v) of
             None \<Rightarrow> '''' | Some esc \<Rightarrow> esc @ [CHR 0x0A]) versions)))))))"

definition handleLatest :: "registry_env \<Rightarrow> go_backend \<Rightarrow> string \<Rightarrow> ('z pkgs_scheme, reply) prog" where
  "handleLatest e b m = upstream_bytes b (\<lambda>u. go_FetchLatest (re_pkg e) (re_net e) u m)
     (bindE (or_nil (GetPackage ''goproxy'' m)) (\<lambda>pkg. on_missing pkg 404 ''module not found'' (\<lambda>p.
      on_error (ListPackageVersions (pkg_id p)) 404 ''no versions'' (\<lambda>versions. case versions of
          [] \<Rightarrow> http_error 404 ''no versions''
        | v # _ \<Rightarrow> ret (info_reply e (ver_version v) v)))))"

text \<open>
  \<open>dispatch\<close>: the path below \<open>/goproxy\<close>, cut at its delimiters by hand. A version and its suffix share
  the last segment.
\<close>

definition requireGET :: "string \<Rightarrow> ('s, reply) prog \<Rightarrow> ('s, reply) prog" where
  "requireGET verb fn = (if verb \<noteq> ''GET'' then http_error 405 ''method not allowed'' else fn)"

definition decodeVersion :: "registry_env \<Rightarrow> string \<Rightarrow> string \<Rightarrow> (string \<Rightarrow> ('s, reply) prog) \<Rightarrow> ('s, reply) prog" where
  "decodeVersion e rest suffix k = on_missing (go_UnescapeVersion e (TrimSuffix rest suffix)) 400 ''invalid version'' k"

definition go_dispatch :: "registry_env \<Rightarrow> go_backend \<Rightarrow> credentials \<Rightarrow> string \<Rightarrow> string \<Rightarrow> reader \<Rightarrow> ('z pkgs_scheme, reply) prog" where
  "go_dispatch e b c verb path body = (let p = TrimPrefix path ''/'' in
     if HasSuffix p ''/@latest'' then
       on_missing (go_UnescapePath e (TrimSuffix p ''/@latest'')) 400 ''invalid module path'' (\<lambda>m. requireGET verb (handleLatest e b m))
     else on_missing (Cut p ''/@v/'') 404 ''not found'' (\<lambda>(escMod, rest).
       on_missing (go_UnescapePath e escMod) 400 ''invalid module path'' (\<lambda>m.
       if rest = ''list'' then requireGET verb (handleList e b m)
       else if HasSuffix rest ''.info'' then decodeVersion e rest ''.info'' (\<lambda>ver. requireGET verb (handleInfo e b m ver))
       else if HasSuffix rest ''.mod'' then decodeVersion e rest ''.mod'' (\<lambda>ver. requireGET verb (serveFile e b m ver ''.mod'' modMediaType))
       else if HasSuffix rest ''.zip'' then decodeVersion e rest ''.zip'' (\<lambda>ver.
         if verb = ''GET'' then serveFile e b m ver ''.zip'' zipMediaType
         else if verb = ''PUT'' then
           (if go_allowed (re_world e) (bk_token b) c then go_handleUpload e b m ver body else http_error 401 ''unauthorized'')
         else http_error 405 ''method not allowed'')
       else http_error 404 ''not found'')))"

end
