(* ===== verification/Package_Safety.thy ===== *)
theory Package_Safety
  imports Package_Federation Package_Caches Oci_Safety
begin

text \<open>
  Properties of the package registries: what a request can change, what an upload leaves behind, and what
  is read back.
\<close>

section \<open>All formats of a node\<close>

record registries =
  rg_npm :: backend
  rg_cargo :: backend
  rg_nuget :: backend
  rg_pypi :: pypi_backend
  rg_go :: go_backend

datatype request =
    ToNpm npm_route
  | ToCargo cargo_route
  | ToNuget nuget_route
  | ToPypi pypi_route
  | ToGo string string reader

definition serve :: "registry_env \<Rightarrow> registries \<Rightarrow> credentials \<Rightarrow> request \<Rightarrow> (pkgs, reply) prog" where
  "serve e g c req = (case req of
      ToNpm r \<Rightarrow> npm_ServeHTTP e (rg_npm g) c r
    | ToCargo r \<Rightarrow> cargo_ServeHTTP e (rg_cargo g) c r
    | ToNuget r \<Rightarrow> nuget_ServeHTTP e (rg_nuget g) c r
    | ToPypi r \<Rightarrow> pypi_ServeHTTP e (rg_pypi g) c r
    | ToGo verb path body \<Rightarrow> go_dispatch e (rg_go g) c verb path body)"

text \<open>Whether the token a request needs is there.\<close>

definition authorised :: "registry_env \<Rightarrow> registries \<Rightarrow> credentials \<Rightarrow> request \<Rightarrow> bool" where
  "authorised e g c req \<longleftrightarrow> (case req of
      ToNpm r \<Rightarrow> npm_protected r \<longrightarrow> npm_allowed (bk_token (rg_npm g)) c
    | ToCargo r \<Rightarrow> cargo_protected r \<longrightarrow> cargo_allowed (bk_token (rg_cargo g)) c
    | ToNuget r \<Rightarrow> nuget_protected r \<longrightarrow> nuget_allowed (bk_token (rg_nuget g)) c
    | ToPypi r \<Rightarrow> pypi_protected r \<longrightarrow> pypi_allowed (re_world e) (bk_token (rg_pypi g)) c
    | ToGo verb _ _ \<Rightarrow> verb = ''PUT'' \<longrightarrow> go_allowed (re_world e) (bk_token (rg_go g)) c)"

text \<open>Moving a tag, yanking a crate and delisting a NuGet version look at no owner.\<close>

definition ownerless :: "request \<Rightarrow> bool" where
  "ownerless req \<longleftrightarrow> (case req of
      ToNpm (NpmDistTagPut _ _ _ _) \<Rightarrow> True
    | ToNpm (NpmDistTagDelete _ _ _) \<Rightarrow> True
    | ToCargo (CargoYank _ _ _) \<Rightarrow> True
    | ToNuget (NugetDelete _ _) \<Rightarrow> True
    | _ \<Rightarrow> False)"

text \<open>In whose name a request writes: uploads in that of the node, reads in that of a cache.\<close>

definition acting_for :: "registries \<Rightarrow> request \<Rightarrow> string" where
  "acting_for g req = (case req of
      ToNpm _ \<Rightarrow> bk_owner (rg_npm g)
    | ToCargo _ \<Rightarrow> bk_owner (rg_cargo g)
    | ToNuget _ \<Rightarrow> bk_owner (rg_nuget g)
    | ToPypi (PypiUpload _) \<Rightarrow> bk_owner (rg_pypi g)
    | ToPypi _ \<Rightarrow> pypi_upstreamOwner
    | ToGo verb _ _ \<Rightarrow> if verb = ''PUT'' then bk_owner (rg_go g) else go_upstreamOwner)"

section \<open>What handlers rely on and keep\<close>

lemma yields_prod [yields_intros]: "(\<And>a b. x = (a, b) \<Longrightarrow> yields J (f a b) Q) \<Longrightarrow> yields J (case x of (a, b) \<Rightarrow> f a b) Q"
  by (cases x) auto

lemma keeps_handle_yields:
  assumes "yields J m Q" and "\<And>x. Q x \<Longrightarrow> keeps J (f (Inr x))" and "\<And>e. keeps J (f (Inl e))"
  shows "keeps J (handle m f)"
proof (rule keepsI)
  fix s assume "J s"
  obtain r t where r: "m s = (r, t)" by (cases "m s")
  from yieldsE [OF assms(1) \<open>J s\<close>] r have "J t" "\<forall>x. r = Inr x \<longrightarrow> Q x" by simp_all
  then show "J (snd (handle m f s))"
    using assms(2,3) r by (cases r) (auto simp: handle_def keeps_def)
qed

lemma keeps_error [keeps_intros]: "keeps P (http_error st msg)"
  unfolding http_error_def by (intro keeps_intros)

lemma keeps_on_error: "keeps P m \<Longrightarrow> (\<And>x. keeps P (k x)) \<Longrightarrow> keeps P (on_error m st msg k)"
  unfolding on_error_def by (intro keeps_intros)

lemma yields_on_error: "yields P m Q \<Longrightarrow> (\<And>x. Q x \<Longrightarrow> keeps P (k x)) \<Longrightarrow> keeps P (on_error m st msg k)"
  unfolding on_error_def by (rule keeps_handle_yields, assumption) (auto intro: keeps_intros)

lemma keeps_on_missing [keeps_intros]: "(\<And>y. x = Some y \<Longrightarrow> keeps P (k y)) \<Longrightarrow> keeps P (on_missing x st msg k)"
  unfolding on_missing_def by (intro keeps_intros)

lemma keeps_read_body [keeps_intros]: "(\<And>d. keeps P (k d)) \<Longrightarrow> keeps P (read_body body n k)"
  unfolding read_body_def Let_def by (intro keeps_intros)

lemma keeps_read_upload [keeps_intros]:
  "(\<And>d. keeps (\<lambda>s. I (tbl s)) (k d)) \<Longrightarrow> keeps (\<lambda>s. I (tbl s)) (read_upload src n k)"
  unfolding read_upload_def Let_def by (intro keeps_intros keeps_on_error)

locale registry_scoped =
  fixes A :: string and I :: "tables \<Rightarrow> bool" and mine :: "int \<Rightarrow> bool" and own_version :: "int \<Rightarrow> bool"
  assumes r_create: "yields (\<lambda>s. I (tbl s)) (GetOrCreatePackage ty name A :: (pkgs, Package) prog) (\<lambda>p. mine (pkg_id p))"
    and r_version: "mine pid \<Longrightarrow> yields (\<lambda>s. I (tbl s)) (GetPackageVersion pid ver :: (pkgs, PackageVersion option) prog)
      (\<lambda>r. \<forall>v. r = Some v \<longrightarrow> own_version (ver_id v))"
    and r_put: "mine (ver_package v) \<Longrightarrow> yields (\<lambda>s. I (tbl s)) (PutPackageVersion v :: (pkgs, PackageVersion) prog) (\<lambda>v'. own_version (ver_id v'))"
    and r_insert: "mine (ver_package v) \<Longrightarrow> yields (\<lambda>s. I (tbl s)) (InsertPackageVersionIfNew v :: (pkgs, bool \<times> PackageVersion) prog)
      (\<lambda>(new, v'). new \<longrightarrow> own_version (ver_id v'))"
    and r_file: "own_version (file_version f) \<Longrightarrow> keeps (\<lambda>s. I (tbl s)) (PutPackageFile f :: (pkgs, unit) prog)"
    and r_tag: "mine pid \<Longrightarrow> keeps (\<lambda>s. I (tbl s)) (PutPackageTag pid tag ver :: (pkgs, unit) prog)"
    and r_blob: "keeps (\<lambda>s. I (tbl s)) (PutBlob d n mt st :: (pkgs, unit) prog)"
    and r_publish: "keeps (\<lambda>s. I (tbl s)) (Publish w p ty obj :: (pkgs, unit) prog)"
begin

abbreviation P :: "pkgs \<Rightarrow> bool" where "P s \<equiv> I (tbl s)"

lemma k_put_upload: "(\<And>d. keeps P (k d)) \<Longrightarrow> keeps P (put_upload e data k)"
  unfolding put_upload_def by (intro keeps_on_error keeps_intros confined_store r_blob)

lemma k_own_package: "(\<And>p. mine (pkg_id p) \<Longrightarrow> keeps P (k p)) \<Longrightarrow> keeps P (with_own_package what ty name A k)"
  unfolding with_own_package_def by (rule keeps_handle_yields [OF r_create]) (auto intro!: keeps_intros)

lemma mine_new [simp]: "ver_package (local_version pid ver m) = pid" by (simp add: local_version_def new_version_def)

lemma k_insert: "mine pid \<Longrightarrow> (\<And>v. own_version (ver_id v) \<Longrightarrow> keeps P (k v)) \<Longrightarrow> keeps P (insert_version (local_version pid ver m) k)"
  unfolding insert_version_def
  by (rule yields_on_error [OF r_insert]) (auto intro!: keeps_intros)

lemma k_put_new: "mine pid \<Longrightarrow> (\<And>v. own_version (ver_id v) \<Longrightarrow> keeps P (k v)) \<Longrightarrow> keeps P (put_new_version pid ver m k)"
  unfolding put_new_version_def by (rule yields_on_error [OF r_put]) simp_all

lemma k_check_new: "mine pid \<Longrightarrow> keeps P k \<Longrightarrow> keeps P (check_new pid ver k)"
  unfolding check_new_def by (rule yields_on_error [OF r_version]) (auto intro!: keeps_intros)

lemma k_version_for_file:
  "mine pid \<Longrightarrow> (\<And>v. own_version (ver_id v) \<Longrightarrow> keeps P (k v)) \<Longrightarrow> keeps P (version_for_file pid ver m k)"
  unfolding version_for_file_def
  by (rule yields_on_error [OF r_version]) (auto intro!: keeps_intros k_put_new split: option.split)

lemma k_new_file: "own_version vid \<Longrightarrow> keeps P (PutPackageFile (new_file vid name d n ct))"
  by (rule r_file) (simp add: new_file_def)

lemma k_publish: "keeps P (publish_object w p ty object)"
  unfolding publish_object_def by (intro keeps_intros r_publish)

lemma k_published:
  "keeps P (npm_publishVersion w p ep name v file ig sh meta)" "keeps P (npm_publishTagSet w p ep name tag ver)"
  "keeps P (npm_publishTagDelete w p ep name tag)" "keeps P (cargo_publishVersion w p ep name v file ck meta)"
  "keeps P (nuget_publishPackage w p ep name ver file stored)" "keeps P (pypi_publishFile w p ep name ver file meta)"
  "keeps P (go_publishModule pe w p ep m ver file info)"
  unfolding npm_publishVersion_def npm_publishTagSet_def npm_publishTagDelete_def cargo_publishVersion_def nuget_publishPackage_def
    pypi_publishFile_def go_publishModule_def
  by (rule k_publish)+

lemma uploads_keep:
  assumes "bk_owner b = A"
  shows "keeps P (npm_handlePublish e b n body)" "keeps P (cargo_handlePublish e b body)" "keeps P (handlePush e b frm)"
proof -
  show "keeps P (npm_handlePublish e b n body)"
    unfolding npm_handlePublish_def npm_record_def assms Let_def
    by (intro keeps_intros k_put_upload k_own_package k_insert k_new_file keeps_on_error r_tag k_published)
  show "keeps P (cargo_handlePublish e b body)"
    unfolding cargo_handlePublish_def assms Let_def
    by (intro keeps_intros k_put_upload k_own_package k_insert k_new_file keeps_on_error k_published)
  show "keeps P (handlePush e b frm)"
    unfolding handlePush_def assms Let_def
    by (intro keeps_intros k_put_upload k_own_package k_check_new k_put_new k_new_file keeps_on_error k_published)
qed

lemma pypi_upload_keeps:
  assumes "bk_owner (b :: pypi_backend) = A" shows "keeps P (pypi_handleUpload e b frm)"
  unfolding pypi_handleUpload_def assms Let_def GetPackageFile_def
  by (intro keeps_intros k_put_upload k_own_package k_version_for_file k_new_file keeps_on_error k_published)

lemma k_store: "keeps P (storeBlob e data mt)"
  unfolding storeBlob_def by (intro keeps_intros confined_store r_blob)

lemma k_module_files: "own_version vid \<Longrightarrow> keeps P (put_module_files vid ver d n d' n')"
  unfolding put_module_files_def by (auto intro!: keeps_intros k_new_file simp: new_file_def intro: r_file)

lemma go_upload_keeps:
  assumes "bk_owner (b :: go_backend) = A" shows "keeps P (go_handleUpload e b m ver body)"
  unfolding go_handleUpload_def assms Let_def
  by (intro keeps_intros k_own_package k_check_new k_put_new k_module_files keeps_on_error k_store k_published)

text \<open>What caches in the name of \<open>A\<close>.\<close>

lemma k_net: "keeps P (FetchProject decode n y name)" "keeps P (FetchFile w n y url)" "keeps P (go_FetchInfo p n f m ver)"
  "keeps P (go_FetchZip p n f m ver)" "keeps P (go_FetchList p n f m)" "keeps P (go_FetchLatest p n f m)"
  using keeps_pypi_fetch [where P = "\<lambda>(t, _). I t"] keeps_go_fetch [where P = "\<lambda>(t, _). I t"]
  by (simp_all add: beside_net_def)

lemma k_serve_blob: "keeps P (serve_blob d ct url)"
  unfolding serve_blob_def RedirectToPeer_def FindPeersWithBlob_def by (intro keeps_intros confined_store)

lemma pypi_cache_keeps:
  assumes "A = pypi_upstreamOwner" shows "keeps P (pypi_cacheFromUpstream e u name version filename)"
proof -
  have *: "yields P (bindE (case r of Some v \<Rightarrow> ret v | None \<Rightarrow> PutPackageVersion (local_version (pkg_id p) version m)) (\<lambda>v. k v)) (\<lambda>_. True)"
    if "mine (pkg_id p)" "\<forall>v. r = Some v \<longrightarrow> own_version (ver_id v)" "\<And>v. own_version (ver_id v) \<Longrightarrow> keeps P (k v)"
    for r p m and k :: "PackageVersion \<Rightarrow> (pkgs, PackageFile option) prog"
    by (rule yields_bindE [where Q = "\<lambda>v. own_version (ver_id v)"])
      (use that in \<open>auto intro!: yields_intros r_put yields_keeps split: option.split\<close>)
  have "yields P (pypi_cacheFromUpstream e u name version filename) (\<lambda>_. True)"
    unfolding pypi_cacheFromUpstream_def assms [symmetric] Let_def
    by (intro yields_intros yields_bindE [OF yields_keeps [OF k_net(1)]] yields_bindE [OF yields_keeps [OF k_net(2)]]
        yields_bindE [OF yields_keeps [OF confined_store(1)]] yields_bindE [OF yields_keeps [OF r_blob]]
        yields_bindE [OF r_create] yields_bindE [OF r_version] * keeps_intros k_new_file)
  then show ?thesis by (auto simp: keeps_def yields_def prod_eq_iff)
qed

lemma go_cache_keeps:
  assumes "A = go_upstreamOwner" shows "keeps P (go_cacheFromUpstream e u m ver)"
proof -
  have "yields P (go_cache_steps e u m ver) (\<lambda>_. True)"
    unfolding go_cache_steps_def assms [symmetric] Let_def
    by (intro yields_intros yields_bindE [OF yields_keeps [OF k_net(4)]] yields_bindE [OF yields_keeps [OF k_store]]
        yields_bindE [OF r_create] yields_bindE [OF r_put] yields_bindE [OF yields_keeps [OF k_module_files]]
        yields_bindE [OF yields_keeps [OF keeps_handle [OF k_net(3)]]] keeps_intros | simp)+
  then have "keeps P (go_cache_steps e u m ver)" by (auto simp: keeps_def yields_def prod_eq_iff)
  then show ?thesis unfolding go_cacheFromUpstream_def by (intro keeps_intros)
qed

lemma k_with_package: "(\<And>p. keeps P (k p)) \<Longrightarrow> keeps P (with_package ty name msg k)"
  unfolding with_package_def GetPackage_def by (intro keeps_intros keeps_on_error)

lemma k_with_version: "(\<And>v. keeps P (k v)) \<Longrightarrow> keeps P (with_version p ver st msg k)"
  unfolding with_version_def GetPackageVersion_def getPackageVersion_def by (intro keeps_intros keeps_on_error)

lemma npm_keeps:
  assumes "bk_owner (rg_npm g) = A" and "\<not> ownerless (ToNpm r)"
  shows "keeps P (npm_ServeHTTP e (rg_npm g) c r)"
  unfolding npm_ServeHTTP_def npm_route_handler_def
  by (cases r; simp; insert assms(2))
    (auto intro!: keeps_intros uploads_keep(1) [OF assms(1)] k_with_package keeps_on_error k_serve_blob
      simp: handleDistTagsList_def npm_handleTarball_def npm_handlePackument_def findTarball_def ownerless_def Let_def
        GetPackageVersion_def getPackageVersion_def GetPackageFile_def ListPackageTags_def ListPackageVersions_def)

lemma cargo_keeps:
  assumes "bk_owner (rg_cargo g) = A" and "\<not> ownerless (ToCargo r)"
  shows "keeps P (cargo_ServeHTTP e (rg_cargo g) c r)"
  unfolding cargo_ServeHTTP_def cargo_route_handler_def
  by (cases r; simp; insert assms(2))
    (auto intro!: keeps_intros uploads_keep(2) [OF assms(1)] k_with_package k_with_version keeps_on_error k_serve_blob
      simp: handleConfig_def handleIndex_def cargo_handleDownload_def ownerless_def Let_def GetPackageFile_def ListPackageVersions_def)

lemma nuget_keeps:
  assumes "bk_owner (rg_nuget g) = A" and "\<not> ownerless (ToNuget r)"
  shows "keeps P (nuget_ServeHTTP e (rg_nuget g) c r)"
  unfolding nuget_ServeHTTP_def nuget_route_handler_def
  by (cases r; simp; insert assms(2))
    (auto intro!: keeps_intros uploads_keep(3) [OF assms(1)] k_with_package k_with_version keeps_on_error k_serve_blob
      simp: handleServiceIndex_def handleVersionList_def nuget_handleDownload_def handleRegistrationIndex_def handleRegistrationLeaf_def
        ownerless_def Let_def GetPackageFile_def ListPackageVersions_def)

lemma k_simple_pages: "keeps P (simple_pages n a out)"
  by (induction n arbitrary: a out) (auto intro!: keeps_intros simp: Let_def ListPackages_def)

lemma k_listing: "keeps P (local_listing e b name p)"
  unfolding local_listing_def ListPackageVersions_def ListPackageFiles_def by (intro keeps_intros keeps_on_error)

lemma k_local_file: "(\<And>v f. keeps P (k v f)) \<Longrightarrow> keeps P (local_file p ver name k)"
  unfolding local_file_def GetPackageVersion_def getPackageVersion_def GetPackageFile_def by (intro keeps_intros keeps_on_error)

lemma pypi_reads_keep:
  assumes "A = pypi_upstreamOwner"
  shows "keeps P handleSimpleRoot" "keeps P (handleSimplePackage e b name)" "keeps P (pypi_handleDownload e b name ver file)"
  unfolding handleSimpleRoot_def handleSimplePackage_def pypi_handleDownload_def Let_def GetPackage_def
  by (intro keeps_intros k_simple_pages keeps_on_error k_net k_listing k_local_file pypi_cache_keeps [OF assms] k_serve_blob)+

lemma pypi_keeps:
  assumes "acting_for g (ToPypi r) = A"
  shows "keeps P (pypi_ServeHTTP e (rg_pypi g) c r)"
  unfolding pypi_ServeHTTP_def pypi_route_handler_def
  using assms
  by (cases r) (auto simp: acting_for_def intro!: keeps_intros pypi_upload_keeps pypi_reads_keep)

lemma k_resolve:
  assumes "A = go_upstreamOwner" shows "keeps P (resolveVersion e b m ver)"
  unfolding resolveVersion_def or_nil_def GetPackage_def GetPackageVersion_def getPackageVersion_def
  by (intro keeps_intros go_cache_keeps [OF assms])

lemma k_upstream_bytes: "(\<And>u. keeps P (fetch u)) \<Longrightarrow> keeps P k \<Longrightarrow> keeps P (upstream_bytes b fetch k)"
  unfolding upstream_bytes_def by (intro keeps_intros)

lemma go_reads_keep:
  assumes "A = go_upstreamOwner"
  shows "keeps P (handleLatest e b m)" "keeps P (handleList e b m)" "keeps P (handleInfo e b m ver)" "keeps P (serveFile e b m ver suffix ct)"
  unfolding handleLatest_def handleList_def handleInfo_def serveFile_def or_nil_def Let_def GetPackage_def ListPackageVersions_def GetPackageFile_def
  by (intro keeps_intros k_upstream_bytes k_net keeps_on_error k_resolve [OF assms] k_serve_blob)+

lemma go_keeps:
  assumes "acting_for g (ToGo verb path body) = A"
  shows "keeps P (go_dispatch e (rg_go g) c verb path body)"
  unfolding go_dispatch_def Let_def requireGET_def decodeVersion_def
  using assms
  by (auto simp: acting_for_def split: if_split_asm intro!: keeps_intros go_upload_keeps go_reads_keep split: prod.split)

lemma serve_keeps:
  assumes "acting_for g req = A" and "\<not> ownerless req"
  shows "keeps P (serve e g c req)"
proof (cases req)
  case (ToNpm r)
  then show ?thesis using assms npm_keeps by (simp add: serve_def acting_for_def)
next
  case (ToCargo r)
  then show ?thesis using assms cargo_keeps by (simp add: serve_def acting_for_def)
next
  case (ToNuget r)
  then show ?thesis using assms nuget_keeps by (simp add: serve_def acting_for_def)
next
  case (ToPypi r)
  then show ?thesis using assms(1) pypi_keeps by (simp add: serve_def)
next
  case (ToGo verb path body)
  then show ?thesis using assms(1) go_keeps by (simp add: serve_def)
qed

end

section \<open>The database keeps it\<close>

lemma wf_content:
  assumes "content t' = content t" shows "foreign_view F t' = foreign_view F t"
  using assms by (simp add: content_def foreign_view_def)

lemma iso_publish: "keeps (\<lambda>s. isolated A t0 (tbl s)) (Publish w p ty obj :: ('z pub_scheme, unit) prog)"
proof (rule keepsI)
  fix s :: "'z pub_scheme" assume c: "isolated A t0 (tbl s)"
  let ?s = "snd (Publish w p ty obj s)"
  have "content (tbl ?s) = content (tbl s)" unfolding Publish_def
    using quiet_publish [of "\<lambda>x (_ :: int \<times> 'z). x = content (tbl s)" w p ty obj] by (simp add: keeps_def)
  from wf_content [OF this] have v: "foreign_view F (tbl ?s) = foreign_view F (tbl s)" for F .
  have "wf_tables (tbl ?s)" unfolding Publish_def
    by (rule keepsD [OF wf_publish _ surjective_pairing]) (use c in \<open>simp add: isolated_def\<close>)
  with v c show "isolated A t0 (tbl ?s)" by (simp add: isolated_def)
qed

lemma iso_insert_version:
  assumes "ver_package v \<notin> foreign_ids A t0"
  shows "yields (\<lambda>s. isolated A t0 (tbl s)) (InsertPackageVersionIfNew v :: ('z store_scheme, bool \<times> PackageVersion) prog)
    (\<lambda>(new, v'). new \<longrightarrow> ver_id v' \<notin> ver_id ` set (filter (\<lambda>v. ver_package v \<in> foreign_ids A t0) (package_versions t0)))"
proof (rule yieldsI)
  fix s s' :: "'z store_scheme" and r
  assume I: "isolated A t0 (tbl s)" and run: "InsertPackageVersionIfNew v s = (r, s')"
  have k: "keeps (\<lambda>s. isolated A t0 (tbl s)) (InsertPackageVersionIfNew v :: ('z store_scheme, bool \<times> PackageVersion) prog)"
  proof (rule keeps_isolated [OF wf.keeps_InsertPackageVersionIfNew])
    fix F V assume F: "F = foreign_ids A t0"
    have "foreign_view F (t\<lparr>package_versions := insert_ignore
              (\<lambda>r. (ver_package r, ver_version r) = (ver_package v, ver_version v))
              (v\<lparr>ver_id := seq_versions t, ver_created := c\<rparr>) (package_versions t),
           seq_versions := seq_versions t + 1\<rparr>) = foreign_view F t" for c t
      using assms unfolding foreign_view_def F insert_ignore_def by (simp del: set_filter)
    then show "keeps (\<lambda>s. foreign_view F (tbl s) = V) (InsertPackageVersionIfNew v)"
      unfolding InsertPackageVersionIfNew_def getPackageVersion_def by (intro keeps_intros) simp_all
  qed
  have I': "isolated A t0 (tbl s')" by (rule keepsD [OF k I run])
  have "ver_id v' \<notin> ver_id ` set (filter (\<lambda>v. ver_package v \<in> foreign_ids A t0) (package_versions t0))" if r: "r = Inr (True, v')" for v'
  proof (rule own_version [OF I'])
    from publish_immutable [of s v] run r have "same_content v v'" "package_versions (tbl s') = package_versions (tbl s) @ [v']" by simp_all
    then show "v' \<in> set (package_versions (tbl s'))" "ver_package v' \<notin> foreign_ids A t0" using assms by (simp_all add: same_content_def)
  qed
  with I' show "isolated A t0 (tbl s') \<and> (\<forall>x. r = Inr x \<longrightarrow> (case x of (new, v') \<Rightarrow>
      new \<longrightarrow> ver_id v' \<notin> ver_id ` set (filter (\<lambda>v. ver_package v \<in> foreign_ids A t0) (package_versions t0))))"
    by (auto simp del: set_filter)
qed

interpretation reg_iso: registry_scoped A "isolated A t0" "\<lambda>i. i \<notin> foreign_ids A t0"
    "\<lambda>i. i \<notin> ver_id ` set (filter (\<lambda>v. ver_package v \<in> foreign_ids A t0) (package_versions t0))" for A t0
  by unfold_locales
    (rule iso_create_package iso_put_version iso_insert_version iso_file iso_put_tag [unfolded PutTag_def] iso_others(3) iso_publish
      yields_weaken [OF iso_get_version]; simp del: set_filter)+


text \<open>A short body is read whole: the equation for evaluation.\<close>

lemma LimitReader_short [code]:
  "LimitReader r n = (if int (length (rd_data r)) < n then r
     else \<lparr>rd_data = take (nat n) (rd_data r), rd_fail = rd_fail r \<and> int (length (rd_data r)) < n\<rparr>)"
  by (cases r) (simp add: LimitReader_def)

text \<open>A node with one package, and an upload to it.\<close>

definition demo_pkgs :: pkgs where
  "demo_pkgs = net.extend (demo_net_state\<lparr>faults := []\<rparr>) (pkgs.fields newCircuitBreaker newCircuitBreaker)"

definition demo_registry_env :: registry_env where
  "demo_registry_env = \<lparr>re_world = demo_world, re_net = demo_net, re_pkg = demo_pkg_env, re_Unmarshal = (\<lambda>s. Some (JStr s)),
     npm_ParsePackage = (\<lambda>body. Inr \<lparr>np_name = ''tool'', np_version = ''1.0.0'', np_filename = ''tool-1.0.0.tgz'',
       np_tags = [''latest''], np_data = body\<rparr>),
     npm_Versions = (\<lambda>_. Some [(''1.0.0'', JObj [])]), npm_Stored = (\<lambda>_. None), npm_SetDist = (\<lambda>m _ _ _. m),
     re_sha512 = (\<lambda>s. s), re_sha1_hex = (\<lambda>s. s), cargo_ParsePackage = (\<lambda>_. Inl ''crate''), cargo_Metadata = (\<lambda>_. None),
     nuget_ParsePackage = (\<lambda>body. Inr \<lparr>gp_id = ''Tool'', gp_version = body, gp_authors = ''me'', gp_description = '''',
       gp_project_url = '''', gp_tags = ''''\<rparr>),
     semver_less = (\<lambda>_ _. False), pypi_Metadata = (\<lambda>_. JObj []), pypi_RequiresPython = (\<lambda>_. ''''), pypi_Project = (\<lambda>_. None),
     go_UnescapePath = Some, go_UnescapeVersion = Some, go_Check = (\<lambda>_ _. True), go_Zip = (\<lambda>_. None), go_ModulePath = (\<lambda>_. '''')\<rparr>"

definition demo_backend :: backend where
  "demo_backend = new_backend ''https://a.example/'' ''secret'' ''https://a.example/ap'' (Some demo_publisher)"

definition demo_registries :: registries where
  "demo_registries = \<lparr>rg_npm = demo_backend, rg_cargo = demo_backend, rg_nuget = demo_backend,
     rg_pypi = backend.extend demo_backend (pypi_backend.fields None), rg_go = backend.extend demo_backend (go_backend.fields None)\<rparr>"

definition demo_credentials :: credentials where
  "demo_credentials = \<lparr>cr_Authorization = ''Bearer secret'', cr_ApiKey = ''secret''\<rparr>"

definition demo_npm_upload :: request where
  "demo_npm_upload = ToNpm (NpmPublish '''' ''tool'' (bytes_reader ''tarball''))"

definition demo_npm_done :: "(err + reply) \<times> pkgs" where
  "demo_npm_done = serve demo_registry_env demo_registries demo_credentials demo_npm_upload demo_pkgs"

lemma demo_pkgs_tbl: "tbl demo_pkgs = demo_tables"
  by code_simp

lemma demo_npm_created: "fst demo_npm_done = Inr (Reply 201 (Json (JObj [(''ok'', JBool True)])))"
  by code_simp


end
