(* ===== verification/Package_Uploads.thy ===== *)
theory Package_Uploads
  imports Package_Safety
begin

text \<open>
  What uploads leave behind: they only add to the versions and files that are published.
\<close>

section \<open>Uploads only add\<close>

definition grows :: "tables \<Rightarrow> tables \<Rightarrow> bool" where
  "grows t0 t \<longleftrightarrow> set (package_versions t0) \<subseteq> set (package_versions t) \<and> set (package_files t0) \<subseteq> set (package_files t) \<and>
     seq_versions t0 \<le> seq_versions t"

text \<open>Files belong to versions that have been given out.\<close>

definition files_parented :: "tables \<Rightarrow> bool" where
  "files_parented t \<longleftrightarrow> (\<forall>f \<in> set (package_files t). file_version f < seq_versions t)"

definition core :: "tables \<Rightarrow> PackageVersion list \<times> PackageFile list \<times> int" where
  "core t = (package_versions t, package_files t, seq_versions t)"

lemma core_calls:
  "keeps (\<lambda>s. P (core (tbl s))) (GetOrCreatePackage ty name A)" "keeps (\<lambda>s. P (core (tbl s))) (PutBlob d n mt st)"
  "keeps (\<lambda>s. P (core (tbl s))) (PutPackageTag pid tag ver)" "keeps (\<lambda>s. P (core (tbl s))) (store_Put w rd e)"
  unfolding GetOrCreatePackage_def PutBlob_def PutPackageTag_def upsert_tag_def
  by (intro keeps_intros confined_store; simp add: core_def)+

lemma core_publish: "keeps (\<lambda>s. P (core (tbl s))) (publish_object w p ty object)"
proof -
  have fetch: "keeps (\<lambda>s. P (core (tbl s))) (FetchActor w u)" for u by (rule keeps_fetch_tbl)
  have uid: "keeps (\<lambda>s. P (core (tbl s))) (new_uuid w)" by (rule keepsI) (simp add: new_uuid_def)
  show ?thesis
    unfolding publish_object_def Publish_def createAndDeliver_def activityURL_def enqueueToFollowers_def resolve_followers_def
      collect_inbox_def resolveInbox_def ActorCache_Get_def enqueue_inbox_def ListFollowsBatch_def PutActivity_def
      InsertActivityIfNew_def EnqueueDeliveryInserted_def
    by (intro keeps_intros above_keyset fetch uid keeps_query keeps_modify) (simp_all add: core_def)
qed

lemma grows_core: "grows t0 t = (case core t of (vs, fs, n) \<Rightarrow> set (package_versions t0) \<subseteq> set vs \<and> set (package_files t0) \<subseteq> set fs \<and> seq_versions t0 \<le> n)"
  by (simp add: grows_def core_def)

lemma grow_calls:
  "keeps (\<lambda>s. grows t0 (tbl s)) (GetOrCreatePackage ty name A)" "keeps (\<lambda>s. grows t0 (tbl s)) (PutBlob d n mt st)"
  "keeps (\<lambda>s. grows t0 (tbl s)) (PutPackageTag pid tag ver)" "keeps (\<lambda>s. grows t0 (tbl s)) (store_Put w rd e)"
  unfolding grows_core by (rule core_calls)+

lemma grow_publish: "keeps (\<lambda>s. grows t0 (tbl s)) (publish_object w p ty object)"
  unfolding grows_core by (rule core_publish)

text \<open>A file of a version that is new, or under a name that is not taken.\<close>

lemma grow_file:
  assumes "\<And>f. f \<in> set (package_files t0) \<Longrightarrow> (file_version f, file_name f) \<noteq> (file_version x, file_name x)"
  shows "keeps (\<lambda>s. grows t0 (tbl s)) (PutPackageFile x)"
  unfolding PutPackageFile_def
  by (intro keeps_intros) (use assms in \<open>auto simp: grows_def set_upsert_where split: if_split_asm\<close>)

text \<open>The version an insertion hands out, and the one a put hands out when there was none.\<close>

definition vacant :: "int \<Rightarrow> string \<Rightarrow> tables \<Rightarrow> bool" where
  "vacant pid version t \<longleftrightarrow> \<not> (\<exists>v \<in> set (package_versions t). ver_package v = pid \<and> ver_version v = version)"

lemma grow_insert:
  fixes v :: PackageVersion
  shows "yields (\<lambda>s. grows t0 (tbl s)) (InsertPackageVersionIfNew v :: ('z store_scheme, bool \<times> PackageVersion) prog)
    (\<lambda>(new, v'). new \<longrightarrow> seq_versions t0 \<le> ver_id v')"
proof (rule yieldsI)
  fix s s' :: "'z store_scheme" and r
  assume g: "grows t0 (tbl s)" and run: "InsertPackageVersionIfNew v s = (r, s')"
  have "keeps (\<lambda>s. grows t0 (tbl s)) (InsertPackageVersionIfNew v)"
    unfolding InsertPackageVersionIfNew_def getPackageVersion_def
    by (intro keeps_intros) (auto simp: grows_def set_insert_ignore)
  note g' = keepsD [OF this g run]
  have "seq_versions t0 \<le> ver_id v'" if r: "r = Inr (True, v')" for v'
  proof -
    let ?q = "\<lambda>r. ver_package r = ver_package v \<and> ver_version r = ver_version v"
    from publish_immutable [of s v] run r have none: "find_where ?q (package_versions (tbl s)) = None" by simp
    from run r have "ver_id v' = seq_versions (tbl s)"
      using insert_ignore_new [OF none] none
      by (auto simp: InsertPackageVersionIfNew_def getPackageVersion_def find_where_append
          elim!: bindE_okE split: if_split_asm option.split_asm dest!: query_ok exec_rows_ok tick_run)
    then show ?thesis using g by (simp add: grows_def)
  qed
  with g' show "grows t0 (tbl s') \<and> (\<forall>x. r = Inr x \<longrightarrow> (case x of (new, v') \<Rightarrow> new \<longrightarrow> seq_versions t0 \<le> ver_id v'))" by auto
qed

lemma grow_upsert:
  assumes "grows t0 t" and "vacant (ver_package v) (ver_version v) t"
  shows "grows t0 (upsert_version v c t)"
    and "package_versions (upsert_version v c t) = package_versions t @ [v\<lparr>ver_id := seq_versions t, ver_created := c\<rparr>]"
proof -
  show e: "package_versions (upsert_version v c t) = package_versions t @ [v\<lparr>ver_id := seq_versions t, ver_created := c\<rparr>]"
    using assms(2) by (auto simp: upsert_version_def upsert_where_def vacant_def list_ex_iff)
  show "grows t0 (upsert_version v c t)" using assms(1) e by (auto simp: grows_def upsert_version_def)
qed

lemma grow_put:
  fixes s :: "'z store_scheme"
  assumes g: "grows t0 (tbl s)" and n: "vacant (ver_package v) (ver_version v) (tbl s)" and run: "PutPackageVersion v s = (r, s')"
  shows "grows t0 (tbl s') \<and> (\<forall>v'. r = Inr v' \<longrightarrow> seq_versions t0 \<le> ver_id v')"
proof (cases r)
  case (Inl x)
  with run have "putPackageVersion v s = (Inl x, s')" by (simp add: PutPackageVersion_def)
  then have "tbl s' = tbl s \<or> tbl s' = upsert_version v (clock s) (tbl s)"
    unfolding putPackageVersion_def getPackageVersion_def
    by (auto simp: bindE_err Let_def split: if_split_asm option.split_asm dest!: exec_rows_err exec_ok exec_err query_err)
  with g n grow_upsert(1) Inl show ?thesis by auto
next
  case (Inr v')
  with run have "putPackageVersion v s = (Inr v', s')" by (simp add: PutPackageVersion_def)
  note p = putPackageVersion_ok [OF this]
  then have "find_where (\<lambda>r. (ver_package r, ver_version r) = (ver_package v, ver_version v))
      (package_versions (upsert_version v (clock s) (tbl s))) = Some v'" by argo
  then have "find_where (\<lambda>r. (ver_package r, ver_version r) = (ver_package v, ver_version v))
      (package_versions (tbl s) @ [v\<lparr>ver_id := seq_versions (tbl s), ver_created := clock s\<rparr>]) = Some v'"
    unfolding grow_upsert(2) [OF g n] .
  moreover have "find_where (\<lambda>r. (ver_package r, ver_version r) = (ver_package v, ver_version v)) (package_versions (tbl s)) = None"
    using n by (auto simp: find_where_None vacant_def)
  ultimately have "ver_id v' = seq_versions (tbl s)" by (auto simp: find_where_append)
  with p grow_upsert(1) [OF g n] g Inr show ?thesis by (auto simp: grows_def)
qed

text \<open>From a state in which the version is vacant to one in which everything is still there.\<close>

definition leads :: "('s \<Rightarrow> bool) \<Rightarrow> ('s, 'a) prog \<Rightarrow> ('s \<Rightarrow> bool) \<Rightarrow> bool" where
  "leads P m Q \<longleftrightarrow> (\<forall>s. P s \<longrightarrow> Q (snd (m s)))"

definition open_slot :: "tables \<Rightarrow> int \<Rightarrow> string \<Rightarrow> 'z store_scheme \<Rightarrow> bool" where
  "open_slot t0 pid version s \<longleftrightarrow> grows t0 (tbl s) \<and> vacant pid version (tbl s)"

lemma open_slot_core: "open_slot t0 pid version s = (grows t0 (tbl s) \<and> (case core (tbl s) of (vs, _) \<Rightarrow> \<not> (\<exists>v \<in> set vs. ver_package v = pid \<and> ver_version v = version)))"
  by (simp add: open_slot_def vacant_def core_def)

lemma slot_on_error:
  fixes m :: "('z store_scheme, 'a) prog"
  assumes "keeps (open_slot t0 pid version) m" and "\<And>x. leads (open_slot t0 pid version) (k x) (\<lambda>s. grows t0 (tbl s))"
  shows "leads (open_slot t0 pid version) (on_error m st msg k) (\<lambda>s. grows t0 (tbl s))"
  unfolding leads_def
proof (intro allI impI)
  fix s :: "'z store_scheme" assume p: "open_slot t0 pid version s"
  obtain r t where r: "m s = (r, t)" by (cases "m s")
  from keepsD [OF assms(1) p r] assms(2) r show "grows t0 (tbl (snd (on_error m st msg k s)))"
    by (cases r) (auto simp: on_error_def handle_def http_error_def ret_def leads_def open_slot_def)
qed

lemma slot_now: "(\<And>c. leads (open_slot t0 pid version) (k c) Q) \<Longrightarrow> leads (open_slot t0 pid version) (bindE now k) Q"
  by (simp add: leads_def bindE_def now_def gets_def)

lemma slot_put:
  fixes k :: "PackageVersion \<Rightarrow> ('z store_scheme, reply) prog"
  assumes "\<And>v. seq_versions t0 \<le> ver_id v \<Longrightarrow> keeps (\<lambda>s. grows t0 (tbl s)) (k v)"
  shows "leads (open_slot t0 pid version) (put_new_version pid version m k) (\<lambda>s. grows t0 (tbl s))"
  unfolding leads_def
proof (intro allI impI)
  fix s :: "'z store_scheme" assume p: "open_slot t0 pid version s"
  let ?m = "PutPackageVersion (local_version pid version m)"
  obtain r t where r: "?m s = (r, t)" by (cases "?m s")
  from grow_put [of t0 s "local_version pid version m", OF _ _ r] p
  have "grows t0 (tbl t) \<and> (\<forall>v'. r = Inr v' \<longrightarrow> seq_versions t0 \<le> ver_id v')"
    by (simp add: open_slot_def local_version_def new_version_def)
  with assms r show "grows t0 (tbl (snd (put_new_version pid version m k s)))"
    by (cases r) (auto simp: put_new_version_def on_error_def handle_def http_error_def ret_def keeps_def)
qed

lemma lookup_slot:
  assumes "GetPackageVersion pid version s = (r, s')" and "grows t0 (tbl s)"
  shows "grows t0 (tbl s') \<and> (r = Inr None \<longrightarrow> open_slot t0 pid version s')"
  using assms unfolding GetPackageVersion_def getPackageVersion_def
  by (cases r) (auto simp: open_slot_def vacant_def find_where_None dest!: query_ok query_err)

lemma grow_check_new:
  fixes k :: "('z store_scheme, reply) prog"
  assumes "leads (open_slot t0 pid version) k (\<lambda>s. grows t0 (tbl s))"
  shows "keeps (\<lambda>s. grows t0 (tbl s)) (check_new pid version k)"
proof (rule keepsI)
  fix s :: "'z store_scheme" assume g: "grows t0 (tbl s)"
  obtain r t where r: "GetPackageVersion pid version s = (r, t)" by (cases "GetPackageVersion pid version s")
  from lookup_slot [OF r g] assms r show "grows t0 (tbl (snd (check_new pid version k s)))"
    by (cases r) (auto simp: check_new_def on_error_def handle_def http_error_def ret_def leads_def)
qed

lemma grow_version_for_file:
  fixes k :: "PackageVersion \<Rightarrow> ('z store_scheme, reply) prog"
  assumes "\<And>v. keeps (\<lambda>s. grows t0 (tbl s)) (k v)"
  shows "keeps (\<lambda>s. grows t0 (tbl s)) (version_for_file pid version m k)"
proof (rule keepsI)
  fix s :: "'z store_scheme" assume g: "grows t0 (tbl s)"
  obtain r t where r: "GetPackageVersion pid version s = (r, t)" by (cases "GetPackageVersion pid version s")
  from lookup_slot [OF r g] slot_put [of t0 k pid version m] assms r show "grows t0 (tbl (snd (version_for_file pid version m k s)))"
    by (cases r) (auto simp: version_for_file_def on_error_def handle_def http_error_def ret_def leads_def keeps_def split: option.split)
qed

section \<open>Every upload\<close>

lemma grow_put_upload: "(\<And>d. keeps (\<lambda>s. grows t0 (tbl s)) (k d)) \<Longrightarrow> keeps (\<lambda>s. grows t0 (tbl s)) (put_upload e data k)"
  unfolding put_upload_def by (intro keeps_intros keeps_on_error grow_calls)

lemma grow_own_package: "(\<And>p. keeps (\<lambda>s. grows t0 (tbl s)) (k p)) \<Longrightarrow> keeps (\<lambda>s. grows t0 (tbl s)) (with_own_package what ty name A k)"
  unfolding with_own_package_def by (intro keeps_intros grow_calls)

lemma grow_insert_version:
  "(\<And>v. seq_versions t0 \<le> ver_id v \<Longrightarrow> keeps (\<lambda>s. grows t0 (tbl s)) (k v)) \<Longrightarrow> keeps (\<lambda>s. grows t0 (tbl s)) (insert_version x k)"
  unfolding insert_version_def
  by (rule yields_on_error [OF grow_insert]) (auto intro!: keeps_intros)

lemma grow_new_file:
  "files_parented t0 \<Longrightarrow> seq_versions t0 \<le> vid \<Longrightarrow> keeps (\<lambda>s. grows t0 (tbl s)) (PutPackageFile (new_file vid name d n ct))"
  by (rule grow_file) (auto simp: files_parented_def new_file_def)

lemma grow_published:
  "keeps (\<lambda>s. grows t0 (tbl s)) (npm_publishVersion w p ep name v file ig sh meta)" "keeps (\<lambda>s. grows t0 (tbl s)) (npm_publishTagSet w p ep name tag ver)"
  "keeps (\<lambda>s. grows t0 (tbl s)) (cargo_publishVersion w p ep name v file ck meta)" "keeps (\<lambda>s. grows t0 (tbl s)) (nuget_publishPackage w p ep name ver file stored)"
  "keeps (\<lambda>s. grows t0 (tbl s)) (pypi_publishFile w p ep name ver file meta)" "keeps (\<lambda>s. grows t0 (tbl s)) (go_publishModule pe w p ep m ver file info)"
  unfolding npm_publishVersion_def npm_publishTagSet_def cargo_publishVersion_def nuget_publishPackage_def pypi_publishFile_def go_publishModule_def
  by (rule grow_publish)+

lemma slot_store: "keeps (open_slot t0 pid version) (storeBlob e data mt)"
  unfolding storeBlob_def open_slot_core [abs_def] grows_core
  by (intro keeps_intros core_calls [where P = "\<lambda>c. f c \<and> g c" for f g])

lemma grow_uploads:
  assumes "files_parented t0"
  shows "keeps (\<lambda>s. grows t0 (tbl s)) (npm_handlePublish e b n body)" "keeps (\<lambda>s. grows t0 (tbl s)) (cargo_handlePublish e b body)"
    "keeps (\<lambda>s. grows t0 (tbl s)) (handlePush e b frm)" "keeps (\<lambda>s. grows t0 (tbl s)) (go_handleUpload e gb m ver body)"
proof -
  note new_file = grow_new_file [OF assms]
  show "keeps (\<lambda>s. grows t0 (tbl s)) (npm_handlePublish e b n body)"
    unfolding npm_handlePublish_def npm_record_def Let_def
    by (intro keeps_intros grow_put_upload grow_own_package grow_insert_version new_file keeps_on_error grow_calls grow_published)
  show "keeps (\<lambda>s. grows t0 (tbl s)) (cargo_handlePublish e b body)"
    unfolding cargo_handlePublish_def Let_def
    by (intro keeps_intros grow_put_upload grow_own_package grow_insert_version new_file keeps_on_error grow_published)
  show "keeps (\<lambda>s. grows t0 (tbl s)) (handlePush e b frm)"
    unfolding handlePush_def Let_def
    by (intro keeps_intros grow_put_upload grow_own_package grow_check_new slot_put new_file keeps_on_error grow_published)
  have files: "keeps (\<lambda>s. grows t0 (tbl s)) (put_module_files vid v d k d' k')" if "seq_versions t0 \<le> vid" for vid v d k d' k'
    unfolding put_module_files_def using that by (auto intro!: keeps_intros new_file)
  show "keeps (\<lambda>s. grows t0 (tbl s)) (go_handleUpload e gb m ver body)"
    unfolding go_handleUpload_def Let_def
    by (intro keeps_intros grow_own_package grow_check_new slot_on_error slot_store slot_now slot_put files keeps_on_error grow_published)
qed

lemma grow_pypi: "keeps (\<lambda>s. grows t0 (tbl s)) (pypi_handleUpload e b frm)"
proof -
  have free_file: "keeps (\<lambda>s. grows t0 (tbl s)) (on_error (GetPackageFile vid name) 500 ''lookup file'' (\<lambda>existing.
      if existing \<noteq> None then http_error 409 msg else on_error (PutPackageFile (new_file vid name d n ct)) 500 ''put file'' (\<lambda>_. k)))"
    if k: "keeps (\<lambda>s. grows t0 (tbl s)) k" for vid name msg d n ct and k :: "('z pub_scheme, reply) prog"
  proof (rule keepsI)
    fix s :: "'z pub_scheme" assume g: "grows t0 (tbl s)"
    obtain r t where r: "GetPackageFile vid name s = (r, t)" by (cases "GetPackageFile vid name s")
    have t1: "grows t0 (tbl t)" using r g unfolding GetPackageFile_def by (cases r) (auto dest!: query_ok query_err)
    have t2: "\<forall>f \<in> set (package_files t0). (file_version f, file_name f) \<noteq> (vid, name)" if "r = Inr None"
    proof -
      have "find_where (\<lambda>r. (file_version r, file_name r) = (vid, name)) (package_files (tbl s)) = None"
        using r that unfolding GetPackageFile_def by (auto dest: query_ok)
      with g show ?thesis unfolding find_where_None grows_def by blast
    qed
    have "keeps (\<lambda>s. grows t0 (tbl s)) (on_error (PutPackageFile (new_file vid name d n ct)) 500 ''put file'' (\<lambda>_. k))" if "r = Inr None"
      by (intro keeps_on_error grow_file k) (use t2 [OF that] in \<open>auto simp: new_file_def\<close>)
    with r t1 show "grows t0 (tbl (snd (on_error (GetPackageFile vid name) 500 ''lookup file'' (\<lambda>existing.
      if existing \<noteq> None then http_error 409 msg else on_error (PutPackageFile (new_file vid name d n ct)) 500 ''put file'' (\<lambda>_. k)) s)))"
      by (cases r) (auto simp: on_error_def [of "GetPackageFile vid name"] handle_def http_error_def ret_def keeps_def)
  qed
  show ?thesis
    unfolding pypi_handleUpload_def Let_def
    by (intro keeps_intros grow_put_upload grow_own_package grow_version_for_file free_file grow_published)
qed

text \<open>The requests that upload.\<close>

definition uploads_package :: "request \<Rightarrow> bool" where
  "uploads_package req \<longleftrightarrow> (case req of
      ToNpm (NpmPublish _ _ _) \<Rightarrow> True
    | ToCargo (CargoPublish _) \<Rightarrow> True
    | ToNuget (NugetPush _) \<Rightarrow> True
    | ToPypi (PypiUpload _) \<Rightarrow> True
    | ToGo verb _ _ \<Rightarrow> verb = ''PUT''
    | _ \<Rightarrow> False)"

text \<open>C11. Published versions are immutable: whatever is uploaded in any format, twice, under a taken name or
  with I/O failures at any point, every version and every file that was there is there unchanged
  afterwards; only new ones are added.\<close>

theorem uploads_append_only:
  assumes "files_parented (tbl s)" and "uploads_package req" and "serve e g c req s = (r, s')"
  shows "set (package_versions (tbl s)) \<subseteq> set (package_versions (tbl s')) \<and> set (package_files (tbl s)) \<subseteq> set (package_files (tbl s'))"
proof -
  have "keeps (\<lambda>u. grows (tbl s) (tbl u)) (serve e g c req)"
  proof (cases req)
    case (ToGo verb path body)
    with assms(2) show ?thesis
      by (auto simp: serve_def uploads_package_def go_dispatch_def Let_def requireGET_def decodeVersion_def
          intro!: keeps_intros grow_uploads(4) [OF assms(1)] split: prod.split)
  qed (use assms(2) in \<open>auto simp: serve_def uploads_package_def npm_ServeHTTP_def npm_route_handler_def cargo_ServeHTTP_def cargo_route_handler_def
      nuget_ServeHTTP_def nuget_route_handler_def pypi_ServeHTTP_def pypi_route_handler_def
      intro!: keeps_intros grow_uploads [OF assms(1)] grow_pypi split: npm_route.splits cargo_route.splits nuget_route.splits pypi_route.splits\<close>)
  from keepsD [OF this _ assms(3)] show ?thesis by (simp add: grows_def)
qed

text \<open>The same upload again is refused, and nothing is lost.\<close>

lemma uploads_append_only_witness:
  "let again = serve demo_registry_env demo_registries demo_credentials demo_npm_upload (snd demo_npm_done) in
   fst again = Inr (Reply 409 (Message ''version already exists'')) \<and> package_files (tbl (snd demo_npm_done)) \<noteq> [] \<and>
   set (package_files (tbl (snd demo_npm_done))) \<subseteq> set (package_files (tbl (snd again)))"
proof -
  have 1: "fst (serve demo_registry_env demo_registries demo_credentials demo_npm_upload (snd demo_npm_done)) =
      Inr (Reply 409 (Message ''version already exists''))" by code_simp
  have 2: "package_files (tbl (snd demo_npm_done)) \<noteq> []" by code_simp
  have 3: "files_parented (tbl (snd demo_npm_done))" by code_simp
  have 4: "uploads_package demo_npm_upload" by (simp add: uploads_package_def demo_npm_upload_def)
  from uploads_append_only [OF 3 4 prod.collapse [symmetric]] 1 2 show ?thesis by (simp add: Let_def)
qed

end
