(* ===== verification/Package_Serving.thy ===== *)
theory Package_Serving
  imports Package_Uploads Oci_Reads
begin

text \<open>
  What is served: an npm upload is what is downloaded, a publication that failed half-way stays stuck,
  NuGet versions with capital letters are listed where they cannot be fetched, and cached Python files
  have the hash their index declares.
\<close>

section \<open>Runs of handlers\<close>

lemma on_error_okE:
  assumes "on_error m st msg k s = (Inr (Reply n x), s')" and "st \<noteq> n"
  obtains y t where "m s = (Inr y, t)" and "k y t = (Inr (Reply n x), s')"
  using assms by (auto simp: on_error_def handle_def http_error_def split: prod.splits sum.splits)

lemma on_missing_okE:
  assumes "on_missing m st msg k s = (Inr (Reply n x), s')" and "st \<noteq> n"
  obtains y where "m = Some y" and "k y s = (Inr (Reply n x), s')"
  using assms by (auto simp: on_missing_def http_error_def split: option.splits)

lemma read_body_okE:
  assumes "read_body body m k s = (Inr (Reply n x), s')" and "n \<noteq> 400" and "n \<noteq> 413"
  obtains "k (rd_data (LimitReader body (m + 1))) s = (Inr (Reply n x), s')"
  using assms by (auto simp: read_body_def Let_def http_error_def split: if_split_asm)

lemma own_package_okE:
  assumes "with_own_package what ty name A k s = (Inr (Reply n x), s')" and "n \<noteq> 403" and "n \<noteq> 500"
  obtains p t where "GetOrCreatePackage ty name A s = (Inr p, t)" and "k p t = (Inr (Reply n x), s')"
  using assms by (auto simp: with_own_package_def handle_def http_error_def split: prod.splits sum.splits if_split_asm)

lemma insert_version_okE:
  assumes "insert_version v k s = (Inr (Reply n x), s')" and "n \<noteq> 500" and "n \<noteq> 409"
  obtains v' t where "InsertPackageVersionIfNew v s = (Inr (True, v'), t)" and "k v' t = (Inr (Reply n x), s')"
proof -
  from assms(1,2) obtain y t where y: "InsertPackageVersionIfNew v s = (Inr y, t)"
    and k: "(case y of (inserted, v') \<Rightarrow> if \<not> inserted then http_error 409 ''version already exists'' else k v') t = (Inr (Reply n x), s')"
    unfolding insert_version_def by (auto elim: on_error_okE)
  obtain b v' where p: "y = (b, v')" by (cases y)
  from k assms(3) p have b: "b" by (auto simp: http_error_def split: if_split_asm)
  show ?thesis by (rule that [of v' t]) (use y k p b in simp_all)
qed

text \<open>A blob on the disk: where it is kept by everything that does not touch files.\<close>

definition on_disk :: "string \<Rightarrow> string \<Rightarrow> 'z disk_scheme \<Rightarrow> bool" where
  "on_disk d data s \<longleftrightarrow> Digest d \<and> held s d = Some data"

definition rows :: "tables \<Rightarrow> Package list \<times> PackageVersion list \<times> PackageFile list" where
  "rows t = (packages t, package_versions t, package_files t)"

lemma on_disk_above:
  fixes m :: "('z disk_scheme, 'a) prog"
  assumes "m s = (r, t)" and "on_disk d data s" and "\<And>P. keeps (\<lambda>s. P (above s)) m"
  shows "on_disk d data t"
proof -
  have "above t = above s" by (rule keepsD [OF assms(3) [of "\<lambda>v. v = above s"] refl assms(1)])
  from held_above [OF this] assms(2) show ?thesis by (simp add: on_disk_def)
qed

lemma kept_rows:
  assumes "m s = (r, t)" and "P (rows (tbl s))" and "keeps (\<lambda>s. P (rows (tbl s))) m"
  shows "P (rows (tbl t))"
  using keepsD [OF assms(3,2,1)] .

lemma above_package_calls:
  "keeps (\<lambda>s. P (above s)) (GetOrCreatePackage ty name A)" "keeps (\<lambda>s. P (above s)) (InsertPackageVersionIfNew v)"
  "keeps (\<lambda>s. P (above s)) (PutPackageFile f)" "keeps (\<lambda>s. P (above s)) (PutPackageTag pid tag ver)"
  unfolding GetOrCreatePackage_def InsertPackageVersionIfNew_def getPackageVersion_def PutPackageFile_def PutPackageTag_def
  by (intro keeps_intros above_intros)+

lemma rows_calls:
  "keeps (\<lambda>s. P (rows (tbl s))) (PutBlob d n mt st)" "keeps (\<lambda>s. P (rows (tbl s))) (PutPackageTag pid tag ver)"
  unfolding PutBlob_def PutPackageTag_def upsert_tag_def by (intro keeps_intros; simp add: rows_def)+

lemma rows_publish: "keeps (\<lambda>s. P (rows (tbl s)) (above s)) (publish_object w p ty object)"
proof -
  have "keeps (\<lambda>s. (case content (tbl s) of ((ps, vs, _, fs, _), _) \<Rightarrow> P (ps, vs, fs)) (above s)) (publish_object w p ty object)"
    unfolding publish_object_def Publish_def by (intro keeps_intros quiet_publish)
  then show ?thesis by (simp add: content_def rows_def)
qed

lemma put_on_disk:
  assumes "store_Put w rd '''' s = (Inr (d, n), t)"
  shows "d = hash_of w (rd_data rd)" and "on_disk d (rd_data rd) t"
proof -
  from files.put_ok [OF assms] show d: "d = hash_of w (rd_data rd)" by simp
  have "Digest d" using assms by (auto simp: store_Put_def Let_def elim!: bindE_okE split: if_split_asm)
  with files.put_ok [OF assms] show "on_disk d (rd_data rd) t" by (simp add: on_disk_def)
qed

lemma put_upload_okE:
  assumes "put_upload e data k s = (Inr (Reply n x), s')" and "500 \<noteq> n"
  obtains t where "on_disk (hash_of (re_world e) data) data t" and "rows (tbl t) = rows (tbl s)"
    and "k (hash_of (re_world e) data) t = (Inr (Reply n x), s')"
proof -
  from assms obtain d m t1 t2 where put: "store_Put (re_world e) (bytes_reader data) '''' s = (Inr (d, m), t1)"
    and row: "PutBlob d (int (length data)) (Some octet_stream) True t1 = (Inr (), t2)" and k: "k d t2 = (Inr (Reply n x), s')"
    by (auto simp: put_upload_def elim!: on_error_okE)
  from put_on_disk [OF put] have d: "d = hash_of (re_world e) data" "on_disk d data t1" by (simp_all add: bytes_reader_def)
  from row d(2) have "on_disk d data t2" by (rule on_disk_above) (rule above_calls)
  moreover have "rows (tbl t2) = rows (tbl s)"
    using keepsD [OF confined_store(1) [of "\<lambda>t. rows t = rows (tbl s)"] refl put] by (rule keepsD [OF rows_calls(1) _ row])
  ultimately show ?thesis using that k d(1) by blast
qed

lemma upsert_found:
  assumes "\<And>r. P (f r) = P r" and "P new" and "\<And>r. g (f r) = d" and "g new = d"
  shows "\<exists>x. find_where P (upsert_where P f new xs) = Some x \<and> g x = d"
  using assms by (induction xs) (auto simp: find_where_def upsert_where_def split: option.splits if_splits)

text \<open>A query answers from the tables, or reports an I/O failure.\<close>

lemma query_outcome:
  fixes s :: "'z disk_scheme"
  obtains (ok) t where "query g s = (Inr (g (tbl s)), t)" and "tbl t = tbl s" and "bfiles t = bfiles s"
  | (err) x t where "query g s = (Inl x, t)"
  by (cases "tick s") (auto simp: query_def bindE_def tick_def gets_def split: sum.splits list.splits if_splits)

section \<open>npm\<close>

lemma split_suffix: "versionFromTarballFilename name (tarballFilename name version) = version"
  by (simp add: versionFromTarballFilename_def tarballFilename_def Let_def HasPrefix_iff HasSuffix_iff)

text \<open>A published version with its tarball: rows and blob.\<close>

definition shelved :: "string \<Rightarrow> string \<Rightarrow> string \<Rightarrow> string \<Rightarrow> Package list \<times> PackageVersion list \<times> PackageFile list \<Rightarrow> bool" where
  "shelved name version filename d = (\<lambda>(ps, vs, fs). \<exists>p v f.
     find_where (\<lambda>r. (pkg_type r, pkg_name r) = (''npm'', name)) ps = Some p \<and>
     find_where (\<lambda>r. (ver_package r, ver_version r) = (pkg_id p, version)) vs = Some v \<and>
     find_where (\<lambda>r. (file_version r, file_name r) = (ver_id v, filename)) fs = Some f \<and> file_blob f = d)"

lemma inserted_rows:
  fixes s :: "'z store_scheme"
  assumes create: "GetOrCreatePackage ''npm'' name A s = (Inr p, t1)"
    and ins: "InsertPackageVersionIfNew (local_version (pkg_id p) version m) t1 = (Inr (True, v), t2)"
  shows "\<exists>q. find_where (\<lambda>r. (pkg_type r, pkg_name r) = (''npm'', name)) (packages (tbl t2)) = Some q \<and> pkg_id q = pkg_id p"
    and "find_where (\<lambda>r. (ver_package r, ver_version r) = (pkg_id p, version)) (package_versions (tbl t2)) = Some v"
proof -
  have "packages (tbl t2) = packages (tbl t1)"
    using ins by (rule keepsD [of "\<lambda>s. packages (tbl s) = packages (tbl t1)" _ t1, rotated 2, OF _ _ refl])
      (unfold InsertPackageVersionIfNew_def getPackageVersion_def, intro keeps_intros, simp_all)
  then show "\<exists>q. find_where (\<lambda>r. (pkg_type r, pkg_name r) = (''npm'', name)) (packages (tbl t2)) = Some q \<and> pkg_id q = pkg_id p"
    using create_package_spec [of s "''npm''" name A, unfolded create prod.case sum.case]
    by (auto simp: find_where_append new_package_def split: option.splits)
  show "find_where (\<lambda>r. (ver_package r, ver_version r) = (pkg_id p, version)) (package_versions (tbl t2)) = Some v"
    using publish_immutable [of t1 "local_version (pkg_id p) version m"] ins
    by (auto simp: find_where_append same_content_def local_version_def new_version_def)
qed

lemma npm_record_shelves:
  assumes "npm_record e b pkg meta d s = (Inr (Reply 201 x), s')"
  shows "shelved (np_name pkg) (np_version pkg) (np_filename pkg) d (rows (tbl s'))" and "on_disk c data s \<Longrightarrow> on_disk c data s'"
proof -
  let ?file = "\<lambda>v. new_file (ver_id v) (np_filename pkg) d (int (length (np_data pkg))) octet_stream"
  from assms obtain p t1 m v t2 t3 t4 where create: "GetOrCreatePackage ''npm'' (np_name pkg) (bk_owner b) s = (Inr p, t1)"
    and ins: "InsertPackageVersionIfNew (local_version (pkg_id p) (np_version pkg) m) t1 = (Inr (True, v), t2)"
    and put: "PutPackageFile (?file v) t2 = (Inr (), t3)"
    and tags: "foreach (np_tags pkg) (\<lambda>tag. PutPackageTag (pkg_id p) tag (np_version pkg)) t3 = (Inr (), t4)"
    and pub: "bindE (npm_publishVersion (re_world e) (bk_publisher b) (bk_endpoint b) (np_name pkg) v (?file v)
          (''sha512-'' @ EncodeToString (re_world e) (re_sha512 e (np_data pkg))) (re_sha1_hex e (np_data pkg)) meta) (\<lambda>_.
        bindE (foreach (np_tags pkg) (\<lambda>tag. npm_publishTagSet (re_world e) (bk_publisher b) (bk_endpoint b) (np_name pkg) tag (np_version pkg))) (\<lambda>_.
        ret (Reply 201 (Json (JObj [(''ok'', JBool True)]))))) t4 = (Inr (Reply 201 x), s')"
    unfolding npm_record_def Let_def
    by (elim own_package_okE insert_version_okE on_error_okE; simp?)
  note inserted = inserted_rows [OF create ins]
  from put [unfolded PutPackageFile_def, THEN exec_ok] obtain clk where t3: "tbl t3 = (tbl t2)\<lparr>package_files := upsert_where
       (\<lambda>r. (file_version r, file_name r) = (ver_id v, np_filename pkg))
       (\<lambda>r. r\<lparr>file_blob := d, file_size := int (length (np_data pkg)), file_ctype := Some octet_stream\<rparr>)
       (?file v\<lparr>file_id := seq_files (tbl t2), file_created := clk\<rparr>) (package_files (tbl t2)), seq_files := seq_files (tbl t2) + 1\<rparr>"
    by (auto simp: new_file_def)
  then have stored: "\<exists>f. find_where (\<lambda>r. (file_version r, file_name r) = (ver_id v, np_filename pkg)) (package_files (tbl t3)) = Some f \<and> file_blob f = d"
    by (simp add: upsert_found new_file_def)
  have "shelved (np_name pkg) (np_version pkg) (np_filename pkg) d (rows (tbl t3))"
    using inserted stored t3 unfolding shelved_def rows_def by fastforce
  with tags have "shelved (np_name pkg) (np_version pkg) (np_filename pkg) d (rows (tbl t4))"
    by (rule kept_rows) (intro keeps_intros rows_calls)
  with pub show "shelved (np_name pkg) (np_version pkg) (np_filename pkg) d (rows (tbl s'))"
    by (rule kept_rows)
      (unfold npm_publishVersion_def npm_publishTagSet_def, intro keeps_intros rows_publish [where P = "\<lambda>x _. R x" for R])
  show "on_disk c data s'" if "on_disk c data s"
  proof -
    have pub_above: "keeps (\<lambda>s. P (above s)) (publish_object w a ty object)" for w a ty object and P :: "_ \<times> 'z \<Rightarrow> bool"
      by (rule rows_publish [where P = "\<lambda>_. P"])
    from create that have "on_disk c data t1" by (rule on_disk_above) (rule above_package_calls)
    with ins have "on_disk c data t2" by (rule on_disk_above) (rule above_package_calls)
    with put have "on_disk c data t3" by (rule on_disk_above) (rule above_package_calls)
    with tags have "on_disk c data t4" by (rule on_disk_above) (intro keeps_intros above_package_calls)
    with pub show ?thesis
      by (rule on_disk_above) (unfold npm_publishVersion_def npm_publishTagSet_def, intro keeps_intros pub_above)
  qed
qed

lemma npm_publish_shelves:
  assumes "npm_handlePublish e b name body s = (Inr (Reply 201 x), s')"
  obtains pkg where "npm_ParsePackage e (rd_data (LimitReader body (maxPublishBytes + 1))) = Inr pkg" and "np_name pkg = name"
    and "shelved name (np_version pkg) (np_filename pkg) (hash_of (re_world e) (np_data pkg)) (rows (tbl s'))"
    and "on_disk (hash_of (re_world e) (np_data pkg)) (np_data pkg) s'"
proof -
  from assms obtain pkg where parse: "npm_ParsePackage e (rd_data (LimitReader body (maxPublishBytes + 1))) = Inr pkg" and name: "np_name pkg = name"
    unfolding npm_handlePublish_def
    by (elim read_body_okE) (auto simp: http_error_def split: sum.splits if_split_asm)
  let ?d = "hash_of (re_world e) (np_data pkg)"
  let ?file = "\<lambda>v. new_file (ver_id v) (np_filename pkg) ?d (int (length (np_data pkg))) octet_stream"
  from assms name obtain meta t where disk: "on_disk ?d (np_data pkg) t" and k: "npm_record e b pkg meta ?d t = (Inr (Reply 201 x), s')"
    unfolding npm_handlePublish_def
    by (elim read_body_okE) (simp_all add: parse, elim on_missing_okE put_upload_okE, simp_all)
  from npm_record_shelves [OF k] disk name parse that show ?thesis by auto
qed



section \<open>Publications that failed half-way\<close>

lemma own_package_otherE:
  assumes "with_own_package what ty name A k s = (Inr (Reply 500 (Message ''put file'')), s')"
  obtains p t where "GetOrCreatePackage ty name A s = (Inr p, t)" and "k p t = (Inr (Reply 500 (Message ''put file'')), s')"
  using assms by (auto simp: with_own_package_def handle_def http_error_def ret_def split: prod.splits sum.splits if_split_asm)

lemma on_error_otherE:
  assumes "on_error m st msg k s = (Inr (Reply 500 (Message ''put file'')), s')"
  obtains (failed) e where "m s = (Inl e, s')" and "msg = ''put file''"
  | (passed) y t where "m s = (Inr y, t)" and "k y t = (Inr (Reply 500 (Message ''put file'')), s')"
  using assms by (auto simp: on_error_def handle_def http_error_def ret_def split: prod.splits sum.splits)

text \<open>The row of a version, in the package of that name.\<close>

definition taken :: "string \<Rightarrow> string \<Rightarrow> tables \<Rightarrow> bool" where
  "taken name version t \<longleftrightarrow> (\<exists>p. find_where (\<lambda>r. (pkg_type r, pkg_name r) = (''npm'', name)) (packages t) = Some p \<and>
     (\<exists>v \<in> set (package_versions t). ver_package v = pkg_id p \<and> ver_version v = version))"

lemma npm_record_stuck:
  assumes "npm_record e b pkg meta d s = (Inr (Reply 500 (Message ''put file'')), s')"
  shows "taken (np_name pkg) (np_version pkg) (tbl s')"
proof -
  let ?file = "\<lambda>v. new_file (ver_id v) (np_filename pkg) d (int (length (np_data pkg))) octet_stream"
  from assms obtain p t1 m v t2 x where create: "GetOrCreatePackage ''npm'' (np_name pkg) (bk_owner b) s = (Inr p, t1)"
    and ins: "InsertPackageVersionIfNew (local_version (pkg_id p) (np_version pkg) m) t1 = (Inr (True, v), t2)"
    and put: "PutPackageFile (?file v) t2 = (Inl x, s')"
    unfolding npm_record_def Let_def insert_version_def
    by (elim own_package_otherE on_error_otherE)
      (auto simp: http_error_def ret_def bindE_ok split: prod.splits if_split_asm elim!: on_error_otherE)
  have "packages (tbl s') = packages (tbl t2) \<and> package_versions (tbl s') = package_versions (tbl t2)"
    using put unfolding PutPackageFile_def by (auto dest!: exec_err)
  with inserted_rows [OF create ins] show ?thesis by (fastforce simp: taken_def dest: find_where_Some)
qed

lemma npm_record_taken:
  assumes "taken (np_name pkg) (np_version pkg) (tbl s)"
  shows "npm_record e b pkg meta d s \<noteq> (Inr (Reply 201 x), s')"
proof
  assume "npm_record e b pkg meta d s = (Inr (Reply 201 x), s')"
  then obtain p t1 m v t2 where create: "GetOrCreatePackage ''npm'' (np_name pkg) (bk_owner b) s = (Inr p, t1)"
    and ins: "InsertPackageVersionIfNew (local_version (pkg_id p) (np_version pkg) m) t1 = (Inr (True, v), t2)"
    unfolding npm_record_def Let_def by (elim own_package_okE insert_version_okE; simp?)
  from assms create_package_spec [of s "''npm''" "np_name pkg" "bk_owner b", unfolded create prod.case sum.case]
  have "\<exists>v \<in> set (package_versions (tbl t1)). ver_package v = pkg_id p \<and> ver_version v = np_version pkg"
    by (auto simp: taken_def split: option.splits)
  moreover have "find_where (\<lambda>r. (ver_package r, ver_version r) = (pkg_id p, np_version pkg)) (package_versions (tbl t1)) = None"
    using publish_immutable [of t1 "local_version (pkg_id p) (np_version pkg) m"] ins by (simp add: local_version_def new_version_def)
  ultimately show False by (auto simp: find_where_None)
qed


section \<open>What the cache of Python packages holds\<close>


text \<open>The statement that writes the row of the file fails, and the client tries again.\<close>

definition demo_npm_failed :: "(err + reply) \<times> pkgs" where
  "demo_npm_failed = npm_handlePublish demo_registry_env demo_backend ''tool'' (bytes_reader ''tarball'')
     (demo_pkgs\<lparr>faults := replicate 14 False @ [True]\<rparr>)"


definition demo_index_env :: registry_env where
  "demo_index_env = demo_registry_env\<lparr>re_net := demo_net\<lparr>Do := (\<lambda>_ _. answer 200 ''wheel'' '''')\<rparr>,
     pypi_Project := (\<lambda>_. Some [\<lparr>pyf_filename = ''tool-1.0.tar.gz'', pyf_url = ''https://files.example/tool-1.0.tar.gz'',
       pyf_sha256 = replicate 64 (CHR ''A''), pyf_python = ''''\<rparr>])\<rparr>"

definition demo_cached :: "(err + PackageFile option) \<times> pkgs" where
  "demo_cached = pypi_cacheFromUpstream demo_index_env (NewPyPIFetcher [''https://pypi.example''] 100) ''tool'' ''1.0'' ''tool-1.0.tar.gz'' demo_pkgs"


text \<open>A NuGet version with a capital letter is listed under a name that cannot be downloaded.\<close>

definition demo_nupkg :: "(err + reply) \<times> pkgs" where
  "demo_nupkg = handlePush demo_registry_env demo_backend
     (Some \<lparr>fm_values = [], fm_files = [(''package'', [(''tool.nupkg'', bytes_reader ''1.0.0-Beta'')])]\<rparr>) demo_pkgs"

lemma nuget_uppercase_lost:
  "fst demo_nupkg = Inr (Reply 201 Empty) \<and>
   fst (handleVersionList ''Tool'' (snd demo_nupkg)) = Inr (Reply 200 (Json (JObj [(''versions'', JArr [JStr ''1.0.0-beta''])]))) \<and>
   fst (nuget_handleDownload ''tool'' ''1.0.0-beta'' ''tool.1.0.0-beta.nupkg'' (snd demo_nupkg)) = Inr (Reply 404 (Message ''version not found''))"
proof (intro conjI)
  show "fst demo_nupkg = Inr (Reply 201 Empty)" by code_simp
  show "fst (handleVersionList ''Tool'' (snd demo_nupkg)) = Inr (Reply 200 (Json (JObj [(''versions'', JArr [JStr ''1.0.0-beta''])])))" by code_simp
  show "fst (nuget_handleDownload ''tool'' ''1.0.0-beta'' ''tool.1.0.0-beta.nupkg'' (snd demo_nupkg)) = Inr (Reply 404 (Message ''version not found''))"
    by code_simp
qed

end
