(* ===== verification/Config.thy ===== *)
theory Config
  imports Complex_Main Path_Match Prog "HOL-Library.AList"
begin

text \<open>
  The configuration of a node (\<open>internal/config/config.go\<close>): the settings, their defaults, the check
  made at start-up, and the handling of secrets and generated tokens. The decoders of YAML and of
  environment variables, the parsers of URLs and addresses and the random source are the fields of
  \<open>config_env\<close>. Durations are nanoseconds.
\<close>

section \<open>Settings\<close>

text \<open>A rate of the limiter: a number or the NaN that YAML can spell.\<close>

datatype rate = NaN | Rate rat

record DatabaseConfig =
  db_Driver :: string
  db_DSN :: string
  db_MaxOpenConns :: int
  db_MaxIdleConns :: int

record S3Storage =
  s3_Bucket :: string
  s3_Region :: string
  s3_Endpoint :: string
  s3_AccessKey :: string
  s3_SecretKey :: string
  s3_Prefix :: string
  s3_ForcePathStyle :: bool
  s3_TempDir :: string

record Storage =
  st_Type :: string
  st_S3 :: S3Storage

record TLS =
  tls_Cert :: string
  tls_Key :: string

record Peering =
  pr_HealthCheckInterval :: int
  pr_FetchTimeout :: int

record FederationConfig =
  fe_AutoAccept :: string
  fe_AllowInsecureHTTP :: bool
  fe_AllowedDomains :: "string list"
  fe_BlockedDomains :: "string list"
  fe_BlockedActors :: "string list"
  fe_ExcludedRepos :: "string list"
  fe_OutgoingFollowPendingTTL :: int
  fe_OutgoingFollowRejectedTTL :: int

record Limits =
  li_MaxManifestSize :: int
  li_MaxBlobSize :: int

record RateLimits =
  rat_InboxRate :: rate
  rat_InboxBurst :: int
  rat_RegistryPushRate :: rate
  rat_RegistryPushBurst :: int
  rat_TrustedIPs :: "string list"
  rat_TrustedProxies :: "string list"

record Metrics =
  me_Enabled :: bool
  me_Listen :: string
  me_Token :: string

record TrivyScanner =
  tr_BinaryPath :: string
  tr_Insecure :: bool

record Scanner =
  sc_Enabled :: bool
  sc_Timeout :: int
  sc_QueueSize :: int
  sc_Trivy :: TrivyScanner

record Notifications =
  no_URLs :: "string list"
  no_Events :: "string list"

record RepoRetention =
  rr_Repo :: string
  rr_KeepLastN :: int
  rr_MaxAge :: int
  rr_PinnedGlobs :: "string list"

record Retention =
  rtn_KeepLastN :: int
  rtn_MaxAge :: int
  rtn_PinnedGlobs :: "string list option"
  rtn_PerRepo :: "RepoRetention list"

record GC =
  gcc_Enabled :: "bool option"
  gcc_Interval :: int
  gcc_StalePeerBlobAge :: int
  gcc_OrphanBatchSize :: int
  gcc_BlobGCGracePeriod :: int
  gcc_UntaggedManifestAge :: int
  gcc_UntaggedBatchSize :: int
  gcc_RetentionTagsPerCycle :: int
  gcc_DiskUsageThreshold :: int
  gcc_DiskUsageCheckInterval :: int
  gcc_Retention :: Retention

record UpstreamConfig =
  uc_Name :: string
  uc_Endpoint :: string
  uc_Auth :: string
  uc_Username :: string
  uc_Password :: string
  uc_Private :: bool

record Upstreams =
  ups_Enabled :: bool
  ups_FetchTimeout :: int
  ups_Registries :: "UpstreamConfig list"

record ReplicationTarget =
  rt_Name :: string
  rt_Endpoint :: string
  rt_Auth :: string
  rt_Username :: string
  rt_Password :: string
  rt_Insecure :: bool
  rt_RepoGlobs :: "string list"
  rt_StripPrefix :: string
  rt_DestNamespace :: string

record Replication =
  rp_Enabled :: bool
  rp_Timeout :: int
  rp_Targets :: "ReplicationTarget list"

record BackendConfig =
  bc_Enabled :: "bool option"
  bc_Federate :: "bool option"
  bc_Token :: string

record Backends =
  ba_NPM :: BackendConfig
  ba_Cargo :: BackendConfig
  ba_PyPI :: BackendConfig
  ba_PyPI_Upstreams :: "string list"
  ba_NuGet :: BackendConfig
  ba_GoProxy :: BackendConfig
  ba_GoProxy_Upstreams :: "string list"

record Config =
  c_Endpoint :: string
  c_Name :: string
  c_Listen :: string
  c_DataDir :: string
  c_KeyPath :: string
  c_LogLevel :: string
  c_LogFormat :: string
  c_RegistryToken :: string
  c_AdminToken :: string
  c_AccountDomain :: string
  c_Database :: DatabaseConfig
  c_Storage :: Storage
  c_TLS :: "TLS option"
  c_Peering :: Peering
  c_Federation :: FederationConfig
  c_Limits :: Limits
  c_RateLimits :: RateLimits
  c_Metrics :: Metrics
  c_GC :: GC
  c_Notifications :: Notifications
  c_Upstreams :: Upstreams
  c_UI_Enabled :: bool
  c_Backends :: Backends
  c_Scanner :: Scanner
  c_Replication :: Replication
  c_Domain :: string
  c_GeneratedTokenPaths :: "string list"

text \<open>The zero value every decoder starts from.\<close>

definition no_backend :: BackendConfig where
  "no_backend = \<lparr>bc_Enabled = None, bc_Federate = None, bc_Token = ''''\<rparr>"

definition zero_config :: Config where
  "zero_config = \<lparr>c_Endpoint = '''', c_Name = '''', c_Listen = '''', c_DataDir = '''', c_KeyPath = '''', c_LogLevel = '''',
     c_LogFormat = '''', c_RegistryToken = '''', c_AdminToken = '''', c_AccountDomain = '''',
     c_Database = \<lparr>db_Driver = '''', db_DSN = '''', db_MaxOpenConns = 0, db_MaxIdleConns = 0\<rparr>,
     c_Storage = \<lparr>st_Type = '''', st_S3 = \<lparr>s3_Bucket = '''', s3_Region = '''', s3_Endpoint = '''', s3_AccessKey = '''',
       s3_SecretKey = '''', s3_Prefix = '''', s3_ForcePathStyle = False, s3_TempDir = ''''\<rparr>\<rparr>,
     c_TLS = None, c_Peering = \<lparr>pr_HealthCheckInterval = 0, pr_FetchTimeout = 0\<rparr>,
     c_Federation = \<lparr>fe_AutoAccept = '''', fe_AllowInsecureHTTP = False, fe_AllowedDomains = [], fe_BlockedDomains = [],
       fe_BlockedActors = [], fe_ExcludedRepos = [], fe_OutgoingFollowPendingTTL = 0, fe_OutgoingFollowRejectedTTL = 0\<rparr>,
     c_Limits = \<lparr>li_MaxManifestSize = 0, li_MaxBlobSize = 0\<rparr>,
     c_RateLimits = \<lparr>rat_InboxRate = Rate 0, rat_InboxBurst = 0, rat_RegistryPushRate = Rate 0, rat_RegistryPushBurst = 0,
       rat_TrustedIPs = [], rat_TrustedProxies = []\<rparr>,
     c_Metrics = \<lparr>me_Enabled = False, me_Listen = '''', me_Token = ''''\<rparr>,
     c_GC = \<lparr>gcc_Enabled = None, gcc_Interval = 0, gcc_StalePeerBlobAge = 0, gcc_OrphanBatchSize = 0, gcc_BlobGCGracePeriod = 0,
       gcc_UntaggedManifestAge = 0, gcc_UntaggedBatchSize = 0, gcc_RetentionTagsPerCycle = 0, gcc_DiskUsageThreshold = 0,
       gcc_DiskUsageCheckInterval = 0, gcc_Retention = \<lparr>rtn_KeepLastN = 0, rtn_MaxAge = 0, rtn_PinnedGlobs = None, rtn_PerRepo = []\<rparr>\<rparr>,
     c_Notifications = \<lparr>no_URLs = [], no_Events = []\<rparr>,
     c_Upstreams = \<lparr>ups_Enabled = False, ups_FetchTimeout = 0, ups_Registries = []\<rparr>, c_UI_Enabled = False,
     c_Backends = \<lparr>ba_NPM = no_backend, ba_Cargo = no_backend, ba_PyPI = no_backend, ba_PyPI_Upstreams = [],
       ba_NuGet = no_backend, ba_GoProxy = no_backend, ba_GoProxy_Upstreams = []\<rparr>,
     c_Scanner = \<lparr>sc_Enabled = False, sc_Timeout = 0, sc_QueueSize = 0, sc_Trivy = \<lparr>tr_BinaryPath = '''', tr_Insecure = False\<rparr>\<rparr>,
     c_Replication = \<lparr>rp_Enabled = False, rp_Timeout = 0, rp_Targets = []\<rparr>, c_Domain = '''', c_GeneratedTokenPaths = []\<rparr>"

definition IsEnabled :: "BackendConfig \<Rightarrow> bool" where
  "IsEnabled b \<longleftrightarrow> bc_Enabled b = None \<or> bc_Enabled b = Some True"

definition IsFederated :: "BackendConfig \<Rightarrow> bool" where
  "IsFederated b \<longleftrightarrow> bc_Federate b = None \<or> bc_Federate b = Some True"

definition TokenOr :: "BackendConfig \<Rightarrow> string \<Rightarrow> string" where
  "TokenOr b fallback = (if bc_Token b \<noteq> '''' then bc_Token b else fallback)"

section \<open>The system\<close>

record sys = env +
  vars :: "(string \<times> string) list"
  sys_files :: "(string \<times> string) list"
  home :: "string option"
  entropy :: nat

record ConfigURL =
  cu_Scheme :: string
  cu_Hostname :: string
  cu_Path :: string
  cu_RawQuery :: string
  cu_Fragment :: string

record config_env =
  ce_Yaml :: "string \<Rightarrow> Config option"
  ce_Env :: "(string \<Rightarrow> string) \<Rightarrow> Config \<Rightarrow> Config option"
  ce_TLS :: "(string \<Rightarrow> string) \<Rightarrow> TLS option"
  ce_Parse :: "string \<Rightarrow> ConfigURL option"
  ce_RequestURI :: "string \<Rightarrow> bool"
  ce_CIDR :: "string \<Rightarrow> bool"
  ce_IP :: "string \<Rightarrow> bool"
  ce_Rand :: "nat \<Rightarrow> string"

definition Getenv :: "'z sys_scheme \<Rightarrow> string \<Rightarrow> string" where
  "Getenv s name = (case map_of (vars s) name of None \<Rightarrow> '''' | Some v \<Rightarrow> v)"

definition Setenv :: "string \<Rightarrow> string \<Rightarrow> ('z sys_scheme, unit) prog" where
  "Setenv name v = bindE tick (\<lambda>_. modify (\<lambda>s. s\<lparr>vars := AList.update name v (vars s)\<rparr>))"

definition Unsetenv :: "string \<Rightarrow> ('z sys_scheme, unit) prog" where
  "Unsetenv name = bindE tick (\<lambda>_. modify (\<lambda>s. s\<lparr>vars := AList.delete name (vars s)\<rparr>))"

text \<open>The result \<open>None\<close> is \<open>os.ErrNotExist\<close>.\<close>

definition ReadFile :: "string \<Rightarrow> ('z sys_scheme, string option) prog" where
  "ReadFile path = bindE tick (\<lambda>_. gets (\<lambda>s. map_of (sys_files s) path))"

text \<open>The file is cut to nothing when it is opened; a failed write leaves it so.\<close>

definition WriteFile :: "string \<Rightarrow> string \<Rightarrow> ('z sys_scheme, unit) prog" where
  "WriteFile path data = bindE tick (\<lambda>_. bindE (modify (\<lambda>s. s\<lparr>sys_files := AList.update path '''' (sys_files s)\<rparr>)) (\<lambda>_.
     bindE tick (\<lambda>_. modify (\<lambda>s. s\<lparr>sys_files := AList.update path data (sys_files s)\<rparr>))))"

definition UserHomeDir :: "('z sys_scheme, string) prog" where
  "UserHomeDir = bindE (gets home) (\<lambda>h. case h of None \<Rightarrow> fail (Errorf ''determining home directory'') | Some d \<Rightarrow> ret d)"

text \<open>\<open>filepath.Clean\<close> and \<open>filepath.Join\<close>: the parts of a path, without empty ones, dots and what \<open>..\<close> takes back.\<close>

fun clean_parts :: "bool \<Rightarrow> string list \<Rightarrow> string list \<Rightarrow> string list" where
  "clean_parts rooted out [] = rev out"
| "clean_parts rooted out (p # ps) =
     (if p = '''' \<or> p = ''.'' then clean_parts rooted out ps
      else if p = ''..'' then
        (case out of
           [] \<Rightarrow> if rooted then clean_parts rooted [] ps else clean_parts rooted [p] ps
         | q # qs \<Rightarrow> if q = ''..'' then clean_parts rooted (p # out) ps else clean_parts rooted qs ps)
      else clean_parts rooted (p # out) ps)"

definition Clean :: "string \<Rightarrow> string" where
  "Clean path = (let rooted = HasPrefix path ''/'';
       s = (if rooted then ''/'' else '''') @ join_with ''/'' (clean_parts rooted [] (split_on (CHR ''/'') path))
     in if s = '''' then ''.'' else s)"

definition Join :: "string \<Rightarrow> string \<Rightarrow> string" where
  "Join dir name = (if dir = '''' \<and> name = '''' then '''' else if dir = '''' then Clean name
     else if name = '''' then Clean dir else Clean (dir @ ''/'' @ name))"

definition BlobDiskPath :: "Config \<Rightarrow> string" where
  "BlobDiskPath c = (if st_Type (c_Storage c) \<noteq> ''local'' then '''' else Join (c_DataDir c) ''blobs'')"

section \<open>Secrets from files\<close>

fun expandFileSecrets :: "string list \<Rightarrow> string list \<Rightarrow> ('z sys_scheme, string list) prog" where
  "expandFileSecrets [] fileSourced = ret fileSourced"
| "expandFileSecrets (name # names) fileSourced = bindE (gets (\<lambda>s. (Getenv s name, Getenv s (name @ ''_FILE'')))) (\<lambda>(v, path).
     if v \<noteq> '''' \<or> path = '''' then expandFileSecrets names fileSourced
     else bindE (ReadFile path) (\<lambda>data. case data of
         None \<Rightarrow> fail (Errorf ''reading secret file'')
       | Some b \<Rightarrow>
           if TrimSpace b = '''' then fail (Errorf ''secret file is empty'')
           else bindE (Setenv name (TrimSpace b)) (\<lambda>_. expandFileSecrets names (fileSourced @ [name]))))"

definition secret_names :: "string list" where
  "secret_names = [''APOCI_REGISTRY_TOKEN'', ''APOCI_ADMIN_TOKEN'', ''APOCI_DB_DSN'', ''APOCI_STORAGE_S3_ACCESS_KEY'', ''APOCI_STORAGE_S3_SECRET_KEY'']"

section \<open>Defaults\<close>

definition second :: int where "second = 1000000000"
definition minute :: int where "minute = 60 * second"
definition hour :: int where "hour = 60 * minute"

definition DefaultMaxManifestSize :: int where "DefaultMaxManifestSize = 10485760"
definition DefaultMaxBlobSize :: int where "DefaultMaxBlobSize = 536870912"

text \<open>A setting that is left at its zero value.\<close>

definition or_default :: "'a \<Rightarrow> 'a \<Rightarrow> 'a \<Rightarrow> 'a" where
  "or_default zero d x = (if x = zero then d else x)"

abbreviation int_default :: "int \<Rightarrow> int \<Rightarrow> int" where "int_default \<equiv> or_default 0"
abbreviation str_default :: "string \<Rightarrow> string \<Rightarrow> string" where "str_default \<equiv> or_default ''''"
abbreviation flag_default :: "bool option \<Rightarrow> bool option" where "flag_default \<equiv> or_default None (Some True)"

definition applyReplicationDefaults :: "Config \<Rightarrow> Config" where
  "applyReplicationDefaults = c_Replication_update (\<lambda>r. r\<lparr>rp_Timeout := int_default (5 * minute) (rp_Timeout r),
     rp_Targets := map (\<lambda>t. t\<lparr>rt_Auth := str_default ''token'' (rt_Auth t)\<rparr>) (rp_Targets r)\<rparr>)"

definition applyScannerDefaults :: "Config \<Rightarrow> Config" where
  "applyScannerDefaults = c_Scanner_update (\<lambda>s. s\<lparr>sc_Timeout := int_default (5 * minute) (sc_Timeout s),
     sc_QueueSize := int_default 1000 (sc_QueueSize s),
     sc_Trivy := (sc_Trivy s)\<lparr>tr_BinaryPath := str_default ''trivy'' (tr_BinaryPath (sc_Trivy s))\<rparr>\<rparr>)"

definition expandHome :: "string \<Rightarrow> ('z sys_scheme, string) prog" where
  "expandHome path =
     (if path \<noteq> ''~'' \<and> \<not> HasPrefix path ''~/'' then ret path
      else bindE UserHomeDir (\<lambda>h. ret (if path = ''~'' then h else Join h (drop 2 path))))"

definition derive_domain :: "config_env \<Rightarrow> Config \<Rightarrow> ('s, Config) prog" where
  "derive_domain e c =
     (if c_Endpoint c = '''' then ret c
      else let endpoint = TrimRight_char (c_Endpoint c) (CHR ''/'') in (case ce_Parse e endpoint of
          None \<Rightarrow> fail (Errorf ''invalid endpoint URL'')
        | Some u \<Rightarrow> ret (c\<lparr>c_Endpoint := endpoint, c_Domain := cu_Hostname u\<rparr>)))"

definition applyServerDefaults :: "config_env \<Rightarrow> Config \<Rightarrow> ('z sys_scheme, Config) prog" where
  "applyServerDefaults e c0 = bindE (derive_domain e c0) (\<lambda>c1.
     let c = c1\<lparr>c_Name := str_default (c_Domain c1) (c_Name c1), c_Listen := str_default '':5000'' (c_Listen c1)\<rparr> in
     bindE (expandHome (c_DataDir c)) (\<lambda>dir.
     bindE (if dir \<noteq> '''' then ret dir else bindE UserHomeDir (\<lambda>h. ret (Join h ''.apoci''))) (\<lambda>dataDir.
     bindE (expandHome (c_KeyPath c)) (\<lambda>key.
     ret (c\<lparr>c_DataDir := dataDir, c_KeyPath := str_default (Join dataDir ''ap.key'') key,
       c_LogLevel := str_default ''info'' (c_LogLevel c), c_LogFormat := str_default ''json'' (c_LogFormat c),
       c_Storage := (c_Storage c)\<lparr>st_Type := str_default ''local'' (st_Type (c_Storage c))\<rparr>,
       c_Database := (c_Database c)\<lparr>db_Driver := str_default ''sqlite'' (db_Driver (c_Database c))\<rparr>,
       c_Metrics := (c_Metrics c)\<lparr>me_Listen := str_default '':9090'' (me_Listen (c_Metrics c))\<rparr>,
       c_Federation := (c_Federation c)\<lparr>fe_AutoAccept := str_default ''none'' (fe_AutoAccept (c_Federation c))\<rparr>,
       c_AccountDomain := str_default (c_Domain c) (c_AccountDomain c)\<rparr>)))))"

definition applyPeeringDefaults :: "Config \<Rightarrow> Config" where
  "applyPeeringDefaults = c_Peering_update (\<lambda>p. p\<lparr>pr_HealthCheckInterval := int_default (30 * second) (pr_HealthCheckInterval p),
     pr_FetchTimeout := int_default (60 * second) (pr_FetchTimeout p)\<rparr>)"

definition applyFederationDefaults :: "Config \<Rightarrow> Config" where
  "applyFederationDefaults = c_Federation_update (\<lambda>f. f\<lparr>
     fe_OutgoingFollowPendingTTL := int_default (7 * 24 * hour) (fe_OutgoingFollowPendingTTL f),
     fe_OutgoingFollowRejectedTTL := int_default (24 * hour) (fe_OutgoingFollowRejectedTTL f)\<rparr>)"

definition backend_defaults :: "BackendConfig \<Rightarrow> BackendConfig" where
  "backend_defaults b = b\<lparr>bc_Enabled := flag_default (bc_Enabled b), bc_Federate := flag_default (bc_Federate b)\<rparr>"

definition applyBackendsDefaults :: "Config \<Rightarrow> Config" where
  "applyBackendsDefaults = c_Backends_update (\<lambda>b. b\<lparr>ba_NPM := backend_defaults (ba_NPM b), ba_Cargo := backend_defaults (ba_Cargo b),
     ba_PyPI := backend_defaults (ba_PyPI b), ba_NuGet := backend_defaults (ba_NuGet b), ba_GoProxy := backend_defaults (ba_GoProxy b)\<rparr>)"

definition applyLimitsDefaults :: "Config \<Rightarrow> Config" where
  "applyLimitsDefaults = c_Limits_update (\<lambda>l. l\<lparr>li_MaxManifestSize := int_default DefaultMaxManifestSize (li_MaxManifestSize l),
     li_MaxBlobSize := int_default DefaultMaxBlobSize (li_MaxBlobSize l)\<rparr>)"

definition applyRateLimitsDefaults :: "Config \<Rightarrow> Config" where
  "applyRateLimitsDefaults = c_RateLimits_update (\<lambda>r. r\<lparr>rat_InboxRate := or_default (Rate 0) (Rate 30) (rat_InboxRate r),
     rat_InboxBurst := int_default 100 (rat_InboxBurst r), rat_RegistryPushRate := or_default (Rate 0) (Rate 50) (rat_RegistryPushRate r),
     rat_RegistryPushBurst := int_default 100 (rat_RegistryPushBurst r)\<rparr>)"

definition applyGCDefaults :: "Config \<Rightarrow> Config" where
  "applyGCDefaults = c_GC_update (\<lambda>g. g\<lparr>gcc_Enabled := flag_default (gcc_Enabled g), gcc_Interval := int_default (6 * hour) (gcc_Interval g),
     gcc_StalePeerBlobAge := int_default (30 * 24 * hour) (gcc_StalePeerBlobAge g), gcc_OrphanBatchSize := int_default 500 (gcc_OrphanBatchSize g),
     gcc_BlobGCGracePeriod := int_default hour (gcc_BlobGCGracePeriod g),
     gcc_UntaggedManifestAge := int_default (7 * 24 * hour) (gcc_UntaggedManifestAge g),
     gcc_UntaggedBatchSize := int_default 500 (gcc_UntaggedBatchSize g),
     gcc_DiskUsageCheckInterval := int_default (5 * minute) (gcc_DiskUsageCheckInterval g),
     gcc_Retention := (gcc_Retention g)\<lparr>rtn_PinnedGlobs := or_default None (Some [''latest'', ''v*'']) (rtn_PinnedGlobs (gcc_Retention g))\<rparr>\<rparr>)"

definition applyUpstreamDefaults :: "Config \<Rightarrow> Config" where
  "applyUpstreamDefaults = c_Upstreams_update (\<lambda>u. u\<lparr>ups_FetchTimeout := int_default (60 * second) (ups_FetchTimeout u),
     ups_Registries := map (\<lambda>r. r\<lparr>uc_Auth := str_default ''token'' (uc_Auth r)\<rparr>) (ups_Registries u)\<rparr>)"

section \<open>Tokens\<close>

definition lower_hex :: "nat \<Rightarrow> char" where
  "lower_hex n = (if n < 10 then char_of (48 + n) else char_of (87 + n))"

definition hex_string :: "string \<Rightarrow> string" where
  "hex_string b = concat (map (\<lambda>c. [lower_hex (of_char c div 16), lower_hex (of_char c mod 16)]) b)"

definition loadOrGenerateToken :: "config_env \<Rightarrow> string \<Rightarrow> ('z sys_scheme, string \<times> bool) prog" where
  "loadOrGenerateToken e path = handle (ReadFile path) (\<lambda>r.
     case (case r of Inr (Some data) \<Rightarrow> TrimSpace data | _ \<Rightarrow> '''') of
       c # cs \<Rightarrow> ret (c # cs, False)
     | [] \<Rightarrow>
         bindE tick (\<lambda>_.
         bindE (gets entropy) (\<lambda>n. bindE (modify (\<lambda>s. s\<lparr>entropy := n + 1\<rparr>)) (\<lambda>_.
         let token = hex_string (ce_Rand e n) in
         bindE (WriteFile path (token @ [CHR 0x0A])) (\<lambda>_. ret (token, True))))))"

definition token_default :: "config_env \<Rightarrow> string \<Rightarrow> string \<Rightarrow> string list \<Rightarrow> ('z sys_scheme, string \<times> string list) prog" where
  "token_default e token path generated =
     (if token \<noteq> '''' then ret (token, generated)
      else bindE (loadOrGenerateToken e path) (\<lambda>(token, new). ret (token, if new then generated @ [path] else generated)))"

definition applyTokenDefaults :: "config_env \<Rightarrow> Config \<Rightarrow> ('z sys_scheme, Config) prog" where
  "applyTokenDefaults e c = bindE (token_default e (c_RegistryToken c) (Join (c_DataDir c) ''registry.token'') (c_GeneratedTokenPaths c)) (\<lambda>(registry, g1).
     bindE (token_default e (c_AdminToken c) (Join (c_DataDir c) ''admin.token'') g1) (\<lambda>(admin, g2).
     ret (c\<lparr>c_RegistryToken := registry, c_AdminToken := admin, c_GeneratedTokenPaths := g2\<rparr>)))"

definition applyDefaults :: "config_env \<Rightarrow> Config \<Rightarrow> ('z sys_scheme, Config) prog" where
  "applyDefaults e c = bindE (applyServerDefaults e c) (\<lambda>c.
     applyTokenDefaults e (applyReplicationDefaults (applyScannerDefaults (applyBackendsDefaults (applyFederationDefaults
       (applyUpstreamDefaults (applyGCDefaults (applyRateLimitsDefaults (applyLimitsDefaults (applyPeeringDefaults c))))))))))"

section \<open>Validation\<close>

text \<open>A check returns at the first condition that holds.\<close>

fun first_error :: "(bool \<times> string) list \<Rightarrow> err + unit" where
  "first_error [] = Inr ()"
| "first_error ((bad, msg) # rest) = (if bad then Inl (Errorf msg) else first_error rest)"

fun all_pass :: "(err + unit) list \<Rightarrow> err + unit" where
  "all_pass [] = Inr ()"
| "all_pass (Inl x # rest) = Inl x"
| "all_pass (Inr u # rest) = all_pass rest"

definition bad_glob :: "string \<Rightarrow> bool" where
  "bad_glob g \<longleftrightarrow> path_match g '''' = None"

definition bad_globs :: "string list \<Rightarrow> string \<Rightarrow> err + unit" where
  "bad_globs gs msg = first_error (map (\<lambda>g. (bad_glob g, msg)) gs)"

definition validateGC :: "Config \<Rightarrow> err + unit" where
  "validateGC cfg = (let r = gcc_Retention (c_GC cfg) in all_pass
     (bad_globs (case rtn_PinnedGlobs r of None \<Rightarrow> [] | Some gs \<Rightarrow> gs) ''gc.retention.pinnedGlobs: invalid glob'' #
      map (\<lambda>rr. bad_globs (rr_PinnedGlobs rr) ''gc.retention.perRepo.pinnedGlobs: invalid glob'') (rtn_PerRepo r)))"

definition validateEndpoint :: "config_env \<Rightarrow> Config \<Rightarrow> err + unit" where
  "validateEndpoint e cfg = (case first_error [(c_Endpoint cfg = '''', ''endpoint is required''),
       (c_Domain cfg = '''', ''could not derive domain from endpoint'')] of
      Inl x \<Rightarrow> Inl x
    | Inr _ \<Rightarrow> (case ce_Parse e (c_Endpoint cfg) of
        None \<Rightarrow> Inl (Errorf ''invalid endpoint URL'')
      | Some u \<Rightarrow> first_error
          [(ToLower (cu_Scheme u) \<noteq> ''https'' \<and> ToLower (cu_Scheme u) \<noteq> ''http'', ''endpoint scheme must be https or http''),
           (cu_Path u \<noteq> '''' \<or> cu_RawQuery u \<noteq> '''' \<or> cu_Fragment u \<noteq> '''', ''endpoint must be scheme://host[:port] only'')]))"

definition validateStorage :: "config_env \<Rightarrow> Config \<Rightarrow> err + unit" where
  "validateStorage e cfg = (let t = st_Type (c_Storage cfg); s3 = st_S3 (c_Storage cfg) in first_error
     [(t \<notin> {''local'', ''s3''}, ''storage.type must be local or s3''),
      (t = ''s3'' \<and> s3_Bucket s3 = '''', ''storage.s3.bucket is required''),
      (t = ''s3'' \<and> s3_Region s3 = '''' \<and> s3_Endpoint s3 = '''', ''storage.s3.region is required''),
      (t = ''s3'' \<and> s3_Endpoint s3 \<noteq> '''' \<and> \<not> ce_RequestURI e (s3_Endpoint s3), ''storage.s3.endpoint is not a valid URL'')])"

definition validateDatabase :: "Config \<Rightarrow> err + unit" where
  "validateDatabase cfg = (let d = c_Database cfg in first_error
     [(db_Driver d \<notin> {''sqlite'', ''postgres''}, ''database.driver must be sqlite or postgres''),
      (db_Driver d = ''postgres'' \<and> db_DSN d = '''', ''database.dsn is required'')])"

definition validateLogging :: "Config \<Rightarrow> err + unit" where
  "validateLogging cfg = first_error
     [(c_LogLevel cfg \<notin> {''debug'', ''info'', ''warn'', ''error''}, ''logLevel''),
      (c_LogFormat cfg \<notin> {''json'', ''text''}, ''logFormat'')]"

definition validateFederation :: "Config \<Rightarrow> err + unit" where
  "validateFederation cfg = all_pass
     [first_error [(fe_AutoAccept (c_Federation cfg) \<notin> {''none'', ''mutual'', ''all''}, ''federation.autoAccept'')],
      bad_globs (fe_ExcludedRepos (c_Federation cfg)) ''federation.excludedRepos: invalid glob'']"

definition validateAccountDomain :: "Config \<Rightarrow> err + unit" where
  "validateAccountDomain cfg = first_error
     [(c_AccountDomain cfg \<noteq> c_Domain cfg \<and> (Contains_char (c_AccountDomain cfg) (CHR ''/'') \<or> Contains_char (c_AccountDomain cfg) (CHR '':'')),
       ''accountDomain must be a bare hostname'')]"

definition negative_rate :: "rate \<Rightarrow> bool" where
  "negative_rate r \<longleftrightarrow> (case r of NaN \<Rightarrow> False | Rate x \<Rightarrow> x < 0)"

definition validateRateLimits :: "config_env \<Rightarrow> Config \<Rightarrow> err + unit" where
  "validateRateLimits e cfg = (let r = c_RateLimits cfg in first_error
     ([(negative_rate (rat_InboxRate r), ''rateLimits.inboxRate''), (rat_InboxBurst r < 0, ''rateLimits.inboxBurst''),
       (negative_rate (rat_RegistryPushRate r), ''rateLimits.registryPushRate''), (rat_RegistryPushBurst r < 0, ''rateLimits.registryPushBurst'')] @
      map (\<lambda>entry. (\<not> (if Contains_char entry (CHR ''/'') then ce_CIDR e entry else ce_IP e entry), ''rateLimits.trustedIPs'')) (rat_TrustedIPs r)))"

fun validate_repos :: "string list \<Rightarrow> RepoRetention list \<Rightarrow> err + unit" where
  "validate_repos seen [] = Inr ()"
| "validate_repos seen (r # rs) = (case first_error
     [(rr_Repo r = '''', ''gc.retention.perRepo.repo is required''), (rr_Repo r \<in> set seen, ''gc.retention.perRepo: duplicate entry''),
      (rr_KeepLastN r < 0, ''gc.retention.perRepo.keepLastN''), (rr_MaxAge r < 0, ''gc.retention.perRepo.maxAge'')] of
      Inl x \<Rightarrow> Inl x
    | Inr _ \<Rightarrow> validate_repos (rr_Repo r # seen) rs)"

definition validateNonNegative :: "Config \<Rightarrow> err + unit" where
  "validateNonNegative cfg = (let l = c_Limits cfg; p = c_Peering cfg; g = c_GC cfg in all_pass [first_error
     [(li_MaxManifestSize l < 0, ''limits.maxManifestSize''), (li_MaxBlobSize l < 0, ''limits.maxBlobSize''),
      (pr_HealthCheckInterval p < 0, ''peering.healthCheckInterval''), (pr_FetchTimeout p < 0, ''peering.fetchTimeout''),
      (gcc_Interval g < 0, ''gc.interval''), (gcc_StalePeerBlobAge g < 0, ''gc.stalePeerBlobAge''),
      (gcc_OrphanBatchSize g < 0, ''gc.orphanBatchSize''), (gcc_BlobGCGracePeriod g < 0, ''gc.blobGCGracePeriod''),
      (gcc_DiskUsageThreshold g < 0 \<or> 100 < gcc_DiskUsageThreshold g, ''gc.diskUsageThreshold''),
      (gcc_DiskUsageCheckInterval g < 0, ''gc.diskUsageCheckInterval'')],
     validate_repos [] (rtn_PerRepo (gcc_Retention g))])"

definition validateNotificationEvents :: "Config \<Rightarrow> err + unit" where
  "validateNotificationEvents cfg = first_error (map (\<lambda>x.
     (x \<notin> {''peer_health'', ''follow_request'', ''replication_failure'', ''gc_error''}, ''notifications.events: unknown event''))
     (no_Events (c_Notifications cfg)))"

definition validRegistryAuthTypes :: "string set" where
  "validRegistryAuthTypes = {''none'', ''basic'', ''token''}"

text \<open>The checks a named remote registry goes through; \<open>seen\<close> are the names before it.\<close>

definition registry_checks :: "config_env \<Rightarrow> string list \<Rightarrow> string \<Rightarrow> string \<Rightarrow> string \<Rightarrow> string \<Rightarrow> string \<Rightarrow> (bool \<times> string) list" where
  "registry_checks e seen name endpoint auth username password =
     [(name = '''', ''name is required''), (endpoint = '''', ''endpoint is required''),
      (\<not> ce_RequestURI e endpoint, ''endpoint is not a valid URL''), (auth \<notin> validRegistryAuthTypes, ''auth must be none, basic, or token''),
      (auth = ''basic'' \<and> (username = '''' \<or> password = ''''), ''username and password are required for basic auth''),
      (name \<in> set seen, ''duplicate name'')]"

fun validate_targets :: "config_env \<Rightarrow> string list \<Rightarrow> ReplicationTarget list \<Rightarrow> err + unit" where
  "validate_targets e seen [] = Inr ()"
| "validate_targets e seen (t # ts) = all_pass
     [first_error (registry_checks e seen (rt_Name t) (rt_Endpoint t) (rt_Auth t) (rt_Username t) (rt_Password t)),
      bad_globs (rt_RepoGlobs t) ''replication.targets.repoGlobs: invalid glob'', validate_targets e (rt_Name t # seen) ts]"

definition validateReplication :: "config_env \<Rightarrow> Config \<Rightarrow> err + unit" where
  "validateReplication e cfg = (if \<not> rp_Enabled (c_Replication cfg) then Inr () else validate_targets e [] (rp_Targets (c_Replication cfg)))"

fun validate_registries :: "config_env \<Rightarrow> string list \<Rightarrow> UpstreamConfig list \<Rightarrow> err + unit" where
  "validate_registries e seen [] = Inr ()"
| "validate_registries e seen (u # us) = all_pass
     [first_error (registry_checks e seen (uc_Name u) (uc_Endpoint u) (uc_Auth u) (uc_Username u) (uc_Password u)),
      validate_registries e (uc_Name u # seen) us]"

definition validateUpstreams :: "config_env \<Rightarrow> Config \<Rightarrow> err + unit" where
  "validateUpstreams e cfg = (let u = c_Upstreams cfg in
     if \<not> ups_Enabled u then Inr ()
     else all_pass [validate_registries e [] (ups_Registries u), first_error [(ups_FetchTimeout u < 0, ''upstreams.fetchTimeout must not be negative'')]])"

definition validate :: "config_env \<Rightarrow> Config \<Rightarrow> err + unit" where
  "validate e cfg = all_pass [validateEndpoint e cfg, validateStorage e cfg, validateDatabase cfg, validateLogging cfg,
     validateFederation cfg, validateRateLimits e cfg, validateAccountDomain cfg, validateNonNegative cfg,
     validateNotificationEvents cfg, validateUpstreams e cfg, validateReplication e cfg, validateGC cfg]"

section \<open>Loading\<close>

definition read_config :: "config_env \<Rightarrow> string \<Rightarrow> bool \<Rightarrow> ('z sys_scheme, Config) prog" where
  "read_config e path mustExist = handle (ReadFile path) (\<lambda>r. case r of
      Inl _ \<Rightarrow> fail (Errorf ''reading config file'')
    | Inr None \<Rightarrow> if mustExist then fail (Errorf ''reading config file'') else ret zero_config
    | Inr (Some data) \<Rightarrow> (case ce_Yaml e data of None \<Rightarrow> fail (Errorf ''parsing config file'') | Some c \<Rightarrow> ret c))"

definition tls_from_env :: "config_env \<Rightarrow> Config \<Rightarrow> ('z sys_scheme, Config) prog" where
  "tls_from_env e c = bindE (gets Getenv) (\<lambda>env.
     if c_TLS c \<noteq> None \<or> (env ''APOCI_TLS_CERT'' = '''' \<and> env ''APOCI_TLS_KEY'' = '''') then ret c
     else (case ce_TLS e env of None \<Rightarrow> fail (Errorf ''parsing TLS environment variables'') | Some t \<Rightarrow> ret (c\<lparr>c_TLS := Some t\<rparr>)))"

definition Load :: "config_env \<Rightarrow> string \<Rightarrow> bool \<Rightarrow> ('z sys_scheme, Config) prog" where
  "Load e path mustExist = bindE (read_config e path mustExist) (\<lambda>c0.
     bindE (expandFileSecrets secret_names []) (\<lambda>fileSourced.
     bindE (gets Getenv) (\<lambda>env. (case ce_Env e env c0 of
         None \<Rightarrow> fail (Errorf ''parsing environment variables'')
       | Some c1 \<Rightarrow>
           bindE (foreach fileSourced Unsetenv) (\<lambda>_.
           bindE (tls_from_env e c1) (\<lambda>c2.
           bindE (applyDefaults e c2) (\<lambda>cfg.
           (case validate e cfg of Inl _ \<Rightarrow> fail (Errorf ''invalid config'') | Inr _ \<Rightarrow> ret cfg))))))))"

section \<open>What a check establishes\<close>

lemma all_pass_iff [simp]: "all_pass rs = Inr u \<longleftrightarrow> (\<forall>r \<in> set rs. r = Inr ())"
  by (induction rs rule: all_pass.induct) auto

lemma first_error_iff [simp]: "first_error cs = Inr u \<longleftrightarrow> (\<forall>(bad, msg) \<in> set cs. \<not> bad)"
  by (induction cs rule: first_error.induct) auto

declare first_error.simps [simp del] all_pass.simps [simp del]

text \<open>A glob that matches the empty name without an error does so for every name.\<close>

definition well_formed :: "string \<Rightarrow> bool" where
  "well_formed g \<longleftrightarrow> (\<forall>name. path_match g name \<noteq> None)"

lemma bad_globs_iff [simp]: "bad_globs gs msg = Inr u \<longleftrightarrow> list_all well_formed gs"
  using path_match_bad by (auto simp: bad_globs_def bad_glob_def well_formed_def list_all_iff)

definition known_auth :: "string \<Rightarrow> string \<Rightarrow> string \<Rightarrow> bool" where
  "known_auth auth username password \<longleftrightarrow> auth \<in> {''none'', ''token''} \<or> auth = ''basic'' \<and> username \<noteq> '''' \<and> password \<noteq> ''''"

lemma registry_checks_iff:
  "(\<forall>(bad, msg) \<in> set (registry_checks e seen n ep auth un pw). \<not> bad) \<longleftrightarrow>
     n \<noteq> '''' \<and> ep \<noteq> '''' \<and> ce_RequestURI e ep \<and> known_auth auth un pw \<and> n \<notin> set seen"
  by (auto simp: registry_checks_def validRegistryAuthTypes_def known_auth_def)

lemma targets_pass:
  "validate_targets e seen ts = Inr () \<Longrightarrow> distinct (map rt_Name ts) \<and> set (map rt_Name ts) \<inter> set seen = {} \<and>
     (\<forall>t \<in> set ts. known_auth (rt_Auth t) (rt_Username t) (rt_Password t) \<and> list_all well_formed (rt_RepoGlobs t))"
  by (induction e seen ts rule: validate_targets.induct) (auto simp: registry_checks_iff)

lemma registries_pass:
  "validate_registries e seen us = Inr () \<Longrightarrow> distinct (map uc_Name us) \<and> set (map uc_Name us) \<inter> set seen = {} \<and>
     (\<forall>u \<in> set us. known_auth (uc_Auth u) (uc_Username u) (uc_Password u))"
  by (induction e seen us rule: validate_registries.induct) (auto simp: registry_checks_iff)

lemma repos_pass:
  "validate_repos seen rs = Inr () \<Longrightarrow> distinct (map rr_Repo rs) \<and> set (map rr_Repo rs) \<inter> set seen = {} \<and>
     (\<forall>r \<in> set rs. 0 \<le> rr_KeepLastN r \<and> 0 \<le> rr_MaxAge r)"
  by (induction seen rs rule: validate_repos.induct) (auto split: sum.splits)

section \<open>A loaded configuration can be run\<close>

definition timers_positive :: "Config \<Rightarrow> bool" where
  "timers_positive c \<longleftrightarrow> 0 < pr_HealthCheckInterval (c_Peering c) \<and> 0 < pr_FetchTimeout (c_Peering c) \<and> 0 < gcc_Interval (c_GC c) \<and>
     0 < gcc_StalePeerBlobAge (c_GC c) \<and> 0 < gcc_OrphanBatchSize (c_GC c) \<and> 0 < gcc_BlobGCGracePeriod (c_GC c) \<and>
     0 < gcc_DiskUsageCheckInterval (c_GC c) \<and> 0 < li_MaxManifestSize (c_Limits c) \<and> 0 < li_MaxBlobSize (c_Limits c)"

definition globs_well_formed :: "Config \<Rightarrow> bool" where
  "globs_well_formed c \<longleftrightarrow> list_all well_formed (fe_ExcludedRepos (c_Federation c)) \<and>
     (\<exists>gs. rtn_PinnedGlobs (gcc_Retention (c_GC c)) = Some gs \<and> list_all well_formed gs) \<and>
     list_all (\<lambda>r. list_all well_formed (rr_PinnedGlobs r)) (rtn_PerRepo (gcc_Retention (c_GC c)))"

definition remotes_usable :: "Config \<Rightarrow> bool" where
  "remotes_usable c \<longleftrightarrow>
     (ups_Enabled (c_Upstreams c) \<longrightarrow> distinct (map uc_Name (ups_Registries (c_Upstreams c))) \<and>
        list_all (\<lambda>u. known_auth (uc_Auth u) (uc_Username u) (uc_Password u)) (ups_Registries (c_Upstreams c))) \<and>
     (rp_Enabled (c_Replication c) \<longrightarrow> distinct (map rt_Name (rp_Targets (c_Replication c))) \<and>
        list_all (\<lambda>t. known_auth (rt_Auth t) (rt_Username t) (rt_Password t) \<and> list_all well_formed (rt_RepoGlobs t)) (rp_Targets (c_Replication c)))"

definition identity_ok :: "config_env \<Rightarrow> Config \<Rightarrow> bool" where
  "identity_ok e c \<longleftrightarrow> c_Domain c \<noteq> '''' \<and> (\<exists>u. ce_Parse e (c_Endpoint c) = Some u \<and> cu_Path u = '''' \<and> cu_RawQuery u = '''' \<and> cu_Fragment u = '''') \<and>
     c_RegistryToken c \<noteq> '''' \<and> c_AdminToken c \<noteq> ''''"

lemma validate_pass:
  assumes "validate e c = Inr u"
  shows "remotes_usable c" and "\<exists>u. ce_Parse e (c_Endpoint c) = Some u \<and> cu_Path u = '''' \<and> cu_RawQuery u = '''' \<and> cu_Fragment u = ''''"
    and "c_Domain c \<noteq> ''''" and "list_all well_formed (fe_ExcludedRepos (c_Federation c))"
    and "rtn_PinnedGlobs (gcc_Retention (c_GC c)) = Some gs \<Longrightarrow> list_all well_formed gs"
    and "list_all (\<lambda>r. list_all well_formed (rr_PinnedGlobs r)) (rtn_PerRepo (gcc_Retention (c_GC c)))"
    and "validateNonNegative c = Inr ()"
proof -
  note v = assms [unfolded validate_def, simplified]
  from v have "validateUpstreams e c = Inr ()" "validateReplication e c = Inr ()" by simp_all
  then show "remotes_usable c"
    using registries_pass [of e "[]"] targets_pass [of e "[]"]
    by (auto simp: remotes_usable_def validateUpstreams_def validateReplication_def Let_def list_all_iff split: if_split_asm)
  from v have ep: "validateEndpoint e c = Inr ()" by simp
  then show "\<exists>u. ce_Parse e (c_Endpoint c) = Some u \<and> cu_Path u = '''' \<and> cu_RawQuery u = '''' \<and> cu_Fragment u = ''''" "c_Domain c \<noteq> ''''"
    by (auto simp: validateEndpoint_def split: sum.splits option.splits if_split_asm)
  from v have "validateFederation c = Inr ()" "validateGC c = Inr ()" by simp_all
  then show "list_all well_formed (fe_ExcludedRepos (c_Federation c))"
    and "rtn_PinnedGlobs (gcc_Retention (c_GC c)) = Some gs \<Longrightarrow> list_all well_formed gs"
    and "list_all (\<lambda>r. list_all well_formed (rr_PinnedGlobs r)) (rtn_PerRepo (gcc_Retention (c_GC c)))"
    by (simp_all add: validateFederation_def validateGC_def Let_def list_all_iff [of _ "rtn_PerRepo _"])
  from v show "validateNonNegative c = Inr ()" by simp
qed

lemma default_positive: "0 \<le> int_default d x \<Longrightarrow> 0 < d \<Longrightarrow> 0 < int_default d x"
  by (auto simp: or_default_def)

lemmas durations = second_def minute_def hour_def DefaultMaxManifestSize_def DefaultMaxBlobSize_def

lemma token_defaults_keep:
  assumes "applyTokenDefaults e c s = (Inr cfg, s')"
  shows "\<exists>r a g. cfg = c\<lparr>c_RegistryToken := r, c_AdminToken := a, c_GeneratedTokenPaths := g\<rparr>"
  using assms by (auto simp: applyTokenDefaults_def ret_def elim!: bindE_okE split: prod.splits)

lemma defaults_shape:
  assumes "applyDefaults e c s = (Inr cfg, s')"
  obtains c0 r a g where "cfg = (applyReplicationDefaults (applyScannerDefaults (applyBackendsDefaults (applyFederationDefaults
       (applyUpstreamDefaults (applyGCDefaults (applyRateLimitsDefaults (applyLimitsDefaults (applyPeeringDefaults c0)))))))))
     \<lparr>c_RegistryToken := r, c_AdminToken := a, c_GeneratedTokenPaths := g\<rparr>"
  using assms by (auto simp: applyDefaults_def elim!: bindE_okE dest!: token_defaults_keep)

lemmas default_defs = applyReplicationDefaults_def applyScannerDefaults_def applyBackendsDefaults_def applyFederationDefaults_def
  applyUpstreamDefaults_def applyGCDefaults_def applyRateLimitsDefaults_def applyLimitsDefaults_def applyPeeringDefaults_def

lemma defaults_positive:
  assumes "applyDefaults e c s = (Inr cfg, s')" and "validateNonNegative cfg = Inr ()"
  shows "timers_positive cfg"
proof -
  from assms(1) obtain c0 r a g where cfg: "cfg = (applyReplicationDefaults (applyScannerDefaults (applyBackendsDefaults (applyFederationDefaults
       (applyUpstreamDefaults (applyGCDefaults (applyRateLimitsDefaults (applyLimitsDefaults (applyPeeringDefaults c0)))))))))
     \<lparr>c_RegistryToken := r, c_AdminToken := a, c_GeneratedTokenPaths := g\<rparr>" by (rule defaults_shape)
  from assms(2) have "0 \<le> pr_HealthCheckInterval (c_Peering cfg) \<and> 0 \<le> pr_FetchTimeout (c_Peering cfg) \<and> 0 \<le> gcc_Interval (c_GC cfg) \<and>
     0 \<le> gcc_StalePeerBlobAge (c_GC cfg) \<and> 0 \<le> gcc_OrphanBatchSize (c_GC cfg) \<and> 0 \<le> gcc_BlobGCGracePeriod (c_GC cfg) \<and>
     0 \<le> gcc_DiskUsageCheckInterval (c_GC cfg) \<and> 0 \<le> li_MaxManifestSize (c_Limits cfg) \<and> 0 \<le> li_MaxBlobSize (c_Limits cfg)"
    by (auto simp: validateNonNegative_def Let_def)
  then show ?thesis
    unfolding timers_positive_def cfg default_defs
    by (simp add: default_positive durations)
qed

lemma defaults_pinned:
  assumes "applyDefaults e c s = (Inr cfg, s')" shows "\<exists>gs. rtn_PinnedGlobs (gcc_Retention (c_GC cfg)) = Some gs"
  using assms by (elim defaults_shape) (auto simp: default_defs or_default_def)

lemma lower_hex_visible: "n < 16 \<Longrightarrow> \<not> is_space (lower_hex n)"
  by (auto simp: lower_hex_def is_space_def Let_def)

lemma TrimSpace_hex: "TrimSpace (hex_string b @ [CHR 0x0A]) = hex_string b"
proof -
  have *: "TrimSpace (x @ [CHR 0x0A]) = x" if "list_all (\<lambda>c. \<not> is_space c) x" for x
  proof -
    have nl: "is_space (CHR 0x0A)" by (simp add: is_space_def)
    have "dropWhile is_space (x @ [CHR 0x0A]) = (if x = [] then [] else x @ [CHR 0x0A])"
      using that nl by (cases x) auto
    moreover have "dropWhile is_space (rev x) = rev x" using that by (cases "rev x") (auto simp: list_all_iff dest: arg_cong [of "rev x" _ set])
    ultimately show ?thesis using nl by (simp add: TrimSpace_def)
  qed
  have "list_all (\<lambda>c. \<not> is_space c) (hex_string b)"
    using lower_hex_visible nat_of_char_less_256 by (auto simp: hex_string_def list_all_iff less_mult_imp_div_less)
  then show ?thesis by (rule *)
qed

text \<open>A token that was generated is the one the next start reads.\<close>

lemma token_persists:
  assumes "\<And>n. length (ce_Rand e n) = 32" and "loadOrGenerateToken e path s = (Inr (t, True), s')" and "faults s' = []"
  shows "loadOrGenerateToken e path s' = (Inr (t, False), s')"
proof -
  obtain r u where r: "ReadFile path s = (r, u)" by (cases "ReadFile path s")
  have ne: "hex_string (ce_Rand e n) \<noteq> ''''" for n using assms(1) [of n] by (cases "ce_Rand e n") (auto simp: hex_string_def)
  from assms(2) r obtain n v where t: "t = hex_string (ce_Rand e n)" and w: "WriteFile path (t @ [CHR 0x0A]) v = (Inr (), s')"
    by (auto simp: loadOrGenerateToken_def handle_def ret_def Let_def elim!: bindE_okE split: list.split_asm)
  from w have "map_of (sys_files s') path = Some (t @ [CHR 0x0A])"
    by (auto simp: WriteFile_def modify_def update_conv' elim!: bindE_okE)
  then have "ReadFile path s' = (Inr (Some (t @ [CHR 0x0A])), s')"
    using assms(3) by (simp add: ReadFile_def bindE_def tick_def gets_def)
  then show ?thesis using ne t by (auto simp: loadOrGenerateToken_def handle_def TrimSpace_hex ret_def split: list.split)
qed

lemma token_nonempty:
  assumes "\<And>n. length (ce_Rand e n) = 32" and "token_default e t path g s = (Inr (t', g'), s')"
  shows "t' \<noteq> ''''"
proof (cases "t = ''''")
  case False
  with assms(2) show ?thesis by (simp add: token_default_def ret_def)
next
  case True
  with assms(2) obtain new where load: "loadOrGenerateToken e path s = (Inr (t', new), s')"
    by (auto simp: token_default_def ret_def elim!: bindE_okE split: prod.splits)
  obtain r u where r: "ReadFile path s = (r, u)" by (cases "ReadFile path s")
  have "hex_string (ce_Rand e n) \<noteq> ''''" for n using assms(1) [of n] by (cases "ce_Rand e n") (auto simp: hex_string_def)
  with load r show ?thesis
    by (auto simp: loadOrGenerateToken_def handle_def ret_def Let_def elim!: bindE_okE split: list.split_asm)
qed

text \<open>C?. A configuration that loads is one the node can run on: its identity is a bare URL with a domain,
  both tokens are set, every timer, batch and limit the loops rely on is positive, no glob can fail for any
  repository name, and the remote registries are named apart with a complete authentication.\<close>

theorem load_sound:
  assumes "\<And>n. length (ce_Rand e n) = 32" and "Load e path mustExist s = (Inr cfg, s')"
  shows "identity_ok e cfg \<and> timers_positive cfg \<and> globs_well_formed cfg \<and> remotes_usable cfg"
proof -
  from assms(2) obtain c2 t u where d: "applyDefaults e c2 t = (Inr cfg, s')" and v: "validate e cfg = Inr u"
    by (auto simp: Load_def ret_def fail_def elim!: bindE_okE split: option.split_asm sum.split_asm)
  from d obtain c3 t3 where "applyTokenDefaults e c3 t3 = (Inr cfg, s')" by (auto simp: applyDefaults_def elim!: bindE_okE)
  then have tokens: "c_RegistryToken cfg \<noteq> ''''" "c_AdminToken cfg \<noteq> ''''"
    by (auto simp: applyTokenDefaults_def ret_def elim!: bindE_okE dest!: token_nonempty [OF assms(1)])
  note p = validate_pass [OF v]
  from p(1,2,3) tokens have "identity_ok e cfg" by (simp add: identity_ok_def)
  moreover have "timers_positive cfg" by (rule defaults_positive [OF d p(7)])
  moreover have "globs_well_formed cfg"
    using defaults_pinned [OF d] p(4,6) p(5) by (auto simp: globs_well_formed_def)
  ultimately show ?thesis using p(1) by simp
qed

section \<open>Secrets\<close>

lemma expand_spec:
  "expandFileSecrets names fs s = (Inr out, s') \<Longrightarrow> \<exists>new. out = fs @ new \<and> (\<forall>n \<in> set new. Getenv s n = '''') \<and>
     (\<forall>n. n \<notin> set new \<longrightarrow> Getenv s' n = Getenv s n)"
proof (induction names arbitrary: fs s)
  case Nil
  then show ?case by (simp add: ret_def)
next
  case (Cons name names)
  show ?case
  proof (cases "Getenv s name \<noteq> '''' \<or> Getenv s (name @ ''_FILE'') = ''''")
    case True
    with Cons.prems have "expandFileSecrets names fs s = (Inr out, s')" by (simp add: bindE_def gets_def)
    from Cons.IH [OF this] show ?thesis .
  next
    case False
    from Cons.prems False obtain b t u where "ReadFile (Getenv s (name @ ''_FILE'')) s = (Inr (Some b), t)"
      and ne: "TrimSpace b \<noteq> ''''" and set: "Setenv name (TrimSpace b) t = (Inr (), u)" and rest: "expandFileSecrets names (fs @ [name]) u = (Inr out, s')"
      by (auto simp: bindE_def gets_def fail_def split: prod.splits sum.splits option.splits if_split_asm)
    then have "vars t = vars s" by (auto simp: ReadFile_def gets_def tick_def bindE_def split: list.splits prod.splits sum.splits if_split_asm)
    moreover from set have "vars u = AList.update name (TrimSpace b) (vars t)"
      by (auto simp: Setenv_def modify_def tick_def bindE_def split: list.splits prod.splits sum.splits if_split_asm)
    ultimately have u: "Getenv u n = (if n = name then TrimSpace b else Getenv s n)" for n
      by (simp add: Getenv_def update_conv')
    from Cons.IH [OF rest] obtain new where new: "out = (fs @ [name]) @ new" "\<forall>n \<in> set new. Getenv u n = ''''"
      "\<forall>n. n \<notin> set new \<longrightarrow> Getenv s' n = Getenv u n" by blast
    from new(2) u ne False show ?thesis
      by (intro exI [of _ "name # new"]) (use new u in \<open>auto split: if_split_asm\<close>)
  qed
qed

lemma unset_spec:
  "foreach names Unsetenv s = (Inr (), s') \<Longrightarrow> Getenv s' n = (if n \<in> set names then '''' else Getenv s n)"
proof (induction names arbitrary: s)
  case Nil
  then show ?case by (simp add: ret_def)
next
  case (Cons name names)
  then obtain t where t: "Unsetenv name s = (Inr (), t)" and rest: "foreach names Unsetenv t = (Inr (), s')" by (auto elim: bindE_okE)
  from t have "vars t = AList.delete name (vars s)"
    by (auto simp: Unsetenv_def modify_def tick_def bindE_def split: list.splits prod.splits sum.splits if_split_asm)
  then have "Getenv t n = (if n = name then '''' else Getenv s n)" by (simp add: Getenv_def delete_conv')
  with Cons.IH [OF rest] show ?case by auto
qed

lemma keeps_vars:
  "keeps (\<lambda>s. P (vars s)) (ReadFile p)" "keeps (\<lambda>s. P (vars s)) (WriteFile p d)" "keeps (\<lambda>s. P (vars s)) UserHomeDir"
  "keeps (\<lambda>s. P (vars s)) (expandHome p)" "keeps (\<lambda>s. P (vars s)) (loadOrGenerateToken e p)" "keeps (\<lambda>s. P (vars s)) (token_default e t p g)"
proof -
  show 1: "keeps (\<lambda>s. P (vars s)) (ReadFile p)" for p unfolding ReadFile_def by (intro keeps_intros) (simp add: keeps_def tick_def split: list.split)
  have t: "keeps (\<lambda>s. P (vars s)) tick" by (simp add: keeps_def tick_def split: list.split)
  show 2: "keeps (\<lambda>s. P (vars s)) (WriteFile p d)" for p d unfolding WriteFile_def by (intro keeps_intros t keeps_modify) simp_all
  show 3: "keeps (\<lambda>s. P (vars s)) UserHomeDir" unfolding UserHomeDir_def by (intro keeps_intros)
  show "keeps (\<lambda>s. P (vars s)) (expandHome p)" unfolding expandHome_def by (intro keeps_intros 3)
  show 5: "keeps (\<lambda>s. P (vars s)) (loadOrGenerateToken e p)" for p
    unfolding loadOrGenerateToken_def Let_def by (intro keeps_intros 1 2 t keeps_modify) simp_all
  show "keeps (\<lambda>s. P (vars s)) (token_default e t p g)" unfolding token_default_def by (intro keeps_intros 5)
qed

lemma keeps_vars_defaults: "keeps (\<lambda>s. P (vars s)) (applyDefaults e c)"
  unfolding applyDefaults_def applyServerDefaults_def applyTokenDefaults_def derive_domain_def Let_def
  by (intro keeps_intros keeps_vars)

text \<open>C?. Secrets read from files do not stay in the environment: after a load that succeeded every variable
  has the value it had before, so nothing a child process inherits was added.\<close>

theorem secrets_scrubbed:
  assumes "Load e path mustExist s = (Inr cfg, s')"
  shows "Getenv s' name = Getenv s name"
proof -
  from assms obtain c0 t0 fs t1 c1 t2 c2 t3 where read: "read_config e path mustExist s = (Inr c0, t0)"
    and expand: "expandFileSecrets secret_names [] t0 = (Inr fs, t1)" and unset: "foreach fs Unsetenv t1 = (Inr (), t2)"
    and tls: "tls_from_env e c1 t2 = (Inr c2, t3)" and defaults: "applyDefaults e c2 t3 = (Inr cfg, s')"
    by (auto simp: Load_def ret_def fail_def gets_def elim!: bindE_okE split: option.split_asm sum.split_asm)
  have "keeps (\<lambda>u. vars u = vars s) (read_config e path mustExist)"
    unfolding read_config_def by (intro keeps_intros keeps_vars)
  from keepsD [OF this refl read] have 0: "vars t0 = vars s" .
  have "keeps (\<lambda>u. vars u = vars t2) (tls_from_env e c1)" unfolding tls_from_env_def by (intro keeps_intros)
  from keepsD [OF this refl tls] have 3: "vars t3 = vars t2" .
  from keepsD [OF keeps_vars_defaults [of "\<lambda>v. v = vars t3"] refl defaults] have 4: "vars s' = vars t3" .
  from expand_spec [OF expand] obtain new where "fs = new" "\<forall>n \<in> set new. Getenv t0 n = ''''" "\<forall>n. n \<notin> set new \<longrightarrow> Getenv t1 n = Getenv t0 n" by auto
  with unset_spec [OF unset, of name] have "Getenv t2 name = Getenv t0 name" by auto
  with 0 3 4 show ?thesis by (simp add: Getenv_def)
qed

section \<open>Witnesses\<close>

text \<open>A node set up by environment variables alone, its registry token mounted as a file.\<close>

definition demo_sys :: sys where
  "demo_sys = \<lparr>faults = [], clock = 0, vars = [(''APOCI_ENDPOINT'', ''https://a.example/''), (''APOCI_REGISTRY_TOKEN_FILE'', ''/run/token'')],
     sys_files = [(''/run/token'', ''secret'' @ [CHR 0x0A])], home = Some ''/root'', entropy = 0\<rparr>"

definition demo_config_env :: config_env where
  "demo_config_env = \<lparr>ce_Yaml = (\<lambda>_. None),
     ce_Env = (\<lambda>env c. Some (c\<lparr>c_Endpoint := env ''APOCI_ENDPOINT'', c_RegistryToken := env ''APOCI_REGISTRY_TOKEN''\<rparr>)),
     ce_TLS = (\<lambda>_. None), ce_Parse = (\<lambda>u. Some \<lparr>cu_Scheme = ''https'', cu_Hostname = drop 8 u, cu_Path = '''', cu_RawQuery = '''', cu_Fragment = ''''\<rparr>),
     ce_RequestURI = (\<lambda>_. True), ce_CIDR = (\<lambda>_. True), ce_IP = (\<lambda>_. True), ce_Rand = (\<lambda>_. replicate 32 (CHR ''x''))\<rparr>"

definition demo_loaded :: "(err + Config) \<times> sys" where
  "demo_loaded = Load demo_config_env ''/etc/apoci.yaml'' False demo_sys"

lemma demo_load: "\<exists>cfg. demo_loaded = (Inr cfg, snd demo_loaded) \<and> c_RegistryToken cfg = ''secret'' \<and> c_DataDir cfg = ''/root/.apoci'' \<and>
    c_AccountDomain cfg = ''a.example''"
proof -
  have "case fst demo_loaded of Inl _ \<Rightarrow> False | Inr cfg \<Rightarrow> c_RegistryToken cfg = ''secret'' \<and> c_DataDir cfg = ''/root/.apoci'' \<and>
      c_AccountDomain cfg = ''a.example''" by code_simp
  then show ?thesis by (auto split: sum.splits simp: prod_eq_iff)
qed

lemma load_sound_witness:
  "\<exists>cfg. fst demo_loaded = Inr cfg \<and> c_RegistryToken cfg = ''secret'' \<and> identity_ok demo_config_env cfg \<and> timers_positive cfg"
proof -
  obtain cfg where c: "demo_loaded = (Inr cfg, snd demo_loaded)" "c_RegistryToken cfg = ''secret''" using demo_load by blast
  from c(1) have "Load demo_config_env ''/etc/apoci.yaml'' False demo_sys = (Inr cfg, snd demo_loaded)" by (simp add: demo_loaded_def)
  from load_sound [OF _ this] c show ?thesis by (auto simp: demo_config_env_def prod_eq_iff)
qed

lemma secrets_scrubbed_witness:
  "\<exists>cfg. fst demo_loaded = Inr cfg \<and> c_RegistryToken cfg = ''secret'' \<and> Getenv (snd demo_loaded) ''APOCI_REGISTRY_TOKEN'' = ''''"
proof -
  obtain cfg where c: "demo_loaded = (Inr cfg, snd demo_loaded)" "c_RegistryToken cfg = ''secret''" using demo_load by blast
  from c(1) have "Load demo_config_env ''/etc/apoci.yaml'' False demo_sys = (Inr cfg, snd demo_loaded)" by (simp add: demo_loaded_def)
  from secrets_scrubbed [OF this, of "''APOCI_REGISTRY_TOKEN''"] c show ?thesis
    by (auto simp: Getenv_def demo_sys_def prod_eq_iff)
qed

text \<open>Any failure to read a stored token, not only its absence, replaces it.\<close>

lemma token_replaced_on_read_error:
  "let (r, s') = loadOrGenerateToken demo_config_env ''/run/token'' (demo_sys\<lparr>faults := [True]\<rparr>) in
     r = Inr (hex_string (replicate 32 (CHR ''x'')), True) \<and> map_of (sys_files s') ''/run/token'' \<noteq> Some (''secret'' @ [CHR 0x0A])"
  by code_simp

end
